(* ===== verification/Prelude.thy ===== *)
theory Prelude
  imports Main "HOL-Library.Word" "HOL-Library.AList"
begin

text \<open>
  Shared vocabulary of the development: the machine types of the Go source, Go errors as
  values of a sum type with the binding operator the error-returning code is written with,
  big-endian byte strings, the conversion between Go strings and byte slices, decimal
  printing, and Go maps as association lists together with the scans that the
  stores perform over them.
\<close>

section \<open>Collections of facts\<close>

named_theorems res_simps \<open>evaluation of error-returning code\<close>
named_theorems wire_defs \<open>definitions of the wire encoders and decoders\<close>
named_theorems store_simps \<open>lookup after an update of a store\<close>

section \<open>Machine types\<close>

type_synonym byte = "8 word"
type_synonym bytes = "8 word list"
type_synonym u16 = "16 word"
type_synonym u32 = "32 word"
type_synonym u64 = "64 word"

text \<open>
  A Go array \<^verbatim>\<open>[32]byte\<close> (a job id, a message id, a hash) is a 256-bit word, whose
  big-endian bytes are the array.
\<close>

type_synonym hash32 = "256 word"

section \<open>Errors as values\<close>

text \<open>
  A Go error carries its text and the sentinel errors it wraps (what \<^verbatim>\<open>errors.Is\<close>
  finds). A function that returns \<^verbatim>\<open>(T, error)\<close> returns \<open>Inl\<close> the error or
  \<open>Inr\<close> the value.
\<close>

datatype goerror = GoError (error_is: "string list") (error_text: string)

type_synonym 'a res = "goerror + 'a"

definition errors_New :: "string \<Rightarrow> goerror" where
  "errors_New msg = GoError [] msg"

definition sentinel :: "string \<Rightarrow> string \<Rightarrow> goerror" where
  "sentinel name msg = GoError [name] msg"

definition errors_Is :: "goerror \<Rightarrow> string \<Rightarrow> bool" where
  "errors_Is e name \<longleftrightarrow> name \<in> set (error_is e)"

text \<open>The wrapping \<^verbatim>\<open>fmt.Errorf("<prefix>: %w", err)\<close>.\<close>

definition wrapf :: "string \<Rightarrow> goerror \<Rightarrow> goerror" where
  "wrapf prefix e = GoError (error_is e) (prefix @ '': '' @ error_text e)"

fun bindE :: "'a res \<Rightarrow> ('a \<Rightarrow> 'b res) \<Rightarrow> 'b res" where
  "bindE (Inl e) f = Inl e"
| "bindE (Inr x) f = f x"

fun mapErr :: "(goerror \<Rightarrow> goerror) \<Rightarrow> 'a res \<Rightarrow> 'a res" where
  "mapErr g (Inl e) = Inl (g e)"
| "mapErr g (Inr x) = Inr x"

text \<open>A loop that stops at the first error, as \<^verbatim>\<open>for ... { if err != nil { return err } }\<close>.\<close>

fun traverseE :: "('a \<Rightarrow> 'b res) \<Rightarrow> 'a list \<Rightarrow> 'b list res" where
  "traverseE f [] = Inr []"
| "traverseE f (x # xs) = bindE (f x) (\<lambda>y. bindE (traverseE f xs) (\<lambda>ys. Inr (y # ys)))"

fun isOk :: "'a res \<Rightarrow> bool" where
  "isOk (Inl e) = False"
| "isOk (Inr x) = True"

lemma bindE_Inr_iff [res_simps]:
  "bindE x f = Inr y \<longleftrightarrow> (\<exists>v. x = Inr v \<and> f v = Inr y)"
  by (cases x) auto

lemma mapErr_Inr_iff [res_simps]: "mapErr g x = Inr y \<longleftrightarrow> x = Inr y"
  by (cases x) auto

lemma if_Inl_Inr_iff [res_simps]:
  "(if b then Inl e else x) = Inr y \<longleftrightarrow> \<not> b \<and> x = Inr y"
  by simp

lemma bindE_Inl_iff:
  "bindE x f = Inl e \<longleftrightarrow> x = Inl e \<or> (\<exists>v. x = Inr v \<and> f v = Inl e)"
  by (cases x) auto

lemma mapErr_Inl_iff: "mapErr g x = Inl e \<longleftrightarrow> (\<exists>e'. x = Inl e' \<and> e = g e')"
  by (cases x) auto

lemma isOk_iff: "isOk x \<longleftrightarrow> (\<exists>v. x = Inr v)"
  by (cases x) auto

lemma traverseE_Inr_length: "traverseE f xs = Inr ys \<Longrightarrow> length ys = length xs"
  by (induction xs arbitrary: ys) (auto simp: res_simps)

lemma traverseE_Inr_nth:
  "traverseE f xs = Inr ys \<Longrightarrow> i < length xs \<Longrightarrow> f (xs ! i) = Inr (ys ! i)"
proof (induction xs arbitrary: ys i)
  case Nil
  then show ?case by simp
next
  case (Cons x xs)
  then obtain y ys' where "f x = Inr y" "traverseE f xs = Inr ys'" "ys = y # ys'"
    by (auto simp: res_simps)
  with Cons show ?case by (cases i) auto
qed

lemma traverseE_round_trip:
  assumes "traverseE f xs = Inr ys"
    and "\<And>x y. x \<in> set xs \<Longrightarrow> f x = Inr y \<Longrightarrow> g y = Inr x"
  shows "traverseE g ys = Inr xs"
  using assms
proof (induction xs arbitrary: ys)
  case Nil
  then show ?case by simp
next
  case (Cons x xs)
  then obtain y ys' where "f x = Inr y" "traverseE f xs = Inr ys'" "ys = y # ys'"
    by (auto simp: res_simps)
  moreover from Cons have "traverseE g ys' = Inr xs" if "traverseE f xs = Inr ys'"
    using that by (meson list.set_intros(2))
  moreover have "g y = Inr x"
    using Cons.prems(2) \<open>f x = Inr y\<close> by simp
  ultimately show ?case by simp
qed

section \<open>Big-endian byte strings\<close>

fun be_bytes :: "nat \<Rightarrow> nat \<Rightarrow> bytes" where
  "be_bytes 0 v = []"
| "be_bytes (Suc n) v = be_bytes n (v div 256) @ [word_of_nat (v mod 256)]"

definition be_nat :: "bytes \<Rightarrow> nat" where
  "be_nat bs = foldl (\<lambda>acc b. acc * 256 + unat b) 0 bs"

lemma length_be_bytes [simp]: "length (be_bytes n v) = n"
  by (induction n arbitrary: v) auto

lemma be_nat_Nil [simp]: "be_nat [] = 0"
  by (simp add: be_nat_def)

lemma be_nat_snoc [simp]: "be_nat (bs @ [b]) = be_nat bs * 256 + unat b"
  by (simp add: be_nat_def)

lemma unat_byte_less [simp]: "unat (b :: byte) < 256"
  using unsigned_less [of b, where 'a = nat] by simp

lemma unat_word_of_nat_byte [simp]: "unat (word_of_nat (v mod 256) :: byte) = v mod 256"
  by (simp add: unat_of_nat)

lemma be_nat_be_bytes: "v < 256 ^ n \<Longrightarrow> be_nat (be_bytes n v) = v"
proof (induction n arbitrary: v)
  case 0
  then show ?case by simp
next
  case (Suc n)
  then have "v div 256 < 256 ^ n"
    by (simp add: less_mult_imp_div_less mult.commute)
  with Suc.IH show ?case by simp
qed

lemma be_nat_less: "be_nat bs < 256 ^ length bs"
proof (induction bs rule: rev_induct)
  case Nil
  then show ?case by simp
next
  case (snoc b bs)
  then have "be_nat bs * 256 + 256 \<le> 256 ^ length bs * 256" by simp
  moreover have "unat b < 256" by simp
  ultimately have "be_nat bs * 256 + unat b < 256 ^ length bs * 256" by linarith
  then show ?case by (simp add: mult.commute)
qed

lemma be_bytes_be_nat: "be_bytes (length bs) (be_nat bs) = bs"
  by (induction bs rule: rev_induct) auto

lemma be_bytes_inject:
  "be_bytes n v = be_bytes n w \<Longrightarrow> v < 256 ^ n \<Longrightarrow> w < 256 ^ n \<Longrightarrow> v = w"
  using be_nat_be_bytes by metis

definition u16_bytes :: "u16 \<Rightarrow> bytes" where
  "u16_bytes v = be_bytes 2 (unat v)"

definition u32_bytes :: "u32 \<Rightarrow> bytes" where
  "u32_bytes v = be_bytes 4 (unat v)"

definition u64_bytes :: "u64 \<Rightarrow> bytes" where
  "u64_bytes v = be_bytes 8 (unat v)"

definition hash_bytes :: "hash32 \<Rightarrow> bytes" where
  "hash_bytes h = be_bytes 32 (unat h)"

definition bytes_hash :: "bytes \<Rightarrow> hash32" where
  "bytes_hash bs = word_of_nat (be_nat bs)"

definition bytes_u16 :: "bytes \<Rightarrow> u16" where
  "bytes_u16 bs = word_of_nat (be_nat bs)"

definition bytes_u32 :: "bytes \<Rightarrow> u32" where
  "bytes_u32 bs = word_of_nat (be_nat bs)"

definition bytes_u64 :: "bytes \<Rightarrow> u64" where
  "bytes_u64 bs = word_of_nat (be_nat bs)"

lemma length_word_bytes [simp]:
  "length (u16_bytes a) = 2" "length (u32_bytes b) = 4" "length (u64_bytes c) = 8"
  "length (hash_bytes h) = 32"
  by (simp_all add: u16_bytes_def u32_bytes_def u64_bytes_def hash_bytes_def)

lemma bytes_u16_u16_bytes [simp]: "bytes_u16 (u16_bytes v) = v"
  using unsigned_less [of v, where 'a = nat] by (simp add: bytes_u16_def u16_bytes_def be_nat_be_bytes)

lemma bytes_u32_u32_bytes [simp]: "bytes_u32 (u32_bytes v) = v"
  using unsigned_less [of v, where 'a = nat] by (simp add: bytes_u32_def u32_bytes_def be_nat_be_bytes)

lemma bytes_u64_u64_bytes [simp]: "bytes_u64 (u64_bytes v) = v"
  using unsigned_less [of v, where 'a = nat] by (simp add: bytes_u64_def u64_bytes_def be_nat_be_bytes)

lemma bytes_hash_hash_bytes [simp]: "bytes_hash (hash_bytes h) = h"
  using unsigned_less [of h, where 'a = nat] by (simp add: bytes_hash_def hash_bytes_def be_nat_be_bytes)

lemma hash_bytes_bytes_hash: "length bs = 32 \<Longrightarrow> hash_bytes (bytes_hash bs) = bs"
  using be_nat_less [of bs] be_bytes_be_nat [of bs]
  by (simp add: bytes_hash_def hash_bytes_def unat_of_nat)

lemma hash_bytes_inject [simp]: "hash_bytes a = hash_bytes b \<longleftrightarrow> a = b"
  by (metis bytes_hash_hash_bytes)

lemma u16_bytes_inject [simp]: "u16_bytes a = u16_bytes b \<longleftrightarrow> a = b"
  by (metis bytes_u16_u16_bytes)

section \<open>Strings\<close>

text \<open>A Go string is an immutable byte sequence; here a list of 8-bit characters.\<close>

definition byte_of_char :: "char \<Rightarrow> byte" where
  "byte_of_char c = word_of_nat (of_char c)"

definition char_of_byte :: "byte \<Rightarrow> char" where
  "char_of_byte b = char_of (unat b)"

definition string_bytes :: "string \<Rightarrow> bytes" where
  "string_bytes s = map byte_of_char s"

definition bytes_string :: "bytes \<Rightarrow> string" where
  "bytes_string bs = map char_of_byte bs"

lemma char_of_byte_of_char [simp]: "char_of_byte (byte_of_char c) = c"
  using nat_of_char_less_256 [of c]
  by (simp add: char_of_byte_def byte_of_char_def unat_of_nat)

lemma byte_of_char_of_byte [simp]: "byte_of_char (char_of_byte b) = b"
  by (simp add: char_of_byte_def byte_of_char_def of_char_of)

lemma bytes_string_string_bytes [simp]: "bytes_string (string_bytes s) = s"
  by (simp add: bytes_string_def string_bytes_def comp_def)

lemma string_bytes_bytes_string [simp]: "string_bytes (bytes_string bs) = bs"
  by (simp add: bytes_string_def string_bytes_def comp_def)

lemma length_string_bytes [simp]: "length (string_bytes s) = length s"
  by (simp add: string_bytes_def)

lemma string_bytes_eq_Nil [simp]: "string_bytes s = [] \<longleftrightarrow> s = []"
  by (simp add: string_bytes_def)

lemma bytes_string_eq_Nil [simp]: "bytes_string bs = [] \<longleftrightarrow> bs = []"
  by (simp add: bytes_string_def)

lemma string_bytes_inject [simp]: "string_bytes s = string_bytes t \<longleftrightarrow> s = t"
  by (metis bytes_string_string_bytes)

text \<open>The verb \<^verbatim>\<open>%d\<close> on unsigned values.\<close>

fun show_nat :: "nat \<Rightarrow> string" where
  "show_nat n = (if n < 10 then [char_of (48 + n)] else show_nat (n div 10) @ [char_of (48 + n mod 10)])"

declare show_nat.simps [simp del]

section \<open>Go maps as association lists\<close>

text \<open>
  A Go map is an association list with distinct keys. The order of the list is the order
  in which a \<^verbatim>\<open>range\<close> loop meets the entries; Go leaves that order open, so what is
  proved of every list holds of every order.
\<close>

definition gomap_wf :: "('k \<times> 'v) list \<Rightarrow> bool" where
  "gomap_wf m \<longleftrightarrow> distinct (map fst m)"

lemma no_pair_mem_iff [simp]: "(\<forall>a b. (a, b) \<notin> set m) \<longleftrightarrow> m = []"
  by (cases m) (auto simp: ex_in_conv)

lemma gomap_wf_Nil [simp]: "gomap_wf []"
  by (simp add: gomap_wf_def)

lemma gomap_wf_update [simp]: "gomap_wf m \<Longrightarrow> gomap_wf (AList.update k v m)"
  by (simp add: gomap_wf_def distinct_update)

lemma gomap_wf_delete [simp]: "gomap_wf m \<Longrightarrow> gomap_wf (AList.delete k m)"
  by (simp add: gomap_wf_def distinct_delete)

lemma gomap_wf_filter [simp]: "gomap_wf m \<Longrightarrow> gomap_wf (filter P m)"
  unfolding gomap_wf_def by (induction m) auto

lemma map_of_update [simp, store_simps]:
  "map_of (AList.update k v m) k' = (if k' = k then Some v else map_of m k')"
  by (simp add: update_conv')

lemma map_of_delete_if [simp, store_simps]:
  "map_of (AList.delete k m) k' = (if k' = k then None else map_of m k')"
  by (simp add: delete_conv')

lemma map_of_filter_wf:
  "gomap_wf m \<Longrightarrow>
   map_of (filter P m) k = (case map_of m k of Some v \<Rightarrow> if P (k, v) then Some v else None | None \<Rightarrow> None)"
proof (induction m)
  case Nil
  then show ?case by simp
next
  case (Cons e m)
  obtain k0 v0 where e: "e = (k0, v0)" by (cases e)
  with Cons have "map_of m k0 = None"
    by (auto simp: gomap_wf_def map_of_eq_None_iff)
  with Cons e show ?case
    by (auto simp: gomap_wf_def split: option.splits)
qed

lemma gomap_wf_mem_iff: "gomap_wf m \<Longrightarrow> (k, v) \<in> set m \<longleftrightarrow> map_of m k = Some v"
  by (simp add: gomap_wf_def map_of_eq_Some_iff)

lemma length_delete_mem:
  assumes "gomap_wf m" "map_of m k = Some v"
  shows "length (AList.delete k m) < length m"
proof -
  from assms(2) have "(k, v) \<in> set m" by (rule map_of_SomeD)
  then show ?thesis
    unfolding AList.delete_eq by (rule length_filter_less) simp
qed

lemma length_delete_exact:
  "gomap_wf m \<Longrightarrow> map_of m k = Some v \<Longrightarrow> Suc (length (AList.delete k m)) = length m"
proof (induction m)
  case Nil
  then show ?case by simp
next
  case (Cons e m)
  obtain k0 v0 where e: "e = (k0, v0)" by (cases e)
  show ?case
  proof (cases "k = k0")
    case True
    with Cons.prems e have "k \<notin> fst ` set m" by (auto simp: gomap_wf_def)
    with True e show ?thesis by simp
  next
    case False
    with Cons e show ?thesis by (auto simp: gomap_wf_def)
  qed
qed

lemma length_update:
  "length (AList.update k v m) = (if map_of m k = None then Suc (length m) else length m)"
  by (induction m) auto

text \<open>
  The scan of the stores for the entry to evict: keep the first eligible entry and replace
  it by a later one that is strictly smaller.
\<close>

fun scan_min :: "('e \<Rightarrow> bool) \<Rightarrow> ('e \<Rightarrow> 't::linorder) \<Rightarrow> 'e option \<Rightarrow> 'e list \<Rightarrow> 'e option" where
  "scan_min ok age best [] = best"
| "scan_min ok age best (e # es) =
     scan_min ok age
       (if \<not> ok e then best
        else (case best of None \<Rightarrow> Some e | Some b \<Rightarrow> if age e < age b then Some e else Some b)) es"

lemma scan_min_Some:
  assumes "scan_min ok age best es = Some e"
  shows "(e \<in> set es \<and> ok e \<or> best = Some e)
       \<and> (\<forall>e' \<in> set es. ok e' \<longrightarrow> age e \<le> age e')
       \<and> (\<forall>b. best = Some b \<longrightarrow> age e \<le> age b)"
  using assms
proof (induction es arbitrary: best)
  case Nil
  then show ?case by simp
next
  case (Cons x es)
  from Cons.IH [OF Cons.prems [simplified]] show ?case
    by (auto split: if_splits option.splits)
qed

lemma scan_min_None:
  "scan_min ok age best es = None \<longleftrightarrow> best = None \<and> (\<forall>e \<in> set es. \<not> ok e)"
  by (induction es arbitrary: best) (auto split: option.splits)

lemma scan_min_entry:
  assumes "gomap_wf m" and "scan_min (\<lambda>(k, v). ok v) (\<lambda>(k, v). age v) None m = Some (k, v)"
  shows "map_of m k = Some v \<and> ok v \<and> (\<forall>(k', v') \<in> set m. ok v' \<longrightarrow> age v \<le> age v')"
  using scan_min_Some [OF assms(2)] assms(1) by (auto simp: gomap_wf_mem_iff)

end
