(* ===== verification/Go_Std.thy ===== *)
theory Go_Std
  imports Prelude
begin

unbundle bit_operations_syntax

text \<open>
  The parts of Go's standard library that the source calls and whose results it depends
  on: \<^verbatim>\<open>crypto/sha256.Sum256\<close>, \<^verbatim>\<open>unicode/utf8.Valid\<close>, \<^verbatim>\<open>encoding/hex\<close>,
  \<^verbatim>\<open>strings.TrimSpace\<close> on ASCII white space, the ordering of strings, and
  \<^verbatim>\<open>time.Time\<close> as nanoseconds since the zero time.
\<close>

section \<open>SHA-256\<close>

definition sha_k :: "u32 list" where
  "sha_k =
    [1116352408, 1899447441, 3049323471, 3921009573, 961987163, 1508970993, 2453635748, 2870763221,
     3624381080, 310598401, 607225278, 1426881987, 1925078388, 2162078206, 2614888103, 3248222580,
     3835390401, 4022224774, 264347078, 604807628, 770255983, 1249150122, 1555081692, 1996064986,
     2554220882, 2821834349, 2952996808, 3210313671, 3336571891, 3584528711, 113926993, 338241895,
     666307205, 773529912, 1294757372, 1396182291, 1695183700, 1986661051, 2177026350, 2456956037,
     2730485921, 2820302411, 3259730800, 3345764771, 3516065817, 3600352804, 4094571909, 275423344,
     430227734, 506948616, 659060556, 883997877, 958139571, 1322822218, 1537002063, 1747873779,
     1955562222, 2024104815, 2227730452, 2361852424, 2428436474, 2756734187, 3204031479, 3329325298]"

definition sha_init :: "u32 list" where
  "sha_init =
    [1779033703, 3144134277, 1013904242, 2773480762, 1359893119, 2600822924, 528734635, 1541459225]"

text \<open>Padding: a one bit, zeros, and the length in bits as a 64-bit integer.\<close>

definition sha_pad :: "bytes \<Rightarrow> bytes" where
  "sha_pad msg = msg @ [0x80] @ replicate ((119 - length msg mod 64) mod 64) 0
     @ be_bytes 8 (8 * length msg)"

fun sha_words :: "bytes \<Rightarrow> u32 list" where
  "sha_words (a # b # c # d # rest) = bytes_u32 [a, b, c, d] # sha_words rest"
| "sha_words _ = []"

definition small_sigma0 :: "u32 \<Rightarrow> u32" where
  "small_sigma0 x = word_rotr 7 x XOR word_rotr 18 x XOR drop_bit 3 x"

definition small_sigma1 :: "u32 \<Rightarrow> u32" where
  "small_sigma1 x = word_rotr 17 x XOR word_rotr 19 x XOR drop_bit 10 x"

text \<open>The message schedule, extended word by word from the sixteen words of a block.\<close>

fun sha_schedule :: "nat \<Rightarrow> u32 list \<Rightarrow> u32 list" where
  "sha_schedule 0 w = w"
| "sha_schedule (Suc n) w =
     (let i = length w in
      sha_schedule n
        (w @ [small_sigma1 (w ! (i - 2)) + w ! (i - 7) + small_sigma0 (w ! (i - 15)) + w ! (i - 16)]))"

fun sha_round :: "u32 \<times> u32 \<Rightarrow> u32 list \<Rightarrow> u32 list" where
  "sha_round (k, w) [a, b, c, d, e, f, g, h] =
     (let s1 = word_rotr 6 e XOR word_rotr 11 e XOR word_rotr 25 e;
          ch = (e AND f) XOR (NOT e AND g);
          t1 = h + s1 + ch + k + w;
          s0 = word_rotr 2 a XOR word_rotr 13 a XOR word_rotr 22 a;
          maj = (a AND b) XOR (a AND c) XOR (b AND c)
      in [t1 + (s0 + maj), a, b, c, d + t1, e, f, g])"
| "sha_round kw st = st"

definition sha_block :: "u32 list \<Rightarrow> u32 list \<Rightarrow> u32 list" where
  "sha_block st block =
     map2 (+) st (fold sha_round (zip sha_k (sha_schedule 48 block)) st)"

function sha_blocks :: "u32 list \<Rightarrow> u32 list \<Rightarrow> u32 list" where
  "sha_blocks st ws = (if length ws < 16 then st else sha_blocks (sha_block st (take 16 ws)) (drop 16 ws))"
  by pat_completeness auto
termination by (relation "measure (\<lambda>(st, ws). length ws)") auto

declare sha_blocks.simps [simp del]

definition sha256 :: "bytes \<Rightarrow> hash32" where
  "sha256 msg = bytes_hash (concat (map u32_bytes (sha_blocks sha_init (sha_words (sha_pad msg)))))"

section \<open>UTF-8\<close>

definition utf8_in :: "nat \<Rightarrow> nat \<Rightarrow> byte \<Rightarrow> bool" where
  "utf8_in lo hi b \<longleftrightarrow> lo \<le> unat b \<and> unat b \<le> hi"

abbreviation utf8_cont :: "byte \<Rightarrow> bool" where
  "utf8_cont \<equiv> utf8_in 0x80 0xBF"

text \<open>
  The accepted byte sequences of \<^verbatim>\<open>utf8.Valid\<close>: no surrogates, no overlong forms, no
  code point above U+10FFFF.
\<close>

fun utf8_Valid :: "bytes \<Rightarrow> bool" where
  "utf8_Valid [] = True"
| "utf8_Valid (a # r) =
    (if utf8_in 0 0x7F a then utf8_Valid r
     else (case r of
       [] \<Rightarrow> False
     | b # r2 \<Rightarrow>
       if utf8_in 0xC2 0xDF a then utf8_cont b \<and> utf8_Valid r2
       else (case r2 of
         [] \<Rightarrow> False
       | c # r3 \<Rightarrow>
         if utf8_in 0xE0 0xE0 a then utf8_in 0xA0 0xBF b \<and> utf8_cont c \<and> utf8_Valid r3
         else if utf8_in 0xED 0xED a then utf8_in 0x80 0x9F b \<and> utf8_cont c \<and> utf8_Valid r3
         else if utf8_in 0xE1 0xEF a then utf8_cont b \<and> utf8_cont c \<and> utf8_Valid r3
         else (case r3 of
           [] \<Rightarrow> False
         | d # r4 \<Rightarrow>
           if utf8_in 0xF0 0xF0 a then utf8_in 0x90 0xBF b \<and> utf8_cont c \<and> utf8_cont d \<and> utf8_Valid r4
           else if utf8_in 0xF4 0xF4 a then utf8_in 0x80 0x8F b \<and> utf8_cont c \<and> utf8_cont d \<and> utf8_Valid r4
           else if utf8_in 0xF1 0xF3 a then utf8_cont b \<and> utf8_cont c \<and> utf8_cont d \<and> utf8_Valid r4
           else False))))"

definition utf8_ValidString :: "string \<Rightarrow> bool" where
  "utf8_ValidString s = utf8_Valid (string_bytes s)"

lemma utf8_Valid_ascii: "list_all (\<lambda>b. unat b \<le> 0x7F) bs \<Longrightarrow> utf8_Valid bs"
  by (induction bs) (auto simp: utf8_in_def)

section \<open>Hexadecimal text\<close>

definition hex_digit :: "nat \<Rightarrow> char" where
  "hex_digit n = (if n < 10 then char_of (48 + n) else char_of (87 + n))"

definition hex_EncodeToString :: "bytes \<Rightarrow> string" where
  "hex_EncodeToString bs = concat (map (\<lambda>b. [hex_digit (unat b div 16), hex_digit (unat b mod 16)]) bs)"

definition hex_value :: "char \<Rightarrow> nat option" where
  "hex_value c =
     (let n = of_char c in
      if 48 \<le> n \<and> n \<le> 57 then Some (n - 48)
      else if 97 \<le> n \<and> n \<le> 102 then Some (n - 87)
      else if 65 \<le> n \<and> n \<le> 70 then Some (n - 55)
      else None)"

fun hex_DecodeString :: "string \<Rightarrow> bytes res" where
  "hex_DecodeString [] = Inr []"
| "hex_DecodeString [c] =
     (case hex_value c of
        None \<Rightarrow> Inl (sentinel ''InvalidByteError'' ''encoding/hex: invalid byte'')
      | Some _ \<Rightarrow> Inl (sentinel ''ErrLength'' ''encoding/hex: odd length hex string''))"
| "hex_DecodeString (c # d # rest) =
     (case (hex_value c, hex_value d) of
        (Some x, Some y) \<Rightarrow> bindE (hex_DecodeString rest) (\<lambda>bs. Inr (word_of_nat (16 * x + y) # bs))
      | _ \<Rightarrow> Inl (sentinel ''InvalidByteError'' ''encoding/hex: invalid byte''))"

lemma hex_value_hex_digit: "n < 16 \<Longrightarrow> hex_value (hex_digit n) = Some n"
  by (auto simp: hex_value_def hex_digit_def Let_def)

lemma length_hex_EncodeToString [simp]: "length (hex_EncodeToString bs) = 2 * length bs"
  by (induction bs) (auto simp: hex_EncodeToString_def)

lemma hex_DecodeString_EncodeToString: "hex_DecodeString (hex_EncodeToString bs) = Inr bs"
proof (induction bs)
  case Nil
  then show ?case by (simp add: hex_EncodeToString_def)
next
  case (Cons b bs)
  have "unat b div 16 < 16" using unat_byte_less [of b] by linarith
  moreover have "16 * (unat b div 16) + unat b mod 16 = unat b" by simp
  ultimately show ?case
    using Cons by (simp add: hex_EncodeToString_def hex_value_hex_digit)
qed

lemma hex_EncodeToString_inject [simp]: "hex_EncodeToString a = hex_EncodeToString b \<longleftrightarrow> a = b"
  by (metis hex_DecodeString_EncodeToString sum.inject(2))

section \<open>White space and ordering\<close>

definition is_space :: "char \<Rightarrow> bool" where
  "is_space c \<longleftrightarrow> (let n = (of_char c :: nat) in n = 32 \<or> (9 \<le> n \<and> n \<le> 13))"

definition strings_TrimSpace :: "string \<Rightarrow> string" where
  "strings_TrimSpace s = rev (dropWhile is_space (rev (dropWhile is_space s)))"

definition string_less :: "string \<Rightarrow> string \<Rightarrow> bool" where
  "string_less s t = ord_class.lexordp (map of_char s :: nat list) (map of_char t)"

text \<open>
  The verb \<^verbatim>\<open>%q\<close>: quotation marks, backslashes and control characters are escaped. Bytes
  from 128 on stand for printable characters here and pass unchanged.
\<close>

definition quote_char :: "char \<Rightarrow> string" where
  "quote_char c =
     (let n = (of_char c :: nat) in
      if n = 34 then [CHR 0x5C, CHR 0x22]
      else if n = 92 then [CHR 0x5C, CHR 0x5C]
      else if n = 7 then [CHR 0x5C, CHR ''a'']
      else if n = 8 then [CHR 0x5C, CHR ''b'']
      else if n = 12 then [CHR 0x5C, CHR ''f'']
      else if n = 10 then [CHR 0x5C, CHR ''n'']
      else if n = 13 then [CHR 0x5C, CHR ''r'']
      else if n = 9 then [CHR 0x5C, CHR ''t'']
      else if n = 11 then [CHR 0x5C, CHR ''v'']
      else if n < 32 \<or> n = 127 then [CHR 0x5C, CHR ''x'', hex_digit (n div 16), hex_digit (n mod 16)]
      else [c])"

definition strconv_Quote :: "string \<Rightarrow> string" where
  "strconv_Quote s = [CHR 0x22] @ concat (map quote_char s) @ [CHR 0x22]"

section \<open>Time\<close>

text \<open>
  A \<^verbatim>\<open>time.Time\<close> is the number of nanoseconds since the zero time (January 1 of year 1,
  UTC); \<^verbatim>\<open>Unix()\<close> is the number of whole seconds since January 1, 1970.
\<close>

type_synonym gotime = int

definition time_IsZero :: "gotime \<Rightarrow> bool" where
  "time_IsZero t \<longleftrightarrow> t = 0"

definition time_Before :: "gotime \<Rightarrow> gotime \<Rightarrow> bool" where
  "time_Before a b \<longleftrightarrow> a < b"

definition time_Unix :: "gotime \<Rightarrow> int" where
  "time_Unix t = t div 1000000000 - 62135596800"

definition time_of_unix :: "int \<Rightarrow> gotime" where
  "time_of_unix sec = (sec + 62135596800) * 1000000000"

lemma time_Unix_of_unix [simp]: "time_Unix (time_of_unix s) = s"
  by (simp add: time_Unix_def time_of_unix_def)

end
