(* ===== verification/Terms_Encoding.thy ===== *)
theory Terms_Encoding
  imports Go_Std
begin

text \<open>
  The canonical byte encoders of \<^verbatim>\<open>go-lcpd/internal/protocolcompat/terms.go\<close>: bigsize
  integers, truncated integers, TLV records and the terms stream whose hash binds an
  invoice to a job. The encodings are shown to be uniquely readable, so equal terms
  streams come from equal terms.
\<close>

section \<open>Terms\<close>

text \<open>\<^verbatim>\<open>lcp.Terms\<close> of \<^verbatim>\<open>internal/domain/lcp/types.go\<close>.\<close>

record terms =
  ProtocolVersion :: u16
  JobID :: hash32
  PriceMsat :: u64
  QuoteExpiry :: u64

text \<open>\<^verbatim>\<open>TermsCommit\<close>; a nil \<^verbatim>\<open>Params\<close> slice is \<open>None\<close>.\<close>

record terms_commit =
  TaskKind :: string
  Input :: bytes
  InputContentType :: string
  InputContentEncoding :: string
  Params :: "bytes option"

abbreviation termsTLVTypeProtocolVersion :: u64 where "termsTLVTypeProtocolVersion \<equiv> 1"
abbreviation termsTLVTypeJobID :: u64 where "termsTLVTypeJobID \<equiv> 2"
abbreviation termsTLVTypePriceMsat :: u64 where "termsTLVTypePriceMsat \<equiv> 3"
abbreviation termsTLVTypeQuoteExpiry :: u64 where "termsTLVTypeQuoteExpiry \<equiv> 4"
abbreviation termsTLVTypeTaskKind :: u64 where "termsTLVTypeTaskKind \<equiv> 20"
abbreviation termsTLVTypeInputHash :: u64 where "termsTLVTypeInputHash \<equiv> 50"
abbreviation termsTLVTypeParamsHash :: u64 where "termsTLVTypeParamsHash \<equiv> 51"
abbreviation termsTLVTypeInputLen :: u64 where "termsTLVTypeInputLen \<equiv> 52"
abbreviation termsTLVTypeInputContentType :: u64 where "termsTLVTypeInputContentType \<equiv> 53"
abbreviation termsTLVTypeInputContentEncoding :: u64 where "termsTLVTypeInputContentEncoding \<equiv> 54"

section \<open>Encoders\<close>

definition encodeBigSize :: "u64 \<Rightarrow> bytes" where
  "encodeBigSize v =
     (if v \<le> 0xfc then [ucast v]
      else if v \<le> 0xffff then 0xfd # u16_bytes (ucast v)
      else if v \<le> 0xffffffff then 0xfe # u32_bytes (ucast v)
      else 0xff # u64_bytes v)"

text \<open>The loop that skips the leading zero bytes of the big-endian form is \<open>dropWhile\<close>.\<close>

definition encodeTU64 :: "u64 \<Rightarrow> bytes" where
  "encodeTU64 v = (if v = 0 then [] else dropWhile (\<lambda>b. b = 0) (u64_bytes v))"

definition encodeTLV :: "u64 \<Rightarrow> bytes \<Rightarrow> bytes" where
  "encodeTLV t v = encodeBigSize t @ encodeBigSize (word_of_nat (length v)) @ v"

definition encodeTermsTLVStream ::
  "terms \<Rightarrow> string \<Rightarrow> hash32 \<Rightarrow> hash32 \<Rightarrow> u64 \<Rightarrow> string \<Rightarrow> string \<Rightarrow> bytes" where
  "encodeTermsTLVStream terms taskKind inputHash paramsHash inputLen inputContentType inputContentEncoding =
     encodeTLV termsTLVTypeProtocolVersion (u16_bytes (ProtocolVersion terms))
     @ encodeTLV termsTLVTypeJobID (hash_bytes (JobID terms))
     @ encodeTLV termsTLVTypePriceMsat (encodeTU64 (PriceMsat terms))
     @ encodeTLV termsTLVTypeQuoteExpiry (encodeTU64 (QuoteExpiry terms))
     @ encodeTLV termsTLVTypeTaskKind (string_bytes taskKind)
     @ encodeTLV termsTLVTypeInputHash (hash_bytes inputHash)
     @ encodeTLV termsTLVTypeParamsHash (hash_bytes paramsHash)
     @ encodeTLV termsTLVTypeInputLen (encodeTU64 inputLen)
     @ encodeTLV termsTLVTypeInputContentType (string_bytes inputContentType)
     @ encodeTLV termsTLVTypeInputContentEncoding (string_bytes inputContentEncoding)"

section \<open>Truncated integers\<close>

lemma be_nat_Cons: "be_nat (b # bs) = unat b * 256 ^ length bs + be_nat bs"
  by (induction bs rule: rev_induct) (auto simp: be_nat_def algebra_simps)

lemma be_nat_dropWhile_zero: "be_nat (dropWhile (\<lambda>b. b = 0) bs) = be_nat bs"
  by (induction bs) (auto simp: be_nat_Cons)

lemma be_nat_encodeTU64: "be_nat (encodeTU64 v) = unat v"
  using unsigned_less [of v, where 'a = nat]
  by (simp add: encodeTU64_def be_nat_dropWhile_zero u64_bytes_def be_nat_be_bytes)

lemma bytes_u64_encodeTU64 [simp]: "bytes_u64 (encodeTU64 v) = v"
  by (simp add: bytes_u64_def be_nat_encodeTU64)

lemma length_encodeTU64: "length (encodeTU64 v) \<le> 8"
  using length_dropWhile_le [of "\<lambda>b. b = 0" "u64_bytes v"] by (simp add: encodeTU64_def)

lemma hd_encodeTU64: "encodeTU64 v = b # bs \<Longrightarrow> b \<noteq> 0"
  by (auto simp: encodeTU64_def dropWhile_eq_Cons_conv split: if_splits)

lemma be_bytes_append_zeros:
  assumes "v < 256 ^ m"
  shows "be_bytes (n + m) v = replicate n 0 @ be_bytes m v"
  using assms
proof (induction m arbitrary: v)
  case 0
  then have "be_bytes n 0 = replicate n (0 :: byte)"
    by (induction n) (auto simp: replicate_append_same)
  with 0 show ?case by simp
next
  case (Suc m)
  then have "v div 256 < 256 ^ m"
    by (simp add: less_mult_imp_div_less mult.commute)
  with Suc.IH show ?case by simp
qed

lemma encodeTU64_bytes_u64:
  assumes "length bs \<le> 8" and "bs \<noteq> [] \<Longrightarrow> hd bs \<noteq> 0"
  shows "encodeTU64 (bytes_u64 bs) = bs"
proof (cases bs)
  case Nil
  then show ?thesis by (simp add: encodeTU64_def bytes_u64_def)
next
  case (Cons b r)
  have lt: "be_nat bs < 256 ^ length bs" by (rule be_nat_less)
  also have "\<dots> \<le> 256 ^ 8" using assms(1) by (intro power_increasing) auto
  finally have u: "unat (bytes_u64 bs) = be_nat bs"
    by (simp add: bytes_u64_def unat_of_nat)
  have "b \<noteq> 0" using assms(2) Cons by simp
  then have "0 < unat b" using unat_gt_0 by blast
  then have "0 < be_nat bs" using Cons by (simp add: be_nat_Cons)
  then have nz: "bytes_u64 bs \<noteq> 0" using u by (metis less_irrefl unat_0)
  have "u64_bytes (bytes_u64 bs) = be_bytes ((8 - length bs) + length bs) (be_nat bs)"
    using assms(1) by (simp add: u64_bytes_def u)
  also have "\<dots> = replicate (8 - length bs) 0 @ be_bytes (length bs) (be_nat bs)"
    using lt by (rule be_bytes_append_zeros)
  finally have "u64_bytes (bytes_u64 bs) = replicate (8 - length bs) 0 @ bs"
    by (simp add: be_bytes_be_nat)
  with nz Cons \<open>b \<noteq> 0\<close> show ?thesis
    by (simp add: encodeTU64_def dropWhile_append)
qed

lemma encodeTU64_inject [simp]: "encodeTU64 v = encodeTU64 w \<longleftrightarrow> v = w"
  by (metis bytes_u64_encodeTU64)

section \<open>Bigsize integers\<close>

lemma u64_le_unat: "(v :: u64) \<le> w \<longleftrightarrow> unat v \<le> unat w"
  by (simp add: word_le_nat_alt)

lemma be_nat_u16_bytes [simp]: "be_nat (u16_bytes v) = unat v"
  using unsigned_less [of v, where 'a = nat] by (simp add: u16_bytes_def be_nat_be_bytes)

lemma be_nat_u32_bytes [simp]: "be_nat (u32_bytes v) = unat v"
  using unsigned_less [of v, where 'a = nat] by (simp add: u32_bytes_def be_nat_be_bytes)

lemma be_nat_u64_bytes [simp]: "be_nat (u64_bytes v) = unat v"
  using unsigned_less [of v, where 'a = nat] by (simp add: u64_bytes_def be_nat_be_bytes)

lemma unat_ucast_small:
  "unat (v :: u64) < 2 ^ LENGTH('a) \<Longrightarrow> unat (ucast v :: 'a :: len word) = unat v"
  by (simp add: unsigned_ucast_eq take_bit_nat_eq_self)

text \<open>Each form of a bigsize integer, with the value it holds.\<close>

lemma encodeBigSize_cases:
  obtains (small) "unat v \<le> 252" "encodeBigSize v = [ucast v]" "unat (ucast v :: byte) = unat v"
  | (mid) b where "252 < unat v" "unat v \<le> 65535" "encodeBigSize v = 0xfd # b" "length b = 2" "be_nat b = unat v"
  | (big) b where "65535 < unat v" "unat v \<le> 4294967295" "encodeBigSize v = 0xfe # b" "length b = 4" "be_nat b = unat v"
  | (huge) b where "4294967295 < unat v" "encodeBigSize v = 0xff # b" "length b = 8" "be_nat b = unat v"
proof -
  consider "unat v \<le> 252" | "252 < unat v" "unat v \<le> 65535"
    | "65535 < unat v" "unat v \<le> 4294967295" | "4294967295 < unat v"
    by linarith
  then show thesis
  proof cases
    case 1
    then have "encodeBigSize v = [ucast v]" by (simp add: encodeBigSize_def u64_le_unat)
    with 1 show ?thesis by (intro small) (auto simp: unat_ucast_small)
  next
    case 2
    then have "encodeBigSize v = 0xfd # u16_bytes (ucast v)"
      by (simp add: encodeBigSize_def u64_le_unat)
    with 2 show ?thesis by (intro mid) (auto simp: unat_ucast_small)
  next
    case 3
    then have "encodeBigSize v = 0xfe # u32_bytes (ucast v)"
      by (simp add: encodeBigSize_def u64_le_unat)
    with 3 show ?thesis by (intro big) (auto simp: unat_ucast_small)
  next
    case 4
    then have "encodeBigSize v = 0xff # u64_bytes v"
      by (simp add: encodeBigSize_def u64_le_unat)
    with 4 show ?thesis by (intro huge) auto
  qed
qed

lemma encodeBigSize_nonempty [simp]: "encodeBigSize v \<noteq> []"
  by (simp add: encodeBigSize_def)

lemma length_encodeBigSize_bounds: "1 \<le> length (encodeBigSize v) \<and> length (encodeBigSize v) \<le> 9"
  by (rule encodeBigSize_cases [of v]) auto

section \<open>A reader of bigsize integers\<close>

text \<open>
  The inverse of \<^const>\<open>encodeBigSize\<close> as BOLT 1 defines it: \<open>None\<close> on a short or a
  non-minimal input.
\<close>

definition readBigSize :: "bytes \<Rightarrow> (u64 \<times> bytes) option" where
  "readBigSize bs =
     (case bs of
        [] \<Rightarrow> None
      | d # r \<Rightarrow>
          if unat d \<le> 252 then Some (word_of_nat (unat d), r)
          else let n = (if unat d = 253 then 2 else if unat d = 254 then 4 else 8 :: nat);
                   lo = (if unat d = 253 then 253 else if unat d = 254 then 65536 else 4294967296 :: nat);
                   v = be_nat (take n r)
               in if length r < n then None
                  else if v < lo then None
                  else Some (word_of_nat v, drop n r))"

lemma readBigSize_encodeBigSize: "readBigSize (encodeBigSize v @ r) = Some (v, r)"
proof (cases rule: encodeBigSize_cases [of v])
  case small
  then show ?thesis by (simp add: readBigSize_def)
next
  case (mid b)
  then show ?thesis by (simp add: readBigSize_def Let_def)
next
  case (big b)
  then show ?thesis by (simp add: readBigSize_def Let_def)
next
  case (huge b)
  then show ?thesis by (simp add: readBigSize_def Let_def)
qed

lemma encodeBigSize_append_inject:
  "encodeBigSize v @ r = encodeBigSize w @ s \<longleftrightarrow> v = w \<and> r = s"
  by (metis option.inject prod.inject readBigSize_encodeBigSize)

lemma be_bytes_take:
  "n \<le> length r \<Longrightarrow> be_bytes n (be_nat (take n r)) = take n r"
  using be_bytes_be_nat [of "take n r"] by simp

lemma unat_word_of_nat_u64: "n < 2 ^ 64 \<Longrightarrow> unat (word_of_nat n :: u64) = n"
  by (simp add: unat_of_nat)

lemma readBigSize_sound:
  assumes "readBigSize bs = Some (v, r)"
  shows "bs = encodeBigSize v @ r"
proof -
  from assms obtain d t where bs: "bs = d # t"
    by (auto simp: readBigSize_def split: list.splits)
  show ?thesis
  proof (cases "unat d \<le> 252")
    case True
    with assms bs have v: "v = word_of_nat (unat d)" "r = t" by (auto simp: readBigSize_def)
    with True have "unat v = unat d" by (simp add: unsigned_ucast_eq take_bit_nat_eq_self)
    then have e: "encodeBigSize v = [ucast v]"
      using True by (simp add: encodeBigSize_def u64_le_unat)
    have "unat (ucast v :: byte) = unat d"
      using \<open>unat v = unat d\<close> unat_byte_less [of d] by (simp add: unat_ucast_small)
    then have "ucast v = d" by (simp only: word_unat_eq_iff)
    with e v(2) bs show ?thesis by simp
  next
    case False
    define n :: nat where "n = (if unat d = 253 then 2 else if unat d = 254 then 4 else 8)"
    define lo :: nat where "lo = (if unat d = 253 then 253 else if unat d = 254 then 65536 else 4294967296)"
    from assms bs False have len: "n \<le> length t" and ge: "lo \<le> be_nat (take n t)"
      and v: "v = word_of_nat (be_nat (take n t))" and r: "r = drop n t"
      by (auto simp: readBigSize_def Let_def n_def lo_def split: if_splits)
    have lt: "be_nat (take n t) < 256 ^ n" using be_nat_less [of "take n t"] len by simp
    also have "(256 :: nat) ^ n \<le> 256 ^ 8" unfolding n_def by (intro power_increasing) auto
    finally have u: "unat v = be_nat (take n t)" by (simp add: v unat_of_nat)
    have tk: "be_bytes n (unat v) = take n t" using len by (simp add: u be_bytes_take)
    have dd: "d = word_of_nat (unat d)" by simp
    consider "unat d = 253" | "unat d = 254" | "unat d = 255"
      using False unat_byte_less [of d] by linarith
    then have "encodeBigSize v = d # take n t"
    proof cases
      case 1
      with ge lt u have "unat v \<le> 65535" "252 < unat v" by (simp_all add: n_def lo_def)
      then show ?thesis using tk 1 dd
        by (simp add: encodeBigSize_def u64_le_unat u16_bytes_def unat_ucast_small n_def)
    next
      case 2
      with ge lt u have "unat v \<le> 4294967295" "65535 < unat v" by (simp_all add: n_def lo_def)
      then show ?thesis using tk 2 dd
        by (simp add: encodeBigSize_def u64_le_unat u32_bytes_def unat_ucast_small n_def)
    next
      case 3
      with ge u have "4294967295 < unat v" by (simp add: lo_def)
      then show ?thesis using tk 3 dd
        by (simp add: encodeBigSize_def u64_le_unat u64_bytes_def n_def)
    qed
    with bs r show ?thesis by simp
  qed
qed

section \<open>Unique readability of records and of the terms stream\<close>

lemma encodeTLV_append_inject:
  assumes "encodeTLV t v @ r = encodeTLV t' v' @ r'"
    and "length v < 2 ^ 64" and "length v' < 2 ^ 64"
  shows "t = t' \<and> v = v' \<and> r = r'"
proof -
  from assms(1) have t: "t = t'"
    and "encodeBigSize (word_of_nat (length v)) @ v @ r = encodeBigSize (word_of_nat (length v')) @ v' @ r'"
    by (simp_all add: encodeTLV_def encodeBigSize_append_inject)
  then have "(word_of_nat (length v) :: u64) = word_of_nat (length v')" and vr: "v @ r = v' @ r'"
    by (simp_all add: encodeBigSize_append_inject)
  then have "length v = length v'"
    using assms(2,3) by (metis unat_word_of_nat_u64)
  with t vr show ?thesis by simp
qed

lemma encodeTLV_append_inject_iff:
  assumes "length v < 2 ^ 64" and "length v' < 2 ^ 64"
  shows "encodeTLV t v @ r = encodeTLV t' v' @ r' \<longleftrightarrow> t = t' \<and> v = v' \<and> r = r'"
  using encodeTLV_append_inject [OF _ assms] by blast

lemma encodeTLV_inject_iff:
  assumes "length v < 2 ^ 64" and "length v' < 2 ^ 64"
  shows "encodeTLV t v = encodeTLV t' v' \<longleftrightarrow> t = t' \<and> v = v'"
  using encodeTLV_append_inject_iff [OF assms, of t "[]" t' "[]"] by simp

lemma length_encodeTU64_less [simp]: "length (encodeTU64 v) < 18446744073709551616"
  using length_encodeTU64 [of v] by (rule le_less_trans) simp

lemma encodeTermsTLVStream_inject_lemma:
  assumes "encodeTermsTLVStream t k ih ph n ct ce = encodeTermsTLVStream t' k' ih' ph' n' ct' ce'"
    and "length k < 2 ^ 64" "length ct < 2 ^ 64" "length ce < 2 ^ 64"
    and "length k' < 2 ^ 64" "length ct' < 2 ^ 64" "length ce' < 2 ^ 64"
  shows "t = t' \<and> k = k' \<and> ih = ih' \<and> ph = ph' \<and> n = n' \<and> ct = ct' \<and> ce = ce'"
  using assms unfolding encodeTermsTLVStream_def
  by (simp add: encodeTLV_append_inject_iff encodeTLV_inject_iff terms.equality)

end
