(* ===== verification/Tlv_Library.thy ===== *)
theory Tlv_Library
  imports Terms_Encoding
begin

text \<open>
  The interface of the third-party package \<^verbatim>\<open>github.com/lightningnetwork/lnd/tlv\<close>, which
  the wire code calls and the repository does not contain. A value of \<open>tlv_lib\<close> holds
  the operations; the definitions of the wire code take it as an argument. The locale
  \<open>tlv_library\<close> states what the package documents (BOLT 1 TLV streams, records in
  strictly ascending order, values of at most 65535 bytes from a peer, minimal integers).
  The record and integer encodings are those of \<^verbatim>\<open>protocolcompat/terms.go\<close>, and a stream
  codec built on them interprets the locale.
\<close>

section \<open>Operations\<close>

datatype tlv_field =
    FUint16 u16
  | FBytes32 hash32
  | FVarBytes bytes
  | FTUint32 u32
  | FTUint64 u64

type_synonym tlv_record = "u64 \<times> tlv_field"

text \<open>The parsed types of a stream are a Go map, in whatever order a loop meets its entries.\<close>

type_synonym tlv_map = "(u64 \<times> bytes) list"

fun field_bytes :: "tlv_field \<Rightarrow> bytes" where
  "field_bytes (FUint16 v) = u16_bytes v"
| "field_bytes (FBytes32 h) = hash_bytes h"
| "field_bytes (FVarBytes b) = b"
| "field_bytes (FTUint32 v) = encodeTU64 (ucast v)"
| "field_bytes (FTUint64 v) = encodeTU64 v"

definition raw_record :: "tlv_record \<Rightarrow> u64 \<times> bytes" where
  "raw_record r = (fst r, field_bytes (snd r))"

definition raw_stream :: "(u64 \<times> bytes) list \<Rightarrow> bytes" where
  "raw_stream kvs = concat (map (\<lambda>(t, v). encodeTLV t v) kvs)"

definition ascending :: "(u64 \<times> 'a) list \<Rightarrow> bool" where
  "ascending kvs \<longleftrightarrow> sorted_wrt (<) (map fst kvs)"

abbreviation MaxRecordSize :: nat where "MaxRecordSize \<equiv> 65535"

record tlv_lib =
  tlv_NewStream :: "tlv_record list \<Rightarrow> goerror option"
  tlv_Encode :: "tlv_record list \<Rightarrow> bytes res"
  tlv_DecodeP2P :: "bytes \<Rightarrow> tlv_map res"
  tlv_DTUint32 :: "bytes \<Rightarrow> u32 res"
  tlv_DTUint64 :: "bytes \<Rightarrow> u64 res"
  tlv_WriteVarInt :: "u64 \<Rightarrow> bytes res"
  tlv_ReadVarInt :: "bytes \<Rightarrow> (u64 \<times> bytes) res"

section \<open>Documented behaviour\<close>

locale tlv_library =
  fixes L :: tlv_lib
  assumes new_stream: "ascending recs \<Longrightarrow> tlv_NewStream L recs = None"
    and encode: "ascending recs \<Longrightarrow> tlv_Encode L recs = Inr (raw_stream (map raw_record recs))"
    and decode_complete:
      "ascending kvs \<Longrightarrow> \<forall>(t, v) \<in> set kvs. length v \<le> MaxRecordSize \<Longrightarrow>
       \<exists>m. tlv_DecodeP2P L (raw_stream kvs) = Inr m \<and> gomap_wf m \<and> map_of m = map_of kvs"
    and decode_sound:
      "tlv_DecodeP2P L b = Inr m \<Longrightarrow>
       gomap_wf m
       \<and> (\<exists>kvs. ascending kvs \<and> (\<forall>(t, v) \<in> set kvs. length v \<le> MaxRecordSize)
           \<and> map_of m = map_of kvs \<and> b = raw_stream kvs)"
    and dtuint32_complete: "tlv_DTUint32 L (encodeTU64 (ucast v)) = Inr v"
    and dtuint64_complete: "tlv_DTUint64 L (encodeTU64 w) = Inr w"
    and dtuint64_sound: "tlv_DTUint64 L b = Inr w \<Longrightarrow> b = encodeTU64 w"
    and write_varint: "tlv_WriteVarInt L w = Inr (encodeBigSize w)"
    and read_varint_complete: "tlv_ReadVarInt L (encodeBigSize w @ r) = Inr (w, r)"
    and read_varint_sound: "tlv_ReadVarInt L b = Inr (w, r) \<Longrightarrow> b = encodeBigSize w @ r"
begin

text \<open>The facts the message codecs use, for a payload that fits a custom message.\<close>

lemma value_length_le:
  assumes "(t, v) \<in> set kvs"
  shows "length v \<le> length (raw_stream kvs)"
  using assms by (induction kvs) (auto simp: raw_stream_def encodeTLV_def)

lemma stream_round_trip:
  assumes "ascending recs" and "tlv_Encode L recs = Inr b" and "length b \<le> MaxRecordSize"
  shows "\<exists>m. tlv_DecodeP2P L b = Inr m \<and> gomap_wf m \<and> map_of m = map_of (map raw_record recs)"
proof -
  let ?kvs = "map raw_record recs"
  from assms have b: "b = raw_stream ?kvs" by (simp add: encode)
  have "ascending ?kvs" using assms(1) by (simp add: ascending_def raw_record_def comp_def)
  moreover have "\<forall>(t, v) \<in> set ?kvs. length v \<le> MaxRecordSize"
    using assms(3) value_length_le b by fastforce
  ultimately show ?thesis unfolding b by (rule decode_complete)
qed

lemma decode_empty: "tlv_DecodeP2P L [] = Inr []"
  using decode_complete [of "[]"]
  by (simp add: ascending_def raw_stream_def)

end

section \<open>A stream codec on the encoders of the repository\<close>

lemma readBigSize_shorter: "readBigSize bs = Some (v, r) \<Longrightarrow> length r < length bs"
  using readBigSize_sound [of bs v r] length_encodeBigSize_bounds [of v] by auto

text \<open>
  Read records until the input ends; each type must exceed the one before it, and each
  value must be present and within the limit.
\<close>

function bolt_records :: "u64 option \<Rightarrow> bytes \<Rightarrow> (u64 \<times> bytes) list option" where
  "bolt_records prev bs =
     (if bs = [] then Some []
      else (case readBigSize bs of
        None \<Rightarrow> None
      | Some (t, r) \<Rightarrow>
          if (case prev of None \<Rightarrow> False | Some p \<Rightarrow> t \<le> p) then None
          else (case readBigSize r of
            None \<Rightarrow> None
          | Some (n, r2) \<Rightarrow>
              if MaxRecordSize < unat n then None
              else if length r2 < unat n then None
              else map_option (\<lambda>kvs. (t, take (unat n) r2) # kvs)
                     (bolt_records (Some t) (drop (unat n) r2)))))"
  by pat_completeness auto
termination
  by (relation "measure (\<lambda>(prev, bs). length bs)")
     (auto dest!: readBigSize_shorter)

declare bolt_records.simps [simp del]

definition bolt_DecodeP2P :: "bytes \<Rightarrow> tlv_map res" where
  "bolt_DecodeP2P b =
     (case bolt_records None b of
        None \<Rightarrow> Inl (errors_New ''tlv stream is not canonical'')
      | Some kvs \<Rightarrow> Inr kvs)"

definition bolt_DTUint :: "nat \<Rightarrow> bytes \<Rightarrow> u64 res" where
  "bolt_DTUint n b =
     (if n < length b then Inl (errors_New ''unexpected length'')
      else if b \<noteq> [] \<and> hd b = 0 then Inl (errors_New ''truncated uint not minimally encoded'')
      else Inr (bytes_u64 b))"

definition bolt_lib :: tlv_lib where
  "bolt_lib = \<lparr>
     tlv_NewStream = (\<lambda>recs. if ascending recs then None else Some (errors_New ''tlv stream is not canonical'')),
     tlv_Encode = (\<lambda>recs. Inr (raw_stream (map raw_record recs))),
     tlv_DecodeP2P = bolt_DecodeP2P,
     tlv_DTUint32 = (\<lambda>b. bindE (bolt_DTUint 4 b) (\<lambda>v. Inr (ucast v))),
     tlv_DTUint64 = bolt_DTUint 8,
     tlv_WriteVarInt = (\<lambda>v. Inr (encodeBigSize v)),
     tlv_ReadVarInt = (\<lambda>b. case readBigSize b of
        None \<Rightarrow> Inl (errors_New ''decoded varint is not canonical'') | Some p \<Rightarrow> Inr p) \<rparr>"

lemma ascending_Cons:
  "ascending ((t, v) # kvs) \<longleftrightarrow> (\<forall>(t', v') \<in> set kvs. t < t') \<and> ascending kvs"
  by (auto simp: ascending_def)

lemma ascending_gomap_wf: "ascending kvs \<Longrightarrow> gomap_wf kvs"
  by (simp add: ascending_def gomap_wf_def strict_sorted_iff)

lemma bolt_records_complete:
  assumes "ascending kvs" and "\<forall>(t, v) \<in> set kvs. length v \<le> MaxRecordSize"
    and "\<forall>p. prev = Some p \<longrightarrow> (\<forall>(t, v) \<in> set kvs. p < t)"
  shows "bolt_records prev (raw_stream kvs) = Some kvs"
  using assms
proof (induction kvs arbitrary: prev)
  case Nil
  then show ?case by (simp add: raw_stream_def bolt_records.simps)
next
  case (Cons kv kvs)
  obtain t v where kv: "kv = (t, v)" by (cases kv)
  have len: "length v \<le> MaxRecordSize" using Cons.prems(2) kv by auto
  then have n: "unat (word_of_nat (length v) :: u64) = length v" by (simp add: unat_of_nat)
  have rest: "bolt_records (Some t) (raw_stream kvs) = Some kvs"
    using Cons kv by (intro Cons.IH) (auto simp: ascending_Cons)
  have ne: "\<not> (case prev of None \<Rightarrow> False | Some p \<Rightarrow> t \<le> p)"
    using Cons.prems(3) kv by (auto split: option.splits)
  have b: "raw_stream (kv # kvs)
      = encodeBigSize t @ encodeBigSize (word_of_nat (length v)) @ v @ raw_stream kvs"
    by (simp add: raw_stream_def kv encodeTLV_def)
  show ?case
    unfolding b bolt_records.simps [of prev "encodeBigSize t @ _"]
    using ne len n rest kv by (simp add: readBigSize_encodeBigSize)
qed

lemma bolt_records_sound:
  assumes "bolt_records prev bs = Some kvs"
  shows "ascending kvs \<and> (\<forall>(t, v) \<in> set kvs. length v \<le> MaxRecordSize) \<and> bs = raw_stream kvs
       \<and> (\<forall>p. prev = Some p \<longrightarrow> (\<forall>(t, v) \<in> set kvs. p < t))"
  using assms
proof (induction prev bs arbitrary: kvs rule: bolt_records.induct)
  case (1 prev bs)
  show ?case
  proof (cases "bs = []")
    case True
    with 1(2) show ?thesis by (auto simp: bolt_records.simps ascending_def raw_stream_def)
  next
    case False
    with 1(2) obtain t r n r2 kvs' where
      t: "readBigSize bs = Some (t, r)" and n: "readBigSize r = Some (n, r2)"
      and gt: "\<not> (case prev of None \<Rightarrow> False | Some p \<Rightarrow> t \<le> p)"
      and small: "\<not> MaxRecordSize < unat n" and enough: "\<not> length r2 < unat n"
      and rec: "bolt_records (Some t) (drop (unat n) r2) = Some kvs'"
      and kvs: "kvs = (t, take (unat n) r2) # kvs'"
      by (auto simp: bolt_records.simps [of prev bs] split: option.splits prod.splits if_splits)
    note IH = 1(1) [OF False t refl gt n refl small enough rec]
    have "unat n = length (take (unat n) r2)" using enough by simp
    then have "bs = raw_stream kvs"
      using readBigSize_sound [OF t] readBigSize_sound [OF n] IH
      by (simp add: kvs raw_stream_def encodeTLV_def min_def) (metis append_take_drop_id word_of_nat_eq_iff)
    moreover have "p < t" if "prev = Some p" for p using gt that by simp
    ultimately show ?thesis
      using IH small enough by (auto simp: kvs ascending_Cons dest: less_trans)
  qed
qed

lemma bolt_DTUint_complete: "length (encodeTU64 v) \<le> n \<Longrightarrow> bolt_DTUint n (encodeTU64 v) = Inr v"
  using hd_encodeTU64 [of v] bytes_u64_encodeTU64 [of v]
  by (cases "encodeTU64 v") (auto simp: bolt_DTUint_def)

lemma bolt_DTUint_sound: "bolt_DTUint n b = Inr v \<Longrightarrow> n \<le> 8 \<Longrightarrow> b = encodeTU64 v"
  using encodeTU64_bytes_u64 [of b] by (auto simp: bolt_DTUint_def split: if_splits)

lemma length_encodeTU64_u32: "length (encodeTU64 (ucast (v :: u32))) \<le> 4"
proof -
  have "unat (ucast v :: u64) < 256 ^ 4"
    using unsigned_less [of v, where 'a = nat] by (simp add: unsigned_ucast_eq take_bit_nat_eq_self)
  then have "u64_bytes (ucast v) = replicate 4 0 @ be_bytes 4 (unat (ucast v :: u64))"
    using be_bytes_append_zeros [of "unat (ucast v :: u64)" 4 4] by (simp add: u64_bytes_def)
  moreover have "dropWhile (\<lambda>b. b = 0) (replicate 4 (0 :: byte) @ xs) = dropWhile (\<lambda>b. b = 0) xs" for xs
    by (simp add: dropWhile_append)
  ultimately show ?thesis
    using length_dropWhile_le [of "\<lambda>b. b = 0" "be_bytes 4 (unat (ucast v :: u64))"]
    by (simp add: encodeTU64_def)
qed

lemma ucast_u32_u64_u32: "ucast (ucast (v :: u32) :: u64) = v"
  using unsigned_less [of v, where 'a = nat]
  by (simp only: word_unat_eq_iff unsigned_ucast_eq) (simp add: take_bit_nat_eq_self take_bit_word_eq_self)

interpretation bolt: tlv_library bolt_lib
proof (unfold_locales, goal_cases)
  case (1 recs)
  then show ?case by (simp add: bolt_lib_def)
next
  case (2 recs)
  then show ?case by (simp add: bolt_lib_def)
next
  case (3 kvs)
  then show ?case
    by (simp add: bolt_lib_def bolt_DecodeP2P_def bolt_records_complete ascending_gomap_wf)
next
  case (4 b m)
  then show ?case
    by (auto simp: bolt_lib_def bolt_DecodeP2P_def ascending_gomap_wf
        split: option.splits dest!: bolt_records_sound)
next
  case (5 v)
  show ?case
    by (simp add: bolt_lib_def bolt_DTUint_complete length_encodeTU64_u32 ucast_u32_u64_u32)
next
  case (6 w)
  show ?case by (simp add: bolt_lib_def bolt_DTUint_complete length_encodeTU64)
next
  case (7 b w)
  then show ?case by (simp add: bolt_lib_def bolt_DTUint_sound)
next
  case (8 w)
  show ?case by (simp add: bolt_lib_def)
next
  case (9 w r)
  show ?case by (simp add: bolt_lib_def readBigSize_encodeBigSize)
next
  case (10 b w r)
  then show ?case by (auto simp: bolt_lib_def split: option.splits dest: readBigSize_sound)
qed

end
