(* ===== verification/Terms.thy ===== *)
theory Terms
  imports Tlv_Library
begin

text \<open>
  \<^verbatim>\<open>canonicalizeTLVStream\<close> and \<^verbatim>\<open>ComputeTermsHash\<close> of
  \<^verbatim>\<open>go-lcpd/internal/protocolcompat/terms.go\<close>. The lemmas show that the canonical form of
  an accepted parameter stream is the stream itself and that the terms hash commits to
  every term of the quote, up to a collision of SHA-256.
\<close>

section \<open>Operations\<close>

definition canonicalizeTLVStream :: "tlv_lib \<Rightarrow> bytes \<Rightarrow> bytes res" where
  "canonicalizeTLVStream L payload =
     (case tlv_NewStream L [] of
        Some err \<Rightarrow> Inl (wrapf ''new empty tlv stream'' err)
      | None \<Rightarrow>
          bindE (mapErr (wrapf ''decode tlv stream'') (tlv_DecodeP2P L payload)) (\<lambda>parsed.
          Inr (concat (map (\<lambda>typ. encodeTLV typ (case map_of parsed typ of None \<Rightarrow> [] | Some v \<Rightarrow> v))
                 (sort (map fst parsed))))))"

definition ComputeTermsHash :: "tlv_lib \<Rightarrow> terms \<Rightarrow> terms_commit \<Rightarrow> hash32 res" where
  "ComputeTermsHash L terms commit =
     (if TaskKind commit = [] then Inl (errors_New ''task_kind is required for terms_hash'')
      else if \<not> utf8_ValidString (TaskKind commit)
        then Inl (errors_New ''task_kind must be valid UTF-8 for terms_hash'')
      else if InputContentType commit = []
        then Inl (errors_New ''input_content_type is required for terms_hash'')
      else if \<not> utf8_ValidString (InputContentType commit)
        then Inl (errors_New ''input_content_type must be valid UTF-8 for terms_hash'')
      else if InputContentEncoding commit = []
        then Inl (errors_New ''input_content_encoding is required for terms_hash'')
      else if \<not> utf8_ValidString (InputContentEncoding commit)
        then Inl (errors_New ''input_content_encoding must be valid UTF-8 for terms_hash'')
      else
        bindE (case Params commit of
                 None \<Rightarrow> Inr []
               | Some p \<Rightarrow> mapErr (wrapf ''canonicalize params tlv'') (canonicalizeTLVStream L p))
          (\<lambda>paramsCanonical.
        Inr (sha256 (encodeTermsTLVStream terms (TaskKind commit) (sha256 (Input commit))
               (sha256 paramsCanonical) (word_of_nat (length (Input commit)))
               (InputContentType commit) (InputContentEncoding commit)))))"

section \<open>Canonical parameters\<close>

lemma sort_map_fst_ascending:
  assumes "ascending kvs" and "gomap_wf m" and "map_of m = map_of kvs"
  shows "sort (map fst m) = map fst kvs"
proof -
  have "set (map fst m) = set (map fst kvs)"
    using assms(3) by (simp flip: dom_map_of_conv_image_fst)
  moreover have "sorted (map fst kvs)" "distinct (map fst kvs)"
    using assms(1) by (simp_all add: ascending_def strict_sorted_iff)
  moreover have "distinct (map fst m)" using assms(2) by (simp add: gomap_wf_def)
  ultimately show ?thesis by (metis sorted_distinct_set_unique sorted_sort set_sort distinct_sort)
qed

lemma concat_lookup_raw_stream:
  assumes "gomap_wf kvs" and "map_of m = map_of kvs"
  shows "concat (map (\<lambda>t. encodeTLV t (case map_of m t of None \<Rightarrow> [] | Some v \<Rightarrow> v)) (map fst kvs))
       = raw_stream kvs"
proof -
  have "encodeTLV t (case map_of m t of None \<Rightarrow> [] | Some v \<Rightarrow> v) = encodeTLV t w"
    if "(t, w) \<in> set kvs" for t w
    using that assms by (simp add: gomap_wf_mem_iff)
  then show ?thesis
    unfolding raw_stream_def by (intro arg_cong [of _ _ concat]) (auto simp: comp_def)
qed

context tlv_library
begin

lemma canonicalize_accepted:
  assumes "canonicalizeTLVStream L p = Inr c"
  shows "c = p"
proof -
  from assms obtain m where d: "tlv_DecodeP2P L p = Inr m"
    and c: "c = concat (map (\<lambda>t. encodeTLV t (case map_of m t of None \<Rightarrow> [] | Some v \<Rightarrow> v)) (sort (map fst m)))"
    by (auto simp: canonicalizeTLVStream_def res_simps split: option.splits)
  from decode_sound [OF d] obtain kvs where wf: "gomap_wf m" and k: "ascending kvs"
    "map_of m = map_of kvs" "p = raw_stream kvs" by blast
  with c show ?thesis
    by (simp add: sort_map_fst_ascending [OF k(1) wf k(2)] concat_lookup_raw_stream [symmetric]
        ascending_gomap_wf)
qed

lemma canonicalize_stream:
  assumes "ascending kvs" and "\<forall>(t, v) \<in> set kvs. length v \<le> MaxRecordSize"
  shows "canonicalizeTLVStream L (raw_stream kvs) = Inr (raw_stream kvs)"
proof -
  from decode_complete [OF assms] obtain m where "tlv_DecodeP2P L (raw_stream kvs) = Inr m"
    by blast
  then have "\<exists>c. canonicalizeTLVStream L (raw_stream kvs) = Inr c"
    by (simp add: canonicalizeTLVStream_def new_stream ascending_def)
  then show ?thesis using canonicalize_accepted by blast
qed

lemma ComputeTermsHash_accepted:
  assumes "ComputeTermsHash L t c = Inr h"
  shows "h = sha256 (encodeTermsTLVStream t (TaskKind c) (sha256 (Input c))
           (sha256 (case Params c of None \<Rightarrow> [] | Some p \<Rightarrow> p))
           (word_of_nat (length (Input c))) (InputContentType c) (InputContentEncoding c))"
  using assms canonicalize_accepted
  by (auto simp: ComputeTermsHash_def res_simps split: option.splits if_splits)

end

lemma ComputeTermsHash_error_cases:
  "TaskKind c = [] \<or> \<not> utf8_ValidString (TaskKind c) \<or> InputContentType c = []
   \<or> \<not> utf8_ValidString (InputContentType c) \<or> InputContentEncoding c = []
   \<or> \<not> utf8_ValidString (InputContentEncoding c) \<Longrightarrow> \<exists>e. ComputeTermsHash L t c = Inl e"
  by (auto simp: ComputeTermsHash_def)

section \<open>What the hash commits to\<close>

text \<open>
  The parameter bytes that are hashed (an absent slice hashes as the empty string), the
  terms stream of a commitment, and the statement that SHA-256 does not collide on a
  given pair of byte strings.
\<close>

definition params_bytes :: "terms_commit \<Rightarrow> bytes" where
  "params_bytes c = (case Params c of None \<Rightarrow> [] | Some p \<Rightarrow> p)"

definition terms_stream :: "terms \<Rightarrow> terms_commit \<Rightarrow> bytes" where
  "terms_stream t c =
     encodeTermsTLVStream t (TaskKind c) (sha256 (Input c)) (sha256 (params_bytes c))
       (word_of_nat (length (Input c))) (InputContentType c) (InputContentEncoding c)"

definition no_collision :: "bytes \<Rightarrow> bytes \<Rightarrow> bool" where
  "no_collision a b \<longleftrightarrow> (sha256 a = sha256 b \<longrightarrow> a = b)"

text \<open>The strings of a commitment have a length that a Go \<^verbatim>\<open>int\<close> can hold.\<close>

definition commit_bounded :: "terms_commit \<Rightarrow> bool" where
  "commit_bounded c \<longleftrightarrow> length (TaskKind c) < 2 ^ 63 \<and> length (InputContentType c) < 2 ^ 63
     \<and> length (InputContentEncoding c) < 2 ^ 63"

text \<open>Equal hashes have equal preimages, part by part.\<close>

lemma terms_hash_injective:
  assumes "tlv_library L"
    and "ComputeTermsHash L t c = Inr h" and "ComputeTermsHash L t' c' = Inr h"
    and "no_collision (terms_stream t c) (terms_stream t' c')"
    and "no_collision (Input c) (Input c')"
    and "no_collision (params_bytes c) (params_bytes c')"
    and "commit_bounded c" and "commit_bounded c'"
  shows "t = t' \<and> TaskKind c = TaskKind c' \<and> Input c = Input c'
    \<and> InputContentType c = InputContentType c' \<and> InputContentEncoding c = InputContentEncoding c'
    \<and> params_bytes c = params_bytes c'"
proof -
  have "sha256 (terms_stream t c) = sha256 (terms_stream t' c')"
    using tlv_library.ComputeTermsHash_accepted [OF assms(1,2)]
      tlv_library.ComputeTermsHash_accepted [OF assms(1,3)]
    by (simp add: terms_stream_def params_bytes_def)
  then have "terms_stream t c = terms_stream t' c'"
    using assms(4) by (simp add: no_collision_def)
  then have "t = t' \<and> TaskKind c = TaskKind c' \<and> sha256 (Input c) = sha256 (Input c')
    \<and> sha256 (params_bytes c) = sha256 (params_bytes c')
    \<and> (word_of_nat (length (Input c)) :: u64) = word_of_nat (length (Input c'))
    \<and> InputContentType c = InputContentType c' \<and> InputContentEncoding c = InputContentEncoding c'"
    using assms(7,8) unfolding terms_stream_def
    by (intro encodeTermsTLVStream_inject_lemma) (simp_all add: commit_bounded_def)
  with assms(5,6) show ?thesis by (simp add: no_collision_def)
qed

text \<open>
  C10. The terms hash binds the quote: if two accepted terms computations give the same
  hash, and SHA-256 does not collide on the two terms streams, the two inputs and the two
  parameter strings, then the protocol version, job id, price and quote expiry agree, and
  so do the task kind, the input, its content type and encoding, and the parameter bytes.
\<close>

theorem terms_hash_binds_quote:
  assumes "tlv_library L"
    and "ComputeTermsHash L t c = Inr h" and "ComputeTermsHash L t' c' = Inr h"
    and "no_collision (terms_stream t c) (terms_stream t' c')"
    and "no_collision (Input c) (Input c')"
    and "no_collision (params_bytes c) (params_bytes c')"
    and "commit_bounded c" and "commit_bounded c'"
  shows "t = t' \<and> TaskKind c = TaskKind c' \<and> Input c = Input c'
    \<and> InputContentType c = InputContentType c' \<and> InputContentEncoding c = InputContentEncoding c'
    \<and> params_bytes c = params_bytes c'"
  using terms_hash_injective [OF assms] .

text \<open>
  A concrete commitment, with absent and with empty parameters: two accepted computations
  with the same hash.
\<close>

definition sample_terms :: terms where
  "sample_terms = \<lparr>ProtocolVersion = 2, JobID = 7, PriceMsat = 1500, QuoteExpiry = 1700000000\<rparr>"

definition sample_commit :: "bytes option \<Rightarrow> terms_commit" where
  "sample_commit p = \<lparr>TaskKind = ''openai.chat_completions.v1'', Input = [123, 125],
     InputContentType = ''application/json'', InputContentEncoding = ''identity'', Params = p\<rparr>"

lemma sample_utf8:
  "utf8_ValidString ''openai.chat_completions.v1''" "utf8_ValidString ''application/json''"
  "utf8_ValidString ''identity''"
  by code_simp+

lemma canonicalize_empty: "canonicalizeTLVStream bolt_lib [] = Inr []"
  using bolt.canonicalize_stream [of "[]"] by (simp add: ascending_def raw_stream_def)

lemma sample_hash:
  "ComputeTermsHash bolt_lib sample_terms (sample_commit None)
    = Inr (sha256 (terms_stream sample_terms (sample_commit None)))"
  "ComputeTermsHash bolt_lib sample_terms (sample_commit (Some []))
    = Inr (sha256 (terms_stream sample_terms (sample_commit None)))"
  by (simp_all add: ComputeTermsHash_def sample_commit_def sample_utf8 canonicalize_empty
      terms_stream_def params_bytes_def)

theorem terms_hash_binds_quote_witness:
  "\<exists>h. ComputeTermsHash bolt_lib sample_terms (sample_commit None) = Inr h
     \<and> ComputeTermsHash bolt_lib sample_terms (sample_commit (Some [])) = Inr h
     \<and> params_bytes (sample_commit None) = params_bytes (sample_commit (Some []))"
proof -
  have "commit_bounded (sample_commit p)" for p by (simp add: commit_bounded_def sample_commit_def)
  moreover have "terms_stream sample_terms (sample_commit (Some [])) = terms_stream sample_terms (sample_commit None)"
    and "no_collision x x" for x
    by (simp_all add: terms_stream_def params_bytes_def sample_commit_def no_collision_def)
  moreover have "Input (sample_commit (Some [])) = Input (sample_commit None)"
    "params_bytes (sample_commit (Some [])) = params_bytes (sample_commit None)"
    by (simp_all add: sample_commit_def params_bytes_def)
  ultimately show ?thesis
    using terms_hash_binds_quote [OF bolt.tlv_library_axioms sample_hash] sample_hash by metis
qed

text \<open>
  Canonicalising a parameter stream never changes it: a stream that is accepted is
  already in canonical form, so the requester and the provider hash the same bytes
  whether or not they re-encode. Conversely every stream of ascending records of
  admissible size is accepted.
\<close>

theorem canonicalize_is_identity:
  assumes "tlv_library L"
  shows "canonicalizeTLVStream L p = Inr c \<longleftrightarrow>
    c = p \<and> (\<exists>kvs. ascending kvs \<and> (\<forall>(t, v) \<in> set kvs. length v \<le> MaxRecordSize) \<and> p = raw_stream kvs)"
proof
  assume acc: "canonicalizeTLVStream L p = Inr c"
  then obtain m where "tlv_DecodeP2P L p = Inr m"
    by (auto simp: canonicalizeTLVStream_def res_simps split: option.splits)
  with tlv_library.decode_sound [OF assms] tlv_library.canonicalize_accepted [OF assms acc]
  show "c = p \<and> (\<exists>kvs. ascending kvs \<and> (\<forall>(t, v) \<in> set kvs. length v \<le> MaxRecordSize) \<and> p = raw_stream kvs)"
    by blast
next
  assume "c = p \<and> (\<exists>kvs. ascending kvs \<and> (\<forall>(t, v) \<in> set kvs. length v \<le> MaxRecordSize) \<and> p = raw_stream kvs)"
  then show "canonicalizeTLVStream L p = Inr c"
    using tlv_library.canonicalize_stream [OF assms] by blast
qed

theorem canonicalize_is_identity_witness:
  "canonicalizeTLVStream bolt_lib (raw_stream [(1, [5]), (3, [])]) = Inr (raw_stream [(1, [5]), (3, [])])"
proof -
  have "ascending [(1, [5 :: byte]), (3, [])]" by (simp add: ascending_def)
  then show ?thesis
    unfolding canonicalize_is_identity [OF bolt.tlv_library_axioms]
    by (intro conjI refl exI [of _ "[(1, [5]), (3, [])]"]) simp_all
qed

end
