(* ===== verification/Wire_Types.thy ===== *)
theory Wire_Types
  imports Terms
begin

text \<open>
  The message types, enumerations and structs of \<^verbatim>\<open>go-lcpd/internal/lcpwire/types.go\<close>.
  A pointer field is an \<open>option\<close>; the enumerations are the unsigned integers the source
  declares them as, so that unknown values stay representable.
\<close>

section \<open>Constants\<close>

abbreviation ProtocolVersionV02 :: u16 where "ProtocolVersionV02 \<equiv> 2"

abbreviation MessageTypeManifest :: u16 where "MessageTypeManifest \<equiv> 42081"
abbreviation MessageTypeQuoteRequest :: u16 where "MessageTypeQuoteRequest \<equiv> 42083"
abbreviation MessageTypeQuoteResponse :: u16 where "MessageTypeQuoteResponse \<equiv> 42085"
abbreviation MessageTypeResult :: u16 where "MessageTypeResult \<equiv> 42087"
abbreviation MessageTypeStreamBegin :: u16 where "MessageTypeStreamBegin \<equiv> 42089"
abbreviation MessageTypeStreamChunk :: u16 where "MessageTypeStreamChunk \<equiv> 42091"
abbreviation MessageTypeStreamEnd :: u16 where "MessageTypeStreamEnd \<equiv> 42093"
abbreviation MessageTypeCancel :: u16 where "MessageTypeCancel \<equiv> 42095"
abbreviation MessageTypeError :: u16 where "MessageTypeError \<equiv> 42097"

abbreviation StreamKindInput :: u16 where "StreamKindInput \<equiv> 1"
abbreviation StreamKindResult :: u16 where "StreamKindResult \<equiv> 2"

abbreviation ResultStatusOK :: u16 where "ResultStatusOK \<equiv> 0"
abbreviation ResultStatusFailed :: u16 where "ResultStatusFailed \<equiv> 1"
abbreviation ResultStatusCancelled :: u16 where "ResultStatusCancelled \<equiv> 2"

abbreviation ErrorCodeUnsupportedVersion :: u16 where "ErrorCodeUnsupportedVersion \<equiv> 1"
abbreviation ErrorCodeUnsupportedTask :: u16 where "ErrorCodeUnsupportedTask \<equiv> 2"
abbreviation ErrorCodeQuoteExpired :: u16 where "ErrorCodeQuoteExpired \<equiv> 3"
abbreviation ErrorCodePaymentRequired :: u16 where "ErrorCodePaymentRequired \<equiv> 4"
abbreviation ErrorCodePaymentInvalid :: u16 where "ErrorCodePaymentInvalid \<equiv> 5"
abbreviation ErrorCodePayloadTooLarge :: u16 where "ErrorCodePayloadTooLarge \<equiv> 6"
abbreviation ErrorCodeRateLimited :: u16 where "ErrorCodeRateLimited \<equiv> 7"
abbreviation ErrorCodeUnsupportedParams :: u16 where "ErrorCodeUnsupportedParams \<equiv> 8"
abbreviation ErrorCodeUnsupportedEncoding :: u16 where "ErrorCodeUnsupportedEncoding \<equiv> 9"
abbreviation ErrorCodeInvalidState :: u16 where "ErrorCodeInvalidState \<equiv> 10"
abbreviation ErrorCodeChunkOutOfOrder :: u16 where "ErrorCodeChunkOutOfOrder \<equiv> 11"
abbreviation ErrorCodeChecksumMismatch :: u16 where "ErrorCodeChecksumMismatch \<equiv> 12"

section \<open>Structs\<close>

record job_envelope =
  env_ProtocolVersion :: u16
  env_JobID :: hash32
  env_MsgID :: hash32
  env_Expiry :: u64

record task_template =
  tt_TaskKind :: string
  tt_ParamsBytes :: "bytes option"

record manifest =
  mf_ProtocolVersion :: u16
  mf_MaxPayloadBytes :: u32
  mf_MaxStreamBytes :: u64
  mf_MaxJobBytes :: u64
  mf_MaxInflightJobs :: "u16 option"
  mf_SupportedTasks :: "task_template list"

record quote_request =
  qr_Envelope :: job_envelope
  qr_TaskKind :: string
  qr_ParamsBytes :: "bytes option"

record quote_response =
  qs_Envelope :: job_envelope
  qs_PriceMsat :: u64
  qs_QuoteExpiry :: u64
  qs_TermsHash :: hash32
  qs_PaymentRequest :: string

record stream_begin =
  sb_Envelope :: job_envelope
  sb_StreamID :: hash32
  sb_Kind :: u16
  sb_TotalLen :: "u64 option"
  sb_SHA256 :: "hash32 option"
  sb_ContentType :: string
  sb_ContentEncoding :: string

text \<open>A nil \<^verbatim>\<open>Data\<close> slice, which the encoder refuses, is \<open>None\<close>.\<close>

record stream_chunk =
  sc_Envelope :: job_envelope
  sc_StreamID :: hash32
  sc_Seq :: u32
  sc_Data :: "bytes option"

record stream_end =
  se_Envelope :: job_envelope
  se_StreamID :: hash32
  se_TotalLen :: u64
  se_SHA256 :: hash32

record result_ok =
  ok_ResultStreamID :: hash32
  ok_ResultHash :: hash32
  ok_ResultLen :: u64
  ok_ResultContentType :: string
  ok_ResultContentEncoding :: string

record lcp_result =
  rs_Envelope :: job_envelope
  rs_Status :: u16
  rs_OK :: "result_ok option"
  rs_Message :: "string option"

record lcp_cancel =
  cn_Envelope :: job_envelope
  cn_Reason :: "string option"

record lcp_error =
  er_Envelope :: job_envelope
  er_Code :: u16
  er_Message :: "string option"

record openai_chat_params =
  cp_Model :: string
  cp_Unknown :: "(u64 \<times> bytes) list"

record openai_responses_params =
  rp_Model :: string
  rp_Unknown :: "(u64 \<times> bytes) list"

end
