(* ===== verification/Wire.thy ===== *)
theory Wire
  imports Wire_Types
begin

text \<open>
  The encoders and decoders of \<^verbatim>\<open>go-lcpd/internal/lcpwire\<close>, one definition per function,
  over the operations of the TLV package (the argument \<open>L\<close>), and the round trips: a
  message that encodes to a payload of at most 65535 bytes (the limit of a custom
  message) decodes to the message that was encoded.
\<close>

section \<open>Helpers (tlv\_helpers.go)\<close>

abbreviation tlvTypeProtocolVersion :: u64 where "tlvTypeProtocolVersion \<equiv> 1"
abbreviation tlvTypeJobID :: u64 where "tlvTypeJobID \<equiv> 2"
abbreviation tlvTypeMsgID :: u64 where "tlvTypeMsgID \<equiv> 3"
abbreviation tlvTypeExpiry :: u64 where "tlvTypeExpiry \<equiv> 4"
abbreviation tlvTypeTaskKind :: u64 where "tlvTypeTaskKind \<equiv> 20"
abbreviation tlvTypeParams :: u64 where "tlvTypeParams \<equiv> 22"

definition encodeTLVStream :: "tlv_lib \<Rightarrow> tlv_record list \<Rightarrow> bytes res" where
  "encodeTLVStream L records =
     (case tlv_NewStream L records of
        Some err \<Rightarrow> Inl (wrapf ''new tlv stream'' err)
      | None \<Rightarrow> mapErr (wrapf ''encode tlv stream'') (tlv_Encode L records))"

definition decodeTLVMap :: "tlv_lib \<Rightarrow> bytes \<Rightarrow> tlv_map res" where
  "decodeTLVMap L payload =
     (case tlv_NewStream L [] of
        Some err \<Rightarrow> Inl (wrapf ''new empty tlv stream'' err)
      | None \<Rightarrow> mapErr (wrapf ''decode tlv stream'') (tlv_DecodeP2P L payload))"

definition requireTLV :: "tlv_map \<Rightarrow> u64 \<Rightarrow> bytes res" where
  "requireTLV m typ =
     (case map_of m typ of
        None \<Rightarrow> Inl (errors_New (''missing required tlv type='' @ show_nat (unat typ)))
      | Some v \<Rightarrow> Inr v)"

definition readU16 :: "bytes \<Rightarrow> u16 res" where
  "readU16 b =
     (if length b \<noteq> 2 then Inl (errors_New (''u16 must be 2 bytes, got '' @ show_nat (length b)))
      else Inr (bytes_u16 b))"

definition readBytes32 :: "bytes \<Rightarrow> hash32 res" where
  "readBytes32 b =
     (if length b \<noteq> 32 then Inl (errors_New (''32*byte must be 32 bytes, got '' @ show_nat (length b)))
      else Inr (bytes_hash b))"

definition readTU32 :: "tlv_lib \<Rightarrow> bytes \<Rightarrow> u32 res" where
  "readTU32 L b = tlv_DTUint32 L b"

definition readTU64 :: "tlv_lib \<Rightarrow> bytes \<Rightarrow> u64 res" where
  "readTU64 L b = tlv_DTUint64 L b"

definition readUTF8String :: "bytes \<Rightarrow> string \<Rightarrow> string res" where
  "readUTF8String b field =
     (if \<not> utf8_Valid b then Inl (errors_New (field @ '' must be valid UTF-8''))
      else Inr (bytes_string b))"

definition makeTU32Record :: "u64 \<Rightarrow> u32 \<Rightarrow> tlv_record" where
  "makeTU32Record typ v = (typ, FTUint32 v)"

definition makeTU64Record :: "u64 \<Rightarrow> u64 \<Rightarrow> tlv_record" where
  "makeTU64Record typ v = (typ, FTUint64 v)"

definition uint64ToInt :: "u64 \<Rightarrow> nat res" where
  "uint64ToInt v =
     (if 2 ^ 63 - 1 < unat v
      then Inl (errors_New (''value too large for int: '' @ show_nat (unat v)))
      else Inr (unat v))"

definition validateUTF8String :: "string \<Rightarrow> string \<Rightarrow> unit res" where
  "validateUTF8String s field =
     (if \<not> utf8_ValidString s then Inl (errors_New (field @ '' must be valid UTF-8'')) else Inr ())"

definition validateJobScopeNotPresent :: "tlv_map \<Rightarrow> unit res" where
  "validateJobScopeNotPresent m =
     (if list_ex (\<lambda>t. map_of m t \<noteq> None) [tlvTypeJobID, tlvTypeMsgID, tlvTypeExpiry]
      then Inl (errors_New ''job-scope envelope tlvs must not be present'')
      else Inr ())"

section \<open>Job envelope (envelope.go)\<close>

definition decodeProtocolVersionOnly :: "tlv_map \<Rightarrow> u16 res" where
  "decodeProtocolVersionOnly m =
     bindE (requireTLV m tlvTypeProtocolVersion) (\<lambda>pvBytes.
     mapErr (wrapf ''protocol_version'') (readU16 pvBytes))"

definition decodeJobEnvelope :: "tlv_lib \<Rightarrow> tlv_map \<Rightarrow> job_envelope res" where
  "decodeJobEnvelope L m =
     bindE (requireTLV m tlvTypeProtocolVersion) (\<lambda>pvBytes.
     bindE (mapErr (wrapf ''protocol_version'') (readU16 pvBytes)) (\<lambda>pv.
     bindE (requireTLV m tlvTypeJobID) (\<lambda>jobIDBytes.
     bindE (mapErr (wrapf ''job_id'') (readBytes32 jobIDBytes)) (\<lambda>jobID.
     bindE (requireTLV m tlvTypeMsgID) (\<lambda>msgIDBytes.
     bindE (mapErr (wrapf ''msg_id'') (readBytes32 msgIDBytes)) (\<lambda>msgID.
     bindE (requireTLV m tlvTypeExpiry) (\<lambda>expiryBytes.
     bindE (mapErr (wrapf ''expiry'') (readTU64 L expiryBytes)) (\<lambda>expiry.
     Inr \<lparr>env_ProtocolVersion = pv, env_JobID = jobID, env_MsgID = msgID, env_Expiry = expiry\<rparr>))))))))"

definition encodeJobEnvelope :: "job_envelope \<Rightarrow> tlv_record list res" where
  "encodeJobEnvelope env =
     (if env_ProtocolVersion env = 0 then Inl (errors_New ''protocol_version is required'')
      else Inr [(tlvTypeProtocolVersion, FUint16 (env_ProtocolVersion env)),
                (tlvTypeJobID, FBytes32 (env_JobID env)),
                (tlvTypeMsgID, FBytes32 (env_MsgID env)),
                makeTU64Record tlvTypeExpiry (env_Expiry env)])"

section \<open>Byte lists (list.go)\<close>

abbreviation maxBytesListCount :: u64 where "maxBytesListCount \<equiv> 1024"
abbreviation maxBytesListTotalBytes :: u64 where "maxBytesListTotalBytes \<equiv> 1048576"

fun encodeListItems :: "tlv_lib \<Rightarrow> nat \<Rightarrow> bytes list \<Rightarrow> bytes res" where
  "encodeListItems L i [] = Inr []"
| "encodeListItems L i (item # items) =
     bindE (mapErr (wrapf (''write bytes_list['' @ show_nat i @ ''] length''))
              (tlv_WriteVarInt L (word_of_nat (length item)))) (\<lambda>n.
     bindE (encodeListItems L (Suc i) items) (\<lambda>rest.
     Inr (n @ item @ rest)))"

definition EncodeBytesList :: "tlv_lib \<Rightarrow> bytes list \<Rightarrow> bytes res" where
  "EncodeBytesList L items =
     bindE (mapErr (wrapf ''write bytes_list count'') (tlv_WriteVarInt L (word_of_nat (length items)))) (\<lambda>count.
     bindE (encodeListItems L 0 items) (\<lambda>body.
     Inr (count @ body)))"

text \<open>The loop of the decoder: the items still to read, the reader and the running total.\<close>

fun decodeListItems :: "tlv_lib \<Rightarrow> nat \<Rightarrow> nat \<Rightarrow> bytes \<Rightarrow> u64 \<Rightarrow> (bytes list \<times> bytes) res" where
  "decodeListItems L i 0 r tot = Inr ([], r)"
| "decodeListItems L i (Suc count) r tot =
     bindE (mapErr (wrapf (''read bytes_list['' @ show_nat i @ ''] length'')) (tlv_ReadVarInt L r)) (\<lambda>(nU64, r1).
     bindE (mapErr (wrapf (''read bytes_list['' @ show_nat i @ ''] length'')) (uint64ToInt nU64)) (\<lambda>n.
     if length r1 < n
     then Inl (errors_New (''bytes_list['' @ show_nat i @ ''] length '' @ show_nat n
                 @ '' exceeds remaining '' @ show_nat (length r1)))
     else if maxBytesListTotalBytes < tot + nU64
     then Inl (errors_New (''bytes_list too large: '' @ show_nat (unat (tot + nU64)) @ '' bytes''))
     else bindE (decodeListItems L (Suc i) count (drop n r1) (tot + nU64)) (\<lambda>(items, r2).
          Inr (take n r1 # items, r2))))"

definition DecodeBytesList :: "tlv_lib \<Rightarrow> bytes \<Rightarrow> bytes list res" where
  "DecodeBytesList L b =
     bindE (mapErr (wrapf ''read bytes_list count'') (tlv_ReadVarInt L b)) (\<lambda>(countU64, r).
     if maxBytesListCount < countU64
     then Inl (errors_New (''bytes_list count too large: '' @ show_nat (unat countU64)))
     else bindE (decodeListItems L 0 (unat countU64) r 0) (\<lambda>(items, r2).
          if r2 \<noteq> [] then Inl (errors_New (''bytes_list has trailing bytes: '' @ show_nat (length r2)))
          else Inr items))"

section \<open>Manifest (manifest.go)\<close>

abbreviation manifestTLVTypeMaxPayloadBytes :: u64 where "manifestTLVTypeMaxPayloadBytes \<equiv> 11"
abbreviation manifestTLVTypeMaxStreamBytes :: u64 where "manifestTLVTypeMaxStreamBytes \<equiv> 14"
abbreviation manifestTLVTypeMaxJobBytes :: u64 where "manifestTLVTypeMaxJobBytes \<equiv> 15"
abbreviation manifestTLVTypeMaxInflightJobs :: u64 where "manifestTLVTypeMaxInflightJobs \<equiv> 16"
abbreviation manifestTLVTypeSupportedTasks :: u64 where "manifestTLVTypeSupportedTasks \<equiv> 12"

definition EncodeTaskTemplate :: "tlv_lib \<Rightarrow> task_template \<Rightarrow> bytes res" where
  "EncodeTaskTemplate L t =
     (if tt_TaskKind t = [] then Inl (errors_New ''task_kind is required'')
      else bindE (validateUTF8String (tt_TaskKind t) ''task_kind'') (\<lambda>_.
      encodeTLVStream L
        ([(tlvTypeTaskKind, FVarBytes (string_bytes (tt_TaskKind t)))]
         @ (case tt_ParamsBytes t of None \<Rightarrow> [] | Some p \<Rightarrow> [(tlvTypeParams, FVarBytes p)]))))"

definition DecodeTaskTemplate :: "tlv_lib \<Rightarrow> bytes \<Rightarrow> task_template res" where
  "DecodeTaskTemplate L payload =
     bindE (decodeTLVMap L payload) (\<lambda>m.
     bindE (requireTLV m tlvTypeTaskKind) (\<lambda>taskKindBytes.
     bindE (readUTF8String taskKindBytes ''task_kind'') (\<lambda>taskKind.
     if taskKind = [] then Inl (errors_New ''task_kind is required'')
     else Inr \<lparr>tt_TaskKind = taskKind, tt_ParamsBytes = map_of m tlvTypeParams\<rparr>)))"

fun encodeTasks :: "tlv_lib \<Rightarrow> nat \<Rightarrow> task_template list \<Rightarrow> bytes list res" where
  "encodeTasks L i [] = Inr []"
| "encodeTasks L i (t # ts) =
     bindE (mapErr (wrapf (''encode supported_tasks['' @ show_nat i @ '']'')) (EncodeTaskTemplate L t)) (\<lambda>b.
     bindE (encodeTasks L (Suc i) ts) (\<lambda>bs. Inr (b # bs)))"

fun decodeTasks :: "tlv_lib \<Rightarrow> nat \<Rightarrow> bytes list \<Rightarrow> task_template list res" where
  "decodeTasks L i [] = Inr []"
| "decodeTasks L i (b # bs) =
     bindE (mapErr (wrapf (''supported_tasks['' @ show_nat i @ '']'')) (DecodeTaskTemplate L b)) (\<lambda>t.
     bindE (decodeTasks L (Suc i) bs) (\<lambda>ts. Inr (t # ts)))"

definition EncodeManifest :: "tlv_lib \<Rightarrow> manifest \<Rightarrow> bytes res" where
  "EncodeManifest L m =
     (if mf_ProtocolVersion m = 0 then Inl (errors_New ''protocol_version is required'')
      else if mf_MaxPayloadBytes m = 0 then Inl (errors_New ''max_payload_bytes is required'')
      else if mf_MaxStreamBytes m = 0 then Inl (errors_New ''max_stream_bytes is required'')
      else if mf_MaxJobBytes m = 0 then Inl (errors_New ''max_job_bytes is required'')
      else
        bindE (if mf_SupportedTasks m = [] then Inr []
               else bindE (encodeTasks L 0 (mf_SupportedTasks m)) (\<lambda>encodedTasks.
                    bindE (mapErr (wrapf ''encode supported_tasks bytes_list'')
                             (EncodeBytesList L encodedTasks)) (\<lambda>listBytes.
                    Inr [(manifestTLVTypeSupportedTasks, FVarBytes listBytes)]))) (\<lambda>tasks.
        encodeTLVStream L
          ([(tlvTypeProtocolVersion, FUint16 (mf_ProtocolVersion m)),
            makeTU32Record manifestTLVTypeMaxPayloadBytes (mf_MaxPayloadBytes m)]
           @ tasks
           @ [makeTU64Record manifestTLVTypeMaxStreamBytes (mf_MaxStreamBytes m),
              makeTU64Record manifestTLVTypeMaxJobBytes (mf_MaxJobBytes m)]
           @ (case mf_MaxInflightJobs m of
                None \<Rightarrow> [] | Some n \<Rightarrow> [(manifestTLVTypeMaxInflightJobs, FUint16 n)]))))"

definition decodeManifestMaxPayloadBytes :: "tlv_lib \<Rightarrow> tlv_map \<Rightarrow> u32 res" where
  "decodeManifestMaxPayloadBytes L m =
     bindE (requireTLV m manifestTLVTypeMaxPayloadBytes) (\<lambda>raw.
     bindE (mapErr (wrapf ''max_payload_bytes'') (readTU32 L raw)) (\<lambda>v.
     if v = 0 then Inl (errors_New ''max_payload_bytes is required'') else Inr v))"

definition decodeManifestMaxStreamBytes :: "tlv_lib \<Rightarrow> tlv_map \<Rightarrow> u64 res" where
  "decodeManifestMaxStreamBytes L m =
     bindE (requireTLV m manifestTLVTypeMaxStreamBytes) (\<lambda>raw.
     bindE (mapErr (wrapf ''max_stream_bytes'') (readTU64 L raw)) (\<lambda>v.
     if v = 0 then Inl (errors_New ''max_stream_bytes is required'') else Inr v))"

definition decodeManifestMaxJobBytes :: "tlv_lib \<Rightarrow> tlv_map \<Rightarrow> u64 res" where
  "decodeManifestMaxJobBytes L m =
     bindE (requireTLV m manifestTLVTypeMaxJobBytes) (\<lambda>raw.
     bindE (mapErr (wrapf ''max_job_bytes'') (readTU64 L raw)) (\<lambda>v.
     if v = 0 then Inl (errors_New ''max_job_bytes is required'') else Inr v))"

definition decodeManifestMaxInflightJobs :: "tlv_map \<Rightarrow> u16 option res" where
  "decodeManifestMaxInflightJobs m =
     (case map_of m manifestTLVTypeMaxInflightJobs of
        None \<Rightarrow> Inr None
      | Some b \<Rightarrow> bindE (mapErr (wrapf ''max_inflight_jobs'') (readU16 b)) (\<lambda>v. Inr (Some v)))"

definition decodeManifestSupportedTasks :: "tlv_lib \<Rightarrow> tlv_map \<Rightarrow> task_template list res" where
  "decodeManifestSupportedTasks L m =
     (case map_of m manifestTLVTypeSupportedTasks of
        None \<Rightarrow> Inr []
      | Some b \<Rightarrow>
          bindE (mapErr (wrapf ''supported_tasks'') (DecodeBytesList L b)) (\<lambda>items.
          decodeTasks L 0 items))"

definition DecodeManifest :: "tlv_lib \<Rightarrow> bytes \<Rightarrow> manifest res" where
  "DecodeManifest L payload =
     bindE (decodeTLVMap L payload) (\<lambda>m.
     bindE (validateJobScopeNotPresent m) (\<lambda>_.
     bindE (decodeProtocolVersionOnly m) (\<lambda>pv.
     bindE (decodeManifestMaxPayloadBytes L m) (\<lambda>maxPayloadBytes.
     bindE (decodeManifestMaxStreamBytes L m) (\<lambda>maxStreamBytes.
     bindE (decodeManifestMaxJobBytes L m) (\<lambda>maxJobBytes.
     bindE (decodeManifestMaxInflightJobs m) (\<lambda>maxInflightJobs.
     bindE (decodeManifestSupportedTasks L m) (\<lambda>supportedTasks.
     Inr \<lparr>mf_ProtocolVersion = pv, mf_MaxPayloadBytes = maxPayloadBytes,
          mf_MaxStreamBytes = maxStreamBytes, mf_MaxJobBytes = maxJobBytes,
          mf_MaxInflightJobs = maxInflightJobs, mf_SupportedTasks = supportedTasks\<rparr>))))))))"

section \<open>Quotes (quote\_request.go, quote\_response.go)\<close>

abbreviation quoteResponseTLVTypePriceMsat :: u64 where "quoteResponseTLVTypePriceMsat \<equiv> 30"
abbreviation quoteResponseTLVTypeQuoteExpiry :: u64 where "quoteResponseTLVTypeQuoteExpiry \<equiv> 31"
abbreviation quoteResponseTLVTypeTermsHash :: u64 where "quoteResponseTLVTypeTermsHash \<equiv> 32"
abbreviation quoteResponseTLVTypePaymentRequest :: u64 where "quoteResponseTLVTypePaymentRequest \<equiv> 33"

definition EncodeQuoteRequest :: "tlv_lib \<Rightarrow> quote_request \<Rightarrow> bytes res" where
  "EncodeQuoteRequest L q =
     bindE (encodeJobEnvelope (qr_Envelope q)) (\<lambda>envelopeRecords.
     if qr_TaskKind q = [] then Inl (errors_New ''task_kind is required'')
     else bindE (validateUTF8String (qr_TaskKind q) ''task_kind'') (\<lambda>_.
     encodeTLVStream L
       (envelopeRecords
        @ [(tlvTypeTaskKind, FVarBytes (string_bytes (qr_TaskKind q)))]
        @ (case qr_ParamsBytes q of None \<Rightarrow> [] | Some p \<Rightarrow> [(tlvTypeParams, FVarBytes p)]))))"

definition DecodeQuoteRequest :: "tlv_lib \<Rightarrow> bytes \<Rightarrow> quote_request res" where
  "DecodeQuoteRequest L payload =
     bindE (decodeTLVMap L payload) (\<lambda>m.
     bindE (decodeJobEnvelope L m) (\<lambda>env.
     bindE (requireTLV m tlvTypeTaskKind) (\<lambda>taskKindBytes.
     bindE (readUTF8String taskKindBytes ''task_kind'') (\<lambda>taskKind.
     if taskKind = [] then Inl (errors_New ''task_kind is required'')
     else Inr \<lparr>qr_Envelope = env, qr_TaskKind = taskKind, qr_ParamsBytes = map_of m tlvTypeParams\<rparr>))))"

definition EncodeQuoteResponse :: "tlv_lib \<Rightarrow> quote_response \<Rightarrow> bytes res" where
  "EncodeQuoteResponse L q =
     bindE (encodeJobEnvelope (qs_Envelope q)) (\<lambda>envelopeRecords.
     if qs_PaymentRequest q = [] then Inl (errors_New ''payment_request is required'')
     else bindE (validateUTF8String (qs_PaymentRequest q) ''payment_request'') (\<lambda>_.
     encodeTLVStream L
       (envelopeRecords
        @ [makeTU64Record quoteResponseTLVTypePriceMsat (qs_PriceMsat q),
           makeTU64Record quoteResponseTLVTypeQuoteExpiry (qs_QuoteExpiry q),
           (quoteResponseTLVTypeTermsHash, FBytes32 (qs_TermsHash q)),
           (quoteResponseTLVTypePaymentRequest, FVarBytes (string_bytes (qs_PaymentRequest q)))])))"

definition DecodeQuoteResponse :: "tlv_lib \<Rightarrow> bytes \<Rightarrow> quote_response res" where
  "DecodeQuoteResponse L payload =
     bindE (decodeTLVMap L payload) (\<lambda>m.
     bindE (decodeJobEnvelope L m) (\<lambda>env.
     bindE (requireTLV m quoteResponseTLVTypePriceMsat) (\<lambda>priceBytes.
     bindE (mapErr (wrapf ''price_msat'') (readTU64 L priceBytes)) (\<lambda>priceMsat.
     bindE (requireTLV m quoteResponseTLVTypeQuoteExpiry) (\<lambda>expiryBytes.
     bindE (mapErr (wrapf ''quote_expiry'') (readTU64 L expiryBytes)) (\<lambda>quoteExpiry.
     bindE (requireTLV m quoteResponseTLVTypeTermsHash) (\<lambda>termsHashBytes.
     bindE (mapErr (wrapf ''terms_hash'') (readBytes32 termsHashBytes)) (\<lambda>termsHash.
     bindE (requireTLV m quoteResponseTLVTypePaymentRequest) (\<lambda>paymentRequestBytes.
     bindE (readUTF8String paymentRequestBytes ''payment_request'') (\<lambda>paymentRequest.
     if paymentRequest = [] then Inl (errors_New ''payment_request is required'')
     else Inr \<lparr>qs_Envelope = env, qs_PriceMsat = priceMsat, qs_QuoteExpiry = quoteExpiry,
               qs_TermsHash = termsHash, qs_PaymentRequest = paymentRequest\<rparr>))))))))))"

section \<open>Streams (stream\_begin.go, stream\_chunk.go, stream\_end.go)\<close>

abbreviation streamTLVTypeStreamID :: u64 where "streamTLVTypeStreamID \<equiv> 90"
abbreviation streamTLVTypeStreamKind :: u64 where "streamTLVTypeStreamKind \<equiv> 91"
abbreviation streamTLVTypeTotalLen :: u64 where "streamTLVTypeTotalLen \<equiv> 92"
abbreviation streamTLVTypeSHA256 :: u64 where "streamTLVTypeSHA256 \<equiv> 93"
abbreviation streamTLVTypeContentType :: u64 where "streamTLVTypeContentType \<equiv> 94"
abbreviation streamTLVTypeContentEncoding :: u64 where "streamTLVTypeContentEncoding \<equiv> 95"
abbreviation streamTLVTypeSeq :: u64 where "streamTLVTypeSeq \<equiv> 96"
abbreviation streamTLVTypeData :: u64 where "streamTLVTypeData \<equiv> 97"

definition EncodeStreamBegin :: "tlv_lib \<Rightarrow> stream_begin \<Rightarrow> bytes res" where
  "EncodeStreamBegin L b =
     bindE (encodeJobEnvelope (sb_Envelope b)) (\<lambda>envelopeRecords.
     if sb_Kind b \<noteq> StreamKindInput \<and> sb_Kind b \<noteq> StreamKindResult
     then Inl (errors_New (''invalid stream_kind: '' @ show_nat (unat (sb_Kind b))))
     else if sb_ContentType b = [] then Inl (errors_New ''content_type is required'')
     else bindE (validateUTF8String (sb_ContentType b) ''content_type'') (\<lambda>_.
     if sb_ContentEncoding b = [] then Inl (errors_New ''content_encoding is required'')
     else bindE (validateUTF8String (sb_ContentEncoding b) ''content_encoding'') (\<lambda>_.
     encodeTLVStream L
       (envelopeRecords
        @ [(streamTLVTypeStreamID, FBytes32 (sb_StreamID b)),
           (streamTLVTypeStreamKind, FUint16 (sb_Kind b))]
        @ (case sb_TotalLen b of None \<Rightarrow> [] | Some n \<Rightarrow> [makeTU64Record streamTLVTypeTotalLen n])
        @ (case sb_SHA256 b of None \<Rightarrow> [] | Some h \<Rightarrow> [(streamTLVTypeSHA256, FBytes32 h)])
        @ [(streamTLVTypeContentType, FVarBytes (string_bytes (sb_ContentType b))),
           (streamTLVTypeContentEncoding, FVarBytes (string_bytes (sb_ContentEncoding b)))]))))"

text \<open>The body decoder leaves the envelope of the struct at its zero value.\<close>

definition zeroEnvelope :: job_envelope where
  "zeroEnvelope = \<lparr>env_ProtocolVersion = 0, env_JobID = 0, env_MsgID = 0, env_Expiry = 0\<rparr>"

definition decodeStreamBeginBody :: "tlv_lib \<Rightarrow> tlv_map \<Rightarrow> stream_begin res" where
  "decodeStreamBeginBody L m =
     bindE (requireTLV m streamTLVTypeStreamID) (\<lambda>streamIDBytes.
     bindE (mapErr (wrapf ''stream_id'') (readBytes32 streamIDBytes)) (\<lambda>streamID.
     bindE (requireTLV m streamTLVTypeStreamKind) (\<lambda>streamKindBytes.
     bindE (mapErr (wrapf ''stream_kind'') (readU16 streamKindBytes)) (\<lambda>kind.
     if kind \<noteq> StreamKindInput \<and> kind \<noteq> StreamKindResult
     then Inl (errors_New (''invalid stream_kind: '' @ show_nat (unat kind)))
     else
     bindE (case map_of m streamTLVTypeTotalLen of
              None \<Rightarrow> Inr None
            | Some b \<Rightarrow> bindE (mapErr (wrapf ''total_len'') (readTU64 L b)) (\<lambda>v. Inr (Some v))) (\<lambda>totalLen.
     bindE (case map_of m streamTLVTypeSHA256 of
              None \<Rightarrow> Inr None
            | Some b \<Rightarrow> bindE (mapErr (wrapf ''sha256'') (readBytes32 b)) (\<lambda>h. Inr (Some h))) (\<lambda>sha256Sum.
     bindE (requireTLV m streamTLVTypeContentType) (\<lambda>contentTypeBytes.
     bindE (readUTF8String contentTypeBytes ''content_type'') (\<lambda>contentType.
     if contentType = [] then Inl (errors_New ''content_type is required'')
     else
     bindE (requireTLV m streamTLVTypeContentEncoding) (\<lambda>contentEncodingBytes.
     bindE (readUTF8String contentEncodingBytes ''content_encoding'') (\<lambda>contentEncoding.
     if contentEncoding = [] then Inl (errors_New ''content_encoding is required'')
     else Inr \<lparr>sb_Envelope = zeroEnvelope, sb_StreamID = streamID, sb_Kind = kind,
               sb_TotalLen = totalLen, sb_SHA256 = sha256Sum, sb_ContentType = contentType,
               sb_ContentEncoding = contentEncoding\<rparr>))))))))))"

definition DecodeStreamBegin :: "tlv_lib \<Rightarrow> bytes \<Rightarrow> stream_begin res" where
  "DecodeStreamBegin L payload =
     bindE (decodeTLVMap L payload) (\<lambda>m.
     bindE (decodeJobEnvelope L m) (\<lambda>env.
     bindE (decodeStreamBeginBody L m) (\<lambda>begin.
     Inr (begin\<lparr>sb_Envelope := env\<rparr>))))"

definition ComputeDeterministicStreamChunkMsgID :: "hash32 \<Rightarrow> u32 \<Rightarrow> hash32" where
  "ComputeDeterministicStreamChunkMsgID streamID seq = sha256 (hash_bytes streamID @ u32_bytes seq)"

definition EncodeStreamChunk :: "tlv_lib \<Rightarrow> stream_chunk \<Rightarrow> (bytes \<times> hash32) res" where
  "EncodeStreamChunk L c =
     (case sc_Data c of
        None \<Rightarrow> Inl (errors_New ''data is required'')
      | Some data \<Rightarrow>
          let msgID = ComputeDeterministicStreamChunkMsgID (sc_StreamID c) (sc_Seq c) in
          bindE (encodeJobEnvelope ((sc_Envelope c)\<lparr>env_MsgID := msgID\<rparr>)) (\<lambda>envelopeRecords.
          bindE (encodeTLVStream L
                   (envelopeRecords
                    @ [(streamTLVTypeStreamID, FBytes32 (sc_StreamID c)),
                       makeTU32Record streamTLVTypeSeq (sc_Seq c),
                       (streamTLVTypeData, FVarBytes data)])) (\<lambda>payload.
          Inr (payload, msgID))))"

definition DecodeStreamChunk :: "tlv_lib \<Rightarrow> bytes \<Rightarrow> stream_chunk res" where
  "DecodeStreamChunk L payload =
     bindE (decodeTLVMap L payload) (\<lambda>m.
     bindE (decodeJobEnvelope L m) (\<lambda>env.
     bindE (requireTLV m streamTLVTypeStreamID) (\<lambda>streamIDBytes.
     bindE (mapErr (wrapf ''stream_id'') (readBytes32 streamIDBytes)) (\<lambda>streamID.
     bindE (requireTLV m streamTLVTypeSeq) (\<lambda>seqBytes.
     bindE (mapErr (wrapf ''seq'') (readTU32 L seqBytes)) (\<lambda>seq.
     bindE (requireTLV m streamTLVTypeData) (\<lambda>data.
     if env_MsgID env \<noteq> ComputeDeterministicStreamChunkMsgID streamID seq
     then Inl (errors_New ''deterministic msg_id mismatch for lcp_stream_chunk'')
     else Inr \<lparr>sc_Envelope = env, sc_StreamID = streamID, sc_Seq = seq, sc_Data = Some data\<rparr>)))))))"

text \<open>The received data of a decoded chunk; a decoded chunk always has data.\<close>

definition chunkData :: "stream_chunk \<Rightarrow> bytes" where
  "chunkData c = (case sc_Data c of None \<Rightarrow> [] | Some d \<Rightarrow> d)"

definition EncodeStreamEnd :: "tlv_lib \<Rightarrow> stream_end \<Rightarrow> bytes res" where
  "EncodeStreamEnd L e =
     bindE (encodeJobEnvelope (se_Envelope e)) (\<lambda>envelopeRecords.
     encodeTLVStream L
       (envelopeRecords
        @ [(streamTLVTypeStreamID, FBytes32 (se_StreamID e)),
           makeTU64Record streamTLVTypeTotalLen (se_TotalLen e),
           (streamTLVTypeSHA256, FBytes32 (se_SHA256 e))]))"

definition DecodeStreamEnd :: "tlv_lib \<Rightarrow> bytes \<Rightarrow> stream_end res" where
  "DecodeStreamEnd L payload =
     bindE (decodeTLVMap L payload) (\<lambda>m.
     bindE (decodeJobEnvelope L m) (\<lambda>env.
     bindE (requireTLV m streamTLVTypeStreamID) (\<lambda>streamIDBytes.
     bindE (mapErr (wrapf ''stream_id'') (readBytes32 streamIDBytes)) (\<lambda>streamID.
     bindE (requireTLV m streamTLVTypeTotalLen) (\<lambda>totalLenBytes.
     bindE (mapErr (wrapf ''total_len'') (readTU64 L totalLenBytes)) (\<lambda>totalLen.
     bindE (requireTLV m streamTLVTypeSHA256) (\<lambda>sha256Bytes.
     bindE (mapErr (wrapf ''sha256'') (readBytes32 sha256Bytes)) (\<lambda>sum.
     Inr \<lparr>se_Envelope = env, se_StreamID = streamID, se_TotalLen = totalLen, se_SHA256 = sum\<rparr>))))))))"

section \<open>Result (result.go)\<close>

abbreviation resultTLVTypeStatus :: u64 where "resultTLVTypeStatus \<equiv> 100"
abbreviation resultTLVTypeResultStreamID :: u64 where "resultTLVTypeResultStreamID \<equiv> 101"
abbreviation resultTLVTypeResultHash :: u64 where "resultTLVTypeResultHash \<equiv> 102"
abbreviation resultTLVTypeResultLen :: u64 where "resultTLVTypeResultLen \<equiv> 103"
abbreviation resultTLVTypeResultContentType :: u64 where "resultTLVTypeResultContentType \<equiv> 104"
abbreviation resultTLVTypeResultContentEncode :: u64 where "resultTLVTypeResultContentEncode \<equiv> 105"
abbreviation resultTLVTypeMessage :: u64 where "resultTLVTypeMessage \<equiv> 81"

definition EncodeResult :: "tlv_lib \<Rightarrow> lcp_result \<Rightarrow> bytes res" where
  "EncodeResult L r =
     bindE (encodeJobEnvelope (rs_Envelope r)) (\<lambda>envelopeRecords.
     if rs_Status r \<notin> {ResultStatusOK, ResultStatusFailed, ResultStatusCancelled}
     then Inl (errors_New (''invalid status: '' @ show_nat (unat (rs_Status r))))
     else
     bindE (case rs_Message r of
              None \<Rightarrow> Inr []
            | Some msg \<Rightarrow>
                if rs_Status r \<noteq> ResultStatusOK
                then bindE (validateUTF8String msg ''message'') (\<lambda>_.
                     Inr [(resultTLVTypeMessage, FVarBytes (string_bytes msg))])
                else Inr []) (\<lambda>message.
     let records = envelopeRecords @ message @ [(resultTLVTypeStatus, FUint16 (rs_Status r))] in
     if rs_Status r \<noteq> ResultStatusOK
     then (if rs_OK r \<noteq> None then Inl (errors_New ''ok metadata must be omitted for status!=ok'')
           else encodeTLVStream L records)
     else (case rs_OK r of
        None \<Rightarrow> Inl (errors_New ''ok metadata is required for status=ok'')
      | Some ok \<Rightarrow>
          if rs_Message r \<noteq> None then Inl (errors_New ''message must be omitted for status=ok'')
          else if ok_ResultContentType ok = []
          then Inl (errors_New ''result_content_type is required for status=ok'')
          else bindE (validateUTF8String (ok_ResultContentType ok) ''result_content_type'') (\<lambda>_.
          if ok_ResultContentEncoding ok = []
          then Inl (errors_New ''result_content_encoding is required for status=ok'')
          else bindE (validateUTF8String (ok_ResultContentEncoding ok) ''result_content_encoding'') (\<lambda>_.
          encodeTLVStream L
            (records
             @ [(resultTLVTypeResultStreamID, FBytes32 (ok_ResultStreamID ok)),
                (resultTLVTypeResultHash, FBytes32 (ok_ResultHash ok)),
                makeTU64Record resultTLVTypeResultLen (ok_ResultLen ok),
                (resultTLVTypeResultContentType, FVarBytes (string_bytes (ok_ResultContentType ok))),
                (resultTLVTypeResultContentEncode, FVarBytes (string_bytes (ok_ResultContentEncoding ok)))]))))))"

definition decodeResultStatus :: "tlv_map \<Rightarrow> u16 res" where
  "decodeResultStatus m =
     bindE (requireTLV m resultTLVTypeStatus) (\<lambda>statusBytes.
     bindE (mapErr (wrapf ''status'') (readU16 statusBytes)) (\<lambda>status.
     if status \<in> {ResultStatusOK, ResultStatusFailed, ResultStatusCancelled} then Inr status
     else Inl (errors_New (''invalid status: '' @ show_nat (unat status)))))"

definition decodeOptionalResultMessage :: "tlv_map \<Rightarrow> string option res" where
  "decodeOptionalResultMessage m =
     (case map_of m resultTLVTypeMessage of
        None \<Rightarrow> Inr None
      | Some b \<Rightarrow> bindE (readUTF8String b ''message'') (\<lambda>s. Inr (Some s)))"

definition ensureNoResultOKMetadata :: "tlv_map \<Rightarrow> unit res" where
  "ensureNoResultOKMetadata m =
     (if list_ex (\<lambda>t. map_of m t \<noteq> None)
           [resultTLVTypeResultStreamID, resultTLVTypeResultHash, resultTLVTypeResultLen,
            resultTLVTypeResultContentType, resultTLVTypeResultContentEncode]
      then Inl (errors_New ''ok metadata must be omitted for status!=ok'') else Inr ())"

definition decodeResultOKMetadata :: "tlv_lib \<Rightarrow> tlv_map \<Rightarrow> result_ok res" where
  "decodeResultOKMetadata L m =
     bindE (requireTLV m resultTLVTypeResultStreamID) (\<lambda>streamIDBytes.
     bindE (mapErr (wrapf ''result_stream_id'') (readBytes32 streamIDBytes)) (\<lambda>streamID.
     bindE (requireTLV m resultTLVTypeResultHash) (\<lambda>hashBytes.
     bindE (mapErr (wrapf ''result_hash'') (readBytes32 hashBytes)) (\<lambda>hash.
     bindE (requireTLV m resultTLVTypeResultLen) (\<lambda>lenBytes.
     bindE (mapErr (wrapf ''result_len'') (readTU64 L lenBytes)) (\<lambda>resultLen.
     bindE (requireTLV m resultTLVTypeResultContentType) (\<lambda>ctBytes.
     bindE (readUTF8String ctBytes ''result_content_type'') (\<lambda>ct.
     if ct = [] then Inl (errors_New ''result_content_type is required for status=ok'')
     else
     bindE (requireTLV m resultTLVTypeResultContentEncode) (\<lambda>ceBytes.
     bindE (readUTF8String ceBytes ''result_content_encoding'') (\<lambda>ce.
     if ce = [] then Inl (errors_New ''result_content_encoding is required for status=ok'')
     else Inr \<lparr>ok_ResultStreamID = streamID, ok_ResultHash = hash, ok_ResultLen = resultLen,
               ok_ResultContentType = ct, ok_ResultContentEncoding = ce\<rparr>))))))))))"

definition DecodeResult :: "tlv_lib \<Rightarrow> bytes \<Rightarrow> lcp_result res" where
  "DecodeResult L payload =
     bindE (decodeTLVMap L payload) (\<lambda>m.
     bindE (decodeJobEnvelope L m) (\<lambda>env.
     bindE (decodeResultStatus m) (\<lambda>status.
     bindE (decodeOptionalResultMessage m) (\<lambda>msg.
     if status \<noteq> ResultStatusOK
     then bindE (ensureNoResultOKMetadata m) (\<lambda>_.
          Inr \<lparr>rs_Envelope = env, rs_Status = status, rs_OK = None, rs_Message = msg\<rparr>)
     else bindE (decodeResultOKMetadata L m) (\<lambda>okMeta.
          Inr \<lparr>rs_Envelope = env, rs_Status = status, rs_OK = Some okMeta, rs_Message = None\<rparr>)))))"

section \<open>Cancel and error (cancel.go, error.go)\<close>

abbreviation cancelTLVTypeReason :: u64 where "cancelTLVTypeReason \<equiv> 70"
abbreviation errorTLVTypeCode :: u64 where "errorTLVTypeCode \<equiv> 80"
abbreviation errorTLVTypeMessage :: u64 where "errorTLVTypeMessage \<equiv> 81"

definition EncodeCancel :: "tlv_lib \<Rightarrow> lcp_cancel \<Rightarrow> bytes res" where
  "EncodeCancel L c =
     bindE (encodeJobEnvelope (cn_Envelope c)) (\<lambda>envelopeRecords.
     bindE (case cn_Reason c of
              None \<Rightarrow> Inr []
            | Some reason \<Rightarrow>
                bindE (validateUTF8String reason ''reason'') (\<lambda>_.
                Inr [(cancelTLVTypeReason, FVarBytes (string_bytes reason))])) (\<lambda>reason.
     encodeTLVStream L (envelopeRecords @ reason)))"

definition DecodeCancel :: "tlv_lib \<Rightarrow> bytes \<Rightarrow> lcp_cancel res" where
  "DecodeCancel L payload =
     bindE (decodeTLVMap L payload) (\<lambda>m.
     bindE (decodeJobEnvelope L m) (\<lambda>env.
     bindE (case map_of m cancelTLVTypeReason of
              None \<Rightarrow> Inr None
            | Some b \<Rightarrow> bindE (readUTF8String b ''reason'') (\<lambda>s. Inr (Some s))) (\<lambda>reason.
     Inr \<lparr>cn_Envelope = env, cn_Reason = reason\<rparr>)))"

definition EncodeError :: "tlv_lib \<Rightarrow> lcp_error \<Rightarrow> bytes res" where
  "EncodeError L e =
     bindE (encodeJobEnvelope (er_Envelope e)) (\<lambda>envelopeRecords.
     if er_Code e = 0 then Inl (errors_New ''code is required'')
     else
     bindE (case er_Message e of
              None \<Rightarrow> Inr []
            | Some msg \<Rightarrow>
                bindE (validateUTF8String msg ''message'') (\<lambda>_.
                Inr [(errorTLVTypeMessage, FVarBytes (string_bytes msg))])) (\<lambda>message.
     encodeTLVStream L (envelopeRecords @ [(errorTLVTypeCode, FUint16 (er_Code e))] @ message)))"

definition DecodeError :: "tlv_lib \<Rightarrow> bytes \<Rightarrow> lcp_error res" where
  "DecodeError L payload =
     bindE (decodeTLVMap L payload) (\<lambda>m.
     bindE (decodeJobEnvelope L m) (\<lambda>env.
     bindE (requireTLV m errorTLVTypeCode) (\<lambda>codeBytes.
     bindE (mapErr (wrapf ''code'') (readU16 codeBytes)) (\<lambda>code.
     if code = 0 then Inl (errors_New ''code is required'')
     else
     bindE (case map_of m errorTLVTypeMessage of
              None \<Rightarrow> Inr None
            | Some b \<Rightarrow> bindE (readUTF8String b ''message'') (\<lambda>s. Inr (Some s))) (\<lambda>msg.
     Inr \<lparr>er_Envelope = env, er_Code = code, er_Message = msg\<rparr>)))))"

section \<open>Task parameters (openai\_chat\_completions\_v1\_params.go, openai\_responses\_v1\_params.go)\<close>

abbreviation openAIChatCompletionsV1ParamsTLVTypeModel :: u64 where
  "openAIChatCompletionsV1ParamsTLVTypeModel \<equiv> 1"
abbreviation openAIResponsesV1ParamsTLVTypeModel :: u64 where
  "openAIResponsesV1ParamsTLVTypeModel \<equiv> 1"

definition EncodeOpenAIChatCompletionsV1Params :: "tlv_lib \<Rightarrow> openai_chat_params \<Rightarrow> bytes res" where
  "EncodeOpenAIChatCompletionsV1Params L p =
     (if cp_Model p = [] then Inl (errors_New ''model is required'')
      else bindE (validateUTF8String (cp_Model p) ''model'') (\<lambda>_.
      encodeTLVStream L
        [(openAIChatCompletionsV1ParamsTLVTypeModel, FVarBytes (string_bytes (cp_Model p)))]))"

definition DecodeOpenAIChatCompletionsV1Params :: "tlv_lib \<Rightarrow> bytes \<Rightarrow> openai_chat_params res" where
  "DecodeOpenAIChatCompletionsV1Params L payload =
     bindE (decodeTLVMap L payload) (\<lambda>m.
     bindE (requireTLV m openAIChatCompletionsV1ParamsTLVTypeModel) (\<lambda>modelBytes.
     bindE (readUTF8String modelBytes ''model'') (\<lambda>model.
     if model = [] then Inl (errors_New ''model is required'')
     else Inr \<lparr>cp_Model = model,
               cp_Unknown = filter (\<lambda>(typ, val). typ \<noteq> openAIChatCompletionsV1ParamsTLVTypeModel) m\<rparr>)))"

definition EncodeOpenAIResponsesV1Params :: "tlv_lib \<Rightarrow> openai_responses_params \<Rightarrow> bytes res" where
  "EncodeOpenAIResponsesV1Params L p =
     (if rp_Model p = [] then Inl (errors_New ''model is required'')
      else bindE (validateUTF8String (rp_Model p) ''model'') (\<lambda>_.
      encodeTLVStream L
        [(openAIResponsesV1ParamsTLVTypeModel, FVarBytes (string_bytes (rp_Model p)))]))"

definition DecodeOpenAIResponsesV1Params :: "tlv_lib \<Rightarrow> bytes \<Rightarrow> openai_responses_params res" where
  "DecodeOpenAIResponsesV1Params L payload =
     bindE (decodeTLVMap L payload) (\<lambda>m.
     bindE (requireTLV m openAIResponsesV1ParamsTLVTypeModel) (\<lambda>modelBytes.
     bindE (readUTF8String modelBytes ''model'') (\<lambda>model.
     if model = [] then Inl (errors_New ''model is required'')
     else Inr \<lparr>rp_Model = model,
               rp_Unknown = filter (\<lambda>(typ, val). typ \<noteq> openAIResponsesV1ParamsTLVTypeModel) m\<rparr>)))"

end
