(* ===== verification/Wire_Roundtrip.thy ===== *)
theory Wire_Roundtrip
  imports Wire
begin

text \<open>
  What the codecs of \<^verbatim>\<open>go-lcpd/internal/lcpwire\<close> promise each other: a message that
  encodes to a payload of at most 65535 bytes (the limit of a custom message) decodes to
  the message that was encoded, and a payload that decodes satisfies the constraints the
  decoders check. The lemmas are proved for every TLV package that keeps the laws of
  \<open>tlv_library\<close>.
\<close>

section \<open>Fields and streams\<close>

lemma readU16_u16_bytes [simp]: "readU16 (u16_bytes v) = Inr v"
  by (simp add: readU16_def)

lemma readBytes32_hash_bytes [simp]: "readBytes32 (hash_bytes h) = Inr h"
  by (simp add: readBytes32_def)

lemma readUTF8String_string_bytes [simp]:
  "utf8_ValidString s \<Longrightarrow> readUTF8String (string_bytes s) f = Inr s"
  by (simp add: readUTF8String_def utf8_ValidString_def)

lemma validateUTF8String_Inr [simp]: "validateUTF8String s f = Inr u \<longleftrightarrow> utf8_ValidString s"
  by (simp add: validateUTF8String_def)

lemma encodeJobEnvelope_Inr [simp]:
  "encodeJobEnvelope env = Inr recs \<longleftrightarrow> env_ProtocolVersion env \<noteq> 0 \<and>
     recs = [(tlvTypeProtocolVersion, FUint16 (env_ProtocolVersion env)),
             (tlvTypeJobID, FBytes32 (env_JobID env)), (tlvTypeMsgID, FBytes32 (env_MsgID env)),
             (tlvTypeExpiry, FTUint64 (env_Expiry env))]"
  by (auto simp: encodeJobEnvelope_def makeTU64Record_def)

lemma uint64ToInt_small [simp]: "unat v < 2 ^ 63 \<Longrightarrow> uint64ToInt v = Inr (unat v)"
  by (simp add: uint64ToInt_def)

lemmas record_defs = makeTU32Record_def makeTU64Record_def raw_record_def ascending_def

text \<open>The records that follow a job envelope: ascending types above the envelope's.\<close>

definition job_body :: "tlv_record list \<Rightarrow> bool" where
  "job_body recs \<longleftrightarrow> ascending recs \<and> (\<forall>(t, f) \<in> set recs. 4 < t)"

lemma ascending_job_records:
  assumes "encodeJobEnvelope e = Inr env" and "job_body recs"
  shows "ascending (env @ recs)"
proof -
  have "sorted_wrt (<) (map fst env)" and "\<forall>t \<in> fst ` set env. t \<le> 4"
    using assms(1) by (auto simp: word_le_nat_alt)
  then show ?thesis
    using assms(2) by (fastforce simp: job_body_def ascending_def sorted_wrt_append)
qed

lemmas decode_defs = requireTLV_def decodeJobEnvelope_def decodeProtocolVersionOnly_def

context tlv_library
begin

lemma readTU64_encodeTU64 [simp]: "readTU64 L (encodeTU64 v) = Inr v"
  by (simp add: readTU64_def dtuint64_complete)

lemma readTU32_encodeTU64 [simp]: "readTU32 L (encodeTU64 (ucast v)) = Inr v"
  by (simp add: readTU32_def dtuint32_complete)

lemma decodeTLVMap_eq: "decodeTLVMap L b = mapErr (wrapf ''decode tlv stream'') (tlv_DecodeP2P L b)"
  by (simp add: decodeTLVMap_def new_stream ascending_def)

lemma encode_decode_map:
  assumes "encodeTLVStream L recs = Inr b" and "length b \<le> MaxRecordSize" and "ascending recs"
  shows "\<exists>m. decodeTLVMap L b = Inr m \<and> gomap_wf m \<and> map_of m = map_of (map raw_record recs)"
proof -
  from assms have "tlv_Encode L recs = Inr b"
    by (simp add: encodeTLVStream_def new_stream res_simps)
  from stream_round_trip [OF assms(3) this assms(2)] show ?thesis
    by (auto simp: decodeTLVMap_eq)
qed

section \<open>Round trips of the messages\<close>

text \<open>
  The records of an encoder are ascending by their type numbers, so its payload decodes to
  a map with the same lookups; the decoder then reads every field back.
\<close>

lemma task_template_round_trip:
  assumes "EncodeTaskTemplate L t = Inr b" and "length b \<le> MaxRecordSize"
  shows "DecodeTaskTemplate L b = Inr t"
proof -
  let ?recs = "[(tlvTypeTaskKind, FVarBytes (string_bytes (tt_TaskKind t)))]
       @ (case tt_ParamsBytes t of None \<Rightarrow> [] | Some p \<Rightarrow> [(tlvTypeParams, FVarBytes p)])"
  from assms(1) have enc: "encodeTLVStream L ?recs = Inr b"
    and ok: "tt_TaskKind t \<noteq> []" "utf8_ValidString (tt_TaskKind t)"
    by (auto simp: EncodeTaskTemplate_def res_simps)
  have "ascending ?recs" by (simp add: ascending_def split: option.split)
  from encode_decode_map [OF enc assms(2) this] obtain m
    where "decodeTLVMap L b = Inr m" "map_of m = map_of (map raw_record ?recs)" by blast
  with ok show ?thesis
    by (cases "tt_ParamsBytes t") (simp_all add: raw_record_def DecodeTaskTemplate_def decode_defs)
qed

lemma job_payload:
  assumes "encodeTLVStream L (env @ recs) = Inr b" and "length b \<le> MaxRecordSize"
    and "encodeJobEnvelope e = Inr env" and "job_body recs"
  shows "\<exists>m. decodeTLVMap L b = Inr m \<and> decodeJobEnvelope L m = Inr e
           \<and> (\<forall>t. 4 < t \<longrightarrow> map_of m t = map_of (map raw_record recs) t)"
proof -
  from encode_decode_map [OF assms(1,2) ascending_job_records [OF assms(3,4)]] obtain m
    where "decodeTLVMap L b = Inr m" and m: "map_of m = map_of (map raw_record (env @ recs))" by blast
  moreover have "decodeJobEnvelope L m = Inr e"
    using m assms(3) by (simp add: raw_record_def decode_defs)
  moreover have "map_of m t = map_of (map raw_record recs) t" if "4 < t" for t
  proof -
    have "t \<notin> {1, 2, 3, 4}" using that by (auto simp: word_less_nat_alt)
    with m assms(3) show ?thesis by (simp add: raw_record_def)
  qed
  ultimately show ?thesis by blast
qed

lemma quote_request_round_trip:
  assumes "EncodeQuoteRequest L q = Inr b" and "length b \<le> MaxRecordSize"
  shows "DecodeQuoteRequest L b = Inr q"
proof -
  let ?recs = "[(tlvTypeTaskKind, FVarBytes (string_bytes (qr_TaskKind q)))]
       @ (case qr_ParamsBytes q of None \<Rightarrow> [] | Some p \<Rightarrow> [(tlvTypeParams, FVarBytes p)])"
  from assms(1) obtain env where enc: "encodeTLVStream L (env @ ?recs) = Inr b"
    and env: "encodeJobEnvelope (qr_Envelope q) = Inr env"
    and ok: "qr_TaskKind q \<noteq> []" "utf8_ValidString (qr_TaskKind q)"
    by (auto simp: EncodeQuoteRequest_def res_simps simp del: encodeJobEnvelope_Inr)
  have "job_body ?recs" by (simp add: job_body_def ascending_def split: option.split)
  from job_payload [OF enc assms(2) env this] obtain m
    where "decodeTLVMap L b = Inr m" "decodeJobEnvelope L m = Inr (qr_Envelope q)"
      "\<And>t. 4 < t \<Longrightarrow> map_of m t = map_of (map raw_record ?recs) t" by blast
  with ok show ?thesis
    by (cases "qr_ParamsBytes q") (simp_all add: raw_record_def DecodeQuoteRequest_def requireTLV_def)
qed

lemma quote_response_round_trip:
  assumes "EncodeQuoteResponse L q = Inr b" and "length b \<le> MaxRecordSize"
  shows "DecodeQuoteResponse L b = Inr q"
proof -
  let ?recs = "[(quoteResponseTLVTypePriceMsat, FTUint64 (qs_PriceMsat q)),
           (quoteResponseTLVTypeQuoteExpiry, FTUint64 (qs_QuoteExpiry q)),
           (quoteResponseTLVTypeTermsHash, FBytes32 (qs_TermsHash q)),
           (quoteResponseTLVTypePaymentRequest, FVarBytes (string_bytes (qs_PaymentRequest q)))]"
  from assms(1) obtain env where enc: "encodeTLVStream L (env @ ?recs) = Inr b"
    and env: "encodeJobEnvelope (qs_Envelope q) = Inr env"
    and ok: "qs_PaymentRequest q \<noteq> []" "utf8_ValidString (qs_PaymentRequest q)"
    by (auto simp: EncodeQuoteResponse_def res_simps makeTU64Record_def simp del: encodeJobEnvelope_Inr)
  have "job_body ?recs" by (simp add: job_body_def ascending_def split: option.split)
  from job_payload [OF enc assms(2) env this] obtain m
    where "decodeTLVMap L b = Inr m" "decodeJobEnvelope L m = Inr (qs_Envelope q)"
      "\<And>t. 4 < t \<Longrightarrow> map_of m t = map_of (map raw_record ?recs) t" by blast
  with ok show ?thesis by (simp add: raw_record_def DecodeQuoteResponse_def requireTLV_def)
qed

lemma stream_begin_round_trip:
  assumes "EncodeStreamBegin L s = Inr b" and "length b \<le> MaxRecordSize"
  shows "DecodeStreamBegin L b = Inr s"
proof -
  let ?recs = "[(streamTLVTypeStreamID, FBytes32 (sb_StreamID s)),
           (streamTLVTypeStreamKind, FUint16 (sb_Kind s))]
        @ (case sb_TotalLen s of None \<Rightarrow> [] | Some n \<Rightarrow> [(streamTLVTypeTotalLen, FTUint64 n)])
        @ (case sb_SHA256 s of None \<Rightarrow> [] | Some h \<Rightarrow> [(streamTLVTypeSHA256, FBytes32 h)])
        @ [(streamTLVTypeContentType, FVarBytes (string_bytes (sb_ContentType s))),
           (streamTLVTypeContentEncoding, FVarBytes (string_bytes (sb_ContentEncoding s)))]"
  from assms(1) obtain env where enc: "encodeTLVStream L (env @ ?recs) = Inr b"
    and env: "encodeJobEnvelope (sb_Envelope s) = Inr env"
    and ok: "sb_ContentType s \<noteq> []" "utf8_ValidString (sb_ContentType s)"
      "sb_ContentEncoding s \<noteq> []" "utf8_ValidString (sb_ContentEncoding s)"
      "sb_Kind s = StreamKindInput \<or> sb_Kind s = StreamKindResult"
    unfolding EncodeStreamBegin_def makeTU64Record_def res_simps validateUTF8String_Inr by blast
  have "job_body ?recs" by (simp add: job_body_def ascending_def split: option.split)
  from job_payload [OF enc assms(2) env this] obtain m
    where "decodeTLVMap L b = Inr m" "decodeJobEnvelope L m = Inr (sb_Envelope s)"
      "\<And>t. 4 < t \<Longrightarrow> map_of m t = map_of (map raw_record ?recs) t" by blast
  with ok show ?thesis
    by (cases "sb_TotalLen s"; cases "sb_SHA256 s"; elim disjE)
       (simp_all add: raw_record_def DecodeStreamBegin_def decodeStreamBeginBody_def requireTLV_def)
qed

lemma stream_chunk_round_trip:
  assumes "EncodeStreamChunk L c = Inr (b, mid)" and "length b \<le> MaxRecordSize"
  shows "DecodeStreamChunk L b = Inr (c\<lparr>sc_Envelope := (sc_Envelope c)\<lparr>env_MsgID := mid\<rparr>\<rparr>)
    \<and> mid = ComputeDeterministicStreamChunkMsgID (sc_StreamID c) (sc_Seq c)"
proof -
  from assms(1) obtain d where d: "sc_Data c = Some d"
    by (auto simp: EncodeStreamChunk_def split: option.splits)
  let ?recs = "[(streamTLVTypeStreamID, FBytes32 (sc_StreamID c)),
           (streamTLVTypeSeq, FTUint32 (sc_Seq c)), (streamTLVTypeData, FVarBytes d)]"
  let ?e = "(sc_Envelope c)\<lparr>env_MsgID := mid\<rparr>"
  from assms(1) d obtain env where enc: "encodeTLVStream L (env @ ?recs) = Inr b"
    and env: "encodeJobEnvelope ?e = Inr env"
    and mid: "mid = ComputeDeterministicStreamChunkMsgID (sc_StreamID c) (sc_Seq c)"
    by (auto simp: EncodeStreamChunk_def res_simps makeTU32Record_def Let_def simp del: encodeJobEnvelope_Inr)
  have "job_body ?recs" by (simp add: job_body_def ascending_def split: option.split)
  from job_payload [OF enc assms(2) env this] obtain m
    where "decodeTLVMap L b = Inr m" "decodeJobEnvelope L m = Inr ?e"
      "\<And>t. 4 < t \<Longrightarrow> map_of m t = map_of (map raw_record ?recs) t" by blast
  with d mid show ?thesis by (simp add: raw_record_def DecodeStreamChunk_def requireTLV_def)
qed

lemma stream_end_round_trip:
  assumes "EncodeStreamEnd L e = Inr b" and "length b \<le> MaxRecordSize"
  shows "DecodeStreamEnd L b = Inr e"
proof -
  let ?recs = "[(streamTLVTypeStreamID, FBytes32 (se_StreamID e)),
           (streamTLVTypeTotalLen, FTUint64 (se_TotalLen e)), (streamTLVTypeSHA256, FBytes32 (se_SHA256 e))]"
  from assms(1) obtain env where enc: "encodeTLVStream L (env @ ?recs) = Inr b"
    and env: "encodeJobEnvelope (se_Envelope e) = Inr env"
    by (auto simp: EncodeStreamEnd_def res_simps makeTU64Record_def simp del: encodeJobEnvelope_Inr)
  have "job_body ?recs" by (simp add: job_body_def ascending_def split: option.split)
  from job_payload [OF enc assms(2) env this] obtain m
    where "decodeTLVMap L b = Inr m" "decodeJobEnvelope L m = Inr (se_Envelope e)"
      "\<And>t. 4 < t \<Longrightarrow> map_of m t = map_of (map raw_record ?recs) t" by blast
  then show ?thesis by (simp add: raw_record_def DecodeStreamEnd_def requireTLV_def)
qed

lemma cancel_round_trip:
  assumes "EncodeCancel L c = Inr b" and "length b \<le> MaxRecordSize"
  shows "DecodeCancel L b = Inr c"
proof -
  let ?recs = "case cn_Reason c of None \<Rightarrow> []
      | Some reason \<Rightarrow> [(cancelTLVTypeReason, FVarBytes (string_bytes reason))]"
  from assms(1) obtain env where enc: "encodeTLVStream L (env @ ?recs) = Inr b"
    and env: "encodeJobEnvelope (cn_Envelope c) = Inr env"
    and ok: "\<And>r. cn_Reason c = Some r \<Longrightarrow> utf8_ValidString r"
    by (auto simp: EncodeCancel_def res_simps simp del: encodeJobEnvelope_Inr split: option.splits)
  have "job_body ?recs" by (simp add: job_body_def ascending_def split: option.split)
  from job_payload [OF enc assms(2) env this] obtain m
    where "decodeTLVMap L b = Inr m" "decodeJobEnvelope L m = Inr (cn_Envelope c)"
      "\<And>t. 4 < t \<Longrightarrow> map_of m t = map_of (map raw_record ?recs) t" by blast
  with ok show ?thesis
    by (cases "cn_Reason c") (simp_all add: raw_record_def DecodeCancel_def)
qed

lemma error_round_trip:
  assumes "EncodeError L e = Inr b" and "length b \<le> MaxRecordSize"
  shows "DecodeError L b = Inr e"
proof -
  let ?recs = "[(errorTLVTypeCode, FUint16 (er_Code e))] @ (case er_Message e of None \<Rightarrow> []
      | Some msg \<Rightarrow> [(errorTLVTypeMessage, FVarBytes (string_bytes msg))])"
  from assms(1) obtain env where enc: "encodeTLVStream L (env @ ?recs) = Inr b"
    and env: "encodeJobEnvelope (er_Envelope e) = Inr env"
    and ok: "er_Code e \<noteq> 0" "\<And>r. er_Message e = Some r \<Longrightarrow> utf8_ValidString r"
    by (auto simp: EncodeError_def res_simps simp del: encodeJobEnvelope_Inr split: option.splits)
  have "job_body ?recs" by (simp add: job_body_def ascending_def split: option.split)
  from job_payload [OF enc assms(2) env this] obtain m
    where "decodeTLVMap L b = Inr m" "decodeJobEnvelope L m = Inr (er_Envelope e)"
      "\<And>t. 4 < t \<Longrightarrow> map_of m t = map_of (map raw_record ?recs) t" by blast
  with ok show ?thesis
    by (cases "er_Message e") (simp_all add: raw_record_def DecodeError_def requireTLV_def)
qed

lemma result_ok_round_trip:
  assumes "EncodeResult L r = Inr b" and "length b \<le> MaxRecordSize" and st: "rs_Status r = ResultStatusOK"
  shows "DecodeResult L b = Inr r"
proof -
  from assms(1) st obtain ok where ok: "rs_OK r = Some ok"
    by (auto simp: EncodeResult_def res_simps Let_def split: option.splits)
  let ?recs = "[(resultTLVTypeStatus, FUint16 ResultStatusOK),
      (resultTLVTypeResultStreamID, FBytes32 (ok_ResultStreamID ok)),
      (resultTLVTypeResultHash, FBytes32 (ok_ResultHash ok)),
      (resultTLVTypeResultLen, FTUint64 (ok_ResultLen ok)),
      (resultTLVTypeResultContentType, FVarBytes (string_bytes (ok_ResultContentType ok))),
      (resultTLVTypeResultContentEncode, FVarBytes (string_bytes (ok_ResultContentEncoding ok)))]"
  from assms(1) ok st obtain env where enc: "encodeTLVStream L (env @ ?recs) = Inr b"
    and env: "encodeJobEnvelope (rs_Envelope r) = Inr env" and msg: "rs_Message r = None"
    and utf8: "ok_ResultContentType ok \<noteq> []" "utf8_ValidString (ok_ResultContentType ok)"
      "ok_ResultContentEncoding ok \<noteq> []" "utf8_ValidString (ok_ResultContentEncoding ok)"
    by (auto simp: EncodeResult_def res_simps makeTU64Record_def Let_def simp del: encodeJobEnvelope_Inr
        split: option.splits)
  have "job_body ?recs" by (simp add: job_body_def ascending_def)
  from job_payload [OF enc assms(2) env this] obtain m
    where "decodeTLVMap L b = Inr m" "decodeJobEnvelope L m = Inr (rs_Envelope r)"
      "\<And>t. 4 < t \<Longrightarrow> map_of m t = map_of (map raw_record ?recs) t" by blast
  with st ok msg utf8 show ?thesis
    by (simp add: raw_record_def DecodeResult_def decodeResultStatus_def decodeOptionalResultMessage_def
        decodeResultOKMetadata_def requireTLV_def)
qed

lemma result_terminal_round_trip:
  assumes "EncodeResult L r = Inr b" and "length b \<le> MaxRecordSize" and st: "rs_Status r \<noteq> ResultStatusOK"
  shows "DecodeResult L b = Inr r"
proof -
  let ?recs = "(case rs_Message r of None \<Rightarrow> []
      | Some msg \<Rightarrow> [(resultTLVTypeMessage, FVarBytes (string_bytes msg))])
      @ [(resultTLVTypeStatus, FUint16 (rs_Status r))]"
  from assms(1) st obtain env where enc: "encodeTLVStream L (env @ ?recs) = Inr b"
    and env: "encodeJobEnvelope (rs_Envelope r) = Inr env" and ok: "rs_OK r = None"
    and status: "rs_Status r = ResultStatusFailed \<or> rs_Status r = ResultStatusCancelled"
    and utf8: "\<And>s. rs_Message r = Some s \<Longrightarrow> utf8_ValidString s"
    by (auto simp: EncodeResult_def res_simps Let_def simp del: encodeJobEnvelope_Inr split: option.splits)
  have "job_body ?recs" by (simp add: job_body_def ascending_def split: option.split)
  from job_payload [OF enc assms(2) env this] obtain m
    where "decodeTLVMap L b = Inr m" "decodeJobEnvelope L m = Inr (rs_Envelope r)"
      "\<And>t. 4 < t \<Longrightarrow> map_of m t = map_of (map raw_record ?recs) t" by blast
  with ok status utf8 show ?thesis
    by (cases "rs_Message r"; elim disjE)
      (simp_all add: raw_record_def DecodeResult_def decodeResultStatus_def
        decodeOptionalResultMessage_def ensureNoResultOKMetadata_def requireTLV_def)
qed

lemma result_round_trip:
  assumes "EncodeResult L r = Inr b" and "length b \<le> MaxRecordSize"
  shows "DecodeResult L b = Inr r"
  using result_ok_round_trip [OF assms] result_terminal_round_trip [OF assms] by blast

text \<open>The parameters keep the model name; a parameter stream written here has no unknown records.\<close>

lemma model_map_singleton:
  assumes "gomap_wf m" and "map_of m = map_of [(k, v)]"
  shows "m = [(k, v)]"
proof -
  have "\<And>k' v'. (k', v') \<in> set m \<longleftrightarrow> k' = k \<and> v' = v"
    using assms by (simp add: gomap_wf_mem_iff) (metis option.inject option.distinct(1))
  then have set_m: "set m = {(k, v)}" by auto
  then obtain e m' where m: "m = e # m'" by (cases m) auto
  with set_m have "e = (k, v)" "set m' \<subseteq> {(k, v)}" by auto
  moreover have "e \<notin> set m'" using assms(1) m by (auto simp: gomap_wf_def)
  ultimately have "m' = []" by (cases m') auto
  with m \<open>e = (k, v)\<close> show ?thesis by simp
qed

lemma chat_params_round_trip:
  assumes "EncodeOpenAIChatCompletionsV1Params L p = Inr b" and "length b \<le> MaxRecordSize"
  shows "DecodeOpenAIChatCompletionsV1Params L b = Inr (p\<lparr>cp_Unknown := []\<rparr>)"
proof -
  let ?recs = "[(1, FVarBytes (string_bytes (cp_Model p)))]"
  from assms(1) have enc: "encodeTLVStream L ?recs = Inr b"
    and ok: "cp_Model p \<noteq> []" "utf8_ValidString (cp_Model p)"
    by (auto simp: EncodeOpenAIChatCompletionsV1Params_def res_simps)
  from encode_decode_map [OF enc assms(2)] obtain m
    where m: "decodeTLVMap L b = Inr m" "gomap_wf m" "map_of m = map_of (map raw_record ?recs)"
    by (auto simp: ascending_def)
  then have "m = [(1, string_bytes (cp_Model p))]"
    by (intro model_map_singleton) (simp_all add: raw_record_def)
  with m(1) ok show ?thesis by (simp add: DecodeOpenAIChatCompletionsV1Params_def requireTLV_def)
qed

lemma responses_params_round_trip:
  assumes "EncodeOpenAIResponsesV1Params L p = Inr b" and "length b \<le> MaxRecordSize"
  shows "DecodeOpenAIResponsesV1Params L b = Inr (p\<lparr>rp_Unknown := []\<rparr>)"
proof -
  let ?recs = "[(1, FVarBytes (string_bytes (rp_Model p)))]"
  from assms(1) have enc: "encodeTLVStream L ?recs = Inr b"
    and ok: "rp_Model p \<noteq> []" "utf8_ValidString (rp_Model p)"
    by (auto simp: EncodeOpenAIResponsesV1Params_def res_simps)
  from encode_decode_map [OF enc assms(2)] obtain m
    where m: "decodeTLVMap L b = Inr m" "gomap_wf m" "map_of m = map_of (map raw_record ?recs)"
    by (auto simp: ascending_def)
  then have "m = [(1, string_bytes (rp_Model p))]"
    by (intro model_map_singleton) (simp_all add: raw_record_def)
  with m(1) ok show ?thesis by (simp add: DecodeOpenAIResponsesV1Params_def requireTLV_def)
qed

section \<open>Byte lists\<close>

lemma encodeListItems_eq:
  "encodeListItems L i items =
     Inr (concat (map (\<lambda>x. encodeBigSize (word_of_nat (length x)) @ x) items))"
  by (induction items arbitrary: i) (simp_all add: write_varint)

lemma EncodeBytesList_eq:
  "EncodeBytesList L items =
     Inr (encodeBigSize (word_of_nat (length items))
          @ concat (map (\<lambda>x. encodeBigSize (word_of_nat (length x)) @ x) items))"
  by (simp add: EncodeBytesList_def encodeListItems_eq write_varint)

lemma decodeListItems_complete:
  assumes "unat sofar + sum_list (map length items) \<le> 1048576"
  shows "decodeListItems L i (length items)
           (concat (map (\<lambda>x. encodeBigSize (word_of_nat (length x)) @ x) items) @ r) sofar
         = Inr (items, r)"
  using assms
proof (induction items arbitrary: i sofar)
  case Nil
  then show ?case by simp
next
  case (Cons x items)
  have n: "unat (word_of_nat (length x) :: u64) = length x"
    using Cons.prems by (simp add: unat_of_nat)
  have add: "unat (sofar + word_of_nat (length x)) = unat sofar + length x"
    using Cons.prems by (subst unat_add_lem [THEN iffD1]) (simp_all add: n)
  have "decodeListItems L (Suc i) (length items)
      (concat (map (\<lambda>x. encodeBigSize (word_of_nat (length x)) @ x) items) @ r)
      (sofar + word_of_nat (length x)) = Inr (items, r)"
    using Cons.prems add by (intro Cons.IH) simp
  moreover have "\<not> maxBytesListTotalBytes < sofar + word_of_nat (length x)"
    using Cons.prems add by (simp add: word_less_nat_alt)
  ultimately show ?case
    using Cons.prems n by (simp add: read_varint_complete)
qed

lemma decodeListItems_sound:
  assumes "decodeListItems L i n b sofar = Inr (items, r)" and "unat sofar \<le> 1048576"
  shows "length items = n \<and> unat sofar + sum_list (map length items) \<le> 1048576
    \<and> b = concat (map (\<lambda>x. encodeBigSize (word_of_nat (length x)) @ x) items) @ r"
  using assms
proof (induction n arbitrary: i b sofar items)
  case 0
  then show ?case by simp
next
  case (Suc n)
  from Suc.prems(1) obtain w r1 items' where v: "tlv_ReadVarInt L b = Inr (w, r1)"
    and small: "unat w < 2 ^ 63" and enough: "unat w \<le> length r1"
    and lim: "\<not> maxBytesListTotalBytes < sofar + w"
    and rec: "decodeListItems L (Suc i) n (drop (unat w) r1) (sofar + w) = Inr (items', r)"
    and items: "items = take (unat w) r1 # items'"
    by (auto simp: res_simps uint64ToInt_def split: if_splits prod.splits)
  have add: "unat (sofar + w) = unat sofar + unat w"
    using Suc.prems(2) small by (subst unat_add_lem [THEN iffD1]) simp_all
  then have "unat (sofar + w) \<le> 1048576" using lim by (simp add: word_less_nat_alt)
  note IH = Suc.IH [OF rec this]
  have len: "length (take (unat w) r1) = unat w" using enough by simp
  have "b = encodeBigSize w @ take (unat w) r1 @ drop (unat w) r1"
    using read_varint_sound [OF v] by simp
  with IH have "b = concat (map (\<lambda>x. encodeBigSize (word_of_nat (length x)) @ x) items) @ r"
    by (simp add: items len del: length_take)
  with IH add items len show ?case by (simp del: length_take)
qed

lemma DecodeBytesList_iff:
  "DecodeBytesList L b = Inr items \<longleftrightarrow>
     length items \<le> 1024 \<and> sum_list (map length items) \<le> 1048576 \<and> EncodeBytesList L items = Inr b"
proof
  assume "DecodeBytesList L b = Inr items"
  then obtain w r where v: "tlv_ReadVarInt L b = Inr (w, r)" and w: "\<not> maxBytesListCount < w"
    and d: "decodeListItems L 0 (unat w) r 0 = Inr (items, [])"
    by (auto simp: DecodeBytesList_def res_simps split: if_splits prod.splits)
  from decodeListItems_sound [OF d] read_varint_sound [OF v] w
  show "length items \<le> 1024 \<and> sum_list (map length items) \<le> 1048576 \<and> EncodeBytesList L items = Inr b"
    by (auto simp: EncodeBytesList_eq word_less_nat_alt)
next
  assume a: "length items \<le> 1024 \<and> sum_list (map length items) \<le> 1048576 \<and> EncodeBytesList L items = Inr b"
  then have n: "unat (word_of_nat (length items) :: u64) = length items" by (simp add: unat_of_nat)
  with a have "\<not> maxBytesListCount < word_of_nat (length items)" by (simp add: word_less_nat_alt)
  with a n decodeListItems_complete [of 0 items 0 "[]"] show "DecodeBytesList L b = Inr items"
    by (auto simp: EncodeBytesList_eq DecodeBytesList_def read_varint_complete)
qed

section \<open>Manifest\<close>

lemma decodeTasks_encodeTasks:
  assumes "encodeTasks L i ts = Inr bs" and "\<forall>b \<in> set bs. length b \<le> MaxRecordSize"
  shows "decodeTasks L j bs = Inr ts \<and> length bs = length ts"
  using assms
proof (induction ts arbitrary: i j bs)
  case Nil
  then show ?case by simp
next
  case (Cons t ts)
  from Cons.prems obtain b bs' where "EncodeTaskTemplate L t = Inr b"
    "encodeTasks L (Suc i) ts = Inr bs'" "bs = b # bs'"
    by (auto simp: res_simps)
  with Cons task_template_round_trip [of t b] show ?case by simp
qed

lemma raw_stream_value_le:
  assumes "encodeTLVStream L recs = Inr b" and "ascending recs" and "(t, FVarBytes v) \<in> set recs"
  shows "length v \<le> length b"
proof -
  have "b = raw_stream (map raw_record recs)"
    using assms(1,2) by (simp add: encodeTLVStream_def new_stream encode res_simps)
  moreover have "(t, v) \<in> set (map raw_record recs)"
    using assms(3) by (force simp: raw_record_def)
  ultimately show ?thesis using value_length_le by blast
qed

lemma supported_tasks_round_trip:
  assumes "encodeTasks L 0 ts = Inr bs" and "EncodeBytesList L bs = Inr v" and "length v \<le> MaxRecordSize"
    and "length ts \<le> 1024"
  shows "bindE (mapErr f (DecodeBytesList L v)) (decodeTasks L 0) = Inr ts"
proof -
  have v: "v = encodeBigSize (word_of_nat (length bs))
      @ concat (map (\<lambda>x. encodeBigSize (word_of_nat (length x)) @ x) bs)"
    using assms(2) by (simp add: EncodeBytesList_eq)
  have "sum_list (map length bs)
      \<le> length (concat (map (\<lambda>x. encodeBigSize (word_of_nat (length x)) @ x) bs))"
    by (induction bs) auto
  then have sum: "sum_list (map length bs) \<le> length v" by (simp add: v)
  have "\<forall>b \<in> set bs. length b \<le> MaxRecordSize"
    using member_le_sum_list [of _ "map length bs"] sum assms(3) by fastforce
  from decodeTasks_encodeTasks [OF assms(1) this, of 0]
  have "decodeTasks L 0 bs = Inr ts" "length bs = length ts" by simp_all
  moreover have "DecodeBytesList L v = Inr bs"
    using DecodeBytesList_iff sum assms \<open>length bs = length ts\<close> by simp
  ultimately show ?thesis by simp
qed

lemma manifest_round_trip:
  assumes "EncodeManifest L m = Inr b" and "length b \<le> MaxRecordSize"
    and "length (mf_SupportedTasks m) \<le> 1024"
  shows "DecodeManifest L b = Inr m"
proof -
  from assms(1) obtain tasks where
    enc: "encodeTLVStream L ([(tlvTypeProtocolVersion, FUint16 (mf_ProtocolVersion m)),
            (manifestTLVTypeMaxPayloadBytes, FTUint32 (mf_MaxPayloadBytes m))]
           @ tasks
           @ [(manifestTLVTypeMaxStreamBytes, FTUint64 (mf_MaxStreamBytes m)),
              (manifestTLVTypeMaxJobBytes, FTUint64 (mf_MaxJobBytes m))]
           @ (case mf_MaxInflightJobs m of
                None \<Rightarrow> [] | Some n \<Rightarrow> [(manifestTLVTypeMaxInflightJobs, FUint16 n)])) = Inr b"
    (is "encodeTLVStream L ?recs = _")
    and tasks: "mf_SupportedTasks m = [] \<and> tasks = [] \<or> mf_SupportedTasks m \<noteq> [] \<and> (\<exists>bs v. encodeTasks L 0 (mf_SupportedTasks m) = Inr bs
         \<and> EncodeBytesList L bs = Inr v \<and> tasks = [(manifestTLVTypeSupportedTasks, FVarBytes v)])"
    and ok: "mf_MaxPayloadBytes m \<noteq> 0" "mf_MaxStreamBytes m \<noteq> 0" "mf_MaxJobBytes m \<noteq> 0"
    unfolding EncodeManifest_def res_simps makeTU32Record_def makeTU64Record_def
    by (auto split: if_splits simp: res_simps)
  have asc: "ascending ?recs"
    using tasks by (auto simp: ascending_def split: option.split)
  from encode_decode_map [OF enc assms(2) asc] obtain dm
    where "decodeTLVMap L b = Inr dm" and dm: "map_of dm = map_of (map raw_record ?recs)" by blast
  moreover have "decodeManifestSupportedTasks L dm = Inr (mf_SupportedTasks m)"
    using tasks
  proof (elim disjE conjE exE)
    assume "mf_SupportedTasks m = []" "tasks = []"
    then show ?thesis
      by (cases "mf_MaxInflightJobs m") (simp_all add: dm raw_record_def decodeManifestSupportedTasks_def)
  next
    fix bs v
    assume t: "encodeTasks L 0 (mf_SupportedTasks m) = Inr bs" "EncodeBytesList L bs = Inr v"
      "tasks = [(manifestTLVTypeSupportedTasks, FVarBytes v)]"
    then have "length v \<le> MaxRecordSize"
      using raw_stream_value_le [OF enc asc, of manifestTLVTypeSupportedTasks v] assms(2) by simp
    from supported_tasks_round_trip [OF t(1,2) this assms(3)] t(3) show ?thesis
      by (simp add: dm raw_record_def decodeManifestSupportedTasks_def)
  qed
  ultimately show ?thesis
    using ok tasks
    by (cases "mf_MaxInflightJobs m")
      (auto simp add: raw_record_def DecodeManifest_def validateJobScopeNotPresent_def
        decodeProtocolVersionOnly_def decodeManifestMaxPayloadBytes_def decodeManifestMaxStreamBytes_def
        decodeManifestMaxJobBytes_def decodeManifestMaxInflightJobs_def requireTLV_def)
qed

lemma DecodeStreamChunk_msg_id:
  "DecodeStreamChunk L b = Inr c \<Longrightarrow>
   env_MsgID (sc_Envelope c) = ComputeDeterministicStreamChunkMsgID (sc_StreamID c) (sc_Seq c)
   \<and> sc_Data c \<noteq> None"
  by (auto simp: DecodeStreamChunk_def res_simps)

lemma DecodeManifest_limits:
  assumes "DecodeManifest L b = Inr m"
  shows "mf_MaxPayloadBytes m \<noteq> 0 \<and> mf_MaxStreamBytes m \<noteq> 0 \<and> mf_MaxJobBytes m \<noteq> 0"
  using assms
  by (auto simp: DecodeManifest_def decodeManifestMaxPayloadBytes_def decodeManifestMaxStreamBytes_def
      decodeManifestMaxJobBytes_def res_simps)

lemma decodeTasks_length: "decodeTasks L i bs = Inr ts \<Longrightarrow> length ts = length bs"
  by (induction bs arbitrary: i ts) (auto simp: res_simps)

lemma decodeTasks_kinds: "decodeTasks L i bs = Inr ts \<Longrightarrow> \<forall>t \<in> set ts. tt_TaskKind t \<noteq> []"
  by (induction bs arbitrary: i ts) (auto simp: res_simps DecodeTaskTemplate_def)

lemma DecodeManifest_tasks:
  assumes "DecodeManifest L b = Inr m"
  shows "length (mf_SupportedTasks m) \<le> 1024 \<and> (\<forall>t \<in> set (mf_SupportedTasks m). tt_TaskKind t \<noteq> [])"
proof -
  from assms obtain dm where "decodeManifestSupportedTasks L dm = Inr (mf_SupportedTasks m)"
    by (auto simp: DecodeManifest_def res_simps)
  then show ?thesis
    by (auto simp: decodeManifestSupportedTasks_def res_simps DecodeBytesList_iff split: option.splits
        dest: decodeTasks_length decodeTasks_kinds)
qed

end

lemma chunk_data_length:
  assumes "tlv_library L" and "DecodeStreamChunk L b = Inr c"
  shows "length (chunkData c) \<le> 65535"
proof -
  from assms(2) obtain m d where m: "decodeTLVMap L b = Inr m" and d: "requireTLV m streamTLVTypeData = Inr d"
    and c: "chunkData c = d"
    by (auto simp: DecodeStreamChunk_def res_simps chunkData_def)
  from m have "tlv_DecodeP2P L b = Inr m" by (auto simp: decodeTLVMap_def res_simps split: option.splits)
  from tlv_library.decode_sound [OF assms(1) this] obtain kvs
    where "\<forall>(t, v) \<in> set kvs. length v \<le> 65535" "map_of m = map_of kvs" by auto
  moreover have "map_of m streamTLVTypeData = Some d" using d by (auto simp: requireTLV_def split: option.splits)
  ultimately show ?thesis unfolding c by (metis case_prodD map_of_SomeD)
qed

section \<open>Properties\<close>

text \<open>Concrete messages for the witnesses, encoded with the codec \<open>bolt_lib\<close>.\<close>

definition sample_envelope :: job_envelope where
  "sample_envelope = \<lparr>env_ProtocolVersion = 2, env_JobID = 7, env_MsgID = 9, env_Expiry = 1000\<rparr>"

definition sample_chunk :: stream_chunk where
  "sample_chunk = \<lparr>sc_Envelope = sample_envelope, sc_StreamID = 3, sc_Seq = 0, sc_Data = Some [1, 2, 3]\<rparr>"

definition fits :: "bytes res \<Rightarrow> bool" where
  "fits r = (case r of Inl e \<Rightarrow> False | Inr b \<Rightarrow> length b < 400)"

lemma fits_Inr: "fits r \<Longrightarrow> \<exists>b. r = Inr b \<and> length b \<le> MaxRecordSize"
  by (auto simp: fits_def split: sum.splits)

lemma length_raw_stream_le:
  "length (raw_stream kvs) \<le> sum_list (map (\<lambda>(t, v). 18 + length v) kvs)"
proof (induction kvs)
  case Nil
  then show ?case by (simp add: raw_stream_def)
next
  case (Cons kv kvs)
  obtain t v where kv: "kv = (t, v)" by (cases kv)
  have "length (encodeTLV t v) \<le> 18 + length v"
    using length_encodeBigSize_bounds [of t] length_encodeBigSize_bounds [of "word_of_nat (length v)"]
    by (simp add: encodeTLV_def)
  with Cons show ?case by (simp add: raw_stream_def kv)
qed

lemma sample_chunk_encodes:
  "\<exists>b mid. EncodeStreamChunk bolt_lib sample_chunk = Inr (b, mid) \<and> length b \<le> MaxRecordSize"
proof -
  let ?mid = "ComputeDeterministicStreamChunkMsgID 3 0"
  let ?recs = "[(1, FUint16 2), (2, FBytes32 7), (3, FBytes32 ?mid), (4, FTUint64 1000),
      (90, FBytes32 3), (96, FTUint32 0), (97, FVarBytes [1, 2, 3])] :: tlv_record list"
  have "EncodeStreamChunk bolt_lib sample_chunk = Inr (raw_stream (map raw_record ?recs), ?mid)"
    by (simp add: EncodeStreamChunk_def sample_chunk_def sample_envelope_def encodeJobEnvelope_def
        encodeTLVStream_def bolt_lib_def record_defs Let_def)
  moreover have "length (raw_stream (map raw_record ?recs)) \<le> MaxRecordSize"
    by (rule order_trans [OF length_raw_stream_le])
      (use length_encodeTU64 [of 1000] length_encodeTU64 [of 0] in \<open>simp add: raw_record_def\<close>)
  ultimately show ?thesis by blast
qed

text \<open>
  C26. The quote handshake survives the wire: a quote request, a quote response, a
  cancellation or an error that the sender encodes into a payload that fits a custom
  message is decoded by the receiver to exactly the message that was sent.
\<close>

theorem handshake_messages_round_trip:
  assumes "tlv_library L" and "length b \<le> MaxRecordSize"
  shows "(EncodeQuoteRequest L q = Inr b \<longrightarrow> DecodeQuoteRequest L b = Inr q)
    \<and> (EncodeQuoteResponse L s = Inr b \<longrightarrow> DecodeQuoteResponse L b = Inr s)
    \<and> (EncodeCancel L c = Inr b \<longrightarrow> DecodeCancel L b = Inr c)
    \<and> (EncodeError L e = Inr b \<longrightarrow> DecodeError L b = Inr e)"
  using assms tlv_library.quote_request_round_trip tlv_library.quote_response_round_trip
    tlv_library.cancel_round_trip tlv_library.error_round_trip by blast

theorem handshake_messages_round_trip_witness:
  "\<exists>b1 b2 b3 b4.
     DecodeQuoteRequest bolt_lib b1 = Inr \<lparr>qr_Envelope = sample_envelope, qr_TaskKind = ''t'', qr_ParamsBytes = None\<rparr>
   \<and> DecodeQuoteResponse bolt_lib b2 = Inr \<lparr>qs_Envelope = sample_envelope, qs_PriceMsat = 100,
        qs_QuoteExpiry = 1000, qs_TermsHash = 5, qs_PaymentRequest = ''lnbc''\<rparr>
   \<and> DecodeCancel bolt_lib b3 = Inr \<lparr>cn_Envelope = sample_envelope, cn_Reason = Some ''r''\<rparr>
   \<and> DecodeError bolt_lib b4 = Inr \<lparr>er_Envelope = sample_envelope, er_Code = 8, er_Message = None\<rparr>"
proof -
  have "fits (EncodeQuoteRequest bolt_lib \<lparr>qr_Envelope = sample_envelope, qr_TaskKind = ''t'', qr_ParamsBytes = None\<rparr>)"
    and "fits (EncodeQuoteResponse bolt_lib \<lparr>qs_Envelope = sample_envelope, qs_PriceMsat = 100,
        qs_QuoteExpiry = 1000, qs_TermsHash = 5, qs_PaymentRequest = ''lnbc''\<rparr>)"
    and "fits (EncodeCancel bolt_lib \<lparr>cn_Envelope = sample_envelope, cn_Reason = Some ''r''\<rparr>)"
    and "fits (EncodeError bolt_lib \<lparr>er_Envelope = sample_envelope, er_Code = 8, er_Message = None\<rparr>)"
    by code_simp+
  from this [THEN fits_Inr] show ?thesis
    using handshake_messages_round_trip [OF bolt.tlv_library_axioms] by metis
qed

text \<open>
  C27. The stream messages and the terminal result survive the wire; a stream chunk is
  decoded with the message id that its stream id and sequence number determine, whatever
  message id the sender had put in the envelope.
\<close>

theorem stream_messages_round_trip:
  assumes "tlv_library L" and "length b \<le> MaxRecordSize"
  shows "(EncodeStreamBegin L s = Inr b \<longrightarrow> DecodeStreamBegin L b = Inr s)
    \<and> (EncodeStreamChunk L c = Inr (b, mid) \<longrightarrow>
         DecodeStreamChunk L b = Inr (c\<lparr>sc_Envelope := (sc_Envelope c)\<lparr>env_MsgID := mid\<rparr>\<rparr>)
         \<and> mid = ComputeDeterministicStreamChunkMsgID (sc_StreamID c) (sc_Seq c))
    \<and> (EncodeStreamEnd L e = Inr b \<longrightarrow> DecodeStreamEnd L b = Inr e)
    \<and> (EncodeResult L r = Inr b \<longrightarrow> DecodeResult L b = Inr r)"
  using assms tlv_library.stream_begin_round_trip tlv_library.stream_chunk_round_trip
    tlv_library.stream_end_round_trip tlv_library.result_round_trip by blast

theorem stream_messages_round_trip_witness:
  "\<exists>b mid b'.
     DecodeStreamChunk bolt_lib b = Inr (sample_chunk\<lparr>sc_Envelope := sample_envelope\<lparr>env_MsgID := mid\<rparr>\<rparr>)
   \<and> mid = ComputeDeterministicStreamChunkMsgID 3 0
   \<and> DecodeResult bolt_lib b' = Inr \<lparr>rs_Envelope = sample_envelope, rs_Status = ResultStatusFailed,
        rs_OK = None, rs_Message = Some ''m''\<rparr>"
    (is "\<exists>b mid b'. _ \<and> _ \<and> _ = Inr ?r")
proof -
  have "fits (EncodeResult bolt_lib ?r)" by code_simp
  from fits_Inr [OF this] sample_chunk_encodes obtain b mid b' where
    c: "EncodeStreamChunk bolt_lib sample_chunk = Inr (b, mid)" "length b \<le> MaxRecordSize"
    and r: "EncodeResult bolt_lib ?r = Inr b'" "length b' \<le> MaxRecordSize" by blast
  have "DecodeResult bolt_lib b' = Inr ?r"
    using stream_messages_round_trip [OF bolt.tlv_library_axioms r(2)] r(1) by blast
  moreover have "sc_Envelope sample_chunk = sample_envelope" "sc_StreamID sample_chunk = 3" "sc_Seq sample_chunk = 0"
    by (simp_all add: sample_chunk_def)
  ultimately show ?thesis
    using stream_messages_round_trip [OF bolt.tlv_library_axioms c(2), of _ sample_chunk mid] c(1) by metis
qed

text \<open>
  C28. A manifest with at most 1024 supported tasks survives the wire, and every manifest a
  node accepts has non-zero payload, stream and job limits, at most 1024 supported tasks
  and no task without a kind.
\<close>

theorem manifest_wire_contract:
  assumes "tlv_library L"
  shows "(EncodeManifest L m = Inr b \<and> length b \<le> MaxRecordSize \<and> length (mf_SupportedTasks m) \<le> 1024
            \<longrightarrow> DecodeManifest L b = Inr m)
    \<and> (DecodeManifest L p = Inr m' \<longrightarrow>
         mf_MaxPayloadBytes m' \<noteq> 0 \<and> mf_MaxStreamBytes m' \<noteq> 0 \<and> mf_MaxJobBytes m' \<noteq> 0
         \<and> length (mf_SupportedTasks m') \<le> 1024
         \<and> list_all (\<lambda>t. tt_TaskKind t \<noteq> []) (mf_SupportedTasks m'))"
  using tlv_library.manifest_round_trip [OF assms] tlv_library.DecodeManifest_limits [OF assms]
    tlv_library.DecodeManifest_tasks [OF assms]
  by (auto simp: list_all_iff)

theorem manifest_wire_contract_witness:
  "\<exists>b. DecodeManifest bolt_lib b = Inr \<lparr>mf_ProtocolVersion = 2, mf_MaxPayloadBytes = 200,
     mf_MaxStreamBytes = 300, mf_MaxJobBytes = 300, mf_MaxInflightJobs = Some 4,
     mf_SupportedTasks = [\<lparr>tt_TaskKind = ''t'', tt_ParamsBytes = None\<rparr>]\<rparr>"
    (is "\<exists>b. _ b = Inr ?m")
proof -
  have "fits (EncodeManifest bolt_lib ?m)" by code_simp
  from fits_Inr [OF this] obtain b where
    "EncodeManifest bolt_lib ?m = Inr b" "length b \<le> MaxRecordSize" by blast
  moreover have "length (mf_SupportedTasks ?m) \<le> 1024" by simp
  ultimately show ?thesis
    using manifest_wire_contract [OF bolt.tlv_library_axioms, of ?m b] by blast
qed

text \<open>
  C36. The byte-list codec is exact: a byte string decodes to a list precisely when the
  list has at most 1024 items of at most 1 MiB in all and encodes to that byte string, so
  no two encodings decode to one list and the running total cannot wrap around.
\<close>

theorem bytes_list_codec_exact:
  assumes "tlv_library L"
  shows "DecodeBytesList L b = Inr items \<longleftrightarrow>
    length items \<le> 1024 \<and> sum_list (map length items) \<le> 1048576 \<and> EncodeBytesList L items = Inr b"
  by (rule tlv_library.DecodeBytesList_iff [OF assms])

theorem bytes_list_codec_exact_witness:
  "DecodeBytesList bolt_lib [2, 1, 7, 0] = Inr [[7], []]"
  unfolding bytes_list_codec_exact [OF bolt.tlv_library_axioms]
  by (simp, code_simp)

text \<open>
  The task parameters survive the wire: an encoded parameter record decodes to the
  same model with no unknown records.
\<close>

theorem task_params_round_trip:
  assumes "tlv_library L" and "length b \<le> MaxRecordSize"
  shows "(EncodeOpenAIChatCompletionsV1Params L p = Inr b \<longrightarrow>
           DecodeOpenAIChatCompletionsV1Params L b = Inr (p\<lparr>cp_Unknown := []\<rparr>))
    \<and> (EncodeOpenAIResponsesV1Params L q = Inr b \<longrightarrow>
           DecodeOpenAIResponsesV1Params L b = Inr (q\<lparr>rp_Unknown := []\<rparr>))"
  using assms tlv_library.chat_params_round_trip tlv_library.responses_params_round_trip by blast

theorem task_params_round_trip_witness:
  "\<exists>b. DecodeOpenAIChatCompletionsV1Params bolt_lib b = Inr \<lparr>cp_Model = ''m'', cp_Unknown = []\<rparr>"
    (is "\<exists>b. _ b = Inr ?p")
proof -
  have "fits (EncodeOpenAIChatCompletionsV1Params bolt_lib ?p)" by code_simp
  from fits_Inr [OF this] obtain b where
    "EncodeOpenAIChatCompletionsV1Params bolt_lib ?p = Inr b" "length b \<le> MaxRecordSize" by blast
  then show ?thesis
    using task_params_round_trip [OF bolt.tlv_library_axioms, of b ?p] by auto
qed

end
