(* ===== verification/Envconfig.thy ===== *)
theory Envconfig
  imports Go_Std
begin

text \<open>
  The environment readers of \<^verbatim>\<open>go-lcpd/internal/envconfig/envconfig.go\<close>: a variable that is
  unset, blank, malformed or out of range gives the default. The environment is a function
  that returns the empty string for an unset variable, as \<^verbatim>\<open>os.Getenv\<close> does.
\<close>

type_synonym os_env = "string \<Rightarrow> string"

section \<open>Decimal numbers (strconv)\<close>

definition digit_value :: "char \<Rightarrow> nat option" where
  "digit_value c = (let n = of_char c in if 48 \<le> n \<and> n \<le> 57 then Some (n - 48) else None)"

fun parse_digits :: "nat \<Rightarrow> string \<Rightarrow> nat option" where
  "parse_digits acc [] = Some acc"
| "parse_digits acc (c # cs) =
     (case digit_value c of None \<Rightarrow> None | Some d \<Rightarrow> parse_digits (10 * acc + d) cs)"

definition strconv_ParseUint :: "string \<Rightarrow> nat option" where
  "strconv_ParseUint s =
     (if s = [] then None
      else (case parse_digits 0 s of
        None \<Rightarrow> None
      | Some n \<Rightarrow> if n < 18446744073709551616 then Some n else None))"

text \<open>A signed number may carry one sign; the magnitude of a negative one reaches \<open>2 ^ 63\<close>.\<close>

definition strconv_ParseInt :: "string \<Rightarrow> int option" where
  "strconv_ParseInt s =
     (case s of
        [] \<Rightarrow> None
      | c # cs \<Rightarrow>
          (let neg = (c = CHR ''-''); body = (if c = CHR ''-'' \<or> c = CHR ''+'' then cs else s) in
           case strconv_ParseUint body of
             None \<Rightarrow> None
           | Some n \<Rightarrow>
               if \<not> neg \<and> 9223372036854775808 \<le> n then None
               else if neg \<and> 9223372036854775808 < n then None
               else Some (if neg then - int n else int n)))"

section \<open>Readers\<close>

definition envconfig_Uint64 :: "os_env \<Rightarrow> string \<Rightarrow> u64 \<Rightarrow> u64" where
  "envconfig_Uint64 env name def =
     (let raw = strings_TrimSpace (env name) in
      if raw = [] then def
      else (case strconv_ParseUint raw of None \<Rightarrow> def | Some v \<Rightarrow> word_of_nat v))"

definition envconfig_Int64 :: "os_env \<Rightarrow> string \<Rightarrow> int \<Rightarrow> int" where
  "envconfig_Int64 env name def =
     (let raw = strings_TrimSpace (env name) in
      if raw = [] then def
      else (case strconv_ParseInt raw of None \<Rightarrow> def | Some v \<Rightarrow> v))"

definition envconfig_Int :: "os_env \<Rightarrow> string \<Rightarrow> int \<Rightarrow> int" where
  "envconfig_Int env name def =
     (let raw = strings_TrimSpace (env name) in
      if raw = [] then def
      else (case strconv_ParseInt raw of None \<Rightarrow> def | Some v \<Rightarrow> v))"

section \<open>Reading back a printed number\<close>

lemma parse_digits_append:
  "parse_digits acc (s @ t) = (case parse_digits acc s of None \<Rightarrow> None | Some n \<Rightarrow> parse_digits n t)"
  by (induction s arbitrary: acc) (auto split: option.splits)

lemma digit_value_char_of [simp]: "d < 10 \<Longrightarrow> digit_value (char_of (48 + d)) = Some d"
  by (simp add: digit_value_def Let_def)

lemma parse_digits_show_nat: "parse_digits 0 (show_nat n) = Some n"
proof (induction n rule: show_nat.induct)
  case (1 n)
  show ?case
  proof (cases "n < 10")
    case True
    then show ?thesis by (simp add: show_nat.simps [of n])
  next
    case False
    with 1 show ?thesis by (simp add: show_nat.simps [of n] parse_digits_append)
  qed
qed

lemma show_nat_nonempty [simp]: "show_nat n \<noteq> []"
  by (simp add: show_nat.simps [of n])

lemma strconv_ParseUint_show_nat: "n < 2 ^ 64 \<Longrightarrow> strconv_ParseUint (show_nat n) = Some n"
  by (simp add: strconv_ParseUint_def parse_digits_show_nat)

lemma show_nat_digits: "c \<in> set (show_nat n) \<Longrightarrow> 48 \<le> (of_char c :: nat) \<and> (of_char c :: nat) \<le> 57"
proof (induction n rule: show_nat.induct)
  case (1 n)
  have "(48 + n mod 10) mod 256 = 48 + n mod 10" "n < 10 \<Longrightarrow> (48 + n) mod 256 = 48 + n" by auto
  with 1 show ?case
    by (cases "n < 10") (auto simp: show_nat.simps [of n] of_char_of simp del: mod_less)
qed

lemma TrimSpace_show_nat: "strings_TrimSpace (show_nat n) = show_nat n"
proof -
  have ns: "\<not> is_space c" if "c \<in> set (show_nat n)" for c
    using show_nat_digits [OF that] by (simp add: is_space_def Let_def)
  have "dropWhile is_space (show_nat n) = show_nat n"
    by (metis dropWhile_eq_self_iff ns hd_in_set)
  moreover have "dropWhile is_space (rev (show_nat n)) = rev (show_nat n)"
    by (metis dropWhile_eq_self_iff ns hd_in_set set_rev)
  ultimately show ?thesis by (simp add: strings_TrimSpace_def)
qed

lemma Uint64_reads_back:
  "env name = show_nat (unat v) \<Longrightarrow> envconfig_Uint64 env name def = v"
  using unsigned_less [of v, where 'a = nat]
  by (simp add: envconfig_Uint64_def TrimSpace_show_nat strconv_ParseUint_show_nat)

lemma strconv_ParseInt_range:
  "strconv_ParseInt s = Some v \<Longrightarrow> - 9223372036854775808 \<le> v \<and> v \<le> 9223372036854775807"
  by (auto simp: strconv_ParseInt_def Let_def split: list.splits option.splits if_splits)

end
