(* ===== verification/Store_Interface.thy ===== *)
theory Store_Interface
  imports Envconfig
begin

text \<open>
  The contract that the two job stores share: a capacity that a loop enforces by evicting
  the oldest entry, first among the entries of a preferred kind and, when there is none
  left, among all. The locale fixes one eviction step and the loop; its lemmas say what
  the loop leaves behind. The stores interpret it with their own operations.
\<close>

locale evicting_store =
  fixes evict :: "bool \<Rightarrow> ('k \<times> 'v) list \<Rightarrow> ('k \<times> 'v) list option"
    and loop :: "nat \<Rightarrow> ('k \<times> 'v) list \<Rightarrow> ('k \<times> 'v) list"
    and preferred :: "'v \<Rightarrow> bool"
    and age :: "'v \<Rightarrow> int"
  assumes evict_some:
      "gomap_wf m \<Longrightarrow> evict pref m = Some m' \<Longrightarrow>
       \<exists>k v. map_of m k = Some v \<and> m' = AList.delete k m \<and> (pref \<longrightarrow> preferred v)
         \<and> (\<forall>(k', v') \<in> set m. (pref \<longrightarrow> preferred v') \<longrightarrow> age v \<le> age v')"
    and evict_none: "evict pref m = None \<longleftrightarrow> (\<forall>(k, v) \<in> set m. pref \<and> \<not> preferred v)"
    and loop_eq:
      "gomap_wf m \<Longrightarrow>
       loop cap m =
         (if cap < length m
          then (case evict True m of
                  Some m' \<Rightarrow> loop cap m'
                | None \<Rightarrow> (case evict False m of Some m' \<Rightarrow> loop cap m' | None \<Rightarrow> m))
          else m)"
begin

text \<open>Every step of the loop removes exactly one entry, so the loop stops at the capacity.\<close>

lemma loop_step:
  assumes "gomap_wf m" and "cap < length m"
  shows "\<exists>k v. map_of m k = Some v \<and> loop cap m = loop cap (AList.delete k m)
      \<and> (preferred v \<or> (\<forall>(k', v') \<in> set m. \<not> preferred v'))
      \<and> (\<forall>(k', v') \<in> set m. (preferred v' \<or> \<not> preferred v) \<longrightarrow> age v \<le> age v')"
proof (cases "evict True m")
  case None
  then have np: "\<forall>(k', v') \<in> set m. \<not> preferred v'" by (simp add: evict_none)
  have "m \<noteq> []" using assms(2) by auto
  then have "evict False m \<noteq> None" by (simp add: evict_none split_paired_Ball_Sigma)
  then obtain m' where e: "evict False m = Some m'" by blast
  then have "loop cap m = loop cap m'" using assms None by (simp add: loop_eq)
  with evict_some [OF assms(1) e] np show ?thesis by blast
next
  case (Some m')
  then have "loop cap m = loop cap m'" using assms by (simp add: loop_eq)
  with evict_some [OF assms(1) Some] show ?thesis by fastforce
qed

lemma loop_result:
  assumes "gomap_wf m"
  shows "gomap_wf (loop cap m) \<and> set (loop cap m) \<subseteq> set m \<and> length (loop cap m) = min cap (length m)"
  using assms
proof (induction "length m" arbitrary: m rule: less_induct)
  case less
  show ?case
  proof (cases "cap < length m")
    case False
    then show ?thesis using less.prems by (simp add: loop_eq)
  next
    case True
    then obtain k v where kv: "map_of m k = Some v" and eq: "loop cap m = loop cap (AList.delete k m)"
      using loop_step [OF less.prems] by blast
    have len: "Suc (length (AList.delete k m)) = length m"
      using length_delete_exact [OF less.prems kv] .
    then have "length (AList.delete k m) < length m" by simp
    note IH = less.hyps [OF this gomap_wf_delete [OF less.prems]]
    have "set (AList.delete k m) \<subseteq> set m" by (auto simp: AList.delete_eq)
    with IH True len show ?thesis unfolding eq by auto
  qed
qed

lemma loop_id: "gomap_wf m \<Longrightarrow> length m \<le> cap \<Longrightarrow> loop cap m = m"
  by (simp add: loop_eq)

lemma mem_delete_iff: "e \<in> set (AList.delete k m) \<longleftrightarrow> e \<in> set m \<and> fst e \<noteq> k"
  by (auto simp: AList.delete_eq)

text \<open>
  An entry that is not of the preferred kind is evicted only when no preferred entry is
  left, and among entries of one kind the older are evicted first.
\<close>

lemma loop_order:
  assumes "gomap_wf m" and "(k, v) \<in> set m" and "(k, v) \<notin> set (loop cap m)"
    and "(k', v') \<in> set (loop cap m)"
  shows "(preferred v \<or> \<not> preferred v') \<and> (preferred v = preferred v' \<longrightarrow> age v \<le> age v')"
  using assms
proof (induction "length m" arbitrary: m rule: less_induct)
  case less
  show ?case
  proof (cases "cap < length m")
    case False
    then show ?thesis using less.prems by (simp add: loop_eq)
  next
    case True
    then obtain k0 v0 where k0: "map_of m k0 = Some v0"
      and eq: "loop cap m = loop cap (AList.delete k0 m)"
      and pref: "preferred v0 \<or> (\<forall>(k', v') \<in> set m. \<not> preferred v')"
      and old: "\<forall>(k', v') \<in> set m. (preferred v' \<or> \<not> preferred v0) \<longrightarrow> age v0 \<le> age v'"
      using loop_step [OF less.prems(1)] by blast
    have mem: "(k', v') \<in> set m" using loop_result [OF less.prems(1)] less.prems(4) by blast
    show ?thesis
    proof (cases "k = k0")
      case True
      then have "v = v0" using less.prems(1,2) k0 by (simp add: gomap_wf_mem_iff)
      with pref old mem show ?thesis by auto
    next
      case False
      have "length (AList.delete k0 m) < length m" using length_delete_mem [OF less.prems(1) k0] .
      moreover have "(k, v) \<in> set (AList.delete k0 m)" using less.prems(2) False by (simp add: mem_delete_iff)
      ultimately show ?thesis
        using less.hyps [of "AList.delete k0 m"] less.prems(1,3,4) eq by simp
    qed
  qed
qed

text \<open>When no preferred entry but the newcomer is present, one step evicts the newcomer.\<close>

lemma loop_evicts_only_preferred:
  assumes "gomap_wf m" and "length m = Suc cap" and "map_of m k = Some v" and "preferred v"
    and "\<forall>(k', v') \<in> set m. k' \<noteq> k \<longrightarrow> \<not> preferred v'"
  shows "loop cap m = AList.delete k m"
proof -
  from loop_step [OF assms(1), of cap] assms(2) obtain k0 v0 where k0: "map_of m k0 = Some v0"
    and eq: "loop cap m = loop cap (AList.delete k0 m)"
    and pref: "preferred v0 \<or> (\<forall>(k', v') \<in> set m. \<not> preferred v')" by auto
  have "(k, v) \<in> set m" using assms(1,3) by (simp add: gomap_wf_mem_iff)
  with pref assms(4) have "preferred v0" by blast
  moreover have "(k0, v0) \<in> set m" using k0 assms(1) by (simp add: gomap_wf_mem_iff)
  ultimately have "k0 = k" using assms(5) by blast
  moreover have "length (AList.delete k m) \<le> cap"
    using length_delete_exact [OF assms(1,3)] assms(2) by simp
  ultimately show ?thesis using eq loop_id [OF gomap_wf_delete [OF assms(1)]] by simp
qed

end

end
