(* ===== verification/Replay_Store.thy ===== *)
theory Replay_Store
  imports Store_Interface Wire_Types
begin

text \<open>
  The replay window of \<^verbatim>\<open>go-lcpd/internal/replaystore/store.go\<close>: the keys of accepted
  messages with their expiry, bounded by a capacity. The lemmas show that the window never
  exceeds its capacity, that a message is accepted at most once while it is remembered,
  and that only the entry that expires first is ever evicted.
\<close>

section \<open>State and operations\<close>

datatype check_result = CheckResultOK | CheckResultDuplicate | CheckResultExpired

record replay_key =
  rk_PeerPubKey :: string
  rk_JobID :: hash32
  rk_MsgID :: hash32

record replay_store =
  rp_entries :: "(replay_key \<times> u64) list"
  rp_maxEntries :: int

abbreviation defaultMaxEntries :: int where "defaultMaxEntries \<equiv> 1024"

definition replaystore_New :: "os_env \<Rightarrow> int \<Rightarrow> replay_store" where
  "replaystore_New env maxEntries =
     \<lparr>rp_entries = [],
      rp_maxEntries =
        (if maxEntries \<le> 0
         then (let m = envconfig_Int env ''LCP_DEFAULT_MAX_STORE_ENTRIES'' defaultMaxEntries in
               if m \<le> 0 then defaultMaxEntries else m)
         else maxEntries)\<rparr>"

definition replay_pruneLocked :: "u64 \<Rightarrow> replay_store \<Rightarrow> replay_store" where
  "replay_pruneLocked now s = s\<lparr>rp_entries := filter (\<lambda>(key, expiry). \<not> expiry < now) (rp_entries s)\<rparr>"

definition replay_evictOldestLocked :: "replay_store \<Rightarrow> replay_store" where
  "replay_evictOldestLocked s =
     (case scan_min (\<lambda>_. True) snd None (rp_entries s) of
        None \<Rightarrow> s
      | Some (oldestKey, oldestExpiry) \<Rightarrow> s\<lparr>rp_entries := AList.delete oldestKey (rp_entries s)\<rparr>)"

definition CheckAndRemember :: "replay_key \<Rightarrow> u64 \<Rightarrow> u64 \<Rightarrow> replay_store \<Rightarrow> check_result \<times> replay_store" where
  "CheckAndRemember key expiry now s0 =
     (let s = replay_pruneLocked now s0 in
      if expiry < now then (CheckResultExpired, s)
      else
        (case map_of (rp_entries s) key of
           Some currentExpiry \<Rightarrow>
             if now \<le> currentExpiry then (CheckResultDuplicate, s)
             else
               (let s1 = s\<lparr>rp_entries := AList.delete key (rp_entries s)\<rparr>;
                    s2 = (if rp_maxEntries s1 \<le> int (length (rp_entries s1)) then replay_evictOldestLocked s1 else s1)
                in (CheckResultOK, s2\<lparr>rp_entries := AList.update key expiry (rp_entries s2)\<rparr>))
         | None \<Rightarrow>
             (let s2 = (if rp_maxEntries s \<le> int (length (rp_entries s)) then replay_evictOldestLocked s else s)
              in (CheckResultOK, s2\<lparr>rp_entries := AList.update key expiry (rp_entries s2)\<rparr>))))"

definition replay_Prune :: "u64 \<Rightarrow> replay_store \<Rightarrow> replay_store" where
  "replay_Prune now s = replay_pruneLocked now s"

definition replay_Len :: "replay_store \<Rightarrow> nat" where
  "replay_Len s = length (rp_entries s)"

definition replay_Contains :: "replay_key \<Rightarrow> replay_store \<Rightarrow> bool" where
  "replay_Contains key s = (map_of (rp_entries s) key \<noteq> None)"

section \<open>Invariant\<close>

definition replay_inv :: "replay_store \<Rightarrow> bool" where
  "replay_inv s \<longleftrightarrow> gomap_wf (rp_entries s) \<and> 0 < rp_maxEntries s \<and> int (length (rp_entries s)) \<le> rp_maxEntries s"

lemma replay_inv_New: "replay_inv (replaystore_New env n)"
  by (simp add: replay_inv_def replaystore_New_def Let_def)

lemma replay_inv_prune: "replay_inv s \<Longrightarrow> replay_inv (replay_pruneLocked now s)"
  using length_filter_le [of "\<lambda>(key, expiry). \<not> expiry < now" "rp_entries s"]
  unfolding replay_inv_def replay_pruneLocked_def by (simp del: length_filter_le)

lemma map_of_prune:
  "gomap_wf (rp_entries s) \<Longrightarrow>
   map_of (rp_entries (replay_pruneLocked now s)) k =
     (case map_of (rp_entries s) k of Some e \<Rightarrow> if now \<le> e then Some e else None | None \<Rightarrow> None)"
  by (auto simp: replay_pruneLocked_def map_of_filter_wf not_less split: option.splits)

text \<open>After the prune the source's branch that deletes an expired entry is dead.\<close>

lemma CheckAndRemember_eq:
  assumes "replay_inv s0"
  shows "CheckAndRemember key expiry now s0 =
     (let s = replay_pruneLocked now s0 in
      if expiry < now then (CheckResultExpired, s)
      else if map_of (rp_entries s) key \<noteq> None then (CheckResultDuplicate, s)
      else (let s2 = (if rp_maxEntries s \<le> int (length (rp_entries s)) then replay_evictOldestLocked s else s)
            in (CheckResultOK, s2\<lparr>rp_entries := AList.update key expiry (rp_entries s2)\<rparr>)))"
  using assms
  by (auto simp: CheckAndRemember_def Let_def map_of_prune replay_inv_def split: option.splits)

lemma evict_removes_first_to_expire:
  assumes "gomap_wf (rp_entries s)" and "rp_entries s \<noteq> []"
  shows "\<exists>k e. map_of (rp_entries s) k = Some e
    \<and> rp_entries (replay_evictOldestLocked s) = AList.delete k (rp_entries s)
    \<and> (\<forall>(k', e') \<in> set (rp_entries s). e \<le> e')"
proof -
  obtain k e where m: "scan_min (\<lambda>_. True) snd None (rp_entries s) = Some (k, e)"
    using assms(2) scan_min_None [of "\<lambda>_. True" snd None "rp_entries s"]
    by (cases "scan_min (\<lambda>_. True) snd None (rp_entries s)") auto
  from scan_min_Some [OF m] assms(1) m show ?thesis
    by (fastforce simp: replay_evictOldestLocked_def gomap_wf_mem_iff)
qed

lemma evict_maxEntries [simp]: "rp_maxEntries (replay_evictOldestLocked s) = rp_maxEntries s"
  by (simp add: replay_evictOldestLocked_def split: option.splits)

lemma prune_maxEntries [simp]: "rp_maxEntries (replay_pruneLocked now s) = rp_maxEntries s"
  by (simp add: replay_pruneLocked_def)

lemma replay_make_room:
  assumes "replay_inv s"
  defines "s2 \<equiv> (if rp_maxEntries s \<le> int (length (rp_entries s)) then replay_evictOldestLocked s else s)"
  shows "gomap_wf (rp_entries s2) \<and> int (length (rp_entries s2)) < rp_maxEntries s"
proof (cases "rp_maxEntries s \<le> int (length (rp_entries s))")
  case False
  then show ?thesis using assms by (simp add: replay_inv_def)
next
  case True
  with assms(1) have "rp_entries s \<noteq> []" by (auto simp: replay_inv_def)
  with assms(1) obtain k e where "map_of (rp_entries s) k = Some e"
    "rp_entries (replay_evictOldestLocked s) = AList.delete k (rp_entries s)"
    using evict_removes_first_to_expire [of s] by (auto simp: replay_inv_def)
  with assms(1) True length_delete_exact [of "rp_entries s" k e] show ?thesis
    by (auto simp: s2_def replay_inv_def)
qed

lemma replay_inv_CheckAndRemember:
  assumes "replay_inv s"
  shows "replay_inv (snd (CheckAndRemember key expiry now s))"
proof -
  note inv = replay_inv_prune [OF assms, of now]
  from replay_make_room [OF inv] inv show ?thesis
    by (auto simp: CheckAndRemember_eq [OF assms] Let_def replay_inv_def length_update)
qed

section \<open>Acceptance\<close>

lemma CheckAndRemember_outcome:
  assumes "replay_inv s"
  shows "fst (CheckAndRemember key expiry now s) =
    (if expiry < now then CheckResultExpired
     else if (\<exists>e. map_of (rp_entries s) key = Some e \<and> now \<le> e) then CheckResultDuplicate
     else CheckResultOK)"
  using assms
  by (auto simp: CheckAndRemember_eq Let_def map_of_prune replay_inv_def split: option.splits if_splits)

lemma CheckAndRemember_remembers:
  "replay_inv s \<Longrightarrow> fst (CheckAndRemember key expiry now s) = CheckResultOK \<Longrightarrow>
   map_of (rp_entries (snd (CheckAndRemember key expiry now s))) key = Some expiry"
  by (auto simp: CheckAndRemember_eq Let_def split: if_splits)

lemma CheckAndRemember_keeps:
  assumes inv: "replay_inv s" and k: "map_of (rp_entries s) k = Some e" and "now \<le> e"
    and room: "int (length (rp_entries s)) < rp_maxEntries s"
  shows "map_of (rp_entries (snd (CheckAndRemember key expiry now s))) k = Some e"
proof -
  have kept: "map_of (rp_entries (replay_pruneLocked now s)) k = Some e"
    using inv k assms(3) by (simp add: map_of_prune replay_inv_def)
  have "length (rp_entries (replay_pruneLocked now s)) \<le> length (rp_entries s)"
    by (simp add: replay_pruneLocked_def)
  with room have "\<not> rp_maxEntries s \<le> int (length (rp_entries (replay_pruneLocked now s)))" by simp
  with kept show ?thesis by (auto simp: CheckAndRemember_eq [OF inv] Let_def)
qed

lemma CheckAndRemember_length:
  assumes "replay_inv s"
  shows "length (rp_entries (snd (CheckAndRemember key expiry now s))) \<le> Suc (length (rp_entries s))"
proof -
  have p: "length (rp_entries (replay_pruneLocked now s)) \<le> length (rp_entries s)"
    by (simp add: replay_pruneLocked_def)
  have "length (AList.delete k m) \<le> length m" for k and m :: "(replay_key \<times> u64) list"
    by (rule length_delete_le)
  then have "length (rp_entries (replay_evictOldestLocked t)) \<le> length (rp_entries t)" for t
    by (simp add: replay_evictOldestLocked_def split: option.splits)
  with p show ?thesis
    by (auto simp: CheckAndRemember_eq [OF assms] Let_def length_update intro: order_trans le_SucI)
qed

lemma CheckAndRemember_maxEntries:
  "rp_maxEntries (snd (CheckAndRemember key expiry now s)) = rp_maxEntries s"
  by (auto simp: CheckAndRemember_def Let_def split: option.splits)

section \<open>Runs\<close>

fun replay_run :: "(replay_key \<times> u64 \<times> u64) list \<Rightarrow> replay_store \<Rightarrow> check_result list \<times> replay_store" where
  "replay_run [] s = ([], s)"
| "replay_run ((key, expiry, now) # calls) s =
     (let (r, s1) = CheckAndRemember key expiry now s; (rs, s2) = replay_run calls s1 in (r # rs, s2))"

lemma replay_run_no_second_accept:
  assumes "replay_inv s" and "map_of (rp_entries s) k = Some e"
    and "int (length (rp_entries s) + length calls) \<le> rp_maxEntries s"
    and "\<forall>(key, expiry, now) \<in> set calls. now \<le> e"
    and "i < length calls" and "fst (calls ! i) = k"
  shows "fst (replay_run calls s) ! i \<noteq> CheckResultOK"
  using assms
proof (induction calls arbitrary: s i)
  case Nil
  then show ?case by simp
next
  case (Cons c calls)
  obtain key expiry now where c: "c = (key, expiry, now)" by (cases c)
  let ?s = "snd (CheckAndRemember key expiry now s)"
  have now: "now \<le> e" using Cons.prems(4) c by simp
  show ?case
  proof (cases i)
    case 0
    then show ?thesis
      using Cons.prems c now CheckAndRemember_outcome [OF Cons.prems(1), of key expiry now]
      by (auto simp: Let_def split_def)
  next
    case (Suc j)
    have "map_of (rp_entries ?s) k = Some e"
      using CheckAndRemember_keeps [OF Cons.prems(1,2) now] Cons.prems(3) by simp
    moreover have "int (length (rp_entries ?s) + length calls) \<le> rp_maxEntries ?s"
      using CheckAndRemember_length [OF Cons.prems(1), of key expiry now] Cons.prems(3)
      by (simp add: CheckAndRemember_maxEntries)
    ultimately have "fst (replay_run calls ?s) ! j \<noteq> CheckResultOK"
      using Cons.IH [OF replay_inv_CheckAndRemember [OF Cons.prems(1)]] Cons.prems Suc by simp
    then show ?thesis by (simp add: Suc c Let_def split_def)
  qed
qed

lemma replay_run_inv: "replay_inv s \<Longrightarrow> replay_inv (snd (replay_run calls s))"
proof (induction calls arbitrary: s)
  case Nil
  then show ?case by simp
next
  case (Cons c calls)
  then show ?case
    using replay_inv_CheckAndRemember by (cases c) (simp add: Let_def split_def)
qed

section \<open>Properties\<close>

text \<open>
  C4. No message is accepted twice: once the check of a message has returned ok, every
  later check of the same key that happens before the message expires returns duplicate
  or expired, as long as the window has room for the messages checked in between.
\<close>

theorem replay_no_second_accept:
  assumes "replay_inv s" and "CheckAndRemember k e t s = (CheckResultOK, s1)"
    and "int (length (rp_entries s1) + length calls) \<le> rp_maxEntries s1"
    and "list_all (\<lambda>(key, expiry, now). now \<le> e) calls"
    and "i < length calls" and "fst (calls ! i) = k"
  shows "fst (replay_run calls s1) ! i \<noteq> CheckResultOK"
proof (rule replay_run_no_second_accept)
  show "replay_inv s1" using replay_inv_CheckAndRemember [OF assms(1), of k e t] assms(2) by simp
  show "map_of (rp_entries s1) k = Some e"
    using CheckAndRemember_remembers [OF assms(1), of k e t] assms(2) by simp
qed (use assms in \<open>auto simp: list_all_iff\<close>)

theorem replay_no_second_accept_witness:
  "\<exists>s1. CheckAndRemember \<lparr>rk_PeerPubKey = ''p'', rk_JobID = 1, rk_MsgID = 2\<rparr> 100 50 (replaystore_New (\<lambda>_. []) 4)
       = (CheckResultOK, s1)
   \<and> fst (replay_run [(\<lparr>rk_PeerPubKey = ''q'', rk_JobID = 1, rk_MsgID = 2\<rparr>, 90, 60),
                      (\<lparr>rk_PeerPubKey = ''p'', rk_JobID = 1, rk_MsgID = 2\<rparr>, 100, 70)] s1) ! 1 \<noteq> CheckResultOK"
    (is "\<exists>s1. CheckAndRemember ?k _ _ ?s = _ \<and> fst (replay_run ?calls s1) ! 1 \<noteq> _")
proof -
  let ?s1 = "\<lparr>rp_entries = [(?k, 100)], rp_maxEntries = 4\<rparr>"
  have run: "CheckAndRemember ?k 100 50 ?s = (CheckResultOK, ?s1)" by code_simp
  have "fst (replay_run ?calls ?s1) ! 1 \<noteq> CheckResultOK"
    by (rule replay_no_second_accept [OF replay_inv_New run]) simp_all
  with run show ?thesis by blast
qed

text \<open>
  The replay window stays within its capacity: whatever messages are checked from a
  new store on, it holds at most the configured number of entries, each key once; and when
  a full window makes room, the entry it evicts is one that expires first.
\<close>

theorem replay_window_bounded:
  "replay_inv (snd (replay_run calls (replaystore_New env n)))
   \<and> (rp_entries s \<noteq> [] \<and> gomap_wf (rp_entries s) \<longrightarrow>
      (\<exists>k e. map_of (rp_entries s) k = Some e
        \<and> rp_entries (replay_evictOldestLocked s) = AList.delete k (rp_entries s)
        \<and> list_all (\<lambda>(k', e'). e \<le> e') (rp_entries s)))"
  using evict_removes_first_to_expire [of s] replay_run_inv [OF replay_inv_New]
  by (auto simp: list_all_iff)

definition sample_replay_store :: replay_store where
  "sample_replay_store = \<lparr>rp_entries = [(\<lparr>rk_PeerPubKey = ''p'', rk_JobID = 1, rk_MsgID = 2\<rparr>, 9),
     (\<lparr>rk_PeerPubKey = ''q'', rk_JobID = 1, rk_MsgID = 2\<rparr>, 5)], rp_maxEntries = 2\<rparr>"

theorem replay_window_bounded_witness:
  "replay_inv (snd (replay_run [(\<lparr>rk_PeerPubKey = ''p'', rk_JobID = 1, rk_MsgID = 2\<rparr>, 9, 3)]
      (replaystore_New (\<lambda>_. []) 1)))
   \<and> (\<exists>k e. map_of (rp_entries sample_replay_store) k = Some e
        \<and> rp_entries (replay_evictOldestLocked sample_replay_store) = AList.delete k (rp_entries sample_replay_store)
        \<and> list_all (\<lambda>(k', e'). e \<le> e') (rp_entries sample_replay_store))"
  using replay_window_bounded [of "[(\<lparr>rk_PeerPubKey = ''p'', rk_JobID = 1, rk_MsgID = 2\<rparr>, 9, 3)]" "\<lambda>_. []" 1
      sample_replay_store]
  by (simp add: gomap_wf_def sample_replay_store_def)

end
