(* ===== verification/Job_Store.thy ===== *)
theory Job_Store
  imports Store_Interface Wire_Types
begin

text \<open>
  The provider's jobs of \<^verbatim>\<open>go-lcpd/internal/jobstore/store.go\<close>. The clock is an argument of
  the operations that read it. The copies the source makes on the way in and out are the
  values themselves here. The store interprets \<open>evicting_store\<close> with its pending jobs
  as the preferred kind.
\<close>

section \<open>State\<close>

datatype job_state =
    StateAwaitingInput | StateQuoted | StateWaitingPayment | StatePaid | StateExecuting
  | StateStreamingResult | StateDone | StateCanceled | StateFailed

record job_key =
  jk_PeerPubKey :: string
  jk_JobID :: hash32

record input_stream_state =
  is_StreamID :: hash32
  is_ContentType :: string
  is_ContentEncoding :: string
  is_ExpectedSeq :: u32
  is_Buf :: bytes
  is_TotalLen :: u64
  is_SHA256 :: hash32
  is_Validated :: bool

record job =
  job_PeerPubKey :: string
  job_JobID :: hash32
  job_State :: job_state
  job_QuoteRequest :: "quote_request option"
  job_InputStream :: "input_stream_state option"
  job_QuoteExpiry :: u64
  job_TermsHash :: "hash32 option"
  job_PaymentHash :: "hash32 option"
  job_InvoiceAddIndex :: "u64 option"
  job_QuoteResponse :: "quote_response option"
  job_CreatedAt :: gotime

record job_store =
  js_jobs :: "(job_key \<times> job) list"
  js_maxEntries :: int

section \<open>Operations\<close>

definition jobstore_New :: "os_env \<Rightarrow> job_store" where
  "jobstore_New env =
     (let maxEntries = envconfig_Int env ''LCP_DEFAULT_MAX_STORE_ENTRIES'' 1024 in
      \<lparr>js_jobs = [], js_maxEntries = (if maxEntries \<le> 0 then 1024 else maxEntries)\<rparr>)"

text \<open>The jobs that wait for the peer: the states that the prune and the eviction single out.\<close>

fun job_pending :: "job_state \<Rightarrow> bool" where
  "job_pending StateAwaitingInput = True"
| "job_pending StateQuoted = True"
| "job_pending StateWaitingPayment = True"
| "job_pending StatePaid = False"
| "job_pending StateExecuting = False"
| "job_pending StateStreamingResult = False"
| "job_pending StateDone = False"
| "job_pending StateCanceled = False"
| "job_pending StateFailed = False"

definition jobstore_pruneExpiredLocked :: "u64 \<Rightarrow> (job_key \<times> job) list \<Rightarrow> (job_key \<times> job) list" where
  "jobstore_pruneExpiredLocked nowUnix jobs =
     filter (\<lambda>(k, j). job_QuoteExpiry j = 0 \<or> nowUnix \<le> job_QuoteExpiry j \<or> \<not> job_pending (job_State j)) jobs"

definition jobstore_evictOldestLocked :: "bool \<Rightarrow> (job_key \<times> job) list \<Rightarrow> (job_key \<times> job) list option" where
  "jobstore_evictOldestLocked preferPending jobs =
     (case scan_min (\<lambda>(k, j). preferPending \<longrightarrow> job_pending (job_State j)) (\<lambda>(k, j). job_CreatedAt j) None jobs of
        None \<Rightarrow> None
      | Some (oldestKey, oldestJob) \<Rightarrow> Some (AList.delete oldestKey jobs))"

lemma jobstore_evict_shrinks:
  "jobstore_evictOldestLocked p jobs = Some jobs' \<Longrightarrow> length jobs' < length jobs"
proof -
  assume "jobstore_evictOldestLocked p jobs = Some jobs'"
  then obtain k j where m: "scan_min (\<lambda>(k, j). p \<longrightarrow> job_pending (job_State j))
      (\<lambda>(k, j). job_CreatedAt j) None jobs = Some (k, j)" and e: "jobs' = AList.delete k jobs"
    by (auto simp: jobstore_evictOldestLocked_def split: option.splits)
  from scan_min_Some [OF m] have "(k, j) \<in> set jobs" by simp
  then show ?thesis unfolding e AList.delete_eq by (rule length_filter_less) simp
qed

text \<open>
  The loop \<^verbatim>\<open>for len(s.jobs) > s.maxEntries\<close>. A map over capacity is not empty, so the
  eviction without preference always finds an entry and the last branch is unreachable.
  The source also resets a capacity that is not positive; the constructor never leaves one.
\<close>

function jobstore_evictIfOverCapacityLocked :: "nat \<Rightarrow> (job_key \<times> job) list \<Rightarrow> (job_key \<times> job) list" where
  "jobstore_evictIfOverCapacityLocked maxEntries jobs =
     (if maxEntries < length jobs
      then (case jobstore_evictOldestLocked True jobs of
              Some jobs' \<Rightarrow> jobstore_evictIfOverCapacityLocked maxEntries jobs'
            | None \<Rightarrow>
                (case jobstore_evictOldestLocked False jobs of
                   Some jobs' \<Rightarrow> jobstore_evictIfOverCapacityLocked maxEntries jobs'
                 | None \<Rightarrow> jobs))
      else jobs)"
  by pat_completeness auto
termination
  by (relation "measure (\<lambda>(n, jobs). length jobs)") (auto dest: jobstore_evict_shrinks)

declare jobstore_evictIfOverCapacityLocked.simps [simp del]

definition job_key_of :: "job \<Rightarrow> job_key" where
  "job_key_of j = \<lparr>jk_PeerPubKey = job_PeerPubKey j, jk_JobID = job_JobID j\<rparr>"

definition jobstore_Upsert :: "gotime \<Rightarrow> job \<Rightarrow> job_store \<Rightarrow> job_store" where
  "jobstore_Upsert now j s =
     (let key = job_key_of j;
          j1 = (if time_IsZero (job_CreatedAt j) then j\<lparr>job_CreatedAt := now\<rparr> else j);
          nowUnix = time_Unix now;
          jobs = (if 0 \<le> nowUnix then jobstore_pruneExpiredLocked (word_of_int nowUnix) (js_jobs s) else js_jobs s);
          jobs1 = AList.update key j1 jobs
      in s\<lparr>js_jobs := jobstore_evictIfOverCapacityLocked (nat (js_maxEntries s)) jobs1\<rparr>)"

definition jobstore_Get :: "job_key \<Rightarrow> job_store \<Rightarrow> job option" where
  "jobstore_Get key s = map_of (js_jobs s) key"

definition jobstore_UpdateState :: "job_key \<Rightarrow> job_state \<Rightarrow> job_store \<Rightarrow> bool \<times> job_store" where
  "jobstore_UpdateState key state s =
     (case map_of (js_jobs s) key of
        None \<Rightarrow> (False, s)
      | Some j \<Rightarrow> (True, s\<lparr>js_jobs := AList.update key (j\<lparr>job_State := state\<rparr>) (js_jobs s)\<rparr>))"

definition jobstore_SetQuoteResponse :: "job_key \<Rightarrow> quote_response \<Rightarrow> job_store \<Rightarrow> bool \<times> job_store" where
  "jobstore_SetQuoteResponse key resp s =
     (case map_of (js_jobs s) key of
        None \<Rightarrow> (False, s)
      | Some j \<Rightarrow>
          (True, s\<lparr>js_jobs := AList.update key
             (j\<lparr>job_QuoteResponse := Some resp, job_QuoteExpiry := qs_QuoteExpiry resp,
                job_TermsHash := Some (qs_TermsHash resp)\<rparr>) (js_jobs s)\<rparr>))"

definition jobstore_SetPaymentHash :: "job_key \<Rightarrow> hash32 \<Rightarrow> job_store \<Rightarrow> bool \<times> job_store" where
  "jobstore_SetPaymentHash key paymentHash s =
     (case map_of (js_jobs s) key of
        None \<Rightarrow> (False, s)
      | Some j \<Rightarrow> (True, s\<lparr>js_jobs := AList.update key (j\<lparr>job_PaymentHash := Some paymentHash\<rparr>) (js_jobs s)\<rparr>))"

definition jobstore_Len :: "job_store \<Rightarrow> nat" where
  "jobstore_Len s = length (js_jobs s)"

section \<open>Eviction\<close>

interpretation js: evicting_store jobstore_evictOldestLocked jobstore_evictIfOverCapacityLocked
  "\<lambda>j. job_pending (job_State j)" job_CreatedAt
proof (unfold_locales, goal_cases)
  case (1 m pref m')
  then obtain k j where s: "scan_min (\<lambda>(k, j). pref \<longrightarrow> job_pending (job_State j))
      (\<lambda>(k, j). job_CreatedAt j) None m = Some (k, j)" and e: "m' = AList.delete k m"
    by (auto simp: jobstore_evictOldestLocked_def split: option.splits)
  from scan_min_entry [OF 1(1) s] e show ?case by blast
next
  case (2 pref m)
  show ?case
    using scan_min_None [of "\<lambda>(k, j). pref \<longrightarrow> job_pending (job_State j)" "\<lambda>(k, j). job_CreatedAt j" None m]
    by (auto simp: jobstore_evictOldestLocked_def split: option.splits)
next
  case (3 m cap)
  show ?case by (rule jobstore_evictIfOverCapacityLocked.simps)
qed

section \<open>Invariant\<close>

text \<open>Within capacity, each key once, each job stored under its own key.\<close>

definition jobstore_inv :: "job_store \<Rightarrow> bool" where
  "jobstore_inv s \<longleftrightarrow> gomap_wf (js_jobs s) \<and> 0 < js_maxEntries s
     \<and> int (length (js_jobs s)) \<le> js_maxEntries s
     \<and> (\<forall>(k, j) \<in> set (js_jobs s). k = job_key_of j)"

lemma jobstore_inv_New: "jobstore_inv (jobstore_New env)"
  by (simp add: jobstore_inv_def jobstore_New_def Let_def)

definition jobstore_staged :: "gotime \<Rightarrow> job \<Rightarrow> job_store \<Rightarrow> (job_key \<times> job) list" where
  "jobstore_staged now j s =
     AList.update (job_key_of j)
       (if time_IsZero (job_CreatedAt j) then j\<lparr>job_CreatedAt := now\<rparr> else j)
       (if 0 \<le> time_Unix now then jobstore_pruneExpiredLocked (word_of_int (time_Unix now)) (js_jobs s) else js_jobs s)"

lemma Upsert_staged:
  "jobstore_Upsert now j s =
     s\<lparr>js_jobs := jobstore_evictIfOverCapacityLocked (nat (js_maxEntries s)) (jobstore_staged now j s)\<rparr>"
  by (simp add: jobstore_Upsert_def jobstore_staged_def Let_def)

lemma gomap_wf_staged: "gomap_wf (js_jobs s) \<Longrightarrow> gomap_wf (jobstore_staged now j s)"
  by (simp add: jobstore_staged_def jobstore_pruneExpiredLocked_def)

lemma job_key_of_simps [simp]:
  "job_key_of (j\<lparr>job_CreatedAt := t\<rparr>) = job_key_of j"
  "job_key_of (j\<lparr>job_State := st\<rparr>) = job_key_of j"
  "job_key_of (j\<lparr>job_QuoteResponse := r, job_QuoteExpiry := x, job_TermsHash := h\<rparr>) = job_key_of j"
  "job_key_of (j\<lparr>job_PaymentHash := p\<rparr>) = job_key_of j"
  by (simp_all add: job_key_of_def)

lemma staged_keys:
  assumes "jobstore_inv s" and "(k, x) \<in> set (jobstore_staged now j s)"
  shows "k = job_key_of x"
proof -
  have "gomap_wf (jobstore_staged now j s)" using assms(1) by (simp add: gomap_wf_staged jobstore_inv_def)
  with assms(2) have "map_of (jobstore_staged now j s) k = Some x" by (simp add: gomap_wf_mem_iff)
  with assms(1) show ?thesis
    by (auto simp: jobstore_staged_def jobstore_pruneExpiredLocked_def jobstore_inv_def map_of_filter_wf
        split: if_splits option.splits dest: map_of_SomeD)
qed

lemma jobstore_inv_Upsert:
  assumes "jobstore_inv s"
  shows "jobstore_inv (jobstore_Upsert now j s)"
proof -
  have wf: "gomap_wf (jobstore_staged now j s)" using assms by (simp add: gomap_wf_staged jobstore_inv_def)
  from js.loop_result [OF wf, of "nat (js_maxEntries s)"] staged_keys [OF assms] assms show ?thesis
    by (auto simp: jobstore_inv_def Upsert_staged)
qed

lemma jobstore_update_inv:
  assumes "jobstore_inv s" and "map_of (js_jobs s) k = Some j" and "job_key_of j' = k"
  shows "jobstore_inv (s\<lparr>js_jobs := AList.update k j' (js_jobs s)\<rparr>)"
proof -
  have wf: "gomap_wf (AList.update k j' (js_jobs s))" using assms(1) by (simp add: jobstore_inv_def)
  have "k' = job_key_of x" if "(k', x) \<in> set (AList.update k j' (js_jobs s))" for k' x
  proof -
    from that wf have "map_of (AList.update k j' (js_jobs s)) k' = Some x" by (simp add: gomap_wf_mem_iff)
    then show ?thesis using assms(1,3) by (auto simp: jobstore_inv_def split: if_splits dest: map_of_SomeD)
  qed
  with wf assms(1,2) show ?thesis by (auto simp: jobstore_inv_def length_update)
qed

lemma jobstore_inv_key: "jobstore_inv s \<Longrightarrow> map_of (js_jobs s) k = Some j \<Longrightarrow> job_key_of j = k"
  by (auto simp: jobstore_inv_def dest: map_of_SomeD)

lemma jobstore_inv_setters:
  assumes "jobstore_inv s"
  shows "jobstore_inv (snd (jobstore_UpdateState k st s))"
    and "jobstore_inv (snd (jobstore_SetQuoteResponse k r s))"
    and "jobstore_inv (snd (jobstore_SetPaymentHash k h s))"
  using assms
  by (auto simp: jobstore_UpdateState_def jobstore_SetQuoteResponse_def jobstore_SetPaymentHash_def
      split: option.splits dest: jobstore_inv_key intro!: jobstore_update_inv)

section \<open>Lookups\<close>

lemma Upsert_get:
  assumes "jobstore_inv s" and "jobstore_Get k (jobstore_Upsert now j s) = Some x"
  shows "k = job_key_of j \<and> x = (if time_IsZero (job_CreatedAt j) then j\<lparr>job_CreatedAt := now\<rparr> else j)
    \<or> k \<noteq> job_key_of j \<and> jobstore_Get k s = Some x"
proof -
  have wf: "gomap_wf (jobstore_staged now j s)" using assms(1) by (simp add: gomap_wf_staged jobstore_inv_def)
  have "(k, x) \<in> set (jobstore_staged now j s)"
    using assms(2) js.loop_result [OF wf] by (auto simp: jobstore_Get_def Upsert_staged dest: map_of_SomeD)
  then have "map_of (jobstore_staged now j s) k = Some x" using wf by (simp add: gomap_wf_mem_iff)
  with assms(1) show ?thesis
    by (auto simp: jobstore_staged_def jobstore_Get_def jobstore_pruneExpiredLocked_def jobstore_inv_def
        map_of_filter_wf split: if_splits option.splits)
qed

lemma length_staged:
  assumes "jobstore_inv s"
  shows "length (jobstore_staged now j s) \<le> Suc (length (js_jobs s))"
    and "jobstore_Get (job_key_of j) s \<noteq> None \<Longrightarrow> int (length (jobstore_staged now j s)) \<le> js_maxEntries s"
proof -
  let ?p = "if 0 \<le> time_Unix now then jobstore_pruneExpiredLocked (word_of_int (time_Unix now)) (js_jobs s) else js_jobs s"
  have p: "length ?p \<le> length (js_jobs s)" by (simp add: jobstore_pruneExpiredLocked_def)
  then show "length (jobstore_staged now j s) \<le> Suc (length (js_jobs s))"
    by (auto simp: jobstore_staged_def length_update simp del: if_image_distrib)
  assume got: "jobstore_Get (job_key_of j) s \<noteq> None"
  show "int (length (jobstore_staged now j s)) \<le> js_maxEntries s"
  proof (cases "map_of ?p (job_key_of j)")
    case (Some y)
    with p assms show ?thesis by (auto simp: jobstore_staged_def length_update jobstore_inv_def)
  next
    case None
    with got have "0 \<le> time_Unix now" by (auto simp: jobstore_Get_def split: if_splits)
    moreover obtain x where x: "(job_key_of j, x) \<in> set (js_jobs s)"
      using got by (auto simp: jobstore_Get_def dest: map_of_SomeD)
    moreover have "(job_key_of j, x) \<notin> set ?p" using None by (metis map_of_eq_None_iff image_eqI fst_conv)
    ultimately have "length ?p < length (js_jobs s)"
      by (auto simp: jobstore_pruneExpiredLocked_def intro!: length_filter_less)
    with None assms show ?thesis by (auto simp: jobstore_staged_def length_update jobstore_inv_def)
  qed
qed

lemma Upsert_get_same:
  assumes "jobstore_inv s"
    and "int (length (js_jobs s)) < js_maxEntries s \<or> jobstore_Get (job_key_of j) s \<noteq> None"
  shows "jobstore_Get (job_key_of j) (jobstore_Upsert now j s)
    = Some (if time_IsZero (job_CreatedAt j) then j\<lparr>job_CreatedAt := now\<rparr> else j)"
proof -
  have wf: "gomap_wf (jobstore_staged now j s)" using assms(1) by (simp add: gomap_wf_staged jobstore_inv_def)
  have "length (jobstore_staged now j s) \<le> nat (js_maxEntries s)"
    using length_staged(1) [OF assms(1), of now j] length_staged(2) [OF assms(1), of j now] assms by (auto simp: jobstore_inv_def)
  with js.loop_id [OF wf] show ?thesis
    by (simp add: jobstore_Get_def Upsert_staged jobstore_staged_def)
qed

lemma setters_get:
  "jobstore_Get k (snd (jobstore_UpdateState k' st s)) =
     (if k = k' then map_option (\<lambda>j. j\<lparr>job_State := st\<rparr>) (jobstore_Get k s) else jobstore_Get k s)"
  "jobstore_Get k (snd (jobstore_SetPaymentHash k' h s)) =
     (if k = k' then map_option (\<lambda>j. j\<lparr>job_PaymentHash := Some h\<rparr>) (jobstore_Get k s) else jobstore_Get k s)"
  "jobstore_Get k (snd (jobstore_SetQuoteResponse k' r s)) =
     (if k = k' then map_option (\<lambda>j. j\<lparr>job_QuoteResponse := Some r, job_QuoteExpiry := qs_QuoteExpiry r,
        job_TermsHash := Some (qs_TermsHash r)\<rparr>) (jobstore_Get k s) else jobstore_Get k s)"
  by (auto simp: jobstore_UpdateState_def jobstore_SetPaymentHash_def jobstore_SetQuoteResponse_def
      jobstore_Get_def split: option.splits)

section \<open>Properties\<close>

text \<open>The operations of the store as events, and the states they reach from a new store.\<close>

datatype jobstore_event =
    JUpsert gotime job
  | JUpdateState job_key job_state
  | JSetQuoteResponse job_key quote_response
  | JSetPaymentHash job_key hash32

fun jobstore_step :: "jobstore_event \<Rightarrow> job_store \<Rightarrow> job_store" where
  "jobstore_step (JUpsert now j) s = jobstore_Upsert now j s"
| "jobstore_step (JUpdateState k st) s = snd (jobstore_UpdateState k st s)"
| "jobstore_step (JSetQuoteResponse k r) s = snd (jobstore_SetQuoteResponse k r s)"
| "jobstore_step (JSetPaymentHash k h) s = snd (jobstore_SetPaymentHash k h s)"

inductive jobstore_reachable :: "os_env \<Rightarrow> job_store \<Rightarrow> bool" for env where
  reach_new: "jobstore_reachable env (jobstore_New env)"
| reach_step: "jobstore_reachable env s \<Longrightarrow> jobstore_reachable env (jobstore_step e s)"

lemma jobstore_reachable_inv: "jobstore_reachable env s \<Longrightarrow> jobstore_inv s"
proof (induction rule: jobstore_reachable.induct)
  case reach_new
  show ?case by (rule jobstore_inv_New)
next
  case (reach_step s e)
  then show ?case by (cases e) (simp_all add: jobstore_inv_Upsert jobstore_inv_setters)
qed

text \<open>
  C31. The provider's job store in every reachable state: it holds at most its capacity,
  each key once and each job under the key of its own peer and job id; a job that is
  inserted while there is room, or that replaces one that is present, is found afterwards,
  stamped with the clock when it had no creation time; and an insertion invents no other
  job.
\<close>

theorem jobstore_contract:
  assumes "jobstore_reachable env s"
  shows "jobstore_inv s
    \<and> (int (jobstore_Len s) < js_maxEntries s \<or> jobstore_Get (job_key_of j) s \<noteq> None \<longrightarrow>
        jobstore_Get (job_key_of j) (jobstore_Upsert now j s)
          = Some (if time_IsZero (job_CreatedAt j) then j\<lparr>job_CreatedAt := now\<rparr> else j))
    \<and> (k \<noteq> job_key_of j \<longrightarrow> jobstore_Get k (jobstore_Upsert now j s) \<in> {None, jobstore_Get k s})"
proof -
  note inv = jobstore_reachable_inv [OF assms]
  have "jobstore_Get k (jobstore_Upsert now j s) \<in> {None, jobstore_Get k s}" if "k \<noteq> job_key_of j"
    using Upsert_get [OF inv, of k now j] that by (cases "jobstore_Get k (jobstore_Upsert now j s)") auto
  with inv Upsert_get_same [OF inv, of j now] show ?thesis by (auto simp: jobstore_Len_def)
qed

definition sample_job :: job where
  "sample_job = \<lparr>job_PeerPubKey = ''p'', job_JobID = 1, job_State = StateAwaitingInput,
     job_QuoteRequest = None, job_InputStream = None, job_QuoteExpiry = 0, job_TermsHash = None,
     job_PaymentHash = None, job_InvoiceAddIndex = None, job_QuoteResponse = None, job_CreatedAt = 0\<rparr>"

theorem jobstore_contract_witness:
  "jobstore_Get (job_key_of sample_job) (jobstore_Upsert 7 sample_job (jobstore_New (\<lambda>_. [])))
     = Some (sample_job\<lparr>job_CreatedAt := 7\<rparr>)"
proof -
  have "int (jobstore_Len (jobstore_New (\<lambda>_. []))) < js_maxEntries (jobstore_New (\<lambda>_. []))"
    by (simp add: jobstore_Len_def jobstore_New_def envconfig_Int_def strings_TrimSpace_def)
  moreover have "time_IsZero (job_CreatedAt sample_job)" by (simp add: sample_job_def time_IsZero_def)
  ultimately show ?thesis
    using jobstore_contract [OF reach_new, of "\<lambda>_. []" sample_job 7 "job_key_of sample_job"] by simp
qed

text \<open>
  Eviction order: of two jobs that the insertion staged, the one that was evicted was
  pending whenever the one that stayed is, and when both are pending or both are not it is
  no younger; and no more jobs are evicted than the capacity demands.
\<close>

theorem jobstore_eviction_order:
  assumes "jobstore_inv s" and "(k, x) \<in> set (jobstore_staged now j s)"
    and "jobstore_Get k (jobstore_Upsert now j s) = None"
    and "jobstore_Get k' (jobstore_Upsert now j s) = Some y"
  shows "(job_pending (job_State y) \<longrightarrow> job_pending (job_State x))
    \<and> (job_pending (job_State x) = job_pending (job_State y) \<longrightarrow> job_CreatedAt x \<le> job_CreatedAt y)
    \<and> int (jobstore_Len (jobstore_Upsert now j s)) = js_maxEntries s"
proof -
  have wf: "gomap_wf (jobstore_staged now j s)" using assms(1) by (simp add: gomap_wf_staged jobstore_inv_def)
  let ?r = "jobstore_evictIfOverCapacityLocked (nat (js_maxEntries s)) (jobstore_staged now j s)"
  have wf': "gomap_wf ?r" and len: "length ?r = min (nat (js_maxEntries s)) (length (jobstore_staged now j s))"
    using js.loop_result [OF wf] by simp_all
  have out: "(k, x) \<notin> set ?r" using assms(3) wf' by (simp add: jobstore_Get_def Upsert_staged gomap_wf_mem_iff)
  have "length (jobstore_staged now j s) > nat (js_maxEntries s)"
    using js.loop_id [OF wf] out assms(2) by (metis not_less)
  moreover have "(k', y) \<in> set ?r" using assms(4) by (simp add: jobstore_Get_def Upsert_staged map_of_SomeD)
  ultimately show ?thesis
    using js.loop_order [OF wf assms(2) out] len assms(1)
    by (auto simp: jobstore_Len_def Upsert_staged jobstore_inv_def)
qed

theorem jobstore_eviction_order_witness:
  "\<exists>x. map_of (jobstore_staged 7 (sample_job\<lparr>job_JobID := 2\<rparr>)
          \<lparr>js_jobs = [(job_key_of sample_job, sample_job)], js_maxEntries = 1\<rparr>) (job_key_of sample_job) = Some x
     \<and> job_CreatedAt x \<le> 7"
proof -
  let ?s = "\<lparr>js_jobs = [(job_key_of sample_job, sample_job)], js_maxEntries = 1\<rparr> :: job_store"
  let ?j = "sample_job\<lparr>job_JobID := 2\<rparr>"
  have "jobstore_inv ?s" by (simp add: jobstore_inv_def gomap_wf_def)
  moreover have "jobstore_staged 7 ?j ?s = [(job_key_of sample_job, sample_job), (job_key_of ?j, ?j\<lparr>job_CreatedAt := 7\<rparr>)]"
    by code_simp
  moreover have "jobstore_Get (job_key_of sample_job) (jobstore_Upsert 7 ?j ?s) = None" by code_simp
  moreover have "jobstore_Get (job_key_of ?j) (jobstore_Upsert 7 ?j ?s) = Some (?j\<lparr>job_CreatedAt := 7\<rparr>)" by code_simp
  ultimately have "job_CreatedAt sample_job \<le> job_CreatedAt (?j\<lparr>job_CreatedAt := 7\<rparr>)"
    using jobstore_eviction_order [of ?s "job_key_of sample_job" sample_job 7 ?j "job_key_of ?j" "?j\<lparr>job_CreatedAt := 7\<rparr>"]
    by (simp add: sample_job_def)
  with \<open>jobstore_staged 7 ?j ?s = _\<close> show ?thesis by simp
qed

text \<open>
  C32. A store that is full of jobs that have been paid, finished, failed or been cancelled
  takes no new job: such jobs are never pruned, and the eviction prefers pending jobs, so
  inserting a new pending job evicts that very job and leaves the store as it was.
\<close>

theorem jobstore_full_of_settled_jobs:
  assumes "jobstore_inv s" and "int (jobstore_Len s) = js_maxEntries s"
    and "list_all (\<lambda>(k, x). \<not> job_pending (job_State x)) (js_jobs s)"
    and "jobstore_Get (job_key_of j) s = None" and "job_pending (job_State j)"
  shows "jobstore_Get k (jobstore_Upsert now j s) = jobstore_Get k s"
proof -
  have prune: "jobstore_pruneExpiredLocked n (js_jobs s) = js_jobs s" for n
    using assms(3) unfolding jobstore_pruneExpiredLocked_def
    by (intro filter_True) (auto simp: list_all_iff)
  let ?j = "if time_IsZero (job_CreatedAt j) then j\<lparr>job_CreatedAt := now\<rparr> else j"
  have staged: "jobstore_staged now j s = AList.update (job_key_of j) ?j (js_jobs s)"
    by (simp add: jobstore_staged_def prune)
  have wf: "gomap_wf (js_jobs s)" using assms(1) by (simp add: jobstore_inv_def)
  then have wf': "gomap_wf (jobstore_staged now j s)" by (simp add: gomap_wf_staged)
  have "jobstore_evictIfOverCapacityLocked (nat (js_maxEntries s)) (jobstore_staged now j s)
      = AList.delete (job_key_of j) (jobstore_staged now j s)"
  proof (rule js.loop_evicts_only_preferred [OF wf'])
    show "length (jobstore_staged now j s) = Suc (nat (js_maxEntries s))"
      using assms(2,4) by (simp add: staged length_update jobstore_Len_def jobstore_Get_def)
    show "map_of (jobstore_staged now j s) (job_key_of j) = Some ?j" by (simp add: staged)
    show "job_pending (job_State ?j)" using assms(5) by simp
    show "\<forall>(k', x) \<in> set (jobstore_staged now j s). k' \<noteq> job_key_of j \<longrightarrow> \<not> job_pending (job_State x)"
      using wf' assms(3) by (fastforce simp: gomap_wf_mem_iff staged list_all_iff dest: map_of_SomeD)
  qed
  with assms(4) show ?thesis by (auto simp: jobstore_Get_def Upsert_staged staged)
qed

theorem jobstore_full_of_settled_jobs_witness:
  "jobstore_Get (job_key_of (sample_job\<lparr>job_JobID := 2\<rparr>))
     (jobstore_Upsert 7 (sample_job\<lparr>job_JobID := 2\<rparr>)
        \<lparr>js_jobs = [(job_key_of sample_job, sample_job\<lparr>job_State := StateDone\<rparr>)], js_maxEntries = 1\<rparr>) = None"
proof -
  let ?s = "\<lparr>js_jobs = [(job_key_of sample_job, sample_job\<lparr>job_State := StateDone\<rparr>)], js_maxEntries = 1\<rparr> :: job_store"
  let ?j = "sample_job\<lparr>job_JobID := 2\<rparr>"
  have "jobstore_inv ?s" by (simp add: jobstore_inv_def gomap_wf_def)
  moreover have "jobstore_Get (job_key_of ?j) ?s = None" by code_simp
  moreover have "job_pending (job_State ?j)" by (simp add: sample_job_def)
  ultimately show ?thesis
    using jobstore_full_of_settled_jobs [of ?s ?j "job_key_of ?j" 7]
    by (simp add: jobstore_Len_def)
qed

end
