(* ===== verification/Requester_Job_Store.thy ===== *)
theory Requester_Job_Store
  imports Store_Interface Wire_Types
begin

text \<open>
  The requester's quoted jobs of \<^verbatim>\<open>go-lcpd/internal/requesterjobstore/store.go\<close>. The task
  and the terms are protobuf messages: the task is opaque to the store (a type variable),
  of the terms the store reads the job id and the quote expiry. The clock is an argument;
  where the source reads it twice the later reading is a second argument.
\<close>

section \<open>State\<close>

text \<open>The state type of the source is a string; a value that is none of its constants is \<open>RStateOther\<close>.\<close>

datatype rjob_state =
    RStateQuoted | RStatePaying | RStateAwaitingResult | RStateDone | RStateCancelled
  | RStateFailed | RStateExpired | RStateOther string

definition ErrPeerIDRequired :: goerror where "ErrPeerIDRequired = sentinel ''ErrPeerIDRequired'' ''peer_id is required''"
definition ErrTaskRequired :: goerror where "ErrTaskRequired = sentinel ''ErrTaskRequired'' ''task is required''"
definition ErrTermsRequired :: goerror where "ErrTermsRequired = sentinel ''ErrTermsRequired'' ''terms are required''"
definition ErrInvalidJobID :: goerror where "ErrInvalidJobID = sentinel ''ErrInvalidJobID'' ''job_id must be 32 bytes''"
definition ErrQuoteExpiryRequired :: goerror where
  "ErrQuoteExpiryRequired = sentinel ''ErrQuoteExpiryRequired'' ''quote_expiry is required''"
definition ErrInvalidState :: goerror where "ErrInvalidState = sentinel ''ErrInvalidState'' ''invalid state''"
definition ErrNotFound :: goerror where "ErrNotFound = sentinel ''ErrNotFound'' ''job not found''"
definition ErrExpired :: goerror where "ErrExpired = sentinel ''ErrExpired'' ''job expired''"

lemmas requester_errors = ErrPeerIDRequired_def ErrTaskRequired_def ErrTermsRequired_def ErrInvalidJobID_def
  ErrQuoteExpiryRequired_def ErrInvalidState_def ErrNotFound_def ErrExpired_def sentinel_def

text \<open>The protobuf \<^verbatim>\<open>Terms\<close>; the quote expiry is a time stamp message that may be absent.\<close>

record proto_terms =
  pt_ProtocolVersion :: u32
  pt_JobId :: bytes
  pt_PriceMsat :: u64
  pt_QuoteExpiry :: "gotime option"
  pt_TermsHash :: bytes
  pt_PaymentRequest :: string

record rjob_key =
  rjk_peerID :: string
  rjk_jobID :: hash32

record 'task rjob_entry =
  rj_peerID :: string
  rj_jobID :: hash32
  rj_task :: 'task
  rj_terms :: proto_terms
  rj_state :: rjob_state
  rj_quoteExpiry :: gotime
  rj_createdAt :: gotime
  rj_updatedAt :: gotime

text \<open>The copy that \<^verbatim>\<open>Get\<close> hands out.\<close>

record 'task rjob =
  rjob_PeerID :: string
  rjob_JobID :: hash32
  rjob_Task :: 'task
  rjob_Terms :: proto_terms
  rjob_State :: rjob_state
  rjob_CreatedAt :: gotime
  rjob_UpdatedAt :: gotime

record 'task rjob_store =
  rs_jobs :: "(rjob_key \<times> 'task rjob_entry) list"
  rs_maxEntries :: int

section \<open>Operations\<close>

definition NewWithClockAndMaxEntries :: "int \<Rightarrow> 'task rjob_store" where
  "NewWithClockAndMaxEntries maxEntries =
     \<lparr>rs_jobs = [], rs_maxEntries = (if maxEntries \<le> 0 then 1024 else maxEntries)\<rparr>"

definition requesterjobstore_New :: "os_env \<Rightarrow> 'task rjob_store" where
  "requesterjobstore_New env =
     NewWithClockAndMaxEntries (envconfig_Int env ''LCP_DEFAULT_MAX_STORE_ENTRIES'' 1024)"

definition requester_toJobID :: "bytes \<Rightarrow> hash32 res" where
  "requester_toJobID b = (if length b \<noteq> 32 then Inl ErrInvalidJobID else Inr (bytes_hash b))"

fun isValidState :: "rjob_state \<Rightarrow> bool" where
  "isValidState (RStateOther s) = False"
| "isValidState _ = True"

definition requester_gcLocked ::
    "gotime \<Rightarrow> (rjob_key \<times> 'task rjob_entry) list \<Rightarrow> (rjob_key \<times> 'task rjob_entry) list" where
  "requester_gcLocked now jobs =
     map (\<lambda>(k, entry).
       if rj_state entry \<noteq> RStateQuoted then (k, entry)
       else if time_IsZero (rj_quoteExpiry entry) then (k, entry)
       else if time_Before now (rj_quoteExpiry entry) then (k, entry)
       else (k, entry\<lparr>rj_state := RStateExpired, rj_updatedAt := now\<rparr>)) jobs"

definition requester_evictOldestLocked ::
    "bool \<Rightarrow> (rjob_key \<times> 'task rjob_entry) list \<Rightarrow> (rjob_key \<times> 'task rjob_entry) list option" where
  "requester_evictOldestLocked preferExpired jobs =
     (case scan_min (\<lambda>(k, entry). preferExpired \<longrightarrow> rj_state entry = RStateExpired)
             (\<lambda>(k, entry). rj_createdAt entry) None jobs of
        None \<Rightarrow> None
      | Some (oldestKey, oldest) \<Rightarrow> Some (AList.delete oldestKey jobs))"

lemma requester_evict_shrinks:
  "requester_evictOldestLocked p jobs = Some jobs' \<Longrightarrow> length jobs' < length jobs"
proof -
  assume "requester_evictOldestLocked p jobs = Some jobs'"
  then obtain k j where m: "scan_min (\<lambda>(k, entry). p \<longrightarrow> rj_state entry = RStateExpired)
      (\<lambda>(k, entry). rj_createdAt entry) None jobs = Some (k, j)" and e: "jobs' = AList.delete k jobs"
    by (auto simp: requester_evictOldestLocked_def split: option.splits)
  from scan_min_Some [OF m] have "(k, j) \<in> set jobs" by simp
  then show ?thesis unfolding e AList.delete_eq by (rule length_filter_less) simp
qed

function requester_evictIfOverCapacityLocked ::
    "nat \<Rightarrow> (rjob_key \<times> 'task rjob_entry) list \<Rightarrow> (rjob_key \<times> 'task rjob_entry) list" where
  "requester_evictIfOverCapacityLocked maxEntries jobs =
     (if maxEntries < length jobs
      then (case requester_evictOldestLocked True jobs of
              Some jobs' \<Rightarrow> requester_evictIfOverCapacityLocked maxEntries jobs'
            | None \<Rightarrow>
                (case requester_evictOldestLocked False jobs of
                   Some jobs' \<Rightarrow> requester_evictIfOverCapacityLocked maxEntries jobs'
                 | None \<Rightarrow> jobs))
      else jobs)"
  by pat_completeness auto
termination
  by (relation "measure (\<lambda>(n, jobs). length jobs)") (auto dest: requester_evict_shrinks)

declare requester_evictIfOverCapacityLocked.simps [simp del]

text \<open>
  The entry is stamped with the clock reading before the lock (\<open>now\<close>), the garbage
  collection uses the reading under the lock (\<open>nowLocked\<close>).
\<close>

definition PutQuote ::
    "gotime \<Rightarrow> gotime \<Rightarrow> string \<Rightarrow> 'task option \<Rightarrow> proto_terms option \<Rightarrow> 'task rjob_store \<Rightarrow> unit res \<times> 'task rjob_store" where
  "PutQuote now nowLocked peerID task terms s =
     (if peerID = [] then (Inl ErrPeerIDRequired, s)
      else (case task of
        None \<Rightarrow> (Inl ErrTaskRequired, s)
      | Some t \<Rightarrow> (case terms of
          None \<Rightarrow> (Inl ErrTermsRequired, s)
        | Some tm \<Rightarrow> (case requester_toJobID (pt_JobId tm) of
            Inl err \<Rightarrow> (Inl err, s)
          | Inr jobID \<Rightarrow> (case pt_QuoteExpiry tm of
              None \<Rightarrow> (Inl ErrQuoteExpiryRequired, s)
            | Some quoteExpiry \<Rightarrow>
                let k = \<lparr>rjk_peerID = peerID, rjk_jobID = jobID\<rparr>;
                    cap = nat (rs_maxEntries s);
                    jobs = requester_evictIfOverCapacityLocked cap (requester_gcLocked nowLocked (rs_jobs s));
                    createdAt = (case map_of jobs k of
                        None \<Rightarrow> now
                      | Some existing \<Rightarrow> if time_IsZero (rj_createdAt existing) then now else rj_createdAt existing);
                    entry = \<lparr>rj_peerID = peerID, rj_jobID = jobID, rj_task = t, rj_terms = tm, rj_state = RStateQuoted,
                             rj_quoteExpiry = quoteExpiry, rj_createdAt = createdAt, rj_updatedAt = now\<rparr>
                in (Inr (), s\<lparr>rs_jobs := requester_evictIfOverCapacityLocked cap (AList.update k entry jobs)\<rparr>))))))"

definition GetTerms :: "gotime \<Rightarrow> string \<Rightarrow> hash32 \<Rightarrow> 'task rjob_store \<Rightarrow> proto_terms res \<times> 'task rjob_store" where
  "GetTerms now peerID jobID s =
     (let k = \<lparr>rjk_peerID = peerID, rjk_jobID = jobID\<rparr> in
      case map_of (rs_jobs s) k of
        None \<Rightarrow> (Inl ErrNotFound, s)
      | Some entry \<Rightarrow>
          if rj_state entry = RStateQuoted \<and> \<not> time_IsZero (rj_quoteExpiry entry)
             \<and> \<not> time_Before now (rj_quoteExpiry entry)
          then (Inl ErrExpired,
                s\<lparr>rs_jobs := AList.update k (entry\<lparr>rj_state := RStateExpired, rj_updatedAt := now\<rparr>) (rs_jobs s)\<rparr>)
          else if rj_state entry = RStateExpired then (Inl ErrExpired, s)
          else (Inr (rj_terms entry), s))"

definition MarkState :: "gotime \<Rightarrow> string \<Rightarrow> hash32 \<Rightarrow> rjob_state \<Rightarrow> 'task rjob_store \<Rightarrow> unit res \<times> 'task rjob_store" where
  "MarkState now peerID jobID state s =
     (if \<not> isValidState state then (Inl ErrInvalidState, s)
      else
        (let k = \<lparr>rjk_peerID = peerID, rjk_jobID = jobID\<rparr> in
         case map_of (rs_jobs s) k of
           None \<Rightarrow> (Inl ErrNotFound, s)
         | Some entry \<Rightarrow>
             (Inr (), s\<lparr>rs_jobs := AList.update k (entry\<lparr>rj_state := state, rj_updatedAt := now\<rparr>) (rs_jobs s)\<rparr>)))"

definition requester_GC :: "gotime \<Rightarrow> 'task rjob_store \<Rightarrow> 'task rjob_store" where
  "requester_GC now s =
     s\<lparr>rs_jobs := requester_evictIfOverCapacityLocked (nat (rs_maxEntries s)) (requester_gcLocked now (rs_jobs s))\<rparr>"

definition requester_cloneJob :: "'task rjob_entry \<Rightarrow> 'task rjob" where
  "requester_cloneJob entry =
     \<lparr>rjob_PeerID = rj_peerID entry, rjob_JobID = rj_jobID entry, rjob_Task = rj_task entry,
      rjob_Terms = rj_terms entry, rjob_State = rj_state entry, rjob_CreatedAt = rj_createdAt entry,
      rjob_UpdatedAt = rj_updatedAt entry\<rparr>"

definition requester_Get :: "string \<Rightarrow> hash32 \<Rightarrow> 'task rjob_store \<Rightarrow> 'task rjob option" where
  "requester_Get peerID jobID s =
     (case map_of (rs_jobs s) \<lparr>rjk_peerID = peerID, rjk_jobID = jobID\<rparr> of
        None \<Rightarrow> None | Some entry \<Rightarrow> Some (requester_cloneJob entry))"

definition requester_Len :: "'task rjob_store \<Rightarrow> nat" where
  "requester_Len s = length (rs_jobs s)"

section \<open>Eviction\<close>

interpretation rj: evicting_store requester_evictOldestLocked requester_evictIfOverCapacityLocked
  "\<lambda>e. rj_state e = RStateExpired" rj_createdAt
proof (unfold_locales, goal_cases)
  case (1 m pref m')
  then obtain k j where s: "scan_min (\<lambda>(k, entry). pref \<longrightarrow> rj_state entry = RStateExpired)
      (\<lambda>(k, entry). rj_createdAt entry) None m = Some (k, j)" and e: "m' = AList.delete k m"
    by (auto simp: requester_evictOldestLocked_def split: option.splits)
  from scan_min_entry [OF 1(1) s] e show ?case by blast
next
  case (2 pref m)
  show ?case
    using scan_min_None [of "\<lambda>(k, entry). pref \<longrightarrow> rj_state entry = RStateExpired" "\<lambda>(k, entry). rj_createdAt entry" None m]
    by (auto simp: requester_evictOldestLocked_def split: option.splits)
next
  case (3 m cap)
  show ?case by (rule requester_evictIfOverCapacityLocked.simps)
qed

section \<open>Invariant\<close>

definition requester_inv :: "'task rjob_store \<Rightarrow> bool" where
  "requester_inv s \<longleftrightarrow> gomap_wf (rs_jobs s) \<and> 0 < rs_maxEntries s \<and> int (length (rs_jobs s)) \<le> rs_maxEntries s
     \<and> (\<forall>(k, e) \<in> set (rs_jobs s). k = \<lparr>rjk_peerID = rj_peerID e, rjk_jobID = rj_jobID e\<rparr>)"

definition gc_entry :: "gotime \<Rightarrow> 'task rjob_entry \<Rightarrow> 'task rjob_entry" where
  "gc_entry now e =
     (if rj_state e = RStateQuoted \<and> \<not> time_IsZero (rj_quoteExpiry e) \<and> \<not> time_Before now (rj_quoteExpiry e)
      then e\<lparr>rj_state := RStateExpired, rj_updatedAt := now\<rparr> else e)"

lemma gcLocked_eq: "requester_gcLocked now jobs = map (\<lambda>(k, e). (k, gc_entry now e)) jobs"
  by (auto simp: requester_gcLocked_def gc_entry_def)

lemma gc_entry_ids [simp]: "rj_peerID (gc_entry now e) = rj_peerID e" "rj_jobID (gc_entry now e) = rj_jobID e"
  by (simp_all add: gc_entry_def)

lemma gomap_wf_gcLocked [simp]: "gomap_wf (requester_gcLocked now jobs) \<longleftrightarrow> gomap_wf jobs"
  by (simp add: gomap_wf_def gcLocked_eq comp_def case_prod_unfold)

lemma map_of_gcLocked: "map_of (requester_gcLocked now jobs) k = map_option (gc_entry now) (map_of jobs k)"
  by (induction jobs) (auto simp: gcLocked_eq)

lemma length_gcLocked [simp]: "length (requester_gcLocked now jobs) = length jobs"
  by (simp add: requester_gcLocked_def)

lemma requester_gc_loop:
  assumes "requester_inv s"
  shows "requester_evictIfOverCapacityLocked (nat (rs_maxEntries s)) (requester_gcLocked now (rs_jobs s))
    = requester_gcLocked now (rs_jobs s)"
  using assms by (intro rj.loop_id) (auto simp: requester_inv_def)

lemma requester_inv_update:
  assumes "requester_inv s" and "gomap_wf jobs" and "length jobs \<le> nat (rs_maxEntries s)"
    and "\<forall>(k, e) \<in> set jobs. k = \<lparr>rjk_peerID = rj_peerID e, rjk_jobID = rj_jobID e\<rparr>"
  shows "requester_inv (s\<lparr>rs_jobs := jobs\<rparr>)"
  using assms by (auto simp: requester_inv_def)

lemma requester_inv_New: "requester_inv (requesterjobstore_New env)"
  by (simp add: requester_inv_def requesterjobstore_New_def NewWithClockAndMaxEntries_def)

lemma gcLocked_keys:
  "requester_inv s \<Longrightarrow> \<forall>(k, e) \<in> set (requester_gcLocked now (rs_jobs s)).
     k = \<lparr>rjk_peerID = rj_peerID e, rjk_jobID = rj_jobID e\<rparr>"
  by (auto simp: requester_inv_def gcLocked_eq)

lemma requester_inv_GC: "requester_inv s \<Longrightarrow> requester_inv (requester_GC now s)"
  using gcLocked_keys [of s now]
  by (auto simp: requester_GC_def requester_gc_loop requester_inv_def intro!: requester_inv_update)

lemma update_keys:
  assumes "\<forall>(k, e) \<in> set jobs. k = \<lparr>rjk_peerID = rj_peerID e, rjk_jobID = rj_jobID e\<rparr>" and "gomap_wf jobs"
    and "k0 = \<lparr>rjk_peerID = rj_peerID e0, rjk_jobID = rj_jobID e0\<rparr>"
  shows "\<forall>(k, e) \<in> set (AList.update k0 e0 jobs). k = \<lparr>rjk_peerID = rj_peerID e, rjk_jobID = rj_jobID e\<rparr>"
proof -
  have "gomap_wf (AList.update k0 e0 jobs)" using assms(2) by simp
  then show ?thesis using assms by (fastforce simp: gomap_wf_mem_iff split: if_splits)
qed

lemma requester_inv_replace:
  assumes "requester_inv s" and "map_of (rs_jobs s) k = Some e"
    and "rj_peerID e' = rj_peerID e" and "rj_jobID e' = rj_jobID e"
  shows "requester_inv (s\<lparr>rs_jobs := AList.update k e' (rs_jobs s)\<rparr>)"
proof -
  have "k = \<lparr>rjk_peerID = rj_peerID e', rjk_jobID = rj_jobID e'\<rparr>"
    using assms by (auto simp: requester_inv_def dest: map_of_SomeD)
  then have "\<forall>(k, e) \<in> set (AList.update k e' (rs_jobs s)). k = \<lparr>rjk_peerID = rj_peerID e, rjk_jobID = rj_jobID e\<rparr>"
    using assms(1) by (intro update_keys) (auto simp: requester_inv_def)
  then show ?thesis
    using assms(1,2) by (intro requester_inv_update) (auto simp: requester_inv_def length_update)
qed

lemma requester_inv_GetTerms: "requester_inv s \<Longrightarrow> requester_inv (snd (GetTerms now p j s))"
  by (auto simp: GetTerms_def Let_def split: option.splits intro!: requester_inv_replace)

lemma requester_inv_MarkState: "requester_inv s \<Longrightarrow> requester_inv (snd (MarkState now p j st s))"
  by (auto simp: MarkState_def Let_def split: option.splits intro!: requester_inv_replace)

text \<open>A successful \<^verbatim>\<open>PutQuote\<close>: what it stores and where.\<close>

definition quote_entry ::
    "gotime \<Rightarrow> gotime \<Rightarrow> string \<Rightarrow> hash32 \<Rightarrow> 'task \<Rightarrow> proto_terms \<Rightarrow> gotime \<Rightarrow> 'task rjob_store \<Rightarrow> 'task rjob_entry" where
  "quote_entry now nowLocked peerID jobID t tm quoteExpiry s =
     \<lparr>rj_peerID = peerID, rj_jobID = jobID, rj_task = t, rj_terms = tm, rj_state = RStateQuoted,
      rj_quoteExpiry = quoteExpiry,
      rj_createdAt = (case map_of (requester_gcLocked nowLocked (rs_jobs s)) \<lparr>rjk_peerID = peerID, rjk_jobID = jobID\<rparr> of
          None \<Rightarrow> now
        | Some existing \<Rightarrow> if time_IsZero (rj_createdAt existing) then now else rj_createdAt existing),
      rj_updatedAt = now\<rparr>"

lemma PutQuote_ok:
  assumes "requester_inv s" and "PutQuote now nowLocked peerID task terms s = (Inr (), s')"
  shows "\<exists>t tm quoteExpiry. task = Some t \<and> terms = Some tm \<and> length (pt_JobId tm) = 32 \<and> peerID \<noteq> []
    \<and> pt_QuoteExpiry tm = Some quoteExpiry
    \<and> s' = s\<lparr>rs_jobs := requester_evictIfOverCapacityLocked (nat (rs_maxEntries s))
        (AList.update \<lparr>rjk_peerID = peerID, rjk_jobID = bytes_hash (pt_JobId tm)\<rparr>
          (quote_entry now nowLocked peerID (bytes_hash (pt_JobId tm)) t tm quoteExpiry s)
          (requester_gcLocked nowLocked (rs_jobs s)))\<rparr>"
  using assms
  by (auto simp: PutQuote_def requester_toJobID_def Let_def requester_gc_loop quote_entry_def
      split: if_splits option.splits sum.splits)

lemma PutQuote_error_keeps: "PutQuote now nowLocked peerID task terms s = (Inl e, s') \<Longrightarrow> s' = s"
  by (auto simp: PutQuote_def Let_def split: if_splits option.splits sum.splits)

lemma requester_inv_PutQuote:
  assumes "requester_inv s"
  shows "requester_inv (snd (PutQuote now nowLocked peerID task terms s))"
proof (cases "PutQuote now nowLocked peerID task terms s")
  case (Pair r s')
  show ?thesis
  proof (cases r)
    case (Inl e)
    with Pair PutQuote_error_keeps [of now nowLocked peerID task terms s] assms show ?thesis by simp
  next
    case (Inr u)
    with Pair have "PutQuote now nowLocked peerID task terms s = (Inr (), s')" by simp
    from PutQuote_ok [OF assms this] obtain t tm x where
      s': "s' = s\<lparr>rs_jobs := requester_evictIfOverCapacityLocked (nat (rs_maxEntries s))
        (AList.update \<lparr>rjk_peerID = peerID, rjk_jobID = bytes_hash (pt_JobId tm)\<rparr>
          (quote_entry now nowLocked peerID (bytes_hash (pt_JobId tm)) t tm x s)
          (requester_gcLocked nowLocked (rs_jobs s)))\<rparr>" (is "_ = s\<lparr>rs_jobs := _ (AList.update ?k ?e ?g)\<rparr>")
      by blast
    have wf: "gomap_wf ?g" using assms by (simp add: requester_inv_def)
    have "\<forall>(k, e) \<in> set (AList.update ?k ?e ?g). k = \<lparr>rjk_peerID = rj_peerID e, rjk_jobID = rj_jobID e\<rparr>"
      by (rule update_keys [OF gcLocked_keys [OF assms] wf]) (simp add: quote_entry_def)
    with rj.loop_result [OF gomap_wf_update [OF wf], of "nat (rs_maxEntries s)" ?k ?e]
    have "requester_inv s'" unfolding s' by (intro requester_inv_update [OF assms]) auto
    with Pair show ?thesis by simp
  qed
qed

section \<open>Lookups after a quote\<close>

lemma PutQuote_stored:
  assumes "requester_inv s" and "PutQuote now nowLocked peerID (Some t) (Some tm) s = (Inr (), s')"
    and "int (requester_Len s) < rs_maxEntries s \<or> requester_Get peerID (bytes_hash (pt_JobId tm)) s \<noteq> None"
  shows "\<exists>x. pt_QuoteExpiry tm = Some x \<and>
    map_of (rs_jobs s') \<lparr>rjk_peerID = peerID, rjk_jobID = bytes_hash (pt_JobId tm)\<rparr>
      = Some (quote_entry now nowLocked peerID (bytes_hash (pt_JobId tm)) t tm x s)"
proof -
  let ?k = "\<lparr>rjk_peerID = peerID, rjk_jobID = bytes_hash (pt_JobId tm)\<rparr>"
  let ?g = "requester_gcLocked nowLocked (rs_jobs s)"
  from PutQuote_ok [OF assms(1,2)] obtain x where x: "pt_QuoteExpiry tm = Some x"
    and s': "s' = s\<lparr>rs_jobs := requester_evictIfOverCapacityLocked (nat (rs_maxEntries s))
        (AList.update ?k (quote_entry now nowLocked peerID (bytes_hash (pt_JobId tm)) t tm x s) ?g)\<rparr>"
      (is "_ = s\<lparr>rs_jobs := _ (AList.update _ ?e _)\<rparr>")
    by auto
  have wf: "gomap_wf (AList.update ?k ?e ?g)" using assms(1) by (simp add: requester_inv_def)
  have "length (AList.update ?k ?e ?g) \<le> nat (rs_maxEntries s)"
    using assms(1,3)
    by (auto simp: length_update map_of_gcLocked requester_inv_def requester_Len_def requester_Get_def
        split: option.splits)
  from rj.loop_id [OF wf this] x show ?thesis by (simp add: s')
qed

lemma GetTerms_outcome:
  assumes "map_of (rs_jobs s) \<lparr>rjk_peerID = p, rjk_jobID = j\<rparr> = Some e"
  shows "fst (GetTerms now p j s) = (if rj_state (gc_entry now e) = RStateExpired then Inl ErrExpired else Inr (rj_terms e))
    \<and> map_of (rs_jobs (snd (GetTerms now p j s))) \<lparr>rjk_peerID = p, rjk_jobID = j\<rparr> = Some (gc_entry now e)"
  using assms by (auto simp: GetTerms_def Let_def gc_entry_def)

lemma gc_entry_expired [simp]: "rj_state e = RStateExpired \<Longrightarrow> gc_entry now e = e"
  by (simp add: gc_entry_def)

section \<open>Properties\<close>

text \<open>
  A quote is stored and expires on time: after a successful \<^verbatim>\<open>PutQuote\<close> with room in
  the store (or for a job that is already there), the terms are returned exactly as they
  were stored as long as the quote expiry lies ahead, and \<^verbatim>\<open>ErrExpired\<close> from then on; once
  the store has reported the expiry, or a garbage collection has run after it, the terms
  are never returned again, whatever the clock says.
\<close>

theorem quoted_terms_until_expiry:
  assumes "requester_inv s" and "PutQuote now nowLocked peerID (Some t) (Some tm) s = (Inr (), s')"
    and "int (requester_Len s) < rs_maxEntries s \<or> requester_Get peerID (bytes_hash (pt_JobId tm)) s \<noteq> None"
    and "pt_QuoteExpiry tm = Some x" and "x \<noteq> 0"
  shows "fst (GetTerms u peerID (bytes_hash (pt_JobId tm)) s') = (if u < x then Inr tm else Inl ErrExpired)
    \<and> (x \<le> u \<longrightarrow>
        fst (GetTerms w peerID (bytes_hash (pt_JobId tm)) (snd (GetTerms u peerID (bytes_hash (pt_JobId tm)) s')))
          = Inl ErrExpired
      \<and> fst (GetTerms w peerID (bytes_hash (pt_JobId tm)) (requester_GC u s')) = Inl ErrExpired)"
proof -
  let ?j = "bytes_hash (pt_JobId tm)"
  let ?e = "quote_entry now nowLocked peerID ?j t tm x s"
  have e: "map_of (rs_jobs s') \<lparr>rjk_peerID = peerID, rjk_jobID = ?j\<rparr> = Some ?e"
    using PutQuote_stored [OF assms(1-3)] assms(4) by auto
  have state: "rj_state (gc_entry v ?e) = (if x \<le> v then RStateExpired else RStateQuoted)" for v
    using assms(5) by (simp add: gc_entry_def quote_entry_def time_IsZero_def time_Before_def not_less)
  have terms: "rj_terms ?e = tm" by (simp add: quote_entry_def)
  have "requester_inv s'" using requester_inv_PutQuote [OF assms(1), of now nowLocked peerID "Some t" "Some tm"] assms(2) by simp
  then have gc: "map_of (rs_jobs (requester_GC u s')) \<lparr>rjk_peerID = peerID, rjk_jobID = ?j\<rparr> = Some (gc_entry u ?e)"
    using e by (simp add: requester_GC_def requester_gc_loop map_of_gcLocked)
  show ?thesis
    using GetTerms_outcome [OF e, of u] GetTerms_outcome [OF gc, of w] GetTerms_outcome [of "snd (GetTerms u peerID ?j s')" peerID ?j "gc_entry u ?e" w]
    by (auto simp: state terms)
qed

definition sample_proto_terms :: proto_terms where
  "sample_proto_terms = \<lparr>pt_ProtocolVersion = 2, pt_JobId = replicate 32 7, pt_PriceMsat = 1500,
     pt_QuoteExpiry = Some 100, pt_TermsHash = replicate 32 1, pt_PaymentRequest = ''lnbc''\<rparr>"

theorem quoted_terms_until_expiry_witness:
  "\<exists>s'. PutQuote 10 10 ''p'' (Some ()) (Some sample_proto_terms) (requesterjobstore_New (\<lambda>_. [])) = (Inr (), s')
     \<and> fst (GetTerms 50 ''p'' (bytes_hash (replicate 32 7)) s') = Inr sample_proto_terms
     \<and> fst (GetTerms 100 ''p'' (bytes_hash (replicate 32 7)) s') = Inl ErrExpired"
proof -
  let ?s = "requesterjobstore_New (\<lambda>_. []) :: unit rjob_store"
  obtain s' where put: "PutQuote 10 10 ''p'' (Some ()) (Some sample_proto_terms) ?s = (Inr (), s')"
    by (simp add: PutQuote_def sample_proto_terms_def requester_toJobID_def Let_def)
  have room: "int (requester_Len ?s) < rs_maxEntries ?s"
    by (simp add: requester_Len_def requesterjobstore_New_def NewWithClockAndMaxEntries_def)
  note q = quoted_terms_until_expiry [OF requester_inv_New put disjI1 [OF room], of 100]
  have "pt_QuoteExpiry sample_proto_terms = Some 100" "pt_JobId sample_proto_terms = replicate 32 7"
    by (simp_all add: sample_proto_terms_def)
  with put q [of 50] q [of 100] show ?thesis by auto
qed

text \<open>The operations of the requester's store as events, and the states they reach.\<close>

datatype 'task requester_event =
    RPutQuote gotime gotime string "'task option" "proto_terms option"
  | RGetTerms gotime string hash32
  | RMarkState gotime string hash32 rjob_state
  | RGC gotime

fun requester_step :: "'task requester_event \<Rightarrow> 'task rjob_store \<Rightarrow> 'task rjob_store" where
  "requester_step (RPutQuote now nowLocked p t tm) s = snd (PutQuote now nowLocked p t tm s)"
| "requester_step (RGetTerms now p j) s = snd (GetTerms now p j s)"
| "requester_step (RMarkState now p j st) s = snd (MarkState now p j st s)"
| "requester_step (RGC now) s = requester_GC now s"

text \<open>
  C33. Whatever operations are applied to a new store, the requester's store stays within
  its capacity, holds each peer and job id once and files every entry under its own peer
  and job id.
\<close>

theorem requester_store_invariant:
  "requester_inv (fold requester_step events (requesterjobstore_New env))"
proof -
  have "requester_inv s \<Longrightarrow> requester_inv (fold requester_step events s)" for s :: "'a rjob_store"
  proof (induction events arbitrary: s)
    case Nil
    then show ?case by simp
  next
    case (Cons e events)
    have "requester_inv (requester_step e s)"
      using Cons.prems by (cases e) (simp_all add: requester_inv_PutQuote requester_inv_GetTerms
          requester_inv_MarkState requester_inv_GC)
    with Cons.IH show ?case by simp
  qed
  then show ?thesis using requester_inv_New by blast
qed

end
