(* ===== verification/Peer_Directory.thy ===== *)
theory Peer_Directory
  imports Wire_Types "HOL-Library.List_Lexorder" "HOL-Library.Product_Lexorder"
begin

text \<open>
  The peers of \<^verbatim>\<open>go-lcpd/internal/peerdirectory/directory.go\<close>: which peers are connected,
  enabled for custom messages and have exchanged manifests. The lemmas show that the
  derived flag \<^verbatim>\<open>LCPReady\<close> is never stale and that the listing returns exactly the ready
  peers, in order.
\<close>

section \<open>State\<close>

record peer =
  peer_PeerID :: string
  peer_RemoteAddr :: string
  peer_Connected :: bool
  peer_CustomMsgEnabled :: bool
  peer_ManifestSent :: bool
  peer_LCPReady :: bool
  peer_RemoteManifest :: "manifest option"

record lcp_peer =
  lp_PeerID :: string
  lp_RemoteAddr :: string
  lp_RemoteManifest :: manifest

type_synonym directory = "(string \<times> peer) list"

definition newPeer :: "string \<Rightarrow> peer" where
  "newPeer peerID = \<lparr>peer_PeerID = peerID, peer_RemoteAddr = [], peer_Connected = False,
     peer_CustomMsgEnabled = False, peer_ManifestSent = False, peer_LCPReady = False,
     peer_RemoteManifest = None\<rparr>"

section \<open>Operations\<close>

definition updateLCPReadyLocked :: "peer \<Rightarrow> peer" where
  "updateLCPReadyLocked p =
     p\<lparr>peer_LCPReady := peer_Connected p \<and> peer_CustomMsgEnabled p \<and> peer_ManifestSent p
         \<and> peer_RemoteManifest p \<noteq> None\<rparr>"

text \<open>Every operation looks the peer up, or adds a fresh one, and changes it in place.\<close>

definition withPeer :: "string \<Rightarrow> (peer \<Rightarrow> peer) \<Rightarrow> directory \<Rightarrow> directory" where
  "withPeer peerID f d =
     AList.update peerID (f (case map_of d peerID of None \<Rightarrow> newPeer peerID | Some p \<Rightarrow> p)) d"

definition UpsertPeer :: "string \<Rightarrow> string \<Rightarrow> directory \<Rightarrow> directory" where
  "UpsertPeer peerID remoteAddr = withPeer peerID (\<lambda>p. p\<lparr>peer_RemoteAddr := remoteAddr\<rparr>)"

definition MarkConnected :: "string \<Rightarrow> directory \<Rightarrow> directory" where
  "MarkConnected peerID = withPeer peerID (\<lambda>p. updateLCPReadyLocked (p\<lparr>peer_Connected := True\<rparr>))"

definition MarkDisconnected :: "string \<Rightarrow> directory \<Rightarrow> directory" where
  "MarkDisconnected peerID = withPeer peerID (\<lambda>p. p\<lparr>peer_Connected := False, peer_CustomMsgEnabled := False,
     peer_ManifestSent := False, peer_LCPReady := False, peer_RemoteManifest := None\<rparr>)"

definition MarkCustomMsgEnabled :: "string \<Rightarrow> bool \<Rightarrow> directory \<Rightarrow> directory" where
  "MarkCustomMsgEnabled peerID enabled =
     withPeer peerID (\<lambda>p. updateLCPReadyLocked (p\<lparr>peer_CustomMsgEnabled := enabled\<rparr>))"

definition MarkManifestSent :: "string \<Rightarrow> directory \<Rightarrow> directory" where
  "MarkManifestSent peerID = withPeer peerID (\<lambda>p. updateLCPReadyLocked (p\<lparr>peer_ManifestSent := True\<rparr>))"

definition MarkLCPReady :: "string \<Rightarrow> manifest \<Rightarrow> directory \<Rightarrow> directory" where
  "MarkLCPReady peerID remoteManifest =
     withPeer peerID (\<lambda>p. updateLCPReadyLocked (p\<lparr>peer_RemoteManifest := Some remoteManifest\<rparr>))"

text \<open>Go compares strings by their bytes.\<close>

definition string_order :: "string \<Rightarrow> nat list" where
  "string_order s = map of_char s"

definition lcpPeerEntry :: "peer \<Rightarrow> lcp_peer list" where
  "lcpPeerEntry p =
     (case peer_RemoteManifest p of
        None \<Rightarrow> []
      | Some m \<Rightarrow>
          if \<not> peer_Connected p \<or> \<not> peer_CustomMsgEnabled p \<or> \<not> peer_LCPReady p then []
          else [\<lparr>lp_PeerID = peer_PeerID p, lp_RemoteAddr = peer_RemoteAddr p, lp_RemoteManifest = m\<rparr>])"

definition ListLCPPeers :: "directory \<Rightarrow> lcp_peer list" where
  "ListLCPPeers d =
     sort_key (\<lambda>p. (string_order (lp_PeerID p), string_order (lp_RemoteAddr p)))
       (concat (map (\<lambda>(k, p). lcpPeerEntry p) d))"

definition ListConnectedPeerIDs :: "directory \<Rightarrow> string list" where
  "ListConnectedPeerIDs d =
     sort_key string_order
       (concat (map (\<lambda>(k, p). if \<not> peer_Connected p \<or> peer_PeerID p = [] then [] else [peer_PeerID p]) d))"

definition RemoteManifestFor :: "string \<Rightarrow> directory \<Rightarrow> manifest option" where
  "RemoteManifestFor peerID d =
     (case map_of d peerID of None \<Rightarrow> None | Some p \<Rightarrow> peer_RemoteManifest p)"

definition GetPeer :: "string \<Rightarrow> directory \<Rightarrow> peer option" where
  "GetPeer peerID d = map_of d peerID"

section \<open>Invariant\<close>

text \<open>The flag is the conjunction it stands for, and a peer is filed under its own id.\<close>

definition peer_ok :: "string \<Rightarrow> peer \<Rightarrow> bool" where
  "peer_ok k p \<longleftrightarrow> peer_PeerID p = k \<and>
     (peer_LCPReady p \<longleftrightarrow> peer_Connected p \<and> peer_CustomMsgEnabled p \<and> peer_ManifestSent p
        \<and> peer_RemoteManifest p \<noteq> None)"

definition directory_inv :: "directory \<Rightarrow> bool" where
  "directory_inv d \<longleftrightarrow> gomap_wf d \<and> (\<forall>k p. map_of d k = Some p \<longrightarrow> peer_ok k p)"

datatype directory_event =
    DUpsertPeer string string
  | DMarkConnected string
  | DMarkDisconnected string
  | DMarkCustomMsgEnabled string bool
  | DMarkManifestSent string
  | DMarkLCPReady string manifest

fun directory_step :: "directory_event \<Rightarrow> directory \<Rightarrow> directory" where
  "directory_step (DUpsertPeer k a) d = UpsertPeer k a d"
| "directory_step (DMarkConnected k) d = MarkConnected k d"
| "directory_step (DMarkDisconnected k) d = MarkDisconnected k d"
| "directory_step (DMarkCustomMsgEnabled k b) d = MarkCustomMsgEnabled k b d"
| "directory_step (DMarkManifestSent k) d = MarkManifestSent k d"
| "directory_step (DMarkLCPReady k m) d = MarkLCPReady k m d"

lemma peer_ok_newPeer [simp]: "peer_ok k (newPeer k)"
  by (simp add: peer_ok_def newPeer_def)

lemma withPeer_inv:
  assumes "directory_inv d" and "\<And>p. peer_ok k p \<Longrightarrow> peer_ok k (f p)"
  shows "directory_inv (withPeer k f d)"
  using assms by (auto simp: directory_inv_def withPeer_def split: option.splits)

lemma directory_step_inv: "directory_inv d \<Longrightarrow> directory_inv (directory_step e d)"
  by (cases e)
    (auto intro!: withPeer_inv simp: UpsertPeer_def MarkConnected_def MarkDisconnected_def
      MarkCustomMsgEnabled_def MarkManifestSent_def MarkLCPReady_def peer_ok_def updateLCPReadyLocked_def)

lemma directory_run_inv: "directory_inv d \<Longrightarrow> directory_inv (fold directory_step es d)"
  by (induction es arbitrary: d) (auto intro: directory_step_inv)

lemma directory_inv_Nil [simp]: "directory_inv []"
  by (simp add: directory_inv_def)

section \<open>Listings\<close>

definition peer_ready :: "peer \<Rightarrow> bool" where
  "peer_ready p \<longleftrightarrow> peer_Connected p \<and> peer_CustomMsgEnabled p \<and> peer_ManifestSent p \<and> peer_RemoteManifest p \<noteq> None"

lemma ListLCPPeers_mem:
  assumes "directory_inv d"
  shows "q \<in> set (ListLCPPeers d) \<longleftrightarrow>
    (\<exists>p m. map_of d (lp_PeerID q) = Some p \<and> peer_ready p \<and> peer_RemoteManifest p = Some m
       \<and> q = \<lparr>lp_PeerID = peer_PeerID p, lp_RemoteAddr = peer_RemoteAddr p, lp_RemoteManifest = m\<rparr>)"
    (is "_ \<longleftrightarrow> ?listed")
proof
  assume "q \<in> set (ListLCPPeers d)"
  then obtain k p where kp: "(k, p) \<in> set d" and q: "q \<in> set (lcpPeerEntry p)"
    by (auto simp: ListLCPPeers_def)
  have "map_of d k = Some p" using kp assms by (simp add: directory_inv_def gomap_wf_mem_iff)
  moreover from this have "peer_ok k p" using assms by (simp add: directory_inv_def)
  ultimately show ?listed using q
    by (auto simp: lcpPeerEntry_def peer_ok_def peer_ready_def split: option.splits if_splits)
next
  assume ?listed
  then obtain p m where p: "map_of d (lp_PeerID q) = Some p" "peer_ready p" "peer_RemoteManifest p = Some m"
    "q = \<lparr>lp_PeerID = peer_PeerID p, lp_RemoteAddr = peer_RemoteAddr p, lp_RemoteManifest = m\<rparr>" by blast
  have "peer_ok (lp_PeerID q) p" using assms p(1) unfolding directory_inv_def by blast
  with p(2) have "peer_LCPReady p" by (simp add: peer_ok_def peer_ready_def)
  with p(2-4) have "q \<in> set (lcpPeerEntry p)" by (simp add: lcpPeerEntry_def peer_ready_def)
  with map_of_SomeD [OF p(1)] show "q \<in> set (ListLCPPeers d)"
    unfolding ListLCPPeers_def by force
qed

lemma ListLCPPeers_sorted:
  "sorted (map (\<lambda>p. (string_order (lp_PeerID p), string_order (lp_RemoteAddr p))) (ListLCPPeers d))"
  by (simp add: ListLCPPeers_def)

lemma RemoteManifestFor_disconnected: "RemoteManifestFor k (MarkDisconnected k d) = None"
  by (simp add: RemoteManifestFor_def MarkDisconnected_def withPeer_def)

text \<open>
  C35. The peer directory lists exactly the peers that are ready: after any sequence of
  updates, a peer is listed if and only if it is connected, custom messages are enabled for
  it, the local manifest has been sent to it and its manifest has been received (the listed
  manifest is that one); the listing is sorted by peer id; and a peer that disconnects is
  neither listed nor has a manifest.
\<close>

theorem ready_peers_exact:
  "(q \<in> set (ListLCPPeers (fold directory_step es [])) \<longleftrightarrow>
     (\<exists>p m. GetPeer (lp_PeerID q) (fold directory_step es []) = Some p
        \<and> peer_Connected p \<and> peer_CustomMsgEnabled p \<and> peer_ManifestSent p \<and> peer_RemoteManifest p = Some m
        \<and> q = \<lparr>lp_PeerID = peer_PeerID p, lp_RemoteAddr = peer_RemoteAddr p, lp_RemoteManifest = m\<rparr>))
   \<and> sorted (map (\<lambda>p. (string_order (lp_PeerID p), string_order (lp_RemoteAddr p)))
        (ListLCPPeers (fold directory_step es [])))
   \<and> k \<notin> lp_PeerID ` set (ListLCPPeers (MarkDisconnected k (fold directory_step es [])))
   \<and> RemoteManifestFor k (MarkDisconnected k (fold directory_step es [])) = None"
proof -
  note inv = directory_run_inv [OF directory_inv_Nil, of es]
  have "directory_inv (MarkDisconnected k (fold directory_step es []))"
    using directory_step_inv [OF inv, of "DMarkDisconnected k"] by simp
  from ListLCPPeers_mem [OF this]
  have "k \<notin> lp_PeerID ` set (ListLCPPeers (MarkDisconnected k (fold directory_step es [])))"
    by (auto simp: MarkDisconnected_def withPeer_def peer_ready_def)
  then show ?thesis
    using ListLCPPeers_mem [OF inv] ListLCPPeers_sorted RemoteManifestFor_disconnected
    by (auto simp: GetPeer_def peer_ready_def)
qed

end
