(* ===== verification/Router.thy ===== *)
theory Router
  imports Wire_Types
begin

text \<open>
  The classification of inbound custom messages: \<^verbatim>\<open>go-lcpd/internal/lcpmsgrouter/router.go\<close>
  decides by message type, \<^verbatim>\<open>go-lcpd/internal/inbounddispatch/handler.go\<close> hands job-scope
  messages to the provider, to the requester or to both.
\<close>

section \<open>Routing\<close>

datatype route_action =
    RouteActionDispatchManifest | RouteActionDispatchQuoteRequest | RouteActionDispatchQuoteResponse
  | RouteActionDispatchStreamBegin | RouteActionDispatchStreamChunk | RouteActionDispatchStreamEnd
  | RouteActionDispatchResult | RouteActionDispatchCancel | RouteActionDispatchError
  | RouteActionIgnore | RouteActionDisconnect

record route_decision =
  rd_Action :: route_action
  rd_Reason :: string

record custom_message =
  cm_PeerPubKey :: string
  cm_MsgType :: u16
  cm_Payload :: bytes

definition Route :: "custom_message \<Rightarrow> route_decision" where
  "Route msg =
     (let t = cm_MsgType msg in
      if t = MessageTypeManifest then \<lparr>rd_Action = RouteActionDispatchManifest, rd_Reason = ''lcp_manifest''\<rparr>
      else if t = MessageTypeQuoteRequest then \<lparr>rd_Action = RouteActionDispatchQuoteRequest, rd_Reason = ''lcp_quote_request''\<rparr>
      else if t = MessageTypeQuoteResponse then \<lparr>rd_Action = RouteActionDispatchQuoteResponse, rd_Reason = ''lcp_quote_response''\<rparr>
      else if t = MessageTypeStreamBegin then \<lparr>rd_Action = RouteActionDispatchStreamBegin, rd_Reason = ''lcp_stream_begin''\<rparr>
      else if t = MessageTypeStreamChunk then \<lparr>rd_Action = RouteActionDispatchStreamChunk, rd_Reason = ''lcp_stream_chunk''\<rparr>
      else if t = MessageTypeStreamEnd then \<lparr>rd_Action = RouteActionDispatchStreamEnd, rd_Reason = ''lcp_stream_end''\<rparr>
      else if t = MessageTypeResult then \<lparr>rd_Action = RouteActionDispatchResult, rd_Reason = ''lcp_result''\<rparr>
      else if t = MessageTypeCancel then \<lparr>rd_Action = RouteActionDispatchCancel, rd_Reason = ''lcp_cancel''\<rparr>
      else if t = MessageTypeError then \<lparr>rd_Action = RouteActionDispatchError, rd_Reason = ''lcp_error''\<rparr>
      else if t mod 2 = 0 then \<lparr>rd_Action = RouteActionDisconnect, rd_Reason = ''unknown_even_msg_type''\<rparr>
      else \<lparr>rd_Action = RouteActionIgnore, rd_Reason = ''unknown_odd_msg_type''\<rparr>)"

section \<open>Dispatch\<close>

text \<open>
  The dispatcher calls its two handlers in order; a handler is a state transformer, and a
  nil handler is \<open>None\<close>.
\<close>

type_synonym 's inbound_handler = "(custom_message \<Rightarrow> 's \<Rightarrow> 's) option"

definition callHandler :: "'s inbound_handler \<Rightarrow> custom_message \<Rightarrow> 's \<Rightarrow> 's" where
  "callHandler h msg s = (case h of None \<Rightarrow> s | Some f \<Rightarrow> f msg s)"

definition dispatch_HandleInboundCustomMessage ::
    "'p inbound_handler \<Rightarrow> 'r inbound_handler \<Rightarrow> custom_message \<Rightarrow> 'p \<times> 'r \<Rightarrow> 'p \<times> 'r" where
  "dispatch_HandleInboundCustomMessage provider requester msg s =
     (let t = cm_MsgType msg in
      if t = MessageTypeQuoteRequest \<or> t = MessageTypeCancel
      then (callHandler provider msg (fst s), snd s)
      else if t = MessageTypeQuoteResponse \<or> t = MessageTypeResult \<or> t = MessageTypeError
      then (fst s, callHandler requester msg (snd s))
      else if t = MessageTypeStreamBegin \<or> t = MessageTypeStreamChunk \<or> t = MessageTypeStreamEnd
      then (callHandler provider msg (fst s), callHandler requester msg (snd s))
      else s)"

section \<open>Properties\<close>

definition lcp_message_types :: "u16 list" where
  "lcp_message_types = [MessageTypeManifest, MessageTypeQuoteRequest, MessageTypeQuoteResponse, MessageTypeResult,
     MessageTypeStreamBegin, MessageTypeStreamChunk, MessageTypeStreamEnd, MessageTypeCancel, MessageTypeError]"

lemma Route_unknown:
  "cm_MsgType msg \<notin> set lcp_message_types \<Longrightarrow>
   rd_Action (Route msg) = (if cm_MsgType msg mod 2 = 0 then RouteActionDisconnect else RouteActionIgnore)"
  by (simp add: Route_def lcp_message_types_def Let_def)

lemma Route_known_cases:
  assumes "cm_MsgType msg \<in> set lcp_message_types"
  shows "rd_Action (Route msg) \<notin> {RouteActionDisconnect, RouteActionIgnore}"
  using assms by (auto simp: Route_def lcp_message_types_def Let_def)

lemma Route_known_inject:
  assumes "cm_MsgType a \<in> set lcp_message_types" and "rd_Action (Route a) = rd_Action (Route b)"
  shows "cm_MsgType a = cm_MsgType b"
  using assms
  by (auto simp: Route_def lcp_message_types_def Let_def split: if_splits)

text \<open>
  Routing follows the odd/even rule and is exact: a message of an unknown type leads
  to a disconnect precisely when the type is even and is ignored otherwise, none of the
  nine LCP types is ever refused, and messages of different LCP types are dispatched to
  different handlers.
\<close>

theorem routing_exact:
  "(rd_Action (Route msg) = RouteActionDisconnect \<longleftrightarrow> cm_MsgType msg \<notin> set lcp_message_types \<and> even (unat (cm_MsgType msg)))
   \<and> (rd_Action (Route msg) = RouteActionIgnore \<longleftrightarrow> cm_MsgType msg \<notin> set lcp_message_types \<and> odd (unat (cm_MsgType msg)))
   \<and> (cm_MsgType msg \<in> set lcp_message_types \<and> rd_Action (Route msg) = rd_Action (Route msg')
        \<longrightarrow> cm_MsgType msg = cm_MsgType msg')"
proof -
  have "cm_MsgType msg mod 2 = 0 \<longleftrightarrow> even (unat (cm_MsgType msg))"
    by (simp add: word_unat_eq_iff unat_mod even_iff_mod_2_eq_zero)
  then show ?thesis
    using Route_unknown [of msg] Route_known_cases [of msg] Route_known_inject [of msg msg']
    by (cases "cm_MsgType msg \<in> set lcp_message_types") auto
qed

theorem routing_exact_witness:
  "rd_Action (Route \<lparr>cm_PeerPubKey = ''p'', cm_MsgType = 42087, cm_Payload = []\<rparr>) = RouteActionDispatchResult
   \<and> (rd_Action (Route \<lparr>cm_PeerPubKey = ''p'', cm_MsgType = 42087, cm_Payload = []\<rparr>)
        = rd_Action (Route \<lparr>cm_PeerPubKey = ''q'', cm_MsgType = 42087, cm_Payload = [1]\<rparr>) )
   \<and> rd_Action (Route \<lparr>cm_PeerPubKey = ''p'', cm_MsgType = 42086, cm_Payload = []\<rparr>) = RouteActionDisconnect"
proof -
  have "unat (42086 :: u16) = 42086" by simp
  then have "rd_Action (Route \<lparr>cm_PeerPubKey = ''p'', cm_MsgType = 42086, cm_Payload = []\<rparr>) = RouteActionDisconnect"
    using routing_exact [of "\<lparr>cm_PeerPubKey = ''p'', cm_MsgType = 42086, cm_Payload = []\<rparr>"]
    by (simp add: lcp_message_types_def)
  then show ?thesis by (simp add: Route_def)
qed

end
