(* ===== verification/Compute_Backend.thy ===== *)
theory Compute_Backend
  imports Go_Std
begin

text \<open>
  The compute backends: the interface of \<^verbatim>\<open>go-lcpd/internal/computebackend/backend.go\<close>, the
  deterministic backend and the pass-through backend of \<^verbatim>\<open>computebackend/openai/backend.go\<close>
  over an HTTP client that is a parameter. A reader is the list of the chunks it delivers
  and the error that ends it, \<open>None\<close> for a regular end of file; a read that returns data together
  with an error is the chunk followed by the error.
\<close>

section \<open>Interface\<close>

record compute_task =
  ct_TaskKind :: string
  ct_Model :: string
  ct_InputBytes :: bytes
  ct_ParamsBytes :: bytes

record compute_usage =
  us_InputUnits :: u64
  us_OutputUnits :: u64
  us_TotalUnits :: u64

record execution_result =
  xr_OutputBytes :: bytes
  xr_Usage :: compute_usage

type_synonym reader = "bytes list \<times> goerror option"

record streaming_execution_result =
  xs_Output :: reader
  xs_Usage :: compute_usage

definition zeroUsage :: compute_usage where
  "zeroUsage = \<lparr>us_InputUnits = 0, us_OutputUnits = 0, us_TotalUnits = 0\<rparr>"

definition ErrUnsupportedTaskKind :: goerror where
  "ErrUnsupportedTaskKind = sentinel ''ErrUnsupportedTaskKind'' ''unsupported task_kind''"

definition ErrInvalidTask :: goerror where
  "ErrInvalidTask = sentinel ''ErrInvalidTask'' ''invalid task''"

definition ErrUnauthenticated :: goerror where
  "ErrUnauthenticated = sentinel ''ErrUnauthenticated'' ''unauthenticated''"

definition ErrBackendUnavailable :: goerror where
  "ErrBackendUnavailable = sentinel ''ErrBackendUnavailable'' ''backend unavailable''"

text \<open>The wrapping \<^verbatim>\<open>fmt.Errorf("%w: <text>", sentinel)\<close>.\<close>

definition wrapSentinel :: "goerror \<Rightarrow> string \<Rightarrow> goerror" where
  "wrapSentinel e msg = GoError (error_is e) (error_text e @ '': '' @ msg)"

section \<open>Backends\<close>

definition Disabled_Execute :: "compute_task \<Rightarrow> execution_result res" where
  "Disabled_Execute task = Inl (wrapSentinel ErrBackendUnavailable ''compute backend is disabled'')"

definition Disabled_ExecuteStreaming :: "compute_task \<Rightarrow> streaming_execution_result res" where
  "Disabled_ExecuteStreaming task = Inl (wrapSentinel ErrBackendUnavailable ''compute backend is disabled'')"

definition Deterministic_Execute :: "bytes \<Rightarrow> compute_task \<Rightarrow> execution_result res" where
  "Deterministic_Execute out task = Inr \<lparr>xr_OutputBytes = out, xr_Usage = zeroUsage\<rparr>"

definition Deterministic_ExecuteStreaming :: "bytes \<Rightarrow> compute_task \<Rightarrow> streaming_execution_result res" where
  "Deterministic_ExecuteStreaming out task =
     Inr \<lparr>xs_Output = ((if out = [] then [] else [out]), None), xs_Usage = zeroUsage\<rparr>"

abbreviation maxPassthroughResponseBytes :: nat where "maxPassthroughResponseBytes \<equiv> 16777216"
abbreviation maxUpstreamErrorMessageBytes :: nat where "maxUpstreamErrorMessageBytes \<equiv> 1024"

text \<open>The limit reader delivers one byte more than the limit, so that an excess is noticed.\<close>

definition readLimitedBody :: "reader \<Rightarrow> nat \<Rightarrow> bytes res" where
  "readLimitedBody r limitBytes =
     (let delivered = concat (fst r) in
      if limitBytes < length delivered then Inl (wrapSentinel ErrBackendUnavailable ''response too large'')
      else (case snd r of
        Some err \<Rightarrow> Inl (wrapSentinel ErrBackendUnavailable (''read response: '' @ error_text err))
      | None \<Rightarrow> Inr delivered))"

definition validatePassthroughTask :: "compute_task \<Rightarrow> unit res" where
  "validatePassthroughTask task =
     (if strings_TrimSpace (ct_Model task) = [] then Inl (wrapSentinel ErrInvalidTask ''model is required'')
      else if ct_InputBytes task = [] then Inl (wrapSentinel ErrInvalidTask ''input_bytes is required'')
      else if ct_ParamsBytes task \<noteq> []
      then Inl (wrapSentinel ErrInvalidTask ''params_bytes must be empty for openai.chat_completions.v1'')
      else Inr ())"

text \<open>
  The HTTP client, a parameter: it takes the path and the body and returns the status and
  the body of the response, or an error. A request that cannot be built, which the code
  reports with the same sentinel as a failed one, is an error of the client too. The text of a
  status is a parameter as well.
\<close>

type_synonym http_client = "string \<Rightarrow> bytes \<Rightarrow> (nat \<times> reader) res"

definition errorFromPassthroughHTTPResponse :: "(nat \<Rightarrow> string) \<Rightarrow> nat \<Rightarrow> bytes \<Rightarrow> goerror" where
  "errorFromPassthroughHTTPResponse statusText statusCode body =
     (let m0 = strings_TrimSpace (bytes_string body);
          m1 = (if m0 = [] then statusText statusCode else m0);
          msg = (if maxUpstreamErrorMessageBytes < length m1
                 then take maxUpstreamErrorMessageBytes m1 @ bytes_string [0xE2, 0x80, 0xA6] else m1);
          text = ''http '' @ show_nat statusCode @ '': '' @ msg
      in if statusCode = 401 \<or> statusCode = 403 then wrapSentinel ErrUnauthenticated text
         else if statusCode = 400 then wrapSentinel ErrInvalidTask text
         else wrapSentinel ErrBackendUnavailable text)"

definition openai_ExecuteStreaming ::
    "(nat \<Rightarrow> string) \<Rightarrow> http_client \<Rightarrow> compute_task \<Rightarrow> streaming_execution_result res" where
  "openai_ExecuteStreaming statusText http task =
     bindE (if ct_TaskKind task = ''openai.chat_completions.v1'' then Inr ''/chat/completions''
            else if ct_TaskKind task = ''openai.responses.v1'' then Inr ''/responses''
            else Inl (wrapSentinel ErrUnsupportedTaskKind (strconv_Quote (ct_TaskKind task)))) (\<lambda>urlPath.
     bindE (validatePassthroughTask task) (\<lambda>_.
     case http urlPath (ct_InputBytes task) of
       Inl err \<Rightarrow> Inl (wrapSentinel ErrBackendUnavailable (''request failed: '' @ error_text err))
     | Inr (status, body) \<Rightarrow>
         if status < 200 \<or> 300 \<le> status
         then bindE (readLimitedBody body maxUpstreamErrorMessageBytes) (\<lambda>b.
              Inl (errorFromPassthroughHTTPResponse statusText status b))
         else Inr \<lparr>xs_Output = body, xs_Usage = zeroUsage\<rparr>))"

definition openai_Execute :: "(nat \<Rightarrow> string) \<Rightarrow> http_client \<Rightarrow> compute_task \<Rightarrow> execution_result res" where
  "openai_Execute statusText http task =
     bindE (openai_ExecuteStreaming statusText http task) (\<lambda>streaming.
     bindE (readLimitedBody (xs_Output streaming) maxPassthroughResponseBytes) (\<lambda>body.
     if body = [] then Inl (wrapSentinel ErrBackendUnavailable ''empty response'')
     else Inr \<lparr>xr_OutputBytes = body, xr_Usage = xs_Usage streaming\<rparr>))"

section \<open>What an execution returns\<close>

lemma readLimitedBody_Inr:
  "readLimitedBody r n = Inr b \<longleftrightarrow> b = concat (fst r) \<and> length b \<le> n \<and> snd r = None"
  by (auto simp: readLimitedBody_def Let_def split: option.splits)

lemma error_is_wrapSentinel [simp]: "errors_Is (wrapSentinel e t) n = errors_Is e n"
  by (simp add: errors_Is_def wrapSentinel_def)

lemmas backend_sentinels = ErrUnsupportedTaskKind_def ErrInvalidTask_def ErrUnauthenticated_def
  ErrBackendUnavailable_def sentinel_def errors_Is_def

text \<open>A failure of one class: it wraps this sentinel of the four and no other.\<close>

definition only_sentinel :: "goerror \<Rightarrow> string \<Rightarrow> bool" where
  "only_sentinel e name \<longleftrightarrow> (\<forall>n \<in> {''ErrUnsupportedTaskKind'', ''ErrInvalidTask'', ''ErrUnauthenticated'', ''ErrBackendUnavailable''}.
     errors_Is e n \<longleftrightarrow> n = name)"

lemma only_sentinel_wrap:
  "only_sentinel (wrapSentinel ErrUnsupportedTaskKind t) ''ErrUnsupportedTaskKind''"
  "only_sentinel (wrapSentinel ErrInvalidTask t) ''ErrInvalidTask''"
  "only_sentinel (wrapSentinel ErrUnauthenticated t) ''ErrUnauthenticated''"
  "only_sentinel (wrapSentinel ErrBackendUnavailable t) ''ErrBackendUnavailable''"
  by (auto simp: only_sentinel_def wrapSentinel_def backend_sentinels)

lemma errorFromPassthrough_class:
  "only_sentinel (errorFromPassthroughHTTPResponse st code b)
     (if code = 401 \<or> code = 403 then ''ErrUnauthenticated'' else if code = 400 then ''ErrInvalidTask'' else ''ErrBackendUnavailable'')"
  by (simp add: errorFromPassthroughHTTPResponse_def Let_def only_sentinel_wrap)

lemma readLimitedBody_Inl: "readLimitedBody r n = Inl e \<Longrightarrow> only_sentinel e ''ErrBackendUnavailable''"
  by (auto simp: readLimitedBody_def Let_def only_sentinel_wrap split: option.splits if_splits)

text \<open>The path of a task kind, and what the backend demands of a task.\<close>

definition passthrough_path :: "string \<Rightarrow> string option" where
  "passthrough_path = [''openai.chat_completions.v1'' \<mapsto> ''/chat/completions'', ''openai.responses.v1'' \<mapsto> ''/responses'']"

definition passthrough_task :: "compute_task \<Rightarrow> bool" where
  "passthrough_task task \<longleftrightarrow> strings_TrimSpace (ct_Model task) \<noteq> [] \<and> ct_InputBytes task \<noteq> [] \<and> ct_ParamsBytes task = []"

lemma validatePassthroughTask_Inr: "validatePassthroughTask task = Inr () \<longleftrightarrow> passthrough_task task"
  by (simp add: passthrough_task_def validatePassthroughTask_def)

lemma validatePassthroughTask_Inl: "validatePassthroughTask task = Inl e \<Longrightarrow> only_sentinel e ''ErrInvalidTask''"
  by (auto simp: validatePassthroughTask_def only_sentinel_wrap split: if_splits)

lemma validatePassthroughTask_cases:
  obtains "passthrough_task task" "validatePassthroughTask task = Inr ()"
  | e where "\<not> passthrough_task task" "validatePassthroughTask task = Inl e" "only_sentinel e ''ErrInvalidTask''"
  using validatePassthroughTask_Inr [of task] validatePassthroughTask_Inl [of task]
  by (cases "validatePassthroughTask task") auto

text \<open>The upstream answers with this status, and a body that is read within the limit of error messages.\<close>

definition upstream_status :: "http_client \<Rightarrow> compute_task \<Rightarrow> nat \<Rightarrow> bool" where
  "upstream_status http task status \<longleftrightarrow> (\<exists>path body. passthrough_path (ct_TaskKind task) = Some path
     \<and> http path (ct_InputBytes task) = Inr (status, body) \<and> length (concat (fst body)) \<le> 1024 \<and> snd body = None)"

lemma openai_ExecuteStreaming_path:
  "openai_ExecuteStreaming st http task = (case passthrough_path (ct_TaskKind task) of
     None \<Rightarrow> Inl (wrapSentinel ErrUnsupportedTaskKind (strconv_Quote (ct_TaskKind task)))
   | Some path \<Rightarrow> bindE (validatePassthroughTask task) (\<lambda>_.
       case http path (ct_InputBytes task) of
         Inl err \<Rightarrow> Inl (wrapSentinel ErrBackendUnavailable (''request failed: '' @ error_text err))
       | Inr (status, body) \<Rightarrow>
           if status < 200 \<or> 300 \<le> status
           then bindE (readLimitedBody body maxUpstreamErrorMessageBytes) (\<lambda>b. Inl (errorFromPassthroughHTTPResponse st status b))
           else Inr \<lparr>xs_Output = body, xs_Usage = zeroUsage\<rparr>))"
  by (simp add: openai_ExecuteStreaming_def passthrough_path_def)

lemma openai_Execute_Inr:
  "openai_Execute st http task = Inr res \<longleftrightarrow>
     (\<exists>path status body. passthrough_path (ct_TaskKind task) = Some path \<and> passthrough_task task
        \<and> http path (ct_InputBytes task) = Inr (status, body) \<and> 200 \<le> status \<and> status < 300 \<and> snd body = None
        \<and> concat (fst body) \<noteq> [] \<and> length (concat (fst body)) \<le> 16777216
        \<and> res = \<lparr>xr_OutputBytes = concat (fst body), xr_Usage = zeroUsage\<rparr>)" (is "_ \<longleftrightarrow> ?ok")
proof (cases "\<exists>path status body. passthrough_path (ct_TaskKind task) = Some path \<and> passthrough_task task
    \<and> http path (ct_InputBytes task) = Inr (status, body) \<and> 200 \<le> status \<and> status < 300")
  case True
  then obtain path status body where c: "passthrough_path (ct_TaskKind task) = Some path" "passthrough_task task"
    "http path (ct_InputBytes task) = Inr (status, body)" "200 \<le> status" "status < 300" by blast
  then have "openai_ExecuteStreaming st http task = Inr \<lparr>xs_Output = body, xs_Usage = zeroUsage\<rparr>"
    by (cases rule: validatePassthroughTask_cases [of task]) (simp_all add: openai_ExecuteStreaming_path)
  with c show ?thesis
    by (cases body) (auto simp: openai_Execute_def bindE_Inr_iff readLimitedBody_Inr simp del: concat_eq_Nil_conv)
next
  case False
  then have "\<nexists>v. openai_ExecuteStreaming st http task = Inr v"
    by (cases rule: validatePassthroughTask_cases [of task])
      (auto simp: openai_ExecuteStreaming_path bindE_Inr_iff not_less not_le split: option.splits sum.splits if_splits)
  with False show ?thesis by (auto simp: openai_Execute_def bindE_Inr_iff)
qed

lemma openai_Execute_Inl:
  assumes "openai_Execute st http task = Inl e"
  shows "only_sentinel e (if passthrough_path (ct_TaskKind task) = None then ''ErrUnsupportedTaskKind''
    else if \<not> passthrough_task task \<or> upstream_status http task 400 then ''ErrInvalidTask''
    else if upstream_status http task 401 \<or> upstream_status http task 403 then ''ErrUnauthenticated''
    else ''ErrBackendUnavailable'')" (is "only_sentinel e ?class")
proof (cases "passthrough_path (ct_TaskKind task)")
  case None
  with assms show ?thesis by (auto simp: openai_Execute_def openai_ExecuteStreaming_path only_sentinel_wrap)
next
  case (Some path)
  show ?thesis
  proof (cases rule: validatePassthroughTask_cases [of task])
    case 1
    show ?thesis
    proof (cases "http path (ct_InputBytes task)")
      case (Inl err)
      with assms 1 Some show ?thesis
        by (auto simp: openai_Execute_def openai_ExecuteStreaming_path upstream_status_def only_sentinel_wrap)
    next
      case (Inr resp)
      obtain status body where r: "resp = (status, body)" by (cases resp)
      have up: "upstream_status http task n \<longleftrightarrow> n = status \<and> length (concat (fst body)) \<le> 1024 \<and> snd body = None" for n
        using Some Inr r by (cases body) (auto simp: upstream_status_def)
      show ?thesis
      proof (cases "status < 200 \<or> 300 \<le> status")
        case True
        with assms 1 Some Inr r have "bindE (readLimitedBody body 1024) (\<lambda>b. Inl (errorFromPassthroughHTTPResponse st status b)) = Inl e"
          by (cases "readLimitedBody body 1024") (auto simp: openai_Execute_def openai_ExecuteStreaming_path)
        moreover have "readLimitedBody body 1024 = Inl e \<Longrightarrow> \<not> upstream_status http task n" for n
          by (auto simp: up readLimitedBody_def Let_def split: option.splits)
        ultimately show ?thesis
          using 1 Some up readLimitedBody_Inl [of body 1024 e] errorFromPassthrough_class [of st status]
          by (cases "readLimitedBody body 1024") (auto simp: readLimitedBody_Inr split: if_splits)
      next
        case False
        then have "?class = ''ErrBackendUnavailable''" using 1 Some up by auto
        moreover have "only_sentinel e ''ErrBackendUnavailable''"
          using assms False 1 Some Inr r
          by (auto simp: openai_Execute_def openai_ExecuteStreaming_path bindE_Inl_iff only_sentinel_wrap
              dest: readLimitedBody_Inl split: if_splits)
        ultimately show ?thesis by simp
      qed
    qed
  next
    case (2 e')
    with assms Some show ?thesis by (auto simp: openai_Execute_def openai_ExecuteStreaming_path)
  qed
qed

text \<open>
  C37. The pass-through backend returns what the upstream sent and reports each failure as
  what it is. An execution succeeds exactly when the task kind has a path, the model is not
  blank, the input is not empty, the parameters are, and the response to a request that carried
  the input bytes unchanged to that path is 2xx, read to its end, not empty and at most 16 MiB
  long; the result is that response. Otherwise the error carries exactly one of the four
  sentinels that the provider maps to protocol error codes: unsupported for a kind without a
  path; invalid for an invalid task or a status 400; unauthenticated for a status 401 or 403
  (the statuses of a response whose body is readable and has at most 1024 bytes); backend
  unavailable in every other case.
\<close>

theorem passthrough_execution:
  "(openai_Execute st http task = Inr res \<longleftrightarrow>
      (\<exists>path status body. passthrough_path (ct_TaskKind task) = Some path \<and> passthrough_task task
        \<and> http path (ct_InputBytes task) = Inr (status, body) \<and> 200 \<le> status \<and> status < 300 \<and> snd body = None
        \<and> concat (fst body) \<noteq> [] \<and> length (concat (fst body)) \<le> 16777216
        \<and> res = \<lparr>xr_OutputBytes = concat (fst body), xr_Usage = zeroUsage\<rparr>))
   \<and> (openai_Execute st http task = Inl e \<longrightarrow>
        (errors_Is e ''ErrUnsupportedTaskKind'' \<longleftrightarrow> passthrough_path (ct_TaskKind task) = None)
      \<and> (errors_Is e ''ErrInvalidTask'' \<longleftrightarrow> passthrough_path (ct_TaskKind task) \<noteq> None
           \<and> (\<not> passthrough_task task \<or> upstream_status http task 400))
      \<and> (errors_Is e ''ErrUnauthenticated'' \<longleftrightarrow> passthrough_path (ct_TaskKind task) \<noteq> None
           \<and> passthrough_task task \<and> (upstream_status http task 401 \<or> upstream_status http task 403))
      \<and> (errors_Is e ''ErrBackendUnavailable'' \<longleftrightarrow> passthrough_path (ct_TaskKind task) \<noteq> None
           \<and> passthrough_task task \<and> (\<forall>code \<in> {400, 401, 403}. \<not> upstream_status http task code)))"
proof -
  have one: "\<not> (upstream_status http task m \<and> upstream_status http task n)" if "m \<noteq> n" for m n
    using that by (auto simp: upstream_status_def)
  from one [of 400 401] one [of 400 403] show ?thesis
    using openai_Execute_Inr openai_Execute_Inl [of st http task e]
    by (auto simp: only_sentinel_def split: if_splits)
qed

theorem passthrough_execution_witness:
  "let task = \<lparr>ct_TaskKind = ''openai.responses.v1'', ct_Model = ''m'', ct_InputBytes = [123, 125], ct_ParamsBytes = []\<rparr> in
   openai_Execute (\<lambda>_. []) (\<lambda>path body. Inr (200, [body, [33]], None)) task
     = Inr \<lparr>xr_OutputBytes = [123, 125, 33], xr_Usage = zeroUsage\<rparr>
   \<and> (\<exists>e. openai_Execute (\<lambda>_. []) (\<lambda>path body. Inr (401, [[33]], None)) task = Inl e
        \<and> errors_Is e ''ErrUnauthenticated'' \<and> \<not> errors_Is e ''ErrInvalidTask'')"
proof -
  let ?t = "\<lparr>ct_TaskKind = ''openai.responses.v1'', ct_Model = ''m'', ct_InputBytes = [123, 125], ct_ParamsBytes = []\<rparr>"
  let ?ok = "\<lambda>path body. Inr (200, [body, [33]], None)" and ?no = "\<lambda>path body. Inr (401, [[33]], None)"
  have "strings_TrimSpace ''m'' = ''m''" by code_simp
  then have t: "passthrough_path (ct_TaskKind ?t) = Some ''/responses''" "passthrough_task ?t"
    by (simp_all add: passthrough_path_def passthrough_task_def)
  then have ok: "openai_Execute (\<lambda>_. []) ?ok ?t = Inr \<lparr>xr_OutputBytes = [123, 125, 33], xr_Usage = zeroUsage\<rparr>"
    by (subst passthrough_execution [THEN conjunct1]) simp
  have up: "upstream_status ?no ?t n \<longleftrightarrow> n = 401" for n using t by (auto simp: upstream_status_def)
  obtain e where e: "openai_Execute (\<lambda>_. []) ?no ?t = Inl e"
    using t passthrough_execution [THEN conjunct1, of "\<lambda>_. []" ?no ?t] by (cases "openai_Execute (\<lambda>_. []) ?no ?t") auto
  with passthrough_execution [THEN conjunct2, THEN mp, OF e] t up
  have "errors_Is e ''ErrUnauthenticated'' \<and> \<not> errors_Is e ''ErrInvalidTask''" by simp
  with ok e show ?thesis by (auto simp: Let_def)
qed

text \<open>
  The length limit on the body of an upstream error hides the error: a rejection
  whose body is longer than 1024 bytes is reported as an unavailable backend whatever its
  status was, and the code that would shorten a longer message is never reached.
\<close>

theorem long_error_body_hides_status:
  assumes "ct_TaskKind task = ''openai.chat_completions.v1''" and "validatePassthroughTask task = Inr ()"
    and "http ''/chat/completions'' (ct_InputBytes task) = Inr (status, body)"
    and "status < 200 \<or> 300 \<le> status" and "1024 < length (concat (fst body))"
  shows "openai_Execute st http task = Inl (wrapSentinel ErrBackendUnavailable ''response too large'')"
  using assms by (simp add: openai_Execute_def openai_ExecuteStreaming_def readLimitedBody_def Let_def)

theorem long_error_body_hides_status_witness:
  "openai_Execute (\<lambda>_. []) (\<lambda>path body. Inr (401, [replicate 2000 65], None))
      \<lparr>ct_TaskKind = ''openai.chat_completions.v1'', ct_Model = ''m'', ct_InputBytes = [123, 125], ct_ParamsBytes = []\<rparr>
   = Inl (wrapSentinel ErrBackendUnavailable ''response too large'')"
proof -
  have "strings_TrimSpace ''m'' = ''m''" by code_simp
  then show ?thesis
    by (intro long_error_body_hides_status [where status = 401 and body = "([replicate 2000 65], None)"])
      (simp_all add: validatePassthroughTask_def)
qed

end
