(* ===== verification/Pricing.thy ===== *)
theory Pricing
  imports Compute_Backend
begin

text \<open>
  Quote prices: \<^verbatim>\<open>go-lcpd/internal/llm/pricing.go\<close> (the price table and the exact arithmetic on
  big integers), \<^verbatim>\<open>llm/estimator.go\<close> and \<^verbatim>\<open>llm/policy.go\<close> (the token estimate) and
  \<^verbatim>\<open>provider/dynamic_pricing.go\<close> (the surge multiplier in basis points). A \<^verbatim>\<open>big.Int\<close> is an
  \<open>int\<close>, a \<^verbatim>\<open>uint64\<close> a 64-bit word.
\<close>

section \<open>Price table (llm/pricing.go)\<close>

record price_table_entry =
  pe_Model :: string
  pe_InputMsatPerMTok :: u64
  pe_CachedInputMsatPerMTok :: "u64 option"
  pe_OutputMsatPerMTok :: u64

type_synonym price_table = "(string \<times> price_table_entry) list"

record price_tokens =
  ptk_InputTokens :: u64
  ptk_CachedInputTokens :: u64
  ptk_OutputTokens :: u64

record price_breakdown =
  pb_InputTokens :: u64
  pb_CachedInputTokens :: u64
  pb_OutputTokens :: u64
  pb_PriceMsat :: u64

record usage_estimate =
  ue_InputTokens :: u64
  ue_MaxOutputTokens :: u64
  ue_TotalTokens :: u64

definition ErrUnknownModel :: goerror where
  "ErrUnknownModel = sentinel ''ErrUnknownModel'' ''unknown model''"

definition ErrPriceOverflow :: goerror where
  "ErrPriceOverflow = sentinel ''ErrPriceOverflow'' ''price overflow''"

definition DefaultPriceTable :: price_table where
  "DefaultPriceTable =
     [(''gpt-5.2'', \<lparr>pe_Model = ''gpt-5.2'', pe_InputMsatPerMTok = 1750000,
        pe_CachedInputMsatPerMTok = Some 175000, pe_OutputMsatPerMTok = 14000000\<rparr>)]"

definition addMul :: "int \<Rightarrow> u64 \<Rightarrow> u64 \<Rightarrow> int" where
  "addMul acc tokens pricePerMTokMsat =
     (if tokens = 0 \<or> pricePerMTokMsat = 0 then acc
      else acc + int (unat tokens) * int (unat pricePerMTokMsat))"

text \<open>\<^verbatim>\<open>QuoRem\<close> truncates; both operands are non-negative where it is called.\<close>

definition divCeilBig :: "int \<Rightarrow> int \<Rightarrow> int" where
  "divCeilBig n d = (let q = n div d; r = n mod d in if r \<noteq> 0 then q + 1 else q)"

definition big_IsUint64 :: "int \<Rightarrow> bool" where
  "big_IsUint64 x \<longleftrightarrow> 0 \<le> x \<and> x < 18446744073709551616"

definition totalMsat :: "price_table_entry \<Rightarrow> price_tokens \<Rightarrow> u64 res" where
  "totalMsat e tokens =
     (let cachedPrice = (case pe_CachedInputMsatPerMTok e of None \<Rightarrow> pe_InputMsatPerMTok e | Some p \<Rightarrow> p);
          t1 = addMul 0 (ptk_InputTokens tokens) (pe_InputMsatPerMTok e);
          t2 = addMul t1 (ptk_CachedInputTokens tokens) cachedPrice;
          t3 = addMul t2 (ptk_OutputTokens tokens) (pe_OutputMsatPerMTok e);
          msat = divCeilBig t3 1000000
      in if \<not> big_IsUint64 msat then Inl ErrPriceOverflow else Inr (word_of_int msat))"

definition priceFromTokens :: "string \<Rightarrow> price_tokens \<Rightarrow> price_table \<Rightarrow> price_breakdown res" where
  "priceFromTokens model tokens table =
     (case map_of table model of
        None \<Rightarrow> Inl (GoError (error_is ErrUnknownModel) (error_text ErrUnknownModel @ '': '' @ model))
      | Some entry \<Rightarrow>
          bindE (totalMsat entry tokens) (\<lambda>priceMsat.
          Inr \<lparr>pb_InputTokens = ptk_InputTokens tokens, pb_CachedInputTokens = ptk_CachedInputTokens tokens,
               pb_OutputTokens = ptk_OutputTokens tokens, pb_PriceMsat = priceMsat\<rparr>))"

definition QuotePrice :: "string \<Rightarrow> usage_estimate \<Rightarrow> u64 \<Rightarrow> price_table \<Rightarrow> price_breakdown res" where
  "QuotePrice model estimate cachedInputTokens table =
     priceFromTokens model
       \<lparr>ptk_InputTokens = ue_InputTokens estimate, ptk_CachedInputTokens = cachedInputTokens,
        ptk_OutputTokens = ue_MaxOutputTokens estimate\<rparr> table"

section \<open>Token estimate (llm/estimator.go, llm/policy.go)\<close>

record execution_policy =
  ep_MaxOutputTokens :: u32

definition NewFixedExecutionPolicy :: "u32 \<Rightarrow> execution_policy res" where
  "NewFixedExecutionPolicy maxOutputTokens =
     (if maxOutputTokens = 0 then Inl (errors_New ''max_output_tokens must be > 0'')
      else Inr \<lparr>ep_MaxOutputTokens = maxOutputTokens\<rparr>)"

record resource_estimate =
  re_Name :: string
  re_Amount :: u64

record estimation =
  es_Usage :: usage_estimate
  es_Resources :: "resource_estimate list"
  es_EstimatorID :: string

definition approxTokenCountBytes :: "bytes \<Rightarrow> u64" where
  "approxTokenCountBytes b =
     (let n = (word_of_nat (length b) :: u64) in if n = 0 then 0 else (n + 3) div 4)"

definition ApproxUsageEstimator_Estimate :: "compute_task \<Rightarrow> execution_policy \<Rightarrow> estimation res" where
  "ApproxUsageEstimator_Estimate task policy =
     (if ct_TaskKind task \<noteq> ''openai.chat_completions.v1'' \<and> ct_TaskKind task \<noteq> ''openai.responses.v1''
      then Inl (wrapSentinel ErrUnsupportedTaskKind (strconv_Quote (ct_TaskKind task)))
      else if ct_InputBytes task = [] then Inl (wrapSentinel ErrInvalidTask ''input_bytes is required'')
      else if ep_MaxOutputTokens policy = 0 then Inl (errors_New ''policy.max_output_tokens must be > 0'')
      else
        (let inputTokens = approxTokenCountBytes (ct_InputBytes task);
             maxOutputTokens = (ucast (ep_MaxOutputTokens policy) :: u64);
             totalTokens = inputTokens + maxOutputTokens
         in Inr \<lparr>es_Usage = \<lparr>ue_InputTokens = inputTokens, ue_MaxOutputTokens = maxOutputTokens,
                             ue_TotalTokens = totalTokens\<rparr>,
                 es_Resources = [\<lparr>re_Name = ''tokens.input_estimate'', re_Amount = inputTokens\<rparr>,
                                 \<lparr>re_Name = ''tokens.output_max'', re_Amount = maxOutputTokens\<rparr>,
                                 \<lparr>re_Name = ''tokens.total_estimate'', re_Amount = totalTokens\<rparr>],
                 es_EstimatorID = ''approx.v1''\<rparr>))"

section \<open>Surge pricing (provider/dynamic\_pricing.go)\<close>

record in_flight_surge_config =
  sg_Threshold :: u32
  sg_PerJobBps :: u32
  sg_MaxMultiplierBps :: u32

abbreviation multiplierBpsOne :: u64 where "multiplierBpsOne \<equiv> 10000"
abbreviation defaultMaxInFlightSurgeMultiplierBps :: u32 where "defaultMaxInFlightSurgeMultiplierBps \<equiv> 30000"

definition inFlightMultiplierBps :: "in_flight_surge_config \<Rightarrow> u64 \<Rightarrow> u64" where
  "inFlightMultiplierBps cfg inFlightJobs =
     (if sg_PerJobBps cfg = 0 then multiplierBpsOne
      else
        (let threshold = (ucast (sg_Threshold cfg) :: u64);
             over = (if threshold < inFlightJobs then inFlightJobs - threshold else 0);
             bps = multiplierBpsOne + ucast (sg_PerJobBps cfg) * over;
             maxBps = (if sg_MaxMultiplierBps cfg = 0 then defaultMaxInFlightSurgeMultiplierBps
                       else sg_MaxMultiplierBps cfg);
             bps1 = (if maxBps \<noteq> 0 \<and> (ucast maxBps :: u64) < bps then ucast maxBps else bps)
         in if bps1 < multiplierBpsOne then multiplierBpsOne else bps1))"

definition applyMultiplierCeil :: "u64 \<Rightarrow> u64 \<Rightarrow> u64 res" where
  "applyMultiplierCeil priceMsat multiplierBps =
     (if multiplierBps = 0 then Inl (errors_New ''multiplier_bps must be > 0'')
      else if multiplierBps = multiplierBpsOne then Inr priceMsat
      else
        (let tot = int (unat priceMsat) * int (unat multiplierBps);
             q = tot div int (unat multiplierBpsOne); r = tot mod int (unat multiplierBpsOne);
             q1 = (if r \<noteq> 0 then q + 1 else q)
         in if \<not> big_IsUint64 q1 then Inl ErrPriceOverflow else Inr (word_of_int q1)))"

section \<open>Exact prices\<close>

text \<open>The msat of a token count before rounding, times one million.\<close>

definition micro_total :: "price_table_entry \<Rightarrow> price_tokens \<Rightarrow> nat" where
  "micro_total e t = unat (ptk_InputTokens t) * unat (pe_InputMsatPerMTok e)
     + unat (ptk_CachedInputTokens t) * unat (case pe_CachedInputMsatPerMTok e of None \<Rightarrow> pe_InputMsatPerMTok e | Some p \<Rightarrow> p)
     + unat (ptk_OutputTokens t) * unat (pe_OutputMsatPerMTok e)"

definition ceil_div :: "nat \<Rightarrow> nat \<Rightarrow> nat" where
  "ceil_div n d = (n + d - 1) div d"

lemma addMul_eq: "addMul s t p = s + int (unat t * unat p)"
  by (auto simp: addMul_def)

lemma ceil_div_parts:
  assumes "r < d"
  shows "ceil_div (d * q + r) d = (if r \<noteq> 0 then q + 1 else q)"
  unfolding ceil_div_def by (rule div_nat_eqI) (use assms in \<open>auto simp: algebra_simps\<close>)

lemma ceil_div_eq: "0 < d \<Longrightarrow> ceil_div n d = (if n mod d \<noteq> 0 then n div d + 1 else n div d)"
  using ceil_div_parts [of "n mod d" d "n div d"] by simp

lemma ceil_div_bounds:
  assumes "0 < d"
  shows "n \<le> ceil_div n d * d" and "ceil_div n d * d < n + d"
proof -
  obtain q r where n: "n = d * q + r" and r: "r < d"
    using assms by (metis mod_less_divisor mult_div_mod_eq)
  show "n \<le> ceil_div n d * d" and "ceil_div n d * d < n + d"
    unfolding n ceil_div_parts [OF r] using r by (auto simp: algebra_simps)
qed

lemma ceil_div_mono: "0 < d \<Longrightarrow> a \<le> b \<Longrightarrow> ceil_div a d \<le> ceil_div b d"
  by (simp add: ceil_div_def div_le_mono)

lemma divCeilBig_eq: "0 < d \<Longrightarrow> divCeilBig (int n) (int d) = int (ceil_div n d)"
  by (simp add: divCeilBig_def ceil_div_eq Let_def flip: of_nat_div of_nat_mod)

lemma totalMsat_eq:
  "totalMsat e t = (if ceil_div (micro_total e t) 1000000 < 2 ^ 64
     then Inr (word_of_nat (ceil_div (micro_total e t) 1000000)) else Inl ErrPriceOverflow)"
proof -
  have "addMul (addMul (addMul 0 (ptk_InputTokens t) (pe_InputMsatPerMTok e)) (ptk_CachedInputTokens t)
      (case pe_CachedInputMsatPerMTok e of None \<Rightarrow> pe_InputMsatPerMTok e | Some p \<Rightarrow> p))
      (ptk_OutputTokens t) (pe_OutputMsatPerMTok e) = int (micro_total e t)"
    unfolding addMul_eq micro_total_def by linarith
  with divCeilBig_eq [of 1000000 "micro_total e t"] show ?thesis
    by (auto simp: totalMsat_def Let_def big_IsUint64_def)
qed

lemma totalMsat_Inr:
  "totalMsat e t = Inr p \<longleftrightarrow> unat p = ceil_div (micro_total e t) 1000000"
proof
  assume "totalMsat e t = Inr p"
  then show "unat p = ceil_div (micro_total e t) 1000000"
    by (auto simp: totalMsat_eq unat_of_nat split: if_splits)
next
  assume p: "unat p = ceil_div (micro_total e t) 1000000"
  have "unat p < 2 ^ 64" using unsigned_less [of p, where 'a = nat] by simp
  with p show "totalMsat e t = Inr p" by (simp add: totalMsat_eq flip: p)
qed

lemma applyMultiplierCeil_eq:
  assumes "m \<noteq> 0"
  shows "applyMultiplierCeil p m = (if ceil_div (unat p * unat m) 10000 < 2 ^ 64
     then Inr (word_of_nat (ceil_div (unat p * unat m) 10000)) else Inl ErrPriceOverflow)"
proof (cases "m = multiplierBpsOne")
  case True
  have "ceil_div (unat p * 10000) 10000 = unat p" by (simp add: ceil_div_eq)
  then show ?thesis
    using True unsigned_less [of p, where 'a = nat] by (simp add: applyMultiplierCeil_def)
next
  case False
  then have "applyMultiplierCeil p m =
      (let q = divCeilBig (int (unat p * unat m)) (int 10000) in
       if \<not> big_IsUint64 q then Inl ErrPriceOverflow else Inr (word_of_int q))"
    using assms by (simp add: applyMultiplierCeil_def divCeilBig_def Let_def)
  then show ?thesis
    unfolding divCeilBig_eq [OF zero_less_numeral] by (simp add: Let_def big_IsUint64_def)
qed

section \<open>Surge multiplier\<close>

lemma unat_ucast_u32 [simp]: "unat (ucast (v :: u32) :: u64) = unat v"
  using unsigned_less [of v, where 'a = nat] by (simp add: unsigned_ucast_eq take_bit_nat_eq_self)

definition surge_cap :: "in_flight_surge_config \<Rightarrow> nat" where
  "surge_cap cfg = max 10000 (if sg_MaxMultiplierBps cfg = 0 then 30000 else unat (sg_MaxMultiplierBps cfg))"

text \<open>With fewer than \<open>2 ^ 32\<close> jobs in flight the product does not wrap around.\<close>

lemma inFlightMultiplierBps_eq:
  assumes "unat n < 2 ^ 32" and "sg_PerJobBps cfg \<noteq> 0"
  shows "unat (inFlightMultiplierBps cfg n)
    = min (surge_cap cfg) (10000 + unat (sg_PerJobBps cfg) * (unat n - unat (sg_Threshold cfg)))"
proof -
  let ?over = "if ucast (sg_Threshold cfg) < n then n - ucast (sg_Threshold cfg) else 0"
  let ?b = "multiplierBpsOne + ucast (sg_PerJobBps cfg) * ?over"
  have over: "unat ?over = unat n - unat (sg_Threshold cfg)"
    by (auto simp: word_less_nat_alt unat_sub word_le_nat_alt)
  have p: "unat (sg_PerJobBps cfg) < 2 ^ 32" using unsigned_less [of "sg_PerJobBps cfg", where 'a = nat] by simp
  have "unat (sg_PerJobBps cfg) * (unat n - unat (sg_Threshold cfg)) \<le> (2 ^ 32 - 1) * (2 ^ 32 - 1)"
    using p assms(1) by (intro mult_le_mono) simp_all
  then have small: "10000 + unat (sg_PerJobBps cfg) * (unat n - unat (sg_Threshold cfg)) < 2 ^ 64" by simp
  have mul: "unat (ucast (sg_PerJobBps cfg) * ?over :: u64) = unat (sg_PerJobBps cfg) * (unat n - unat (sg_Threshold cfg))"
    using small by (subst unat_mult_lem [THEN iffD1]) (simp_all only: unat_ucast_u32 over, simp_all)
  have b: "unat ?b = 10000 + unat (sg_PerJobBps cfg) * (unat n - unat (sg_Threshold cfg))"
    using small by (subst unat_add_lem [THEN iffD1]) (simp_all only: mul, simp_all)
  show ?thesis
    using assms(2) b unfolding inFlightMultiplierBps_def surge_cap_def Let_def
    by (auto simp: word_less_nat_alt min_def max_def)
qed

lemma inFlightMultiplierBps_bounds:
  "10000 \<le> unat (inFlightMultiplierBps cfg n) \<and> unat (inFlightMultiplierBps cfg n) \<le> surge_cap cfg"
  by (auto simp: inFlightMultiplierBps_def surge_cap_def Let_def word_less_nat_alt not_less)

lemma inFlightMultiplierBps_nonzero: "inFlightMultiplierBps cfg n \<noteq> 0"
  using inFlightMultiplierBps_bounds [of cfg n] by auto

lemma surged_value:
  assumes "applyMultiplierCeil base (inFlightMultiplierBps cfg n) = Inr q"
  shows "unat q = ceil_div (unat base * unat (inFlightMultiplierBps cfg n)) 10000"
  using assms by (auto simp: applyMultiplierCeil_eq [OF inFlightMultiplierBps_nonzero] unat_of_nat split: if_splits)

lemma surged_not_below:
  assumes "applyMultiplierCeil base (inFlightMultiplierBps cfg n) = Inr q"
  shows "unat base \<le> unat q"
proof -
  have "unat base * 10000 \<le> unat base * unat (inFlightMultiplierBps cfg n)"
    using inFlightMultiplierBps_bounds [of cfg n] by (simp only: mult_le_mono2)
  also have "\<dots> \<le> unat q * 10000"
    unfolding surged_value [OF assms] by (rule ceil_div_bounds) simp
  finally show ?thesis by simp
qed

section \<open>Token estimate\<close>

lemma approxTokenCountBytes_eq:
  assumes "length b < 2 ^ 63"
  shows "unat (approxTokenCountBytes b) = ceil_div (length b) 4"
proof -
  let ?n = "word_of_nat (length b) :: u64"
  have n: "unat ?n = length b" using assms by (simp add: unat_of_nat)
  have "unat (?n + 3) = unat ?n + 3" using assms n by (subst unat_add_lem [THEN iffD1]) simp_all
  then show ?thesis
    using n by (auto simp: approxTokenCountBytes_def Let_def ceil_div_def unat_div word_unat_eq_iff)
qed

lemma estimate_tokens:
  assumes "length (ct_InputBytes task) < 2 ^ 63" and "ApproxUsageEstimator_Estimate task policy = Inr e"
  shows "unat (ue_InputTokens (es_Usage e)) = ceil_div (length (ct_InputBytes task)) 4"
    and "unat (ue_MaxOutputTokens (es_Usage e)) = unat (ep_MaxOutputTokens policy)"
  using assms(2) approxTokenCountBytes_eq [OF assms(1)]
  by (auto simp: ApproxUsageEstimator_Estimate_def Let_def split: if_splits)

section \<open>Properties\<close>

text \<open>
  C17. Quote prices are exact: a price is quoted precisely when the model has an entry, and
  it is the exact sum of tokens times price per million tokens, rounded up to the next
  millisatoshi; the only failures are an unknown model and a price of \<open>2 ^ 64\<close> or more.
\<close>

theorem quote_price_exact:
  fixes estimate :: usage_estimate and cached :: u64
  defines "tokens \<equiv> \<lparr>ptk_InputTokens = ue_InputTokens estimate, ptk_CachedInputTokens = cached,
      ptk_OutputTokens = ue_MaxOutputTokens estimate\<rparr>"
  shows "(QuotePrice model estimate cached table = Inr b \<longleftrightarrow>
      (\<exists>e. map_of table model = Some e
        \<and> micro_total e tokens \<le> unat (pb_PriceMsat b) * 1000000
        \<and> unat (pb_PriceMsat b) * 1000000 < micro_total e tokens + 1000000
        \<and> b = \<lparr>pb_InputTokens = ue_InputTokens estimate, pb_CachedInputTokens = cached,
               pb_OutputTokens = ue_MaxOutputTokens estimate, pb_PriceMsat = pb_PriceMsat b\<rparr>))
    \<and> (QuotePrice model estimate cached table = Inl err \<longrightarrow>
        (map_of table model = None \<and> errors_Is err ''ErrUnknownModel'')
        \<or> (\<exists>e. map_of table model = Some e \<and> errors_Is err ''ErrPriceOverflow''
             \<and> (2 ^ 64 - 1) * 1000000 < micro_total e tokens))"
proof -
  have exact: "unat p = ceil_div n 1000000 \<longleftrightarrow> n \<le> unat p * 1000000 \<and> unat p * 1000000 < n + 1000000" for p :: u64 and n
    using ceil_div_bounds [of 1000000 n] by auto
  have over: "\<not> ceil_div n 1000000 < 2 ^ 64 \<Longrightarrow> (2 ^ 64 - 1) * 1000000 < n" for n
    using ceil_div_bounds(2) [of 1000000 n] by simp
  have inl: "totalMsat e t = Inl x \<Longrightarrow> x = ErrPriceOverflow \<and> (2 ^ 64 - 1) * 1000000 < micro_total e t" for e t x
    using over [of "micro_total e t"] by (auto simp: totalMsat_eq split: if_splits)
  have "QuotePrice model estimate cached table = Inl err \<longrightarrow>
        (map_of table model = None \<and> errors_Is err ''ErrUnknownModel'')
        \<or> (\<exists>e. map_of table model = Some e \<and> errors_Is err ''ErrPriceOverflow''
             \<and> (2 ^ 64 - 1) * 1000000 < micro_total e tokens)"
    unfolding QuotePrice_def priceFromTokens_def tokens_def
    by (cases "map_of table model")
      (auto simp: bindE_Inl_iff errors_Is_def ErrUnknownModel_def ErrPriceOverflow_def sentinel_def dest!: inl)
  moreover have "QuotePrice model estimate cached table = Inr b \<longleftrightarrow>
      (\<exists>e. map_of table model = Some e \<and> totalMsat e tokens = Inr (pb_PriceMsat b)
        \<and> b = \<lparr>pb_InputTokens = ue_InputTokens estimate, pb_CachedInputTokens = cached,
               pb_OutputTokens = ue_MaxOutputTokens estimate, pb_PriceMsat = pb_PriceMsat b\<rparr>)"
    unfolding QuotePrice_def priceFromTokens_def tokens_def
    by (cases "map_of table model"; cases b) (auto simp: bindE_Inr_iff)
  ultimately show ?thesis unfolding totalMsat_Inr exact by blast
qed

theorem quote_price_exact_witness:
  "\<exists>b. QuotePrice ''gpt-5.2'' \<lparr>ue_InputTokens = 3, ue_MaxOutputTokens = 4096, ue_TotalTokens = 4099\<rparr> 0 DefaultPriceTable = Inr b
     \<and> pb_PriceMsat b = 57350"
proof -
  let ?b = "\<lparr>pb_InputTokens = 3, pb_CachedInputTokens = 0, pb_OutputTokens = 4096, pb_PriceMsat = 57350\<rparr>"
  have "QuotePrice ''gpt-5.2'' \<lparr>ue_InputTokens = 3, ue_MaxOutputTokens = 4096, ue_TotalTokens = 4099\<rparr> 0 DefaultPriceTable = Inr ?b"
    using quote_price_exact [of "''gpt-5.2''" "\<lparr>ue_InputTokens = 3, ue_MaxOutputTokens = 4096, ue_TotalTokens = 4099\<rparr>" 0 DefaultPriceTable ?b]
    by (simp add: DefaultPriceTable_def micro_total_def)
  then show ?thesis by auto
qed

text \<open>
  Surge pricing never undercuts the base price and respects its cap: the multiplier
  lies between 1.0 and the configured cap (or the default of 3.0), the surged price is the
  exact product rounded up, and with more jobs in flight (below \<open>2 ^ 32\<close>) it does not fall.
\<close>

theorem surge_price_bounds:
  assumes "applyMultiplierCeil base (inFlightMultiplierBps cfg n) = Inr price"
    and "applyMultiplierCeil base (inFlightMultiplierBps cfg n') = Inr price'"
    and "n \<le> n'" and "unat n' < 2 ^ 32"
  shows "unat base \<le> unat price \<and> unat base * unat (inFlightMultiplierBps cfg n) \<le> unat price * 10000
    \<and> unat price * 10000 < unat base * surge_cap cfg + 10000 \<and> price \<le> price'"
proof -
  have mono: "unat (inFlightMultiplierBps cfg n) \<le> unat (inFlightMultiplierBps cfg n')"
  proof (cases "sg_PerJobBps cfg = 0")
    case True
    then show ?thesis by (simp add: inFlightMultiplierBps_def)
  next
    case False
    have "unat n \<le> unat n'" using assms(3) by (simp add: word_le_nat_alt)
    with assms(4) have "unat n < 2 ^ 32" by simp
    with \<open>unat n \<le> unat n'\<close> show ?thesis
      unfolding inFlightMultiplierBps_eq [OF \<open>unat n < 2 ^ 32\<close> False] inFlightMultiplierBps_eq [OF assms(4) False]
      by (intro min.mono order_refl add_le_mono mult_le_mono diff_le_mono)
  qed
  let ?m = "unat (inFlightMultiplierBps cfg n)"
  have b: "unat base * ?m \<le> unat price * 10000" "unat price * 10000 < unat base * ?m + 10000"
    using ceil_div_bounds [of 10000 "unat base * ?m"] surged_value [OF assms(1)] by simp_all
  have cap: "unat base * ?m \<le> unat base * surge_cap cfg"
    using inFlightMultiplierBps_bounds [of cfg n] by (simp only: mult_le_mono2)
  have "unat base \<le> unat price" by (rule surged_not_below [OF assms(1)])
  moreover have "unat price * 10000 < unat base * surge_cap cfg + 10000" using b(2) cap by linarith
  moreover have "unat price \<le> unat price'"
    unfolding surged_value [OF assms(1)] surged_value [OF assms(2)] using mono by (intro ceil_div_mono mult_le_mono) simp_all
  ultimately show ?thesis using b(1) by (simp only: word_le_nat_alt)
qed

theorem surge_price_bounds_witness:
  "\<exists>p p'. applyMultiplierCeil 57350 (inFlightMultiplierBps \<lparr>sg_Threshold = 2, sg_PerJobBps = 500, sg_MaxMultiplierBps = 0\<rparr> 3) = Inr p
     \<and> applyMultiplierCeil 57350 (inFlightMultiplierBps \<lparr>sg_Threshold = 2, sg_PerJobBps = 500, sg_MaxMultiplierBps = 0\<rparr> 9) = Inr p'
     \<and> p \<le> p' \<and> 57350 \<le> unat p"
proof -
  let ?cfg = "\<lparr>sg_Threshold = 2, sg_PerJobBps = 500, sg_MaxMultiplierBps = 0\<rparr> :: in_flight_surge_config"
  have "applyMultiplierCeil 57350 (inFlightMultiplierBps ?cfg 3) = Inr 60218"
    "applyMultiplierCeil 57350 (inFlightMultiplierBps ?cfg 9) = Inr 77423"
    by (simp_all add: applyMultiplierCeil_def inFlightMultiplierBps_def big_IsUint64_def Let_def)
  with surge_price_bounds [of 57350 ?cfg 3 60218 9 77423] show ?thesis by auto
qed

text \<open>
  The token estimate of an accepted task is the number of input bytes divided by four,
  rounded up, and the policy's output bound, and no task without input, of an unknown kind
  or under a zero output bound is estimated.
\<close>

theorem usage_estimate_exact:
  assumes "length (ct_InputBytes task) < 2 ^ 63"
  shows "(isOk (ApproxUsageEstimator_Estimate task policy) \<longleftrightarrow>
      (ct_TaskKind task = ''openai.chat_completions.v1'' \<or> ct_TaskKind task = ''openai.responses.v1'')
      \<and> ct_InputBytes task \<noteq> [] \<and> ep_MaxOutputTokens policy \<noteq> 0)
    \<and> (ApproxUsageEstimator_Estimate task policy = Inr e \<longrightarrow>
      unat (ue_InputTokens (es_Usage e)) = ceil_div (length (ct_InputBytes task)) 4
      \<and> unat (ue_MaxOutputTokens (es_Usage e)) = unat (ep_MaxOutputTokens policy)
      \<and> unat (ue_TotalTokens (es_Usage e)) = ceil_div (length (ct_InputBytes task)) 4 + unat (ep_MaxOutputTokens policy))"
proof -
  note tok = approxTokenCountBytes_eq [OF assms]
  have out: "unat (ep_MaxOutputTokens policy) < 2 ^ 32"
    using unsigned_less [of "ep_MaxOutputTokens policy", where 'a = nat] by simp
  have small: "ceil_div (length (ct_InputBytes task)) 4 < 2 ^ 62"
    using assms by (simp add: ceil_div_def)
  have "unat (approxTokenCountBytes (ct_InputBytes task) + ucast (ep_MaxOutputTokens policy))
      = ceil_div (length (ct_InputBytes task)) 4 + unat (ep_MaxOutputTokens policy)"
    using out small tok by (subst unat_add_lem [THEN iffD1]) simp_all
  with tok show ?thesis
    by (auto simp: ApproxUsageEstimator_Estimate_def Let_def)
qed

theorem usage_estimate_exact_witness:
  "\<exists>e. ApproxUsageEstimator_Estimate
        \<lparr>ct_TaskKind = ''openai.responses.v1'', ct_Model = ''m'', ct_InputBytes = [1, 2, 3, 4, 5], ct_ParamsBytes = []\<rparr>
        \<lparr>ep_MaxOutputTokens = 16\<rparr> = Inr e
     \<and> unat (ue_TotalTokens (es_Usage e)) = 18"
proof -
  let ?t = "\<lparr>ct_TaskKind = ''openai.responses.v1'', ct_Model = ''m'', ct_InputBytes = [1, 2, 3, 4, 5], ct_ParamsBytes = []\<rparr>"
  have "length (ct_InputBytes ?t) < 2 ^ 63" by simp
  from usage_estimate_exact [OF this, of "\<lparr>ep_MaxOutputTokens = 16\<rparr>"] show ?thesis
    by (auto simp: isOk_iff ceil_div_def)
qed

end
