(* ===== verification/Provider_Validation.thy ===== *)
theory Provider_Validation
  imports Wire_Roundtrip Job_Store Pricing
begin

text \<open>
  What a provider accepts and what it plans to run: \<^verbatim>\<open>go-lcpd/internal/provider/validation.go\<close>,
  \<^verbatim>\<open>config.go\<close> and the pure helpers of \<^verbatim>\<open>handler.go\<close> (input validation, task planning,
  pricing, content types, error codes). The decoding of the JSON bodies into the request
  structs is a parameter, a value of \<open>json_lib\<close>.
\<close>

section \<open>Configuration (config.go)\<close>

record model_config =
  mc_MaxOutputTokens :: "u32 option"
  mc_Price :: price_table_entry

record provider_config =
  pc_Enabled :: bool
  pc_QuoteTTLSeconds :: u64
  pc_InFlightSurge :: in_flight_surge_config
  pc_Models :: "(string \<times> model_config) list"

section \<open>Request bodies\<close>

record chat_request =
  cr_Model :: string
  cr_Messages :: "bytes list"
  cr_Stream :: "bool option"
  cr_MaxTokens :: "u32 option"
  cr_MaxCompletionTokens :: "u32 option"
  cr_MaxOutputTokens :: "u32 option"

record responses_request =
  rr_Model :: string
  rr_Input :: bytes
  rr_Stream :: "bool option"

text \<open>\<^verbatim>\<open>json.Unmarshal\<close> into the two request structs.\<close>

record json_lib =
  parseOpenAIChatCompletionsRequest :: "bytes \<Rightarrow> chat_request res"
  parseOpenAIResponsesRequest :: "bytes \<Rightarrow> responses_request res"

definition chat_maxOutputTokens :: "chat_request \<Rightarrow> u32 option" where
  "chat_maxOutputTokens r =
     (case cr_MaxCompletionTokens r of Some v \<Rightarrow> Some v
      | None \<Rightarrow> (case cr_MaxTokens r of Some v \<Rightarrow> Some v | None \<Rightarrow> cr_MaxOutputTokens r))"

definition bytes_TrimSpace :: "bytes \<Rightarrow> bytes" where
  "bytes_TrimSpace b = string_bytes (strings_TrimSpace (bytes_string b))"

section \<open>Quote requests (validation.go)\<close>

abbreviation taskKindOpenAIChatCompletionsV1 :: string where
  "taskKindOpenAIChatCompletionsV1 \<equiv> ''openai.chat_completions.v1''"
abbreviation taskKindOpenAIResponsesV1 :: string where
  "taskKindOpenAIResponsesV1 \<equiv> ''openai.responses.v1''"

abbreviation contentTypeTextPlain :: string where "contentTypeTextPlain \<equiv> ''text/plain; charset=utf-8''"
abbreviation contentTypeApplicationJSON :: string where
  "contentTypeApplicationJSON \<equiv> ''application/json; charset=utf-8''"
abbreviation contentTypeTextEventStream :: string where
  "contentTypeTextEventStream \<equiv> ''text/event-stream; charset=utf-8''"
abbreviation contentEncodingIdentity :: string where "contentEncodingIdentity \<equiv> ''identity''"

abbreviation defaultMaxStreamBytes :: u64 where "defaultMaxStreamBytes \<equiv> 4194304"
abbreviation defaultMaxJobBytes :: u64 where "defaultMaxJobBytes \<equiv> 8388608"

record quote_request_validator =
  qv_SupportedProtocolVersions :: "u16 list"
  qv_SupportedTaskKinds :: "string list"

record validation_error =
  ve_Code :: u16
  ve_Message :: string

definition DefaultValidator :: quote_request_validator where
  "DefaultValidator = \<lparr>qv_SupportedProtocolVersions = [ProtocolVersionV02],
     qv_SupportedTaskKinds = [taskKindOpenAIChatCompletionsV1, taskKindOpenAIResponsesV1]\<rparr>"

definition protocolSupported :: "quote_request_validator \<Rightarrow> u16 \<Rightarrow> bool" where
  "protocolSupported v protocolVersion =
     (if qv_SupportedProtocolVersions v = [] then protocolVersion = ProtocolVersionV02
      else protocolVersion \<in> set (qv_SupportedProtocolVersions v))"

definition taskKindSupported :: "quote_request_validator \<Rightarrow> string \<Rightarrow> bool" where
  "taskKindSupported v taskKind =
     (if qv_SupportedTaskKinds v = [] then taskKind = taskKindOpenAIChatCompletionsV1
      else taskKind \<in> set (qv_SupportedTaskKinds v))"

definition unsupportedParams :: "string \<Rightarrow> validation_error option" where
  "unsupportedParams msg = Some \<lparr>ve_Code = ErrorCodeUnsupportedParams, ve_Message = msg\<rparr>"

definition validateTaskParams :: "tlv_lib \<Rightarrow> quote_request \<Rightarrow> validation_error option" where
  "validateTaskParams L req =
     (if qr_TaskKind req = taskKindOpenAIChatCompletionsV1 then
        (case qr_ParamsBytes req of
           None \<Rightarrow> unsupportedParams ''openai.chat_completions.v1 params are required''
         | Some p \<Rightarrow> (case DecodeOpenAIChatCompletionsV1Params L p of
             Inl err \<Rightarrow> unsupportedParams ''openai.chat_completions.v1 params must be a valid TLV stream''
           | Inr params \<Rightarrow>
               if cp_Unknown params \<noteq> []
               then unsupportedParams ''openai.chat_completions.v1 params contain unknown tlv types''
               else None))
      else if qr_TaskKind req = taskKindOpenAIResponsesV1 then
        (case qr_ParamsBytes req of
           None \<Rightarrow> unsupportedParams ''openai.responses.v1 params are required''
         | Some p \<Rightarrow> (case DecodeOpenAIResponsesV1Params L p of
             Inl err \<Rightarrow> unsupportedParams ''openai.responses.v1 params must be a valid TLV stream''
           | Inr params \<Rightarrow>
               if rp_Unknown params \<noteq> []
               then unsupportedParams ''openai.responses.v1 params contain unknown tlv types''
               else None))
      else None)"

definition matchesTemplate :: "quote_request \<Rightarrow> task_template \<Rightarrow> bool" where
  "matchesTemplate req tmpl =
     (if qr_TaskKind req \<noteq> tt_TaskKind tmpl then False
      else (case tt_ParamsBytes tmpl of
        Some tp \<Rightarrow> (case qr_ParamsBytes req of None \<Rightarrow> False | Some rp \<Rightarrow> rp = tp)
      | None \<Rightarrow> True))"

definition matchesSupportedTemplate :: "quote_request \<Rightarrow> task_template list \<Rightarrow> bool" where
  "matchesSupportedTemplate req templates = list_ex (matchesTemplate req) templates"

definition ValidateQuoteRequest ::
    "tlv_lib \<Rightarrow> quote_request_validator \<Rightarrow> quote_request \<Rightarrow> manifest option \<Rightarrow> validation_error option" where
  "ValidateQuoteRequest L v req remoteManifest =
     (if \<not> protocolSupported v (env_ProtocolVersion (qr_Envelope req))
      then Some \<lparr>ve_Code = ErrorCodeUnsupportedVersion,
                 ve_Message = ''unsupported protocol_version: '' @ show_nat (unat (env_ProtocolVersion (qr_Envelope req)))\<rparr>
      else if \<not> taskKindSupported v (qr_TaskKind req)
      then Some \<lparr>ve_Code = ErrorCodeUnsupportedTask,
                 ve_Message = ''unsupported task_kind: '' @ strconv_Quote (qr_TaskKind req)\<rparr>
      else (case validateTaskParams L req of
        Some err \<Rightarrow> Some err
      | None \<Rightarrow> (case remoteManifest of
          None \<Rightarrow> None
        | Some m \<Rightarrow>
            if mf_SupportedTasks m \<noteq> [] \<and> \<not> matchesSupportedTemplate req (mf_SupportedTasks m)
            then Some \<lparr>ve_Code = ErrorCodeUnsupportedTask, ve_Message = ''task does not match any supported_tasks template''\<rparr>
            else None)))"

section \<open>Input streams (handler.go)\<close>

definition validateInputStreamBegin :: "stream_begin \<Rightarrow> validation_error + (u64 \<times> hash32)" where
  "validateInputStreamBegin begin =
     (if sb_ContentEncoding begin \<noteq> contentEncodingIdentity
      then Inl \<lparr>ve_Code = ErrorCodeUnsupportedEncoding, ve_Message = ''unsupported content_encoding''\<rparr>
      else (case (sb_TotalLen begin, sb_SHA256 begin) of
        (Some totalLen, Some sum32) \<Rightarrow>
          if defaultMaxStreamBytes < totalLen \<or> defaultMaxJobBytes < totalLen
          then Inl \<lparr>ve_Code = ErrorCodePayloadTooLarge, ve_Message = ''input stream exceeds local limits''\<rparr>
          else Inr (totalLen, sum32)
      | _ \<Rightarrow> Inl \<lparr>ve_Code = ErrorCodeInvalidState, ve_Message = ''input stream begin missing total_len/sha256''\<rparr>))"

definition validateInputStream :: "tlv_lib \<Rightarrow> json_lib \<Rightarrow> quote_request \<Rightarrow> bytes \<Rightarrow> validation_error option" where
  "validateInputStream L J req buf =
     (if qr_TaskKind req = taskKindOpenAIChatCompletionsV1 then
        (case qr_ParamsBytes req of
           None \<Rightarrow> unsupportedParams ''openai.chat_completions.v1 params are required''
         | Some p \<Rightarrow> (case DecodeOpenAIChatCompletionsV1Params L p of
             Inl err \<Rightarrow> unsupportedParams ''openai.chat_completions.v1 params must be a valid TLV stream''
           | Inr params \<Rightarrow> (case parseOpenAIChatCompletionsRequest J buf of
               Inl err \<Rightarrow> unsupportedParams ''openai.chat_completions.v1 input must be valid json''
             | Inr parsed \<Rightarrow>
                 if cr_Model parsed = [] then unsupportedParams ''request_json.model is required''
                 else if cr_Messages parsed = [] then unsupportedParams ''request_json.messages is required''
                 else if cr_Model parsed \<noteq> cp_Model params
                 then unsupportedParams ''params.model must match request_json.model''
                 else None)))
      else if qr_TaskKind req = taskKindOpenAIResponsesV1 then
        (case qr_ParamsBytes req of
           None \<Rightarrow> unsupportedParams ''openai.responses.v1 params are required''
         | Some p \<Rightarrow> (case DecodeOpenAIResponsesV1Params L p of
             Inl err \<Rightarrow> unsupportedParams ''openai.responses.v1 params must be a valid TLV stream''
           | Inr params \<Rightarrow> (case parseOpenAIResponsesRequest J buf of
               Inl err \<Rightarrow> unsupportedParams ''openai.responses.v1 input must be valid json''
             | Inr parsed \<Rightarrow>
                 if rr_Model parsed = [] then unsupportedParams ''request_json.model is required''
                 else if bytes_TrimSpace (rr_Input parsed) = [] \<or> bytes_TrimSpace (rr_Input parsed) = string_bytes ''null''
                 then unsupportedParams ''request_json.input is required''
                 else if rr_Model parsed \<noteq> rp_Model params
                 then unsupportedParams ''params.model must match request_json.model''
                 else None)))
      else None)"

definition inputContentTypeForTaskKind :: "string \<Rightarrow> string" where
  "inputContentTypeForTaskKind taskKind =
     (if taskKind = taskKindOpenAIChatCompletionsV1 then contentTypeApplicationJSON
      else if taskKind = taskKindOpenAIResponsesV1 then contentTypeApplicationJSON
      else [])"

definition resultContentTypeForTaskKind :: "string \<Rightarrow> bool \<Rightarrow> string" where
  "resultContentTypeForTaskKind taskKind streaming =
     (if taskKind = taskKindOpenAIChatCompletionsV1 \<or> taskKind = taskKindOpenAIResponsesV1
      then (if streaming then contentTypeTextEventStream else contentTypeApplicationJSON)
      else contentTypeTextPlain)"

definition modelFromRequest :: "tlv_lib \<Rightarrow> quote_request \<Rightarrow> string" where
  "modelFromRequest L req =
     (case qr_ParamsBytes req of
        None \<Rightarrow> []
      | Some p \<Rightarrow>
          if qr_TaskKind req = taskKindOpenAIChatCompletionsV1
          then (case DecodeOpenAIChatCompletionsV1Params L p of Inl err \<Rightarrow> [] | Inr params \<Rightarrow> cp_Model params)
          else if qr_TaskKind req = taskKindOpenAIResponsesV1
          then (case DecodeOpenAIResponsesV1Params L p of Inl err \<Rightarrow> [] | Inr params \<Rightarrow> rp_Model params)
          else [])"

definition quoteRequestEqual :: "quote_request \<Rightarrow> quote_request \<Rightarrow> bool" where
  "quoteRequestEqual a b =
     (if qr_TaskKind a \<noteq> qr_TaskKind b then False
      else (case (qr_ParamsBytes a, qr_ParamsBytes b) of
        (None, None) \<Rightarrow> True
      | (Some p, Some q) \<Rightarrow> p = q
      | _ \<Rightarrow> False))"

section \<open>Error codes (handler.go)\<close>

definition computeErrorCode :: "goerror \<Rightarrow> u16" where
  "computeErrorCode err =
     (if errors_Is err ''ErrUnsupportedTaskKind'' then ErrorCodeUnsupportedTask
      else if errors_Is err ''ErrInvalidTask'' then ErrorCodeUnsupportedParams
      else if errors_Is err ''ErrUnauthenticated'' then ErrorCodePaymentInvalid
      else if errors_Is err ''ErrBackendUnavailable'' then ErrorCodeRateLimited
      else ErrorCodePaymentInvalid)"

definition quoteErrorCode :: "goerror \<Rightarrow> u16" where
  "quoteErrorCode err =
     (if errors_Is err ''ErrUnknownModel'' then ErrorCodeUnsupportedTask
      else if errors_Is err ''ErrPriceOverflow'' then ErrorCodeRateLimited
      else computeErrorCode err)"

definition errorKind :: "goerror \<Rightarrow> string" where
  "errorKind err =
     (if errors_Is err ''ErrUnsupportedTaskKind'' then ''unsupported_task_kind''
      else if errors_Is err ''ErrInvalidTask'' then ''invalid_task''
      else if errors_Is err ''ErrUnauthenticated'' then ''unauthenticated''
      else if errors_Is err ''ErrBackendUnavailable'' then ''backend_unavailable''
      else ''unknown'')"

section \<open>Plans and prices (handler.go)\<close>

definition maxOutputTokensForModel :: "provider_config \<Rightarrow> execution_policy \<Rightarrow> string \<Rightarrow> u32 res" where
  "maxOutputTokensForModel cfg pol model =
     bindE (case map_of (pc_Models cfg) model of
              None \<Rightarrow> Inr (ep_MaxOutputTokens pol)
            | Some modelCfg \<Rightarrow> (case mc_MaxOutputTokens modelCfg of
                None \<Rightarrow> Inr (ep_MaxOutputTokens pol)
              | Some v \<Rightarrow> if v = 0 then Inl (errors_New ''model max_output_tokens must be > 0'') else Inr v)) (\<lambda>maxOutputTokens.
     if maxOutputTokens = 0 then Inl (errors_New ''max_output_tokens must be > 0'') else Inr maxOutputTokens)"

type_synonym task_plan = "compute_task \<times> execution_policy \<times> string \<times> bool"

definition planOpenAIChatCompletionsV1Task ::
    "tlv_lib \<Rightarrow> json_lib \<Rightarrow> provider_config \<Rightarrow> execution_policy \<Rightarrow> quote_request \<Rightarrow> bytes \<Rightarrow> task_plan res" where
  "planOpenAIChatCompletionsV1Task L J cfg pol req inputBytes =
     (case qr_ParamsBytes req of
        None \<Rightarrow> Inl (wrapSentinel ErrInvalidTask ''openai.chat_completions.v1 params are required'')
      | Some p \<Rightarrow>
     bindE (mapErr (\<lambda>e. wrapSentinel ErrInvalidTask (''invalid openai.chat_completions.v1 params: '' @ error_text e))
              (DecodeOpenAIChatCompletionsV1Params L p)) (\<lambda>params.
     bindE (mapErr (\<lambda>e. wrapSentinel ErrInvalidTask (''invalid openai.chat_completions.v1 input_json: '' @ error_text e))
              (parseOpenAIChatCompletionsRequest J inputBytes)) (\<lambda>parsed.
     if cr_Model parsed = [] then Inl (wrapSentinel ErrInvalidTask ''request_json.model is required'')
     else if cr_Messages parsed = [] then Inl (wrapSentinel ErrInvalidTask ''request_json.messages is required'')
     else if cr_Model parsed \<noteq> cp_Model params
     then Inl (wrapSentinel ErrInvalidTask ''params.model must match request_json.model'')
     else
     bindE (mapErr (\<lambda>e. wrapSentinel ErrInvalidTask (''provider max_output_tokens invalid: '' @ error_text e))
              (maxOutputTokensForModel cfg pol (cp_Model params))) (\<lambda>providerMaxOutputTokens.
     bindE (case chat_maxOutputTokens parsed of
              None \<Rightarrow> Inr providerMaxOutputTokens
            | Some parsedMax \<Rightarrow>
                if parsedMax = 0 then Inl (wrapSentinel ErrInvalidTask ''max_tokens must be > 0'')
                else if providerMaxOutputTokens < parsedMax
                then Inl (wrapSentinel ErrInvalidTask ''max_tokens exceeds provider max_output_tokens'')
                else Inr parsedMax) (\<lambda>maxOutputTokens.
     Inr (\<lparr>ct_TaskKind = qr_TaskKind req, ct_Model = cp_Model params, ct_InputBytes = inputBytes, ct_ParamsBytes = []\<rparr>,
          \<lparr>ep_MaxOutputTokens = maxOutputTokens\<rparr>, cp_Model params, cr_Stream parsed = Some True))))))"

definition planOpenAIResponsesV1Task ::
    "tlv_lib \<Rightarrow> json_lib \<Rightarrow> provider_config \<Rightarrow> execution_policy \<Rightarrow> quote_request \<Rightarrow> bytes \<Rightarrow> task_plan res" where
  "planOpenAIResponsesV1Task L J cfg pol req inputBytes =
     (case qr_ParamsBytes req of
        None \<Rightarrow> Inl (wrapSentinel ErrInvalidTask ''openai.responses.v1 params are required'')
      | Some p \<Rightarrow>
     bindE (mapErr (\<lambda>e. wrapSentinel ErrInvalidTask (''invalid openai.responses.v1 params: '' @ error_text e))
              (DecodeOpenAIResponsesV1Params L p)) (\<lambda>params.
     bindE (mapErr (\<lambda>e. wrapSentinel ErrInvalidTask (''invalid openai.responses.v1 input_json: '' @ error_text e))
              (parseOpenAIResponsesRequest J inputBytes)) (\<lambda>parsed.
     if rr_Model parsed = [] then Inl (wrapSentinel ErrInvalidTask ''request_json.model is required'')
     else if bytes_TrimSpace (rr_Input parsed) = [] \<or> bytes_TrimSpace (rr_Input parsed) = string_bytes ''null''
     then Inl (wrapSentinel ErrInvalidTask ''request_json.input is required'')
     else if rr_Model parsed \<noteq> rp_Model params
     then Inl (wrapSentinel ErrInvalidTask ''params.model must match request_json.model'')
     else
     bindE (mapErr (\<lambda>e. wrapSentinel ErrInvalidTask (''provider max_output_tokens invalid: '' @ error_text e))
              (maxOutputTokensForModel cfg pol (rp_Model params))) (\<lambda>providerMaxOutputTokens.
     Inr (\<lparr>ct_TaskKind = qr_TaskKind req, ct_Model = rp_Model params, ct_InputBytes = inputBytes, ct_ParamsBytes = []\<rparr>,
          \<lparr>ep_MaxOutputTokens = providerMaxOutputTokens\<rparr>, rp_Model params, rr_Stream parsed = Some True)))))"

definition planTask ::
    "tlv_lib \<Rightarrow> json_lib \<Rightarrow> provider_config \<Rightarrow> execution_policy \<Rightarrow> quote_request \<Rightarrow> bytes \<Rightarrow> task_plan res" where
  "planTask L J cfg pol req inputBytes =
     (if qr_TaskKind req = taskKindOpenAIChatCompletionsV1 then planOpenAIChatCompletionsV1Task L J cfg pol req inputBytes
      else if qr_TaskKind req = taskKindOpenAIResponsesV1 then planOpenAIResponsesV1Task L J cfg pol req inputBytes
      else Inl (wrapSentinel ErrUnsupportedTaskKind (strconv_Quote (qr_TaskKind req))))"

definition priceTable :: "provider_config \<Rightarrow> price_table" where
  "priceTable cfg =
     (if pc_Models cfg = [] then DefaultPriceTable
      else map (\<lambda>(model, mc). (model, (mc_Price mc)\<lparr>pe_Model := model\<rparr>)) (pc_Models cfg))"

definition quotePrice ::
    "tlv_lib \<Rightarrow> json_lib \<Rightarrow> provider_config \<Rightarrow> execution_policy \<Rightarrow> u64 \<Rightarrow> quote_request \<Rightarrow> bytes \<Rightarrow> price_breakdown res" where
  "quotePrice L J cfg pol inFlight req inputBytes =
     bindE (planTask L J cfg pol req inputBytes) (\<lambda>(planned, policy, model, streaming).
     bindE (ApproxUsageEstimator_Estimate planned policy) (\<lambda>estimation.
     bindE (QuotePrice model (es_Usage estimation) 0 (priceTable cfg)) (\<lambda>base.
     bindE (applyMultiplierCeil (pb_PriceMsat base) (inFlightMultiplierBps (pc_InFlightSurge cfg) inFlight)) (\<lambda>priceMsat.
     Inr (base\<lparr>pb_PriceMsat := priceMsat\<rparr>)))))"

section \<open>Accepted requests\<close>

context tlv_library
begin

lemma only_model_record:
  assumes "decodeTLVMap L p = Inr m" and "requireTLV m 1 = Inr v" and "filter (\<lambda>(t, x). t \<noteq> 1) m = []"
  shows "p = raw_stream [(1, v)]"
proof -
  from assms(1) have d: "tlv_DecodeP2P L p = Inr m" by (simp add: decodeTLVMap_eq res_simps)
  from decode_sound [OF d] obtain kvs where wf: "gomap_wf m" and asc: "ascending kvs"
    and eq: "map_of m = map_of kvs" and p: "p = raw_stream kvs" by blast
  have v: "map_of kvs 1 = Some v" using assms(2) eq by (simp add: requireTLV_def split: option.splits)
  have keys: "t = 1" if "map_of kvs t = Some x" for t x
  proof -
    have "(t, x) \<in> set m" using that wf by (simp add: gomap_wf_mem_iff eq)
    with assms(3) show ?thesis by (auto simp: filter_empty_conv)
  qed
  have "map_of kvs = map_of [(1, v)]"
    using v keys by (intro ext) (metis (no_types, lifting) map_of.simps fun_upd_apply not_Some_eq fst_conv snd_conv)
  then have "kvs = [(1, v)]" using ascending_gomap_wf [OF asc] by (intro model_map_singleton)
  with p show ?thesis by simp
qed

lemma validateTaskParams_chat:
  assumes "validateTaskParams L req = None" and "qr_TaskKind req = taskKindOpenAIChatCompletionsV1"
  shows "\<exists>model. model \<noteq> [] \<and> qr_ParamsBytes req = Some (raw_stream [(1, string_bytes model)]) \<and> modelFromRequest L req = model"
proof -
  from assms obtain p params where p: "qr_ParamsBytes req = Some p"
    and d: "DecodeOpenAIChatCompletionsV1Params L p = Inr params" and u: "cp_Unknown params = []"
    by (auto simp: validateTaskParams_def unsupportedParams_def split: option.splits sum.splits if_splits)
  from d obtain m v where m: "decodeTLVMap L p = Inr m" "requireTLV m 1 = Inr v"
    and model: "cp_Model params = bytes_string v" "cp_Model params \<noteq> []"
    and unk: "cp_Unknown params = filter (\<lambda>(typ, val). typ \<noteq> 1) m"
    by (auto simp: DecodeOpenAIChatCompletionsV1Params_def readUTF8String_def res_simps split: if_splits)
  have "p = raw_stream [(1, v)]" using only_model_record [OF m] u unk by simp
  with p d model assms(2) show ?thesis
    by (intro exI [of _ "cp_Model params"]) (simp add: modelFromRequest_def)
qed

lemma validateTaskParams_responses:
  assumes "validateTaskParams L req = None" and "qr_TaskKind req = taskKindOpenAIResponsesV1"
  shows "\<exists>model. model \<noteq> [] \<and> qr_ParamsBytes req = Some (raw_stream [(1, string_bytes model)]) \<and> modelFromRequest L req = model"
proof -
  from assms obtain p params where p: "qr_ParamsBytes req = Some p"
    and d: "DecodeOpenAIResponsesV1Params L p = Inr params" and u: "rp_Unknown params = []"
    by (auto simp: validateTaskParams_def unsupportedParams_def split: option.splits sum.splits if_splits)
  from d obtain m v where m: "decodeTLVMap L p = Inr m" "requireTLV m 1 = Inr v"
    and model: "rp_Model params = bytes_string v" "rp_Model params \<noteq> []"
    and unk: "rp_Unknown params = filter (\<lambda>(typ, val). typ \<noteq> 1) m"
    by (auto simp: DecodeOpenAIResponsesV1Params_def readUTF8String_def res_simps split: if_splits)
  have "p = raw_stream [(1, v)]" using only_model_record [OF m] u unk by simp
  with p d model assms(2) show ?thesis
    by (intro exI [of _ "rp_Model params"]) (simp add: modelFromRequest_def)
qed

end

section \<open>Plans\<close>

lemma maxOutputTokensForModel_pos: "maxOutputTokensForModel cfg pol model = Inr v \<Longrightarrow> v \<noteq> 0"
  by (auto simp: maxOutputTokensForModel_def res_simps)

lemma planTask_Inr:
  assumes "planTask L J cfg pol req inp = Inr (task, policy, model, streaming)"
  shows "task = \<lparr>ct_TaskKind = qr_TaskKind req, ct_Model = model, ct_InputBytes = inp, ct_ParamsBytes = []\<rparr>
    \<and> model = modelFromRequest L req \<and> model \<noteq> []
    \<and> (qr_TaskKind req = taskKindOpenAIChatCompletionsV1 \<or> qr_TaskKind req = taskKindOpenAIResponsesV1)
    \<and> ep_MaxOutputTokens policy \<noteq> 0
    \<and> (\<exists>lim. maxOutputTokensForModel cfg pol model = Inr lim \<and> ep_MaxOutputTokens policy \<le> lim)"
  using assms
  by (auto simp: planTask_def planOpenAIChatCompletionsV1Task_def planOpenAIResponsesV1Task_def res_simps
      modelFromRequest_def DecodeOpenAIChatCompletionsV1Params_def DecodeOpenAIResponsesV1Params_def
      split: if_splits option.splits dest: maxOutputTokensForModel_pos)

section \<open>Properties\<close>

text \<open>
  C30. The provider's validator accepts only requests it can price and run: protocol
  version 2, one of the two task kinds, parameters that are exactly the canonical TLV
  stream of a non-empty model name, and, when the peer's manifest lists tasks, a task
  that matches one of them.
\<close>

theorem accepted_request_is_canonical:
  assumes "tlv_library L" and "ValidateQuoteRequest L DefaultValidator req remote = None"
  shows "env_ProtocolVersion (qr_Envelope req) = ProtocolVersionV02
    \<and> (qr_TaskKind req = taskKindOpenAIChatCompletionsV1 \<or> qr_TaskKind req = taskKindOpenAIResponsesV1)
    \<and> modelFromRequest L req \<noteq> []
    \<and> qr_ParamsBytes req = Some (raw_stream [(1, string_bytes (modelFromRequest L req))])
    \<and> (case remote of None \<Rightarrow> True | Some m \<Rightarrow> mf_SupportedTasks m = [] \<or> list_ex (matchesTemplate req) (mf_SupportedTasks m))"
proof -
  have v: "env_ProtocolVersion (qr_Envelope req) = ProtocolVersionV02"
    and k: "qr_TaskKind req = taskKindOpenAIChatCompletionsV1 \<or> qr_TaskKind req = taskKindOpenAIResponsesV1"
    and p: "validateTaskParams L req = None"
    and r: "case remote of None \<Rightarrow> True | Some m \<Rightarrow> mf_SupportedTasks m = [] \<or> list_ex (matchesTemplate req) (mf_SupportedTasks m)"
    using assms(2)
    by (auto simp: ValidateQuoteRequest_def DefaultValidator_def protocolSupported_def taskKindSupported_def
        matchesSupportedTemplate_def split: if_splits option.splits)
  from k have "modelFromRequest L req \<noteq> [] \<and> qr_ParamsBytes req = Some (raw_stream [(1, string_bytes (modelFromRequest L req))])"
    using tlv_library.validateTaskParams_chat [OF assms(1) p] tlv_library.validateTaskParams_responses [OF assms(1) p]
    by blast
  with v k r show ?thesis by blast
qed

definition sample_request :: quote_request where
  "sample_request = \<lparr>qr_Envelope = sample_envelope, qr_TaskKind = ''openai.responses.v1'', qr_ParamsBytes = Some [1, 1, 109]\<rparr>"

lemma sample_params: "DecodeOpenAIResponsesV1Params bolt_lib [1, 1, 109] = Inr \<lparr>rp_Model = ''m'', rp_Unknown = []\<rparr>"
proof -
  have "EncodeOpenAIResponsesV1Params bolt_lib \<lparr>rp_Model = ''m'', rp_Unknown = []\<rparr> = Inr [1, 1, 109]" by code_simp
  from bolt.responses_params_round_trip [OF this] show ?thesis by simp
qed

theorem accepted_request_is_canonical_witness:
  "ValidateQuoteRequest bolt_lib DefaultValidator sample_request None = None
   \<and> qr_ParamsBytes sample_request = Some (raw_stream [(1, string_bytes (modelFromRequest bolt_lib sample_request))])"
proof -
  have "ValidateQuoteRequest bolt_lib DefaultValidator sample_request None = None"
    by (simp add: ValidateQuoteRequest_def DefaultValidator_def protocolSupported_def taskKindSupported_def
        validateTaskParams_def sample_request_def sample_envelope_def sample_params)
  with accepted_request_is_canonical [OF bolt.tlv_library_axioms this] show ?thesis by blast
qed

text \<open>
  A plan stays within the policy: when the provider plans a task, the backend gets the
  received input bytes unchanged, the model that the parameters name, and an output bound
  that is positive and not above the limit configured for that model.
\<close>

theorem plan_within_policy:
  assumes "planTask L J cfg pol req inp = Inr (task, policy, model, streaming)"
  shows "ct_InputBytes task = inp \<and> ct_TaskKind task = qr_TaskKind req \<and> ct_Model task = modelFromRequest L req
    \<and> model = modelFromRequest L req \<and> model \<noteq> [] \<and> 0 < ep_MaxOutputTokens policy
    \<and> (\<exists>lim. maxOutputTokensForModel cfg pol model = Inr lim \<and> ep_MaxOutputTokens policy \<le> lim)"
  using planTask_Inr [OF assms] by (auto simp: word_gt_0)

definition sample_json :: json_lib where
  "sample_json = \<lparr>parseOpenAIChatCompletionsRequest = (\<lambda>b. Inl (errors_New ''bad'')),
     parseOpenAIResponsesRequest = (\<lambda>b. Inr \<lparr>rr_Model = ''m'', rr_Input = b, rr_Stream = None\<rparr>)\<rparr>"

definition sample_config :: provider_config where
  "sample_config = \<lparr>pc_Enabled = True, pc_QuoteTTLSeconds = 0,
     pc_InFlightSurge = \<lparr>sg_Threshold = 0, sg_PerJobBps = 0, sg_MaxMultiplierBps = 0\<rparr>,
     pc_Models = [(''m'', \<lparr>mc_MaxOutputTokens = Some 10, mc_Price = \<lparr>pe_Model = [], pe_InputMsatPerMTok = 2000000,
       pe_CachedInputMsatPerMTok = None, pe_OutputMsatPerMTok = 5000000\<rparr>\<rparr>)]\<rparr>"

lemma sample_limit: "maxOutputTokensForModel sample_config \<lparr>ep_MaxOutputTokens = 16\<rparr> ''m'' = Inr 10"
  by (simp add: maxOutputTokensForModel_def sample_config_def res_simps)

lemma sample_plan:
  "planTask bolt_lib sample_json sample_config \<lparr>ep_MaxOutputTokens = 16\<rparr> sample_request [123, 125]
     = Inr (\<lparr>ct_TaskKind = ''openai.responses.v1'', ct_Model = ''m'', ct_InputBytes = [123, 125], ct_ParamsBytes = []\<rparr>,
            \<lparr>ep_MaxOutputTokens = 10\<rparr>, ''m'', False)"
proof -
  have "bytes_TrimSpace [123, 125] \<noteq> [] \<and> bytes_TrimSpace [123, 125] \<noteq> string_bytes ''null''" by code_simp
  then show ?thesis
    by (simp add: planTask_def planOpenAIResponsesV1Task_def sample_request_def sample_json_def sample_params sample_limit)
qed

lemma sample_table:
  "priceTable sample_config = [(''m'', \<lparr>pe_Model = ''m'', pe_InputMsatPerMTok = 2000000,
     pe_CachedInputMsatPerMTok = None, pe_OutputMsatPerMTok = 5000000\<rparr>)]"
  by (simp add: priceTable_def sample_config_def)

lemma sample_price:
  "quotePrice bolt_lib sample_json sample_config \<lparr>ep_MaxOutputTokens = 16\<rparr> inFlight sample_request [123, 125]
     = Inr \<lparr>pb_InputTokens = 1, pb_CachedInputTokens = 0, pb_OutputTokens = 10, pb_PriceMsat = 52\<rparr>"
proof -
  have "sg_PerJobBps (pc_InFlightSurge sample_config) = 0" by (simp add: sample_config_def)
  then show ?thesis
    by (simp add: quotePrice_def sample_plan ApproxUsageEstimator_Estimate_def approxTokenCountBytes_def QuotePrice_def
        priceFromTokens_def sample_table totalMsat_def addMul_def divCeilBig_def big_IsUint64_def applyMultiplierCeil_def
        inFlightMultiplierBps_def Let_def)
qed

theorem plan_within_policy_witness:
  "\<exists>task policy model streaming.
     planTask bolt_lib sample_json sample_config \<lparr>ep_MaxOutputTokens = 16\<rparr> sample_request [123, 125] = Inr (task, policy, model, streaming)
   \<and> ct_InputBytes task = [123, 125] \<and> 0 < ep_MaxOutputTokens policy"
  using plan_within_policy [OF sample_plan] sample_plan by blast

text \<open>
  C29. A quote covers the worst case: a quoted price is at least the price of the estimated
  input tokens (one per four bytes, rounded up) and of the largest output the plan allows,
  at the rates of the table for that model, whatever the load is.
\<close>

theorem quote_covers_worst_case:
  assumes "quotePrice L J cfg pol inFlight req inp = Inr b" and "length inp < 2 ^ 63"
  shows "\<exists>task policy model streaming e.
      planTask L J cfg pol req inp = Inr (task, policy, model, streaming)
    \<and> map_of (priceTable cfg) model = Some e
    \<and> ceil_div (length inp) 4 * unat (pe_InputMsatPerMTok e) + unat (ep_MaxOutputTokens policy) * unat (pe_OutputMsatPerMTok e)
        \<le> unat (pb_PriceMsat b) * 1000000"
proof -
  from assms(1) obtain task policy model streaming est base where
    plan: "planTask L J cfg pol req inp = Inr (task, policy, model, streaming)"
    and est: "ApproxUsageEstimator_Estimate task policy = Inr est"
    and base: "QuotePrice model (es_Usage est) 0 (priceTable cfg) = Inr base"
    and surge: "applyMultiplierCeil (pb_PriceMsat base) (inFlightMultiplierBps (pc_InFlightSurge cfg) inFlight) = Inr (pb_PriceMsat b)"
    by (auto simp: quotePrice_def res_simps)
  from base obtain e where e: "map_of (priceTable cfg) model = Some e"
    and t: "totalMsat e \<lparr>ptk_InputTokens = ue_InputTokens (es_Usage est), ptk_CachedInputTokens = 0,
        ptk_OutputTokens = ue_MaxOutputTokens (es_Usage est)\<rparr> = Inr (pb_PriceMsat base)"
    by (auto simp: QuotePrice_def priceFromTokens_def res_simps split: option.splits)
  have "ct_InputBytes task = inp" using planTask_Inr [OF plan] by simp
  then have tokens: "unat (ue_InputTokens (es_Usage est)) = ceil_div (length inp) 4"
    "unat (ue_MaxOutputTokens (es_Usage est)) = unat (ep_MaxOutputTokens policy)"
    using estimate_tokens [OF _ est] assms(2) by simp_all
  have "ceil_div (length inp) 4 * unat (pe_InputMsatPerMTok e) + unat (ep_MaxOutputTokens policy) * unat (pe_OutputMsatPerMTok e)
      \<le> unat (pb_PriceMsat base) * 1000000"
    using t tokens ceil_div_bounds(1) [of 1000000] by (simp add: totalMsat_Inr micro_total_def)
  moreover have "unat (pb_PriceMsat base) \<le> unat (pb_PriceMsat b)"
    using surged_not_below [OF surge] .
  ultimately have "ceil_div (length inp) 4 * unat (pe_InputMsatPerMTok e) + unat (ep_MaxOutputTokens policy) * unat (pe_OutputMsatPerMTok e)
      \<le> unat (pb_PriceMsat b) * 1000000" by simp
  with plan e show ?thesis by blast
qed

theorem quote_covers_worst_case_witness:
  "\<exists>b. quotePrice bolt_lib sample_json sample_config \<lparr>ep_MaxOutputTokens = 16\<rparr> 3 sample_request [123, 125] = Inr b
     \<and> 1 * 2000000 + 10 * 5000000 \<le> unat (pb_PriceMsat b) * 1000000"
  using sample_price [of 3] quote_covers_worst_case [OF sample_price [of 3]] sample_table sample_plan
  by (auto simp: ceil_div_def)

end
