(* ===== verification/Provider.thy ===== *)
theory Provider
  imports Provider_Validation Replay_Store Peer_Directory Router
begin

text \<open>
  The message handlers of the provider, \<^verbatim>\<open>go-lcpd/internal/provider/handler.go\<close>. The state holds
  the job store, the replay window, the peer directory, the registered job runners with
  the in-flight counter, the runners that have been started, and the trace of everything
  the handler did to the outside (messages, invoices, runners). The environment holds the
  configuration and the outside: the TLV and JSON packages, the process environment, the
  random message and stream ids, the outcome of the \<open>n\<close>-th call of the messenger and of the invoice
  creator. The clock is read once per message. The job store, replay store, directory,
  messenger and invoice creator are configured (not nil).
\<close>

section \<open>State\<close>

record invoice_request =
  ir_DescriptionHash :: hash32
  ir_PriceMsat :: u64
  ir_ExpirySeconds :: u64

record invoice_result =
  iv_PaymentRequest :: string
  iv_PaymentHash :: hash32
  iv_AddIndex :: u64

datatype provider_event =
    EvSend string u16 bytes bool
  | EvInvoice invoice_request "invoice_result res"
  | EvStart job_key nat
  | EvCancel job_key nat
  | EvSettled nat
  | EvExecute nat compute_task

datatype runner_phase =
    RunWaiting
  | RunExecuting compute_task bool
  | RunFinished

text \<open>
  A runner is the goroutine of \<^verbatim>\<open>runJob\<close> with its arguments; its context is cancelled by a
  flag or by its deadline.
\<close>

record runner =
  ru_Key :: job_key
  ru_Req :: quote_request
  ru_Input :: input_stream_state
  ru_QuoteResp :: quote_response
  ru_Invoice :: invoice_result
  ru_RemoteMaxPayload :: u32
  ru_Cancelled :: bool
  ru_Deadline :: "gotime option"
  ru_Phase :: runner_phase

record provider =
  pv_jobs :: job_store
  pv_replay :: replay_store
  pv_peers :: directory
  pv_cancels :: "(job_key \<times> nat) list"
  pv_inFlight :: u64
  pv_runners :: "(nat \<times> runner) list"
  pv_ids :: nat
  pv_trace :: "provider_event list"

record provider_env =
  pe_tlv :: tlv_lib
  pe_json :: json_lib
  pe_cfg :: provider_config
  pe_validator :: quote_request_validator
  pe_policy :: execution_policy
  pe_os :: os_env
  pe_backendDisabled :: bool
  pe_streamingBackend :: bool
  pe_newMsgID :: "nat \<Rightarrow> hash32 res"
  pe_newStreamID :: "nat \<Rightarrow> hash32 res"
  pe_send :: "nat \<Rightarrow> string \<Rightarrow> u16 \<Rightarrow> bytes \<Rightarrow> goerror option"
  pe_invoice :: "nat \<Rightarrow> invoice_request \<Rightarrow> invoice_result res"

section \<open>Helpers\<close>

text \<open>A failing random source leaves the zero id.\<close>

definition mustNewMsgID :: "provider_env \<Rightarrow> provider \<Rightarrow> hash32 \<times> provider" where
  "mustNewMsgID E s =
     ((case pe_newMsgID E (pv_ids s) of Inl err \<Rightarrow> 0 | Inr v \<Rightarrow> v), s\<lparr>pv_ids := Suc (pv_ids s)\<rparr>)"

definition SendCustomMessage :: "provider_env \<Rightarrow> string \<Rightarrow> u16 \<Rightarrow> bytes \<Rightarrow> provider \<Rightarrow> bool \<times> provider" where
  "SendCustomMessage E peer msgType payload s =
     (let ok = (pe_send E (length (pv_trace s)) peer msgType payload = None) in
      (ok, s\<lparr>pv_trace := pv_trace s @ [EvSend peer msgType payload ok]\<rparr>))"

definition handler_nowUnix :: "gotime \<Rightarrow> u64 option" where
  "handler_nowUnix now = (if time_Unix now < 0 then None else Some (word_of_int (time_Unix now)))"

definition quoteTTLSeconds :: "provider_config \<Rightarrow> u64" where
  "quoteTTLSeconds cfg = (if pc_QuoteTTLSeconds cfg = 0 then 300 else pc_QuoteTTLSeconds cfg)"

definition resultExpiry :: "provider_config \<Rightarrow> gotime \<Rightarrow> u64" where
  "resultExpiry cfg now =
     (case handler_nowUnix now of None \<Rightarrow> quoteTTLSeconds cfg | Some n \<Rightarrow> n + quoteTTLSeconds cfg)"

definition handler_sendError ::
    "provider_env \<Rightarrow> gotime \<Rightarrow> string \<Rightarrow> job_envelope \<Rightarrow> u16 \<Rightarrow> string \<Rightarrow> provider \<Rightarrow> provider" where
  "handler_sendError E now peer env code message s =
     (let (msgID, s1) = mustNewMsgID E s;
          expiry = (if env_Expiry env = 0 then resultExpiry (pe_cfg E) now else env_Expiry env)
      in case EncodeError (pe_tlv E)
           \<lparr>er_Envelope = \<lparr>env_ProtocolVersion = env_ProtocolVersion env, env_JobID = env_JobID env,
                          env_MsgID = msgID, env_Expiry = expiry\<rparr>,
            er_Code = code, er_Message = Some message\<rparr> of
         Inl err \<Rightarrow> s1
       | Inr payload \<Rightarrow> snd (SendCustomMessage E peer MessageTypeError payload s1))"

definition remoteMaxPayloadBytes :: "manifest option \<Rightarrow> u32" where
  "remoteMaxPayloadBytes m = (case m of None \<Rightarrow> 0 | Some mf \<Rightarrow> mf_MaxPayloadBytes mf)"

definition dropIfExpired :: "job_envelope \<Rightarrow> u64 \<Rightarrow> bool" where
  "dropIfExpired env now = (\<not> now \<le> env_Expiry env)"

definition effectiveExpiry :: "os_env \<Rightarrow> job_envelope \<Rightarrow> u64 \<Rightarrow> u64" where
  "effectiveExpiry os env now =
     (let windowSeconds = envconfig_Uint64 os ''LCP_MAX_ENVELOPE_EXPIRY_WINDOW_SECONDS'' 600 in
      if now \<le> - 1 - windowSeconds
      then (if now + windowSeconds < env_Expiry env then now + windowSeconds else env_Expiry env)
      else env_Expiry env)"

definition checkReplay :: "provider_env \<Rightarrow> string \<Rightarrow> job_envelope \<Rightarrow> u64 \<Rightarrow> provider \<Rightarrow> bool \<times> provider" where
  "checkReplay E peer env now s =
     (let (r, rp) = CheckAndRemember
            \<lparr>rk_PeerPubKey = peer, rk_JobID = env_JobID env, rk_MsgID = env_MsgID env\<rparr>
            (effectiveExpiry (pe_os E) env now) now (pv_replay s)
      in (r = CheckResultOK, s\<lparr>pv_replay := rp\<rparr>))"

definition rejectQuoteRequestIfProviderUnavailable ::
    "provider_env \<Rightarrow> gotime \<Rightarrow> string \<Rightarrow> job_envelope \<Rightarrow> provider \<Rightarrow> bool \<times> provider" where
  "rejectQuoteRequestIfProviderUnavailable E now peer env s =
     (if \<not> pc_Enabled (pe_cfg E)
      then (True, handler_sendError E now peer env ErrorCodeUnsupportedTask ''provider disabled'' s)
      else if pe_backendDisabled E
      then (True, handler_sendError E now peer env ErrorCodeUnsupportedTask ''compute backend disabled'' s)
      else (False, s))"

fun strings_Join :: "string list \<Rightarrow> string \<Rightarrow> string" where
  "strings_Join [] sep = []"
| "strings_Join [x] sep = x"
| "strings_Join (x # y # xs) sep = x @ sep @ strings_Join (y # xs) sep"

definition rejectQuoteRequestIfUnsupportedModel ::
    "provider_env \<Rightarrow> gotime \<Rightarrow> string \<Rightarrow> quote_request \<Rightarrow> provider \<Rightarrow> bool \<times> provider" where
  "rejectQuoteRequestIfUnsupportedModel E now peer req s =
     (let reject = (\<lambda>code msg. (True, handler_sendError E now peer (qr_Envelope req) code msg s));
          check = (\<lambda>model.
            if map_of (pc_Models (pe_cfg E)) model \<noteq> None then (False, s)
            else reject ErrorCodeUnsupportedTask
                   (''unsupported model: '' @ strconv_Quote model @ '' (supported: ''
                    @ strings_Join (sort_key string_order (map fst (pc_Models (pe_cfg E)))) '', '' @ '')''))
      in if qr_TaskKind req \<noteq> taskKindOpenAIChatCompletionsV1 \<and> qr_TaskKind req \<noteq> taskKindOpenAIResponsesV1 then (False, s)
         else if pc_Models (pe_cfg E) = [] then (False, s)
         else (case qr_ParamsBytes req of
           None \<Rightarrow> reject ErrorCodeUnsupportedParams ''params are required''
         | Some p \<Rightarrow>
             if qr_TaskKind req = taskKindOpenAIChatCompletionsV1
             then (case DecodeOpenAIChatCompletionsV1Params (pe_tlv E) p of
                 Inl err \<Rightarrow> reject ErrorCodeUnsupportedParams ''openai.chat_completions.v1 params must be a valid TLV stream''
               | Inr params \<Rightarrow> check (cp_Model params))
             else (case DecodeOpenAIResponsesV1Params (pe_tlv E) p of
                 Inl err \<Rightarrow> reject ErrorCodeUnsupportedParams ''openai.responses.v1 params must be a valid TLV stream''
               | Inr params \<Rightarrow> check (rp_Model params))))"

definition newQuoteResponse ::
    "provider_env \<Rightarrow> job_envelope \<Rightarrow> u64 \<Rightarrow> u64 \<Rightarrow> hash32 \<Rightarrow> string \<Rightarrow> provider \<Rightarrow> quote_response \<times> provider" where
  "newQuoteResponse E reqEnvelope quoteExpiry priceMsat termsHash paymentRequest s =
     (let (msgID, s1) = mustNewMsgID E s in
      (\<lparr>qs_Envelope = \<lparr>env_ProtocolVersion = env_ProtocolVersion reqEnvelope, env_JobID = env_JobID reqEnvelope,
                      env_MsgID = msgID, env_Expiry = quoteExpiry\<rparr>,
        qs_PriceMsat = priceMsat, qs_QuoteExpiry = quoteExpiry, qs_TermsHash = termsHash,
        qs_PaymentRequest = paymentRequest\<rparr>, s1))"

definition invoiceFromJob :: "job \<Rightarrow> quote_response \<Rightarrow> invoice_result" where
  "invoiceFromJob j resp =
     \<lparr>iv_PaymentRequest = qs_PaymentRequest resp,
      iv_PaymentHash = (case job_PaymentHash j of None \<Rightarrow> 0 | Some h \<Rightarrow> h),
      iv_AddIndex = (case job_InvoiceAddIndex j of None \<Rightarrow> 0 | Some i \<Rightarrow> i)\<rparr>"

definition sendQuoteResponse ::
    "provider_env \<Rightarrow> gotime \<Rightarrow> string \<Rightarrow> quote_response \<Rightarrow> u32 \<Rightarrow> provider \<Rightarrow> bool \<times> provider" where
  "sendQuoteResponse E now peer resp remoteMaxPayload s =
     (case EncodeQuoteResponse (pe_tlv E) resp of
        Inl err \<Rightarrow> (False, s)
      | Inr payload \<Rightarrow>
          if remoteMaxPayload \<noteq> 0 \<and> unat remoteMaxPayload < length payload
          then (False, handler_sendError E now peer (qs_Envelope resp) ErrorCodePayloadTooLarge
                  ''quote_response exceeds remote max_payload_bytes'' s)
          else SendCustomMessage E peer MessageTypeQuoteResponse payload s)"

text \<open>
  The deadline of a runner's context: the rest of the quote's lifetime when that is
  positive and representable as a duration.
\<close>

definition runnerDeadline :: "gotime \<Rightarrow> quote_response \<Rightarrow> gotime option" where
  "runnerDeadline now resp =
     (case handler_nowUnix now of
        None \<Rightarrow> None
      | Some nowUnix \<Rightarrow>
          if nowUnix < qs_QuoteExpiry resp \<and> qs_QuoteExpiry resp - nowUnix \<le> 9223372036
          then Some (now + int (unat (qs_QuoteExpiry resp - nowUnix)) * 1000000000)
          else None)"

definition startJobRunner ::
    "gotime \<Rightarrow> job_key \<Rightarrow> quote_request \<Rightarrow> input_stream_state \<Rightarrow> quote_response \<Rightarrow> invoice_result \<Rightarrow> u32 \<Rightarrow> provider \<Rightarrow> provider" where
  "startJobRunner now key req input resp invoice remoteMaxPayload s =
     (if map_of (pv_cancels s) key \<noteq> None then s
      else
        (let rid = length (pv_runners s) in
         s\<lparr>pv_cancels := AList.update key rid (pv_cancels s),
           pv_inFlight := pv_inFlight s + 1,
           pv_runners := pv_runners s @ [(rid, \<lparr>ru_Key = key, ru_Req = req, ru_Input = input, ru_QuoteResp = resp,
              ru_Invoice = invoice, ru_RemoteMaxPayload = remoteMaxPayload, ru_Cancelled = False,
              ru_Deadline = runnerDeadline now resp, ru_Phase = RunWaiting\<rparr>)],
           pv_trace := pv_trace s @ [EvStart key rid]\<rparr>))"

definition handler_cancelJob :: "job_key \<Rightarrow> provider \<Rightarrow> bool \<times> provider" where
  "handler_cancelJob key s =
     (case map_of (pv_cancels s) key of
        None \<Rightarrow> (False, s)
      | Some rid \<Rightarrow>
          (True, s\<lparr>pv_cancels := AList.delete key (pv_cancels s),
                   pv_inFlight := (if 0 < pv_inFlight s then pv_inFlight s - 1 else pv_inFlight s),
                   pv_runners := map (\<lambda>(i, r). if i = rid then (i, r\<lparr>ru_Cancelled := True\<rparr>) else (i, r)) (pv_runners s),
                   pv_trace := pv_trace s @ [EvCancel key rid]\<rparr>))"

definition forgetJob :: "job_key \<Rightarrow> provider \<Rightarrow> provider" where
  "forgetJob key s =
     (if map_of (pv_cancels s) key \<noteq> None
      then s\<lparr>pv_cancels := AList.delete key (pv_cancels s),
             pv_inFlight := (if 0 < pv_inFlight s then pv_inFlight s - 1 else pv_inFlight s)\<rparr>
      else s)"

definition handler_updateState :: "job_key \<Rightarrow> job_state \<Rightarrow> provider \<Rightarrow> provider" where
  "handler_updateState key state s = s\<lparr>pv_jobs := snd (jobstore_UpdateState key state (pv_jobs s))\<rparr>"

definition handler_Upsert :: "gotime \<Rightarrow> job \<Rightarrow> provider \<Rightarrow> provider" where
  "handler_Upsert now j s = s\<lparr>pv_jobs := jobstore_Upsert now j (pv_jobs s)\<rparr>"

section \<open>Quote requests\<close>

definition handleExistingQuoteRequest ::
    "provider_env \<Rightarrow> gotime \<Rightarrow> string \<Rightarrow> job_key \<Rightarrow> quote_request \<Rightarrow> u64 \<Rightarrow> u32 \<Rightarrow> job \<Rightarrow> provider \<Rightarrow> provider" where
  "handleExistingQuoteRequest E now peer key req nowUnix remoteMaxPayload existing s =
     (if job_QuoteExpiry existing \<noteq> 0 \<and> job_QuoteExpiry existing < nowUnix
      then handler_sendError E now peer (qr_Envelope req) ErrorCodeQuoteExpired ''quote expired'' s
      else if (case job_QuoteRequest existing of None \<Rightarrow> False | Some q \<Rightarrow> \<not> quoteRequestEqual q req)
      then handler_sendError E now peer (qr_Envelope req) ErrorCodePaymentInvalid ''quote_request mismatch for job'' s
      else
        (let existing1 = existing\<lparr>job_QuoteRequest := Some req\<rparr>;
             s1 = handler_Upsert now existing1 s
         in case job_QuoteResponse existing1 of
              None \<Rightarrow> s1
            | Some resp \<Rightarrow>
                (let (sent, s2) = sendQuoteResponse E now peer resp remoteMaxPayload s1 in
                 if \<not> sent then s2
                 else (case job_InputStream existing1 of
                     None \<Rightarrow> s2
                   | Some stream \<Rightarrow>
                       if \<not> is_Validated stream then s2
                       else startJobRunner now key req stream resp (invoiceFromJob existing1 resp) remoteMaxPayload s2))))"

definition newAwaitingJob :: "string \<Rightarrow> quote_request \<Rightarrow> job" where
  "newAwaitingJob peer req =
     \<lparr>job_PeerPubKey = peer, job_JobID = env_JobID (qr_Envelope req), job_State = StateAwaitingInput,
      job_QuoteRequest = Some req, job_InputStream = None, job_QuoteExpiry = 0, job_TermsHash = None,
      job_PaymentHash = None, job_InvoiceAddIndex = None, job_QuoteResponse = None, job_CreatedAt = 0\<rparr>"

definition handleQuoteRequest :: "provider_env \<Rightarrow> gotime \<Rightarrow> custom_message \<Rightarrow> provider \<Rightarrow> provider" where
  "handleQuoteRequest E now msg s =
     (case DecodeQuoteRequest (pe_tlv E) (cm_Payload msg) of
        Inl err \<Rightarrow> s
      | Inr req \<Rightarrow>
     (let peer = cm_PeerPubKey msg; (rej, s1) = rejectQuoteRequestIfProviderUnavailable E now peer (qr_Envelope req) s in
      if rej then s1 else
     (let remoteManifest = RemoteManifestFor peer (pv_peers s1);
          remoteMaxPayload = remoteMaxPayloadBytes remoteManifest in
      case ValidateQuoteRequest (pe_tlv E) (pe_validator E) req remoteManifest of
        Some vErr \<Rightarrow> handler_sendError E now peer (qr_Envelope req) (ve_Code vErr) (ve_Message vErr) s1
      | None \<Rightarrow>
     (let (rej2, s2) = rejectQuoteRequestIfUnsupportedModel E now peer req s1 in
      if rej2 then s2 else
     (case handler_nowUnix now of
        None \<Rightarrow> s2
      | Some nowUnix \<Rightarrow>
      if dropIfExpired (qr_Envelope req) nowUnix then s2 else
     (let (fresh, s3) = checkReplay E peer (qr_Envelope req) nowUnix s2 in
      if \<not> fresh then s3
      else if remoteManifest = None
      then handler_sendError E now peer (qr_Envelope req) ErrorCodeInvalidState ''manifest not exchanged'' s3
      else
     (let key = \<lparr>jk_PeerPubKey = peer, jk_JobID = env_JobID (qr_Envelope req)\<rparr> in
      case jobstore_Get key (pv_jobs s3) of
        Some existing \<Rightarrow> handleExistingQuoteRequest E now peer key req nowUnix remoteMaxPayload existing s3
      | None \<Rightarrow> handler_Upsert now (newAwaitingJob peer req) s3)))))))"

section \<open>Input streams\<close>

definition newInputStream :: "stream_begin \<Rightarrow> u64 \<Rightarrow> hash32 \<Rightarrow> input_stream_state" where
  "newInputStream begin totalLen sha =
     \<lparr>is_StreamID = sb_StreamID begin, is_ContentType = sb_ContentType begin,
      is_ContentEncoding = sb_ContentEncoding begin, is_ExpectedSeq = 0, is_Buf = [],
      is_TotalLen = totalLen, is_SHA256 = sha, is_Validated = False\<rparr>"

definition provider_handleStreamBegin :: "provider_env \<Rightarrow> gotime \<Rightarrow> custom_message \<Rightarrow> provider \<Rightarrow> provider" where
  "provider_handleStreamBegin E now msg s =
     (case DecodeStreamBegin (pe_tlv E) (cm_Payload msg) of
        Inl err \<Rightarrow> s
      | Inr begin \<Rightarrow>
      if sb_Kind begin \<noteq> StreamKindInput then s else
     (let peer = cm_PeerPubKey msg; env = sb_Envelope begin;
          (rej, s1) = rejectQuoteRequestIfProviderUnavailable E now peer env s in
      if rej then s1
      else if RemoteManifestFor peer (pv_peers s1) = None
      then handler_sendError E now peer env ErrorCodeInvalidState ''manifest not exchanged'' s1
      else
     (case handler_nowUnix now of
        None \<Rightarrow> s1
      | Some nowUnix \<Rightarrow>
      if dropIfExpired env nowUnix then s1 else
     (let (fresh, s2) = checkReplay E peer env nowUnix s1 in
      if \<not> fresh then s2 else
     (case validateInputStreamBegin begin of
        Inl vErr \<Rightarrow> handler_sendError E now peer env (ve_Code vErr) (ve_Message vErr) s2
      | Inr (totalLen, sha) \<Rightarrow>
     (let key = \<lparr>jk_PeerPubKey = peer, jk_JobID = env_JobID env\<rparr> in
      case jobstore_Get key (pv_jobs s2) of
        None \<Rightarrow> handler_sendError E now peer env ErrorCodeInvalidState ''no quote_request for job'' s2
      | Some j \<Rightarrow>
     (case job_QuoteRequest j of
        None \<Rightarrow> handler_sendError E now peer env ErrorCodeInvalidState ''no quote_request for job'' s2
      | Some req \<Rightarrow>
      if job_State j \<noteq> StateAwaitingInput
      then handler_sendError E now peer env ErrorCodeInvalidState ''job not awaiting input'' s2
      else if inputContentTypeForTaskKind (qr_TaskKind req) \<noteq> []
              \<and> sb_ContentType begin \<noteq> inputContentTypeForTaskKind (qr_TaskKind req)
      then handler_sendError E now peer env ErrorCodeUnsupportedEncoding ''unsupported content_type'' s2
      else handler_Upsert now (j\<lparr>job_InputStream := Some (newInputStream begin totalLen sha)\<rparr>) s2)))))))"

definition provider_handleStreamChunk :: "provider_env \<Rightarrow> gotime \<Rightarrow> custom_message \<Rightarrow> provider \<Rightarrow> provider" where
  "provider_handleStreamChunk E now msg s =
     (case DecodeStreamChunk (pe_tlv E) (cm_Payload msg) of
        Inl err \<Rightarrow> s
      | Inr chunk \<Rightarrow>
     (let peer = cm_PeerPubKey msg; env = sc_Envelope chunk in
      case handler_nowUnix now of
        None \<Rightarrow> s
      | Some nowUnix \<Rightarrow>
      if dropIfExpired env nowUnix then s else
     (let key = \<lparr>jk_PeerPubKey = peer, jk_JobID = env_JobID env\<rparr> in
      case jobstore_Get key (pv_jobs s) of
        None \<Rightarrow> s
      | Some j \<Rightarrow>
     (case job_InputStream j of
        None \<Rightarrow> s
      | Some stream \<Rightarrow>
      if job_QuoteRequest j = None then s
      else if job_State j \<noteq> StateAwaitingInput \<or> is_Validated stream then s
      else if is_StreamID stream \<noteq> sc_StreamID chunk then s
      else if sc_Seq chunk < is_ExpectedSeq stream then s
      else if is_ExpectedSeq stream < sc_Seq chunk
      then handler_sendError E now peer env ErrorCodeChunkOutOfOrder ''chunk out of order'' s
      else
     (let nextLen = (word_of_nat (length (is_Buf stream)) :: u64) + word_of_nat (length (chunkData chunk)) in
      if is_TotalLen stream < nextLen \<or> defaultMaxStreamBytes < nextLen \<or> defaultMaxJobBytes < nextLen
      then handler_sendError E now peer env ErrorCodePayloadTooLarge ''input stream exceeds local limits'' s
      else handler_Upsert now
             (j\<lparr>job_InputStream := Some (stream\<lparr>is_Buf := is_Buf stream @ chunkData chunk,
                                              is_ExpectedSeq := is_ExpectedSeq stream + 1\<rparr>)\<rparr>) s)))))"

section \<open>Quoting\<close>

definition handler_computeTermsHash ::
    "tlv_lib \<Rightarrow> quote_request \<Rightarrow> input_stream_state \<Rightarrow> u64 \<Rightarrow> u64 \<Rightarrow> hash32 res" where
  "handler_computeTermsHash L req input quoteExpiry priceMsat =
     ComputeTermsHash L
       \<lparr>ProtocolVersion = env_ProtocolVersion (qr_Envelope req), JobID = env_JobID (qr_Envelope req),
        PriceMsat = priceMsat, QuoteExpiry = quoteExpiry\<rparr>
       \<lparr>TaskKind = qr_TaskKind req, Input = is_Buf input, InputContentType = is_ContentType input,
        InputContentEncoding = is_ContentEncoding input, Params = qr_ParamsBytes req\<rparr>"

definition invoiceExpirySeconds :: "os_env \<Rightarrow> u64 \<Rightarrow> u64" where
  "invoiceExpirySeconds os quoteTTL =
     (let defaultSlackSeconds = envconfig_Uint64 os ''LCP_ALLOWED_CLOCK_SKEW_SECONDS'' 5;
          slackSeconds = envconfig_Uint64 os ''LCP_INVOICE_EXPIRY_SLACK_SECONDS'' defaultSlackSeconds;
          e = (if slackSeconds < quoteTTL then quoteTTL - slackSeconds else quoteTTL)
      in if e = 0 then 1 else e)"

definition CreateInvoice :: "provider_env \<Rightarrow> invoice_request \<Rightarrow> provider \<Rightarrow> invoice_result res \<times> provider" where
  "CreateInvoice E req s =
     (let r = pe_invoice E (length (pv_trace s)) req in
      (r, s\<lparr>pv_trace := pv_trace s @ [EvInvoice req r]\<rparr>))"

definition createInvoiceAndStartQuoteJob ::
    "provider_env \<Rightarrow> gotime \<Rightarrow> string \<Rightarrow> job_key \<Rightarrow> quote_request \<Rightarrow> input_stream_state \<Rightarrow> u64 \<Rightarrow> u64 \<Rightarrow> u64 \<Rightarrow> hash32
      \<Rightarrow> u32 \<Rightarrow> provider \<Rightarrow> provider" where
  "createInvoiceAndStartQuoteJob E now peer key req input quoteExpiry quoteTTL priceMsat termsHash remoteMaxPayload s =
     (let (inv, s1) = CreateInvoice E \<lparr>ir_DescriptionHash = termsHash, ir_PriceMsat = priceMsat,
            ir_ExpirySeconds = invoiceExpirySeconds (pe_os E) quoteTTL\<rparr> s in
      case inv of
        Inl err \<Rightarrow> handler_sendError E now peer (qr_Envelope req) ErrorCodePaymentRequired ''failed to create invoice'' s1
      | Inr invoice \<Rightarrow>
     (let (quoteResp, s2) = newQuoteResponse E (qr_Envelope req) quoteExpiry priceMsat termsHash (iv_PaymentRequest invoice) s1;
          (sent, s3) = sendQuoteResponse E now peer quoteResp remoteMaxPayload s2 in
      if \<not> sent then s3
      else
        startJobRunner now key req input quoteResp invoice remoteMaxPayload
          (handler_Upsert now
            \<lparr>job_PeerPubKey = jk_PeerPubKey key, job_JobID = jk_JobID key, job_State = StateWaitingPayment,
             job_QuoteRequest = Some req, job_InputStream = Some input, job_QuoteExpiry = quoteExpiry,
             job_TermsHash = Some (qs_TermsHash quoteResp), job_PaymentHash = Some (iv_PaymentHash invoice),
             job_InvoiceAddIndex = Some (iv_AddIndex invoice), job_QuoteResponse = Some quoteResp,
             job_CreatedAt = 0\<rparr> s3)))"

definition handleValidatedInputStreamEnd ::
    "provider_env \<Rightarrow> gotime \<Rightarrow> string \<Rightarrow> job_key \<Rightarrow> job \<Rightarrow> quote_request \<Rightarrow> input_stream_state \<Rightarrow> u64 \<Rightarrow> job_envelope
      \<Rightarrow> provider \<Rightarrow> provider" where
  "handleValidatedInputStreamEnd E now peer key j req stream nowUnix env s =
     (if job_QuoteResponse j \<noteq> None then handler_Upsert now j s
      else (case validateInputStream (pe_tlv E) (pe_json E) req (is_Buf stream) of
        Some vErr \<Rightarrow> handler_sendError E now peer env (ve_Code vErr) (ve_Message vErr) s
      | None \<Rightarrow>
     (let quoteTTL = quoteTTLSeconds (pe_cfg E); quoteExpiry = nowUnix + quoteTTL in
      case quotePrice (pe_tlv E) (pe_json E) (pe_cfg E) (pe_policy E) (pv_inFlight s) req (is_Buf stream) of
        Inl err \<Rightarrow> handler_sendError E now peer env (quoteErrorCode err) (error_text err) s
      | Inr price \<Rightarrow>
     (case handler_computeTermsHash (pe_tlv E) req stream quoteExpiry (pb_PriceMsat price) of
        Inl err \<Rightarrow> handler_sendError E now peer env ErrorCodeUnsupportedTask ''failed to compute terms_hash'' s
      | Inr termsHash \<Rightarrow>
     (case RemoteManifestFor peer (pv_peers s) of
        None \<Rightarrow> handler_sendError E now peer env ErrorCodeInvalidState ''manifest not exchanged'' s
      | Some m \<Rightarrow>
          createInvoiceAndStartQuoteJob E now peer key req stream quoteExpiry quoteTTL (pb_PriceMsat price) termsHash
            (mf_MaxPayloadBytes m) s)))))"

definition provider_handleStreamEnd :: "provider_env \<Rightarrow> gotime \<Rightarrow> custom_message \<Rightarrow> provider \<Rightarrow> provider" where
  "provider_handleStreamEnd E now msg s =
     (case DecodeStreamEnd (pe_tlv E) (cm_Payload msg) of
        Inl err \<Rightarrow> s
      | Inr end_ \<Rightarrow>
     (let peer = cm_PeerPubKey msg; env = se_Envelope end_ in
      case handler_nowUnix now of
        None \<Rightarrow> s
      | Some nowUnix \<Rightarrow>
      if dropIfExpired env nowUnix then s else
     (let (fresh, s1) = checkReplay E peer env nowUnix s in
      if \<not> fresh then s1 else
     (let key = \<lparr>jk_PeerPubKey = peer, jk_JobID = env_JobID env\<rparr>;
          mismatch = (\<lambda>text. handler_sendError E now peer env ErrorCodeChecksumMismatch text s1);
          noStream = handler_sendError E now peer env ErrorCodeInvalidState ''no input stream for job'' s1 in
      case jobstore_Get key (pv_jobs s1) of
        None \<Rightarrow> noStream
      | Some j \<Rightarrow>
     (case (job_InputStream j, job_QuoteRequest j) of
        (Some stream, Some req) \<Rightarrow>
          if job_State j \<noteq> StateAwaitingInput \<or> is_Validated stream then s1
          else if is_StreamID stream \<noteq> se_StreamID end_ then s1
          else if se_TotalLen end_ \<noteq> is_TotalLen stream then mismatch ''stream total_len mismatch''
          else if se_SHA256 end_ \<noteq> is_SHA256 stream then mismatch ''stream sha256 mismatch''
          else if word_of_nat (length (is_Buf stream)) \<noteq> se_TotalLen end_ then mismatch ''stream length mismatch''
          else if sha256 (is_Buf stream) \<noteq> se_SHA256 end_ then mismatch ''stream sha256 mismatch''
          else
            (let stream1 = stream\<lparr>is_Validated := True\<rparr> in
             handleValidatedInputStreamEnd E now peer key (j\<lparr>job_InputStream := Some stream1\<rparr>) req stream1 nowUnix env s1)
      | _ \<Rightarrow> noStream)))))"

section \<open>Cancellation and dispatch\<close>

definition handleCancel :: "provider_env \<Rightarrow> gotime \<Rightarrow> custom_message \<Rightarrow> provider \<Rightarrow> provider" where
  "handleCancel E now msg s =
     (case DecodeCancel (pe_tlv E) (cm_Payload msg) of
        Inl err \<Rightarrow> s
      | Inr cancelMsg \<Rightarrow>
     (case handler_nowUnix now of
        None \<Rightarrow> s
      | Some nowUnix \<Rightarrow>
      if dropIfExpired (cn_Envelope cancelMsg) nowUnix then s else
     (let peer = cm_PeerPubKey msg;
          key = \<lparr>jk_PeerPubKey = peer, jk_JobID = env_JobID (cn_Envelope cancelMsg)\<rparr>;
          (fresh, s1) = checkReplay E peer (cn_Envelope cancelMsg) nowUnix s in
      if \<not> fresh then s1
      else handler_updateState key StateCanceled (snd (handler_cancelJob key s1)))))"

definition provider_HandleInboundCustomMessage ::
    "provider_env \<Rightarrow> gotime \<Rightarrow> custom_message \<Rightarrow> provider \<Rightarrow> provider" where
  "provider_HandleInboundCustomMessage E now msg s =
     (if cm_MsgType msg = MessageTypeQuoteRequest then handleQuoteRequest E now msg s
      else if cm_MsgType msg = MessageTypeStreamBegin then provider_handleStreamBegin E now msg s
      else if cm_MsgType msg = MessageTypeStreamChunk then provider_handleStreamChunk E now msg s
      else if cm_MsgType msg = MessageTypeStreamEnd then provider_handleStreamEnd E now msg s
      else if cm_MsgType msg = MessageTypeCancel then handleCancel E now msg s
      else s)"

end
