(* ===== verification/Provider_Inv.thy ===== *)
theory Provider_Inv
  imports Provider
begin

text \<open>
  The invariant of the provider and its preservation by every message handler: streams
  within their limits, validated streams with the announced length and hash, stored quotes
  whose terms hash commits to the stored request and input, and an in-flight counter that
  counts the registered runners.
\<close>

section \<open>Invariant\<close>

definition stream_ok :: "input_stream_state \<Rightarrow> bool" where
  "stream_ok st \<longleftrightarrow> length (is_Buf st) \<le> unat (is_TotalLen st) \<and> unat (is_TotalLen st) \<le> 4194304
     \<and> is_ContentEncoding st = contentEncodingIdentity
     \<and> (is_Validated st \<longrightarrow> length (is_Buf st) = unat (is_TotalLen st) \<and> sha256 (is_Buf st) = is_SHA256 st)"

text \<open>A quote binds a request and a validated input when its terms hash is their hash.\<close>

definition quote_binds :: "tlv_lib \<Rightarrow> quote_request \<Rightarrow> input_stream_state \<Rightarrow> quote_response \<Rightarrow> bool" where
  "quote_binds L req st r \<longleftrightarrow> is_Validated st \<and> stream_ok st
     \<and> handler_computeTermsHash L req st (qs_QuoteExpiry r) (qs_PriceMsat r) = Inr (qs_TermsHash r)
     \<and> env_JobID (qs_Envelope r) = env_JobID (qr_Envelope req)"

definition request_ok :: "job \<Rightarrow> quote_request \<Rightarrow> bool" where
  "request_ok j req \<longleftrightarrow> env_JobID (qr_Envelope req) = job_JobID j
     \<and> env_ProtocolVersion (qr_Envelope req) = ProtocolVersionV02"

definition job_ok :: "tlv_lib \<Rightarrow> job \<Rightarrow> bool" where
  "job_ok L j \<longleftrightarrow>
     (\<forall>st. job_InputStream j = Some st \<longrightarrow> stream_ok st)
   \<and> (\<forall>req. job_QuoteRequest j = Some req \<longrightarrow> request_ok j req)
   \<and> (\<forall>r. job_QuoteResponse j = Some r \<longrightarrow>
        job_State j \<noteq> StateAwaitingInput \<and> job_TermsHash j = Some (qs_TermsHash r)
        \<and> job_QuoteExpiry j = qs_QuoteExpiry r
        \<and> (\<exists>st req. job_InputStream j = Some st \<and> job_QuoteRequest j = Some req \<and> quote_binds L req st r))"

definition runner_ok :: "tlv_lib \<Rightarrow> runner \<Rightarrow> bool" where
  "runner_ok L r \<longleftrightarrow> quote_binds L (ru_Req r) (ru_Input r) (ru_QuoteResp r)
     \<and> jk_JobID (ru_Key r) = env_JobID (qr_Envelope (ru_Req r))"

definition jobs_ok :: "tlv_lib \<Rightarrow> job_store \<Rightarrow> bool" where
  "jobs_ok L js \<longleftrightarrow> jobstore_inv js \<and> (\<forall>k j. jobstore_Get k js = Some j \<longrightarrow> job_ok L j)"

definition runners_ok :: "tlv_lib \<Rightarrow> provider \<Rightarrow> bool" where
  "runners_ok L s \<longleftrightarrow> gomap_wf (pv_cancels s)
     \<and> (length (pv_runners s) < 2 ^ 64 \<longrightarrow> unat (pv_inFlight s) = length (pv_cancels s))
     \<and> length (pv_cancels s) \<le> length (pv_runners s)
     \<and> map fst (pv_runners s) = [0..<length (pv_runners s)]
     \<and> (\<forall>(rid, r) \<in> set (pv_runners s). runner_ok L r)
     \<and> (\<forall>(k, rid) \<in> set (pv_cancels s). rid < length (pv_runners s))"

definition provider_inv :: "tlv_lib \<Rightarrow> provider \<Rightarrow> bool" where
  "provider_inv L s \<longleftrightarrow> jobs_ok L (pv_jobs s) \<and> replay_inv (pv_replay s) \<and> runners_ok L s"

section \<open>Helpers that only talk\<close>

text \<open>Sending changes the trace and the id counter and nothing else.\<close>

definition same_store :: "provider \<Rightarrow> provider \<Rightarrow> bool" where
  "same_store s s' \<longleftrightarrow> pv_jobs s' = pv_jobs s \<and> pv_replay s' = pv_replay s \<and> pv_peers s' = pv_peers s
     \<and> pv_cancels s' = pv_cancels s \<and> pv_inFlight s' = pv_inFlight s \<and> pv_runners s' = pv_runners s"

lemma same_store_refl [simp]: "same_store s s"
  by (simp add: same_store_def)

lemma same_store_trans: "same_store s t \<Longrightarrow> same_store t u \<Longrightarrow> same_store s u"
  by (simp add: same_store_def)

lemma same_store_mustNewMsgID [simp]: "same_store s (snd (mustNewMsgID E s))"
  by (simp add: same_store_def mustNewMsgID_def)

lemma same_store_Send [simp]: "same_store s (snd (SendCustomMessage E p t b s))"
  by (simp add: same_store_def SendCustomMessage_def Let_def)

lemma same_store_sendError [simp]: "same_store s (handler_sendError E now p env c m s)"
proof -
  have "same_store s (snd (SendCustomMessage E p t b (s\<lparr>pv_ids := n\<rparr>)))" for t b n
    by (simp add: same_store_def SendCustomMessage_def Let_def)
  then show ?thesis
    by (auto simp: handler_sendError_def mustNewMsgID_def Let_def same_store_def split: sum.splits)
qed

lemma same_store_sendQuoteResponse [simp]: "same_store s (snd (sendQuoteResponse E now p r m s))"
  by (auto simp: sendQuoteResponse_def split: sum.splits)

lemma same_store_CreateInvoice [simp]: "same_store s (snd (CreateInvoice E r s))"
  by (simp add: CreateInvoice_def Let_def same_store_def)

lemma same_store_rejectUnavailable [simp]:
  "same_store s (snd (rejectQuoteRequestIfProviderUnavailable E now p env s))"
  by (simp add: rejectQuoteRequestIfProviderUnavailable_def)

lemma same_store_rejectModel [simp]:
  "same_store s (snd (rejectQuoteRequestIfUnsupportedModel E now p req s))"
  by (auto simp: rejectQuoteRequestIfUnsupportedModel_def Let_def split: option.splits sum.splits)

lemma provider_inv_same_store: "provider_inv L s \<Longrightarrow> same_store s s' \<Longrightarrow> provider_inv L s'"
  by (simp add: provider_inv_def same_store_def runners_ok_def)

section \<open>Helpers that change the stores\<close>

lemma jobs_ok_Upsert:
  assumes "jobs_ok L js" and "job_ok L j"
  shows "jobs_ok L (jobstore_Upsert now j js)"
proof -
  have inv: "jobstore_inv js" using assms(1) by (simp add: jobs_ok_def)
  have "job_ok L (j\<lparr>job_CreatedAt := t\<rparr>)" for t using assms(2) by (simp add: job_ok_def request_ok_def)
  then have "job_ok L x" if "jobstore_Get k (jobstore_Upsert now j js) = Some x" for k x
    using Upsert_get [OF inv that] assms by (auto simp: jobs_ok_def split: if_splits)
  with inv show ?thesis by (simp add: jobs_ok_def jobstore_inv_Upsert)
qed

lemma provider_inv_Upsert:
  "provider_inv L s \<Longrightarrow> job_ok L j \<Longrightarrow> provider_inv L (handler_Upsert now j s)"
  by (simp add: provider_inv_def handler_Upsert_def jobs_ok_Upsert runners_ok_def)

lemma jobs_ok_UpdateState:
  assumes "jobs_ok L js" and "st \<noteq> StateAwaitingInput"
  shows "jobs_ok L (snd (jobstore_UpdateState k st js))"
  using assms
  by (auto simp: jobs_ok_def jobstore_inv_setters setters_get job_ok_def request_ok_def split: if_splits)

lemma provider_inv_updateState:
  "provider_inv L s \<Longrightarrow> st \<noteq> StateAwaitingInput \<Longrightarrow> provider_inv L (handler_updateState k st s)"
  by (simp add: provider_inv_def handler_updateState_def jobs_ok_UpdateState runners_ok_def)

lemma provider_inv_checkReplay:
  "provider_inv L s \<Longrightarrow> provider_inv L (snd (checkReplay E p env now s))"
  by (auto simp: provider_inv_def checkReplay_def Let_def split_def replay_inv_CheckAndRemember runners_ok_def)

lemma checkReplay_frame [simp]:
  "pv_jobs (snd (checkReplay E p env now s)) = pv_jobs s"
  "pv_peers (snd (checkReplay E p env now s)) = pv_peers s"
  "pv_inFlight (snd (checkReplay E p env now s)) = pv_inFlight s"
  "pv_trace (snd (checkReplay E p env now s)) = pv_trace s"
  by (simp_all add: checkReplay_def Let_def split_def)

lemma provider_inv_startJobRunner:
  assumes "provider_inv L s" and "quote_binds L req input resp" and "jk_JobID key = env_JobID (qr_Envelope req)"
  shows "provider_inv L (startJobRunner now key req input resp invoice m s)"
proof (cases "map_of (pv_cancels s) key")
  case (Some rid)
  then show ?thesis using assms(1) by (simp add: startJobRunner_def)
next
  case None
  let ?n = "length (pv_runners s)"
  have wf: "gomap_wf (AList.update key ?n (pv_cancels s))"
    using assms(1) by (simp add: provider_inv_def runners_ok_def)
  have mem: "rid < Suc ?n" if "(k, rid) \<in> set (AList.update key ?n (pv_cancels s))" for k rid
  proof -
    have "map_of (AList.update key ?n (pv_cancels s)) k = Some rid" using that wf by (simp add: gomap_wf_mem_iff)
    then show ?thesis
      using assms(1) by (fastforce simp: provider_inv_def runners_ok_def split: if_splits dest: map_of_SomeD)
  qed
  have "unat (pv_inFlight s + 1) = Suc (length (pv_cancels s))" if "Suc ?n < 2 ^ 64"
  proof -
    have "unat (pv_inFlight s) = length (pv_cancels s)" "length (pv_cancels s) \<le> ?n"
      using assms(1) that by (simp_all add: provider_inv_def runners_ok_def)
    with that show ?thesis by (subst unat_add_lem [THEN iffD1]) simp_all
  qed
  with None wf mem assms show ?thesis
    by (auto simp: provider_inv_def runners_ok_def startJobRunner_def Let_def length_update runner_ok_def)
qed

lemma runners_ok_unregister:
  assumes "runners_ok L s" and "map_of (pv_cancels s) key = Some rid"
    and "pv_cancels s' = AList.delete key (pv_cancels s)"
    and "pv_inFlight s' = (if 0 < pv_inFlight s then pv_inFlight s - 1 else pv_inFlight s)"
    and "map fst (pv_runners s') = map fst (pv_runners s)"
    and "\<forall>(i, r) \<in> set (pv_runners s'). runner_ok L r"
  shows "runners_ok L s'"
proof -
  have len: "Suc (length (AList.delete key (pv_cancels s))) = length (pv_cancels s)"
    using assms(1,2) by (simp add: runners_ok_def length_delete_exact)
  have n: "length (pv_runners s') = length (pv_runners s)" using assms(5) by (metis length_map)
  have "unat (pv_inFlight s') = length (AList.delete key (pv_cancels s))" if "length (pv_runners s) < 2 ^ 64"
  proof -
    have "unat (pv_inFlight s) = Suc (length (AList.delete key (pv_cancels s)))"
      using assms(1) that len by (simp add: runners_ok_def)
    then show ?thesis by (simp add: assms(4) word_less_nat_alt unat_sub word_le_nat_alt)
  qed
  moreover have "\<forall>(k, rid) \<in> set (AList.delete key (pv_cancels s)). rid < length (pv_runners s)"
    using assms(1) by (auto simp: runners_ok_def AList.delete_eq)
  ultimately show ?thesis
    using assms len n by (simp add: runners_ok_def)
qed

lemma provider_inv_cancelJob: "provider_inv L s \<Longrightarrow> provider_inv L (snd (handler_cancelJob key s))"
proof (cases "map_of (pv_cancels s) key")
  case None
  assume "provider_inv L s"
  with None show ?thesis by (simp add: handler_cancelJob_def)
next
  case (Some rid)
  assume inv: "provider_inv L s"
  let ?s = "snd (handler_cancelJob key s)"
  have "runners_ok L ?s"
  proof (rule runners_ok_unregister [OF _ Some])
    show "runners_ok L s" using inv by (simp add: provider_inv_def)
    show "\<forall>(i, r) \<in> set (pv_runners ?s). runner_ok L r"
      using inv Some
      by (auto simp: handler_cancelJob_def provider_inv_def runners_ok_def runner_ok_def split: if_splits)
  qed (auto simp: handler_cancelJob_def Some)
  with inv Some show ?thesis by (simp add: provider_inv_def handler_cancelJob_def)
qed

lemma provider_inv_forgetJob: "provider_inv L s \<Longrightarrow> provider_inv L (forgetJob key s)"
proof (cases "map_of (pv_cancels s) key")
  case None
  assume "provider_inv L s"
  with None show ?thesis by (simp add: forgetJob_def)
next
  case (Some rid)
  assume inv: "provider_inv L s"
  have "runners_ok L (forgetJob key s)"
    by (rule runners_ok_unregister [OF _ Some]) (use inv Some in \<open>auto simp: forgetJob_def provider_inv_def runners_ok_def\<close>)
  with inv Some show ?thesis by (simp add: provider_inv_def forgetJob_def)
qed

section \<open>Handlers\<close>

lemma provider_inv_sendError [simp]:
  "provider_inv L s \<Longrightarrow> provider_inv L (handler_sendError E now p env c m s)"
  by (erule provider_inv_same_store) (rule same_store_sendError)

lemma provider_inv_rejects [simp]:
  "provider_inv L s \<Longrightarrow> provider_inv L (snd (rejectQuoteRequestIfProviderUnavailable E now p env s))"
  "provider_inv L s \<Longrightarrow> provider_inv L (snd (rejectQuoteRequestIfUnsupportedModel E now p req s))"
  "provider_inv L s \<Longrightarrow> provider_inv L (snd (sendQuoteResponse E now p r m s))"
  "provider_inv L s \<Longrightarrow> provider_inv L (snd (CreateInvoice E ir s))"
  "provider_inv L s \<Longrightarrow> provider_inv L (snd (mustNewMsgID E s))"
  by (auto intro: provider_inv_same_store)

lemma stored_job_ok:
  assumes "provider_inv L s" and "jobstore_Get k (pv_jobs s) = Some j"
  shows "job_ok L j" and "job_JobID j = jk_JobID k" and "job_PeerPubKey j = jk_PeerPubKey k"
proof -
  show "job_ok L j" using assms by (simp add: provider_inv_def jobs_ok_def)
  have "job_key_of j = k"
    using assms jobstore_inv_key by (auto simp: provider_inv_def jobs_ok_def jobstore_Get_def)
  then show "job_JobID j = jk_JobID k" "job_PeerPubKey j = jk_PeerPubKey k"
    by (auto simp: job_key_of_def)
qed

lemma provider_inv_existing:
  assumes inv: "provider_inv (pe_tlv E) s" and got: "jobstore_Get key (pv_jobs s) = Some existing"
    and req: "env_JobID (qr_Envelope req) = jk_JobID key" "env_ProtocolVersion (qr_Envelope req) = ProtocolVersionV02"
  shows "provider_inv (pe_tlv E) (handleExistingQuoteRequest E now peer key req nowUnix m existing s)"
proof (cases "(job_QuoteExpiry existing \<noteq> 0 \<and> job_QuoteExpiry existing < nowUnix)
    \<or> (case job_QuoteRequest existing of None \<Rightarrow> False | Some q \<Rightarrow> \<not> quoteRequestEqual q req)")
  case True
  then show ?thesis using inv by (auto simp: handleExistingQuoteRequest_def)
next
  case False
  let ?j = "existing\<lparr>job_QuoteRequest := Some req\<rparr>"
  let ?s1 = "handler_Upsert now ?j s"
  note ok = stored_job_ok [OF inv got]
  have binds: "\<exists>st. job_InputStream existing = Some st \<and> quote_binds (pe_tlv E) req st r"
    if "job_QuoteResponse existing = Some r" for r
  proof -
    from ok(1) that obtain st q where q: "job_InputStream existing = Some st" "job_QuoteRequest existing = Some q"
      "quote_binds (pe_tlv E) q st r" "request_ok existing q"
      by (fastforce simp: job_ok_def)
    with False req ok(2) show ?thesis
      by (auto simp: quote_binds_def request_ok_def quoteRequestEqual_def handler_computeTermsHash_def
          split: option.splits if_splits)
  qed
  have "job_ok (pe_tlv E) ?j" using ok req binds by (fastforce simp: job_ok_def request_ok_def)
  with inv have inv1: "provider_inv (pe_tlv E) ?s1" by (rule provider_inv_Upsert)
  have start: "provider_inv (pe_tlv E)
      (startJobRunner now key req st r i m (snd (sendQuoteResponse E now peer r m ?s1)))"
    if "job_QuoteResponse existing = Some r" "job_InputStream existing = Some st" for r st i
    using binds [OF that(1)] that(2) inv1 req(1) by (intro provider_inv_startJobRunner) auto
  show ?thesis
    using False inv1 start by (auto simp: handleExistingQuoteRequest_def Let_def split_def split: option.splits)
qed

lemma validated_version:
  "ValidateQuoteRequest L DefaultValidator req remote = None \<Longrightarrow> env_ProtocolVersion (qr_Envelope req) = ProtocolVersionV02"
  by (auto simp: ValidateQuoteRequest_def DefaultValidator_def protocolSupported_def split: if_splits)

lemma newAwaitingJob_ok:
  "env_ProtocolVersion (qr_Envelope req) = ProtocolVersionV02 \<Longrightarrow> job_ok L (newAwaitingJob peer req)"
  by (simp add: job_ok_def newAwaitingJob_def request_ok_def)

lemma provider_inv_handleQuoteRequest:
  assumes "provider_inv (pe_tlv E) s" and "pe_validator E = DefaultValidator"
  shows "provider_inv (pe_tlv E) (handleQuoteRequest E now msg s)"
  using assms
  by (auto simp: handleQuoteRequest_def Let_def split_def provider_inv_checkReplay
      intro!: provider_inv_existing provider_inv_Upsert newAwaitingJob_ok dest: validated_version
      split: sum.splits option.splits)

lemma awaiting_no_quote:
  "job_ok L j \<Longrightarrow> job_State j = StateAwaitingInput \<Longrightarrow> job_QuoteResponse j = None"
  by (cases "job_QuoteResponse j") (auto simp: job_ok_def)

lemma job_ok_new_stream:
  assumes "job_ok L j" and "job_State j = StateAwaitingInput" and "stream_ok st"
  shows "job_ok L (j\<lparr>job_InputStream := Some st\<rparr>)"
  using assms awaiting_no_quote [OF assms(1,2)] by (auto simp: job_ok_def request_ok_def)

lemma begin_stream_ok:
  "validateInputStreamBegin b = Inr (totalLen, sha) \<Longrightarrow> stream_ok (newInputStream b totalLen sha)"
  by (auto simp: validateInputStreamBegin_def newInputStream_def stream_ok_def word_less_nat_alt not_less
      split: if_splits option.splits)

lemma provider_inv_handleStreamBegin:
  assumes "provider_inv (pe_tlv E) s"
  shows "provider_inv (pe_tlv E) (provider_handleStreamBegin E now msg s)"
  using assms
  by (auto simp: provider_handleStreamBegin_def Let_def split_def provider_inv_checkReplay
      intro!: provider_inv_Upsert job_ok_new_stream begin_stream_ok
      dest: stored_job_ok(1) [OF provider_inv_checkReplay [OF provider_inv_rejects(1)]]
      split: sum.splits option.splits)

lemma unat_len_add:
  assumes "a \<le> 4194304" and "b \<le> 65535"
  shows "unat ((word_of_nat a :: u64) + word_of_nat b) = a + b"
proof -
  have "(word_of_nat a :: u64) + word_of_nat b = word_of_nat (a + b)" by simp
  then show ?thesis using assms by (simp only: unat_of_nat) simp
qed

lemma chunk_stream_ok:
  assumes "stream_ok st" and "length d \<le> 65535" and "\<not> is_Validated st"
    and "\<not> is_TotalLen st < (word_of_nat (length (is_Buf st)) :: u64) + word_of_nat (length d)"
  shows "stream_ok (st\<lparr>is_Buf := is_Buf st @ d, is_ExpectedSeq := q\<rparr>)"
  using assms unat_len_add [of "length (is_Buf st)" "length d"]
  by (simp add: stream_ok_def word_less_nat_alt)

lemma provider_inv_handleStreamChunk:
  assumes "provider_inv (pe_tlv E) s" and "tlv_library (pe_tlv E)"
  shows "provider_inv (pe_tlv E) (provider_handleStreamChunk E now msg s)"
proof -
  have ok: "stream_ok st" if "jobstore_Get k (pv_jobs s) = Some j" "job_InputStream j = Some st" for k j st
    using stored_job_ok(1) [OF assms(1) that(1)] that(2) by (simp add: job_ok_def)
  show ?thesis
    using assms(1) ok
    by (auto simp: provider_handleStreamChunk_def Let_def
        intro!: provider_inv_Upsert job_ok_new_stream chunk_stream_ok chunk_data_length [OF assms(2)]
        dest: stored_job_ok(1) split: sum.splits option.splits)
qed

lemma newQuoteResponse_fields:
  "qs_Envelope (fst (newQuoteResponse E env e p h pr s)) =
     \<lparr>env_ProtocolVersion = env_ProtocolVersion env, env_JobID = env_JobID env,
      env_MsgID = fst (mustNewMsgID E s), env_Expiry = e\<rparr>"
  "qs_PriceMsat (fst (newQuoteResponse E env e p h pr s)) = p"
  "qs_QuoteExpiry (fst (newQuoteResponse E env e p h pr s)) = e"
  "qs_TermsHash (fst (newQuoteResponse E env e p h pr s)) = h"
  "qs_PaymentRequest (fst (newQuoteResponse E env e p h pr s)) = pr"
  "snd (newQuoteResponse E env e p h pr s) = snd (mustNewMsgID E s)"
  by (simp_all add: newQuoteResponse_def Let_def split_def)

lemma quoted_job_ok:
  assumes "quote_binds L req st r" and "request_ok j req"
    and "job_InputStream j = Some st" and "job_QuoteRequest j = Some req" and "job_QuoteResponse j = Some r"
    and "job_State j = StateWaitingPayment" and "job_TermsHash j = Some (qs_TermsHash r)"
    and "job_QuoteExpiry j = qs_QuoteExpiry r"
  shows "job_ok L j"
  using assms by (simp add: job_ok_def quote_binds_def)

lemma provider_inv_createInvoice:
  assumes inv: "provider_inv (pe_tlv E) s" and st: "is_Validated st" "stream_ok st"
    and req: "env_JobID (qr_Envelope req) = jk_JobID key" "env_ProtocolVersion (qr_Envelope req) = ProtocolVersionV02"
    and h: "handler_computeTermsHash (pe_tlv E) req st quoteExpiry price = Inr h"
  shows "provider_inv (pe_tlv E) (createInvoiceAndStartQuoteJob E now peer key req st quoteExpiry ttl price h m s)"
proof (cases "fst (CreateInvoice E \<lparr>ir_DescriptionHash = h, ir_PriceMsat = price,
            ir_ExpirySeconds = invoiceExpirySeconds (pe_os E) ttl\<rparr> s)")
  case (Inl err)
  then show ?thesis using inv by (simp add: createInvoiceAndStartQuoteJob_def Let_def split_def)
next
  case (Inr invoice)
  let ?s1 = "snd (CreateInvoice E \<lparr>ir_DescriptionHash = h, ir_PriceMsat = price,
            ir_ExpirySeconds = invoiceExpirySeconds (pe_os E) ttl\<rparr> s)"
  let ?q = "newQuoteResponse E (qr_Envelope req) quoteExpiry price h (iv_PaymentRequest invoice) ?s1"
  let ?s3 = "snd (sendQuoteResponse E now peer (fst ?q) m (snd ?q))"
  have binds: "quote_binds (pe_tlv E) req st (fst ?q)"
    using st h by (simp add: quote_binds_def newQuoteResponse_fields)
  have inv3: "provider_inv (pe_tlv E) ?s3" using inv by (simp add: newQuoteResponse_fields)
  let ?j = "\<lparr>job_PeerPubKey = jk_PeerPubKey key, job_JobID = jk_JobID key, job_State = StateWaitingPayment,
             job_QuoteRequest = Some req, job_InputStream = Some st, job_QuoteExpiry = quoteExpiry,
             job_TermsHash = Some (qs_TermsHash (fst ?q)), job_PaymentHash = Some (iv_PaymentHash invoice),
             job_InvoiceAddIndex = Some (iv_AddIndex invoice), job_QuoteResponse = Some (fst ?q),
             job_CreatedAt = 0\<rparr>"
  have "job_ok (pe_tlv E) ?j"
    by (rule quoted_job_ok [OF binds]) (use req in \<open>simp_all add: request_ok_def newQuoteResponse_fields\<close>)
  with inv3 have "provider_inv (pe_tlv E) (handler_Upsert now ?j ?s3)" by (rule provider_inv_Upsert)
  from provider_inv_startJobRunner [OF this binds] req(1) Inr inv3 show ?thesis
    by (simp add: createInvoiceAndStartQuoteJob_def Let_def split_def)
qed

lemma provider_inv_validatedEnd:
  assumes "provider_inv (pe_tlv E) s" and "job_ok (pe_tlv E) j" and "job_InputStream j = Some st"
    and "is_Validated st" and "job_QuoteRequest j = Some req" and "job_JobID j = jk_JobID key"
  shows "provider_inv (pe_tlv E) (handleValidatedInputStreamEnd E now peer key j req st nowUnix env s)"
proof -
  have "request_ok j req" "stream_ok st" using assms by (auto simp: job_ok_def)
  then show ?thesis
    using assms
    by (auto simp: handleValidatedInputStreamEnd_def Let_def request_ok_def
        intro!: provider_inv_Upsert provider_inv_createInvoice split: sum.splits option.splits)
qed

lemma received_stream_ok:
  assumes "stream_ok st" and "word_of_nat (length (is_Buf st)) = is_TotalLen st" and "sha256 (is_Buf st) = is_SHA256 st"
  shows "stream_ok (st\<lparr>is_Validated := True\<rparr>)"
proof -
  have "length (is_Buf st) < 2 ^ 64" using assms(1) by (simp add: stream_ok_def)
  then have "unat (word_of_nat (length (is_Buf st)) :: u64) = length (is_Buf st)"
    by (simp only: unat_of_nat) simp
  with assms show ?thesis by (simp add: stream_ok_def)
qed

lemma provider_inv_handleStreamEnd:
  assumes "provider_inv (pe_tlv E) s"
  shows "provider_inv (pe_tlv E) (provider_handleStreamEnd E now msg s)"
proof -
  let ?s = "\<lambda>peer env nowUnix. snd (checkReplay E peer env nowUnix s)"
  have go: "provider_inv (pe_tlv E) (handleValidatedInputStreamEnd E now peer k
        (j\<lparr>job_InputStream := Some (st\<lparr>is_Validated := True\<rparr>)\<rparr>) req (st\<lparr>is_Validated := True\<rparr>) n env (?s p e u))"
    if "jobstore_Get k (pv_jobs s) = Some j" "job_InputStream j = Some st" "job_QuoteRequest j = Some req"
      "job_State j = StateAwaitingInput" "word_of_nat (length (is_Buf st)) = is_TotalLen st"
      "sha256 (is_Buf st) = is_SHA256 st" for peer k j st req n env p e u
  proof -
    note ok = stored_job_ok [OF assms that(1)]
    have "stream_ok st" using ok(1) that(2) by (simp add: job_ok_def)
    then have "stream_ok (st\<lparr>is_Validated := True\<rparr>)" using that(5,6) by (rule received_stream_ok)
    then have "job_ok (pe_tlv E) (j\<lparr>job_InputStream := Some (st\<lparr>is_Validated := True\<rparr>)\<rparr>)"
      using ok(1) that(4) by (intro job_ok_new_stream)
    with ok(2) that(3) assms show ?thesis
      by (intro provider_inv_validatedEnd) (simp_all add: provider_inv_checkReplay)
  qed
  show ?thesis
    using assms go
    by (auto simp: provider_handleStreamEnd_def Let_def split_def provider_inv_checkReplay
        split: sum.splits option.splits)
qed

lemma provider_inv_handleCancel:
  assumes "provider_inv (pe_tlv E) s"
  shows "provider_inv (pe_tlv E) (handleCancel E now msg s)"
  using assms
  by (auto simp: handleCancel_def Let_def split_def
      intro!: provider_inv_updateState provider_inv_cancelJob provider_inv_checkReplay split: sum.splits option.splits)

lemma provider_inv_HandleInbound:
  assumes "provider_inv (pe_tlv E) s" and "tlv_library (pe_tlv E)" and "pe_validator E = DefaultValidator"
  shows "provider_inv (pe_tlv E) (provider_HandleInboundCustomMessage E now msg s)"
  using assms
  by (simp add: provider_HandleInboundCustomMessage_def provider_inv_handleQuoteRequest provider_inv_handleStreamBegin
      provider_inv_handleStreamChunk provider_inv_handleStreamEnd provider_inv_handleCancel)

end
