(* ===== verification/Wire_Sizes.thy ===== *)
theory Wire_Sizes
  imports Wire_Roundtrip
begin

text \<open>
  When the encoders of \<^verbatim>\<open>go-lcpd/internal/lcpwire\<close> succeed and how long their payloads are. The
  bounds are what a sender needs to know that a message fits the peer's limit: a record has
  at most 18 bytes beside its value.
\<close>

section \<open>Lengths of records\<close>

lemma length_encodeBigSize: "length (encodeBigSize v) \<le> 9"
  by (rule encodeBigSize_cases [of v]) simp_all

lemma length_encodeTLV: "length (encodeTLV t v) \<le> 18 + length v"
  using length_encodeBigSize [of t] length_encodeBigSize [of "word_of_nat (length v)"]
  by (simp add: encodeTLV_def)

definition record_bound :: "tlv_record \<Rightarrow> nat" where
  "record_bound r = 18 + (case snd r of FUint16 v \<Rightarrow> 2 | FBytes32 h \<Rightarrow> 32 | FVarBytes b \<Rightarrow> length b | FTUint32 v \<Rightarrow> 8 | FTUint64 v \<Rightarrow> 8)"

lemma length_raw_record: "length (field_bytes f) \<le> record_bound (t, f) - 18"
  by (cases f) (simp_all add: record_bound_def length_encodeTU64)

lemma length_raw_stream: "length (raw_stream (map raw_record recs)) \<le> sum_list (map record_bound recs)"
proof (induction recs)
  case (Cons r recs)
  obtain t f where r: "r = (t, f)" by fastforce
  have "length (encodeTLV t (field_bytes f)) \<le> record_bound r"
    using length_encodeTLV [of t "field_bytes f"] length_raw_record [of f t]
    by (simp add: r record_bound_def)
  with Cons show ?case by (simp add: raw_stream_def raw_record_def r)
qed (simp add: raw_stream_def)

section \<open>Encoders that succeed\<close>

context tlv_library
begin

lemma encodeTLVStream_ok:
  assumes "ascending recs"
  shows "\<exists>b. encodeTLVStream L recs = Inr b \<and> length b \<le> sum_list (map record_bound recs)"
  using assms length_raw_stream [of recs]
  by (auto simp: encodeTLVStream_def new_stream encode)

lemma encode_job_ok:
  assumes "env_ProtocolVersion e \<noteq> 0" and "job_body recs"
  shows "\<exists>env b. encodeJobEnvelope e = Inr env \<and> encodeTLVStream L (env @ recs) = Inr b
    \<and> length b \<le> 146 + sum_list (map record_bound recs)"
proof -
  let ?env = "[(tlvTypeProtocolVersion, FUint16 (env_ProtocolVersion e)), (tlvTypeJobID, FBytes32 (env_JobID e)),
     (tlvTypeMsgID, FBytes32 (env_MsgID e)), (tlvTypeExpiry, FTUint64 (env_Expiry e))]"
  have env: "encodeJobEnvelope e = Inr ?env" using assms(1) by simp
  from encodeTLVStream_ok [OF ascending_job_records [OF env assms(2)]] env show ?thesis by (auto simp: record_bound_def)
qed

lemma EncodeStreamEnd_ok:
  assumes "env_ProtocolVersion (se_Envelope e) \<noteq> 0"
  shows "\<exists>b. EncodeStreamEnd L e = Inr b \<and> length b \<le> 272"
proof -
  let ?recs = "[(streamTLVTypeStreamID, FBytes32 (se_StreamID e)), (streamTLVTypeTotalLen, FTUint64 (se_TotalLen e)),
      (streamTLVTypeSHA256, FBytes32 (se_SHA256 e))]"
  have "job_body ?recs" by (simp add: job_body_def ascending_def)
  from encode_job_ok [OF assms this] obtain env b where "encodeJobEnvelope (se_Envelope e) = Inr env"
    "encodeTLVStream L (env @ ?recs) = Inr b" "length b \<le> 146 + sum_list (map record_bound ?recs)" by blast
  then show ?thesis by (simp add: EncodeStreamEnd_def makeTU64Record_def record_bound_def del: encodeJobEnvelope_Inr)
qed

lemma EncodeStreamChunk_ok:
  assumes "env_ProtocolVersion (sc_Envelope c) \<noteq> 0" and "sc_Data c = Some d"
  shows "\<exists>b mid. EncodeStreamChunk L c = Inr (b, mid) \<and> length b \<le> 240 + length d"
proof -
  let ?mid = "ComputeDeterministicStreamChunkMsgID (sc_StreamID c) (sc_Seq c)"
  let ?recs = "[(streamTLVTypeStreamID, FBytes32 (sc_StreamID c)), (streamTLVTypeSeq, FTUint32 (sc_Seq c)),
      (streamTLVTypeData, FVarBytes d)]"
  have "job_body ?recs" by (simp add: job_body_def ascending_def)
  from encode_job_ok [OF _ this, of "(sc_Envelope c)\<lparr>env_MsgID := ?mid\<rparr>"] assms(1)
  obtain env b where "encodeJobEnvelope ((sc_Envelope c)\<lparr>env_MsgID := ?mid\<rparr>) = Inr env"
    "encodeTLVStream L (env @ ?recs) = Inr b" "length b \<le> 146 + sum_list (map record_bound ?recs)" by auto
  then show ?thesis using assms(2) by (simp add: EncodeStreamChunk_def makeTU32Record_def record_bound_def Let_def del: encodeJobEnvelope_Inr)
qed

lemma EncodeStreamBegin_ok:
  assumes "env_ProtocolVersion (sb_Envelope b) \<noteq> 0" and "sb_Kind b = StreamKindInput \<or> sb_Kind b = StreamKindResult"
    and "sb_ContentType b \<noteq> []" and "utf8_ValidString (sb_ContentType b)"
    and "sb_ContentEncoding b \<noteq> []" and "utf8_ValidString (sb_ContentEncoding b)"
  shows "\<exists>p. EncodeStreamBegin L b = Inr p \<and> length p \<le> 328 + length (sb_ContentType b) + length (sb_ContentEncoding b)"
proof -
  let ?recs = "[(streamTLVTypeStreamID, FBytes32 (sb_StreamID b)), (streamTLVTypeStreamKind, FUint16 (sb_Kind b))]
        @ (case sb_TotalLen b of None \<Rightarrow> [] | Some n \<Rightarrow> [(streamTLVTypeTotalLen, FTUint64 n)])
        @ (case sb_SHA256 b of None \<Rightarrow> [] | Some h \<Rightarrow> [(streamTLVTypeSHA256, FBytes32 h)])
        @ [(streamTLVTypeContentType, FVarBytes (string_bytes (sb_ContentType b))),
           (streamTLVTypeContentEncoding, FVarBytes (string_bytes (sb_ContentEncoding b)))]"
  have "job_body ?recs" by (simp add: job_body_def ascending_def split: option.split)
  from encode_job_ok [OF assms(1) this] obtain env p where p: "encodeJobEnvelope (sb_Envelope b) = Inr env"
    "encodeTLVStream L (env @ ?recs) = Inr p" "length p \<le> 146 + sum_list (map record_bound ?recs)" by blast
  moreover have "EncodeStreamBegin L b = encodeTLVStream L (env @ ?recs)"
    using p(1) assms(2-6)
    by (auto simp: EncodeStreamBegin_def makeTU64Record_def validateUTF8String_def
        simp del: encodeJobEnvelope_Inr split: option.split)
  moreover have "sum_list (map record_bound ?recs) \<le> 182 + length (sb_ContentType b) + length (sb_ContentEncoding b)"
    by (simp add: record_bound_def split: option.split)
  ultimately show ?thesis by auto
qed

lemma EncodeResult_ok:
  assumes "env_ProtocolVersion (rs_Envelope r) \<noteq> 0" and "rs_Status r = ResultStatusOK" and "rs_OK r = Some ok"
    and "rs_Message r = None"
    and "ok_ResultContentType ok \<noteq> []" and "utf8_ValidString (ok_ResultContentType ok)"
    and "ok_ResultContentEncoding ok \<noteq> []" and "utf8_ValidString (ok_ResultContentEncoding ok)"
  shows "\<exists>p. EncodeResult L r = Inr p
    \<and> length p \<le> 328 + length (ok_ResultContentType ok) + length (ok_ResultContentEncoding ok)"
proof -
  let ?recs = "[(resultTLVTypeStatus, FUint16 ResultStatusOK), (resultTLVTypeResultStreamID, FBytes32 (ok_ResultStreamID ok)),
      (resultTLVTypeResultHash, FBytes32 (ok_ResultHash ok)), (resultTLVTypeResultLen, FTUint64 (ok_ResultLen ok)),
      (resultTLVTypeResultContentType, FVarBytes (string_bytes (ok_ResultContentType ok))),
      (resultTLVTypeResultContentEncode, FVarBytes (string_bytes (ok_ResultContentEncoding ok)))]"
  have "job_body ?recs" by (simp add: job_body_def ascending_def)
  from encode_job_ok [OF assms(1) this] obtain env p where p: "encodeJobEnvelope (rs_Envelope r) = Inr env"
    "encodeTLVStream L (env @ ?recs) = Inr p" "length p \<le> 146 + sum_list (map record_bound ?recs)" by blast
  moreover have "EncodeResult L r = encodeTLVStream L (env @ ?recs)"
    using p(1) assms(2-8)
    by (simp add: EncodeResult_def makeTU64Record_def validateUTF8String_def Let_def del: encodeJobEnvelope_Inr)
  ultimately show ?thesis by (auto simp: record_bound_def)
qed

lemma EncodeQuoteResponse_ok:
  assumes "env_ProtocolVersion (qs_Envelope q) \<noteq> 0" and "qs_PaymentRequest q \<noteq> []" and "utf8_ValidString (qs_PaymentRequest q)"
  shows "\<exists>b. EncodeQuoteResponse L q = Inr b \<and> length b \<le> 266 + length (qs_PaymentRequest q)"
proof -
  let ?recs = "[(quoteResponseTLVTypePriceMsat, FTUint64 (qs_PriceMsat q)), (quoteResponseTLVTypeQuoteExpiry, FTUint64 (qs_QuoteExpiry q)),
      (quoteResponseTLVTypeTermsHash, FBytes32 (qs_TermsHash q)),
      (quoteResponseTLVTypePaymentRequest, FVarBytes (string_bytes (qs_PaymentRequest q)))]"
  have "job_body ?recs" by (simp add: job_body_def ascending_def)
  from encode_job_ok [OF assms(1) this] obtain env b where "encodeJobEnvelope (qs_Envelope q) = Inr env"
    "encodeTLVStream L (env @ ?recs) = Inr b" "length b \<le> 146 + sum_list (map record_bound ?recs)" by blast
  with assms(2,3) show ?thesis
    by (simp add: EncodeQuoteResponse_def makeTU64Record_def validateUTF8String_def record_bound_def del: encodeJobEnvelope_Inr)
qed

lemma EncodeQuoteRequest_ok:
  assumes "env_ProtocolVersion (qr_Envelope q) \<noteq> 0" and "qr_TaskKind q \<noteq> []" and "utf8_ValidString (qr_TaskKind q)"
  shows "\<exists>b. EncodeQuoteRequest L q = Inr b
    \<and> length b \<le> 182 + length (qr_TaskKind q) + (case qr_ParamsBytes q of None \<Rightarrow> 0 | Some p \<Rightarrow> length p)"
proof -
  let ?recs = "[(tlvTypeTaskKind, FVarBytes (string_bytes (qr_TaskKind q)))]
     @ (case qr_ParamsBytes q of None \<Rightarrow> [] | Some p \<Rightarrow> [(tlvTypeParams, FVarBytes p)])"
  have "job_body ?recs" by (simp add: job_body_def ascending_def split: option.split)
  from encode_job_ok [OF assms(1) this] obtain env b where e: "encodeJobEnvelope (qr_Envelope q) = Inr env"
    "encodeTLVStream L (env @ ?recs) = Inr b" "length b \<le> 146 + sum_list (map record_bound ?recs)" by blast
  moreover have "EncodeQuoteRequest L q = encodeTLVStream L (env @ ?recs)"
    using e(1) assms(2,3)
    by (simp add: EncodeQuoteRequest_def validateUTF8String_def del: encodeJobEnvelope_Inr split: option.split)
  moreover have "sum_list (map record_bound ?recs) \<le> 36 + length (qr_TaskKind q) + (case qr_ParamsBytes q of None \<Rightarrow> 0 | Some p \<Rightarrow> length p)"
    by (simp add: record_bound_def split: option.split)
  ultimately show ?thesis by auto
qed

end

end
