(* ===== verification/Chunking.thy ===== *)
theory Chunking
  imports Wire_Sizes
begin

text \<open>
  How both sides cut a stream into chunks. The halving loop that finds a chunk whose payload
  fits the peer's limit (\<^verbatim>\<open>encodeFittingResultStreamChunk\<close> of the provider and
  \<^verbatim>\<open>encodeFittingInputStreamChunk\<close> of the requester) is stated once, over the encoder. The
  loops that send one chunk after the other (\<^verbatim>\<open>sendResultStreamChunks\<close>,
  \<^verbatim>\<open>sendInputStreamChunks\<close>) are defined beside the code that calls them; the locale is their
  common interface and holds what they promise: the sent chunks are non-empty, fit, are
  numbered from the first sequence number on, there are at most as many as bytes, and their
  concatenation is the data.
\<close>

section \<open>Loops\<close>

text \<open>The payload of one chunk: the encoder computes the message id.\<close>

definition encodeChunk :: "tlv_lib \<Rightarrow> job_envelope \<Rightarrow> hash32 \<Rightarrow> u32 \<Rightarrow> bytes \<Rightarrow> bytes res" where
  "encodeChunk L env streamID seq data =
     bindE (EncodeStreamChunk L \<lparr>sc_Envelope = env, sc_StreamID = streamID, sc_Seq = seq, sc_Data = Some data\<rparr>)
       (\<lambda>(payload, msgID). Inr payload)"

text \<open>The first of \<open>n\<close>, \<open>n div 2\<close>, \<open>n div 4\<close>, \<dots>\ bytes whose payload has at most \<open>maxPayload\<close> bytes.\<close>

function fitting_length ::
    "(nat \<Rightarrow> 'e + bytes) \<Rightarrow> u32 \<Rightarrow> 'e \<Rightarrow> nat \<Rightarrow> 'e + (bytes \<times> nat)" where
  "fitting_length enc maxPayload cannotFit n =
     (case enc n of
        Inl err \<Rightarrow> Inl err
      | Inr payload \<Rightarrow>
          if length payload \<le> unat maxPayload then Inr (payload, n)
          else if n \<le> 1 then Inl cannotFit
          else fitting_length enc maxPayload cannotFit (n div 2))"
  by pat_completeness auto

termination
  by (relation "measure (\<lambda>(enc, maxPayload, cannotFit, n). n)") auto

declare fitting_length.simps [simp del]

section \<open>Fitting chunks\<close>

lemma fitting_length_sound:
  assumes "fitting_length enc m c n = Inr (p, k)"
  shows "enc k = Inr p \<and> length p \<le> unat m \<and> k \<le> n \<and> (0 < n \<longrightarrow> 0 < k)"
  using assms
proof (induction enc m c n rule: fitting_length.induct)
  case (1 enc m c n)
  show ?case
  proof (cases "enc n")
    case (Inl err)
    with "1.prems" show ?thesis by (simp add: fitting_length.simps [of enc m c n])
  next
    case (Inr q)
    with "1.prems" "1.IH" [OF Inr] show ?thesis
      by (fastforce simp: fitting_length.simps [of enc m c n] split: if_splits)
  qed
qed

text \<open>The loop fails only when the encoder fails or even the shortest chunk is too long.\<close>

lemma fitting_length_fails:
  assumes "fitting_length enc m c n = Inl err"
  shows "\<exists>k \<le> n. enc k = Inl err \<or> (err = c \<and> k \<le> 1 \<and> (\<exists>p. enc k = Inr p \<and> unat m < length p))"
  using assms
proof (induction enc m c n rule: fitting_length.induct)
  case (1 enc m c n)
  show ?case
  proof (cases "enc n")
    case (Inl e)
    with "1.prems" show ?thesis by (auto simp: fitting_length.simps [of enc m c n])
  next
    case (Inr q)
    show ?thesis
    proof (cases "n \<le> 1")
      case True
      with Inr "1.prems" show ?thesis
        by (auto simp: fitting_length.simps [of enc m c n] split: if_splits)
    next
      case False
      with Inr "1.prems" have "fitting_length enc m c (n div 2) = Inl err" and "\<not> length q \<le> unat m"
        by (auto simp: fitting_length.simps [of enc m c n] split: if_splits)
      from "1.IH" [OF Inr this(2) False this(1)] obtain k where "k \<le> n div 2"
        "enc k = Inl err \<or> (err = c \<and> k \<le> 1 \<and> (\<exists>p. enc k = Inr p \<and> unat m < length p))" by blast
      then show ?thesis by (intro exI [of _ k]) auto
    qed
  qed
qed

section \<open>What a chunk sender promises\<close>

text \<open>A run of sends that stops at the first failure.\<close>

fun send_all :: "(bytes \<Rightarrow> 's \<Rightarrow> 'e option \<times> 's) \<Rightarrow> bytes list \<Rightarrow> 's \<Rightarrow> 'e option \<times> 's" where
  "send_all send [] s = (None, s)"
| "send_all send (p # ps) s =
     (case send p s of (Some err, s1) \<Rightarrow> (Some err, s1) | (None, s1) \<Rightarrow> send_all send ps s1)"

text \<open>
  The payloads of a stream: the encodings of non-empty pieces that make up the data, numbered
  from \<open>seq\<close> on and not longer than the limit.
\<close>

fun chunk_payloads ::
    "(u32 \<Rightarrow> bytes \<Rightarrow> 'e + bytes) \<Rightarrow> nat \<Rightarrow> u32 \<Rightarrow> bytes list \<Rightarrow> bytes list \<Rightarrow> bool" where
  "chunk_payloads enc lim seq [] ps \<longleftrightarrow> ps = []"
| "chunk_payloads enc lim seq (d # ds) ps \<longleftrightarrow>
     (case ps of [] \<Rightarrow> False | p # ps' \<Rightarrow>
        d \<noteq> [] \<and> enc seq d = Inr p \<and> length p \<le> lim \<and> chunk_payloads enc lim (seq + 1) ds ps')"

text \<open>
  The limit \<open>lim\<close> is positive wherever the loops are called. With the limit 0 only a payload
  of no bytes would fit; there the loop ends with \<open>noRoom\<close>. With a positive limit it ends
  because a fitting chunk of some data is not empty.
\<close>

locale chunk_sender =
  fixes enc :: "u32 \<Rightarrow> bytes \<Rightarrow> 'e + bytes"
    and fit :: "u32 \<Rightarrow> bytes \<Rightarrow> 'e + (bytes \<times> nat)"
    and lim :: nat
    and noRoom :: 'e
    and send :: "bytes \<Rightarrow> 's \<Rightarrow> 'e option \<times> 's"
    and loop :: "u32 \<Rightarrow> bytes \<Rightarrow> 's \<Rightarrow> 'e option \<times> 's"
  assumes fit_sound: "fit seq data = Inr (p, k) \<Longrightarrow> enc seq (take k data) = Inr p \<and> length p \<le> lim"
    and fit_progress: "fit seq data = Inr (p, k) \<Longrightarrow> data \<noteq> [] \<Longrightarrow> 0 < lim \<Longrightarrow> 0 < k \<and> k \<le> length data"
    and loop_step: "loop seq data s =
      (if data = [] then (None, s)
       else (case fit seq data of
         Inl err \<Rightarrow> (Some err, s)
       | Inr (payload, chunkLen) \<Rightarrow>
           if lim = 0 then (Some noRoom, s)
           else (case send payload s of
             (Some err, s1) \<Rightarrow> (Some err, s1)
           | (None, s1) \<Rightarrow> loop (seq + 1) (drop chunkLen data) s1)))"
begin

lemma loop_Nil [simp]: "loop seq [] s = (None, s)"
  by (simp add: loop_step [of seq "[]" s])

lemma step:
  assumes "data \<noteq> []" and "fit seq data = Inr (p, k)" and "0 < lim"
  shows "loop seq data s =
    (case send p s of (Some err, s1) \<Rightarrow> (Some err, s1) | (None, s1) \<Rightarrow> loop (seq + 1) (drop k data) s1)"
  using assms by (subst loop_step) simp

text \<open>What every send of a fitting chunk keeps, the loop keeps.\<close>

lemma loop_keeps:
  assumes "\<And>s. Q s s" and "\<And>s t u. Q s t \<Longrightarrow> Q t u \<Longrightarrow> Q s u"
    and "\<And>q d p k s. fit q d = Inr (p, k) \<Longrightarrow> Q s (snd (send p s))"
  shows "Q s (snd (loop seq data s))"
proof (induction "length data" arbitrary: seq data s rule: less_induct)
  case less
  show ?case
  proof (cases "data = [] \<or> (\<exists>err. fit seq data = Inl err) \<or> lim = 0")
    case True
    then show ?thesis using assms(1) by (subst loop_step) (auto split: sum.split)
  next
    case False
    then obtain p k where f: "data \<noteq> []" "fit seq data = Inr (p, k)" "0 < lim"
      by (cases "fit seq data") auto
    obtain err s1 where s1: "send p s = (err, s1)" by fastforce
    have "Q s s1" using assms(3) [OF f(2), of s] s1 by simp
    moreover have "Q s1 (snd (loop (seq + 1) (drop k data) s1))"
      using f fit_progress [OF f(2,1,3)] by (intro less.hyps) simp
    ultimately show ?thesis
      using s1 assms(2) step [OF f, of s] by (cases err) auto
  qed
qed

text \<open>The loop sends at most once per byte of the data.\<close>

lemma loop_bound:
  assumes "\<And>b s. size_of (snd (send b s)) \<le> Suc (size_of s)"
  shows "size_of (snd (loop seq data s)) \<le> size_of s + length data"
proof (induction "length data" arbitrary: seq data s rule: less_induct)
  case less
  show ?case
  proof (cases "data = [] \<or> (\<exists>err. fit seq data = Inl err) \<or> lim = 0")
    case True
    then show ?thesis by (subst loop_step) (auto split: sum.split)
  next
    case False
    then obtain p k where f: "data \<noteq> []" "fit seq data = Inr (p, k)" "0 < lim"
      by (cases "fit seq data") auto
    obtain err s1 where s1: "send p s = (err, s1)" by fastforce
    have "length (drop k data) < length data" using f fit_progress [OF f(2,1,3)] by simp
    with less.hyps [OF this, of "seq + 1" s1] assms [of p s] s1 f(1) step [OF f, of s] show ?thesis
      by (cases err) (auto simp: Suc_le_eq simp flip: length_greater_0_conv)
  qed
qed

text \<open>A loop that succeeds has sent the whole data, piece by piece.\<close>

lemma loop_sends_all:
  assumes "loop seq data s = (None, s')" and lim: "0 < lim"
  shows "\<exists>ds ps. concat ds = data \<and> chunk_payloads enc lim seq ds ps \<and> send_all send ps s = (None, s')"
  using assms(1)
proof (induction "length data" arbitrary: seq data s rule: less_induct)
  case less
  show ?case
  proof (cases "data = []")
    case True
    with less.prems have "s' = s" by simp
    with True show ?thesis by (intro exI [of _ "[]"]) simp
  next
    case False
    then obtain p k where f: "fit seq data = Inr (p, k)"
      using less.prems by (subst (asm) loop_step) (auto split: sum.splits)
    from f False less.prems obtain s1 where s1: "send p s = (None, s1)"
      "loop (seq + 1) (drop k data) s1 = (None, s')"
      by (auto simp: step lim split: prod.splits option.splits)
    have k: "0 < k" "k \<le> length data" using fit_progress [OF f False lim] by simp_all
    then have "length (drop k data) < length data" by simp
    from less.hyps [OF this s1(2)] obtain ds ps where ds: "concat ds = drop k data"
      "chunk_payloads enc lim (seq + 1) ds ps" "send_all send ps s1 = (None, s')" by blast
    have "concat (take k data # ds) = data \<and> chunk_payloads enc lim seq (take k data # ds) (p # ps)
        \<and> send_all send (p # ps) s = (None, s')"
      using ds s1(1) fit_sound [OF f] False k by simp
    then show ?thesis by blast
  qed
qed

text \<open>A loop whose encoder and messenger never fail succeeds.\<close>

lemma loop_succeeds:
  assumes "\<And>q d. d \<noteq> [] \<Longrightarrow> \<exists>p k. fit q d = Inr (p, k)" and "\<And>p s. fst (send p s) = None"
    and lim: "0 < lim"
  shows "fst (loop seq data s) = None"
proof (induction "length data" arbitrary: seq data s rule: less_induct)
  case less
  show ?case
  proof (cases "data = []")
    case True
    then show ?thesis by simp
  next
    case False
    then obtain p k where f: "fit seq data = Inr (p, k)" using assms(1) by blast
    have "length (drop k data) < length data" using fit_progress [OF f False lim] by auto
    with less.hyps [OF this] f False assms(2) [of p s] show ?thesis
      by (auto simp: step lim split: prod.splits option.splits)
  qed
qed

text \<open>A stream has at most one chunk per byte.\<close>

lemma chunk_count: "chunk_payloads enc lim seq ds ps \<Longrightarrow> length ps = length ds \<and> length ds \<le> length (concat ds)"
proof (induction ds arbitrary: seq ps)
  case (Cons d ds)
  then show ?case by (cases ps) (fastforce simp: neq_Nil_conv)+
qed simp

end

section \<open>Chunk payloads\<close>

context tlv_library
begin

lemma encodeChunk_ok:
  "env_ProtocolVersion env \<noteq> 0 \<Longrightarrow> \<exists>p. encodeChunk L env sid seq d = Inr p \<and> length p \<le> 240 + length d"
  using EncodeStreamChunk_ok [of "\<lparr>sc_Envelope = env, sc_StreamID = sid, sc_Seq = seq, sc_Data = Some d\<rparr>" d]
  by (auto simp: encodeChunk_def)

lemma decode_encodeChunk:
  assumes "encodeChunk L env sid seq d = Inr p" and "length p \<le> MaxRecordSize"
  shows "\<exists>mid. DecodeStreamChunk L p =
    Inr \<lparr>sc_Envelope = env\<lparr>env_MsgID := mid\<rparr>, sc_StreamID = sid, sc_Seq = seq, sc_Data = Some d\<rparr>"
proof -
  from assms(1) obtain mid where
    "EncodeStreamChunk L \<lparr>sc_Envelope = env, sc_StreamID = sid, sc_Seq = seq, sc_Data = Some d\<rparr> = Inr (p, mid)"
    by (auto simp: encodeChunk_def res_simps)
  from stream_chunk_round_trip [OF this assms(2)] show ?thesis by auto
qed

end

end
