(* ===== verification/Provider_Runner.thy ===== *)
theory Provider_Runner
  imports Provider_Inv Chunking
begin

text \<open>
  The job runner of the provider, \<^verbatim>\<open>runJob\<close> of \<^verbatim>\<open>go-lcpd/internal/provider/handler.go\<close> with the
  functions that send results. A runner blocks in two places: waiting for the settlement of
  the invoice and in the backend. The model cuts \<^verbatim>\<open>runJob\<close> there: one definition continues
  after the wait with its outcome, one after \<^verbatim>\<open>Execute\<close> and one after \<^verbatim>\<open>ExecuteStreaming\<close>, with
  what the backend returned. Between these points messages of any peer and other runners
  may act; \<open>provider_step\<close> is the relation of all of them. Logging and the usage numbers,
  which are only logged, are left out.
\<close>

section \<open>Sending a result\<close>

definition newStreamID :: "provider_env \<Rightarrow> provider \<Rightarrow> hash32 option \<times> provider" where
  "newStreamID E s =
     ((case pe_newStreamID E (pv_ids s) of Inl err \<Rightarrow> None | Inr v \<Rightarrow> Some v), s\<lparr>pv_ids := Suc (pv_ids s)\<rparr>)"

definition resolveRemoteManifestAndMaxPayload :: "string \<Rightarrow> u32 \<Rightarrow> provider \<Rightarrow> (manifest \<times> u32) option" where
  "resolveRemoteManifestAndMaxPayload peer remoteMaxPayload s =
     (case RemoteManifestFor peer (pv_peers s) of
        None \<Rightarrow> None
      | Some m \<Rightarrow>
          (let mx = (if remoteMaxPayload = 0 then mf_MaxPayloadBytes m else remoteMaxPayload) in
           if mx = 0 then None else Some (m, mx)))"

definition resultEnvelope :: "job_envelope \<Rightarrow> hash32 \<Rightarrow> u64 \<Rightarrow> job_envelope" where
  "resultEnvelope env msgID expiry =
     \<lparr>env_ProtocolVersion = env_ProtocolVersion env, env_JobID = env_JobID env, env_MsgID = msgID, env_Expiry = expiry\<rparr>"

text \<open>The common end of the senders: an encoded payload is sent when it fits.\<close>

definition sendWithinLimit ::
    "provider_env \<Rightarrow> string \<Rightarrow> u16 \<Rightarrow> bytes res \<Rightarrow> u32 \<Rightarrow> provider \<Rightarrow> bool \<times> provider" where
  "sendWithinLimit E peer msgType encoded remoteMaxPayload s =
     (case encoded of
        Inl err \<Rightarrow> (False, s)
      | Inr payload \<Rightarrow>
          if unat remoteMaxPayload < length payload then (False, s)
          else SendCustomMessage E peer msgType payload s)"

definition sendResultStreamBegin ::
    "provider_env \<Rightarrow> string \<Rightarrow> job_envelope \<Rightarrow> u64 \<Rightarrow> hash32 \<Rightarrow> u64 \<Rightarrow> hash32 \<Rightarrow> string \<Rightarrow> string \<Rightarrow> u32
      \<Rightarrow> provider \<Rightarrow> bool \<times> provider" where
  "sendResultStreamBegin E peer env expiry streamID totalLen resultHash contentType contentEncoding remoteMaxPayload s =
     (let (msgID, s1) = mustNewMsgID E s in
      sendWithinLimit E peer MessageTypeStreamBegin
        (EncodeStreamBegin (pe_tlv E)
          \<lparr>sb_Envelope = resultEnvelope env msgID expiry, sb_StreamID = streamID, sb_Kind = StreamKindResult,
           sb_TotalLen = Some totalLen, sb_SHA256 = Some resultHash, sb_ContentType = contentType,
           sb_ContentEncoding = contentEncoding\<rparr>) remoteMaxPayload s1)"

definition sendResultStreamBeginUnknown ::
    "provider_env \<Rightarrow> string \<Rightarrow> job_envelope \<Rightarrow> u64 \<Rightarrow> hash32 \<Rightarrow> string \<Rightarrow> string \<Rightarrow> u32 \<Rightarrow> provider \<Rightarrow> bool \<times> provider" where
  "sendResultStreamBeginUnknown E peer env expiry streamID contentType contentEncoding remoteMaxPayload s =
     (let (msgID, s1) = mustNewMsgID E s in
      sendWithinLimit E peer MessageTypeStreamBegin
        (EncodeStreamBegin (pe_tlv E)
          \<lparr>sb_Envelope = resultEnvelope env msgID expiry, sb_StreamID = streamID, sb_Kind = StreamKindResult,
           sb_TotalLen = None, sb_SHA256 = None, sb_ContentType = contentType,
           sb_ContentEncoding = contentEncoding\<rparr>) remoteMaxPayload s1)"

definition encodeFittingResultStreamChunk ::
    "tlv_lib \<Rightarrow> job_envelope \<Rightarrow> u64 \<Rightarrow> hash32 \<Rightarrow> u32 \<Rightarrow> u32 \<Rightarrow> bytes \<Rightarrow> (bytes \<times> nat) res" where
  "encodeFittingResultStreamChunk L env expiry streamID remoteMaxPayload seq data =
     fitting_length (\<lambda>n. encodeChunk L (resultEnvelope env 0 expiry) streamID seq (take n data)) remoteMaxPayload
       (errors_New ''cannot fit lcp_stream_chunk under remote max_payload_bytes'')
       (min (length data) (unat remoteMaxPayload))"

lemma result_chunk_sound:
  assumes "encodeFittingResultStreamChunk L env expiry sid m seq data = Inr (p, k)"
  shows "encodeChunk L (resultEnvelope env 0 expiry) sid seq (take k data) = Inr p \<and> length p \<le> unat m"
    and "data \<noteq> [] \<Longrightarrow> m \<noteq> 0 \<Longrightarrow> 0 < k \<and> k \<le> length data"
  using fitting_length_sound [OF assms [unfolded encodeFittingResultStreamChunk_def]] by (auto simp: unat_gt_0)

definition sendChunk :: "provider_env \<Rightarrow> string \<Rightarrow> bytes \<Rightarrow> provider \<Rightarrow> goerror option \<times> provider" where
  "sendChunk E peer payload s =
     (case SendCustomMessage E peer MessageTypeStreamChunk payload s of
        (ok, s1) \<Rightarrow> (if ok then None else Some (errors_New ''send lcp_stream_chunk failed''), s1))"

text \<open>
  The loop over the output from the sequence number \<open>seq\<close> on. It ends because a fitting chunk is
  not empty when the limit is positive, as \<^verbatim>\<open>resolveRemoteManifestAndMaxPayload\<close> ensures; the limit
  0, under which only a payload of no bytes would fit, has a branch of its own here, never reached.
\<close>

function resultChunks_from ::
    "provider_env \<Rightarrow> string \<Rightarrow> job_envelope \<Rightarrow> u64 \<Rightarrow> hash32 \<Rightarrow> u32 \<Rightarrow> u32 \<Rightarrow> bytes \<Rightarrow> provider \<Rightarrow> goerror option \<times> provider" where
  "resultChunks_from E peer env expiry streamID remoteMaxPayload seq output s =
     (if output = [] then (None, s)
      else (case encodeFittingResultStreamChunk (pe_tlv E) env expiry streamID remoteMaxPayload seq output of
        Inl err \<Rightarrow> (Some err, s)
      | Inr (payload, chunkLen) \<Rightarrow>
          if unat remoteMaxPayload = 0 then (Some (errors_New ''zero max_payload_bytes''), s)
          else (case sendChunk E peer payload s of
            (Some err, s1) \<Rightarrow> (Some err, s1)
          | (None, s1) \<Rightarrow>
              resultChunks_from E peer env expiry streamID remoteMaxPayload (seq + 1) (drop chunkLen output) s1)))"
  by pat_completeness auto

termination
  by (relation "measure (\<lambda>(E, peer, env, expiry, streamID, m, seq, output, s). length output)")
    (auto dest!: result_chunk_sound(2))

declare resultChunks_from.simps [simp del]

interpretation result_chunks: chunk_sender "encodeChunk (pe_tlv E) (resultEnvelope env 0 expiry) sid"
    "encodeFittingResultStreamChunk (pe_tlv E) env expiry sid m" "unat m" "errors_New ''zero max_payload_bytes''"
    "sendChunk E peer" "resultChunks_from E peer env expiry sid m" for E peer env expiry sid m
  by unfold_locales (use result_chunk_sound in \<open>auto simp: unat_gt_0 resultChunks_from.simps\<close>)

definition sendResultStreamChunks ::
    "provider_env \<Rightarrow> string \<Rightarrow> job_envelope \<Rightarrow> u64 \<Rightarrow> hash32 \<Rightarrow> bytes \<Rightarrow> u32 \<Rightarrow> provider \<Rightarrow> bool \<times> provider" where
  "sendResultStreamChunks E peer env expiry streamID output remoteMaxPayload s =
     (case resultChunks_from E peer env expiry streamID remoteMaxPayload 0 output s of
        (err, s1) \<Rightarrow> (err = None, s1))"

definition sendResultStreamEnd ::
    "provider_env \<Rightarrow> string \<Rightarrow> job_envelope \<Rightarrow> u64 \<Rightarrow> hash32 \<Rightarrow> u64 \<Rightarrow> hash32 \<Rightarrow> u32 \<Rightarrow> provider \<Rightarrow> bool \<times> provider" where
  "sendResultStreamEnd E peer env expiry streamID totalLen resultHash remoteMaxPayload s =
     (let (msgID, s1) = mustNewMsgID E s in
      sendWithinLimit E peer MessageTypeStreamEnd
        (EncodeStreamEnd (pe_tlv E)
          \<lparr>se_Envelope = resultEnvelope env msgID expiry, se_StreamID = streamID, se_TotalLen = totalLen,
           se_SHA256 = resultHash\<rparr>) remoteMaxPayload s1)"

definition sendTerminalOKResult ::
    "provider_env \<Rightarrow> string \<Rightarrow> job_envelope \<Rightarrow> u64 \<Rightarrow> hash32 \<Rightarrow> u64 \<Rightarrow> hash32 \<Rightarrow> string \<Rightarrow> string \<Rightarrow> u32
      \<Rightarrow> provider \<Rightarrow> bool \<times> provider" where
  "sendTerminalOKResult E peer env expiry streamID totalLen resultHash contentType contentEncoding remoteMaxPayload s =
     (let (msgID, s1) = mustNewMsgID E s in
      sendWithinLimit E peer MessageTypeResult
        (EncodeResult (pe_tlv E)
          \<lparr>rs_Envelope = resultEnvelope env msgID expiry, rs_Status = ResultStatusOK,
           rs_OK = Some \<lparr>ok_ResultStreamID = streamID, ok_ResultHash = resultHash, ok_ResultLen = totalLen,
                         ok_ResultContentType = contentType, ok_ResultContentEncoding = contentEncoding\<rparr>,
           rs_Message = None\<rparr>) remoteMaxPayload s1)"

definition sendTerminalResultStatus ::
    "provider_env \<Rightarrow> gotime \<Rightarrow> string \<Rightarrow> job_envelope \<Rightarrow> u16 \<Rightarrow> string option \<Rightarrow> u32 \<Rightarrow> provider \<Rightarrow> bool \<times> provider" where
  "sendTerminalResultStatus E now peer env status message remoteMaxPayload s =
     (let (msgID, s1) = mustNewMsgID E s in
      case EncodeResult (pe_tlv E)
             \<lparr>rs_Envelope = resultEnvelope env msgID (resultExpiry (pe_cfg E) now), rs_Status = status,
              rs_OK = None, rs_Message = message\<rparr> of
        Inl err \<Rightarrow> (False, s1)
      | Inr payload \<Rightarrow>
          if remoteMaxPayload \<noteq> 0 \<and> unat remoteMaxPayload < length payload then (False, s1)
          else SendCustomMessage E peer MessageTypeResult payload s1)"

definition sendResultStream ::
    "provider_env \<Rightarrow> string \<Rightarrow> job_envelope \<Rightarrow> u64 \<Rightarrow> hash32 \<Rightarrow> bytes \<Rightarrow> u64 \<Rightarrow> hash32 \<Rightarrow> string \<Rightarrow> string \<Rightarrow> u32
      \<Rightarrow> provider \<Rightarrow> bool \<times> provider" where
  "sendResultStream E peer env expiry streamID output totalLen resultHash contentType contentEncoding remoteMaxPayload s =
     (let (ok1, s1) = sendResultStreamBegin E peer env expiry streamID totalLen resultHash contentType contentEncoding
            remoteMaxPayload s in
      if \<not> ok1 then (False, s1) else
     (let (ok2, s2) = sendResultStreamChunks E peer env expiry streamID output remoteMaxPayload s1 in
      if \<not> ok2 then (False, s2)
      else sendResultStreamEnd E peer env expiry streamID totalLen resultHash remoteMaxPayload s2))"

abbreviation exceedsLimitsText :: string where
  "exceedsLimitsText \<equiv> ''result exceeds remote stream limits''"

definition sendResult ::
    "provider_env \<Rightarrow> gotime \<Rightarrow> string \<Rightarrow> job_envelope \<Rightarrow> string \<Rightarrow> bool \<Rightarrow> u64 \<Rightarrow> bytes \<Rightarrow> u32 \<Rightarrow> provider \<Rightarrow> bool \<times> provider" where
  "sendResult E now peer env taskKind streaming inputLen output remoteMaxPayload0 s =
     (case resolveRemoteManifestAndMaxPayload peer remoteMaxPayload0 s of
        None \<Rightarrow> (False, s)
      | Some (m, remoteMaxPayload) \<Rightarrow>
     (let totalLen = word_of_nat (length output) :: u64 in
      if mf_MaxStreamBytes m < totalLen \<or> mf_MaxJobBytes m < inputLen + totalLen
      then sendTerminalResultStatus E now peer env ResultStatusFailed (Some exceedsLimitsText) remoteMaxPayload s
      else (case newStreamID E s of
        (None, s1) \<Rightarrow> (False, s1)
      | (Some streamID, s1) \<Rightarrow>
     (let resultHash = sha256 output;
          expiry = resultExpiry (pe_cfg E) now;
          contentType = resultContentTypeForTaskKind taskKind streaming;
          (ok, s2) = sendResultStream E peer env expiry streamID output totalLen resultHash contentType
            contentEncodingIdentity remoteMaxPayload s1 in
      if \<not> ok then (False, s2)
      else sendTerminalOKResult E peer env expiry streamID totalLen resultHash contentType contentEncodingIdentity
             remoteMaxPayload s2))))"

section \<open>Streaming a result\<close>

text \<open>
  One read into a buffer of \<open>n\<close> bytes: the bytes, and how the read ended (\<open>None\<close> without an
  error, \<open>Some None\<close> at the end of the file, \<open>Some (Some e)\<close> with another error).
\<close>

definition reader_Read :: "nat \<Rightarrow> reader \<Rightarrow> bytes \<times> goerror option option \<times> reader" where
  "reader_Read n r =
     (case fst r of
        [] \<Rightarrow> ([], Some (snd r), r)
      | c # cs \<Rightarrow> (take n c, None, (if n < length c then drop n c # cs else cs), snd r))"

text \<open>How the read loop ends: at the end of the output, or with a return of the function.\<close>

datatype stream_loop_end =
    SLEof u64 bytes
  | SLReturn u64 bool "goerror option"

record stream_params =
  sp_peer :: string
  sp_env :: job_envelope
  sp_expiry :: u64
  sp_streamID :: hash32
  sp_inputLen :: u64
  sp_maxStreamBytes :: u64
  sp_maxJobBytes :: u64
  sp_remoteMaxPayload :: u32

definition backendError :: "string \<Rightarrow> goerror" where
  "backendError text = wrapSentinel ErrBackendUnavailable text"

definition reader_size :: "reader \<Rightarrow> nat" where
  "reader_size r = length (concat (fst r)) + length (fst r)"

lemma reader_Read_size:
  assumes "reader_Read n r = (b, None, r')" and "b \<noteq> []"
  shows "2 * reader_size r' + length b < 2 * reader_size r"
  using assms
  by (auto simp: reader_Read_def reader_size_def split: list.splits if_splits)

text \<open>
  The loop with its variables: the reader, the pending bytes, the bytes hashed so far, their
  count and the next sequence number. It ends because a fitting chunk of pending bytes is not
  empty when the limit is positive, as \<^verbatim>\<open>resolveRemoteManifestAndMaxPayload\<close> ensures; the limit
  0, under which only a payload of no bytes would fit, has a branch of its own.
\<close>

function streaming_loop ::
    "provider_env \<Rightarrow> gotime \<Rightarrow> stream_params \<Rightarrow> reader \<Rightarrow> bytes \<Rightarrow> bytes \<Rightarrow> u64 \<Rightarrow> u32 \<Rightarrow> provider
      \<Rightarrow> stream_loop_end \<times> provider" where
  "streaming_loop E now P rd pending hashed totalLen seq s =
     (if pending = [] then
        (case reader_Read (max (unat (sp_remoteMaxPayload P)) 1) rd of
           (b, None, rd1) \<Rightarrow>
             if b = [] then (SLReturn totalLen False (Some (backendError ''stream read returned 0 bytes'')), s)
             else streaming_loop E now P rd1 b hashed totalLen seq s
         | (b, Some None, rd1) \<Rightarrow> (SLEof totalLen hashed, s)
         | (b, Some (Some err), rd1) \<Rightarrow>
             (SLReturn totalLen False (Some (backendError (''stream read: '' @ error_text err))), s))
      else
        (case encodeFittingResultStreamChunk (pe_tlv E) (sp_env P) (sp_expiry P) (sp_streamID P)
                (sp_remoteMaxPayload P) seq pending of
           Inl err \<Rightarrow>
             (SLReturn totalLen False (Some (backendError (''encode lcp_stream_chunk: '' @ error_text err))), s)
         | Inr (payload, chunkLen) \<Rightarrow>
             if unat (sp_remoteMaxPayload P) = 0
             then (SLReturn totalLen False (Some (errors_New ''zero max_payload_bytes'')), s)
             else
               (let nextTotalLen = totalLen + word_of_nat chunkLen in
                if sp_maxStreamBytes P < nextTotalLen \<or> sp_maxJobBytes P < sp_inputLen P + nextTotalLen
                then (case sendTerminalResultStatus E now (sp_peer P) (sp_env P) ResultStatusFailed
                             (Some exceedsLimitsText) (sp_remoteMaxPayload P) s of
                        (statusOK, s1) \<Rightarrow> (SLReturn totalLen statusOK None, s1))
                else (case SendCustomMessage E (sp_peer P) MessageTypeStreamChunk payload s of
                        (False, s1) \<Rightarrow> (SLReturn totalLen False None, s1)
                      | (True, s1) \<Rightarrow>
                          streaming_loop E now P rd (drop chunkLen pending) (hashed @ take chunkLen pending)
                            nextTotalLen (seq + 1) s1))))"
  by pat_completeness auto

termination
  by (relation "measure (\<lambda>(E, now, P, rd, pending, hashed, totalLen, seq, s). 2 * reader_size rd + length pending)")
    (auto dest: reader_Read_size [OF sym] dest!: result_chunk_sound(2))

declare streaming_loop.simps [simp del]

text \<open>The whole of \<^verbatim>\<open>sendResultStreaming\<close>: the length sent, whether sending went well, an error.\<close>

definition sendResultStreaming ::
    "provider_env \<Rightarrow> gotime \<Rightarrow> string \<Rightarrow> job_envelope \<Rightarrow> string \<Rightarrow> u64 \<Rightarrow> reader \<Rightarrow> u32 \<Rightarrow> provider
      \<Rightarrow> (u64 \<times> bool \<times> goerror option) \<times> provider" where
  "sendResultStreaming E now peer env taskKind inputLen output remoteMaxPayload0 s =
     (case resolveRemoteManifestAndMaxPayload peer remoteMaxPayload0 s of
        None \<Rightarrow> ((0, False, None), s)
      | Some (m, remoteMaxPayload) \<Rightarrow>
     (case newStreamID E s of
        (None, s1) \<Rightarrow> ((0, False, None), s1)
      | (Some streamID, s1) \<Rightarrow>
     (let expiry = resultExpiry (pe_cfg E) now;
          contentType = resultContentTypeForTaskKind taskKind True;
          (ok, s2) = sendResultStreamBeginUnknown E peer env expiry streamID contentType contentEncodingIdentity
            remoteMaxPayload s1 in
      if \<not> ok then ((0, False, None), s2)
      else
        (case streaming_loop E now
                \<lparr>sp_peer = peer, sp_env = env, sp_expiry = expiry, sp_streamID = streamID, sp_inputLen = inputLen,
                 sp_maxStreamBytes = (if mf_MaxStreamBytes m = 0 then defaultMaxStreamBytes else mf_MaxStreamBytes m),
                 sp_maxJobBytes = (if mf_MaxJobBytes m = 0 then defaultMaxJobBytes else mf_MaxJobBytes m),
                 sp_remoteMaxPayload = remoteMaxPayload\<rparr> output [] [] 0 0 s2 of
           (SLReturn n sent err, s3) \<Rightarrow> ((n, sent, err), s3)
         | (SLEof totalLen hashed, s3) \<Rightarrow>
             if totalLen = 0 then ((0, False, Some (backendError ''empty response'')), s3)
             else
               (let (ok1, s4) = sendResultStreamEnd E peer env expiry streamID totalLen (sha256 hashed) remoteMaxPayload s3 in
                if \<not> ok1 then ((totalLen, False, None), s4)
                else
                  (let (ok2, s5) = sendTerminalOKResult E peer env expiry streamID totalLen (sha256 hashed) contentType
                         contentEncodingIdentity remoteMaxPayload s4 in
                   ((totalLen, ok2, None), s5)))))))"

section \<open>The runner\<close>

text \<open>The context of a runner ends by cancellation or at its deadline.\<close>

definition ctx_Err :: "gotime \<Rightarrow> runner \<Rightarrow> bool" where
  "ctx_Err now r = (ru_Cancelled r \<or> (case ru_Deadline r of None \<Rightarrow> False | Some d \<Rightarrow> d \<le> now))"

definition setPhase :: "nat \<Rightarrow> runner_phase \<Rightarrow> provider \<Rightarrow> provider" where
  "setPhase rid ph s =
     s\<lparr>pv_runners := map (\<lambda>(i, r). if i = rid then (i, r\<lparr>ru_Phase := ph\<rparr>) else (i, r)) (pv_runners s)\<rparr>"

text \<open>A return of \<^verbatim>\<open>runJob\<close> with its deferred \<^verbatim>\<open>forgetJob\<close>.\<close>

definition runJob_return :: "nat \<Rightarrow> runner \<Rightarrow> provider \<Rightarrow> provider" where
  "runJob_return rid r s = setPhase rid RunFinished (forgetJob (ru_Key r) s)"

text \<open>The error branches after settlement: silent when the context is over, reported otherwise.\<close>

definition runJob_fail :: "provider_env \<Rightarrow> gotime \<Rightarrow> nat \<Rightarrow> runner \<Rightarrow> goerror \<Rightarrow> provider \<Rightarrow> provider" where
  "runJob_fail E now rid r err s =
     (if ctx_Err now r then runJob_return rid r s
      else runJob_return rid r
             (handler_updateState (ru_Key r) StateFailed
               (handler_sendError E now (jk_PeerPubKey (ru_Key r)) (qs_Envelope (ru_QuoteResp r))
                 (computeErrorCode err) (error_text err) s)))"

definition runJob_settled ::
    "provider_env \<Rightarrow> gotime \<Rightarrow> nat \<Rightarrow> runner \<Rightarrow> goerror option \<Rightarrow> provider \<Rightarrow> provider" where
  "runJob_settled E now rid r waitErr s =
     (case waitErr of
        Some err \<Rightarrow>
          if errors_Is err ''context.Canceled'' then runJob_return rid r s
          else runJob_return rid r (handler_updateState (ru_Key r) StateFailed s)
      | None \<Rightarrow>
     (let s1 = handler_updateState (ru_Key r) StatePaid (s\<lparr>pv_trace := pv_trace s @ [EvSettled rid]\<rparr>) in
      if ctx_Err now r then runJob_return rid r s1
      else
     (let s2 = handler_updateState (ru_Key r) StateExecuting s1 in
      case planTask (pe_tlv E) (pe_json E) (pe_cfg E) (pe_policy E) (ru_Req r) (is_Buf (ru_Input r)) of
        Inl err \<Rightarrow> runJob_fail E now rid r err s2
      | Inr (planned, policy, model, wantStreaming) \<Rightarrow>
          setPhase rid (RunExecuting planned wantStreaming)
            (s2\<lparr>pv_trace := pv_trace s2 @ [EvExecute rid planned]\<rparr>))))"

definition runJob_executed ::
    "provider_env \<Rightarrow> gotime \<Rightarrow> nat \<Rightarrow> runner \<Rightarrow> bool \<Rightarrow> execution_result res \<Rightarrow> provider \<Rightarrow> provider" where
  "runJob_executed E now rid r wantStreaming outcome s =
     (case outcome of
        Inl err \<Rightarrow> runJob_fail E now rid r err s
      | Inr result \<Rightarrow>
          if xr_OutputBytes result = []
          then runJob_fail E now rid r (backendError ''execute backend returned empty output'') s
          else
            (let (ok, s1) = sendResult E now (jk_PeerPubKey (ru_Key r)) (qs_Envelope (ru_QuoteResp r))
                   (qr_TaskKind (ru_Req r)) wantStreaming (word_of_nat (length (is_Buf (ru_Input r))))
                   (xr_OutputBytes result) (ru_RemoteMaxPayload r) s in
             runJob_return rid r (handler_updateState (ru_Key r) (if ok then StateDone else StateFailed) s1)))"

definition runJob_streamed ::
    "provider_env \<Rightarrow> gotime \<Rightarrow> nat \<Rightarrow> runner \<Rightarrow> reader option res \<Rightarrow> provider \<Rightarrow> provider" where
  "runJob_streamed E now rid r outcome s =
     (case outcome of
        Inl err \<Rightarrow> runJob_fail E now rid r err s
      | Inr None \<Rightarrow> runJob_fail E now rid r (backendError ''streaming output is nil'') s
      | Inr (Some output) \<Rightarrow>
          (case sendResultStreaming E now (jk_PeerPubKey (ru_Key r)) (qs_Envelope (ru_QuoteResp r))
                  (qr_TaskKind (ru_Req r)) (word_of_nat (length (is_Buf (ru_Input r)))) output
                  (ru_RemoteMaxPayload r) (handler_updateState (ru_Key r) StateStreamingResult s) of
             ((outputLen, ok, Some err), s1) \<Rightarrow> runJob_fail E now rid r err s1
           | ((outputLen, ok, None), s1) \<Rightarrow>
               runJob_return rid r (handler_updateState (ru_Key r) (if ok then StateDone else StateFailed) s1)))"

section \<open>Steps of the provider\<close>

inductive provider_step :: "provider_env \<Rightarrow> provider \<Rightarrow> provider \<Rightarrow> bool" for E where
  inbound: "provider_step E s (provider_HandleInboundCustomMessage E now msg s)"
| peers: "provider_step E s (s\<lparr>pv_peers := d\<rparr>)"
| settled: "map_of (pv_runners s) rid = Some r \<Longrightarrow> ru_Phase r = RunWaiting \<Longrightarrow>
    provider_step E s (runJob_settled E now rid r waitErr s)"
| executed: "map_of (pv_runners s) rid = Some r \<Longrightarrow> ru_Phase r = RunExecuting task wantStreaming \<Longrightarrow>
    \<not> (wantStreaming \<and> pe_streamingBackend E) \<Longrightarrow>
    provider_step E s (runJob_executed E now rid r wantStreaming outcome s)"
| streamed: "map_of (pv_runners s) rid = Some r \<Longrightarrow> ru_Phase r = RunExecuting task wantStreaming \<Longrightarrow>
    wantStreaming \<Longrightarrow> pe_streamingBackend E \<Longrightarrow>
    provider_step E s (runJob_streamed E now rid r soutcome s)"

text \<open>A provider right after its construction: empty stores, no runner, an empty trace.\<close>

definition provider_init :: "os_env \<Rightarrow> int \<Rightarrow> provider" where
  "provider_init os replayMax =
     \<lparr>pv_jobs = jobstore_New os, pv_replay = replaystore_New os replayMax, pv_peers = [],
      pv_cancels = [], pv_inFlight = 0, pv_runners = [], pv_ids = 0, pv_trace = []\<rparr>"

inductive provider_reachable :: "provider_env \<Rightarrow> provider \<Rightarrow> bool" for E where
  start: "provider_reachable E (provider_init os replayMax)"
| step: "provider_reachable E s \<Longrightarrow> provider_step E s s' \<Longrightarrow> provider_reachable E s'"

end
