(* ===== verification/Provider_Safety.thy ===== *)
theory Provider_Safety
  imports Provider_Runner
begin

text \<open>
  Safety of the provider over all interleavings of messages, runners and peer changes: the
  invariant of the stores, and what the trace says. The backend runs a task only after the
  settlement of an invoice for the price and the terms hash of the quote that binds exactly
  this input; every runner executes at most once; a result message is sent only for a job
  that was executed, to the peer of that job.
\<close>

section \<open>Trace properties\<close>

definition result_type :: "u16 \<Rightarrow> bool" where
  "result_type t \<longleftrightarrow> t \<in> {MessageTypeStreamBegin, MessageTypeStreamChunk, MessageTypeStreamEnd, MessageTypeResult}"

text \<open>Events that have nothing to do with payment, execution and results.\<close>

fun quiet :: "provider_event \<Rightarrow> bool" where
  "quiet (EvSend p t b ok) \<longleftrightarrow> \<not> result_type t"
| "quiet (EvInvoice req r) \<longleftrightarrow> True"
| "quiet (EvStart k rid) \<longleftrightarrow> True"
| "quiet (EvCancel k rid) \<longleftrightarrow> True"
| "quiet (EvSettled rid) \<longleftrightarrow> False"
| "quiet (EvExecute rid t) \<longleftrightarrow> False"

text \<open>The invoice of a quote: created with the quote's terms hash and price, same payment hash.\<close>

definition invoiced :: "provider_event list \<Rightarrow> quote_response \<Rightarrow> invoice_result \<Rightarrow> bool" where
  "invoiced tr resp invc \<longleftrightarrow> (\<exists>req inv0. EvInvoice req (Inr inv0) \<in> set tr
     \<and> ir_DescriptionHash req = qs_TermsHash resp \<and> ir_PriceMsat req = qs_PriceMsat resp
     \<and> iv_PaymentHash inv0 = iv_PaymentHash invc \<and> iv_AddIndex inv0 = iv_AddIndex invc)"

lemma invoiced_mono: "invoiced tr resp invc \<Longrightarrow> set tr \<subseteq> set tr' \<Longrightarrow> invoiced tr' resp invc"
  by (auto simp: invoiced_def)

text \<open>What never changes of a runner: all but its phase and whether it was cancelled.\<close>

definition static :: "provider \<Rightarrow> nat \<Rightarrow> runner option" where
  "static s rid = map_option (\<lambda>r. r\<lparr>ru_Cancelled := False, ru_Phase := RunFinished\<rparr>) (map_of (pv_runners s) rid)"

text \<open>The payload of a result message whose envelope names the job \<open>j\<close>.\<close>

definition for_job :: "tlv_lib \<Rightarrow> hash32 \<Rightarrow> u16 \<Rightarrow> bytes \<Rightarrow> bool" where
  "for_job L j t b \<longleftrightarrow>
     (t = MessageTypeStreamBegin \<and> (\<exists>m. env_JobID (sb_Envelope m) = j \<and> EncodeStreamBegin L m = Inr b))
   \<or> (t = MessageTypeStreamChunk \<and> (\<exists>m mid. env_JobID (sc_Envelope m) = j \<and> EncodeStreamChunk L m = Inr (b, mid)))
   \<or> (t = MessageTypeStreamEnd \<and> (\<exists>m. env_JobID (se_Envelope m) = j \<and> EncodeStreamEnd L m = Inr b))
   \<or> (t = MessageTypeResult \<and> (\<exists>m. env_JobID (rs_Envelope m) = j \<and> EncodeResult L m = Inr b))"

lemma for_jobI:
  "EncodeStreamBegin L sb = Inr b \<Longrightarrow> for_job L (env_JobID (sb_Envelope sb)) MessageTypeStreamBegin b"
  "EncodeStreamChunk L sc = Inr (b, mid) \<Longrightarrow> for_job L (env_JobID (sc_Envelope sc)) MessageTypeStreamChunk b"
  "EncodeStreamEnd L se = Inr b \<Longrightarrow> for_job L (env_JobID (se_Envelope se)) MessageTypeStreamEnd b"
  "EncodeResult L rs = Inr b \<Longrightarrow> for_job L (env_JobID (rs_Envelope rs)) MessageTypeResult b"
  unfolding for_job_def by blast+

text \<open>The backend was called for the job \<open>j\<close> of the peer \<open>p\<close>.\<close>

definition executed_for ::
    "(nat \<Rightarrow> runner option) \<Rightarrow> provider_event list \<Rightarrow> string \<Rightarrow> hash32 \<Rightarrow> bool" where
  "executed_for R xs p j \<longleftrightarrow> (\<exists>rid task r. EvExecute rid task \<in> set xs \<and> R rid = Some r
     \<and> jk_PeerPubKey (ru_Key r) = p \<and> env_JobID (qs_Envelope (ru_QuoteResp r)) = j)"

text \<open>What an event says about the events before it.\<close>

fun event_ok :: "tlv_lib \<Rightarrow> (nat \<Rightarrow> runner option) \<Rightarrow> provider_event list \<Rightarrow> provider_event \<Rightarrow> bool" where
  "event_ok L R xs (EvSettled rid) \<longleftrightarrow> (\<exists>r. R rid = Some r \<and> invoiced xs (ru_QuoteResp r) (ru_Invoice r))"
| "event_ok L R xs (EvExecute rid task) \<longleftrightarrow> EvSettled rid \<in> set xs \<and> (\<forall>t. EvExecute rid t \<notin> set xs)
     \<and> (\<exists>r. R rid = Some r \<and> ct_InputBytes task = is_Buf (ru_Input r) \<and> ct_TaskKind task = qr_TaskKind (ru_Req r))"
| "event_ok L R xs (EvSend p t b ok) \<longleftrightarrow> (result_type t \<longrightarrow> (\<exists>j. executed_for R xs p j \<and> for_job L j t b))"
| "event_ok L R xs e \<longleftrightarrow> True"

definition trace_ok :: "tlv_lib \<Rightarrow> (nat \<Rightarrow> runner option) \<Rightarrow> provider_event list \<Rightarrow> bool" where
  "trace_ok L R tr \<longleftrightarrow> (\<forall>xs e ys. tr = xs @ e # ys \<longrightarrow> event_ok L R xs e)"

lemma trace_ok_Nil [simp]: "trace_ok L R []"
  by (simp add: trace_ok_def)

lemma trace_ok_snoc [simp]: "trace_ok L R (tr @ [e]) \<longleftrightarrow> trace_ok L R tr \<and> event_ok L R tr e"
proof
  assume a: "trace_ok L R (tr @ [e])"
  then have "event_ok L R tr e" by (simp add: trace_ok_def)
  moreover have "event_ok L R xs x" if "tr = xs @ x # ys" for xs x ys
    using a that by (auto simp: trace_ok_def)
  ultimately show "trace_ok L R tr \<and> event_ok L R tr e" by (simp add: trace_ok_def)
next
  assume a: "trace_ok L R tr \<and> event_ok L R tr e"
  have "event_ok L R xs x" if "tr @ [e] = xs @ x # ys" for xs x ys
    using a that by (cases ys rule: rev_cases) (auto simp: trace_ok_def)
  then show "trace_ok L R (tr @ [e])" by (simp add: trace_ok_def)
qed

lemma map_le_SomeD: "f \<subseteq>\<^sub>m g \<Longrightarrow> f x = Some y \<Longrightarrow> g x = Some y"
  by (auto simp: map_le_def dom_def)

lemma executed_for_mono: "executed_for R xs p j \<Longrightarrow> R \<subseteq>\<^sub>m R' \<Longrightarrow> executed_for R' xs p j"
  unfolding executed_for_def by (blast dest: map_le_SomeD)

lemma event_ok_mono: "event_ok L R xs e \<Longrightarrow> R \<subseteq>\<^sub>m R' \<Longrightarrow> event_ok L R' xs e"
  by (cases e) (auto dest: map_le_SomeD intro: executed_for_mono)

lemma trace_ok_mono: "trace_ok L R tr \<Longrightarrow> R \<subseteq>\<^sub>m R' \<Longrightarrow> trace_ok L R' tr"
  unfolding trace_ok_def by (blast intro: event_ok_mono)

lemma quiet_event_ok [simp]: "quiet e \<Longrightarrow> event_ok L R xs e"
  by (cases e) simp_all

lemma trace_ok_quiet: "trace_ok L R tr \<Longrightarrow> list_all quiet evs \<Longrightarrow> trace_ok L R (tr @ evs)"
proof (induction evs rule: rev_induct)
  case (snoc e evs)
  then have "trace_ok L R ((tr @ evs) @ [e])" by (subst trace_ok_snoc) simp
  then show ?case by simp
qed simp

section \<open>The invariant\<close>

fun phase_ok :: "provider_event list \<Rightarrow> nat \<Rightarrow> runner_phase \<Rightarrow> bool" where
  "phase_ok tr rid RunWaiting \<longleftrightarrow> (\<forall>t. EvExecute rid t \<notin> set tr)"
| "phase_ok tr rid (RunExecuting task w) \<longleftrightarrow> EvExecute rid task \<in> set tr"
| "phase_ok tr rid RunFinished \<longleftrightarrow> True"

definition old_events :: "nat \<Rightarrow> provider_event list \<Rightarrow> bool" where
  "old_events n tr \<longleftrightarrow> (\<forall>rid. EvSettled rid \<in> set tr \<longrightarrow> rid < n) \<and> (\<forall>rid t. EvExecute rid t \<in> set tr \<longrightarrow> rid < n)"

definition jobs_invoiced :: "provider_event list \<Rightarrow> job_store \<Rightarrow> bool" where
  "jobs_invoiced tr js \<longleftrightarrow> (\<forall>k j r. jobstore_Get k js = Some j \<longrightarrow> job_QuoteResponse j = Some r
     \<longrightarrow> invoiced tr r (invoiceFromJob j r))"

definition trace_inv :: "tlv_lib \<Rightarrow> provider \<Rightarrow> bool" where
  "trace_inv L s \<longleftrightarrow> trace_ok L (static s) (pv_trace s)
     \<and> old_events (length (pv_runners s)) (pv_trace s)
     \<and> jobs_invoiced (pv_trace s) (pv_jobs s)
     \<and> (\<forall>(rid, r) \<in> set (pv_runners s). phase_ok (pv_trace s) rid (ru_Phase r)
          \<and> invoiced (pv_trace s) (ru_QuoteResp r) (ru_Invoice r))"

section \<open>Quiet operations\<close>

text \<open>An operation that leaves the stores alone and appends quiet events.\<close>

definition quietly :: "provider \<Rightarrow> provider \<Rightarrow> bool" where
  "quietly s s' \<longleftrightarrow> same_store s s' \<and> (\<exists>evs. pv_trace s' = pv_trace s @ evs \<and> list_all quiet evs)"

lemma quietly_refl [simp]: "quietly s s"
  by (simp add: quietly_def)

lemma quietly_trans: "quietly s t \<Longrightarrow> quietly t u \<Longrightarrow> quietly s u"
  by (auto simp: quietly_def intro: same_store_trans)

lemma quietly_mustNewMsgID [simp]: "quietly s (snd (mustNewMsgID E s))"
  by (simp add: quietly_def same_store_def mustNewMsgID_def)

lemma quietly_Send: "\<not> result_type t \<Longrightarrow> quietly s (snd (SendCustomMessage E p t b s))"
  by (simp add: quietly_def same_store_def SendCustomMessage_def Let_def)

lemma quietly_sendError [simp]: "quietly s (handler_sendError E now p env c m s)"
proof -
  have "quietly s (snd (SendCustomMessage E p MessageTypeError b (snd (mustNewMsgID E s))))" for b
    by (rule quietly_trans [OF quietly_mustNewMsgID quietly_Send]) (simp add: result_type_def)
  then show ?thesis by (simp add: handler_sendError_def Let_def split_def split: sum.splits)
qed

lemma quietly_sendQuoteResponse [simp]: "quietly s (snd (sendQuoteResponse E now p r m s))"
  by (auto simp: sendQuoteResponse_def result_type_def intro: quietly_Send split: sum.splits)

lemma quietly_CreateInvoice [simp]: "quietly s (snd (CreateInvoice E r s))"
  by (simp add: CreateInvoice_def Let_def quietly_def same_store_def)

lemma quietly_rejects [simp]:
  "quietly s (snd (rejectQuoteRequestIfProviderUnavailable E now p env s))"
  "quietly s (snd (rejectQuoteRequestIfUnsupportedModel E now p req s))"
  by (auto simp: rejectQuoteRequestIfProviderUnavailable_def rejectQuoteRequestIfUnsupportedModel_def Let_def
      split: option.splits sum.splits)

lemma old_events_quiet: "old_events n tr \<Longrightarrow> list_all quiet evs \<Longrightarrow> old_events n (tr @ evs)"
  by (fastforce simp: old_events_def list_all_iff)

lemma phase_ok_quiet: "phase_ok tr rid ph \<Longrightarrow> list_all quiet evs \<Longrightarrow> phase_ok (tr @ evs) rid ph"
  by (cases ph) (fastforce simp: list_all_iff)+

lemma jobs_invoiced_mono: "jobs_invoiced tr js \<Longrightarrow> set tr \<subseteq> set tr' \<Longrightarrow> jobs_invoiced tr' js"
  by (meson jobs_invoiced_def invoiced_mono)

lemma trace_inv_quietly:
  assumes "trace_inv L s" and "quietly s s'"
  shows "trace_inv L s'"
proof -
  from assms(2) obtain evs where e: "pv_trace s' = pv_trace s @ evs" "list_all quiet evs"
    and st: "pv_runners s' = pv_runners s" "pv_jobs s' = pv_jobs s"
    by (auto simp: quietly_def same_store_def)
  have "static s' = static s" by (rule ext) (simp add: static_def st)
  with assms(1) e st show ?thesis
    by (fastforce simp: trace_inv_def intro: trace_ok_quiet old_events_quiet phase_ok_quiet invoiced_mono jobs_invoiced_mono)
qed

section \<open>Operations on the stores\<close>

lemma trace_inv_frame:
  assumes "trace_inv L s" and "pv_trace s' = pv_trace s" and "pv_jobs s' = pv_jobs s" and "pv_runners s' = pv_runners s"
  shows "trace_inv L s'"
proof -
  have "static s' = static s" by (rule ext) (simp add: static_def assms(4))
  with assms show ?thesis by (simp add: trace_inv_def)
qed

lemma trace_inv_checkReplay [simp]: "trace_inv L s \<Longrightarrow> trace_inv L (snd (checkReplay E p env now s))"
  by (erule trace_inv_frame) (simp_all add: checkReplay_def Let_def split_def)

lemma trace_inv_forgetJob: "trace_inv L s \<Longrightarrow> trace_inv L (forgetJob key s)"
  by (erule trace_inv_frame) (simp_all add: forgetJob_def)

lemma trace_inv_jobs:
  assumes "trace_inv L s" and "jobs_invoiced (pv_trace s) js"
  shows "trace_inv L (s\<lparr>pv_jobs := js\<rparr>)"
proof -
  have "static (s\<lparr>pv_jobs := js\<rparr>) = static s" by (rule ext) (simp add: static_def)
  with assms show ?thesis by (simp add: trace_inv_def)
qed

lemma trace_inv_Upsert:
  assumes "trace_inv L s" and "jobstore_inv (pv_jobs s)"
    and "\<And>r. job_QuoteResponse j = Some r \<Longrightarrow> invoiced (pv_trace s) r (invoiceFromJob j r)"
  shows "trace_inv L (handler_Upsert now j s)"
proof -
  have same: "invoiceFromJob (j\<lparr>job_CreatedAt := t\<rparr>) r = invoiceFromJob j r" for t r
    by (simp add: invoiceFromJob_def)
  have "jobs_invoiced (pv_trace s) (jobstore_Upsert now j (pv_jobs s))"
    unfolding jobs_invoiced_def
  proof (intro allI impI)
    fix k x r
    assume g: "jobstore_Get k (jobstore_Upsert now j (pv_jobs s)) = Some x" and q: "job_QuoteResponse x = Some r"
    from Upsert_get [OF assms(2) g] show "invoiced (pv_trace s) r (invoiceFromJob x r)"
      using q assms(1,3) by (auto simp: same trace_inv_def jobs_invoiced_def split: if_splits)
  qed
  with assms(1) show ?thesis by (simp add: handler_Upsert_def trace_inv_jobs)
qed

lemma trace_inv_updateState: "trace_inv L s \<Longrightarrow> trace_inv L (handler_updateState k st s)"
proof -
  assume inv: "trace_inv L s"
  have "invoiceFromJob (j\<lparr>job_State := st\<rparr>) r = invoiceFromJob j r" for j r by (simp add: invoiceFromJob_def)
  with inv have "jobs_invoiced (pv_trace s) (snd (jobstore_UpdateState k st (pv_jobs s)))"
    by (auto simp: trace_inv_def jobs_invoiced_def setters_get split: if_splits)
  with inv show ?thesis by (simp add: handler_updateState_def trace_inv_jobs)
qed

lemma map_of_indexed:
  assumes "map fst xs = [0..<length xs]"
  shows "map_of (xs @ [(length xs, r)]) rid = (if rid = length xs then Some r else map_of xs rid)"
proof -
  have "map_of xs (length xs) = None"
    using assms by (metis map_of_eq_None_iff set_map set_upt atLeastLessThan_iff less_irrefl)
  then show ?thesis by (auto simp: map_add_def split: option.splits)
qed

lemma trace_inv_startJobRunner:
  assumes inv: "trace_inv L s" and idx: "map fst (pv_runners s) = [0..<length (pv_runners s)]"
    and pay: "invoiced (pv_trace s) resp invc"
  shows "trace_inv L (startJobRunner now key req input resp invc m s)"
proof (cases "map_of (pv_cancels s) key")
  case (Some rid)
  then show ?thesis using inv by (simp add: startJobRunner_def)
next
  case None
  let ?s = "startJobRunner now key req input resp invc m s" and ?n = "length (pv_runners s)"
  have "static s ?n = None"
    using idx by (metis static_def option.map_disc_iff map_of_eq_None_iff set_map set_upt atLeastLessThan_iff less_irrefl)
  then have "static s \<subseteq>\<^sub>m static ?s"
    using None idx by (auto simp: static_def startJobRunner_def Let_def map_of_indexed map_le_def dom_def)
  then have "trace_ok L (static ?s) (pv_trace s)" using inv by (auto simp: trace_inv_def intro: trace_ok_mono)
  moreover have "phase_ok (pv_trace s @ [EvStart key ?n]) ?n RunWaiting"
    using inv by (auto simp: trace_inv_def old_events_def)
  moreover have "phase_ok (pv_trace s @ [EvStart key ?n]) rid ph" if "phase_ok (pv_trace s) rid ph" for rid ph
    using phase_ok_quiet [OF that] by simp
  moreover have "jobs_invoiced (pv_trace s @ [EvStart key ?n]) (pv_jobs s)"
    using inv by (auto simp: trace_inv_def intro: jobs_invoiced_mono)
  moreover have "invoiced (pv_trace s @ [EvStart key ?n]) q i" if "invoiced (pv_trace s) q i" for q i
    using that by (rule invoiced_mono) auto
  moreover have "old_events (Suc ?n) (pv_trace s @ [EvStart key ?n])"
    using inv by (fastforce simp: trace_inv_def old_events_def)
  ultimately show ?thesis
    using inv None pay by (fastforce simp: trace_inv_def startJobRunner_def Let_def)
qed

text \<open>Changes of the cancelled flag and of the phase of one runner.\<close>

lemma map_of_upd_runner:
  "map_of (map (\<lambda>(i, r). if i = rid then (i, f r) else (i, r)) xs) k =
     (if k = rid then map_option f (map_of xs k) else map_of xs k)"
  by (induction xs) auto

lemma trace_inv_cancelJob: "trace_inv L s \<Longrightarrow> trace_inv L (snd (handler_cancelJob key s))"
proof (cases "map_of (pv_cancels s) key")
  case None
  assume "trace_inv L s"
  with None show ?thesis by (simp add: handler_cancelJob_def)
next
  case (Some rid)
  assume inv: "trace_inv L s"
  let ?s = "snd (handler_cancelJob key s)"
  have tr: "pv_trace ?s = pv_trace s @ [EvCancel key rid]" using Some by (simp add: handler_cancelJob_def)
  have "static ?s = static s"
    by (rule ext) (auto simp: static_def handler_cancelJob_def Some map_of_upd_runner option.map_comp comp_def)
  then have "trace_ok L (static ?s) (pv_trace ?s)" using inv by (simp add: tr trace_inv_def)
  moreover have "old_events (length (pv_runners s)) (pv_trace ?s)" "jobs_invoiced (pv_trace ?s) (pv_jobs s)"
    using inv unfolding tr trace_inv_def by (auto intro: old_events_quiet jobs_invoiced_mono)
  moreover have "phase_ok (pv_trace ?s) i ph" if "phase_ok (pv_trace s) i ph" for i ph
    unfolding tr using phase_ok_quiet [OF that] by simp
  moreover have "invoiced (pv_trace ?s) q i" if "invoiced (pv_trace s) q i" for q i
    unfolding tr using that by (rule invoiced_mono) auto
  ultimately show ?thesis
    using inv Some by (fastforce simp: trace_inv_def handler_cancelJob_def split: if_splits)
qed

section \<open>Message handlers\<close>

lemma trace_inv_talks [simp]:
  "trace_inv L s \<Longrightarrow> trace_inv L (handler_sendError E now p env c m s)"
  "trace_inv L s \<Longrightarrow> trace_inv L (snd (rejectQuoteRequestIfProviderUnavailable E now p env s))"
  "trace_inv L s \<Longrightarrow> trace_inv L (snd (rejectQuoteRequestIfUnsupportedModel E now p req s))"
  "trace_inv L s \<Longrightarrow> trace_inv L (snd (sendQuoteResponse E now p r mp s))"
  "trace_inv L s \<Longrightarrow> trace_inv L (snd (CreateInvoice E ir s))"
  "trace_inv L s \<Longrightarrow> trace_inv L (snd (mustNewMsgID E s))"
  by (auto elim!: trace_inv_quietly)

lemma provider_inv_parts:
  assumes "provider_inv L s"
  shows "jobstore_inv (pv_jobs s)" and "map fst (pv_runners s) = [0..<length (pv_runners s)]"
  using assms by (simp_all add: provider_inv_def jobs_ok_def runners_ok_def)

lemma quietly_trace_subset: "quietly s s' \<Longrightarrow> set (pv_trace s) \<subseteq> set (pv_trace s')"
  by (auto simp: quietly_def)

lemma stored_job_invoiced:
  "trace_inv L s \<Longrightarrow> jobstore_Get k (pv_jobs s) = Some j \<Longrightarrow> job_QuoteResponse j = Some r
    \<Longrightarrow> invoiced (pv_trace s) r (invoiceFromJob j r)"
  by (simp add: trace_inv_def jobs_invoiced_def)

lemma handler_Upsert_frame [simp]:
  "pv_trace (handler_Upsert now j s) = pv_trace s" "pv_runners (handler_Upsert now j s) = pv_runners s"
  by (simp_all add: handler_Upsert_def)

lemma trace_inv_existing:
  assumes pinv: "provider_inv (pe_tlv E) s" and tinv: "trace_inv L s"
    and got: "jobstore_Get key (pv_jobs s) = Some existing"
  shows "trace_inv L (handleExistingQuoteRequest E now peer key req nowUnix m existing s)"
proof -
  let ?j = "existing\<lparr>job_QuoteRequest := Some req\<rparr>"
  let ?s1 = "handler_Upsert now ?j s"
  have same: "invoiceFromJob ?j r = invoiceFromJob existing r" for r by (simp add: invoiceFromJob_def)
  have inv1: "trace_inv L ?s1"
    using stored_job_invoiced [OF tinv got] same provider_inv_parts(1) [OF pinv] tinv by (intro trace_inv_Upsert) auto
  have start: "trace_inv L (startJobRunner now key req st r (invoiceFromJob ?j r) m (snd (sendQuoteResponse E now peer r m ?s1)))"
    if "job_QuoteResponse existing = Some r" for r st
  proof (rule trace_inv_startJobRunner)
    let ?s2 = "snd (sendQuoteResponse E now peer r m ?s1)"
    have q: "quietly ?s1 ?s2" by simp
    show "trace_inv L ?s2" using inv1 by simp
    show "map fst (pv_runners ?s2) = [0..<length (pv_runners ?s2)]"
      using q provider_inv_parts(2) [OF pinv] by (simp add: quietly_def same_store_def)
    show "invoiced (pv_trace ?s2) r (invoiceFromJob ?j r)"
      using stored_job_invoiced [OF tinv got that] quietly_trace_subset [OF q] by (auto simp: same intro: invoiced_mono)
  qed
  show ?thesis
    using tinv inv1 start by (auto simp: handleExistingQuoteRequest_def Let_def split_def split: option.splits)
qed

lemma trace_inv_handleQuoteRequest:
  assumes "provider_inv (pe_tlv E) s" and "trace_inv L s"
  shows "trace_inv L (handleQuoteRequest E now msg s)"
  using assms
  by (auto simp: handleQuoteRequest_def Let_def split_def newAwaitingJob_def
      intro!: trace_inv_existing trace_inv_Upsert trace_inv_checkReplay provider_inv_checkReplay
        provider_inv_parts(1) [where L = "pe_tlv E"] provider_inv_checkReplay
      split: sum.splits option.splits)

lemma trace_inv_handleStreamBegin:
  assumes "provider_inv (pe_tlv E) s" and "trace_inv L s"
  shows "trace_inv L (provider_handleStreamBegin E now msg s)"
  using assms
  by (auto simp: provider_handleStreamBegin_def Let_def split_def
      intro!: trace_inv_Upsert trace_inv_checkReplay provider_inv_parts(1) [where L = "pe_tlv E"] provider_inv_checkReplay
      dest: awaiting_no_quote [OF stored_job_ok(1) [OF provider_inv_checkReplay [OF provider_inv_rejects(1)]]]
      split: sum.splits option.splits)

lemma trace_inv_handleStreamChunk:
  assumes "provider_inv (pe_tlv E) s" and "trace_inv L s"
  shows "trace_inv L (provider_handleStreamChunk E now msg s)"
  using assms
  by (auto simp: provider_handleStreamChunk_def Let_def
      intro!: trace_inv_Upsert provider_inv_parts(1) [where L = "pe_tlv E"] dest: awaiting_no_quote [OF stored_job_ok(1)]
      split: sum.splits option.splits)

lemma trace_inv_createInvoice:
  assumes pinv: "provider_inv (pe_tlv E) s" and tinv: "trace_inv L s"
  shows "trace_inv L (createInvoiceAndStartQuoteJob E now peer key req st quoteExpiry ttl price h m s)"
proof -
  let ?ir = "\<lparr>ir_DescriptionHash = h, ir_PriceMsat = price, ir_ExpirySeconds = invoiceExpirySeconds (pe_os E) ttl\<rparr>"
  let ?s1 = "snd (CreateInvoice E ?ir s)"
  show ?thesis
  proof (cases "fst (CreateInvoice E ?ir s)")
    case (Inl err)
    then show ?thesis using tinv by (simp add: createInvoiceAndStartQuoteJob_def Let_def split_def)
  next
    case (Inr invoice)
    let ?q = "newQuoteResponse E (qr_Envelope req) quoteExpiry price h (iv_PaymentRequest invoice) ?s1"
    let ?s3 = "snd (sendQuoteResponse E now peer (fst ?q) m (snd ?q))"
    have q: "quietly ?s1 ?s3"
      unfolding newQuoteResponse_fields by (rule quietly_trans [OF quietly_mustNewMsgID quietly_sendQuoteResponse])
    have ev: "EvInvoice ?ir (Inr invoice) \<in> set (pv_trace ?s1)"
      using Inr by (simp add: CreateInvoice_def Let_def)
    have pay: "invoiced (pv_trace ?s3) (fst ?q) i" if "iv_PaymentHash i = iv_PaymentHash invoice" "iv_AddIndex i = iv_AddIndex invoice" for i
      unfolding invoiced_def
      by (intro exI [of _ ?ir] exI [of _ invoice]) (use ev quietly_trace_subset [OF q] that in \<open>auto simp: newQuoteResponse_fields\<close>)
    have inv3: "trace_inv L ?s3" "provider_inv (pe_tlv E) ?s3" using tinv pinv by (simp_all add: newQuoteResponse_fields)
    let ?j = "\<lparr>job_PeerPubKey = jk_PeerPubKey key, job_JobID = jk_JobID key, job_State = StateWaitingPayment,
             job_QuoteRequest = Some req, job_InputStream = Some st, job_QuoteExpiry = quoteExpiry,
             job_TermsHash = Some (qs_TermsHash (fst ?q)), job_PaymentHash = Some (iv_PaymentHash invoice),
             job_InvoiceAddIndex = Some (iv_AddIndex invoice), job_QuoteResponse = Some (fst ?q),
             job_CreatedAt = 0\<rparr>"
    have "trace_inv L (handler_Upsert now ?j ?s3)"
      using inv3(1) provider_inv_parts(1) [OF inv3(2)]
      by (rule trace_inv_Upsert) (auto simp: invoiceFromJob_def intro!: pay)
    then have "trace_inv L (startJobRunner now key req st (fst ?q) invoice m (handler_Upsert now ?j ?s3))"
      using provider_inv_parts(2) [OF inv3(2)] pay by (intro trace_inv_startJobRunner) simp_all
    with inv3(1) Inr show ?thesis by (simp add: createInvoiceAndStartQuoteJob_def Let_def split_def)
  qed
qed

lemma trace_inv_handleStreamEnd:
  assumes "provider_inv (pe_tlv E) s" and "trace_inv L s"
  shows "trace_inv L (provider_handleStreamEnd E now msg s)"
proof -
  have none: "job_QuoteResponse j = None"
    if "jobstore_Get k (pv_jobs s) = Some j" "job_State j = StateAwaitingInput" for k j
    using awaiting_no_quote stored_job_ok(1) [OF assms(1)] that by blast
  show ?thesis
    using assms none
    by (auto simp: provider_handleStreamEnd_def handleValidatedInputStreamEnd_def Let_def split_def
        intro!: trace_inv_checkReplay trace_inv_createInvoice provider_inv_checkReplay
        split: sum.splits option.splits)
qed

lemma trace_inv_HandleInbound:
  assumes "provider_inv (pe_tlv E) s" and "trace_inv L s"
  shows "trace_inv L (provider_HandleInboundCustomMessage E now msg s)"
proof -
  have "trace_inv L (handleCancel E now msg s)"
    using assms
    by (auto simp: handleCancel_def Let_def split_def
        intro!: trace_inv_updateState trace_inv_cancelJob trace_inv_checkReplay split: sum.splits option.splits)
  with assms show ?thesis
    by (simp add: provider_HandleInboundCustomMessage_def trace_inv_handleQuoteRequest trace_inv_handleStreamBegin
        trace_inv_handleStreamChunk trace_inv_handleStreamEnd)
qed

section \<open>Sending results\<close>

text \<open>
  An operation that leaves the stores alone and only sends to the peer \<open>p\<close>; what it sends of a
  result belongs to the job \<open>j\<close>.
\<close>

definition sends_to :: "tlv_lib \<Rightarrow> string \<Rightarrow> hash32 \<Rightarrow> provider \<Rightarrow> provider \<Rightarrow> bool" where
  "sends_to L p j s s' \<longleftrightarrow> same_store s s' \<and> (\<exists>evs. pv_trace s' = pv_trace s @ evs
     \<and> (\<forall>e \<in> set evs. \<exists>t b ok. e = EvSend p t b ok \<and> (result_type t \<longrightarrow> for_job L j t b)))"

lemma sends_to_refl [simp]: "sends_to L p j s s"
  by (simp add: sends_to_def)

lemma sends_to_trans: "sends_to L p j s t \<Longrightarrow> sends_to L p j t u \<Longrightarrow> sends_to L p j s u"
proof -
  let ?ok = "\<lambda>e. \<exists>t b ok. e = EvSend p t b ok \<and> (result_type t \<longrightarrow> for_job L j t b)"
  assume a: "sends_to L p j s t" "sends_to L p j t u"
  from a(1) obtain e1 where 1: "pv_trace t = pv_trace s @ e1" "\<forall>e \<in> set e1. ?ok e" "same_store s t"
    unfolding sends_to_def by blast
  from a(2) obtain e2 where 2: "pv_trace u = pv_trace t @ e2" "\<forall>e \<in> set e2. ?ok e" "same_store t u"
    unfolding sends_to_def by blast
  have "\<forall>e \<in> set (e1 @ e2). ?ok e" using 1(2) 2(2) unfolding set_append by blast
  with 1 2 show ?thesis unfolding sends_to_def
    by (intro conjI same_store_trans [of s t u] exI [of _ "e1 @ e2"]) simp_all
qed

lemma sends_to_Send:
  "sends_to L p j s t \<Longrightarrow> (result_type ty \<Longrightarrow> for_job L j ty b) \<Longrightarrow> sends_to L p j s (snd (SendCustomMessage E p ty b t))"
  by (erule sends_to_trans) (auto simp: sends_to_def same_store_def SendCustomMessage_def Let_def)

lemma sends_to_mustNewMsgID [simp]: "sends_to L p j s t \<Longrightarrow> sends_to L p j s (snd (mustNewMsgID E t))"
  by (erule sends_to_trans) (simp add: sends_to_def same_store_def mustNewMsgID_def)

lemma sends_to_newStreamID [simp]: "sends_to L p j s t \<Longrightarrow> sends_to L p j s (snd (newStreamID E t))"
  by (erule sends_to_trans) (simp add: sends_to_def same_store_def newStreamID_def)

lemma sends_to_sendWithinLimit:
  "sends_to L p j s t \<Longrightarrow> (\<And>b. enc = Inr b \<Longrightarrow> for_job L j ty b)
    \<Longrightarrow> sends_to L p j s (snd (sendWithinLimit E p ty enc m t))"
  by (auto simp: sendWithinLimit_def intro: sends_to_Send split: sum.splits)

lemma resultEnvelope_JobID [simp]: "env_JobID (resultEnvelope env mid x) = env_JobID env"
  by (simp add: resultEnvelope_def)

lemma sends_to_senders [simp]:
  assumes "sends_to (pe_tlv E) p j s t" and [simp]: "env_JobID env = j"
  shows "sends_to (pe_tlv E) p j s (snd (sendResultStreamBegin E p env x sid n h ct ce m t))"
    "sends_to (pe_tlv E) p j s (snd (sendResultStreamBeginUnknown E p env x sid ct ce m t))"
    "sends_to (pe_tlv E) p j s (snd (sendResultStreamEnd E p env x sid n h m t))"
    "sends_to (pe_tlv E) p j s (snd (sendTerminalOKResult E p env x sid n h ct ce m t))"
    "sends_to (pe_tlv E) p j s (snd (sendTerminalResultStatus E now p env st msg m t))"
proof -
  note t = sends_to_mustNewMsgID [OF assms(1), of E]
  note defs = sendResultStreamBegin_def sendResultStreamBeginUnknown_def sendResultStreamEnd_def
    sendTerminalOKResult_def sendTerminalResultStatus_def Let_def split_def
  show "sends_to (pe_tlv E) p j s (snd (sendResultStreamBegin E p env x sid n h ct ce m t))"
    "sends_to (pe_tlv E) p j s (snd (sendResultStreamBeginUnknown E p env x sid ct ce m t))"
    "sends_to (pe_tlv E) p j s (snd (sendResultStreamEnd E p env x sid n h m t))"
    "sends_to (pe_tlv E) p j s (snd (sendTerminalOKResult E p env x sid n h ct ce m t))"
    unfolding defs by (rule sends_to_sendWithinLimit [OF t], drule for_jobI, simp)+
  show "sends_to (pe_tlv E) p j s (snd (sendTerminalResultStatus E now p env st msg m t))"
    using t unfolding defs by (auto intro!: sends_to_Send dest!: for_jobI(4) split: sum.splits)
qed

lemma for_job_chunk:
  "encodeFittingResultStreamChunk L env x sid m seq d = Inr (b, k) \<Longrightarrow> for_job L (env_JobID env) MessageTypeStreamChunk b"
  by (drule result_chunk_sound(1)) (auto simp: encodeChunk_def res_simps dest!: for_jobI(2))

lemma sends_to_Chunks [simp]:
  assumes "sends_to (pe_tlv E) p j s t" and "env_JobID env = j"
  shows "sends_to (pe_tlv E) p j s (snd (sendResultStreamChunks E p env x sid out m t))"
proof (rule sends_to_trans [OF assms(1)])
  have "sends_to (pe_tlv E) p j u (snd (sendChunk E p b u))"
    if "encodeFittingResultStreamChunk (pe_tlv E) env x sid m q d = Inr (b, k)" for q d b k u
    using for_job_chunk [OF that] assms(2) by (simp add: sendChunk_def split_def sends_to_Send)
  then show "sends_to (pe_tlv E) p j t (snd (sendResultStreamChunks E p env x sid out m t))"
    unfolding sendResultStreamChunks_def split_def snd_conv
    by (intro result_chunks.loop_keeps [where Q = "sends_to (pe_tlv E) p j"]) (auto intro: sends_to_trans)
qed

lemma sends_to_ResultStream [simp]:
  "sends_to (pe_tlv E) p j s t \<Longrightarrow> env_JobID env = j
    \<Longrightarrow> sends_to (pe_tlv E) p j s (snd (sendResultStream E p env x sid out n h ct ce m t))"
  by (simp add: sendResultStream_def Let_def split_def)

lemma sends_to_sendResult: "sends_to (pe_tlv E) p (env_JobID env) s (snd (sendResult E now p env tk streaming n out m s))"
  by (auto simp: sendResult_def Let_def split_def split: option.splits)

lemma sends_to_streaming_loop:
  "sends_to (pe_tlv E) (sp_peer P) (env_JobID (sp_env P)) s (snd (streaming_loop E now P rd pending hashed n seq s))"
proof (induction E now P rd pending hashed n seq s rule: streaming_loop.induct)
  case (1 E now P rd pending hashed n seq s)
  let ?fit = "encodeFittingResultStreamChunk (pe_tlv E) (sp_env P) (sp_expiry P) (sp_streamID P) (sp_remoteMaxPayload P) seq pending"
  show ?case
  proof (cases "pending = []")
    case True
    with "1.IH"(1) show ?thesis
      by (subst streaming_loop.simps) (auto split: prod.splits option.splits)
  next
    case False
    show ?thesis
    proof (cases "?fit")
      case (Inl err)
      with False show ?thesis by (subst streaming_loop.simps) simp
    next
      case (Inr v)
      obtain payload k where v: "v = (payload, k)" by fastforce
      obtain ok s1 where s1: "SendCustomMessage E (sp_peer P) MessageTypeStreamChunk payload s = (ok, s1)" by fastforce
      have "sends_to (pe_tlv E) (sp_peer P) (env_JobID (sp_env P)) s s1"
        using sends_to_Send [OF sends_to_refl for_job_chunk [OF Inr [unfolded v]], of "sp_peer P" s E] s1 by simp
      with False Inr v s1 "1.IH"(2) [OF False Inr [unfolded v] refl _ refl _ s1 [symmetric]] show ?thesis
        by (subst streaming_loop.simps, cases ok) (auto simp: Let_def split_def intro: sends_to_trans)
    qed
  qed
qed

lemma sends_to_bind:
  "sends_to L p j s (snd x) \<Longrightarrow> (\<And>a t. sends_to L p j s t \<Longrightarrow> sends_to L p j s (snd (f a t)))
    \<Longrightarrow> sends_to L p j s (snd (case x of (a, t) \<Rightarrow> f a t))"
  by (cases x) simp

lemma sends_to_sendResultStreaming:
  "sends_to (pe_tlv E) p (env_JobID env) s (snd (sendResultStreaming E now p env tk n out m s))"
proof -
  have loop: "sends_to (pe_tlv E) p (env_JobID env) s (snd (streaming_loop E now P rd pend hs k seq t))"
    if "sends_to (pe_tlv E) p (env_JobID env) s t" "sp_peer P = p" "sp_env P = env" for P rd pend hs k seq t
    using sends_to_trans [OF that(1) sends_to_streaming_loop [of E P t, unfolded that(2,3)]] .
  show ?thesis unfolding sendResultStreaming_def Let_def
    by (auto intro!: sends_to_bind loop split: option.split stream_loop_end.split)
qed

section \<open>Runner steps\<close>

lemma trace_inv_sends_to:
  assumes "trace_inv L s" and "sends_to L p j s s'" and "executed_for (static s) (pv_trace s) p j"
  shows "trace_inv L s'"
proof -
  from assms(2) obtain evs where e: "pv_trace s' = pv_trace s @ evs" "\<forall>e \<in> set evs. \<exists>t b ok. e = EvSend p t b ok \<and> (result_type t \<longrightarrow> for_job L j t b)"
    and st: "pv_runners s' = pv_runners s" "pv_jobs s' = pv_jobs s"
    by (auto simp: sends_to_def same_store_def)
  have R: "static s' = static s" by (rule ext) (simp add: static_def st)
  have ex: "executed_for (static s) (pv_trace s @ zs) p j" for zs
    using assms(3) by (auto simp: executed_for_def)
  have "trace_ok L (static s) (pv_trace s @ evs)"
    using e(2)
  proof (induction evs rule: rev_induct)
    case Nil
    then show ?case using assms(1) by (simp add: trace_inv_def)
  next
    case (snoc x xs)
    then have "trace_ok L (static s) ((pv_trace s @ xs) @ [x])"
      by (subst trace_ok_snoc) (use ex [of xs] in auto)
    then show ?case by simp
  qed
  moreover have "EvExecute i t \<notin> set evs" "EvSettled i \<notin> set evs" for i t using e(2) by auto
  moreover from this have "phase_ok (pv_trace s @ evs) i ph" if "phase_ok (pv_trace s) i ph" for i ph
    using that by (cases ph) auto
  moreover have "invoiced (pv_trace s @ evs) q i" if "invoiced (pv_trace s) q i" for q i
    using that by (rule invoiced_mono) auto
  ultimately show ?thesis
    using assms(1) R e(1) st
    by (fastforce simp: trace_inv_def old_events_def intro: jobs_invoiced_mono)
qed

lemma static_setPhase [simp]: "static (setPhase rid ph s) = static s"
  by (rule ext) (auto simp: static_def setPhase_def map_of_upd_runner option.map_comp comp_def)

lemma setPhase_frame [simp]:
  "pv_trace (setPhase rid ph s) = pv_trace s" "pv_jobs (setPhase rid ph s) = pv_jobs s"
  "length (pv_runners (setPhase rid ph s)) = length (pv_runners s)"
  by (simp_all add: setPhase_def)

lemma trace_inv_setPhase:
  "trace_inv L s \<Longrightarrow> phase_ok (pv_trace s) rid ph \<Longrightarrow> trace_inv L (setPhase rid ph s)"
  by (auto simp: trace_inv_def) (auto simp: setPhase_def split: if_splits)

lemma trace_inv_runJob_return: "trace_inv L s \<Longrightarrow> trace_inv L (runJob_return rid r s)"
  by (simp add: runJob_return_def trace_inv_setPhase trace_inv_forgetJob)

lemma trace_inv_runJob_fail: "trace_inv L s \<Longrightarrow> trace_inv L (runJob_fail E now rid r err s)"
  by (simp add: runJob_fail_def trace_inv_runJob_return trace_inv_updateState)

lemma map_fst_setPhase: "map fst (pv_runners (setPhase rid ph s)) = map fst (pv_runners s)"
  by (auto simp: setPhase_def)

lemma provider_inv_setPhase: "provider_inv L s \<Longrightarrow> provider_inv L (setPhase rid ph s)"
proof -
  assume inv: "provider_inv L s"
  have "\<forall>(i, r) \<in> set (pv_runners (setPhase rid ph s)). runner_ok L r"
    using inv by (auto simp: setPhase_def provider_inv_def runners_ok_def runner_ok_def split: if_splits)
  with inv show ?thesis
    by (simp add: provider_inv_def runners_ok_def map_fst_setPhase) (simp add: setPhase_def)
qed

lemma provider_inv_runJob_return: "provider_inv L s \<Longrightarrow> provider_inv L (runJob_return rid r s)"
  by (simp add: runJob_return_def provider_inv_setPhase provider_inv_forgetJob)

lemma provider_inv_runJob_fail: "provider_inv L s \<Longrightarrow> provider_inv L (runJob_fail E now rid r err s)"
  by (simp add: runJob_fail_def provider_inv_runJob_return provider_inv_updateState)

lemma static_Some: "map_of (pv_runners s) rid = Some r \<Longrightarrow>
    static s rid = Some (r\<lparr>ru_Cancelled := False, ru_Phase := RunFinished\<rparr>)"
  by (simp add: static_def)

lemma trace_inv_runner:
  assumes "trace_inv L s" and "map_of (pv_runners s) rid = Some r"
  shows "phase_ok (pv_trace s) rid (ru_Phase r)" and "invoiced (pv_trace s) (ru_QuoteResp r) (ru_Invoice r)"
  using assms(1) map_of_SomeD [OF assms(2)] by (auto simp: trace_inv_def)

lemma runner_index:
  "provider_inv L s \<Longrightarrow> map_of (pv_runners s) rid = Some r \<Longrightarrow> rid < length (pv_runners s)"
  using provider_inv_parts(2) [of L s] map_of_SomeD [of "pv_runners s" rid r]
  by (metis atLeastLessThan_iff fst_conv image_eqI set_map set_upt)

lemma trace_inv_settle:
  assumes "trace_inv L s" and "map_of (pv_runners s) rid = Some r" and "rid < length (pv_runners s)"
  shows "trace_inv L (s\<lparr>pv_trace := pv_trace s @ [EvSettled rid]\<rparr>)"
proof -
  have R: "static (s\<lparr>pv_trace := pv_trace s @ [EvSettled rid]\<rparr>) = static s" by (rule ext) (simp add: static_def)
  have "event_ok L (static s) (pv_trace s) (EvSettled rid)"
    using trace_inv_runner(2) [OF assms(1,2)] static_Some [OF assms(2)] by simp
  moreover have "phase_ok (pv_trace s @ [EvSettled rid]) i ph" if "phase_ok (pv_trace s) i ph" for i ph
    using that by (cases ph) auto
  moreover have "invoiced (pv_trace s @ [EvSettled rid]) q i" if "invoiced (pv_trace s) q i" for q i
    using that by (rule invoiced_mono) auto
  ultimately show ?thesis
    using assms(1,3) R by (fastforce simp: trace_inv_def old_events_def intro: jobs_invoiced_mono)
qed

lemma trace_inv_execute:
  assumes inv: "trace_inv L s" and got: "map_of (pv_runners s) rid = Some r" and i: "rid < length (pv_runners s)"
    and paid: "EvSettled rid \<in> set (pv_trace s)" and new: "\<And>t. EvExecute rid t \<notin> set (pv_trace s)"
    and task: "ct_InputBytes task = is_Buf (ru_Input r)" "ct_TaskKind task = qr_TaskKind (ru_Req r)"
  shows "trace_inv L (setPhase rid (RunExecuting task w) (s\<lparr>pv_trace := pv_trace s @ [EvExecute rid task]\<rparr>))"
proof -
  let ?tr = "pv_trace s @ [EvExecute rid task]"
  have R: "static (s\<lparr>pv_trace := ?tr\<rparr>) = static s" by (rule ext) (simp add: static_def)
  have "trace_ok L (static s) ?tr"
    using inv paid new task static_Some [OF got] by (simp add: trace_inv_def)
  moreover have "old_events (length (pv_runners s)) ?tr"
    using inv i by (auto simp: trace_inv_def old_events_def)
  moreover have "jobs_invoiced ?tr (pv_jobs s)" using inv by (auto simp: trace_inv_def intro: jobs_invoiced_mono)
  moreover have "phase_ok ?tr k (ru_Phase x) \<and> invoiced ?tr (ru_QuoteResp x) (ru_Invoice x)"
    if x: "(k, x) \<in> set (pv_runners (setPhase rid (RunExecuting task w) s))" for k x
  proof -
    obtain y where y: "(k, y) \<in> set (pv_runners s)" "x = (if k = rid then y\<lparr>ru_Phase := RunExecuting task w\<rparr> else y)"
      using x by (auto simp: setPhase_def split: if_splits)
    then have "phase_ok (pv_trace s) k (ru_Phase y)" and pay: "invoiced (pv_trace s) (ru_QuoteResp y) (ru_Invoice y)"
      using inv by (auto simp: trace_inv_def)
    then have "phase_ok ?tr k (ru_Phase x)" using y(2) by (cases "ru_Phase y") auto
    moreover have "invoiced ?tr (ru_QuoteResp y) (ru_Invoice y)" using pay by (rule invoiced_mono) auto
    ultimately show ?thesis using y(2) by simp
  qed
  ultimately show ?thesis
    using R by (auto simp: trace_inv_def) (auto simp: setPhase_def)
qed

lemma updateState_frame [simp]:
  "pv_trace (handler_updateState k st s) = pv_trace s" "pv_runners (handler_updateState k st s) = pv_runners s"
  by (simp_all add: handler_updateState_def)

lemma trace_inv_runJob_settled:
  assumes inv: "provider_inv (pe_tlv E) s" "trace_inv L s"
    and got: "map_of (pv_runners s) rid = Some r" and ph: "ru_Phase r = RunWaiting"
  shows "trace_inv L (runJob_settled E now rid r waitErr s)"
proof (cases waitErr)
  case (Some err)
  with inv(2) show ?thesis by (simp add: runJob_settled_def trace_inv_runJob_return trace_inv_updateState)
next
  case None
  let ?s1 = "handler_updateState (ru_Key r) StatePaid (s\<lparr>pv_trace := pv_trace s @ [EvSettled rid]\<rparr>)"
  let ?s2 = "handler_updateState (ru_Key r) StateExecuting ?s1"
  have i: "rid < length (pv_runners s)" using runner_index [OF inv(1) got] .
  have s1: "trace_inv L ?s1" using trace_inv_settle [OF inv(2) got i] by (rule trace_inv_updateState)
  have go: "trace_inv L (setPhase rid (RunExecuting task w) (?s2\<lparr>pv_trace := pv_trace ?s2 @ [EvExecute rid task]\<rparr>))"
    if "planTask (pe_tlv E) (pe_json E) (pe_cfg E) (pe_policy E) (ru_Req r) (is_Buf (ru_Input r)) = Inr (task, pol, model, w)"
    for task pol model w
    using trace_inv_updateState [OF s1] got i trace_inv_runner(1) [OF inv(2) got] planTask_Inr [OF that]
    by (intro trace_inv_execute [of L _ rid r]) (simp_all add: ph)
  from None s1 go show ?thesis
    by (auto simp: runJob_settled_def Let_def trace_inv_runJob_return trace_inv_runJob_fail trace_inv_updateState
        split: sum.splits)
qed

lemma executed_for_runner:
  assumes "trace_inv L s" and "map_of (pv_runners s) rid = Some r" and "ru_Phase r = RunExecuting task w"
  shows "executed_for (static s) (pv_trace s) (jk_PeerPubKey (ru_Key r)) (env_JobID (qs_Envelope (ru_QuoteResp r)))"
proof -
  have "EvExecute rid task \<in> set (pv_trace s)"
    using trace_inv_runner(1) [OF assms(1,2)] assms(3) by simp
  with static_Some [OF assms(2)] show ?thesis by (fastforce simp: executed_for_def)
qed

lemma trace_inv_runJob_executed:
  assumes inv: "trace_inv (pe_tlv E) s" and got: "map_of (pv_runners s) rid = Some r" and ph: "ru_Phase r = RunExecuting task w"
  shows "trace_inv (pe_tlv E) (runJob_executed E now rid r w outcome s)"
  using inv trace_inv_sends_to [OF inv sends_to_sendResult executed_for_runner [OF inv got ph]]
  by (auto simp: runJob_executed_def Let_def split_def trace_inv_runJob_return trace_inv_runJob_fail trace_inv_updateState
      split: sum.splits)

lemma trace_inv_runJob_streamed:
  assumes inv: "trace_inv (pe_tlv E) s" and got: "map_of (pv_runners s) rid = Some r" and ph: "ru_Phase r = RunExecuting task w"
  shows "trace_inv (pe_tlv E) (runJob_streamed E now rid r outcome s)"
proof -
  let ?s = "handler_updateState (ru_Key r) StateStreamingResult s"
  have inv1: "trace_inv (pe_tlv E) ?s" using inv by (rule trace_inv_updateState)
  have ex: "executed_for (static ?s) (pv_trace ?s) (jk_PeerPubKey (ru_Key r)) (env_JobID (qs_Envelope (ru_QuoteResp r)))"
    using executed_for_runner [OF inv1 _ ph] got by simp
  from inv trace_inv_sends_to [OF inv1 sends_to_sendResultStreaming ex] show ?thesis
    by (auto simp: runJob_streamed_def split_def trace_inv_runJob_return trace_inv_runJob_fail trace_inv_updateState
        split: sum.splits option.splits)
qed

lemma provider_inv_sends_to: "provider_inv L s \<Longrightarrow> sends_to L' p j s s' \<Longrightarrow> provider_inv L s'"
  by (auto simp: sends_to_def intro: provider_inv_same_store)

lemma provider_inv_runners:
  assumes "provider_inv (pe_tlv E) s"
  shows "provider_inv (pe_tlv E) (runJob_settled E now rid r waitErr s)"
    and "provider_inv (pe_tlv E) (runJob_executed E now rid r w outcome s)"
    and "provider_inv (pe_tlv E) (runJob_streamed E now rid r soutcome s)"
proof -
  have t: "provider_inv (pe_tlv E) (s\<lparr>pv_trace := tr\<rparr>)" if "provider_inv (pe_tlv E) s" for tr s
    using that by (rule provider_inv_same_store) (simp add: same_store_def)
  note ok = provider_inv_runJob_return provider_inv_runJob_fail provider_inv_updateState provider_inv_setPhase t
  show "provider_inv (pe_tlv E) (runJob_settled E now rid r waitErr s)"
    using assms by (auto simp: runJob_settled_def Let_def ok split: option.splits sum.splits)
  show "provider_inv (pe_tlv E) (runJob_executed E now rid r w outcome s)"
    using assms provider_inv_sends_to [OF assms sends_to_sendResult]
    by (auto simp: runJob_executed_def Let_def split_def ok split: sum.splits)
  show "provider_inv (pe_tlv E) (runJob_streamed E now rid r soutcome s)"
    using assms provider_inv_sends_to [OF provider_inv_updateState [OF assms] sends_to_sendResultStreaming]
    by (auto simp: runJob_streamed_def split_def ok split: sum.splits option.splits)
qed

section \<open>Reachable states\<close>

lemma provider_step_inv:
  assumes "provider_step E s s'" and "tlv_library (pe_tlv E)" and "pe_validator E = DefaultValidator"
    and "provider_inv (pe_tlv E) s" and "trace_inv (pe_tlv E) s"
  shows "provider_inv (pe_tlv E) s' \<and> trace_inv (pe_tlv E) s'"
  using assms
proof cases
  case (inbound now msg)
  then show ?thesis using assms by (simp add: provider_inv_HandleInbound trace_inv_HandleInbound)
next
  case (peers d)
  then show ?thesis
    using assms(4,5) by (auto simp: provider_inv_def runners_ok_def elim: trace_inv_frame)
next
  case (settled rid r now waitErr)
  then show ?thesis using assms(4,5) by (simp add: provider_inv_runners trace_inv_runJob_settled)
next
  case (executed rid r task w now outcome)
  then show ?thesis using assms(4,5) by (simp add: provider_inv_runners trace_inv_runJob_executed)
next
  case (streamed rid r task w now outcome)
  then show ?thesis using assms(4,5) by (simp add: provider_inv_runners trace_inv_runJob_streamed)
qed

lemma provider_reachable_inv:
  assumes "provider_reachable E s" and "tlv_library (pe_tlv E)" and "pe_validator E = DefaultValidator"
  shows "provider_inv (pe_tlv E) s \<and> trace_inv (pe_tlv E) s"
  using assms(1)
proof induction
  case (start os n)
  have "jobstore_Get k (jobstore_New os) = None" for k by (simp add: jobstore_New_def jobstore_Get_def Let_def)
  then have "jobs_ok (pe_tlv E) (jobstore_New os)" "jobs_invoiced [] (jobstore_New os)"
    by (simp_all add: jobs_ok_def jobs_invoiced_def jobstore_inv_New)
  then show ?case
    by (simp add: provider_init_def provider_inv_def runners_ok_def trace_inv_def old_events_def replay_inv_New)
next
  case (step s s')
  then show ?case using provider_step_inv [OF step.hyps(2) assms(2,3)] by blast
qed

end
