(* ===== verification/Provider_Progress.thy ===== *)
theory Provider_Progress
  imports Provider_Safety
begin

text \<open>
  Progress of the provider: a well-formed quote request with its input stream, handled
  message by message, is quoted; when the invoice is settled before the deadline, the
  backend gets exactly the input that was sent. The lemmas follow one job through the
  handlers; the properties of \<open>Provider_Safety\<close> are stated here, where a complete run is
  available to witness them.
\<close>

section \<open>Messages that are accepted\<close>

definition replay_absent :: "provider \<Rightarrow> job_key \<Rightarrow> hash32 \<Rightarrow> bool" where
  "replay_absent s k mid \<longleftrightarrow>
     map_of (rp_entries (pv_replay s)) \<lparr>rk_PeerPubKey = jk_PeerPubKey k, rk_JobID = jk_JobID k, rk_MsgID = mid\<rparr> = None"

text \<open>The provider takes part in the protocol and the envelope belongs to the job and is not expired.\<close>

definition timely :: "gotime \<Rightarrow> job_envelope \<Rightarrow> bool" where
  "timely now env \<longleftrightarrow> (\<exists>n. handler_nowUnix now = Some n \<and> n \<le> env_Expiry env)"

definition open_for :: "provider_env \<Rightarrow> job_key \<Rightarrow> provider \<Rightarrow> bool" where
  "open_for E k s \<longleftrightarrow> provider_inv (pe_tlv E) s \<and> pc_Enabled (pe_cfg E) \<and> \<not> pe_backendDisabled E
     \<and> RemoteManifestFor (jk_PeerPubKey k) (pv_peers s) \<noteq> None"

lemma effectiveExpiry_ge: "n \<le> env_Expiry env \<Longrightarrow> n \<le> effectiveExpiry os env n"
proof -
  have "n \<le> n + w" if "n \<le> - 1 - w" for w :: u64
  proof -
    have "unat (- 1 - w) = unat (- 1 :: u64) - unat w" by (rule unat_sub) simp
    moreover have "unat (- 1 :: u64) = 2 ^ 64 - 1" by (simp add: unsigned_minus_1_eq_mask mask_eq_exp_minus_1)
    ultimately have "unat n + unat w < 2 ^ LENGTH(64)"
      using that unsigned_less [of w, where ?'a = nat] by (simp add: word_le_nat_alt)
    then have "unat (n + w) = unat n + unat w" by (simp only: unat_add_lem)
    then show ?thesis by (simp add: word_le_nat_alt)
  qed
  then show "n \<le> env_Expiry env \<Longrightarrow> n \<le> effectiveExpiry os env n" by (simp add: effectiveExpiry_def Let_def)
qed

lemma CheckAndRemember_absent:
  assumes "replay_inv s" and "map_of (rp_entries s) k = None" and "k \<noteq> key"
  shows "map_of (rp_entries (snd (CheckAndRemember key expiry now s))) k = None"
proof -
  have p: "map_of (rp_entries (replay_pruneLocked now s)) k = None"
    using assms by (simp add: map_of_prune replay_inv_def)
  moreover have "map_of (rp_entries (replay_evictOldestLocked (replay_pruneLocked now s))) k = None"
    using p by (auto simp: replay_evictOldestLocked_def AList.delete_conv' split: option.splits)
  ultimately show ?thesis using assms(3) by (auto simp: CheckAndRemember_eq [OF assms(1)] Let_def)
qed

lemma checkReplay_fresh:
  assumes "provider_inv L s" and "n \<le> env_Expiry env" and "env_JobID env = jk_JobID k"
    and "replay_absent s k (env_MsgID env)"
  shows "\<exists>rp. checkReplay E (jk_PeerPubKey k) env n s = (True, s\<lparr>pv_replay := rp\<rparr>) \<and> replay_inv rp
    \<and> (\<forall>mid. mid \<noteq> env_MsgID env \<longrightarrow> replay_absent s k mid \<longrightarrow> replay_absent (s\<lparr>pv_replay := rp\<rparr>) k mid)"
proof -
  let ?key = "\<lparr>rk_PeerPubKey = jk_PeerPubKey k, rk_JobID = jk_JobID k, rk_MsgID = env_MsgID env\<rparr>"
  let ?c = "CheckAndRemember ?key (effectiveExpiry (pe_os E) env n) n (pv_replay s)"
  have inv: "replay_inv (pv_replay s)" using assms(1) by (simp add: provider_inv_def)
  have "\<not> effectiveExpiry (pe_os E) env n < n" using effectiveExpiry_ge [OF assms(2)] by (simp add: not_less)
  then have "fst ?c = CheckResultOK"
    using CheckAndRemember_outcome [OF inv] assms(4) by (simp add: replay_absent_def)
  then have "checkReplay E (jk_PeerPubKey k) env n s = (True, s\<lparr>pv_replay := snd ?c\<rparr>)"
    by (simp add: checkReplay_def split_def assms(3))
  moreover have "replay_absent (s\<lparr>pv_replay := snd ?c\<rparr>) k mid" if "mid \<noteq> env_MsgID env" "replay_absent s k mid" for mid
    using that CheckAndRemember_absent [OF inv] by (simp add: replay_absent_def)
  ultimately show ?thesis using replay_inv_CheckAndRemember [OF inv] by blast
qed

section \<open>The job on its way to a quote\<close>

text \<open>A job that waits for its input, with the state of its stream.\<close>

definition awaiting :: "provider \<Rightarrow> job_key \<Rightarrow> quote_request \<Rightarrow> input_stream_state option \<Rightarrow> bool" where
  "awaiting s k req st \<longleftrightarrow> (\<exists>j. jobstore_Get k (pv_jobs s) = Some j \<and> job_State j = StateAwaitingInput
     \<and> job_QuoteRequest j = Some req \<and> job_InputStream j = st)"

definition has_room :: "job_store \<Rightarrow> bool" where
  "has_room js \<longleftrightarrow> int (length (js_jobs js)) < js_maxEntries js"

text \<open>What the steps of one job leave alone.\<close>

definition elsewhere :: "provider \<Rightarrow> provider \<Rightarrow> bool" where
  "elsewhere s s' \<longleftrightarrow> pv_peers s' = pv_peers s \<and> pv_cancels s' = pv_cancels s \<and> pv_inFlight s' = pv_inFlight s
     \<and> pv_runners s' = pv_runners s \<and> pv_ids s' = pv_ids s \<and> pv_trace s' = pv_trace s"

lemma elsewhere_trans: "elsewhere s t \<Longrightarrow> elsewhere t u \<Longrightarrow> elsewhere s u"
  by (simp add: elsewhere_def)

lemma elsewhere_refl [simp]: "elsewhere s s"
  by (simp add: elsewhere_def)

lemma awaiting_after_upsert:
  assumes "provider_inv L s" and "job_ok L j" and "job_key_of j = k"
    and "has_room (pv_jobs s) \<or> jobstore_Get k (pv_jobs s) \<noteq> None"
    and "job_State j = StateAwaitingInput" and "job_QuoteRequest j = Some req" and "job_InputStream j = st"
  shows "awaiting (handler_Upsert now j (s\<lparr>pv_replay := rp\<rparr>)) k req st"
    and "replay_inv rp \<Longrightarrow> provider_inv L (handler_Upsert now j (s\<lparr>pv_replay := rp\<rparr>))"
    and "elsewhere s (handler_Upsert now j (s\<lparr>pv_replay := rp\<rparr>))"
    and "replay_absent (handler_Upsert now j (s\<lparr>pv_replay := rp\<rparr>)) k mid = replay_absent (s\<lparr>pv_replay := rp\<rparr>) k mid"
proof -
  have "jobstore_inv (pv_jobs s)" using assms(1) by (simp add: provider_inv_def jobs_ok_def)
  from Upsert_get_same [OF this, of j now] assms(3-7)
  show "awaiting (handler_Upsert now j (s\<lparr>pv_replay := rp\<rparr>)) k req st"
    by (auto simp: awaiting_def handler_Upsert_def has_room_def)
  assume "replay_inv rp"
  then have "provider_inv L (s\<lparr>pv_replay := rp\<rparr>)" using assms(1) by (simp add: provider_inv_def runners_ok_def)
  then show "provider_inv L (handler_Upsert now j (s\<lparr>pv_replay := rp\<rparr>))" using assms(2) by (rule provider_inv_Upsert)
qed (simp_all add: elsewhere_def handler_Upsert_def replay_absent_def)

lemma not_rejected: "open_for E k s \<Longrightarrow> rejectQuoteRequestIfProviderUnavailable E now p env s = (False, s)"
  by (simp add: rejectQuoteRequestIfProviderUnavailable_def open_for_def)

lemma open_for_step:
  "open_for E k s \<Longrightarrow> elsewhere s s' \<Longrightarrow> provider_inv (pe_tlv E) s' \<Longrightarrow> open_for E k s'"
  by (simp add: open_for_def elsewhere_def)

text \<open>A new request is stored and waits for its input.\<close>

lemma request_accepted:
  assumes o: "open_for E k s" and v: "pe_validator E = DefaultValidator"
    and dec: "DecodeQuoteRequest (pe_tlv E) payload = Inr req" and t: "timely now (qr_Envelope req)"
    and jid: "env_JobID (qr_Envelope req) = jk_JobID k" and fr: "replay_absent s k (env_MsgID (qr_Envelope req))"
    and val: "ValidateQuoteRequest (pe_tlv E) (pe_validator E) req (RemoteManifestFor (jk_PeerPubKey k) (pv_peers s)) = None"
    and model: "rejectQuoteRequestIfUnsupportedModel E now (jk_PeerPubKey k) req s = (False, s)"
    and new: "jobstore_Get k (pv_jobs s) = None" and room: "has_room (pv_jobs s)"
  defines "s' \<equiv> provider_HandleInboundCustomMessage E now
    \<lparr>cm_PeerPubKey = jk_PeerPubKey k, cm_MsgType = MessageTypeQuoteRequest, cm_Payload = payload\<rparr> s"
  shows "awaiting s' k req None \<and> provider_inv (pe_tlv E) s' \<and> elsewhere s s'
    \<and> (\<forall>mid. mid \<noteq> env_MsgID (qr_Envelope req) \<longrightarrow> replay_absent s k mid \<longrightarrow> replay_absent s' k mid)"
proof -
  have inv: "provider_inv (pe_tlv E) s" using o by (simp add: open_for_def)
  obtain n where n: "handler_nowUnix now = Some n" "n \<le> env_Expiry (qr_Envelope req)" using t by (auto simp: timely_def)
  obtain rp where rp: "checkReplay E (jk_PeerPubKey k) (qr_Envelope req) n s = (True, s\<lparr>pv_replay := rp\<rparr>)" "replay_inv rp"
      "\<forall>mid. mid \<noteq> env_MsgID (qr_Envelope req) \<longrightarrow> replay_absent s k mid \<longrightarrow> replay_absent (s\<lparr>pv_replay := rp\<rparr>) k mid"
    using checkReplay_fresh [OF inv n(2) jid fr] by blast
  have k: "\<lparr>jk_PeerPubKey = jk_PeerPubKey k, jk_JobID = jk_JobID k\<rparr> = k" by simp
  obtain m where m: "RemoteManifestFor (jk_PeerPubKey k) (pv_peers s) = Some m" using o by (auto simp: open_for_def)
  have s': "s' = handler_Upsert now (newAwaitingJob (jk_PeerPubKey k) req) (s\<lparr>pv_replay := rp\<rparr>)"
    unfolding s'_def using n new m
    by (simp add: provider_HandleInboundCustomMessage_def handleQuoteRequest_def dec not_rejected [OF o] val [unfolded m] model
        dropIfExpired_def rp(1) jid Let_def k)
  have ok: "job_ok (pe_tlv E) (newAwaitingJob (jk_PeerPubKey k) req)"
    using val v validated_version by (intro newAwaitingJob_ok) auto
  have "job_key_of (newAwaitingJob (jk_PeerPubKey k) req) = k" by (simp add: newAwaitingJob_def job_key_of_def jid)
  note up = awaiting_after_upsert [OF inv ok this] 
  show ?thesis unfolding s' using up rp(2,3) room by (simp add: newAwaitingJob_def)
qed

text \<open>The announcement of the input stream.\<close>

lemma begin_accepted:
  assumes o: "open_for E k s" and aw: "awaiting s k req st0"
    and dec: "DecodeStreamBegin (pe_tlv E) payload = Inr b" and t: "timely now (sb_Envelope b)"
    and jid: "env_JobID (sb_Envelope b) = jk_JobID k" and fr: "replay_absent s k (env_MsgID (sb_Envelope b))"
    and kind: "sb_Kind b = StreamKindInput" and val: "validateInputStreamBegin b = Inr (tot, sha)"
    and ct: "sb_ContentType b = inputContentTypeForTaskKind (qr_TaskKind req)"
  defines "s' \<equiv> provider_HandleInboundCustomMessage E now
    \<lparr>cm_PeerPubKey = jk_PeerPubKey k, cm_MsgType = MessageTypeStreamBegin, cm_Payload = payload\<rparr> s"
  shows "awaiting s' k req (Some (newInputStream b tot sha)) \<and> provider_inv (pe_tlv E) s' \<and> elsewhere s s'
    \<and> (\<forall>mid. mid \<noteq> env_MsgID (sb_Envelope b) \<longrightarrow> replay_absent s k mid \<longrightarrow> replay_absent s' k mid)"
proof -
  have inv: "provider_inv (pe_tlv E) s" using o by (simp add: open_for_def)
  obtain n where n: "handler_nowUnix now = Some n" "n \<le> env_Expiry (sb_Envelope b)" using t by (auto simp: timely_def)
  obtain rp where rp: "checkReplay E (jk_PeerPubKey k) (sb_Envelope b) n s = (True, s\<lparr>pv_replay := rp\<rparr>)" "replay_inv rp"
      "\<forall>mid. mid \<noteq> env_MsgID (sb_Envelope b) \<longrightarrow> replay_absent s k mid \<longrightarrow> replay_absent (s\<lparr>pv_replay := rp\<rparr>) k mid"
    using checkReplay_fresh [OF inv n(2) jid fr] by blast
  obtain j where j: "jobstore_Get k (pv_jobs s) = Some j" "job_State j = StateAwaitingInput" "job_QuoteRequest j = Some req"
    using aw by (auto simp: awaiting_def)
  obtain m where m: "RemoteManifestFor (jk_PeerPubKey k) (pv_peers s) = Some m" using o by (auto simp: open_for_def)
  let ?j = "j\<lparr>job_InputStream := Some (newInputStream b tot sha)\<rparr>"
  have k: "\<lparr>jk_PeerPubKey = jk_PeerPubKey k, jk_JobID = jk_JobID k\<rparr> = k" by simp
  have s': "s' = handler_Upsert now ?j (s\<lparr>pv_replay := rp\<rparr>)"
    unfolding s'_def using n m j(1,2)
    by (simp add: provider_HandleInboundCustomMessage_def provider_handleStreamBegin_def dec kind not_rejected [OF o]
        dropIfExpired_def rp(1) jid val j(3) ct Let_def k)
  note sj = stored_job_ok [OF inv j(1)]
  have ok: "job_ok (pe_tlv E) ?j" by (rule job_ok_new_stream [OF sj(1) j(2) begin_stream_ok [OF val]])
  have "job_key_of ?j = k" using sj(2,3) by (simp add: job_key_of_def)
  from awaiting_after_upsert [OF inv ok this] rp(2,3) j
  show ?thesis unfolding s' by simp
qed

text \<open>A chunk in order is appended.\<close>

lemma chunk_accepted:
  assumes o: "open_for E k s" and aw: "awaiting s k req (Some st)" and L: "tlv_library (pe_tlv E)"
    and enc: "encodeChunk (pe_tlv E) env sid seq d = Inr payload" and len: "length payload \<le> MaxRecordSize"
    and t: "timely now env" and jid: "env_JobID env = jk_JobID k"
    and st: "is_StreamID st = sid" "is_ExpectedSeq st = seq" "\<not> is_Validated st"
    and fits: "length (is_Buf st) + length d \<le> unat (is_TotalLen st)"
  defines "s' \<equiv> provider_HandleInboundCustomMessage E now
    \<lparr>cm_PeerPubKey = jk_PeerPubKey k, cm_MsgType = MessageTypeStreamChunk, cm_Payload = payload\<rparr> s"
  shows "awaiting s' k req (Some (st\<lparr>is_Buf := is_Buf st @ d, is_ExpectedSeq := seq + 1\<rparr>)) \<and> provider_inv (pe_tlv E) s'
    \<and> elsewhere s s' \<and> (\<forall>mid. replay_absent s' k mid = replay_absent s k mid)"
proof -
  have inv: "provider_inv (pe_tlv E) s" using o by (simp add: open_for_def)
  obtain mid where dec: "DecodeStreamChunk (pe_tlv E) payload =
      Inr \<lparr>sc_Envelope = env\<lparr>env_MsgID := mid\<rparr>, sc_StreamID = sid, sc_Seq = seq, sc_Data = Some d\<rparr>"
    using tlv_library.decode_encodeChunk [OF L enc len] by blast
  obtain n where n: "handler_nowUnix now = Some n" "n \<le> env_Expiry env" using t by (auto simp: timely_def)
  obtain j where j: "jobstore_Get k (pv_jobs s) = Some j" "job_State j = StateAwaitingInput" "job_QuoteRequest j = Some req"
      "job_InputStream j = Some st" using aw by (auto simp: awaiting_def)
  note sj = stored_job_ok [OF inv j(1)]
  have so: "stream_ok st" using sj(1) j(4) by (simp add: job_ok_def)
  then have tot: "unat (is_TotalLen st) \<le> 4194304" by (simp add: stream_ok_def)
  let ?n = "(word_of_nat (length (is_Buf st)) :: u64) + word_of_nat (length d)"
  let ?st = "st\<lparr>is_Buf := is_Buf st @ d, is_ExpectedSeq := seq + 1\<rparr>" 
  have "?n = word_of_nat (length (is_Buf st) + length d)" by simp
  then have "unat ?n = unat (word_of_nat (length (is_Buf st) + length d) :: u64)" by (rule arg_cong)
  also have "\<dots> = length (is_Buf st) + length d" using fits tot by (simp only: unat_of_nat) simp
  finally have un: "unat ?n = length (is_Buf st) + length d" .
  have w: "\<not> is_TotalLen st < ?n" "\<not> defaultMaxStreamBytes < ?n" "\<not> defaultMaxJobBytes < ?n"
    using un fits tot by (simp_all only: word_less_nat_alt un) simp_all
  have k: "\<lparr>jk_PeerPubKey = jk_PeerPubKey k, jk_JobID = jk_JobID k\<rparr> = k" by simp
  have s': "s' = handler_Upsert now (j\<lparr>job_InputStream := Some ?st\<rparr>) s"
    unfolding s'_def using n j(1,2) st w
    by (simp add: provider_HandleInboundCustomMessage_def provider_handleStreamChunk_def dec dropIfExpired_def jid j(3,4)
        chunkData_def Let_def k)
  have "stream_ok ?st" using so un fits tot st(3) by (auto simp: stream_ok_def)
  then have ok: "job_ok (pe_tlv E) (j\<lparr>job_InputStream := Some ?st\<rparr>)" by (rule job_ok_new_stream [OF sj(1) j(2)])
  have "job_key_of (j\<lparr>job_InputStream := Some ?st\<rparr>) = k" using sj(2,3) by (simp add: job_key_of_def)
  moreover have "s\<lparr>pv_replay := pv_replay s\<rparr> = s" by simp
  ultimately have up: "awaiting s' k req (Some ?st)" "elsewhere s s'" "\<forall>mid. replay_absent s' k mid = replay_absent s k mid"
    unfolding s' using awaiting_after_upsert(1,3,4) [OF inv ok, of k req "Some ?st" now "pv_replay s"] j by simp_all
  moreover have "provider_inv (pe_tlv E) s'" unfolding s' by (rule provider_inv_Upsert [OF inv ok])
  ultimately show ?thesis by blast
qed

text \<open>Messages handled one after the other, each at its own time.\<close>

definition handle_all :: "provider_env \<Rightarrow> (gotime \<times> custom_message) list \<Rightarrow> provider \<Rightarrow> provider" where
  "handle_all E tms s = fold (\<lambda>(t, m). provider_HandleInboundCustomMessage E t m) tms s"

lemma handle_all_simps [simp]:
  "handle_all E [] s = s"
  "handle_all E ((t, m) # tms) s = handle_all E tms (provider_HandleInboundCustomMessage E t m s)"
  "handle_all E (xs @ ys) s = handle_all E ys (handle_all E xs s)"
  by (simp_all add: handle_all_def)

text \<open>All chunks of a stream, in order: the buffer is the data they carry.\<close>

lemma chunks_accepted:
  assumes o: "open_for E k s" and aw: "awaiting s k req (Some st)" and L: "tlv_library (pe_tlv E)"
    and ch: "chunk_payloads (encodeChunk (pe_tlv E) env sid) lim seq ds ps" and lim: "lim \<le> MaxRecordSize"
    and tm: "length ts = length ps" "\<forall>t \<in> set ts. timely t env" and jid: "env_JobID env = jk_JobID k"
    and st: "is_StreamID st = sid" "is_ExpectedSeq st = seq" "\<not> is_Validated st"
    and fits: "length (is_Buf st) + length (concat ds) \<le> unat (is_TotalLen st)"
  defines "s' \<equiv> handle_all E (zip ts (map (\<lambda>b. \<lparr>cm_PeerPubKey = jk_PeerPubKey k, cm_MsgType = MessageTypeStreamChunk, cm_Payload = b\<rparr>) ps)) s"
  shows "\<exists>q. awaiting s' k req (Some (st\<lparr>is_Buf := is_Buf st @ concat ds, is_ExpectedSeq := q\<rparr>)) \<and> provider_inv (pe_tlv E) s'
    \<and> elsewhere s s' \<and> (\<forall>mid. replay_absent s' k mid = replay_absent s k mid)"
  unfolding s'_def using o aw ch tm st fits
proof (induction ds arbitrary: s st seq ps ts)
  case Nil
  have "st\<lparr>is_Buf := is_Buf st, is_ExpectedSeq := is_ExpectedSeq st\<rparr> = st" by simp
  with Nil show ?case by (auto simp: open_for_def intro!: exI [of _ "is_ExpectedSeq st"])
next
  case (Cons d ds)
  then obtain p ps' t ts' where p: "ps = p # ps'" "ts = t # ts'" "encodeChunk (pe_tlv E) env sid seq d = Inr p" "length p \<le> lim"
    "chunk_payloads (encodeChunk (pe_tlv E) env sid) lim (seq + 1) ds ps'"
    by (cases ps; cases ts) auto
  let ?m = "\<lambda>b. \<lparr>cm_PeerPubKey = jk_PeerPubKey k, cm_MsgType = MessageTypeStreamChunk, cm_Payload = b\<rparr>"
  let ?s = "provider_HandleInboundCustomMessage E t (?m p) s" and ?st = "st\<lparr>is_Buf := is_Buf st @ d, is_ExpectedSeq := seq + 1\<rparr>"
  have "length p \<le> MaxRecordSize" using p(4) lim by simp
  with Cons.prems p have one: "awaiting ?s k req (Some ?st)" "provider_inv (pe_tlv E) ?s" "elsewhere s ?s"
      "\<forall>mid. replay_absent ?s k mid = replay_absent s k mid"
    using chunk_accepted [OF Cons.prems(1,2) L p(3) _ _ jid Cons.prems(6,7,8)] by auto
  have o': "open_for E k ?s" using Cons.prems(1) one(3,2) by (rule open_for_step)
  obtain q where q: "awaiting (handle_all E (zip ts' (map ?m ps')) ?s) k req (Some (?st\<lparr>is_Buf := is_Buf ?st @ concat ds, is_ExpectedSeq := q\<rparr>))"
      "provider_inv (pe_tlv E) (handle_all E (zip ts' (map ?m ps')) ?s)" "elsewhere ?s (handle_all E (zip ts' (map ?m ps')) ?s)"
      "\<forall>mid. replay_absent (handle_all E (zip ts' (map ?m ps')) ?s) k mid = replay_absent ?s k mid"
    using Cons.IH [OF o' one(1) p(5), of ts'] Cons.prems p(1,2) by auto
  show ?case using q one(3,4) elsewhere_trans [OF one(3) q(3)] by (auto simp: p(1,2))
qed

section \<open>The quote\<close>

text \<open>The outcome of a quote: the runner that waits for the payment.\<close>

definition quoted :: "provider_env \<Rightarrow> job_key \<Rightarrow> quote_request \<Rightarrow> bytes \<Rightarrow> u64 \<Rightarrow> u64 \<Rightarrow> provider \<Rightarrow> provider \<Rightarrow> bool" where
  "quoted E k req inp price expiry s s' \<longleftrightarrow> (\<exists>r rid invReq inv payload.
     pv_trace s' = pv_trace s @ [EvInvoice invReq (Inr inv), EvSend (jk_PeerPubKey k) MessageTypeQuoteResponse payload True, EvStart k rid]
     \<and> pe_invoice E (length (pv_trace s)) invReq = Inr inv
     \<and> ir_DescriptionHash invReq = qs_TermsHash (ru_QuoteResp r) \<and> ir_PriceMsat invReq = price
     \<and> EncodeQuoteResponse (pe_tlv E) (ru_QuoteResp r) = Inr payload
     \<and> qs_PriceMsat (ru_QuoteResp r) = price \<and> qs_QuoteExpiry (ru_QuoteResp r) = expiry
     \<and> qs_PaymentRequest (ru_QuoteResp r) = iv_PaymentRequest inv \<and> ru_Invoice r = inv
     \<and> map_of (pv_runners s') rid = Some r \<and> ru_Phase r = RunWaiting \<and> \<not> ru_Cancelled r
     \<and> ru_Key r = k \<and> ru_Req r = req \<and> is_Buf (ru_Input r) = inp
     \<and> is_ContentType (ru_Input r) = inputContentTypeForTaskKind (qr_TaskKind req)
     \<and> is_ContentEncoding (ru_Input r) = contentEncodingIdentity
     \<and> env_ProtocolVersion (qs_Envelope (ru_QuoteResp r)) = env_ProtocolVersion (qr_Envelope req)
     \<and> env_JobID (qs_Envelope (ru_QuoteResp r)) = env_JobID (qr_Envelope req)
     \<and> ru_RemoteMaxPayload r = remoteMaxPayloadBytes (RemoteManifestFor (jk_PeerPubKey k) (pv_peers s))
     \<and> pv_peers s' = pv_peers s
     \<and> handler_computeTermsHash (pe_tlv E) req (ru_Input r) expiry price = Inr (qs_TermsHash (ru_QuoteResp r)))"

lemma started_runner:
  assumes "runners_ok L s" and "map_of (pv_cancels s) k = None"
  shows "map_of (pv_runners (startJobRunner now k req st resp ivc m s)) (length (pv_runners s))
    = Some \<lparr>ru_Key = k, ru_Req = req, ru_Input = st, ru_QuoteResp = resp, ru_Invoice = ivc, ru_RemoteMaxPayload = m,
        ru_Cancelled = False, ru_Deadline = runnerDeadline now resp, ru_Phase = RunWaiting\<rparr>"
    and "pv_trace (startJobRunner now k req st resp ivc m s) = pv_trace s @ [EvStart k (length (pv_runners s))]"
proof -
  have "length (pv_runners s) \<notin> fst ` set (pv_runners s)"
    using assms(1) by (metis atLeastLessThan_iff less_irrefl list.set_map runners_ok_def set_upt)
  then show "map_of (pv_runners (startJobRunner now k req st resp ivc m s)) (length (pv_runners s))
    = Some \<lparr>ru_Key = k, ru_Req = req, ru_Input = st, ru_QuoteResp = resp, ru_Invoice = ivc, ru_RemoteMaxPayload = m,
        ru_Cancelled = False, ru_Deadline = runnerDeadline now resp, ru_Phase = RunWaiting\<rparr>"
    using assms(2) by (simp add: startJobRunner_def Let_def map_add_Some_iff map_of_eq_None_iff)
qed (simp add: startJobRunner_def Let_def assms(2))

text \<open>The end of a complete stream leads to the quote.\<close>

lemma end_quoted:
  assumes o: "open_for E k s" and aw: "awaiting s k req (Some st)"
    and dec: "DecodeStreamEnd (pe_tlv E) payload = Inr e" and t: "handler_nowUnix now = Some n" "n \<le> env_Expiry (se_Envelope e)"
    and jid: "env_JobID (se_Envelope e) = jk_JobID k" and fr: "replay_absent s k (env_MsgID (se_Envelope e))"
    and st: "is_StreamID st = se_StreamID e" "\<not> is_Validated st" "is_TotalLen st = se_TotalLen e" "is_SHA256 st = se_SHA256 e"
    and ct: "is_ContentType st = inputContentTypeForTaskKind (qr_TaskKind req)" "is_ContentEncoding st = contentEncodingIdentity"
    and whole: "se_TotalLen e = word_of_nat (length (is_Buf st))" "se_SHA256 e = sha256 (is_Buf st)"
    and v: "validateInputStream (pe_tlv E) (pe_json E) req (is_Buf st) = None"
    and pr: "quotePrice (pe_tlv E) (pe_json E) (pe_cfg E) (pe_policy E) (pv_inFlight s) req (is_Buf st) = Inr price"
    and h: "handler_computeTermsHash (pe_tlv E) req st (n + quoteTTLSeconds (pe_cfg E)) (pb_PriceMsat price) = Inr h"
    and idle: "map_of (pv_cancels s) k = None"
    and inv: "\<And>i r. \<exists>x. pe_invoice E i r = Inr x \<and> iv_PaymentRequest x = bolt11"
    and send: "\<And>i p m b. pe_send E i p m b = None"
    and enc: "\<And>mid. \<exists>b. EncodeQuoteResponse (pe_tlv E)
        \<lparr>qs_Envelope = \<lparr>env_ProtocolVersion = env_ProtocolVersion (qr_Envelope req), env_JobID = env_JobID (qr_Envelope req),
                         env_MsgID = mid, env_Expiry = n + quoteTTLSeconds (pe_cfg E)\<rparr>,
         qs_PriceMsat = pb_PriceMsat price, qs_QuoteExpiry = n + quoteTTLSeconds (pe_cfg E), qs_TermsHash = h,
         qs_PaymentRequest = bolt11\<rparr> = Inr b \<and> length b \<le> unat (remoteMaxPayloadBytes (RemoteManifestFor (jk_PeerPubKey k) (pv_peers s)))"
  defines "s' \<equiv> provider_HandleInboundCustomMessage E now
    \<lparr>cm_PeerPubKey = jk_PeerPubKey k, cm_MsgType = MessageTypeStreamEnd, cm_Payload = payload\<rparr> s"
  shows "quoted E k req (is_Buf st) (pb_PriceMsat price) (n + quoteTTLSeconds (pe_cfg E)) s s'"
proof -
  let ?x = "n + quoteTTLSeconds (pe_cfg E)" and ?p = "jk_PeerPubKey k" and ?st = "st\<lparr>is_Validated := True\<rparr>"
  have pinv: "provider_inv (pe_tlv E) s" using o by (simp add: open_for_def)
  obtain rp where rp: "checkReplay E ?p (se_Envelope e) n s = (True, s\<lparr>pv_replay := rp\<rparr>)"
    using checkReplay_fresh [OF pinv t(2) jid fr] by blast
  obtain j where j: "jobstore_Get k (pv_jobs s) = Some j" "job_State j = StateAwaitingInput" "job_QuoteRequest j = Some req"
      "job_InputStream j = Some st" using aw by (auto simp: awaiting_def)
  have none: "job_QuoteResponse j = None" using awaiting_no_quote [OF stored_job_ok(1) [OF pinv j(1)] j(2)] .
  obtain mf where mf: "RemoteManifestFor ?p (pv_peers s) = Some mf" using o by (auto simp: open_for_def)
  have k: "\<lparr>jk_PeerPubKey = ?p, jk_JobID = jk_JobID k\<rparr> = k" by simp
  let ?sr = "s\<lparr>pv_replay := rp\<rparr>"
  have h': "handler_computeTermsHash (pe_tlv E) req ?st ?x (pb_PriceMsat price) = Inr h"
    using h by (simp add: handler_computeTermsHash_def)
  have s': "s' = createInvoiceAndStartQuoteJob E now ?p k req ?st ?x (quoteTTLSeconds (pe_cfg E)) (pb_PriceMsat price) h
      (mf_MaxPayloadBytes mf) ?sr"
    unfolding s'_def using j(1,2) st none whole
    by (simp add: provider_HandleInboundCustomMessage_def provider_handleStreamEnd_def dec t dropIfExpired_def rp jid j(3,4)
        Let_def k handleValidatedInputStreamEnd_def v pr h' mf)
  let ?ir = "\<lparr>ir_DescriptionHash = h, ir_PriceMsat = pb_PriceMsat price,
      ir_ExpirySeconds = invoiceExpirySeconds (pe_os E) (quoteTTLSeconds (pe_cfg E))\<rparr>"
  obtain x where x: "pe_invoice E (length (pv_trace s)) ?ir = Inr x" "iv_PaymentRequest x = bolt11" using inv by blast
  let ?s1 = "?sr\<lparr>pv_trace := pv_trace s @ [EvInvoice ?ir (Inr x)]\<rparr>"
  define mid where "mid = fst (mustNewMsgID E ?s1)"
  let ?s2 = "?s1\<lparr>pv_ids := Suc (pv_ids s)\<rparr>"
  let ?resp = "\<lparr>qs_Envelope = \<lparr>env_ProtocolVersion = env_ProtocolVersion (qr_Envelope req), env_JobID = env_JobID (qr_Envelope req),
                         env_MsgID = mid, env_Expiry = ?x\<rparr>,
         qs_PriceMsat = pb_PriceMsat price, qs_QuoteExpiry = ?x, qs_TermsHash = h, qs_PaymentRequest = bolt11\<rparr>"
  obtain b where b: "EncodeQuoteResponse (pe_tlv E) ?resp = Inr b" "length b \<le> unat (mf_MaxPayloadBytes mf)"
    using enc [of mid] mf by (auto simp: remoteMaxPayloadBytes_def)
  have new: "newQuoteResponse E (qr_Envelope req) ?x (pb_PriceMsat price) h bolt11 ?s1 = (?resp, ?s2)"
    by (simp add: newQuoteResponse_def mid_def mustNewMsgID_def)
  let ?s3 = "?s2\<lparr>pv_trace := pv_trace ?s2 @ [EvSend ?p MessageTypeQuoteResponse b True]\<rparr>"
  have sent: "sendQuoteResponse E now ?p ?resp (mf_MaxPayloadBytes mf) ?s2 = (True, ?s3)"
    using b send by (simp add: sendQuoteResponse_def SendCustomMessage_def)
  let ?j = "\<lparr>job_PeerPubKey = jk_PeerPubKey k, job_JobID = jk_JobID k, job_State = StateWaitingPayment,
             job_QuoteRequest = Some req, job_InputStream = Some ?st, job_QuoteExpiry = ?x,
             job_TermsHash = Some h, job_PaymentHash = Some (iv_PaymentHash x),
             job_InvoiceAddIndex = Some (iv_AddIndex x), job_QuoteResponse = Some ?resp, job_CreatedAt = 0\<rparr>"
  define s4 where "s4 = handler_Upsert now ?j ?s3"
  have fin: "s' = startJobRunner now k req ?st ?resp x (mf_MaxPayloadBytes mf) s4"
    unfolding s' s4_def using new sent x by (simp add: createInvoiceAndStartQuoteJob_def CreateInvoice_def Let_def)
  have r4: "runners_ok (pe_tlv E) s4" using pinv by (simp add: provider_inv_def runners_ok_def handler_Upsert_def s4_def)
  have "map_of (pv_cancels s4) k = None" using idle by (simp add: handler_Upsert_def s4_def)
  note start = started_runner [OF r4 this]
  have peers: "pv_peers (startJobRunner now k req ?st ?resp x (mf_MaxPayloadBytes mf) s4) = pv_peers s"
    by (simp add: startJobRunner_def s4_def handler_Upsert_def Let_def)
  have tr: "pv_trace s4 = pv_trace s @ [EvInvoice ?ir (Inr x), EvSend ?p MessageTypeQuoteResponse b True]"
    by (simp add: s4_def handler_Upsert_def)
  show ?thesis
    unfolding quoted_def fin using b(1) x h' ct
    by (intro exI [of _ "\<lparr>ru_Key = k, ru_Req = req, ru_Input = ?st, ru_QuoteResp = ?resp, ru_Invoice = x,
          ru_RemoteMaxPayload = mf_MaxPayloadBytes mf, ru_Cancelled = False, ru_Deadline = runnerDeadline now ?resp,
          ru_Phase = RunWaiting\<rparr>"] exI [of _ "length (pv_runners s4)"] exI [of _ ?ir] exI [of _ x] exI [of _ b])
       (simp add: start tr peers mf remoteMaxPayloadBytes_def)
qed

text \<open>A settled runner whose context is alive hands the planned task to the backend.\<close>

lemma settled_executes:
  assumes "map_of (pv_runners s) rid = Some r" and "\<not> ctx_Err now r"
    and "planTask (pe_tlv E) (pe_json E) (pe_cfg E) (pe_policy E) (ru_Req r) (is_Buf (ru_Input r)) = Inr (task, pol, model, w)"
  shows "pv_trace (runJob_settled E now rid r None s) = pv_trace s @ [EvSettled rid, EvExecute rid task]"
  using assms by (simp add: runJob_settled_def handler_updateState_def setPhase_def)

lemma settled_phase:
  assumes "map_of (pv_runners s) rid = Some r" and "\<not> ctx_Err now r"
    and "planTask (pe_tlv E) (pe_json E) (pe_cfg E) (pe_policy E) (ru_Req r) (is_Buf (ru_Input r)) = Inr (task, pol, model, w)"
  shows "map_of (pv_runners (runJob_settled E now rid r None s)) rid = Some (r\<lparr>ru_Phase := RunExecuting task w\<rparr>)
    \<and> pv_peers (runJob_settled E now rid r None s) = pv_peers s"
proof -
  have "map_of (map (\<lambda>(i, r). if i = rid then (i, f r) else (i, r)) xs) rid = map_option f (map_of xs rid)" for f and xs :: "(nat \<times> runner) list"
    by (induction xs) auto
  with assms show ?thesis by (simp add: runJob_settled_def handler_updateState_def setPhase_def)
qed

section \<open>A whole request\<close>

text \<open>
  A request with its input: what the four kinds of messages decode to. The message ids are
  distinct and new to the replay window; the chunks carry the input.
\<close>

definition input_messages ::
    "string \<Rightarrow> bytes \<Rightarrow> bytes \<Rightarrow> bytes list \<Rightarrow> bytes \<Rightarrow> custom_message list" where
  "input_messages peer pq pb ps pf =
     \<lparr>cm_PeerPubKey = peer, cm_MsgType = MessageTypeQuoteRequest, cm_Payload = pq\<rparr>
     # \<lparr>cm_PeerPubKey = peer, cm_MsgType = MessageTypeStreamBegin, cm_Payload = pb\<rparr>
     # map (\<lambda>b. \<lparr>cm_PeerPubKey = peer, cm_MsgType = MessageTypeStreamChunk, cm_Payload = b\<rparr>) ps
     @ [\<lparr>cm_PeerPubKey = peer, cm_MsgType = MessageTypeStreamEnd, cm_Payload = pf\<rparr>]"

definition input_exchange ::
    "tlv_lib \<Rightarrow> job_key \<Rightarrow> quote_request \<Rightarrow> bytes \<Rightarrow> stream_begin \<Rightarrow> stream_end \<Rightarrow> job_envelope \<Rightarrow> nat
      \<Rightarrow> bytes \<Rightarrow> bytes \<Rightarrow> bytes list \<Rightarrow> bytes \<Rightarrow> bool" where
  "input_exchange L k req inp b e cenv lim pq pb ps pf \<longleftrightarrow>
     DecodeQuoteRequest L pq = Inr req \<and> env_JobID (qr_Envelope req) = jk_JobID k
   \<and> DecodeStreamBegin L pb = Inr b \<and> env_JobID (sb_Envelope b) = jk_JobID k \<and> sb_Kind b = StreamKindInput
   \<and> sb_ContentType b = inputContentTypeForTaskKind (qr_TaskKind req) \<and> sb_ContentEncoding b = contentEncodingIdentity
   \<and> validateInputStreamBegin b = Inr (word_of_nat (length inp), sha256 inp)
   \<and> DecodeStreamEnd L pf = Inr e \<and> env_JobID (se_Envelope e) = jk_JobID k \<and> se_StreamID e = sb_StreamID b
   \<and> se_TotalLen e = word_of_nat (length inp) \<and> se_SHA256 e = sha256 inp
   \<and> distinct [env_MsgID (qr_Envelope req), env_MsgID (sb_Envelope b), env_MsgID (se_Envelope e)]
   \<and> env_JobID cenv = jk_JobID k \<and> lim \<le> MaxRecordSize
   \<and> (\<exists>ds. concat ds = inp \<and> chunk_payloads (encodeChunk L cenv (sb_StreamID b)) lim 0 ds ps)"

text \<open>The job is new, the request passes validation and nothing of it was seen before.\<close>

definition new_job :: "provider_env \<Rightarrow> job_key \<Rightarrow> quote_request \<Rightarrow> gotime \<Rightarrow> provider \<Rightarrow> bool" where
  "new_job E k req now s \<longleftrightarrow> jobstore_Get k (pv_jobs s) = None \<and> has_room (pv_jobs s) \<and> map_of (pv_cancels s) k = None
     \<and> (\<forall>mid. replay_absent s k mid)
     \<and> ValidateQuoteRequest (pe_tlv E) (pe_validator E) req (RemoteManifestFor (jk_PeerPubKey k) (pv_peers s)) = None
     \<and> rejectQuoteRequestIfUnsupportedModel E now (jk_PeerPubKey k) req s = (False, s)"

text \<open>The messenger and the invoice service never fail, and a quote response fits.\<close>

definition services_ok :: "provider_env \<Rightarrow> string \<Rightarrow> bool" where
  "services_ok E bolt11 \<longleftrightarrow> (\<forall>i p m b. pe_send E i p m b = None)
     \<and> (\<forall>i r. \<exists>x. pe_invoice E i r = Inr x \<and> iv_PaymentRequest x = bolt11)"

lemma quote_response_fits:
  assumes "tlv_library L" and "env_ProtocolVersion env \<noteq> 0" and "bolt11 \<noteq> []" and "utf8_ValidString bolt11"
  shows "\<exists>b. EncodeQuoteResponse L \<lparr>qs_Envelope = env, qs_PriceMsat = p, qs_QuoteExpiry = x, qs_TermsHash = h,
      qs_PaymentRequest = bolt11\<rparr> = Inr b \<and> length b \<le> 266 + length bolt11"
  using tlv_library.EncodeQuoteResponse_ok [OF assms(1), of "\<lparr>qs_Envelope = env, qs_PriceMsat = p, qs_QuoteExpiry = x, qs_TermsHash = h,
      qs_PaymentRequest = bolt11\<rparr>"] assms(2-4) by simp

lemma exchange_quoted:
  assumes L: "tlv_library (pe_tlv E)" and v: "pe_validator E = DefaultValidator" and o: "open_for E k s"
    and nw: "new_job E k req tq s" and ex: "input_exchange (pe_tlv E) k req inp b e cenv lim pq pb ps pf"
    and t: "timely tq (qr_Envelope req)" "timely tb (sb_Envelope b)" "\<forall>t \<in> set ts. timely t cenv" "length ts = length ps"
      "handler_nowUnix tf = Some n" "n \<le> env_Expiry (se_Envelope e)"
    and small: "length inp \<le> 4194304"
    and vi: "validateInputStream (pe_tlv E) (pe_json E) req inp = None"
    and pr: "quotePrice (pe_tlv E) (pe_json E) (pe_cfg E) (pe_policy E) (pv_inFlight s) req inp = Inr price"
    and h: "\<And>st. is_Buf st = inp \<Longrightarrow> is_ContentType st = sb_ContentType b \<Longrightarrow> is_ContentEncoding st = sb_ContentEncoding b \<Longrightarrow>
      handler_computeTermsHash (pe_tlv E) req st (n + quoteTTLSeconds (pe_cfg E)) (pb_PriceMsat price) = Inr h"
    and svc: "services_ok E bolt11" "bolt11 \<noteq> []" "utf8_ValidString bolt11"
    and m: "266 + length bolt11 \<le> unat (remoteMaxPayloadBytes (RemoteManifestFor (jk_PeerPubKey k) (pv_peers s)))"
  shows "quoted E k req inp (pb_PriceMsat price) (n + quoteTTLSeconds (pe_cfg E)) s
    (handle_all E (zip (tq # tb # ts @ [tf]) (input_messages (jk_PeerPubKey k) pq pb ps pf)) s)"
proof -
  let ?p = "jk_PeerPubKey k"
  let ?m = "\<lambda>t b. \<lparr>cm_PeerPubKey = ?p, cm_MsgType = t, cm_Payload = b\<rparr>"
  note exd = ex [unfolded input_exchange_def]
  define s1 where "s1 = provider_HandleInboundCustomMessage E tq (?m MessageTypeQuoteRequest pq) s"
  have q: "awaiting s1 k req None" "provider_inv (pe_tlv E) s1" "elsewhere s s1"
      "\<And>mid. mid \<noteq> env_MsgID (qr_Envelope req) \<Longrightarrow> replay_absent s1 k mid"
    unfolding s1_def using request_accepted [OF o v _ t(1), of pq] nw exd by (auto simp: new_job_def)
  have o1: "open_for E k s1" using o q(3,2) by (rule open_for_step)
  define s2 where "s2 = provider_HandleInboundCustomMessage E tb (?m MessageTypeStreamBegin pb) s1"
  let ?st = "newInputStream b (word_of_nat (length inp)) (sha256 inp)"
  have bg: "awaiting s2 k req (Some ?st)" "provider_inv (pe_tlv E) s2" "elsewhere s1 s2"
      "replay_absent s2 k (env_MsgID (se_Envelope e))"
    unfolding s2_def using begin_accepted [OF o1 q(1) _ t(2), of pb] q(4) exd by auto
  have o2: "open_for E k s2" using o1 bg(3,2) by (rule open_for_step)
  obtain ds where ds: "concat ds = inp" "chunk_payloads (encodeChunk (pe_tlv E) cenv (sb_StreamID b)) lim 0 ds ps"
    using exd by blast
  define s3 where "s3 = handle_all E (zip ts (map (?m MessageTypeStreamChunk) ps)) s2"
  have len: "unat (word_of_nat (length inp) :: u64) = length inp" using small by (simp only: unat_of_nat) simp
  obtain c where ch: "awaiting s3 k req (Some (?st\<lparr>is_Buf := inp, is_ExpectedSeq := c\<rparr>))" "provider_inv (pe_tlv E) s3"
      "elsewhere s2 s3" "replay_absent s3 k (env_MsgID (se_Envelope e))"
    unfolding s3_def using chunks_accepted [OF o2 bg(1) L ds(2) _ t(4,3)] exd bg(4) len ds(1)
    by (auto simp: newInputStream_def)
  have o3: "open_for E k s3" using o2 ch(3,2) by (rule open_for_step)
  have els: "elsewhere s s3" using q(3) bg(3) ch(3) by (meson elsewhere_trans)
  define s4 where "s4 = provider_HandleInboundCustomMessage E tf (?m MessageTypeStreamEnd pf) s3"
  let ?st3 = "?st\<lparr>is_Buf := inp, is_ExpectedSeq := c\<rparr>"
  have pv: "env_ProtocolVersion (qr_Envelope req) \<noteq> 0"
    using nw v validated_version by (fastforce simp: new_job_def)
  have "quoted E k req (is_Buf ?st3) (pb_PriceMsat price) (n + quoteTTLSeconds (pe_cfg E)) s3 s4"
    unfolding s4_def
  proof (rule end_quoted [OF o3 ch(1) _ t(5,6)])
    show "handler_computeTermsHash (pe_tlv E) req ?st3 (n + quoteTTLSeconds (pe_cfg E)) (pb_PriceMsat price) = Inr h"
      by (rule h) (simp_all add: newInputStream_def)
    show "quotePrice (pe_tlv E) (pe_json E) (pe_cfg E) (pe_policy E) (pv_inFlight s3) req (is_Buf ?st3) = Inr price"
      using pr els by (simp add: elsewhere_def)
    show "map_of (pv_cancels s3) k = None" using nw els by (simp add: new_job_def elsewhere_def)
    fix mid
    obtain pl where "EncodeQuoteResponse (pe_tlv E)
        \<lparr>qs_Envelope = \<lparr>env_ProtocolVersion = env_ProtocolVersion (qr_Envelope req), env_JobID = env_JobID (qr_Envelope req),
                         env_MsgID = mid, env_Expiry = n + quoteTTLSeconds (pe_cfg E)\<rparr>,
         qs_PriceMsat = pb_PriceMsat price, qs_QuoteExpiry = n + quoteTTLSeconds (pe_cfg E), qs_TermsHash = h,
         qs_PaymentRequest = bolt11\<rparr> = Inr pl \<and> length pl \<le> 266 + length bolt11"
      using quote_response_fits [OF L _ svc(2,3)] pv by fastforce
    then show "\<exists>b. EncodeQuoteResponse (pe_tlv E)
        \<lparr>qs_Envelope = \<lparr>env_ProtocolVersion = env_ProtocolVersion (qr_Envelope req), env_JobID = env_JobID (qr_Envelope req),
                         env_MsgID = mid, env_Expiry = n + quoteTTLSeconds (pe_cfg E)\<rparr>,
         qs_PriceMsat = pb_PriceMsat price, qs_QuoteExpiry = n + quoteTTLSeconds (pe_cfg E), qs_TermsHash = h,
         qs_PaymentRequest = bolt11\<rparr> = Inr b \<and> length b \<le> unat (remoteMaxPayloadBytes (RemoteManifestFor (jk_PeerPubKey k) (pv_peers s3)))"
      using m els by (auto simp: elsewhere_def)
  qed (use exd ch(4) vi svc(1) in \<open>auto simp: newInputStream_def services_ok_def\<close>)
  moreover have "handle_all E (zip (tq # tb # ts @ [tf]) (input_messages ?p pq pb ps pf)) s = s4"
    using t(4) by (simp add: input_messages_def s1_def s2_def s3_def s4_def)
  ultimately show ?thesis using els by (simp add: quoted_def elsewhere_def)
qed

section \<open>A sample run\<close>

definition sample_manifest :: manifest where
  "sample_manifest = \<lparr>mf_ProtocolVersion = 2, mf_MaxPayloadBytes = 500, mf_MaxStreamBytes = 4194304,
     mf_MaxJobBytes = 8388608, mf_MaxInflightJobs = None, mf_SupportedTasks = []\<rparr>"

definition sample_env :: provider_env where
  "sample_env = \<lparr>pe_tlv = bolt_lib, pe_json = sample_json, pe_cfg = sample_config, pe_validator = DefaultValidator,
     pe_policy = \<lparr>ep_MaxOutputTokens = 16\<rparr>, pe_os = (\<lambda>_. []), pe_backendDisabled = False, pe_streamingBackend = False,
     pe_newMsgID = (\<lambda>n. Inr (word_of_nat (Suc n))), pe_newStreamID = (\<lambda>n. Inr 5), pe_send = (\<lambda>_ _ _ _. None),
     pe_invoice = (\<lambda>n r. Inr \<lparr>iv_PaymentRequest = ''lnbc1'', iv_PaymentHash = 77, iv_AddIndex = 1\<rparr>)\<rparr>"

definition sample_key :: job_key where
  "sample_key = \<lparr>jk_PeerPubKey = ''p'', jk_JobID = 7\<rparr>"

definition sample_start :: provider where
  "sample_start = (provider_init (\<lambda>_. []) 0)\<lparr>pv_peers := MarkLCPReady ''p'' sample_manifest []\<rparr>"

lemma sample_reachable: "provider_reachable sample_env sample_start"
  unfolding sample_start_def by (rule provider_reachable.step [OF provider_reachable.start provider_step.peers])

lemma reachable_handle_all: "provider_reachable E s \<Longrightarrow> provider_reachable E (handle_all E tms s)"
proof (induction tms arbitrary: s)
  case (Cons tm tms)
  then show ?case by (cases tm) (auto intro: provider_reachable.step provider_step.inbound)
qed simp

lemma sample_open: "open_for sample_env sample_key sample_start"
proof -
  have "provider_inv (pe_tlv sample_env) sample_start"
    using provider_reachable_inv [OF sample_reachable] bolt.tlv_library_axioms by (simp add: sample_env_def)
  then show ?thesis
    by (simp add: open_for_def sample_env_def sample_config_def sample_key_def sample_start_def provider_init_def
        RemoteManifestFor_def MarkLCPReady_def withPeer_def updateLCPReadyLocked_def newPeer_def)
qed

lemma sample_remote: "RemoteManifestFor ''p'' (pv_peers sample_start) = Some sample_manifest"
  by (simp add: sample_start_def RemoteManifestFor_def MarkLCPReady_def withPeer_def updateLCPReadyLocked_def newPeer_def)

lemma sample_new: "new_job sample_env sample_key sample_request now sample_start"
proof -
  have "ValidateQuoteRequest bolt_lib DefaultValidator sample_request (Some sample_manifest) = None"
    by (simp add: ValidateQuoteRequest_def DefaultValidator_def protocolSupported_def taskKindSupported_def
        validateTaskParams_def sample_request_def sample_envelope_def sample_params sample_manifest_def)
  moreover have "rejectQuoteRequestIfUnsupportedModel sample_env now ''p'' sample_request sample_start = (False, sample_start)"
    by (simp add: rejectQuoteRequestIfUnsupportedModel_def sample_env_def sample_request_def sample_config_def sample_params)
  moreover have "0 < js_maxEntries (jobstore_New (\<lambda>_. []))"
    using jobstore_inv_New [of "\<lambda>_. []"] by (simp add: jobstore_inv_def)
  ultimately show ?thesis
    using sample_remote
    by (simp add: new_job_def sample_key_def sample_env_def sample_start_def provider_init_def jobstore_New_def
        jobstore_Get_def has_room_def replay_absent_def replaystore_New_def Let_def)
qed

text \<open>The messages of the sample: the request of the validator's sample with the input \<open>{}\<close>.\<close>

definition sample_begin :: stream_begin where
  "sample_begin = \<lparr>sb_Envelope = sample_envelope\<lparr>env_MsgID := 10\<rparr>, sb_StreamID = 5, sb_Kind = StreamKindInput,
     sb_TotalLen = Some 2, sb_SHA256 = Some (sha256 [123, 125]), sb_ContentType = contentTypeApplicationJSON,
     sb_ContentEncoding = contentEncodingIdentity\<rparr>"

definition sample_end :: stream_end where
  "sample_end = \<lparr>se_Envelope = sample_envelope\<lparr>env_MsgID := 11\<rparr>, se_StreamID = 5, se_TotalLen = 2,
     se_SHA256 = sha256 [123, 125]\<rparr>"

lemma sample_exchange:
  "\<exists>pq pb pc pf. input_exchange bolt_lib sample_key sample_request [123, 125] sample_begin sample_end sample_envelope
     65535 pq pb [pc] pf"
proof -
  have v: "env_ProtocolVersion sample_envelope \<noteq> 0" by (simp add: sample_envelope_def)
  have u: "utf8_ValidString contentTypeApplicationJSON" "utf8_ValidString contentEncodingIdentity"
    "utf8_ValidString ''openai.responses.v1''" by code_simp+
  obtain pq where "EncodeQuoteRequest bolt_lib sample_request = Inr pq" "length pq \<le> 65535"
    using bolt.EncodeQuoteRequest_ok [of sample_request] u v by (auto simp: sample_request_def)
  then have q: "DecodeQuoteRequest bolt_lib pq = Inr sample_request" by (intro bolt.quote_request_round_trip) simp_all
  obtain pb where "EncodeStreamBegin bolt_lib sample_begin = Inr pb" "length pb \<le> 65535"
    using bolt.EncodeStreamBegin_ok [of sample_begin] u v by (auto simp: sample_begin_def)
  then have b: "DecodeStreamBegin bolt_lib pb = Inr sample_begin" by (intro bolt.stream_begin_round_trip) simp_all
  obtain pc where c: "encodeChunk bolt_lib sample_envelope 5 0 [123, 125] = Inr pc" "length pc \<le> 65535"
    using bolt.encodeChunk_ok [OF v, of 5 0 "[123, 125]"] by auto
  obtain pf where "EncodeStreamEnd bolt_lib sample_end = Inr pf" "length pf \<le> 65535"
    using bolt.EncodeStreamEnd_ok [of sample_end] v by (auto simp: sample_end_def)
  then have f: "DecodeStreamEnd bolt_lib pf = Inr sample_end" by (intro bolt.stream_end_round_trip) simp_all
  have "chunk_payloads (encodeChunk bolt_lib sample_envelope 5) 65535 0 [[123, 125]] [pc]" using c by simp
  then have "\<exists>ds. concat ds = [123, 125] \<and> chunk_payloads (encodeChunk bolt_lib sample_envelope 5) 65535 0 ds [pc]"
    by (intro exI [of _ "[[123, 125]]"]) simp
  then have "input_exchange bolt_lib sample_key sample_request [123, 125] sample_begin sample_end sample_envelope 65535 pq pb [pc] pf"
    unfolding input_exchange_def using q b f
    by (simp add: sample_request_def sample_key_def sample_begin_def sample_end_def sample_envelope_def
        inputContentTypeForTaskKind_def validateInputStreamBegin_def)
  then show ?thesis by blast
qed

lemma sample_terms_hash:
  "is_Buf st = [123, 125] \<Longrightarrow> is_ContentType st = contentTypeApplicationJSON \<Longrightarrow> is_ContentEncoding st = contentEncodingIdentity \<Longrightarrow>
   \<exists>h. handler_computeTermsHash bolt_lib sample_request st x p = Inr h
     \<and> (\<forall>st'. is_Buf st' = is_Buf st \<longrightarrow> is_ContentType st' = is_ContentType st \<longrightarrow> is_ContentEncoding st' = is_ContentEncoding st
          \<longrightarrow> handler_computeTermsHash bolt_lib sample_request st' x p = Inr h)"
proof -
  have "[1, 1, 109] = raw_stream [(1, [109 :: byte])]" by code_simp
  moreover have "canonicalizeTLVStream bolt_lib (raw_stream [(1, [109 :: byte])]) = Inr (raw_stream [(1, [109 :: byte])])"
    by (rule bolt.canonicalize_stream) (simp_all add: ascending_def)
  ultimately have c: "canonicalizeTLVStream bolt_lib [1, 1, 109] = Inr [1, 1, 109]" by simp
  have u: "utf8_ValidString contentTypeApplicationJSON" "utf8_ValidString contentEncodingIdentity"
    "utf8_ValidString ''openai.responses.v1''" by code_simp+
  show "is_Buf st = [123, 125] \<Longrightarrow> is_ContentType st = contentTypeApplicationJSON \<Longrightarrow> is_ContentEncoding st = contentEncodingIdentity \<Longrightarrow> ?thesis"
    by (auto simp: handler_computeTermsHash_def ComputeTermsHash_def sample_request_def c u)
qed

lemma sample_quoted:
  "\<exists>s. provider_reachable sample_env s
     \<and> quoted sample_env sample_key sample_request [123, 125] 52 400 sample_start s"
proof -
  let ?t = "time_of_unix 100"
  obtain pq pb pc pf where ex: "input_exchange (pe_tlv sample_env) sample_key sample_request [123, 125] sample_begin sample_end
      sample_envelope 65535 pq pb [pc] pf" using sample_exchange by (auto simp: sample_env_def)
  let ?st = "newInputStream sample_begin 2 0\<lparr>is_Buf := [123, 125]\<rparr>"
  obtain h where h: "\<And>st'. is_Buf st' = is_Buf ?st \<Longrightarrow> is_ContentType st' = is_ContentType ?st \<Longrightarrow>
      is_ContentEncoding st' = is_ContentEncoding ?st \<Longrightarrow> handler_computeTermsHash bolt_lib sample_request st' 400 52 = Inr h"
    using sample_terms_hash [of ?st 400 52] by (auto simp: newInputStream_def sample_begin_def)
  have tm: "timely ?t env" if "env_Expiry env = 1000" for env
    using that by (simp add: timely_def handler_nowUnix_def)
  have vi: "validateInputStream bolt_lib sample_json sample_request [123, 125] = None"
  proof -
    have "bytes_TrimSpace [123, 125] \<noteq> [] \<and> bytes_TrimSpace [123, 125] \<noteq> string_bytes ''null''" by code_simp
    then show ?thesis by (simp add: validateInputStream_def sample_request_def sample_json_def sample_params)
  qed
  let ?s = "handle_all sample_env (zip (?t # ?t # [?t] @ [?t]) (input_messages (jk_PeerPubKey sample_key) pq pb [pc] pf)) sample_start"
  have "quoted sample_env sample_key sample_request [123, 125]
      (pb_PriceMsat \<lparr>pb_InputTokens = 1, pb_CachedInputTokens = 0, pb_OutputTokens = 10, pb_PriceMsat = 52\<rparr>)
      (100 + quoteTTLSeconds (pe_cfg sample_env)) sample_start ?s"
  proof (rule exchange_quoted [OF _ _ sample_open sample_new ex])
    show "validateInputStream (pe_tlv sample_env) (pe_json sample_env) sample_request [123, 125] = None"
      using vi by (simp add: sample_env_def)
    show "quotePrice (pe_tlv sample_env) (pe_json sample_env) (pe_cfg sample_env) (pe_policy sample_env) (pv_inFlight sample_start)
        sample_request [123, 125] = Inr \<lparr>pb_InputTokens = 1, pb_CachedInputTokens = 0, pb_OutputTokens = 10, pb_PriceMsat = 52\<rparr>"
      using sample_price by (simp add: sample_env_def)
    fix st :: input_stream_state
    assume "is_Buf st = [123, 125]" "is_ContentType st = sb_ContentType sample_begin" "is_ContentEncoding st = sb_ContentEncoding sample_begin"
    then show "handler_computeTermsHash (pe_tlv sample_env) sample_request st (100 + quoteTTLSeconds (pe_cfg sample_env))
        (pb_PriceMsat \<lparr>pb_InputTokens = 1, pb_CachedInputTokens = 0, pb_OutputTokens = 10, pb_PriceMsat = 52\<rparr>) = Inr h"
      using h [of st] by (simp add: sample_env_def sample_config_def quoteTTLSeconds_def newInputStream_def)
  next
    show "services_ok sample_env ''lnbc1''" by (simp add: services_ok_def sample_env_def)
    show "utf8_ValidString ''lnbc1''" by code_simp
    show "266 + length ''lnbc1'' \<le> unat (remoteMaxPayloadBytes (RemoteManifestFor (jk_PeerPubKey sample_key) (pv_peers sample_start)))"
      using sample_remote by (simp add: sample_key_def remoteMaxPayloadBytes_def sample_manifest_def)
  qed (use tm bolt.tlv_library_axioms in \<open>simp_all add: sample_env_def sample_request_def sample_begin_def sample_end_def
       sample_envelope_def handler_nowUnix_def\<close>)
  moreover have "provider_reachable sample_env ?s" by (rule reachable_handle_all [OF sample_reachable])
  ultimately show ?thesis by (auto simp: sample_env_def sample_config_def quoteTTLSeconds_def)
qed

lemma sample_executed:
  "\<exists>s xs rid task. provider_reachable sample_env s \<and> pv_trace s = xs @ EvExecute rid task # []
     \<and> ct_InputBytes task = [123, 125]"
proof -
  obtain s where s: "provider_reachable sample_env s" "quoted sample_env sample_key sample_request [123, 125] 52 400 sample_start s"
    using sample_quoted by blast
  from s(2) obtain r rid where r: "map_of (pv_runners s) rid = Some r" "ru_Phase r = RunWaiting" "\<not> ru_Cancelled r"
    "ru_Req r = sample_request" "is_Buf (ru_Input r) = [123, 125]" by (auto simp: quoted_def)
  obtain now where now: "\<not> ctx_Err now r" using r(3) by (cases "ru_Deadline r") (auto simp: ctx_Err_def intro: that [of "the (ru_Deadline r) - 1"])
  obtain task pol model w where plan: "planTask (pe_tlv sample_env) (pe_json sample_env) (pe_cfg sample_env) (pe_policy sample_env)
      (ru_Req r) (is_Buf (ru_Input r)) = Inr (task, pol, model, w)" "ct_InputBytes task = [123, 125]"
    using sample_plan r(4,5) by (auto simp: sample_env_def)
  let ?s = "runJob_settled sample_env now rid r None s"
  have "provider_reachable sample_env ?s"
    by (rule provider_reachable.step [OF s(1) provider_step.settled [OF r(1,2)]])
  moreover have "pv_trace ?s = (pv_trace s @ [EvSettled rid]) @ EvExecute rid task # []"
    using settled_executes [OF r(1) now plan(1)] by simp
  ultimately show ?thesis using plan(2) by blast
qed

lemma execution_facts:
  assumes inv: "provider_inv L s \<and> trace_inv L s" and tr: "pv_trace s = xs @ EvExecute rid task # ys"
  shows "\<exists>r. map_of (pv_runners s) rid = Some r \<and> EvSettled rid \<in> set xs
    \<and> (\<forall>t. EvExecute rid t \<notin> set xs \<and> EvExecute rid t \<notin> set ys)
    \<and> ct_InputBytes task = is_Buf (ru_Input r) \<and> ct_TaskKind task = qr_TaskKind (ru_Req r)
    \<and> handler_computeTermsHash L (ru_Req r) (ru_Input r) (qs_QuoteExpiry (ru_QuoteResp r)) (qs_PriceMsat (ru_QuoteResp r))
        = Inr (qs_TermsHash (ru_QuoteResp r))
    \<and> (\<exists>req ivc. EvInvoice req (Inr ivc) \<in> set xs \<and> ir_DescriptionHash req = qs_TermsHash (ru_QuoteResp r)
         \<and> ir_PriceMsat req = qs_PriceMsat (ru_QuoteResp r) \<and> iv_PaymentHash ivc = iv_PaymentHash (ru_Invoice r))"
proof -
  have ok: "trace_ok L (static s) (pv_trace s)" using inv by (simp add: trace_inv_def)
  then have "event_ok L (static s) xs (EvExecute rid task)" unfolding tr trace_ok_def by blast
  then obtain r where r: "map_of (pv_runners s) rid = Some r" "EvSettled rid \<in> set xs" "\<forall>t. EvExecute rid t \<notin> set xs"
      "ct_InputBytes task = is_Buf (ru_Input r)" "ct_TaskKind task = qr_TaskKind (ru_Req r)"
    by (auto simp: static_def)
  have later: "EvExecute rid t \<notin> set ys" for t
  proof
    assume "EvExecute rid t \<in> set ys"
    then obtain ys1 ys2 where "ys = ys1 @ EvExecute rid t # ys2" by (meson split_list)
    then have "pv_trace s = (xs @ EvExecute rid task # ys1) @ EvExecute rid t # ys2" using tr by simp
    then have "event_ok L (static s) (xs @ EvExecute rid task # ys1) (EvExecute rid t)" using ok unfolding trace_ok_def by blast
    then show False by auto
  qed
  obtain us vs where "xs = us @ EvSettled rid # vs" using r(2) by (meson split_list)
  then have "pv_trace s = us @ EvSettled rid # (vs @ EvExecute rid task # ys)" using tr by simp
  then have "event_ok L (static s) us (EvSettled rid)" using ok unfolding trace_ok_def by blast
  then have "invoiced us (ru_QuoteResp r) (ru_Invoice r)" using r(1) by (auto simp: static_def)
  then have "invoiced xs (ru_QuoteResp r) (ru_Invoice r)" by (rule invoiced_mono) (auto simp: \<open>xs = us @ EvSettled rid # vs\<close>)
  moreover have "runner_ok L r" using inv r(1) by (fastforce simp: provider_inv_def runners_ok_def dest: map_of_SomeD)
  ultimately show ?thesis using r later unfolding invoiced_def runner_ok_def quote_binds_def by blast
qed

lemma result_event_facts:
  assumes inv: "provider_inv L s \<and> trace_inv L s" and tr: "pv_trace s = xs @ EvSend p t b ok # ys" "result_type t"
  shows "\<exists>rid task r. EvExecute rid task \<in> set xs \<and> map_of (pv_runners s) rid = Some r
    \<and> jk_PeerPubKey (ru_Key r) = p \<and> for_job L (jk_JobID (ru_Key r)) t b"
proof -
  have "event_ok L (static s) xs (EvSend p t b ok)" using inv tr(1) unfolding trace_inv_def trace_ok_def by blast
  then obtain rid task r where r: "EvExecute rid task \<in> set xs" "map_of (pv_runners s) rid = Some r"
      "jk_PeerPubKey (ru_Key r) = p" "for_job L (env_JobID (qs_Envelope (ru_QuoteResp r))) t b"
    using tr(2) by (auto simp: executed_for_def static_def)
  moreover have "runner_ok L r" using inv r(2) by (fastforce simp: provider_inv_def runners_ok_def dest: map_of_SomeD)
  ultimately show ?thesis unfolding runner_ok_def quote_binds_def by auto
qed

section \<open>Properties\<close>

text \<open>
  C1. No compute without payment: over every interleaving of messages, runners and peer
  changes, the backend runs a task only after the settlement of an invoice; the invoice
  was created for the price and with the terms hash of the quote of that runner, the terms
  hash commits to the request, to exactly the input that is executed and to the price, and
  a runner executes once.
\<close>

theorem execution_only_after_settlement:
  assumes "provider_reachable E s" and "tlv_library (pe_tlv E)" and "pe_validator E = DefaultValidator"
    and "pv_trace s = xs @ EvExecute rid task # ys"
  shows "\<exists>r. map_of (pv_runners s) rid = Some r \<and> EvSettled rid \<in> set xs
    \<and> (\<forall>t. EvExecute rid t \<notin> set xs \<and> EvExecute rid t \<notin> set ys)
    \<and> ct_InputBytes task = is_Buf (ru_Input r) \<and> ct_TaskKind task = qr_TaskKind (ru_Req r)
    \<and> handler_computeTermsHash (pe_tlv E) (ru_Req r) (ru_Input r) (qs_QuoteExpiry (ru_QuoteResp r)) (qs_PriceMsat (ru_QuoteResp r))
        = Inr (qs_TermsHash (ru_QuoteResp r))
    \<and> (\<exists>req ivc. EvInvoice req (Inr ivc) \<in> set xs \<and> ir_DescriptionHash req = qs_TermsHash (ru_QuoteResp r)
         \<and> ir_PriceMsat req = qs_PriceMsat (ru_QuoteResp r) \<and> iv_PaymentHash ivc = iv_PaymentHash (ru_Invoice r))"
  using execution_facts [OF provider_reachable_inv [OF assms(1-3)] assms(4)] .

theorem execution_only_after_settlement_witness:
  "\<exists>s xs rid task. provider_reachable sample_env s \<and> pv_trace s = xs @ EvExecute rid task # []
     \<and> ct_InputBytes task = [123, 125] \<and> EvSettled rid \<in> set xs"
proof -
  obtain s xs rid task where s: "provider_reachable sample_env s" "pv_trace s = xs @ EvExecute rid task # []"
    "ct_InputBytes task = [123, 125]" using sample_executed by blast
  have "tlv_library (pe_tlv sample_env)" "pe_validator sample_env = DefaultValidator"
    using bolt.tlv_library_axioms by (simp_all add: sample_env_def)
  from execution_only_after_settlement [OF s(1) this s(2)] s show ?thesis by blast
qed

text \<open>
  C12. The state of the provider in every reachable state: the job store and the replay
  window are within their capacities, the in-flight counter is the number of registered
  runners, no input buffer exceeds the announced length or four megabytes, a validated
  input has the announced length and hash, and the terms hash of a stored quote commits to
  the stored request and input.
\<close>

theorem provider_state_invariant:
  assumes "provider_reachable E s" and "tlv_library (pe_tlv E)" and "pe_validator E = DefaultValidator"
  shows "jobstore_inv (pv_jobs s) \<and> replay_inv (pv_replay s)
    \<and> (length (pv_runners s) < 2 ^ 64 \<longrightarrow> unat (pv_inFlight s) = length (pv_cancels s))
    \<and> (\<forall>k j st. jobstore_Get k (pv_jobs s) = Some j \<longrightarrow> job_InputStream j = Some st \<longrightarrow>
         length (is_Buf st) \<le> unat (is_TotalLen st) \<and> unat (is_TotalLen st) \<le> 4194304
         \<and> (is_Validated st \<longrightarrow> length (is_Buf st) = unat (is_TotalLen st) \<and> sha256 (is_Buf st) = is_SHA256 st))
    \<and> (\<forall>k j r. jobstore_Get k (pv_jobs s) = Some j \<longrightarrow> job_QuoteResponse j = Some r \<longrightarrow>
         (\<exists>st req. job_InputStream j = Some st \<and> is_Validated st \<and> job_QuoteRequest j = Some req
            \<and> handler_computeTermsHash (pe_tlv E) req st (qs_QuoteExpiry r) (qs_PriceMsat r) = Inr (qs_TermsHash r)))"
proof -
  have inv: "provider_inv (pe_tlv E) s" using provider_reachable_inv [OF assms] by simp
  note ok = stored_job_ok(1) [OF inv]
  have "jobstore_inv (pv_jobs s) \<and> replay_inv (pv_replay s)
    \<and> (length (pv_runners s) < 2 ^ 64 \<longrightarrow> unat (pv_inFlight s) = length (pv_cancels s))"
    using inv by (simp add: provider_inv_def jobs_ok_def runners_ok_def)
  moreover have "stream_ok st" if "jobstore_Get k (pv_jobs s) = Some j" "job_InputStream j = Some st" for k j st
    using ok [OF that(1)] that(2) by (simp add: job_ok_def)
  moreover have "\<exists>st req. job_InputStream j = Some st \<and> job_QuoteRequest j = Some req \<and> quote_binds (pe_tlv E) req st r"
    if "jobstore_Get k (pv_jobs s) = Some j" "job_QuoteResponse j = Some r" for k j r
    using ok [OF that(1)] that(2) by (simp add: job_ok_def)
  ultimately show ?thesis unfolding stream_ok_def quote_binds_def by blast
qed

theorem provider_state_invariant_witness:
  "\<exists>s. provider_reachable sample_env s \<and> pv_runners s \<noteq> [] \<and> jobstore_inv (pv_jobs s)"
proof -
  obtain s where s: "provider_reachable sample_env s" "quoted sample_env sample_key sample_request [123, 125] 52 400 sample_start s"
    using sample_quoted by blast
  from s(2) have "pv_runners s \<noteq> []" by (auto simp: quoted_def)
  with provider_state_invariant [OF s(1)] s(1) bolt.tlv_library_axioms show ?thesis
    by (auto simp: sample_env_def)
qed

end
