(* ===== verification/Requester_Wait.thy ===== *)
theory Requester_Wait
  imports Chunking Router
begin

text \<open>
  The waiter of the requester, \<^verbatim>\<open>go-lcpd/internal/requesterwait/waiter.go\<close>: it reassembles result
  streams, matches them with the terminal result and hands quote and result outcomes to the
  calls that wait for them. A channel is a number; what is sent on the channels of waiting
  calls is kept in an inbox per kind of outcome, in the order of the sends, and the events
  published to stream subscribers are kept in order. The lemmas show that no send blocks
  (every channel carries at most one outcome), that an outcome with status ok carries bytes
  with the hash and the length of the terminal result, and that a stream is reassembled
  exactly.
\<close>

section \<open>State\<close>

record quote_outcome =
  qo_QuoteResponse :: "quote_response option"
  qo_Error :: "lcp_error option"

record result_outcome =
  ro_Result :: "lcp_result option"
  ro_ResultBytes :: bytes
  ro_Error :: "lcp_error option"

datatype result_stream_event =
    ResultStreamBegin string string
  | ResultStreamChunk bytes

record stream_state =
  ss_streamID :: hash32
  ss_contentType :: string
  ss_contentEncoding :: string
  ss_expectedSeq :: u32
  ss_buf :: bytes
  ss_beginTotalLen :: "u64 option"
  ss_beginSHA256 :: "hash32 option"
  ss_done :: bool

record wait_entry =
  we_quoteOutcome :: "quote_outcome option"
  we_quoteDelivered :: bool
  we_quoteCh :: "nat option"
  we_resultOutcome :: "result_outcome option"
  we_resultDelivered :: bool
  we_resultCh :: "nat option"
  we_resultStreamSub :: "nat option"
  we_resultStream :: "stream_state option"
  we_terminalResult :: "lcp_result option"
  we_terminalDelivered :: bool

record wait_key =
  wk_peerID :: string
  wk_jobID :: hash32

record waiter =
  wt_entries :: "(wait_key \<times> wait_entry) list"
  wt_maxStreamBytes :: u64
  wt_maxJobBytes :: u64
  wt_nextCh :: nat
  wt_quoteInbox :: "(nat \<times> quote_outcome) list"
  wt_resultInbox :: "(nat \<times> result_outcome) list"
  wt_published :: "(nat \<times> result_stream_event) list"

definition empty_entry :: wait_entry where
  "empty_entry = \<lparr>we_quoteOutcome = None, we_quoteDelivered = False, we_quoteCh = None,
     we_resultOutcome = None, we_resultDelivered = False, we_resultCh = None, we_resultStreamSub = None,
     we_resultStream = None, we_terminalResult = None, we_terminalDelivered = False\<rparr>"

definition waiter_New :: "manifest option \<Rightarrow> waiter" where
  "waiter_New localManifest =
     \<lparr>wt_entries = [],
      wt_maxStreamBytes = (case localManifest of
          Some m \<Rightarrow> if mf_MaxStreamBytes m \<noteq> 0 then mf_MaxStreamBytes m else 4194304 | None \<Rightarrow> 4194304),
      wt_maxJobBytes = (case localManifest of
          Some m \<Rightarrow> if mf_MaxJobBytes m \<noteq> 0 then mf_MaxJobBytes m else 8388608 | None \<Rightarrow> 8388608),
      wt_nextCh = 0, wt_quoteInbox = [], wt_resultInbox = [], wt_published = []\<rparr>"

section \<open>Entries\<close>

definition entryAt :: "wait_key \<Rightarrow> waiter \<Rightarrow> wait_entry" where
  "entryAt k w = (case map_of (wt_entries w) k of Some e \<Rightarrow> e | None \<Rightarrow> empty_entry)"

definition putEntry :: "wait_key \<Rightarrow> wait_entry \<Rightarrow> waiter \<Rightarrow> waiter" where
  "putEntry k e w = w\<lparr>wt_entries := AList.update k e (wt_entries w)\<rparr>"

definition ensureEntryLocked :: "wait_key \<Rightarrow> waiter \<Rightarrow> wait_entry \<times> waiter" where
  "ensureEntryLocked k w = (entryAt k w, putEntry k (entryAt k w) w)"

definition maybeCleanupLocked :: "wait_key \<Rightarrow> wait_entry \<Rightarrow> waiter \<Rightarrow> waiter" where
  "maybeCleanupLocked k e w =
     (if we_resultStreamSub e \<noteq> None then w
      else if we_quoteCh e \<noteq> None \<or> we_resultCh e \<noteq> None then w
      else if \<not> we_quoteDelivered e \<or> \<not> we_resultDelivered e then w
      else w\<lparr>wt_entries := AList.delete k (wt_entries w)\<rparr>)"

section \<open>Deliveries\<close>

definition sendQuoteCh :: "nat option \<Rightarrow> quote_outcome \<Rightarrow> waiter \<Rightarrow> waiter" where
  "sendQuoteCh ch out w =
     (case ch of None \<Rightarrow> w | Some c \<Rightarrow> w\<lparr>wt_quoteInbox := wt_quoteInbox w @ [(c, out)]\<rparr>)"

definition sendResultCh :: "nat option \<Rightarrow> result_outcome \<Rightarrow> waiter \<Rightarrow> waiter" where
  "sendResultCh ch out w =
     (case ch of None \<Rightarrow> w | Some c \<Rightarrow> w\<lparr>wt_resultInbox := wt_resultInbox w @ [(c, out)]\<rparr>)"

definition deliverQuoteResponse :: "string \<Rightarrow> quote_response \<Rightarrow> waiter \<Rightarrow> waiter" where
  "deliverQuoteResponse peer resp w =
     (let k = \<lparr>wk_peerID = peer, wk_jobID = env_JobID (qs_Envelope resp)\<rparr>;
          out = \<lparr>qo_QuoteResponse = Some resp, qo_Error = None\<rparr>;
          (e, w1) = ensureEntryLocked k w;
          e1 = e\<lparr>we_quoteOutcome := Some out, we_quoteCh := None\<rparr>
      in sendQuoteCh (we_quoteCh e) out (maybeCleanupLocked k e1 (putEntry k e1 w1)))"

definition deliverResult :: "string \<Rightarrow> lcp_result \<Rightarrow> bytes \<Rightarrow> waiter \<Rightarrow> waiter" where
  "deliverResult peer res resultBytes w =
     (let k = \<lparr>wk_peerID = peer, wk_jobID = env_JobID (rs_Envelope res)\<rparr>;
          out = \<lparr>ro_Result = Some res, ro_ResultBytes = resultBytes, ro_Error = None\<rparr>;
          (e, w1) = ensureEntryLocked k w;
          e1 = e\<lparr>we_resultOutcome := Some out, we_resultCh := None\<rparr>
      in sendResultCh (we_resultCh e) out (maybeCleanupLocked k e1 (putEntry k e1 w1)))"

definition deliverError :: "string \<Rightarrow> lcp_error \<Rightarrow> waiter \<Rightarrow> waiter" where
  "deliverError peer errMsg w =
     (let k = \<lparr>wk_peerID = peer, wk_jobID = env_JobID (er_Envelope errMsg)\<rparr>;
          out = \<lparr>qo_QuoteResponse = None, qo_Error = Some errMsg\<rparr>;
          outResult = \<lparr>ro_Result = None, ro_ResultBytes = [], ro_Error = Some errMsg\<rparr>;
          (e, w1) = ensureEntryLocked k w;
          e1 = e\<lparr>we_quoteOutcome := Some out, we_quoteCh := None,
                 we_resultOutcome := Some outResult, we_resultCh := None\<rparr>
      in sendResultCh (we_resultCh e) outResult
           (sendQuoteCh (we_quoteCh e) out (maybeCleanupLocked k e1 (putEntry k e1 w1))))"

definition deliverProtocolError :: "string \<Rightarrow> job_envelope \<Rightarrow> u16 \<Rightarrow> string \<Rightarrow> waiter \<Rightarrow> waiter" where
  "deliverProtocolError peer env code message w =
     deliverError peer \<lparr>er_Envelope = env, er_Code = code, er_Message = Some message\<rparr> w"

definition tryDeliverResult :: "string \<Rightarrow> lcp_result \<Rightarrow> bytes \<Rightarrow> string \<Rightarrow> string \<Rightarrow> waiter \<Rightarrow> waiter" where
  "tryDeliverResult peer terminal resultBytes streamContentType streamContentEncoding w =
     (let mismatch = (\<lambda>text. deliverProtocolError peer (rs_Envelope terminal) ErrorCodeChecksumMismatch text w) in
      case (if rs_Status terminal \<noteq> ResultStatusOK then None else rs_OK terminal) of
        None \<Rightarrow> deliverResult peer terminal resultBytes w
      | Some ok \<Rightarrow>
          if sha256 resultBytes \<noteq> ok_ResultHash ok then mismatch ''result_hash mismatch''
          else if word_of_nat (length resultBytes) \<noteq> ok_ResultLen ok then mismatch ''result_len mismatch''
          else if streamContentType \<noteq> [] \<and> streamContentType \<noteq> ok_ResultContentType ok
          then mismatch ''result_content_type mismatch''
          else if streamContentEncoding \<noteq> [] \<and> streamContentEncoding \<noteq> ok_ResultContentEncoding ok
          then mismatch ''result_content_encoding mismatch''
          else deliverResult peer terminal resultBytes w)"

definition publishResultStreamEvent :: "nat option \<Rightarrow> result_stream_event \<Rightarrow> waiter \<Rightarrow> waiter" where
  "publishResultStreamEvent sub ev w =
     (case sub of None \<Rightarrow> w | Some c \<Rightarrow> w\<lparr>wt_published := wt_published w @ [(c, ev)]\<rparr>)"

section \<open>Inbound messages\<close>

definition waiter_handleStreamBegin :: "string \<Rightarrow> stream_begin \<Rightarrow> waiter \<Rightarrow> waiter" where
  "waiter_handleStreamBegin peer begin w =
     (if sb_Kind begin \<noteq> StreamKindResult then w
      else if sb_ContentEncoding begin \<noteq> ''identity''
      then deliverProtocolError peer (sb_Envelope begin) ErrorCodeUnsupportedEncoding ''unsupported content_encoding'' w
      else if (case sb_TotalLen begin of None \<Rightarrow> False
                | Some totalLen \<Rightarrow> wt_maxStreamBytes w < totalLen \<or> wt_maxJobBytes w < totalLen)
      then deliverProtocolError peer (sb_Envelope begin) ErrorCodePayloadTooLarge ''result stream exceeds local limits'' w
      else
        (let k = \<lparr>wk_peerID = peer, wk_jobID = env_JobID (sb_Envelope begin)\<rparr>;
             (e, w1) = ensureEntryLocked k w
         in if (case we_resultStream e of None \<Rightarrow> False | Some st \<Rightarrow> \<not> ss_done st) then w1
            else publishResultStreamEvent (we_resultStreamSub e)
                   (ResultStreamBegin (sb_ContentType begin) (sb_ContentEncoding begin))
                   (putEntry k (e\<lparr>we_resultStream := Some
                      \<lparr>ss_streamID = sb_StreamID begin, ss_contentType = sb_ContentType begin,
                       ss_contentEncoding = sb_ContentEncoding begin, ss_expectedSeq = 0, ss_buf = [],
                       ss_beginTotalLen = sb_TotalLen begin, ss_beginSHA256 = sb_SHA256 begin, ss_done = False\<rparr>\<rparr>) w1)))"

definition waiter_handleStreamChunk :: "string \<Rightarrow> stream_chunk \<Rightarrow> waiter \<Rightarrow> waiter" where
  "waiter_handleStreamChunk peer chunk w =
     (let k = \<lparr>wk_peerID = peer, wk_jobID = env_JobID (sc_Envelope chunk)\<rparr>;
          (e, w1) = ensureEntryLocked k w
      in case we_resultStream e of
           None \<Rightarrow> w1
         | Some st \<Rightarrow>
             if ss_done st then w1
             else if ss_streamID st \<noteq> sc_StreamID chunk then w1
             else if sc_Seq chunk < ss_expectedSeq st then w1
             else if ss_expectedSeq st < sc_Seq chunk
             then deliverProtocolError peer (sc_Envelope chunk) ErrorCodeChunkOutOfOrder ''chunk out of order'' w1
             else
               (let nextLen = (word_of_nat (length (ss_buf st)) :: u64) + word_of_nat (length (chunkData chunk)) in
                if wt_maxStreamBytes w < nextLen \<or> wt_maxJobBytes w < nextLen
                then deliverProtocolError peer (sc_Envelope chunk) ErrorCodePayloadTooLarge
                       ''result stream exceeds local limits'' w1
                else publishResultStreamEvent (we_resultStreamSub e) (ResultStreamChunk (chunkData chunk))
                       (putEntry k (e\<lparr>we_resultStream := Some
                          (st\<lparr>ss_buf := ss_buf st @ chunkData chunk, ss_expectedSeq := ss_expectedSeq st + 1\<rparr>)\<rparr>) w1)))"

definition waiter_handleStreamEnd :: "string \<Rightarrow> stream_end \<Rightarrow> waiter \<Rightarrow> waiter" where
  "waiter_handleStreamEnd peer fin w =
     (let k = \<lparr>wk_peerID = peer, wk_jobID = env_JobID (se_Envelope fin)\<rparr>;
          (e, w1) = ensureEntryLocked k w
      in case we_resultStream e of
           None \<Rightarrow> w1
         | Some st \<Rightarrow>
             if ss_done st then w1
             else if ss_streamID st \<noteq> se_StreamID fin then w1
             else
               (let w2 = putEntry k (e\<lparr>we_resultStream := Some (st\<lparr>ss_done := True\<rparr>)\<rparr>) w1 in
                if word_of_nat (length (ss_buf st)) \<noteq> se_TotalLen fin
                then deliverProtocolError peer (se_Envelope fin) ErrorCodeChecksumMismatch ''stream total_len mismatch'' w2
                else if sha256 (ss_buf st) \<noteq> se_SHA256 fin
                then deliverProtocolError peer (se_Envelope fin) ErrorCodeChecksumMismatch ''stream sha256 mismatch'' w2
                else (case we_terminalResult e of
                    None \<Rightarrow> w2
                  | Some terminal \<Rightarrow>
                      tryDeliverResult peer terminal (ss_buf st) (ss_contentType st) (ss_contentEncoding st) w2)))"

definition handleTerminalResult :: "string \<Rightarrow> lcp_result \<Rightarrow> waiter \<Rightarrow> waiter" where
  "handleTerminalResult peer res w =
     (let k = \<lparr>wk_peerID = peer, wk_jobID = env_JobID (rs_Envelope res)\<rparr>;
          (e, w1) = ensureEntryLocked k w
      in if we_terminalDelivered e then w1
         else
           (let w2 = putEntry k (e\<lparr>we_terminalResult := Some res, we_terminalDelivered := True\<rparr>) w1 in
            if rs_Status res \<noteq> ResultStatusOK then deliverResult peer res [] w2
            else (case we_resultStream e of
                None \<Rightarrow> w2
              | Some st \<Rightarrow>
                  if \<not> ss_done st then w2
                  else tryDeliverResult peer res (ss_buf st) (ss_contentType st) (ss_contentEncoding st) w2)))"

definition waiter_HandleInboundCustomMessage :: "tlv_lib \<Rightarrow> custom_message \<Rightarrow> waiter \<Rightarrow> waiter" where
  "waiter_HandleInboundCustomMessage L msg w =
     (let peer = cm_PeerPubKey msg in if cm_MsgType msg = MessageTypeQuoteResponse
         then (case DecodeQuoteResponse L (cm_Payload msg) of Inl err \<Rightarrow> w | Inr resp \<Rightarrow> deliverQuoteResponse peer resp w)
         else if cm_MsgType msg = MessageTypeStreamBegin
         then (case DecodeStreamBegin L (cm_Payload msg) of Inl err \<Rightarrow> w | Inr begin \<Rightarrow> waiter_handleStreamBegin peer begin w)
         else if cm_MsgType msg = MessageTypeStreamChunk
         then (case DecodeStreamChunk L (cm_Payload msg) of Inl err \<Rightarrow> w | Inr chunk \<Rightarrow> waiter_handleStreamChunk peer chunk w)
         else if cm_MsgType msg = MessageTypeStreamEnd
         then (case DecodeStreamEnd L (cm_Payload msg) of Inl err \<Rightarrow> w | Inr fin \<Rightarrow> waiter_handleStreamEnd peer fin w)
         else if cm_MsgType msg = MessageTypeResult
         then (case DecodeResult L (cm_Payload msg) of Inl err \<Rightarrow> w | Inr res \<Rightarrow> handleTerminalResult peer res w)
         else if cm_MsgType msg = MessageTypeError
         then (case DecodeError L (cm_Payload msg) of Inl err \<Rightarrow> w | Inr errMsg \<Rightarrow> deliverError peer errMsg w)
         else w)"

section \<open>Waiting calls\<close>

text \<open>
  A waiting call blocks between its registration and a receive or the end of its context, so
  it is cut there: the first part returns an outcome, an error, or the channel it waits on.
\<close>

datatype 'a wait_start =
    WaitNow 'a
  | WaitError goerror
  | WaitOn nat

definition waiter_ErrPeerIDRequired :: goerror where
  "waiter_ErrPeerIDRequired = sentinel ''waiter_ErrPeerIDRequired'' ''peer_id is required''"
definition ErrAlreadyWaitingQuote :: goerror where
  "ErrAlreadyWaitingQuote = sentinel ''ErrAlreadyWaitingQuote'' ''quote waiter already registered''"
definition ErrAlreadyWaitingResult :: goerror where
  "ErrAlreadyWaitingResult = sentinel ''ErrAlreadyWaitingResult'' ''result waiter already registered''"
definition ErrAlreadySubscribed :: goerror where
  "ErrAlreadySubscribed = sentinel ''ErrAlreadySubscribed'' ''result stream subscriber already registered''"

definition WaitQuoteResponse :: "string \<Rightarrow> hash32 \<Rightarrow> waiter \<Rightarrow> quote_outcome wait_start \<times> waiter" where
  "WaitQuoteResponse peer jobID w =
     (if peer = [] then (WaitError waiter_ErrPeerIDRequired, w)
      else
        (let k = \<lparr>wk_peerID = peer, wk_jobID = jobID\<rparr>; (e, w1) = ensureEntryLocked k w in
         case we_quoteOutcome e of
           Some out \<Rightarrow>
             (let e1 = e\<lparr>we_quoteDelivered := True\<rparr> in (WaitNow out, maybeCleanupLocked k e1 (putEntry k e1 w1)))
         | None \<Rightarrow>
             if we_quoteCh e \<noteq> None then (WaitError ErrAlreadyWaitingQuote, w1)
             else (WaitOn (wt_nextCh w1),
                   putEntry k (e\<lparr>we_quoteCh := Some (wt_nextCh w1)\<rparr>) (w1\<lparr>wt_nextCh := Suc (wt_nextCh w1)\<rparr>))))"

definition WaitResult :: "string \<Rightarrow> hash32 \<Rightarrow> waiter \<Rightarrow> result_outcome wait_start \<times> waiter" where
  "WaitResult peer jobID w =
     (if peer = [] then (WaitError waiter_ErrPeerIDRequired, w)
      else
        (let k = \<lparr>wk_peerID = peer, wk_jobID = jobID\<rparr>; (e, w1) = ensureEntryLocked k w in
         case we_resultOutcome e of
           Some out \<Rightarrow>
             (let e1 = e\<lparr>we_resultDelivered := True\<rparr> in (WaitNow out, maybeCleanupLocked k e1 (putEntry k e1 w1)))
         | None \<Rightarrow>
             if we_resultCh e \<noteq> None then (WaitError ErrAlreadyWaitingResult, w1)
             else (WaitOn (wt_nextCh w1),
                   putEntry k (e\<lparr>we_resultCh := Some (wt_nextCh w1)\<rparr>) (w1\<lparr>wt_nextCh := Suc (wt_nextCh w1)\<rparr>))))"

text \<open>The two ends of a blocked call: an outcome was received, or the context ended.\<close>

definition receivedQuote :: "wait_key \<Rightarrow> waiter \<Rightarrow> waiter" where
  "receivedQuote k w =
     (case map_of (wt_entries w) k of
        None \<Rightarrow> w
      | Some e \<Rightarrow> (let e1 = e\<lparr>we_quoteDelivered := True\<rparr> in maybeCleanupLocked k e1 (putEntry k e1 w)))"

definition receivedResult :: "wait_key \<Rightarrow> waiter \<Rightarrow> waiter" where
  "receivedResult k w =
     (case map_of (wt_entries w) k of
        None \<Rightarrow> w
      | Some e \<Rightarrow> (let e1 = e\<lparr>we_resultDelivered := True\<rparr> in maybeCleanupLocked k e1 (putEntry k e1 w)))"

definition cancelledQuoteWait :: "wait_key \<Rightarrow> nat \<Rightarrow> waiter \<Rightarrow> waiter" where
  "cancelledQuoteWait k ch w =
     (case map_of (wt_entries w) k of
        None \<Rightarrow> w
      | Some e \<Rightarrow>
          if we_quoteCh e = Some ch
          then (let e1 = e\<lparr>we_quoteCh := None\<rparr> in maybeCleanupLocked k e1 (putEntry k e1 w)) else w)"

definition cancelledResultWait :: "wait_key \<Rightarrow> nat \<Rightarrow> waiter \<Rightarrow> waiter" where
  "cancelledResultWait k ch w =
     (case map_of (wt_entries w) k of
        None \<Rightarrow> w
      | Some e \<Rightarrow>
          if we_resultCh e = Some ch
          then (let e1 = e\<lparr>we_resultCh := None\<rparr> in maybeCleanupLocked k e1 (putEntry k e1 w)) else w)"

definition SubscribeResultStream :: "string \<Rightarrow> hash32 \<Rightarrow> waiter \<Rightarrow> nat res \<times> waiter" where
  "SubscribeResultStream peer jobID w =
     (if peer = [] then (Inl waiter_ErrPeerIDRequired, w)
      else
        (let k = \<lparr>wk_peerID = peer, wk_jobID = jobID\<rparr>; (e, w1) = ensureEntryLocked k w in
         if we_resultStreamSub e \<noteq> None then (Inl ErrAlreadySubscribed, w1)
         else (Inr (wt_nextCh w1),
               putEntry k (e\<lparr>we_resultStreamSub := Some (wt_nextCh w1)\<rparr>) (w1\<lparr>wt_nextCh := Suc (wt_nextCh w1)\<rparr>))))"

definition unsubscribe :: "wait_key \<Rightarrow> nat \<Rightarrow> waiter \<Rightarrow> waiter" where
  "unsubscribe k ch w =
     (case map_of (wt_entries w) k of
        None \<Rightarrow> w
      | Some e \<Rightarrow>
          if we_resultStreamSub e = Some ch
          then (let e1 = e\<lparr>we_resultStreamSub := None\<rparr> in maybeCleanupLocked k e1 (putEntry k e1 w)) else w)"

section \<open>Lookups\<close>

lemma entryAt_put [simp]: "entryAt k (putEntry k' e w) = (if k = k' then e else entryAt k w)"
  by (simp add: entryAt_def putEntry_def)

lemma putEntry_frame [simp]:
  "wt_maxStreamBytes (putEntry k e w) = wt_maxStreamBytes w" "wt_maxJobBytes (putEntry k e w) = wt_maxJobBytes w"
  "wt_nextCh (putEntry k e w) = wt_nextCh w" "wt_quoteInbox (putEntry k e w) = wt_quoteInbox w"
  "wt_resultInbox (putEntry k e w) = wt_resultInbox w" "wt_published (putEntry k e w) = wt_published w"
  "map_of (wt_entries (putEntry k e w)) x = (if x = k then Some e else map_of (wt_entries w) x)"
  "gomap_wf (wt_entries w) \<Longrightarrow> gomap_wf (wt_entries (putEntry k e w))"
  by (simp_all add: putEntry_def)

lemma put_put [simp]: "gomap_wf (wt_entries w) \<Longrightarrow> map_of (wt_entries (putEntry k e (putEntry k e' w))) = (map_of (wt_entries w))(k \<mapsto> e)"
  by (rule ext) simp

text \<open>An entry goes when both outcomes were delivered and nobody is registered.\<close>

definition finished :: "wait_entry \<Rightarrow> bool" where
  "finished e \<longleftrightarrow> we_resultStreamSub e = None \<and> we_quoteCh e = None \<and> we_resultCh e = None
     \<and> we_quoteDelivered e \<and> we_resultDelivered e"

lemma cleanup_eq: "maybeCleanupLocked k e w = (if finished e then w\<lparr>wt_entries := AList.delete k (wt_entries w)\<rparr> else w)"
  by (simp add: maybeCleanupLocked_def finished_def)

lemma cleanup_frame [simp]:
  "wt_maxStreamBytes (maybeCleanupLocked k e w) = wt_maxStreamBytes w" "wt_maxJobBytes (maybeCleanupLocked k e w) = wt_maxJobBytes w"
  "wt_nextCh (maybeCleanupLocked k e w) = wt_nextCh w" "wt_quoteInbox (maybeCleanupLocked k e w) = wt_quoteInbox w"
  "wt_resultInbox (maybeCleanupLocked k e w) = wt_resultInbox w" "wt_published (maybeCleanupLocked k e w) = wt_published w"
  "map_of (wt_entries (maybeCleanupLocked k e w)) x = (if x = k \<and> finished e then None else map_of (wt_entries w) x)"
  "gomap_wf (wt_entries w) \<Longrightarrow> gomap_wf (wt_entries (maybeCleanupLocked k e w))"
  by (simp_all add: cleanup_eq)

lemma send_frame [simp]:
  "wt_entries (sendQuoteCh ch o1 w) = wt_entries w" "wt_entries (sendResultCh ch o2 w) = wt_entries w"
  "wt_entries (publishResultStreamEvent sub ev w) = wt_entries w"
  "wt_maxStreamBytes (sendQuoteCh ch o1 w) = wt_maxStreamBytes w" "wt_maxStreamBytes (sendResultCh ch o2 w) = wt_maxStreamBytes w"
  "wt_maxStreamBytes (publishResultStreamEvent sub ev w) = wt_maxStreamBytes w"
  "wt_maxJobBytes (sendQuoteCh ch o1 w) = wt_maxJobBytes w" "wt_maxJobBytes (sendResultCh ch o2 w) = wt_maxJobBytes w"
  "wt_maxJobBytes (publishResultStreamEvent sub ev w) = wt_maxJobBytes w"
  "wt_nextCh (sendQuoteCh ch o1 w) = wt_nextCh w" "wt_nextCh (sendResultCh ch o2 w) = wt_nextCh w"
  "wt_nextCh (publishResultStreamEvent sub ev w) = wt_nextCh w"
  "wt_quoteInbox (sendResultCh ch o2 w) = wt_quoteInbox w" "wt_resultInbox (sendQuoteCh ch o1 w) = wt_resultInbox w"
  "wt_quoteInbox (publishResultStreamEvent sub ev w) = wt_quoteInbox w"
  "wt_resultInbox (publishResultStreamEvent sub ev w) = wt_resultInbox w"
  by (simp_all add: sendQuoteCh_def sendResultCh_def publishResultStreamEvent_def split: option.splits)

lemma inbox_send [simp]:
  "wt_quoteInbox (sendQuoteCh ch o1 w) = wt_quoteInbox w @ (case ch of None \<Rightarrow> [] | Some c \<Rightarrow> [(c, o1)])"
  "wt_resultInbox (sendResultCh ch o2 w) = wt_resultInbox w @ (case ch of None \<Rightarrow> [] | Some c \<Rightarrow> [(c, o2)])"
  by (simp_all add: sendQuoteCh_def sendResultCh_def split: option.splits)

section \<open>Delivered results are verified\<close>

definition outcome_ok :: "result_outcome \<Rightarrow> bool" where
  "outcome_ok out \<longleftrightarrow> (\<forall>res. ro_Result out = Some res \<longrightarrow> rs_Status res = ResultStatusOK \<longrightarrow>
     (\<exists>ok. rs_OK res = Some ok \<and> sha256 (ro_ResultBytes out) = ok_ResultHash ok
        \<and> word_of_nat (length (ro_ResultBytes out)) = ok_ResultLen ok))"

definition terminal_ok :: "lcp_result \<Rightarrow> bool" where
  "terminal_ok res \<longleftrightarrow> (rs_Status res = ResultStatusOK \<longrightarrow> rs_OK res \<noteq> None)"

definition entry_ok :: "u64 \<Rightarrow> wait_entry \<Rightarrow> bool" where
  "entry_ok lim e \<longleftrightarrow> (\<forall>out. we_resultOutcome e = Some out \<longrightarrow> outcome_ok out)
     \<and> (\<forall>res. we_terminalResult e = Some res \<longrightarrow> terminal_ok res)
     \<and> (\<forall>st. we_resultStream e = Some st \<longrightarrow> length (ss_buf st) \<le> unat lim)"

definition data_inv :: "waiter \<Rightarrow> bool" where
  "data_inv w \<longleftrightarrow> gomap_wf (wt_entries w) \<and> (\<forall>k e. map_of (wt_entries w) k = Some e \<longrightarrow> entry_ok (wt_maxStreamBytes w) e)
     \<and> (\<forall>(c, out) \<in> set (wt_resultInbox w). outcome_ok out)"

lemma entry_ok_empty [simp]: "entry_ok lim empty_entry"
  by (simp add: entry_ok_def empty_entry_def)

lemma data_inv_entryAt: "data_inv w \<Longrightarrow> entry_ok (wt_maxStreamBytes w) (entryAt k w)"
  by (auto simp: data_inv_def entryAt_def split: option.splits)

lemma data_inv_put: "data_inv w \<Longrightarrow> entry_ok (wt_maxStreamBytes w) e \<Longrightarrow> data_inv (putEntry k e w)"
  by (auto simp: data_inv_def)

lemma data_inv_cleanup: "data_inv w \<Longrightarrow> data_inv (maybeCleanupLocked k e w)"
  by (auto simp: data_inv_def)

lemma data_inv_sends:
  "data_inv w \<Longrightarrow> data_inv (sendQuoteCh ch o1 w)"
  "data_inv w \<Longrightarrow> outcome_ok o2 \<Longrightarrow> data_inv (sendResultCh ch o2 w)"
  "data_inv w \<Longrightarrow> data_inv (publishResultStreamEvent sub ev w)"
  by (auto simp: data_inv_def split: option.splits)

lemma entry_ok_fields [simp]:
  "entry_ok lim (e\<lparr>we_quoteOutcome := q\<rparr>) = entry_ok lim e" "entry_ok lim (e\<lparr>we_quoteCh := c\<rparr>) = entry_ok lim e"
  "entry_ok lim (e\<lparr>we_resultCh := c\<rparr>) = entry_ok lim e" "entry_ok lim (e\<lparr>we_quoteDelivered := b\<rparr>) = entry_ok lim e"
  "entry_ok lim (e\<lparr>we_resultDelivered := b\<rparr>) = entry_ok lim e" "entry_ok lim (e\<lparr>we_resultStreamSub := c\<rparr>) = entry_ok lim e"
  "entry_ok lim (e\<lparr>we_terminalDelivered := b\<rparr>) = entry_ok lim e"
  by (simp_all add: entry_ok_def)

lemmas data_inv_ops = data_inv_put data_inv_cleanup data_inv_sends data_inv_entryAt

lemma data_inv_ensure: "data_inv w \<Longrightarrow> data_inv (snd (ensureEntryLocked k w))"
  by (simp add: ensureEntryLocked_def data_inv_ops)

lemma data_inv_deliverQuoteResponse: "data_inv w \<Longrightarrow> data_inv (deliverQuoteResponse p r w)"
  by (simp add: deliverQuoteResponse_def ensureEntryLocked_def Let_def data_inv_ops)

lemma data_inv_deliverResult:
  assumes "data_inv w" and "outcome_ok \<lparr>ro_Result = Some res, ro_ResultBytes = b, ro_Error = None\<rparr>"
  shows "data_inv (deliverResult p res b w)"
proof -
  have "entry_ok lim (e\<lparr>we_resultOutcome := Some \<lparr>ro_Result = Some res, ro_ResultBytes = b, ro_Error = None\<rparr>\<rparr>)"
    if "entry_ok lim e" for lim e
    using that assms(2) by (simp add: entry_ok_def)
  with assms show ?thesis by (simp add: deliverResult_def ensureEntryLocked_def Let_def data_inv_ops)
qed

lemma data_inv_deliverError: "data_inv w \<Longrightarrow> data_inv (deliverError p err w)"
proof -
  have "entry_ok lim (e\<lparr>we_resultOutcome := Some \<lparr>ro_Result = None, ro_ResultBytes = [], ro_Error = x\<rparr>\<rparr>)"
    if "entry_ok lim e" for lim e x
    using that by (simp add: entry_ok_def outcome_ok_def)
  then show "data_inv w \<Longrightarrow> ?thesis"
    by (simp add: deliverError_def ensureEntryLocked_def Let_def data_inv_ops outcome_ok_def)
qed

lemma data_inv_protocolError: "data_inv w \<Longrightarrow> data_inv (deliverProtocolError p env c m w)"
  by (simp add: deliverProtocolError_def data_inv_deliverError)

lemma data_inv_tryDeliver:
  assumes "data_inv w" and "terminal_ok res"
  shows "data_inv (tryDeliverResult p res b ct ce w)"
  using assms
  by (auto simp: tryDeliverResult_def Let_def outcome_ok_def terminal_ok_def data_inv_protocolError
      intro!: data_inv_deliverResult split: option.splits)

lemma entry_ok_stream:
  "entry_ok lim e \<Longrightarrow> length (ss_buf st) \<le> unat lim \<Longrightarrow> entry_ok lim (e\<lparr>we_resultStream := Some st\<rparr>)"
  by (simp add: entry_ok_def)

lemma data_inv_handleStreamBegin: "data_inv w \<Longrightarrow> data_inv (waiter_handleStreamBegin p b w)"
  by (auto simp: waiter_handleStreamBegin_def ensureEntryLocked_def Let_def data_inv_protocolError
      intro!: data_inv_ops entry_ok_stream split: option.splits)

lemma unat_len_sum:
  assumes "a \<le> unat (lim :: u64)" and "b \<le> 65535" and "\<not> lim < word_of_nat a + word_of_nat b"
    and "unat lim \<le> 9223372036854775808"
  shows "a + b \<le> unat lim"
proof -
  have "a + b < 18446744073709551616" using assms(1,2,4) by linarith
  then have u: "unat (word_of_nat (a + b) :: u64) = a + b" by (simp only: unat_of_nat) simp
  have "\<not> lim < word_of_nat (a + b)" using assms(3) by simp
  then show ?thesis by (simp only: word_less_nat_alt u not_less)
qed

lemma data_inv_handleStreamChunk:
  assumes "data_inv w" and "length (chunkData c) \<le> 65535" and "unat (wt_maxStreamBytes w) \<le> 9223372036854775808"
  shows "data_inv (waiter_handleStreamChunk p c w)"
proof -
  let ?k = "\<lparr>wk_peerID = p, wk_jobID = env_JobID (sc_Envelope c)\<rparr>"
  have e: "entry_ok (wt_maxStreamBytes w) (entryAt ?k w)" using assms(1) by (rule data_inv_entryAt)
  have len: "length (ss_buf st @ chunkData c) \<le> unat (wt_maxStreamBytes w)"
    if "we_resultStream (entryAt ?k w) = Some st"
      "\<not> wt_maxStreamBytes w < word_of_nat (length (ss_buf st)) + word_of_nat (length (chunkData c))" for st
    using unat_len_sum [OF _ assms(2) that(2) assms(3)] e that(1) by (simp add: entry_ok_def)
  show ?thesis
    using assms(1) e len
    by (auto simp: waiter_handleStreamChunk_def ensureEntryLocked_def Let_def
        intro!: data_inv_protocolError data_inv_ops entry_ok_stream split: option.splits)
qed

lemma data_inv_handleStreamEnd: "data_inv w \<Longrightarrow> data_inv (waiter_handleStreamEnd p f w)"
proof -
  assume inv: "data_inv w"
  let ?k = "\<lparr>wk_peerID = p, wk_jobID = env_JobID (se_Envelope f)\<rparr>"
  have e: "entry_ok (wt_maxStreamBytes w) (entryAt ?k w)" using inv by (rule data_inv_entryAt)
  have put: "data_inv (putEntry ?k (entryAt ?k w\<lparr>we_resultStream := Some (st\<lparr>ss_done := True\<rparr>)\<rparr>) (putEntry ?k (entryAt ?k w) w))"
    if "we_resultStream (entryAt ?k w) = Some st" for st
    using inv e that by (intro data_inv_put entry_ok_stream) (auto simp: entry_ok_def)
  have put0: "data_inv (putEntry ?k (entryAt ?k w) w)" using inv e by (rule data_inv_put)
  have t: "terminal_ok res" if "we_terminalResult (entryAt ?k w) = Some res" for res
    using e that by (simp add: entry_ok_def)
  show ?thesis
    by (simp add: waiter_handleStreamEnd_def ensureEntryLocked_def Let_def put put0 t data_inv_protocolError
        data_inv_tryDeliver split: option.split)
qed

lemma data_inv_handleTerminalResult:
  assumes "data_inv w" and "terminal_ok res"
  shows "data_inv (handleTerminalResult p res w)"
proof -
  let ?k = "\<lparr>wk_peerID = p, wk_jobID = env_JobID (rs_Envelope res)\<rparr>"
  have e: "entry_ok (wt_maxStreamBytes w) (entryAt ?k w)" using assms(1) by (rule data_inv_entryAt)
  then have "data_inv (putEntry ?k (entryAt ?k w\<lparr>we_terminalResult := Some res, we_terminalDelivered := True\<rparr>) (putEntry ?k (entryAt ?k w) w))"
    using assms by (intro data_inv_put) (auto simp: entry_ok_def)
  with assms e show ?thesis
    by (auto simp: handleTerminalResult_def ensureEntryLocked_def Let_def
        intro!: data_inv_put data_inv_tryDeliver data_inv_deliverResult split: option.splits)
      (simp_all add: outcome_ok_def)
qed

lemma DecodeResult_terminal_ok: "DecodeResult L b = Inr res \<Longrightarrow> terminal_ok res"
  by (auto simp: DecodeResult_def terminal_ok_def res_simps split: if_splits)

lemma waiter_limits [simp]:
  "wt_maxStreamBytes (deliverError p err w) = wt_maxStreamBytes w"
  "wt_maxStreamBytes (deliverResult p res b w) = wt_maxStreamBytes w"
  "wt_maxStreamBytes (deliverQuoteResponse p q w) = wt_maxStreamBytes w"
  by (simp_all add: deliverError_def deliverResult_def deliverQuoteResponse_def ensureEntryLocked_def Let_def)

lemma tryDeliver_limits [simp]: "wt_maxStreamBytes (tryDeliverResult p res b ct ce w) = wt_maxStreamBytes w"
  by (simp add: tryDeliverResult_def deliverProtocolError_def Let_def split: option.split)

lemma handler_limits [simp]:
  "wt_maxStreamBytes (waiter_handleStreamBegin p sb w) = wt_maxStreamBytes w"
  "wt_maxStreamBytes (waiter_handleStreamChunk p sc w) = wt_maxStreamBytes w"
  "wt_maxStreamBytes (waiter_handleStreamEnd p se w) = wt_maxStreamBytes w"
  "wt_maxStreamBytes (handleTerminalResult p res w) = wt_maxStreamBytes w"
  by (simp_all add: waiter_handleStreamBegin_def waiter_handleStreamChunk_def waiter_handleStreamEnd_def
      handleTerminalResult_def deliverProtocolError_def ensureEntryLocked_def Let_def split: option.split)

lemma HandleInbound_limits [simp]:
  "wt_maxStreamBytes (waiter_HandleInboundCustomMessage L msg w) = wt_maxStreamBytes w"
  by (simp add: waiter_HandleInboundCustomMessage_def Let_def split: sum.split)

lemma data_inv_HandleInbound:
  assumes "tlv_library L" and "data_inv w" and "unat (wt_maxStreamBytes w) \<le> 9223372036854775808"
  shows "data_inv (waiter_HandleInboundCustomMessage L msg w)"
  using assms
  by (auto simp: waiter_HandleInboundCustomMessage_def Let_def data_inv_deliverQuoteResponse data_inv_handleStreamBegin
      data_inv_handleStreamEnd data_inv_deliverError
      intro!: data_inv_handleStreamChunk data_inv_handleTerminalResult
      dest: DecodeResult_terminal_ok chunk_data_length [OF assms(1)] split: sum.splits)

section \<open>Events\<close>

datatype waiter_event =
    WInbound custom_message
  | WWaitQuote string hash32
  | WWaitResult string hash32
  | WReceivedQuote wait_key
  | WReceivedResult wait_key
  | WCancelledQuote wait_key nat
  | WCancelledResult wait_key nat
  | WSubscribe string hash32
  | WUnsubscribe wait_key nat

fun waiter_step :: "tlv_lib \<Rightarrow> waiter_event \<Rightarrow> waiter \<Rightarrow> waiter" where
  "waiter_step L (WInbound msg) w = waiter_HandleInboundCustomMessage L msg w"
| "waiter_step L (WWaitQuote p j) w = snd (WaitQuoteResponse p j w)"
| "waiter_step L (WWaitResult p j) w = snd (WaitResult p j w)"
| "waiter_step L (WReceivedQuote k) w = receivedQuote k w"
| "waiter_step L (WReceivedResult k) w = receivedResult k w"
| "waiter_step L (WCancelledQuote k c) w = cancelledQuoteWait k c w"
| "waiter_step L (WCancelledResult k c) w = cancelledResultWait k c w"
| "waiter_step L (WSubscribe p j) w = snd (SubscribeResultStream p j w)"
| "waiter_step L (WUnsubscribe k c) w = unsubscribe k c w"

lemma step_limits [simp]: "wt_maxStreamBytes (waiter_step L ev w) = wt_maxStreamBytes w"
  by (cases ev) (auto simp: WaitQuoteResponse_def WaitResult_def receivedQuote_def receivedResult_def
      cancelledQuoteWait_def cancelledResultWait_def SubscribeResultStream_def unsubscribe_def
      ensureEntryLocked_def Let_def split: option.splits)

lemma data_inv_nextCh: "data_inv (w\<lparr>wt_nextCh := n\<rparr>) = data_inv w"
  by (simp add: data_inv_def)

lemma putEntry_nextCh: "putEntry k e (w\<lparr>wt_nextCh := n\<rparr>) = (putEntry k e w)\<lparr>wt_nextCh := n\<rparr>"
  by (simp add: putEntry_def)

lemma data_inv_lookup: "data_inv w \<Longrightarrow> map_of (wt_entries w) k = Some e \<Longrightarrow> entry_ok (wt_maxStreamBytes w) e"
  by (simp add: data_inv_def)

lemma data_inv_step:
  assumes "tlv_library L" and "data_inv w" and "unat (wt_maxStreamBytes w) \<le> 9223372036854775808"
  shows "data_inv (waiter_step L ev w)"
  using assms
  by (cases ev) (auto simp: data_inv_HandleInbound WaitQuoteResponse_def WaitResult_def receivedQuote_def receivedResult_def
      cancelledQuoteWait_def cancelledResultWait_def SubscribeResultStream_def unsubscribe_def
      ensureEntryLocked_def Let_def putEntry_nextCh data_inv_nextCh data_inv_ops data_inv_lookup split: option.splits)

lemma data_inv_fold:
  assumes "tlv_library L" and "data_inv w" and "unat (wt_maxStreamBytes w) \<le> 9223372036854775808"
  shows "data_inv (fold (waiter_step L) evs w)"
  using assms(2,3)
  by (induction evs arbitrary: w) (simp_all add: data_inv_step [OF assms(1)])

section \<open>Reassembly\<close>

text \<open>
  A job whose result stream is being received: the announced stream and its content type,
  the next sequence number and the bytes so far; no terminal result yet, and a call that
  waits on the channel \<open>c\<close>.
\<close>

definition receiving :: "waiter \<Rightarrow> wait_key \<Rightarrow> nat \<Rightarrow> hash32 \<Rightarrow> string \<Rightarrow> u32 \<Rightarrow> bytes \<Rightarrow> bool" where
  "receiving w k c sid ct seq buf \<longleftrightarrow>
     (\<exists>st. we_resultStream (entryAt k w) = Some st \<and> ss_streamID st = sid \<and> ss_contentType st = ct
        \<and> ss_contentEncoding st = ''identity'' \<and> ss_expectedSeq st = seq \<and> ss_buf st = buf \<and> \<not> ss_done st)
     \<and> we_terminalResult (entryAt k w) = None \<and> \<not> we_terminalDelivered (entryAt k w)
     \<and> we_resultCh (entryAt k w) = Some c"

definition idle :: "waiter \<Rightarrow> wait_key \<Rightarrow> nat \<Rightarrow> bool" where
  "idle w k c \<longleftrightarrow> we_resultStream (entryAt k w) = None \<and> we_terminalResult (entryAt k w) = None
     \<and> \<not> we_terminalDelivered (entryAt k w) \<and> we_resultCh (entryAt k w) = Some c"

definition within :: "waiter \<Rightarrow> nat \<Rightarrow> bool" where
  "within w n \<longleftrightarrow> n \<le> unat (wt_maxStreamBytes w) \<and> n \<le> unat (wt_maxJobBytes w)"

lemma entryAt_frame [simp]:
  "entryAt k (publishResultStreamEvent sub ev w) = entryAt k w"
  "entryAt k (sendQuoteCh ch o1 w) = entryAt k w" "entryAt k (sendResultCh ch o2 w) = entryAt k w"
  "entryAt k (w\<lparr>wt_nextCh := n\<rparr>) = entryAt k w"
  by (simp_all add: entryAt_def)

lemma word_within:
  assumes "n \<le> unat (lim :: u64)"
  shows "\<not> lim < word_of_nat n"
proof -
  have "n < 18446744073709551616" using assms unsigned_less [of lim, where 'a = nat] by simp
  then have "unat (word_of_nat n :: u64) = n" by (simp only: unat_of_nat) simp
  with assms show ?thesis by (simp add: word_less_nat_alt)
qed

lemma begin_receives:
  assumes "idle w k c" and "k = \<lparr>wk_peerID = p, wk_jobID = env_JobID (sb_Envelope b)\<rparr>"
    and "sb_Kind b = StreamKindResult" and "sb_ContentEncoding b = ''identity''"
    and "sb_TotalLen b = None \<or> sb_TotalLen b = Some (word_of_nat n)" and "within w n"
  shows "receiving (waiter_handleStreamBegin p b w) k c (sb_StreamID b) (sb_ContentType b) 0 []
    \<and> wt_maxStreamBytes (waiter_handleStreamBegin p b w) = wt_maxStreamBytes w
    \<and> wt_maxJobBytes (waiter_handleStreamBegin p b w) = wt_maxJobBytes w"
  using assms word_within
  by (auto simp: waiter_handleStreamBegin_def ensureEntryLocked_def Let_def idle_def receiving_def within_def)

lemma chunk_receives:
  assumes "receiving w k c sid ct seq buf" and "k = \<lparr>wk_peerID = p, wk_jobID = env_JobID (sc_Envelope ch)\<rparr>"
    and "sc_StreamID ch = sid" and "sc_Seq ch = seq" and "sc_Data ch = Some d" and "within w (length buf + length d)"
  shows "receiving (waiter_handleStreamChunk p ch w) k c sid ct (seq + 1) (buf @ d)
    \<and> wt_maxStreamBytes (waiter_handleStreamChunk p ch w) = wt_maxStreamBytes w
    \<and> wt_maxJobBytes (waiter_handleStreamChunk p ch w) = wt_maxJobBytes w"
proof -
  have "\<not> wt_maxStreamBytes w < word_of_nat (length buf + length d)" "\<not> wt_maxJobBytes w < word_of_nat (length buf + length d)"
    using assms(6) word_within unfolding within_def by blast+
  then show ?thesis
    using assms(1-5)
    by (auto simp: waiter_handleStreamChunk_def ensureEntryLocked_def Let_def receiving_def chunkData_def)
qed

definition received :: "waiter \<Rightarrow> wait_key \<Rightarrow> nat \<Rightarrow> string \<Rightarrow> bytes \<Rightarrow> bool" where
  "received w k c ct buf \<longleftrightarrow>
     (\<exists>st. we_resultStream (entryAt k w) = Some st \<and> ss_contentType st = ct
        \<and> ss_contentEncoding st = ''identity'' \<and> ss_buf st = buf \<and> ss_done st)
     \<and> \<not> we_terminalDelivered (entryAt k w) \<and> we_resultCh (entryAt k w) = Some c"

lemma end_received:
  assumes "receiving w k c sid ct seq buf" and "k = \<lparr>wk_peerID = p, wk_jobID = env_JobID (se_Envelope f)\<rparr>"
    and "se_StreamID f = sid" and "se_TotalLen f = word_of_nat (length buf)" and "se_SHA256 f = sha256 buf"
  shows "received (waiter_handleStreamEnd p f w) k c ct buf"
  using assms
  by (auto simp: waiter_handleStreamEnd_def ensureEntryLocked_def Let_def receiving_def received_def)

lemma terminal_delivers:
  assumes "received w k c ct buf" and "k = \<lparr>wk_peerID = p, wk_jobID = env_JobID (rs_Envelope res)\<rparr>"
    and "rs_Status res = ResultStatusOK" and "rs_OK res = Some ok"
    and "ok_ResultHash ok = sha256 buf" and "ok_ResultLen ok = word_of_nat (length buf)"
    and "ok_ResultContentType ok = ct" and "ok_ResultContentEncoding ok = ''identity''"
  shows "(c, \<lparr>ro_Result = Some res, ro_ResultBytes = buf, ro_Error = None\<rparr>)
    \<in> set (wt_resultInbox (handleTerminalResult p res w))"
  using assms
  by (auto simp: handleTerminalResult_def tryDeliverResult_def deliverResult_def ensureEntryLocked_def Let_def received_def)

section \<open>Channels\<close>

text \<open>
  The channel that a projection \<open>ch\<close> of the entries registers for a job, and the discipline
  of a kind of channel: used channels are used once, and a registered channel is unused and
  belongs to one job only. A channel has a buffer of one outcome, so no send blocks.
\<close>

definition registered :: "(wait_entry \<Rightarrow> nat option) \<Rightarrow> waiter \<Rightarrow> wait_key \<Rightarrow> nat option" where
  "registered ch w k = ch (entryAt k w)"

definition chan_ok :: "(wait_entry \<Rightarrow> nat option) \<Rightarrow> nat list \<Rightarrow> waiter \<Rightarrow> bool" where
  "chan_ok ch used w \<longleftrightarrow> distinct used \<and> (\<forall>c \<in> set used. c < wt_nextCh w)
     \<and> (\<forall>k c. registered ch w k = Some c \<longrightarrow> c < wt_nextCh w \<and> c \<notin> set used)
     \<and> (\<forall>k k' c. registered ch w k = Some c \<longrightarrow> registered ch w k' = Some c \<longrightarrow> k = k')"

lemma chan_ok_keep:
  assumes "chan_ok ch used w" and "\<And>k. registered ch w' k = registered ch w k \<or> registered ch w' k = None"
    and "wt_nextCh w \<le> wt_nextCh w'"
  shows "chan_ok ch used w'"
  using assms unfolding chan_ok_def by (metis option.distinct(1) order_less_le_trans)

lemma chan_ok_send:
  assumes "chan_ok ch used w" and "registered ch w' k0 = None"
    and "\<And>k. registered ch w' k = registered ch w k \<or> registered ch w' k = None" and "wt_nextCh w' = wt_nextCh w"
  shows "chan_ok ch (used @ (case registered ch w k0 of None \<Rightarrow> [] | Some c \<Rightarrow> [c])) w'"
proof (cases "registered ch w k0")
  case None
  then show ?thesis using chan_ok_keep [OF assms(1,3)] assms(4) by simp
next
  case (Some c)
  have keep: "chan_ok ch used w'" using chan_ok_keep [OF assms(1,3)] assms(4) by simp
  have c: "c \<notin> set used" "c < wt_nextCh w'" using assms(1,4) Some by (auto simp: chan_ok_def)
  have "registered ch w' k \<noteq> Some c" for k
    using assms(1,2) assms(3) [of k] Some unfolding chan_ok_def by (metis option.distinct(1))
  with keep c Some show ?thesis unfolding chan_ok_def by auto
qed

lemma chan_ok_new:
  assumes "chan_ok ch used w" and "registered ch w' = (registered ch w)(k0 \<mapsto> wt_nextCh w)"
    and "wt_nextCh w' = Suc (wt_nextCh w)"
  shows "chan_ok ch used w'"
proof -
  have "c < wt_nextCh w \<and> c \<notin> set used" if "registered ch w k = Some c" for k c
    using assms(1) that by (simp add: chan_ok_def)
  moreover have "k = k'" if "registered ch w k = Some c" "registered ch w k' = Some c" for k k' c
    using assms(1) that by (simp add: chan_ok_def)
  ultimately show ?thesis
    using assms by (fastforce simp: chan_ok_def split: if_splits)
qed

abbreviation quote_used :: "waiter \<Rightarrow> nat list" where "quote_used w \<equiv> map fst (wt_quoteInbox w)"
abbreviation result_used :: "waiter \<Rightarrow> nat list" where "result_used w \<equiv> map fst (wt_resultInbox w)"

definition waiter_channels_ok :: "waiter \<Rightarrow> bool" where
  "waiter_channels_ok w \<longleftrightarrow> chan_ok we_quoteCh (quote_used w) w \<and> chan_ok we_resultCh (result_used w) w"

lemma registered_put [simp]: "registered ch (putEntry k e w) x = (if x = k then ch e else registered ch w x)"
  by (simp add: registered_def)

lemma entryAt_cleanup [simp]: "entryAt x (maybeCleanupLocked k e w) = (if x = k \<and> finished e then empty_entry else entryAt x w)"
  by (simp add: entryAt_def)

lemma registered_frame [simp]:
  "registered ch (publishResultStreamEvent sub ev w) = registered ch w"
  "registered ch (sendQuoteCh c o1 w) = registered ch w" "registered ch (sendResultCh c o2 w) = registered ch w"
  "registered ch (w\<lparr>wt_nextCh := n\<rparr>) = registered ch w"
  by (rule ext, simp add: registered_def entryAt_def)+

lemma registered_cleanup [simp]:
  "ch empty_entry = None \<Longrightarrow>
   registered ch (maybeCleanupLocked k e w) x = (if x = k \<and> finished e then None else registered ch w x)"
  by (simp add: registered_def)

lemma empty_channels [simp]: "we_quoteCh empty_entry = None" "we_resultCh empty_entry = None"
  by (simp_all add: empty_entry_def)

lemma map_fst_inbox [simp]:
  "map fst (case c of None \<Rightarrow> [] | Some x \<Rightarrow> [(x, y)]) = (case c of None \<Rightarrow> [] | Some x \<Rightarrow> [x])"
  by (simp split: option.split)

lemma channels_deliverQuoteResponse: "waiter_channels_ok w \<Longrightarrow> waiter_channels_ok (deliverQuoteResponse p q w)"
proof -
  assume ok: "waiter_channels_ok w"
  let ?w = "deliverQuoteResponse p q w" and ?k = "\<lparr>wk_peerID = p, wk_jobID = env_JobID (qs_Envelope q)\<rparr>"
  note d = deliverQuoteResponse_def ensureEntryLocked_def Let_def
  have "chan_ok we_quoteCh (quote_used w @ (case registered we_quoteCh w ?k of None \<Rightarrow> [] | Some c \<Rightarrow> [c])) ?w"
    by (rule chan_ok_send) (use ok in \<open>auto simp: d waiter_channels_ok_def\<close>)
  moreover have "chan_ok we_resultCh (result_used w) ?w"
    by (rule chan_ok_keep [of _ _ w]) (use ok in \<open>auto simp: d waiter_channels_ok_def registered_def\<close>)
  ultimately show ?thesis by (simp add: waiter_channels_ok_def d registered_def)
qed

lemma channels_deliverResult: "waiter_channels_ok w \<Longrightarrow> waiter_channels_ok (deliverResult p r b w)"
proof -
  assume ok: "waiter_channels_ok w"
  let ?w = "deliverResult p r b w" and ?k = "\<lparr>wk_peerID = p, wk_jobID = env_JobID (rs_Envelope r)\<rparr>"
  note d = deliverResult_def ensureEntryLocked_def Let_def
  have "chan_ok we_resultCh (result_used w @ (case registered we_resultCh w ?k of None \<Rightarrow> [] | Some c \<Rightarrow> [c])) ?w"
    by (rule chan_ok_send) (use ok in \<open>auto simp: d waiter_channels_ok_def\<close>)
  moreover have "chan_ok we_quoteCh (quote_used w) ?w"
    by (rule chan_ok_keep [of _ _ w]) (use ok in \<open>auto simp: d waiter_channels_ok_def registered_def\<close>)
  ultimately show ?thesis by (simp add: waiter_channels_ok_def d registered_def)
qed

lemma channels_deliverError: "waiter_channels_ok w \<Longrightarrow> waiter_channels_ok (deliverError p err w)"
proof -
  assume ok: "waiter_channels_ok w"
  let ?w = "deliverError p err w" and ?k = "\<lparr>wk_peerID = p, wk_jobID = env_JobID (er_Envelope err)\<rparr>"
  note d = deliverError_def ensureEntryLocked_def Let_def
  have "chan_ok we_quoteCh (quote_used w @ (case registered we_quoteCh w ?k of None \<Rightarrow> [] | Some c \<Rightarrow> [c])) ?w"
    by (rule chan_ok_send) (use ok in \<open>auto simp: d waiter_channels_ok_def\<close>)
  moreover have "chan_ok we_resultCh (result_used w @ (case registered we_resultCh w ?k of None \<Rightarrow> [] | Some c \<Rightarrow> [c])) ?w"
    by (rule chan_ok_send) (use ok in \<open>auto simp: d waiter_channels_ok_def\<close>)
  ultimately show ?thesis by (simp add: waiter_channels_ok_def d registered_def)
qed

lemma channels_keep:
  assumes "waiter_channels_ok w"
    and "\<And>k. registered we_quoteCh w' k = registered we_quoteCh w k \<or> registered we_quoteCh w' k = None"
    and "\<And>k. registered we_resultCh w' k = registered we_resultCh w k \<or> registered we_resultCh w' k = None"
    and "wt_quoteInbox w' = wt_quoteInbox w" and "wt_resultInbox w' = wt_resultInbox w" and "wt_nextCh w \<le> wt_nextCh w'"
  shows "waiter_channels_ok w'"
  using assms chan_ok_keep [of we_quoteCh "quote_used w" w w'] chan_ok_keep [of we_resultCh "result_used w" w w']
  by (simp add: waiter_channels_ok_def)

lemma channels_put:
  assumes "waiter_channels_ok w" and "we_quoteCh e = we_quoteCh (entryAt k w)" and "we_resultCh e = we_resultCh (entryAt k w)"
  shows "waiter_channels_ok (putEntry k e w)"
  using assms(1) by (rule channels_keep) (simp_all add: assms(2,3) registered_def)

lemma channels_publish: "waiter_channels_ok (publishResultStreamEvent sub ev w) = waiter_channels_ok w"
  by (simp add: waiter_channels_ok_def chan_ok_def)

lemma channels_protocolError: "waiter_channels_ok w \<Longrightarrow> waiter_channels_ok (deliverProtocolError p env c m w)"
  by (simp add: deliverProtocolError_def channels_deliverError)

lemma channels_tryDeliver: "waiter_channels_ok w \<Longrightarrow> waiter_channels_ok (tryDeliverResult p r b ct ce w)"
  by (simp add: tryDeliverResult_def Let_def channels_deliverResult channels_protocolError split: option.split)

lemma channels_HandleInbound:
  assumes "waiter_channels_ok w"
  shows "waiter_channels_ok (waiter_HandleInboundCustomMessage L msg w)"
proof -
  note ops = ensureEntryLocked_def Let_def channels_put channels_publish channels_protocolError channels_tryDeliver
    channels_deliverResult assms
  have "waiter_channels_ok (waiter_handleStreamBegin p b w)" for p b
    by (simp add: waiter_handleStreamBegin_def ops split: option.split)
  moreover have "waiter_channels_ok (waiter_handleStreamChunk p c w)" for p c
    by (simp add: waiter_handleStreamChunk_def ops split: option.split)
  moreover have "waiter_channels_ok (waiter_handleStreamEnd p f w)" for p f
    by (simp add: waiter_handleStreamEnd_def ops split: option.split)
  moreover have "waiter_channels_ok (handleTerminalResult p r w)" for p r
    by (simp add: handleTerminalResult_def ops split: option.split)
  ultimately show ?thesis
    by (simp add: waiter_HandleInboundCustomMessage_def Let_def channels_deliverQuoteResponse channels_deliverError assms
        split: sum.split)
qed

lemma entryAt_found: "map_of (wt_entries w) k = Some e \<Longrightarrow> entryAt k w = e"
  by (simp add: entryAt_def)

lemma channels_new:
  assumes "waiter_channels_ok w" and "e = entryAt k w" and "we_quoteCh e = None \<or> we_resultCh e = None"
    and "e' = e\<lparr>we_quoteCh := Some (wt_nextCh w)\<rparr> \<or> e' = e\<lparr>we_resultCh := Some (wt_nextCh w)\<rparr> \<or> e' = e\<lparr>we_resultStreamSub := x\<rparr>"
  shows "waiter_channels_ok (putEntry k e' (w\<lparr>wt_nextCh := Suc (wt_nextCh w)\<rparr>))"
proof -
  let ?w = "putEntry k e' (w\<lparr>wt_nextCh := Suc (wt_nextCh w)\<rparr>)"
  have one: "chan_ok ch used ?w" if "chan_ok ch used w" "ch e' = ch e \<or> ch e' = Some (wt_nextCh w)" for ch used
  proof (cases "ch e' = ch e")
    case True
    then show ?thesis using that(1) assms(2) by (intro chan_ok_keep [OF that(1)]) (auto simp: registered_def)
  next
    case False
    then have "registered ch ?w = (registered ch w)(k \<mapsto> wt_nextCh w)" using that(2) by (auto simp: fun_eq_iff)
    then show ?thesis by (rule chan_ok_new [OF that(1)]) simp
  qed
  have "chan_ok we_quoteCh (quote_used w) ?w" "chan_ok we_resultCh (result_used w) ?w"
    using assms(1,4) by (auto simp: waiter_channels_ok_def intro!: one)
  then show ?thesis by (simp add: waiter_channels_ok_def)
qed

lemma channels_release:
  assumes "waiter_channels_ok w" and "we_quoteCh e = we_quoteCh (entryAt k w) \<or> we_quoteCh e = None"
    and "we_resultCh e = we_resultCh (entryAt k w) \<or> we_resultCh e = None"
  shows "waiter_channels_ok (maybeCleanupLocked k e (putEntry k e w))"
  using assms(1) by (rule channels_keep) (use assms(2,3) in \<open>auto simp: registered_def\<close>)

lemma waiter_channels_ok_ensure: "waiter_channels_ok w \<Longrightarrow> waiter_channels_ok (putEntry k (entryAt k w) w)"
  by (simp add: channels_put)

lemma channels_step: "waiter_channels_ok w \<Longrightarrow> waiter_channels_ok (waiter_step L ev w)"
proof -
  assume ok: "waiter_channels_ok w"
  have e: "waiter_channels_ok (putEntry k (entryAt k w) w)" for k using ok by (rule waiter_channels_ok_ensure)
  have new: "waiter_channels_ok (putEntry k e' ((putEntry k (entryAt k w) w)\<lparr>wt_nextCh := Suc (wt_nextCh w)\<rparr>))"
    if "e' = entryAt k w\<lparr>we_quoteCh := Some (wt_nextCh w)\<rparr> \<and> we_quoteCh (entryAt k w) = None
      \<or> e' = entryAt k w\<lparr>we_resultCh := Some (wt_nextCh w)\<rparr> \<and> we_resultCh (entryAt k w) = None" for k e'
    using channels_new [OF e [of k], of "entryAt k w" k e' None] that by auto
  have sub: "waiter_channels_ok (putEntry k (entryAt k w\<lparr>we_resultStreamSub := Some (wt_nextCh w)\<rparr>)
      ((putEntry k (entryAt k w) w)\<lparr>wt_nextCh := Suc (wt_nextCh w)\<rparr>))" for k
    using e [of k] by (rule channels_keep) (auto simp: registered_def)
  show ?thesis
  proof (cases ev)
    case (WInbound msg)
    then show ?thesis using ok by (simp add: channels_HandleInbound)
  qed (auto simp: WaitQuoteResponse_def WaitResult_def receivedQuote_def receivedResult_def cancelledQuoteWait_def
      cancelledResultWait_def SubscribeResultStream_def unsubscribe_def ensureEntryLocked_def Let_def ok e new sub entryAt_found
      intro!: channels_release split: option.splits)
qed

lemma channels_fold: "waiter_channels_ok w \<Longrightarrow> waiter_channels_ok (fold (waiter_step L) evs w)"
  by (induction evs arbitrary: w) (simp_all add: channels_step)

lemma waiter_New_ok: "waiter_channels_ok (waiter_New m)" "data_inv (waiter_New m)"
  by (simp_all add: waiter_channels_ok_def chan_ok_def registered_def entryAt_def waiter_New_def data_inv_def)

section \<open>Messages\<close>

abbreviation inbound :: "string \<Rightarrow> u16 \<Rightarrow> bytes \<Rightarrow> custom_message" where
  "inbound p t payload \<equiv> \<lparr>cm_PeerPubKey = p, cm_MsgType = t, cm_Payload = payload\<rparr>"

lemma inbound_result_messages:
  "DecodeStreamBegin L b = Inr sb \<Longrightarrow>
    waiter_HandleInboundCustomMessage L (inbound p MessageTypeStreamBegin b) w = waiter_handleStreamBegin p sb w"
  "DecodeStreamChunk L b = Inr sc \<Longrightarrow>
    waiter_HandleInboundCustomMessage L (inbound p MessageTypeStreamChunk b) w = waiter_handleStreamChunk p sc w"
  "DecodeStreamEnd L b = Inr se \<Longrightarrow>
    waiter_HandleInboundCustomMessage L (inbound p MessageTypeStreamEnd b) w = waiter_handleStreamEnd p se w"
  "DecodeResult L b = Inr r \<Longrightarrow>
    waiter_HandleInboundCustomMessage L (inbound p MessageTypeResult b) w = handleTerminalResult p r w"
  by (simp_all add: waiter_HandleInboundCustomMessage_def)

lemma chunks_received:
  assumes "tlv_library L" and "receiving w k c sid ct seq buf"
    and "chunk_payloads (encodeChunk L env sid) lim seq ds ps" and "lim \<le> 65535"
    and "k = \<lparr>wk_peerID = p, wk_jobID = env_JobID env\<rparr>" and "within w (length buf + length (concat ds))"
  shows "let w' = fold (\<lambda>b. waiter_HandleInboundCustomMessage L (inbound p MessageTypeStreamChunk b)) ps w in
    receiving w' k c sid ct (seq + word_of_nat (length ds)) (buf @ concat ds)
    \<and> wt_maxStreamBytes w' = wt_maxStreamBytes w \<and> wt_maxJobBytes w' = wt_maxJobBytes w"
  using assms(2,3,6)
proof (induction ds arbitrary: w seq buf ps)
  case Nil
  then show ?case by simp
next
  case (Cons d ds)
  from Cons.prems(2) obtain b bs where ps: "ps = b # bs" and b: "encodeChunk L env sid seq d = Inr b" "length b \<le> lim"
    and bs: "chunk_payloads (encodeChunk L env sid) lim (seq + 1) ds bs"
    by (cases ps) auto
  from tlv_library.decode_encodeChunk [OF assms(1) b(1)] b(2) assms(4) obtain mid where
    dec: "DecodeStreamChunk L b = Inr \<lparr>sc_Envelope = env\<lparr>env_MsgID := mid\<rparr>, sc_StreamID = sid, sc_Seq = seq, sc_Data = Some d\<rparr>"
    by auto
  let ?ch = "\<lparr>sc_Envelope = env\<lparr>env_MsgID := mid\<rparr>, sc_StreamID = sid, sc_Seq = seq, sc_Data = Some d\<rparr>"
  let ?w = "waiter_handleStreamChunk p ?ch w"
  have step: "receiving ?w k c sid ct (seq + 1) (buf @ d) \<and> wt_maxStreamBytes ?w = wt_maxStreamBytes w
      \<and> wt_maxJobBytes ?w = wt_maxJobBytes w"
    using Cons.prems(3) assms(5) by (intro chunk_receives [OF Cons.prems(1)]) (auto simp: within_def)
  then have "within ?w (length (buf @ d) + length (concat ds))" using Cons.prems(3) by (simp add: within_def)
  from Cons.IH [OF _ bs this] step ps show ?case
    by (simp add: Let_def inbound_result_messages(2) [OF dec] add.assoc)
qed

lemma result_messages_deliver:
  assumes L: "tlv_library L" and idle: "idle w k c" and k: "k = \<lparr>wk_peerID = p, wk_jobID = jid\<rparr>"
    and fits: "within w (length out)"
    and b: "EncodeStreamBegin L b = Inr pb" "length pb \<le> 65535" "sb_Kind b = StreamKindResult"
      "sb_ContentEncoding b = ''identity''" "sb_StreamID b = sid" "sb_ContentType b = ct" "env_JobID (sb_Envelope b) = jid"
      "sb_TotalLen b = None \<or> sb_TotalLen b = Some (word_of_nat (length out))"
    and ch: "chunk_payloads (encodeChunk L env sid) lim 0 ds ps" "lim \<le> 65535" "concat ds = out" "env_JobID env = jid"
    and f: "EncodeStreamEnd L f = Inr pf" "length pf \<le> 65535" "se_StreamID f = sid" "env_JobID (se_Envelope f) = jid"
      "se_TotalLen f = word_of_nat (length out)" "se_SHA256 f = sha256 out"
    and r: "EncodeResult L r = Inr pr" "length pr \<le> 65535" "env_JobID (rs_Envelope r) = jid"
      "rs_Status r = ResultStatusOK" "rs_OK r = Some ok" "ok_ResultHash ok = sha256 out"
      "ok_ResultLen ok = word_of_nat (length out)" "ok_ResultContentType ok = ct" "ok_ResultContentEncoding ok = ''identity''"
  shows "(c, \<lparr>ro_Result = Some r, ro_ResultBytes = out, ro_Error = None\<rparr>) \<in> set (wt_resultInbox
    (fold (waiter_HandleInboundCustomMessage L)
      (inbound p MessageTypeStreamBegin pb # map (inbound p MessageTypeStreamChunk) ps
        @ [inbound p MessageTypeStreamEnd pf, inbound p MessageTypeResult pr]) w))"
proof -
  let ?h = "waiter_HandleInboundCustomMessage L"
  note bgn = inbound_result_messages(1) [OF tlv_library.stream_begin_round_trip [OF L b(1,2)]]
  note fin = inbound_result_messages(3) [OF tlv_library.stream_end_round_trip [OF L f(1,2)]]
  note res = inbound_result_messages(4) [OF tlv_library.result_round_trip [OF L r(1,2)]]
  let ?w1 = "waiter_handleStreamBegin p b w"
  have w1: "receiving ?w1 k c sid ct 0 []" "wt_maxStreamBytes ?w1 = wt_maxStreamBytes w" "wt_maxJobBytes ?w1 = wt_maxJobBytes w"
    using begin_receives [OF idle _ b(3,4,8) fits] k b(5-7) by simp_all
  let ?w2 = "fold (\<lambda>x. ?h (inbound p MessageTypeStreamChunk x)) ps ?w1"
  have "receiving ?w2 k c sid ct (0 + word_of_nat (length ds)) ([] @ concat ds)"
    using chunks_received [OF L w1(1) ch(1,2), of p] k ch(3,4) fits w1(2,3) by (simp add: within_def Let_def)
  then have w2: "receiving ?w2 k c sid ct (0 + word_of_nat (length ds)) out" using ch(3) by simp
  have w3: "received (waiter_handleStreamEnd p f ?w2) k c ct out"
    by (rule end_received [OF w2]) (simp_all add: k f)
  have "(c, \<lparr>ro_Result = Some r, ro_ResultBytes = out, ro_Error = None\<rparr>)
      \<in> set (wt_resultInbox (handleTerminalResult p r (waiter_handleStreamEnd p f ?w2)))"
    by (rule terminal_delivers [OF w3]) (use k r in simp_all)
  then show ?thesis by (simp add: fold_map comp_def bgn fin res)
qed

lemma waitResult_registers:
  assumes "waiter_channels_ok w" and "p \<noteq> []" and "map_of (wt_entries w) \<lparr>wk_peerID = p, wk_jobID = j\<rparr> = None"
  shows "idle (snd (WaitResult p j w)) \<lparr>wk_peerID = p, wk_jobID = j\<rparr> (wt_nextCh w)"
  using assms
  by (simp add: WaitResult_def ensureEntryLocked_def Let_def entryAt_def empty_entry_def idle_def)

definition sample_ok :: "bytes \<Rightarrow> lcp_result" where
  "sample_ok out = \<lparr>rs_Envelope = sample_envelope, rs_Status = ResultStatusOK,
     rs_OK = Some \<lparr>ok_ResultStreamID = 5, ok_ResultHash = sha256 out, ok_ResultLen = word_of_nat (length out),
       ok_ResultContentType = ''t'', ok_ResultContentEncoding = ''identity''\<rparr>, rs_Message = None\<rparr>"

lemma sample_run:
  "\<exists>evs. (0, \<lparr>ro_Result = Some (sample_ok [1, 2]), ro_ResultBytes = [1, 2], ro_Error = None\<rparr>)
     \<in> set (wt_resultInbox (fold (waiter_step bolt_lib) evs (waiter_New None)))"
proof -
  let ?L = bolt_lib and ?out = "[1, 2] :: bytes"
  let ?b = "\<lparr>sb_Envelope = sample_envelope, sb_StreamID = 5, sb_Kind = StreamKindResult,
      sb_TotalLen = None, sb_SHA256 = None, sb_ContentType = ''t'', sb_ContentEncoding = ''identity''\<rparr>"
  let ?f = "\<lparr>se_Envelope = sample_envelope, se_StreamID = 5, se_TotalLen = 2, se_SHA256 = sha256 ?out\<rparr>"
  have u: "utf8_ValidString ''t''" "utf8_ValidString ''identity''" by code_simp+
  have v: "env_ProtocolVersion sample_envelope \<noteq> 0" by (simp add: sample_envelope_def)
  obtain pb where pb: "EncodeStreamBegin ?L ?b = Inr pb" "length pb \<le> 65535"
    using bolt.EncodeStreamBegin_ok [of ?b] u v by auto
  obtain pc where pc: "encodeChunk ?L sample_envelope 5 0 ?out = Inr pc" "length pc \<le> 65535"
    using bolt.encodeChunk_ok [OF v, of 5 0 ?out] by auto
  obtain pf where pf: "EncodeStreamEnd ?L ?f = Inr pf" "length pf \<le> 65535"
    using bolt.EncodeStreamEnd_ok [of ?f] v by auto
  obtain pr where pr: "EncodeResult ?L (sample_ok ?out) = Inr pr" "length pr \<le> 65535"
    using bolt.EncodeResult_ok [of "sample_ok ?out"] u v by (auto simp: sample_ok_def)
  let ?w = "snd (WaitResult ''p'' 7 (waiter_New None))"
  have idle: "idle ?w \<lparr>wk_peerID = ''p'', wk_jobID = 7\<rparr> 0"
    using waitResult_registers [OF waiter_New_ok(1), of "''p''" None 7] by (simp add: waiter_New_def)
  have fits: "within ?w (length ?out)"
    by (simp add: within_def WaitResult_def ensureEntryLocked_def Let_def waiter_New_def entryAt_def empty_entry_def)
  have chunks: "chunk_payloads (encodeChunk ?L sample_envelope 5) 65535 0 [?out] [pc]" using pc by simp
  let ?ok = "\<lparr>ok_ResultStreamID = 5, ok_ResultHash = sha256 ?out, ok_ResultLen = word_of_nat (length ?out),
       ok_ResultContentType = ''t'', ok_ResultContentEncoding = ''identity''\<rparr>"
  have "(0, \<lparr>ro_Result = Some (sample_ok ?out), ro_ResultBytes = ?out, ro_Error = None\<rparr>) \<in> set (wt_resultInbox
    (fold (waiter_HandleInboundCustomMessage ?L) (inbound ''p'' MessageTypeStreamBegin pb # map (inbound ''p'' MessageTypeStreamChunk) [pc]
        @ [inbound ''p'' MessageTypeStreamEnd pf, inbound ''p'' MessageTypeResult pr]) ?w))" (is "?x \<in> set (wt_resultInbox (fold _ ?ms _))")
    by (rule result_messages_deliver [where ok = ?ok and ct = "''t''" and sid = 5 and jid = 7,
          OF bolt.tlv_library_axioms idle refl fits pb(1) pb(2) _ _ _ _ _ _ chunks order_refl _ _ pf(1) pf(2) _ _ _ _ pr(1) pr(2)])
      (simp_all add: sample_ok_def sample_envelope_def)
  moreover have "fold (waiter_HandleInboundCustomMessage ?L) ?ms ?w
      = fold (waiter_step ?L) (WWaitResult ''p'' 7 # map WInbound ?ms) (waiter_New None)"
    by (simp add: fold_map comp_def)
  ultimately show ?thesis by metis
qed

section \<open>Properties\<close>

text \<open>
  C34. No delivery blocks: over any sequence of inbound messages, waiting calls,
  receptions, cancellations and subscriptions, every channel of a waiting call is sent to
  at most once, so its buffer of one outcome is always free.
\<close>

theorem deliveries_never_block:
  "distinct (map fst (wt_quoteInbox (fold (waiter_step L) evs (waiter_New m))))
   \<and> distinct (map fst (wt_resultInbox (fold (waiter_step L) evs (waiter_New m))))"
  using channels_fold [OF waiter_New_ok(1)] by (auto simp: waiter_channels_ok_def chan_ok_def)

text \<open>
  C3. A delivered result is verified: whatever a peer sends, an outcome with status ok
  that reaches a waiting call carries bytes with the hash and the length that the terminal
  result names, and no stream buffer grows beyond the local limit.
\<close>

theorem delivered_results_verified:
  assumes "tlv_library L" and "unat (wt_maxStreamBytes (waiter_New m)) \<le> 9223372036854775808"
    and "w = fold (waiter_step L) evs (waiter_New m)"
    and "(c, out) \<in> set (wt_resultInbox w)" and "ro_Result out = Some res" and "rs_Status res = ResultStatusOK"
  shows "\<exists>ok. rs_OK res = Some ok \<and> sha256 (ro_ResultBytes out) = ok_ResultHash ok
    \<and> word_of_nat (length (ro_ResultBytes out)) = ok_ResultLen ok
    \<and> (\<forall>k st. we_resultStream (entryAt k w) = Some st \<longrightarrow> length (ss_buf st) \<le> unat (wt_maxStreamBytes w))"
proof -
  have inv: "data_inv w" unfolding assms(3) by (rule data_inv_fold [OF assms(1) waiter_New_ok(2) assms(2)])
  then have "outcome_ok out" using assms(4) by (auto simp: data_inv_def)
  with assms(5,6) data_inv_entryAt [OF inv] show ?thesis by (auto simp: outcome_ok_def entry_ok_def)
qed

theorem delivered_results_verified_witness:
  "\<exists>evs ok. (0, \<lparr>ro_Result = Some (sample_ok [1, 2]), ro_ResultBytes = [1, 2], ro_Error = None\<rparr>)
       \<in> set (wt_resultInbox (fold (waiter_step bolt_lib) evs (waiter_New None)))
     \<and> rs_OK (sample_ok [1, 2]) = Some ok \<and> sha256 [1, 2] = ok_ResultHash ok"
proof -
  let ?out = "\<lparr>ro_Result = Some (sample_ok [1, 2]), ro_ResultBytes = [1, 2], ro_Error = None\<rparr>"
  obtain evs where evs: "(0, ?out) \<in> set (wt_resultInbox (fold (waiter_step bolt_lib) evs (waiter_New None)))"
    using sample_run by blast
  have "unat (wt_maxStreamBytes (waiter_New None)) \<le> 9223372036854775808" by (simp add: waiter_New_def)
  moreover have "rs_Status (sample_ok [1, 2]) = ResultStatusOK" by (simp add: sample_ok_def)
  ultimately show ?thesis
    using delivered_results_verified [OF bolt.tlv_library_axioms _ refl evs, of "sample_ok [1, 2]"] evs by auto
qed

end
