(* ===== verification/Result_Exchange.thy ===== *)
theory Result_Exchange
  imports Provider_Progress Requester_Wait
begin

text \<open>
  The two ends of a result: what the provider's \<^verbatim>\<open>sendResult\<close> and \<^verbatim>\<open>sendResultStreaming\<close> send,
  fed to the requester's waiter, is the output of the backend, byte for byte. The messages
  are taken from the provider's trace, in the order of the sends.
\<close>

section \<open>What the provider sends\<close>

text \<open>Sends that all succeed are the payloads, in order, at the end of the trace.\<close>

lemma send_all_trace:
  assumes "send_all (sendChunk E p) ps s = (None, s')"
  shows "pv_trace s' = pv_trace s @ map (\<lambda>b. EvSend p MessageTypeStreamChunk b True) ps"
  using assms
proof (induction ps arbitrary: s)
  case (Cons b ps)
  then show ?case
    by (cases "sendChunk E p b s") (auto simp: sendChunk_def SendCustomMessage_def Let_def split: option.splits if_splits)
qed simp

lemma sendWithinLimit_trace:
  assumes "sendWithinLimit E p t enc m s = (True, s')"
  shows "\<exists>b. enc = Inr b \<and> length b \<le> unat m \<and> pv_trace s' = pv_trace s @ [EvSend p t b True]"
  using assms
  by (auto simp: sendWithinLimit_def SendCustomMessage_def Let_def split: sum.splits if_splits)

lemma mustNewMsgID_trace [simp]: "pv_trace (snd (mustNewMsgID E s)) = pv_trace s"
  by (simp add: mustNewMsgID_def)

lemma sendResultStreamChunks_trace:
  assumes "sendResultStreamChunks E p env x sid out m s = (True, s')" and "m \<noteq> 0"
  shows "\<exists>ds ps. concat ds = out \<and> chunk_payloads (encodeChunk (pe_tlv E) (resultEnvelope env 0 x) sid) (unat m) 0 ds ps
    \<and> pv_trace s' = pv_trace s @ map (\<lambda>b. EvSend p MessageTypeStreamChunk b True) ps"
proof -
  from assms(1) have "resultChunks_from E p env x sid m 0 out s = (None, s')"
    by (auto simp: sendResultStreamChunks_def split: prod.splits)
  from result_chunks.loop_sends_all [OF this] assms(2) show ?thesis
    using send_all_trace by (metis unat_gt_0)
qed

text \<open>The messages among the events of a trace.\<close>

fun sent_messages :: "string \<Rightarrow> provider_event list \<Rightarrow> custom_message list" where
  "sent_messages from [] = []"
| "sent_messages from (EvSend p t b ok # evs) =
     (if ok then inbound from t b # sent_messages from evs else sent_messages from evs)"
| "sent_messages from (_ # evs) = sent_messages from evs"

lemma sent_messages_append [simp]: "sent_messages f (xs @ ys) = sent_messages f xs @ sent_messages f ys"
  by (induction f xs rule: sent_messages.induct) simp_all

lemma sent_messages_sends [simp]:
  "sent_messages f (map (\<lambda>b. EvSend p t b True) ps) = map (inbound f t) ps"
  by (induction ps) simp_all

lemma resolve_nonzero: "resolveRemoteManifestAndMaxPayload p m0 s = Some (mf, m) \<Longrightarrow> m \<noteq> 0"
  by (auto simp: resolveRemoteManifestAndMaxPayload_def Let_def split: option.splits if_splits)

lemma begin_trace:
  assumes "sendResultStreamBegin E p env x sid n h ct ce m s = (True, s')"
  shows "\<exists>b pb. EncodeStreamBegin (pe_tlv E) b = Inr pb \<and> length pb \<le> unat m
    \<and> env_JobID (sb_Envelope b) = env_JobID env \<and> sb_StreamID b = sid \<and> sb_Kind b = StreamKindResult
    \<and> sb_TotalLen b = Some n \<and> sb_ContentType b = ct \<and> sb_ContentEncoding b = ce
    \<and> pv_trace s' = pv_trace s @ [EvSend p MessageTypeStreamBegin pb True]"
  using sendWithinLimit_trace [of E p MessageTypeStreamBegin _ m "snd (mustNewMsgID E s)" s'] assms
  by (fastforce simp: sendResultStreamBegin_def Let_def split_def resultEnvelope_def)

lemma beginUnknown_trace:
  assumes "sendResultStreamBeginUnknown E p env x sid ct ce m s = (True, s')"
  shows "\<exists>b pb. EncodeStreamBegin (pe_tlv E) b = Inr pb \<and> length pb \<le> unat m
    \<and> env_JobID (sb_Envelope b) = env_JobID env \<and> sb_StreamID b = sid \<and> sb_Kind b = StreamKindResult
    \<and> sb_TotalLen b = None \<and> sb_ContentType b = ct \<and> sb_ContentEncoding b = ce
    \<and> pv_trace s' = pv_trace s @ [EvSend p MessageTypeStreamBegin pb True]"
  using sendWithinLimit_trace [of E p MessageTypeStreamBegin _ m "snd (mustNewMsgID E s)" s'] assms
  by (fastforce simp: sendResultStreamBeginUnknown_def Let_def split_def resultEnvelope_def)

lemma end_trace:
  assumes "sendResultStreamEnd E p env x sid n h m s = (True, s')"
  shows "\<exists>f pf. EncodeStreamEnd (pe_tlv E) f = Inr pf \<and> length pf \<le> unat m
    \<and> env_JobID (se_Envelope f) = env_JobID env \<and> se_StreamID f = sid \<and> se_TotalLen f = n \<and> se_SHA256 f = h
    \<and> pv_trace s' = pv_trace s @ [EvSend p MessageTypeStreamEnd pf True]"
  using sendWithinLimit_trace [of E p MessageTypeStreamEnd _ m "snd (mustNewMsgID E s)" s'] assms
  by (fastforce simp: sendResultStreamEnd_def Let_def split_def resultEnvelope_def)

lemma terminal_trace:
  assumes "sendTerminalOKResult E p env x sid n h ct ce m s = (True, s')"
  shows "\<exists>r ok pr. EncodeResult (pe_tlv E) r = Inr pr \<and> length pr \<le> unat m
    \<and> env_JobID (rs_Envelope r) = env_JobID env \<and> rs_Status r = ResultStatusOK \<and> rs_OK r = Some ok
    \<and> ok_ResultHash ok = h \<and> ok_ResultLen ok = n \<and> ok_ResultContentType ok = ct \<and> ok_ResultContentEncoding ok = ce
    \<and> pv_trace s' = pv_trace s @ [EvSend p MessageTypeResult pr True]"
  using sendWithinLimit_trace [of E p MessageTypeResult _ m "snd (mustNewMsgID E s)" s'] assms
  by (fastforce simp: sendTerminalOKResult_def Let_def split_def resultEnvelope_def)

text \<open>A complete result in a trace: what both ways of sending leave there.\<close>

definition result_events ::
    "tlv_lib \<Rightarrow> string \<Rightarrow> job_envelope \<Rightarrow> nat \<Rightarrow> bytes \<Rightarrow> provider_event list \<Rightarrow> bool" where
  "result_events L p env lim out evs \<longleftrightarrow> (\<exists>sid ct b pb cenv ds ps f pf r ok pr.
     evs = EvSend p MessageTypeStreamBegin pb True # map (\<lambda>b. EvSend p MessageTypeStreamChunk b True) ps
       @ [EvSend p MessageTypeStreamEnd pf True, EvSend p MessageTypeResult pr True]
     \<and> EncodeStreamBegin L b = Inr pb \<and> length pb \<le> lim \<and> env_JobID (sb_Envelope b) = env_JobID env
     \<and> sb_StreamID b = sid \<and> sb_Kind b = StreamKindResult \<and> sb_ContentType b = ct \<and> sb_ContentEncoding b = ''identity''
     \<and> (sb_TotalLen b = None \<or> sb_TotalLen b = Some (word_of_nat (length out)))
     \<and> concat ds = out \<and> chunk_payloads (encodeChunk L cenv sid) lim 0 ds ps \<and> env_JobID cenv = env_JobID env
     \<and> EncodeStreamEnd L f = Inr pf \<and> length pf \<le> lim \<and> env_JobID (se_Envelope f) = env_JobID env
     \<and> se_StreamID f = sid \<and> se_TotalLen f = word_of_nat (length out) \<and> se_SHA256 f = sha256 out
     \<and> EncodeResult L r = Inr pr \<and> length pr \<le> lim \<and> env_JobID (rs_Envelope r) = env_JobID env
     \<and> rs_Status r = ResultStatusOK \<and> rs_OK r = Some ok \<and> ok_ResultHash ok = sha256 out
     \<and> ok_ResultLen ok = word_of_nat (length out) \<and> ok_ResultContentType ok = ct
     \<and> ok_ResultContentEncoding ok = ''identity'')"

lemma result_events_deliver:
  assumes L: "tlv_library L" and ev: "result_events L p env lim out evs" and lim: "lim \<le> 65535"
    and idle: "idle w \<lparr>wk_peerID = from, wk_jobID = env_JobID env\<rparr> c" and fits: "within w (length out)"
  shows "\<exists>res. rs_Status res = ResultStatusOK \<and> (c, \<lparr>ro_Result = Some res, ro_ResultBytes = out, ro_Error = None\<rparr>)
    \<in> set (wt_resultInbox (fold (waiter_HandleInboundCustomMessage L) (sent_messages from evs) w))"
proof -
  from ev obtain sid ct b pb cenv ds ps f pf r ok pr where
    evs: "evs = EvSend p MessageTypeStreamBegin pb True # map (\<lambda>b. EvSend p MessageTypeStreamChunk b True) ps
       @ [EvSend p MessageTypeStreamEnd pf True, EvSend p MessageTypeResult pr True]"
    and b: "EncodeStreamBegin L b = Inr pb" "length pb \<le> lim" "sb_Kind b = StreamKindResult"
      "sb_ContentEncoding b = ''identity''" "sb_StreamID b = sid" "sb_ContentType b = ct"
      "env_JobID (sb_Envelope b) = env_JobID env" "sb_TotalLen b = None \<or> sb_TotalLen b = Some (word_of_nat (length out))"
    and ch: "concat ds = out" "chunk_payloads (encodeChunk L cenv sid) lim 0 ds ps" "env_JobID cenv = env_JobID env"
    and f: "EncodeStreamEnd L f = Inr pf" "length pf \<le> lim" "se_StreamID f = sid"
      "env_JobID (se_Envelope f) = env_JobID env" "se_TotalLen f = word_of_nat (length out)" "se_SHA256 f = sha256 out"
    and r: "EncodeResult L r = Inr pr" "length pr \<le> lim" "env_JobID (rs_Envelope r) = env_JobID env"
      "rs_Status r = ResultStatusOK" "rs_OK r = Some ok" "ok_ResultHash ok = sha256 out"
      "ok_ResultLen ok = word_of_nat (length out)" "ok_ResultContentType ok = ct" "ok_ResultContentEncoding ok = ''identity''"
    unfolding result_events_def by blast
  have le: "length pb \<le> 65535" "length pf \<le> 65535" "length pr \<le> 65535" using b(2) f(2) r(2) lim by simp_all
  have "(c, \<lparr>ro_Result = Some r, ro_ResultBytes = out, ro_Error = None\<rparr>) \<in> set (wt_resultInbox
    (fold (waiter_HandleInboundCustomMessage L)
      (inbound from MessageTypeStreamBegin pb # map (inbound from MessageTypeStreamChunk) ps
        @ [inbound from MessageTypeStreamEnd pf, inbound from MessageTypeResult pr]) w))"
    by (rule result_messages_deliver [OF L idle refl fits b(1) le(1) b(3-8) ch(2) lim ch(1,3) f(1) le(2) f(3-6) r(1) le(3) r(3-9)])
  with r(4) show ?thesis unfolding evs by auto
qed

lemma sendResult_events:
  assumes "sendResult E now p env tk streaming inputLen out m0 s = (True, s')"
    and res: "resolveRemoteManifestAndMaxPayload p m0 s = Some (mf, m)"
    and small: "\<not> mf_MaxStreamBytes mf < word_of_nat (length out)" "\<not> mf_MaxJobBytes mf < inputLen + word_of_nat (length out)"
  shows "\<exists>evs. pv_trace s' = pv_trace s @ evs \<and> result_events (pe_tlv E) p env (unat m) out evs"
proof -
  let ?x = "resultExpiry (pe_cfg E) now" and ?n = "word_of_nat (length out) :: u64" and ?h = "sha256 out"
    and ?ct = "resultContentTypeForTaskKind tk streaming" and ?ce = contentEncodingIdentity
  from assms obtain sid s1 s2 s3 s4 where id: "newStreamID E s = (Some sid, s1)"
    and b: "sendResultStreamBegin E p env ?x sid ?n ?h ?ct ?ce m s1 = (True, s2)"
    and c: "sendResultStreamChunks E p env ?x sid out m s2 = (True, s3)"
    and f: "sendResultStreamEnd E p env ?x sid ?n ?h m s3 = (True, s4)"
    and r: "sendTerminalOKResult E p env ?x sid ?n ?h ?ct ?ce m s4 = (True, s')"
    by (auto simp: sendResult_def sendResultStream_def Let_def split: option.splits prod.splits if_splits)
  have "pv_trace s1 = pv_trace s" using id by (auto simp: newStreamID_def)
  with begin_trace [OF b] sendResultStreamChunks_trace [OF c resolve_nonzero [OF res]] end_trace [OF f] terminal_trace [OF r]
  show ?thesis unfolding result_events_def by (fastforce simp: resultEnvelope_def)
qed

lemma streaming_loop_read:
  assumes "reader_Read (max (unat (sp_remoteMaxPayload P)) 1) rd = (b, None, rd1)" and "b \<noteq> []"
  shows "streaming_loop E now P rd [] hashed n seq s = streaming_loop E now P rd1 b hashed n seq s"
  using assms by (subst streaming_loop.simps) simp

lemma streaming_loop_chunk:
  assumes "pending \<noteq> []" and "unat (sp_remoteMaxPayload P) \<noteq> 0" and "encodeFittingResultStreamChunk (pe_tlv E) (sp_env P) (sp_expiry P) (sp_streamID P)
      (sp_remoteMaxPayload P) seq pending = Inr (p, k)"
    and "\<not> sp_maxStreamBytes P < n + word_of_nat k" and "\<not> sp_maxJobBytes P < sp_inputLen P + (n + word_of_nat k)"
    and "SendCustomMessage E (sp_peer P) MessageTypeStreamChunk p s = (True, s1)"
  shows "streaming_loop E now P rd pending hashed n seq s
    = streaming_loop E now P rd (drop k pending) (hashed @ take k pending) (n + word_of_nat k) (seq + 1) s1"
  using assms by (subst streaming_loop.simps) (simp add: Let_def)

section \<open>Sending succeeds\<close>

text \<open>An outside that never fails: the messenger takes every message, randomness is available.\<close>

definition outside_ok :: "provider_env \<Rightarrow> bool" where
  "outside_ok E \<longleftrightarrow> (\<forall>n p t b. pe_send E n p t b = None) \<and> (\<forall>n. \<exists>v. pe_newStreamID E n = Inr v)"

lemma Send_ok [simp]: "outside_ok E \<Longrightarrow> fst (SendCustomMessage E p t b s) = True"
  by (simp add: SendCustomMessage_def outside_ok_def Let_def)

lemma sendWithinLimit_ok: "outside_ok E \<Longrightarrow> enc = Inr b \<Longrightarrow> length b \<le> unat m \<Longrightarrow> fst (sendWithinLimit E p t enc m s)"
  by (simp add: sendWithinLimit_def)

lemma result_content_type:
  "resultContentTypeForTaskKind tk st \<noteq> []" "utf8_ValidString (resultContentTypeForTaskKind tk st)"
  "length (resultContentTypeForTaskKind tk st) \<le> 40"
proof -
  have v: "utf8_ValidString contentTypeTextEventStream" "utf8_ValidString contentTypeApplicationJSON"
    "utf8_ValidString ''text/plain; charset=utf-8''"
    by code_simp+
  then show "resultContentTypeForTaskKind tk st \<noteq> []" "utf8_ValidString (resultContentTypeForTaskKind tk st)"
    "length (resultContentTypeForTaskKind tk st) \<le> 40"
    by (simp_all add: resultContentTypeForTaskKind_def)
qed

lemma utf8_identity: "utf8_ValidString ''identity''"
  by code_simp

context tlv_library
begin

lemma fitting_chunk_exists:
  assumes "env_ProtocolVersion env \<noteq> 0" and "241 \<le> unat m" and "data \<noteq> []"
  shows "\<exists>p k. encodeFittingResultStreamChunk L env x sid m seq data = Inr (p, k)"
proof (cases "encodeFittingResultStreamChunk L env x sid m seq data")
  case (Inr v)
  then show ?thesis by (cases v) auto
next
  case (Inl err)
  have ok: "\<exists>p. encodeChunk L (resultEnvelope env 0 x) sid seq d = Inr p \<and> length p \<le> 240 + length d" for d
    using assms(1) by (intro encodeChunk_ok) (simp add: resultEnvelope_def)
  from fitting_length_fails [OF Inl [unfolded encodeFittingResultStreamChunk_def]] obtain k where
    k: "encodeChunk L (resultEnvelope env 0 x) sid seq (take k data) = Inl err
      \<or> k \<le> 1 \<and> (\<exists>p. encodeChunk L (resultEnvelope env 0 x) sid seq (take k data) = Inr p \<and> unat m < length p)" by blast
  obtain p where "encodeChunk L (resultEnvelope env 0 x) sid seq (take k data) = Inr p" "length p \<le> 240 + length (take k data)"
    using ok by blast
  with k assms(2) show ?thesis by auto
qed

lemma senders_ok:
  assumes "pe_tlv E = L" and "outside_ok E" and "env_ProtocolVersion env \<noteq> 0" and "400 \<le> unat m"
    and "ct = resultContentTypeForTaskKind tk st"
  shows "fst (sendResultStreamBegin E p env x sid n h ct contentEncodingIdentity m s)"
    and "fst (sendResultStreamBeginUnknown E p env x sid ct contentEncodingIdentity m s)"
    and "fst (sendResultStreamEnd E p env x sid n h m s)"
    and "fst (sendTerminalOKResult E p env x sid n h ct contentEncodingIdentity m s)"
proof -
  note ct = result_content_type [of tk st] utf8_identity
  have b: "\<exists>q. EncodeStreamBegin L \<lparr>sb_Envelope = resultEnvelope env i x, sb_StreamID = sid, sb_Kind = StreamKindResult,
           sb_TotalLen = tl, sb_SHA256 = sh, sb_ContentType = ct, sb_ContentEncoding = contentEncodingIdentity\<rparr> = Inr q
           \<and> length q \<le> unat m" for i tl sh
    using EncodeStreamBegin_ok [of "\<lparr>sb_Envelope = resultEnvelope env i x, sb_StreamID = sid, sb_Kind = StreamKindResult,
           sb_TotalLen = tl, sb_SHA256 = sh, sb_ContentType = ct, sb_ContentEncoding = contentEncodingIdentity\<rparr>"] ct assms(3-5)
    by (fastforce simp: resultEnvelope_def)
  have f: "\<exists>q. EncodeStreamEnd L \<lparr>se_Envelope = resultEnvelope env i x, se_StreamID = sid, se_TotalLen = n, se_SHA256 = h\<rparr> = Inr q
      \<and> length q \<le> unat m" for i
    using EncodeStreamEnd_ok [of "\<lparr>se_Envelope = resultEnvelope env i x, se_StreamID = sid, se_TotalLen = n, se_SHA256 = h\<rparr>"] assms(3,4)
    by (fastforce simp: resultEnvelope_def)
  have r: "\<exists>q. EncodeResult L \<lparr>rs_Envelope = resultEnvelope env i x, rs_Status = ResultStatusOK,
           rs_OK = Some \<lparr>ok_ResultStreamID = sid, ok_ResultHash = h, ok_ResultLen = n,
                         ok_ResultContentType = ct, ok_ResultContentEncoding = contentEncodingIdentity\<rparr>,
           rs_Message = None\<rparr> = Inr q \<and> length q \<le> unat m" for i
    using EncodeResult_ok [of "\<lparr>rs_Envelope = resultEnvelope env i x, rs_Status = ResultStatusOK,
           rs_OK = Some \<lparr>ok_ResultStreamID = sid, ok_ResultHash = h, ok_ResultLen = n,
                         ok_ResultContentType = ct, ok_ResultContentEncoding = contentEncodingIdentity\<rparr>,
           rs_Message = None\<rparr>"] ct assms(3-5)
    by (fastforce simp: resultEnvelope_def)
  note ok = sendWithinLimit_ok [OF assms(2)]
  show "fst (sendResultStreamBegin E p env x sid n h ct contentEncodingIdentity m s)"
    using b [of "fst (mustNewMsgID E s)" "Some n" "Some h"] ok
    by (auto simp: sendResultStreamBegin_def Let_def split_def assms(1))
  show "fst (sendResultStreamBeginUnknown E p env x sid ct contentEncodingIdentity m s)"
    using b [of "fst (mustNewMsgID E s)" None None] ok
    by (auto simp: sendResultStreamBeginUnknown_def Let_def split_def assms(1))
  show "fst (sendResultStreamEnd E p env x sid n h m s)"
    using f [of "fst (mustNewMsgID E s)"] ok by (auto simp: sendResultStreamEnd_def Let_def split_def assms(1))
  show "fst (sendTerminalOKResult E p env x sid n h ct contentEncodingIdentity m s)"
    using r [of "fst (mustNewMsgID E s)"] ok by (auto simp: sendTerminalOKResult_def Let_def split_def assms(1))
qed

lemma chunks_ok:
  assumes "pe_tlv E = L" and "outside_ok E" and "env_ProtocolVersion env \<noteq> 0" and "241 \<le> unat m"
  shows "fst (sendResultStreamChunks E p env x sid out m s)"
proof -
  have "fst (resultChunks_from E p env x sid m 0 out s) = None"
    by (rule result_chunks.loop_succeeds) (use fitting_chunk_exists assms in \<open>auto simp: sendChunk_def split_def\<close>)
  then show ?thesis by (simp add: sendResultStreamChunks_def split_def assms(1))
qed

lemma sendResult_ok:
  assumes "pe_tlv E = L" and "outside_ok E" and "env_ProtocolVersion env \<noteq> 0"
    and "resolveRemoteManifestAndMaxPayload p m0 s = Some (mf, m)" and "400 \<le> unat m"
    and "\<not> mf_MaxStreamBytes mf < word_of_nat (length out)" and "\<not> mf_MaxJobBytes mf < inputLen + word_of_nat (length out)"
  shows "fst (sendResult E now p env tk streaming inputLen out m0 s)"
proof -
  obtain sid where "pe_newStreamID E (pv_ids s) = Inr sid" using assms(2) unfolding outside_ok_def by blast
  then have "fst (newStreamID E s) = Some sid" by (simp add: newStreamID_def)
  moreover have "241 \<le> unat m" using assms(5) by simp
  ultimately show ?thesis
    using assms senders_ok [OF assms(1-3,5) refl] chunks_ok [OF assms(1-3)]
    by (simp add: sendResult_def sendResultStream_def Let_def split_def)
qed

text \<open>
  The read loop: over a reader of non-empty pieces that ends with the end of the file, and
  within the limits, it sends the pending bytes and everything the reader delivers.
\<close>

lemma streaming_loop_eof:
  assumes "pe_tlv E = L" and ok: "outside_ok E" and v: "env_ProtocolVersion (sp_env P) \<noteq> 0"
    and m: "241 \<le> unat (sp_remoteMaxPayload P)"
    and lim: "B \<le> unat (sp_maxStreamBytes P)" "unat (sp_inputLen P) + B \<le> unat (sp_maxJobBytes P)"
    and "[] \<notin> set cs" and "length hashed + length pending + length (concat cs) = B"
  shows "\<exists>ds ps s'. streaming_loop E now P (cs, None) pending hashed (word_of_nat (length hashed)) seq s
      = (SLEof (word_of_nat B) (hashed @ concat ds), s')
    \<and> concat ds = pending @ concat cs
    \<and> chunk_payloads (encodeChunk L (resultEnvelope (sp_env P) 0 (sp_expiry P)) (sp_streamID P)) (unat (sp_remoteMaxPayload P)) seq ds ps
    \<and> pv_trace s' = pv_trace s @ map (\<lambda>b. EvSend (sp_peer P) MessageTypeStreamChunk b True) ps"
  using assms(7,8)
proof (induction "2 * reader_size (cs, None :: goerror option) + length pending" arbitrary: cs pending hashed seq s rule: less_induct)
  case less
  let ?loop = "streaming_loop E now P" and ?n = "word_of_nat (length hashed) :: u64" and ?mx = "max (unat (sp_remoteMaxPayload P)) 1"
  show ?case
  proof (cases "pending = []")
    case True
    show ?thesis
    proof (cases cs)
      case Nil
      then have "?loop (cs, None) pending hashed ?n seq s = (SLEof ?n hashed, s)"
        using True by (subst streaming_loop.simps) (simp add: reader_Read_def)
      then show ?thesis using True Nil less.prems(2) by (intro exI [of _ "[]"]) simp
    next
      case (Cons b bs)
      let ?cs = "if ?mx < length b then drop ?mx b # bs else bs" and ?p = "take ?mx b"
      have b: "b \<noteq> []" using less.prems(1) Cons by auto
      then have p: "?p \<noteq> []" by auto
      have read: "reader_Read ?mx (cs, None) = (?p, None, ?cs, None)" using Cons by (simp add: reader_Read_def)
      have "?loop (cs, None) pending hashed ?n seq s = ?loop (?cs, None) ?p hashed ?n seq s"
        unfolding True by (rule streaming_loop_read [OF read p])
      moreover have "2 * reader_size (?cs, None :: goerror option) + length ?p < 2 * reader_size (cs, None :: goerror option) + length pending"
        using reader_Read_size [OF read p] by simp
      moreover have "[] \<notin> set ?cs" using less.prems(1) Cons by auto
      moreover have "?p @ concat ?cs = concat cs" using Cons by auto
      moreover from this have "length ?p + length (concat ?cs) = length (concat cs)" by (metis length_append)
      ultimately show ?thesis
        using less.hyps [of ?cs ?p hashed seq s] less.prems(2) True by simp
    qed
  next
    case False
    let ?fit = "encodeFittingResultStreamChunk L (sp_env P) (sp_expiry P) (sp_streamID P) (sp_remoteMaxPayload P)"
    obtain p k where f: "?fit seq pending = Inr (p, k)" using fitting_chunk_exists [OF v m False] by blast
    have m0: "unat (sp_remoteMaxPayload P) \<noteq> 0" using m by simp
    have k: "0 < k" "k \<le> length pending" using result_chunk_sound(2) [OF f False] m0 by (auto simp: unat_eq_zero)
    have p: "encodeChunk L (resultEnvelope (sp_env P) 0 (sp_expiry P)) (sp_streamID P) seq (take k pending) = Inr p"
      "length p \<le> unat (sp_remoteMaxPayload P)" using result_chunk_sound(1) [OF f] by simp_all
    let ?h = "hashed @ take k pending" and ?s = "snd (SendCustomMessage E (sp_peer P) MessageTypeStreamChunk p s)"
    have n: "?n + word_of_nat k = word_of_nat (length ?h)" using k by simp
    have le: "length ?h \<le> B" using k less.prems(2) by simp
    then have lim1: "\<not> sp_maxStreamBytes P < word_of_nat (length ?h)" by (intro word_within) (use lim(1) in simp)
    have "sp_inputLen P + word_of_nat (length ?h) = word_of_nat (unat (sp_inputLen P) + length ?h)" by simp
    then have lim2: "\<not> sp_maxJobBytes P < sp_inputLen P + word_of_nat (length ?h)"
      using word_within [of "unat (sp_inputLen P) + length ?h" "sp_maxJobBytes P"] lim(2) le by simp
    have send: "SendCustomMessage E (sp_peer P) MessageTypeStreamChunk p s = (True, ?s)"
      using Send_ok [OF ok] by (metis prod.collapse)
    have tr: "pv_trace ?s = pv_trace s @ [EvSend (sp_peer P) MessageTypeStreamChunk p True]"
      using send by (simp add: SendCustomMessage_def Let_def)
    have "?loop (cs, None) pending hashed ?n seq s
        = ?loop (cs, None) (drop k pending) ?h (word_of_nat (length ?h)) (seq + 1) ?s"
      unfolding n [symmetric]
      by (rule streaming_loop_chunk) (use False f m0 lim1 lim2 n send assms(1) in \<open>simp_all only: not_False_eq_True\<close>)
    moreover have "2 * reader_size (cs, None :: goerror option) + length (drop k pending) < 2 * reader_size (cs, None :: goerror option) + length pending"
      using k by simp
    moreover have "length ?h + length (drop k pending) + length (concat cs) = B" using k less.prems(2) by simp
    ultimately obtain ds ps s' where ih: "?loop (cs, None) pending hashed ?n seq s = (SLEof (word_of_nat B) (?h @ concat ds), s')"
      "concat ds = drop k pending @ concat cs"
      "chunk_payloads (encodeChunk L (resultEnvelope (sp_env P) 0 (sp_expiry P)) (sp_streamID P)) (unat (sp_remoteMaxPayload P)) (seq + 1) ds ps"
      "pv_trace s' = pv_trace ?s @ map (\<lambda>b. EvSend (sp_peer P) MessageTypeStreamChunk b True) ps"
      using less.hyps [of cs "drop k pending" ?h "seq + 1" ?s] less.prems(1) by metis
    have "?loop (cs, None) pending hashed ?n seq s = (SLEof (word_of_nat B) (hashed @ concat (take k pending # ds)), s')
      \<and> concat (take k pending # ds) = pending @ concat cs
      \<and> chunk_payloads (encodeChunk L (resultEnvelope (sp_env P) 0 (sp_expiry P)) (sp_streamID P)) (unat (sp_remoteMaxPayload P)) seq (take k pending # ds) (p # ps)
      \<and> pv_trace s' = pv_trace s @ map (\<lambda>b. EvSend (sp_peer P) MessageTypeStreamChunk b True) (p # ps)"
      using ih p k False tr by simp
    then show ?thesis by blast
  qed
qed

end

lemma sendResultStreaming_events:
  assumes L: "tlv_library (pe_tlv E)" and ok: "outside_ok E" and v: "env_ProtocolVersion env \<noteq> 0"
    and res: "resolveRemoteManifestAndMaxPayload p m0 s = Some (mf, m)" and m: "400 \<le> unat m"
    and cs: "[] \<notin> set cs" "cs \<noteq> []"
    and lim: "mf_MaxStreamBytes mf \<noteq> 0" "mf_MaxJobBytes mf \<noteq> 0" "length (concat cs) \<le> unat (mf_MaxStreamBytes mf)"
      "unat inputLen + length (concat cs) \<le> unat (mf_MaxJobBytes mf)"
  shows "\<exists>s' evs. sendResultStreaming E now p env tk inputLen (cs, None) m0 s
      = ((word_of_nat (length (concat cs)), True, None), s')
    \<and> pv_trace s' = pv_trace s @ evs \<and> result_events (pe_tlv E) p env (unat m) (concat cs) evs"
proof -
  let ?x = "resultExpiry (pe_cfg E) now" and ?ct = "resultContentTypeForTaskKind tk True" and ?out = "concat cs"
  obtain sid where "pe_newStreamID E (pv_ids s) = Inr sid" using ok unfolding outside_ok_def by blast
  then obtain s1 where id: "newStreamID E s = (Some sid, s1)" "pv_trace s1 = pv_trace s" by (simp add: newStreamID_def)
  note senders = tlv_library.senders_ok [OF L refl ok v m refl]
  obtain s2 where b: "sendResultStreamBeginUnknown E p env ?x sid ?ct contentEncodingIdentity m s1 = (True, s2)"
    using senders(2) by (metis (full_types) prod.collapse)
  let ?P = "\<lparr>sp_peer = p, sp_env = env, sp_expiry = ?x, sp_streamID = sid, sp_inputLen = inputLen,
     sp_maxStreamBytes = mf_MaxStreamBytes mf, sp_maxJobBytes = mf_MaxJobBytes mf, sp_remoteMaxPayload = m\<rparr>"
  have "\<exists>ds ps s3. streaming_loop E now ?P (cs, None) [] [] 0 0 s2 = (SLEof (word_of_nat (length ?out)) (concat ds), s3)
      \<and> concat ds = ?out \<and> chunk_payloads (encodeChunk (pe_tlv E) (resultEnvelope env 0 ?x) sid) (unat m) 0 ds ps
      \<and> pv_trace s3 = pv_trace s2 @ map (\<lambda>b. EvSend p MessageTypeStreamChunk b True) ps"
    using tlv_library.streaming_loop_eof [OF L refl ok, of ?P "length ?out" cs "[]" "[]" now 0 s2] v m lim(3,4) cs(1) by simp
  then obtain ds ps s3 where c: "streaming_loop E now ?P (cs, None) [] [] 0 0 s2 = (SLEof (word_of_nat (length ?out)) ?out, s3)"
      "concat ds = ?out" "chunk_payloads (encodeChunk (pe_tlv E) (resultEnvelope env 0 ?x) sid) (unat m) 0 ds ps"
      "pv_trace s3 = pv_trace s2 @ map (\<lambda>b. EvSend p MessageTypeStreamChunk b True) ps" by metis
  have n: "(word_of_nat (length ?out) :: u64) \<noteq> 0"
  proof -
    have "length ?out < 18446744073709551616" using lim(3) unsigned_less [of "mf_MaxStreamBytes mf", where 'a = nat] by simp
    then have "unat (word_of_nat (length ?out) :: u64) = length ?out" by (simp only: unat_of_nat) simp
    moreover have "?out \<noteq> []" using cs by (cases cs) auto
    ultimately show ?thesis by (metis length_0_conv unat_0)
  qed
  obtain s4 where f: "sendResultStreamEnd E p env ?x sid (word_of_nat (length ?out)) (sha256 ?out) m s3 = (True, s4)"
    using senders(3) by (metis (full_types) prod.collapse)
  obtain s5 where r: "sendTerminalOKResult E p env ?x sid (word_of_nat (length ?out)) (sha256 ?out) ?ct contentEncodingIdentity m s4 = (True, s5)"
    using senders(4) by (metis (full_types) prod.collapse)
  have "sendResultStreaming E now p env tk inputLen (cs, None) m0 s = ((word_of_nat (length ?out), True, None), s5)"
    using res id(1) b c(1) n f r lim(1,2) by (simp add: sendResultStreaming_def Let_def)
  moreover have "\<exists>evs. pv_trace s5 = pv_trace s @ evs \<and> result_events (pe_tlv E) p env (unat m) ?out evs"
    unfolding result_events_def
    using id(2) beginUnknown_trace [OF b] c(2-4) end_trace [OF f] terminal_trace [OF r]
    by (fastforce simp: resultEnvelope_def)
  ultimately show ?thesis by blast
qed

section \<open>A sample run\<close>

lemma sample_limits: "resolveRemoteManifestAndMaxPayload ''p'' 0 sample_start = Some (sample_manifest, 500)"
  using sample_remote by (simp add: resolveRemoteManifestAndMaxPayload_def sample_manifest_def)

lemma sample_services: "tlv_library (pe_tlv sample_env)" "pe_validator sample_env = DefaultValidator" "outside_ok sample_env"
  using bolt.tlv_library_axioms by (simp_all add: sample_env_def outside_ok_def)

abbreviation sample_waiter :: waiter where
  "sample_waiter \<equiv> snd (WaitResult ''q'' 7 (waiter_New None))"

lemma sample_waiter_ready:
  "idle sample_waiter \<lparr>wk_peerID = ''q'', wk_jobID = env_JobID sample_envelope\<rparr> 0"
  "n \<le> 4194304 \<Longrightarrow> within sample_waiter n"
  using waitResult_registers [OF waiter_New_ok(1), of "''q''" None 7]
  by (simp_all add: waiter_New_def sample_envelope_def within_def WaitResult_def ensureEntryLocked_def Let_def entryAt_def empty_entry_def)

lemma sample_result_sent:
  "\<exists>s xs t b ys. provider_reachable sample_env s \<and> pv_trace s = xs @ EvSend ''p'' t b True # ys \<and> result_type t"
proof -
  obtain s where s: "provider_reachable sample_env s" "quoted sample_env sample_key sample_request [123, 125] 52 400 sample_start s"
    using sample_quoted by blast
  from s(2) obtain r rid where r: "map_of (pv_runners s) rid = Some r" "ru_Phase r = RunWaiting" "\<not> ru_Cancelled r"
    "ru_Req r = sample_request" "is_Buf (ru_Input r) = [123, 125]" "ru_Key r = sample_key" "pv_peers s = pv_peers sample_start"
    "ru_RemoteMaxPayload r = 500" "env_ProtocolVersion (qs_Envelope (ru_QuoteResp r)) = 2"
    using sample_remote by (auto simp: quoted_def sample_key_def remoteMaxPayloadBytes_def sample_manifest_def sample_request_def sample_envelope_def)
  obtain now where now: "\<not> ctx_Err now r"
    using r(3) by (cases "ru_Deadline r") (auto simp: ctx_Err_def intro: that [of "the (ru_Deadline r) - 1"])
  let ?s1 = "runJob_settled sample_env now rid r None s"
  have reach: "provider_reachable sample_env ?s1"
    by (rule provider_reachable.step [OF s(1) provider_step.settled [OF r(1,2)]])
  obtain task where s1: "map_of (pv_runners ?s1) rid = Some (r\<lparr>ru_Phase := RunExecuting task False\<rparr>)" "pv_peers ?s1 = pv_peers s"
  proof -
    have "planTask (pe_tlv sample_env) (pe_json sample_env) (pe_cfg sample_env) (pe_policy sample_env) (ru_Req r) (is_Buf (ru_Input r))
        = Inr (\<lparr>ct_TaskKind = ''openai.responses.v1'', ct_Model = ''m'', ct_InputBytes = [123, 125], ct_ParamsBytes = []\<rparr>,
            \<lparr>ep_MaxOutputTokens = 10\<rparr>, ''m'', False)" using sample_plan r(4,5) by (simp add: sample_env_def)
    from settled_phase [OF r(1) now this] that show ?thesis by blast
  qed
  let ?r = "r\<lparr>ru_Phase := RunExecuting task False\<rparr>" and ?o = "\<lparr>xr_OutputBytes = [1, 2, 3], xr_Usage = zeroUsage\<rparr>"
  let ?s2 = "runJob_executed sample_env now rid ?r False (Inr ?o) ?s1"
  have reach2: "provider_reachable sample_env ?s2"
    by (rule provider_reachable.step [OF reach provider_step.executed [OF s1(1)]]) simp_all
  have lim: "resolveRemoteManifestAndMaxPayload ''p'' 500 ?s1 = Some (sample_manifest, 500)"
    using sample_remote s1(2) r(7) by (simp add: resolveRemoteManifestAndMaxPayload_def)
  obtain s' evs where sent: "sendResult sample_env now ''p'' (qs_Envelope (ru_QuoteResp r)) (qr_TaskKind (ru_Req r)) False 2 [1, 2, 3] 500 ?s1 = (True, s')"
      "pv_trace s' = pv_trace ?s1 @ evs" "result_events (pe_tlv sample_env) ''p'' (qs_Envelope (ru_QuoteResp r)) 500 [1, 2, 3] evs"
  proof -
    have "fst (sendResult sample_env now ''p'' (qs_Envelope (ru_QuoteResp r)) (qr_TaskKind (ru_Req r)) False 2 [1, 2, 3] 500 ?s1)"
      by (rule tlv_library.sendResult_ok [OF sample_services(1) refl sample_services(3) _ lim]) (simp_all add: r(9) sample_manifest_def)
    then obtain s' where s': "sendResult sample_env now ''p'' (qs_Envelope (ru_QuoteResp r)) (qr_TaskKind (ru_Req r)) False 2 [1, 2, 3] 500 ?s1 = (True, s')"
      by (metis (full_types) prod.collapse)
    from sendResult_events [OF this lim] that [OF s'] show ?thesis by (auto simp: sample_manifest_def)
  qed
  have "pv_trace ?s2 = pv_trace s'"
    using sent(1) r(5,6,8) by (simp add: runJob_executed_def runJob_return_def setPhase_def forgetJob_def handler_updateState_def sample_key_def)
  moreover obtain b evs' where "evs = EvSend ''p'' MessageTypeStreamBegin b True # evs'" using sent(3) by (auto simp: result_events_def)
  ultimately have "pv_trace ?s2 = pv_trace ?s1 @ EvSend ''p'' MessageTypeStreamBegin b True # evs'" using sent(2) by simp
  moreover have "result_type MessageTypeStreamBegin" by (simp add: result_type_def)
  ultimately show ?thesis using reach2 by blast
qed

section \<open>Properties\<close>

text \<open>
  C9. A result reaches the requester byte for byte: when the messenger and the random
  source do not fail, the requester's limits admit the output and its message limit is
  between 400 and 65535 bytes, \<^verbatim>\<open>sendResult\<close> succeeds, and a call that waits for the result
  of this job receives exactly the output of the backend when the waiter handles the
  messages that were sent.
\<close>

theorem result_delivered_exactly:
  assumes "tlv_library (pe_tlv E)" and "outside_ok E" and "env_ProtocolVersion env \<noteq> 0"
    and "resolveRemoteManifestAndMaxPayload p m0 s = Some (mf, m)" and "400 \<le> unat m" and "unat m \<le> 65535"
    and "\<not> mf_MaxStreamBytes mf < word_of_nat (length out)" and "\<not> mf_MaxJobBytes mf < inputLen + word_of_nat (length out)"
    and "idle w \<lparr>wk_peerID = provider_key, wk_jobID = env_JobID env\<rparr> c" and "within w (length out)"
  shows "\<exists>s' evs res. sendResult E now p env tk streaming inputLen out m0 s = (True, s')
    \<and> pv_trace s' = pv_trace s @ evs \<and> rs_Status res = ResultStatusOK
    \<and> (c, \<lparr>ro_Result = Some res, ro_ResultBytes = out, ro_Error = None\<rparr>)
        \<in> set (wt_resultInbox (fold (waiter_HandleInboundCustomMessage (pe_tlv E)) (sent_messages provider_key evs) w))"
proof -
  obtain s' where s': "sendResult E now p env tk streaming inputLen out m0 s = (True, s')"
    using tlv_library.sendResult_ok [OF assms(1) refl assms(2-5,7,8)] by (metis (full_types) prod.collapse)
  from sendResult_events [OF this assms(4,7,8)] result_events_deliver [OF assms(1) _ assms(6,9,10)] s'
  show ?thesis by blast
qed

theorem result_delivered_exactly_witness:
  "\<exists>s' evs res. sendResult sample_env 0 ''p'' sample_envelope ''k'' False 2 [1, 2, 3] 0 sample_start = (True, s')
    \<and> pv_trace s' = pv_trace sample_start @ evs
    \<and> (0, \<lparr>ro_Result = Some res, ro_ResultBytes = [1, 2, 3], ro_Error = None\<rparr>)
        \<in> set (wt_resultInbox (fold (waiter_HandleInboundCustomMessage bolt_lib) (sent_messages ''q'' evs) sample_waiter))"
proof -
  have "\<exists>s' evs res. sendResult sample_env 0 ''p'' sample_envelope ''k'' False 2 [1, 2, 3] 0 sample_start = (True, s')
    \<and> pv_trace s' = pv_trace sample_start @ evs \<and> rs_Status res = ResultStatusOK
    \<and> (0, \<lparr>ro_Result = Some res, ro_ResultBytes = [1, 2, 3], ro_Error = None\<rparr>)
        \<in> set (wt_resultInbox (fold (waiter_HandleInboundCustomMessage (pe_tlv sample_env)) (sent_messages ''q'' evs) sample_waiter))"
    by (rule result_delivered_exactly [OF sample_services(1,3) _ sample_limits _ _ _ _ sample_waiter_ready])
      (simp_all add: sample_envelope_def sample_manifest_def)
  then show ?thesis by (auto simp: sample_env_def)
qed

text \<open>
  C11. A streamed result reaches the requester byte for byte: the same for
  \<^verbatim>\<open>sendResultStreaming\<close>, whatever pieces the backend delivers, as long as none is empty and
  the whole output stays within the limits of the requester's manifest.
\<close>

theorem streamed_result_delivered_exactly:
  assumes "tlv_library (pe_tlv E)" and "outside_ok E" and "env_ProtocolVersion env \<noteq> 0"
    and "resolveRemoteManifestAndMaxPayload p m0 s = Some (mf, m)" and "400 \<le> unat m" and "unat m \<le> 65535"
    and "[] \<notin> set cs" and "cs \<noteq> []" and "mf_MaxStreamBytes mf \<noteq> 0" and "mf_MaxJobBytes mf \<noteq> 0"
    and "length (concat cs) \<le> unat (mf_MaxStreamBytes mf)"
    and "unat inputLen + length (concat cs) \<le> unat (mf_MaxJobBytes mf)"
    and "idle w \<lparr>wk_peerID = provider_key, wk_jobID = env_JobID env\<rparr> c" and "within w (length (concat cs))"
  shows "\<exists>s' evs res. sendResultStreaming E now p env tk inputLen (cs, None) m0 s
      = ((word_of_nat (length (concat cs)), True, None), s')
    \<and> pv_trace s' = pv_trace s @ evs \<and> rs_Status res = ResultStatusOK
    \<and> (c, \<lparr>ro_Result = Some res, ro_ResultBytes = concat cs, ro_Error = None\<rparr>)
        \<in> set (wt_resultInbox (fold (waiter_HandleInboundCustomMessage (pe_tlv E)) (sent_messages provider_key evs) w))"
  using sendResultStreaming_events [OF assms(1-5,7-12)] result_events_deliver [OF assms(1) _ assms(6,13,14)] by blast

theorem streamed_result_delivered_exactly_witness:
  "\<exists>s' evs res. sendResultStreaming sample_env 0 ''p'' sample_envelope ''k'' 2 ([[1, 2], [3]], None) 0 sample_start = ((3, True, None), s')
    \<and> pv_trace s' = pv_trace sample_start @ evs
    \<and> (0, \<lparr>ro_Result = Some res, ro_ResultBytes = [1, 2, 3], ro_Error = None\<rparr>)
        \<in> set (wt_resultInbox (fold (waiter_HandleInboundCustomMessage bolt_lib) (sent_messages ''q'' evs) sample_waiter))"
proof -
  have "\<exists>s' evs res. sendResultStreaming sample_env 0 ''p'' sample_envelope ''k'' 2 ([[1, 2], [3]], None) 0 sample_start
      = ((word_of_nat (length (concat [[1, 2], [3 :: byte]])), True, None), s')
    \<and> pv_trace s' = pv_trace sample_start @ evs \<and> rs_Status res = ResultStatusOK
    \<and> (0, \<lparr>ro_Result = Some res, ro_ResultBytes = concat [[1, 2], [3]], ro_Error = None\<rparr>)
        \<in> set (wt_resultInbox (fold (waiter_HandleInboundCustomMessage (pe_tlv sample_env)) (sent_messages ''q'' evs) sample_waiter))"
    by (rule streamed_result_delivered_exactly [OF sample_services(1,3) _ sample_limits _ _ _ _ _ _ _ _ sample_waiter_ready])
      (simp_all add: sample_envelope_def sample_manifest_def)
  then show ?thesis by (auto simp: sample_env_def)
qed

text \<open>
  C15. Results only for executed jobs: every message of a result (stream begin, chunk, end,
  terminal result) that the provider sends belongs to a job for which the backend was called
  before. The job id in the message's envelope is the id of that job, and the message goes to
  the peer of that job. So a job that is cancelled or fails before it is executed gets no
  \<^verbatim>\<open>lcp_result\<close> (the protocol document asks for one with the status \<^verbatim>\<open>cancelled\<close> or \<^verbatim>\<open>failed\<close>).
\<close>

theorem results_only_for_executed_jobs:
  assumes "provider_reachable E s" and "tlv_library (pe_tlv E)" and "pe_validator E = DefaultValidator"
    and "pv_trace s = xs @ EvSend p t b ok # ys" and "result_type t"
  shows "\<exists>rid task r. EvExecute rid task \<in> set xs \<and> map_of (pv_runners s) rid = Some r
    \<and> jk_PeerPubKey (ru_Key r) = p \<and> for_job (pe_tlv E) (jk_JobID (ru_Key r)) t b"
  using provider_reachable_inv [OF assms(1-3)] result_event_facts assms(4,5) by blast

theorem results_only_for_executed_jobs_witness:
  "\<exists>s xs t b ys rid task r. provider_reachable sample_env s \<and> pv_trace s = xs @ EvSend ''p'' t b True # ys
     \<and> result_type t \<and> EvExecute rid task \<in> set xs \<and> map_of (pv_runners s) rid = Some r
     \<and> for_job (pe_tlv sample_env) (jk_JobID (ru_Key r)) t b"
proof -
  obtain s xs t b ys where s: "provider_reachable sample_env s" "pv_trace s = xs @ EvSend ''p'' t b True # ys" "result_type t"
    using sample_result_sent by blast
  from results_only_for_executed_jobs [OF s(1) sample_services(1,2) s(2,3)] s show ?thesis by blast
qed

end
