(* ===== verification/Tasks.thy ===== *)
theory Tasks
  imports Provider_Validation Wire_Sizes
begin

text \<open>
  Tasks of the requester, \<^verbatim>\<open>go-lcpd/internal/lcptasks/lcptasks.go\<close>: the strict validation of the
  protobuf task and its conversion into the wire form of a quote request and into the input
  stream. The \<^verbatim>\<open>oneof\<close> of the protobuf \<^verbatim>\<open>Task\<close> is a datatype; a nil message is \<open>None\<close>. The two
  \<^verbatim>\<open>json.Unmarshal\<close> calls, into structs with fewer fields than the provider's, are the
  fields of \<open>task_json\<close>.
\<close>

section \<open>Data\<close>

text \<open>The two task specs have the same shape: a request body and parameters with a model.\<close>

record openai_spec =
  os_RequestJson :: bytes
  os_Params :: "string option"

datatype task_spec =
    OpenaiChatCompletionsV1 "openai_spec option"
  | OpenaiResponsesV1 "openai_spec option"
  | OtherSpec

record proto_task =
  tk_Spec :: "task_spec option"

record parsed_chat =
  pch_Model :: string
  pch_Messages :: "bytes list"

record parsed_responses =
  prs_Model :: string
  prs_Input :: bytes

record task_json =
  tj_chat :: "bytes \<Rightarrow> parsed_chat res"
  tj_responses :: "bytes \<Rightarrow> parsed_responses res"

record quote_request_task =
  qt_TaskKind :: string
  qt_ParamsBytes :: bytes

record input_stream =
  in_DecodedBytes :: bytes
  in_ContentType :: string
  in_ContentEncoding :: string

section \<open>Validation\<close>

definition taskError :: "string \<Rightarrow> string \<Rightarrow> goerror" where
  "taskError name msg = sentinel (''lcptasks.'' @ name) msg"

definition lcptasks_ErrTaskRequired :: goerror where
  "lcptasks_ErrTaskRequired = taskError ''ErrTaskRequired'' ''task is required''"
definition lcptasks_ErrTaskSpecRequired :: goerror where
  "lcptasks_ErrTaskSpecRequired = taskError ''ErrTaskSpecRequired'' ''task spec is required''"
definition lcptasks_ErrUnsupportedTask :: goerror where
  "lcptasks_ErrUnsupportedTask = taskError ''ErrUnsupportedTask'' ''unsupported task''"

definition validateOpenAIChatCompletionsV1 :: "task_json \<Rightarrow> openai_spec option \<Rightarrow> goerror option" where
  "validateOpenAIChatCompletionsV1 J spec =
     (case spec of
        None \<Rightarrow> Some (taskError ''ErrOpenAIChatCompletionsV1TaskRequired'' ''openai_chat_completions_v1 task is required'')
      | Some sp \<Rightarrow>
     (if os_RequestJson sp = []
      then Some (taskError ''ErrOpenAIChatCompletionsV1RequestJSONRequired'' ''openai_chat_completions_v1.request_json is required'')
      else (case os_Params sp of
        None \<Rightarrow> Some (taskError ''ErrOpenAIChatCompletionsV1ParamsRequired'' ''openai_chat_completions_v1.params is required'')
      | Some model \<Rightarrow>
      if model = []
      then Some (taskError ''ErrOpenAIChatCompletionsV1ModelRequired'' ''openai_chat_completions_v1.params.model is required'')
      else if \<not> utf8_ValidString model
      then Some (taskError ''ErrOpenAIChatCompletionsV1ModelInvalid'' ''openai_chat_completions_v1.params.model must be valid UTF-8'')
      else (case tj_chat J (os_RequestJson sp) of
        Inl err \<Rightarrow> Some (GoError [''lcptasks.ErrOpenAIChatCompletionsV1RequestJSONInvalid'']
            (''openai_chat_completions_v1.request_json must be valid json: '' @ error_text err))
      | Inr parsed \<Rightarrow>
      if pch_Model parsed = []
      then Some (taskError ''ErrOpenAIChatCompletionsV1RequestModelRequired'' ''openai_chat_completions_v1.request_json.model is required'')
      else if pch_Messages parsed = []
      then Some (taskError ''ErrOpenAIChatCompletionsV1RequestMessagesRequired'' ''openai_chat_completions_v1.request_json.messages is required'')
      else if pch_Model parsed \<noteq> model
      then Some (taskError ''ErrOpenAIChatCompletionsV1ModelMismatch''
             ''openai_chat_completions_v1.params.model must match request_json.model'')
      else None))))"

definition validateOpenAIResponsesV1 :: "task_json \<Rightarrow> openai_spec option \<Rightarrow> goerror option" where
  "validateOpenAIResponsesV1 J spec =
     (case spec of
        None \<Rightarrow> Some (taskError ''ErrOpenAIResponsesV1TaskRequired'' ''openai_responses_v1 task is required'')
      | Some sp \<Rightarrow>
     (if os_RequestJson sp = []
      then Some (taskError ''ErrOpenAIResponsesV1RequestJSONRequired'' ''openai_responses_v1.request_json is required'')
      else (case os_Params sp of
        None \<Rightarrow> Some (taskError ''ErrOpenAIResponsesV1ParamsRequired'' ''openai_responses_v1.params is required'')
      | Some model \<Rightarrow>
      if model = []
      then Some (taskError ''ErrOpenAIResponsesV1ModelRequired'' ''openai_responses_v1.params.model is required'')
      else if \<not> utf8_ValidString model
      then Some (taskError ''ErrOpenAIResponsesV1ModelInvalid'' ''openai_responses_v1.params.model must be valid UTF-8'')
      else (case tj_responses J (os_RequestJson sp) of
        Inl err \<Rightarrow> Some (GoError [''lcptasks.ErrOpenAIResponsesV1RequestJSONInvalid'']
            (''openai_responses_v1.request_json must be valid json: '' @ error_text err))
      | Inr parsed \<Rightarrow>
      if prs_Model parsed = []
      then Some (taskError ''ErrOpenAIResponsesV1RequestModelRequired'' ''openai_responses_v1.request_json.model is required'')
      else if bytes_TrimSpace (prs_Input parsed) = [] \<or> bytes_TrimSpace (prs_Input parsed) = string_bytes ''null''
      then Some (taskError ''ErrOpenAIResponsesV1RequestInputRequired'' ''openai_responses_v1.request_json.input is required'')
      else if prs_Model parsed \<noteq> model
      then Some (taskError ''ErrOpenAIResponsesV1ModelMismatch''
             ''openai_responses_v1.params.model must match request_json.model'')
      else None))))"

definition ValidateTask :: "task_json \<Rightarrow> proto_task option \<Rightarrow> goerror option" where
  "ValidateTask J task =
     (case task of
        None \<Rightarrow> Some lcptasks_ErrTaskRequired
      | Some t \<Rightarrow> (case tk_Spec t of
          None \<Rightarrow> Some lcptasks_ErrTaskSpecRequired
        | Some (OpenaiChatCompletionsV1 spec) \<Rightarrow> validateOpenAIChatCompletionsV1 J spec
        | Some (OpenaiResponsesV1 spec) \<Rightarrow> validateOpenAIResponsesV1 J spec
        | Some OtherSpec \<Rightarrow> Some lcptasks_ErrUnsupportedTask))"

section \<open>Conversion\<close>

text \<open>The generated getters return the zero value on nil.\<close>

definition getModel :: "openai_spec option \<Rightarrow> string" where
  "getModel spec = (case spec of None \<Rightarrow> [] | Some sp \<Rightarrow> (case os_Params sp of None \<Rightarrow> [] | Some m \<Rightarrow> m))"

definition getRequestJson :: "openai_spec option \<Rightarrow> bytes" where
  "getRequestJson spec = (case spec of None \<Rightarrow> [] | Some sp \<Rightarrow> os_RequestJson sp)"

definition ToWireQuoteRequestTask :: "tlv_lib \<Rightarrow> task_json \<Rightarrow> proto_task option \<Rightarrow> quote_request_task res" where
  "ToWireQuoteRequestTask L J task =
     (case ValidateTask J task of
        Some err \<Rightarrow> Inl err
      | None \<Rightarrow> (case task of
          Some t \<Rightarrow> (case tk_Spec t of
            Some (OpenaiChatCompletionsV1 spec) \<Rightarrow>
              bindE (mapErr (wrapf ''encode openai_chat_completions_v1 params'')
                      (EncodeOpenAIChatCompletionsV1Params L \<lparr>cp_Model = getModel spec, cp_Unknown = []\<rparr>))
                (\<lambda>p. Inr \<lparr>qt_TaskKind = taskKindOpenAIChatCompletionsV1, qt_ParamsBytes = p\<rparr>)
          | Some (OpenaiResponsesV1 spec) \<Rightarrow>
              bindE (mapErr (wrapf ''encode openai_responses_v1 params'')
                      (EncodeOpenAIResponsesV1Params L \<lparr>rp_Model = getModel spec, rp_Unknown = []\<rparr>))
                (\<lambda>p. Inr \<lparr>qt_TaskKind = taskKindOpenAIResponsesV1, qt_ParamsBytes = p\<rparr>)
          | _ \<Rightarrow> Inl lcptasks_ErrUnsupportedTask)
        | None \<Rightarrow> Inl lcptasks_ErrUnsupportedTask))"

definition jsonInputStream :: "bytes \<Rightarrow> input_stream" where
  "jsonInputStream b = \<lparr>in_DecodedBytes = b, in_ContentType = contentTypeApplicationJSON,
     in_ContentEncoding = contentEncodingIdentity\<rparr>"

definition ToWireInputStream :: "task_json \<Rightarrow> proto_task option \<Rightarrow> input_stream res" where
  "ToWireInputStream J task =
     (case ValidateTask J task of
        Some err \<Rightarrow> Inl err
      | None \<Rightarrow> (case task of
          Some t \<Rightarrow> (case tk_Spec t of
            Some (OpenaiChatCompletionsV1 spec) \<Rightarrow> Inr (jsonInputStream (getRequestJson spec))
          | Some (OpenaiResponsesV1 spec) \<Rightarrow> Inr (jsonInputStream (getRequestJson spec))
          | _ \<Rightarrow> Inl lcptasks_ErrUnsupportedTask)
        | None \<Rightarrow> Inl lcptasks_ErrUnsupportedTask))"

section \<open>Valid tasks\<close>

text \<open>What validation leaves: the kind, the request body and the model.\<close>

definition task_view :: "proto_task \<Rightarrow> (string \<times> bytes \<times> string) option" where
  "task_view t = (case tk_Spec t of
      Some (OpenaiChatCompletionsV1 spec) \<Rightarrow> Some (taskKindOpenAIChatCompletionsV1, getRequestJson spec, getModel spec)
    | Some (OpenaiResponsesV1 spec) \<Rightarrow> Some (taskKindOpenAIResponsesV1, getRequestJson spec, getModel spec)
    | _ \<Rightarrow> None)"

lemma ValidateTask_None:
  assumes "ValidateTask J task = None"
  shows "\<exists>t kind body model. task = Some t \<and> task_view t = Some (kind, body, model) \<and> body \<noteq> [] \<and> model \<noteq> []
    \<and> utf8_ValidString model \<and> (kind = taskKindOpenAIChatCompletionsV1 \<or> kind = taskKindOpenAIResponsesV1)"
  using assms
  by (auto simp: ValidateTask_def validateOpenAIChatCompletionsV1_def validateOpenAIResponsesV1_def task_view_def
      getModel_def getRequestJson_def split: option.splits task_spec.splits if_splits sum.splits)

lemma ToWireInputStream_valid:
  assumes "ValidateTask J (Some t) = None" and "task_view t = Some (kind, body, model)"
  shows "ToWireInputStream J (Some t) = Inr (jsonInputStream body)"
  using assms by (auto simp: ToWireInputStream_def task_view_def split: option.splits task_spec.splits)

context tlv_library
begin

lemma encode_model:
  assumes "model \<noteq> []" and "utf8_ValidString model"
  shows "EncodeOpenAIChatCompletionsV1Params L \<lparr>cp_Model = model, cp_Unknown = []\<rparr> = Inr (raw_stream [(1, string_bytes model)])"
    and "EncodeOpenAIResponsesV1Params L \<lparr>rp_Model = model, rp_Unknown = []\<rparr> = Inr (raw_stream [(1, string_bytes model)])"
proof -
  have "ascending [(1 :: u64, FVarBytes (string_bytes model))]" by (simp add: ascending_def)
  then have "encodeTLVStream L [(1, FVarBytes (string_bytes model))] = Inr (raw_stream [(1, string_bytes model)])"
    by (simp add: encodeTLVStream_def new_stream encode raw_record_def)
  then show "EncodeOpenAIChatCompletionsV1Params L \<lparr>cp_Model = model, cp_Unknown = []\<rparr> = Inr (raw_stream [(1, string_bytes model)])"
    and "EncodeOpenAIResponsesV1Params L \<lparr>rp_Model = model, rp_Unknown = []\<rparr> = Inr (raw_stream [(1, string_bytes model)])"
    using assms
    by (simp_all add: EncodeOpenAIChatCompletionsV1Params_def EncodeOpenAIResponsesV1Params_def validateUTF8String_def)
qed

lemma ToWireQuoteRequestTask_valid:
  assumes "ValidateTask J (Some t) = None" and "task_view t = Some (kind, body, model)"
  shows "ToWireQuoteRequestTask L J (Some t) = Inr \<lparr>qt_TaskKind = kind, qt_ParamsBytes = raw_stream [(1, string_bytes model)]\<rparr>"
proof -
  have "model \<noteq> []" "utf8_ValidString model" using ValidateTask_None [OF assms(1)] assms(2) by auto
  note enc = encode_model [OF this]
  show ?thesis
    using assms enc by (auto simp: ToWireQuoteRequestTask_def task_view_def split: option.splits task_spec.splits)
qed

lemma valid_task_request:
  assumes v: "ValidateTask J (Some t) = None" and view: "task_view t = Some (kind, body, model)"
    and len: "length model \<le> 1000" and ver: "env_ProtocolVersion env = ProtocolVersionV02"
    and remote: "case remote of None \<Rightarrow> True | Some m \<Rightarrow> mf_SupportedTasks m = []"
  defines "req \<equiv> \<lparr>qr_Envelope = env, qr_TaskKind = kind, qr_ParamsBytes = Some (raw_stream [(1, string_bytes model)])\<rparr>"
  shows "ValidateQuoteRequest L DefaultValidator req remote = None \<and> modelFromRequest L req = model"
proof -
  have m: "model \<noteq> []" "utf8_ValidString model" and k: "kind = taskKindOpenAIChatCompletionsV1 \<or> kind = taskKindOpenAIResponsesV1"
    using ValidateTask_None [OF v] view by auto
  have "length (raw_stream [(1, string_bytes model)]) \<le> MaxRecordSize"
    using length_encodeTLV [of 1 "string_bytes model"] len by (simp add: raw_stream_def)
  then have d: "DecodeOpenAIChatCompletionsV1Params L (raw_stream [(1, string_bytes model)]) = Inr \<lparr>cp_Model = model, cp_Unknown = []\<rparr>"
      "DecodeOpenAIResponsesV1Params L (raw_stream [(1, string_bytes model)]) = Inr \<lparr>rp_Model = model, rp_Unknown = []\<rparr>"
    using chat_params_round_trip [OF encode_model(1) [OF m]] responses_params_round_trip [OF encode_model(2) [OF m]] by simp_all
  show ?thesis
    unfolding req_def using k ver remote
    by (auto simp: ValidateQuoteRequest_def DefaultValidator_def protocolSupported_def taskKindSupported_def
        validateTaskParams_def d modelFromRequest_def split: option.splits)
qed

end

section \<open>Properties\<close>

text \<open>
  C23. Requester and provider agree on what a task is: a task that the requester's strict
  validation accepts becomes a quote request that the provider's validator accepts (for a
  peer whose manifest lists no tasks), the provider reads the requester's model from it,
  its parameters are canonical, and the input stream is exactly the request body, with the
  content type that the provider expects for the task kind.
\<close>

theorem valid_task_is_accepted:
  assumes "tlv_library L" and "ValidateTask J (Some t) = None" and "task_view t = Some (kind, body, model)"
    and "length model \<le> 1000" and "env_ProtocolVersion env = ProtocolVersionV02"
    and "case remote of None \<Rightarrow> True | Some m \<Rightarrow> mf_SupportedTasks m = []"
  shows "\<exists>wt inp. ToWireQuoteRequestTask L J (Some t) = Inr wt \<and> ToWireInputStream J (Some t) = Inr inp
    \<and> ValidateQuoteRequest L DefaultValidator
        \<lparr>qr_Envelope = env, qr_TaskKind = qt_TaskKind wt, qr_ParamsBytes = Some (qt_ParamsBytes wt)\<rparr> remote = None
    \<and> modelFromRequest L \<lparr>qr_Envelope = env, qr_TaskKind = qt_TaskKind wt, qr_ParamsBytes = Some (qt_ParamsBytes wt)\<rparr> = model
    \<and> canonicalizeTLVStream L (qt_ParamsBytes wt) = Inr (qt_ParamsBytes wt)
    \<and> in_DecodedBytes inp = body \<and> in_ContentType inp = inputContentTypeForTaskKind kind
    \<and> in_ContentEncoding inp = contentEncodingIdentity"
proof -
  have "canonicalizeTLVStream L (raw_stream [(1, string_bytes model)]) = Inr (raw_stream [(1, string_bytes model)])"
    using assms(4) by (intro tlv_library.canonicalize_stream [OF assms(1)]) (simp_all add: ascending_def)
  moreover have "kind = taskKindOpenAIChatCompletionsV1 \<or> kind = taskKindOpenAIResponsesV1"
    using ValidateTask_None [OF assms(2)] assms(3) by auto
  ultimately show ?thesis
    using tlv_library.ToWireQuoteRequestTask_valid [OF assms(1-3)] ToWireInputStream_valid [OF assms(2,3)]
      tlv_library.valid_task_request [OF assms]
    by (auto simp: jsonInputStream_def inputContentTypeForTaskKind_def)
qed

definition sample_task :: proto_task where
  "sample_task = \<lparr>tk_Spec = Some (OpenaiResponsesV1 (Some \<lparr>os_RequestJson = [123, 125], os_Params = Some ''m''\<rparr>))\<rparr>"

definition sample_task_json :: task_json where
  "sample_task_json = \<lparr>tj_chat = (\<lambda>b. Inl (errors_New ''bad'')),
     tj_responses = (\<lambda>b. Inr \<lparr>prs_Model = ''m'', prs_Input = b\<rparr>)\<rparr>"

lemma sample_task_valid: "ValidateTask sample_task_json (Some sample_task) = None"
proof -
  have "bytes_TrimSpace [123, 125] \<noteq> [] \<and> bytes_TrimSpace [123, 125] \<noteq> string_bytes ''null''" "utf8_ValidString ''m''" by code_simp+
  then show ?thesis
    by (simp add: ValidateTask_def sample_task_def validateOpenAIResponsesV1_def sample_task_json_def)
qed

lemma sample_task_view: "task_view sample_task = Some (''openai.responses.v1'', [123, 125], ''m'')"
  by (simp add: task_view_def sample_task_def getRequestJson_def getModel_def)

theorem valid_task_is_accepted_witness:
  "\<exists>wt. ToWireQuoteRequestTask bolt_lib sample_task_json (Some sample_task) = Inr wt
     \<and> ValidateQuoteRequest bolt_lib DefaultValidator
         \<lparr>qr_Envelope = sample_envelope, qr_TaskKind = qt_TaskKind wt, qr_ParamsBytes = Some (qt_ParamsBytes wt)\<rparr> None = None"
  using valid_task_is_accepted [OF bolt.tlv_library_axioms sample_task_valid sample_task_view, of sample_envelope None]
  by (auto simp: sample_envelope_def)

end
