(* ===== verification/Lightning.thy ===== *)
theory Lightning
  imports Provider
begin

text \<open>
  The two adapters to the Lightning node: the requester's \<^verbatim>\<open>go-lcpd/internal/lightningrpc/lightningrpc.go\<close>
  and the invoices of the provider, \<^verbatim>\<open>go-lcpd/internal/provider/lnd_adapter.go\<close>. The node is outside:
  its responses are arguments. A server stream is the list of the messages that arrive and
  the error that ends it (\<open>None\<close> is the end of the stream); a nil message is \<open>None\<close>. Signed
  64-bit numbers are integers; the places where Go's arithmetic could leave the range are
  guarded in the source or wrap explicitly.
\<close>

section \<open>Requester side\<close>

abbreviation maxInt64 :: int where "maxInt64 \<equiv> 9223372036854775807"

definition ErrNotConfigured :: goerror where
  "ErrNotConfigured = sentinel ''ErrNotConfigured'' ''lightning rpc not configured''"
definition ErrPaymentFailed :: goerror where
  "ErrPaymentFailed = sentinel ''ErrPaymentFailed'' ''payment failed''"
definition ErrInvalidRequest :: goerror where
  "ErrInvalidRequest = sentinel ''ErrInvalidRequest'' ''invalid request''"

text \<open>The parts of the node's responses that are read.\<close>

record pay_req =
  pq_DescriptionHash :: string
  pq_Destination :: string
  pq_NumMsat :: int
  pq_NumSatoshis :: int
  pq_Timestamp :: int
  pq_Expiry :: int

datatype payment_status = PaymentSucceeded | PaymentFailed | PaymentOther

record payment =
  py_Status :: payment_status
  py_FailureReason :: string
  py_PaymentPreimage :: string

record payment_request_info =
  pi_DescriptionHash :: hash32
  pi_PayeePubKey :: string
  pi_AmountMsat :: int
  pi_TimestampUnix :: int
  pi_ExpirySeconds :: int

record lightning_client =
  lc_configured :: bool
  lc_GetInfo :: "string res"
  lc_DecodePayReq :: "string \<Rightarrow> pay_req res"

definition lightning_GetInfo :: "lightning_client \<Rightarrow> string res" where
  "lightning_GetInfo c =
     (if \<not> lc_configured c then Inl ErrNotConfigured
      else bindE (mapErr (wrapf ''GetInfo'') (lc_GetInfo c)) (\<lambda>key.
        if strings_TrimSpace key = [] then Inl (wrapSentinel ErrInvalidRequest ''identity_pubkey is empty'')
        else Inr (strings_TrimSpace key)))"

definition invoiceAmountMsat :: "pay_req \<Rightarrow> int res" where
  "invoiceAmountMsat resp =
     (if pq_NumMsat resp = 0 \<and> 0 < pq_NumSatoshis resp
      then (if maxInt64 div 1000 < pq_NumSatoshis resp
            then Inl (wrapSentinel ErrInvalidRequest ''invoice amount overflows msat'')
            else Inr (pq_NumSatoshis resp * 1000))
      else Inr (pq_NumMsat resp))"

definition DecodePaymentRequest :: "lightning_client \<Rightarrow> string \<Rightarrow> payment_request_info res" where
  "DecodePaymentRequest c paymentRequest =
     (if \<not> lc_configured c then Inl ErrNotConfigured
      else if strings_TrimSpace paymentRequest = [] then Inl (wrapSentinel ErrInvalidRequest ''payment_request is required'')
      else bindE (mapErr (wrapf ''DecodePayReq'') (lc_DecodePayReq c paymentRequest)) (\<lambda>resp.
      let descriptionHashHex = strings_TrimSpace (pq_DescriptionHash resp) in
      if descriptionHashHex = [] then Inl (wrapSentinel ErrInvalidRequest ''description_hash is empty'')
      else (case hex_DecodeString descriptionHashHex of
        Inl err \<Rightarrow> Inl (wrapSentinel ErrInvalidRequest (''decode description_hash: '' @ error_text err))
      | Inr descriptionHash \<Rightarrow>
      if length descriptionHash \<noteq> 32
      then Inl (wrapSentinel ErrInvalidRequest
             (''description_hash must be 32 bytes, got '' @ show_nat (length descriptionHash)))
      else
        (let payee = strings_TrimSpace (pq_Destination resp) in
         if payee = [] then Inl (wrapSentinel ErrInvalidRequest ''destination is empty'')
         else bindE (invoiceAmountMsat resp) (\<lambda>numMsat.
           if numMsat < 0 then Inl (wrapSentinel ErrInvalidRequest ''invoice amount_msat is negative'')
           else if pq_Timestamp resp < 0 then Inl (wrapSentinel ErrInvalidRequest ''invoice timestamp is negative'')
           else if pq_Expiry resp < 0 then Inl (wrapSentinel ErrInvalidRequest ''invoice expiry_seconds is negative'')
           else Inr \<lparr>pi_DescriptionHash = bytes_hash descriptionHash, pi_PayeePubKey = payee, pi_AmountMsat = numMsat,
                     pi_TimestampUnix = pq_Timestamp resp, pi_ExpirySeconds = pq_Expiry resp\<rparr>)))))"

definition decodePaymentPreimage :: "string \<Rightarrow> hash32 res" where
  "decodePaymentPreimage preimage =
     (if preimage = [] then Inl (wrapSentinel ErrInvalidRequest ''payment_preimage is empty'')
      else
        bindE (if length preimage = 64
               then (case hex_DecodeString preimage of
                       Inl err \<Rightarrow> Inl (wrapSentinel ErrInvalidRequest (''decode payment_preimage: '' @ error_text err))
                     | Inr b \<Rightarrow> Inr b)
               else Inr (string_bytes preimage)) (\<lambda>b.
        if length b \<noteq> 32
        then Inl (wrapSentinel ErrInvalidRequest (''payment_preimage must be 32 bytes, got '' @ show_nat (length b)))
        else Inr (bytes_hash b)))"

text \<open>The receive loop: up to the first final status.\<close>

fun recvLoop :: "payment option list \<Rightarrow> goerror option \<Rightarrow> payment option res" where
  "recvLoop [] None = Inr None"
| "recvLoop [] (Some err) = Inl (wrapf ''SendPaymentV2 recv'' err)"
| "recvLoop (None # us) fin = recvLoop us fin"
| "recvLoop (Some u # us) fin =
     (if py_Status u = PaymentSucceeded \<or> py_Status u = PaymentFailed then Inr (Some u) else recvLoop us fin)"

text \<open>
  The payment with the response of \<^verbatim>\<open>SendPaymentV2\<close> (an error or a stream); the request
  carries a time limit of 30 seconds and a fee limit of 10,000 satoshis.
\<close>

definition PayInvoice ::
    "bool \<Rightarrow> (string \<Rightarrow> (payment option list \<times> goerror option) res) \<Rightarrow> string \<Rightarrow> hash32 res" where
  "PayInvoice configured sendPaymentV2 paymentRequest =
     (if \<not> configured then Inl ErrNotConfigured
      else if strings_TrimSpace paymentRequest = [] then Inl (wrapSentinel ErrInvalidRequest ''payment_request is required'')
      else bindE (mapErr (wrapf ''SendPaymentV2'') (sendPaymentV2 paymentRequest)) (\<lambda>(updates, fin).
      bindE (recvLoop updates fin) (\<lambda>final. case final of
        None \<Rightarrow> Inl (wrapSentinel ErrPaymentFailed ''no final payment status'')
      | Some p \<Rightarrow>
          if py_Status p = PaymentFailed then Inl (wrapSentinel ErrPaymentFailed (py_FailureReason p))
          else decodePaymentPreimage (py_PaymentPreimage p))))"

section \<open>Provider side\<close>

text \<open>The messenger of both sides: \<open>send\<close> is the node's \<^verbatim>\<open>SendCustomMessage\<close>.\<close>

definition adapter_SendCustomMessage ::
    "bool \<Rightarrow> (bytes \<Rightarrow> u32 \<Rightarrow> bytes \<Rightarrow> goerror option) \<Rightarrow> string \<Rightarrow> u16 \<Rightarrow> bytes \<Rightarrow> goerror option" where
  "adapter_SendCustomMessage configured send peerPubKey msgType payload =
     (if \<not> configured then Some (errors_New ''lnd messenger not configured'')
      else (case hex_DecodeString peerPubKey of
        Inl err \<Rightarrow> Some (wrapf ''decode peer pubkey'' err)
      | Inr peerBytes \<Rightarrow> map_option (wrapf ''SendCustomMessage'') (send peerBytes (ucast msgType) payload)))"

record lnd_invoice =
  li_DescriptionHash :: hash32
  li_Value :: int
  li_ValueMsat :: int
  li_Expiry :: int

text \<open>The value fields of the invoice: satoshis when the price is a whole number of them.\<close>

definition setInvoicePriceMsat :: "lnd_invoice \<Rightarrow> u64 \<Rightarrow> lnd_invoice res" where
  "setInvoicePriceMsat invoice priceMsat =
     (if priceMsat = 0 then Inl (errors_New ''price_msat must be > 0 (amount-less invoice is not allowed)'')
      else if priceMsat mod 1000 = 0
      then (let sats = priceMsat div 1000 in
            if 9223372036854775807 < sats then Inl (errors_New (''price_msat overflows int64 sats: '' @ show_nat (unat priceMsat)))
            else Inr (invoice\<lparr>li_Value := uint sats\<rparr>))
      else if 9223372036854775807 < priceMsat
      then Inl (errors_New (''price_msat overflows int64: '' @ show_nat (unat priceMsat)))
      else Inr (invoice\<lparr>li_ValueMsat := uint priceMsat\<rparr>))"

record add_invoice_response =
  ai_RHash :: bytes
  ai_PaymentRequest :: string
  ai_AddIndex :: u64

definition lnd_CreateInvoice ::
    "bool \<Rightarrow> (lnd_invoice \<Rightarrow> add_invoice_response res) \<Rightarrow> invoice_request \<Rightarrow> invoice_result res" where
  "lnd_CreateInvoice configured addInvoice req =
     (if \<not> configured then Inl (errors_New ''lnd invoice creator not configured'')
      else if 9223372036854775807 < ir_ExpirySeconds req
      then Inl (errors_New (''expiry_seconds overflows int64: '' @ show_nat (unat (ir_ExpirySeconds req))))
      else
        bindE (setInvoicePriceMsat \<lparr>li_DescriptionHash = ir_DescriptionHash req, li_Value = 0, li_ValueMsat = 0,
                 li_Expiry = uint (ir_ExpirySeconds req)\<rparr> (ir_PriceMsat req)) (\<lambda>invoice.
        bindE (mapErr (wrapf ''AddInvoice'') (addInvoice invoice)) (\<lambda>resp.
        if length (ai_RHash resp) \<noteq> 32
        then Inl (errors_New (''unexpected r_hash length: '' @ show_nat (length (ai_RHash resp))))
        else Inr \<lparr>iv_PaymentRequest = ai_PaymentRequest resp, iv_PaymentHash = bytes_hash (ai_RHash resp),
                  iv_AddIndex = ai_AddIndex resp\<rparr>)))"

datatype invoice_state = InvoiceOpen | InvoiceAccepted | InvoiceSettled | InvoiceCanceled | InvoiceOther int

record invoice_update =
  iu_RHash :: bytes
  iu_State :: invoice_state

text \<open>
  The receive loop of the subscription. A receive error that is the end of the context is
  answered with the error of the context, any other is wrapped.
\<close>

fun settlementLoop :: "hash32 \<Rightarrow> goerror option \<Rightarrow> invoice_update option list \<Rightarrow> goerror \<Rightarrow> goerror option" where
  "settlementLoop paymentHash ctxErr [] recvErr =
     (if errors_Is recvErr ''context.Canceled'' \<or> errors_Is recvErr ''context.DeadlineExceeded'' then ctxErr
      else Some (wrapf ''SubscribeInvoices recv'' recvErr))"
| "settlementLoop paymentHash ctxErr (None # us) recvErr = settlementLoop paymentHash ctxErr us recvErr"
| "settlementLoop paymentHash ctxErr (Some u # us) recvErr =
     (if iu_RHash u \<noteq> hash_bytes paymentHash then settlementLoop paymentHash ctxErr us recvErr
      else (case iu_State u of
              InvoiceOpen \<Rightarrow> settlementLoop paymentHash ctxErr us recvErr
            | InvoiceAccepted \<Rightarrow> settlementLoop paymentHash ctxErr us recvErr
            | InvoiceSettled \<Rightarrow> None
            | InvoiceCanceled \<Rightarrow> Some (errors_New ''invoice canceled'')
            | InvoiceOther n \<Rightarrow> settlementLoop paymentHash ctxErr us recvErr))"

definition WaitForSettlement ::
    "bool \<Rightarrow> (u64 \<Rightarrow> (invoice_update option list \<times> goerror) res) \<Rightarrow> goerror option \<Rightarrow> hash32 \<Rightarrow> u64 \<Rightarrow> goerror option" where
  "WaitForSettlement configured subscribeInvoices ctxErr paymentHash addIndex =
     (if \<not> configured then Some (errors_New ''lnd invoice subscriber not configured'')
      else
        (let startIndex = (if 0 < addIndex then addIndex - 1 else 0) in
         case subscribeInvoices startIndex of
           Inl err \<Rightarrow> Some (wrapf ''SubscribeInvoices'' err)
         | Inr (updates, recvErr) \<Rightarrow> settlementLoop paymentHash ctxErr updates recvErr))"

section \<open>Lemmas\<close>

definition mentions :: "hash32 \<Rightarrow> invoice_state \<Rightarrow> invoice_update option \<Rightarrow> bool" where
  "mentions h st u \<longleftrightarrow> (\<exists>x. u = Some x \<and> iu_RHash x = hash_bytes h \<and> iu_State x = st)"

lemma mentions_simps [simp]:
  "\<not> mentions h st None"
  "mentions h st (Some x) \<longleftrightarrow> iu_RHash x = hash_bytes h \<and> iu_State x = st"
  by (simp_all add: mentions_def)

lemma first_settled:
  "(\<exists>xs u ys. v # us = xs @ u # ys \<and> mentions h InvoiceSettled u \<and> \<not> list_ex (mentions h InvoiceCanceled) xs) \<longleftrightarrow>
   mentions h InvoiceSettled v \<or> \<not> mentions h InvoiceCanceled v
     \<and> (\<exists>xs u ys. us = xs @ u # ys \<and> mentions h InvoiceSettled u \<and> \<not> list_ex (mentions h InvoiceCanceled) xs)"
  (is "?l \<longleftrightarrow> ?r")
proof
  assume ?l
  then obtain xs u ys where x: "v # us = xs @ u # ys" "mentions h InvoiceSettled u" "\<not> list_ex (mentions h InvoiceCanceled) xs" by blast
  then show ?r by (cases xs) auto
next
  assume ?r
  then show ?l
  proof
    assume "mentions h InvoiceSettled v"
    then show ?l by (intro exI [of _ "[]"]) auto
  next
    assume "\<not> mentions h InvoiceCanceled v \<and> (\<exists>xs u ys. us = xs @ u # ys \<and> mentions h InvoiceSettled u \<and> \<not> list_ex (mentions h InvoiceCanceled) xs)"
    then obtain xs u ys where "\<not> mentions h InvoiceCanceled v" "us = xs @ u # ys" "mentions h InvoiceSettled u"
      "\<not> list_ex (mentions h InvoiceCanceled) xs" by blast
    then show ?l by (intro exI [of _ "v # xs"]) auto
  qed
qed

lemma settlementLoop_None:
  assumes "errors_Is recvErr ''context.Canceled'' \<or> errors_Is recvErr ''context.DeadlineExceeded'' \<Longrightarrow> ctxErr \<noteq> None"
  shows "settlementLoop h ctxErr us recvErr = None \<longleftrightarrow>
    (\<exists>xs u ys. us = xs @ u # ys \<and> mentions h InvoiceSettled u \<and> \<not> list_ex (mentions h InvoiceCanceled) xs)"
proof (induction us)
  case Nil
  then show ?case using assms by auto
next
  case (Cons v us)
  show ?case
  proof (cases v)
    case None
    with Cons show ?thesis unfolding first_settled by simp
  next
    case (Some x)
    with Cons show ?thesis unfolding first_settled by (cases "iu_State x") auto
  qed
qed

text \<open>
  What the node reports of an invoice with the given value fields: the amount in
  millisatoshis, or, from versions that do not fill that field, the value in satoshis.
\<close>

definition reports_amount :: "lnd_invoice \<Rightarrow> pay_req \<Rightarrow> bool" where
  "reports_amount ivc q \<longleftrightarrow>
     (let msat = (if li_Value ivc \<noteq> 0 then li_Value ivc * 1000 else li_ValueMsat ivc) in
      pq_NumMsat q = msat \<and> pq_NumSatoshis q = msat div 1000
      \<or> li_Value ivc \<noteq> 0 \<and> pq_NumMsat q = 0 \<and> pq_NumSatoshis q = li_Value ivc)"

lemma setInvoicePriceMsat_fields:
  assumes "setInvoicePriceMsat inv0 price = Inr inv1" and "li_Value inv0 = 0" and "li_ValueMsat inv0 = 0"
  shows "price \<noteq> 0 \<and> li_DescriptionHash inv1 = li_DescriptionHash inv0
    \<and> (if li_Value inv1 \<noteq> 0 then li_Value inv1 * 1000 else li_ValueMsat inv1) = uint price"
proof (cases "price mod 1000 = 0")
  case True
  have m: "uint price mod 1000 = 0" using True uint_mod_distrib [of price 1000] by simp
  have v: "uint (price div 1000) * 1000 = uint price"
  proof -
    have "uint (price div 1000) = uint price div 1000" using uint_div_distrib [of price 1000] by simp
    moreover have "x div 1000 * 1000 = x" if "x mod 1000 = 0" for x :: int using that div_mult_mod_eq [of x 1000] by simp
    ultimately show ?thesis using m by simp
  qed
  moreover have nz: "price \<noteq> 0" using assms(1) by (auto simp: setInvoicePriceMsat_def)
  moreover have i: "inv1 = inv0\<lparr>li_Value := uint (price div 1000)\<rparr>"
    using assms(1) True nz unfolding setInvoicePriceMsat_def Let_def by (auto simp only: if_True if_False sum.inject sum.distinct split: if_splits)
  moreover have "uint price \<noteq> 0" using nz by (simp add: uint_0_iff)
  ultimately have "uint (price div 1000) \<noteq> 0" by auto
  with v nz i show ?thesis by simp
next
  case False
  with assms show ?thesis by (auto simp: setInvoicePriceMsat_def Let_def split: if_splits)
qed

text \<open>The requester reads back the price of every invoice below \<open>2 ^ 63\<close> millisatoshis.\<close>

lemma amount_read_back:
  assumes "setInvoicePriceMsat inv0 price = Inr inv1" and "li_Value inv0 = 0" and "li_ValueMsat inv0 = 0"
    and "reports_amount inv1 q" and "uint price \<le> maxInt64"
  shows "invoiceAmountMsat q = Inr (uint price)"
proof -
  note f = setInvoicePriceMsat_fields [OF assms(1-3)]
  let ?m = "if li_Value inv1 \<noteq> 0 then li_Value inv1 * 1000 else li_ValueMsat inv1"
  have "uint price \<noteq> 0" using f by (simp add: uint_0_iff)
  then have pos: "0 < uint price" using uint_ge_0 [of price] by linarith
  from assms(4) consider "pq_NumMsat q = ?m" | "li_Value inv1 \<noteq> 0" "pq_NumMsat q = 0" "pq_NumSatoshis q = li_Value inv1"
    by (auto simp: reports_amount_def Let_def)
  then show ?thesis
  proof cases
    case 1
    then have "pq_NumMsat q = uint price" using f by simp
    with pos show ?thesis by (simp add: invoiceAmountMsat_def)
  next
    case 2
    then have v: "pq_NumSatoshis q * 1000 = uint price" using f by simp
    with pos have "0 < pq_NumSatoshis q" by linarith
    moreover have "\<not> maxInt64 div 1000 < pq_NumSatoshis q" using v assms(5) by simp
    ultimately show ?thesis using 2(2) v by (simp add: invoiceAmountMsat_def)
  qed
qed

lemma recvLoop_Some:
  "recvLoop us fin = Inr (Some p) \<Longrightarrow> Some p \<in> set us \<and> (py_Status p = PaymentSucceeded \<or> py_Status p = PaymentFailed)"
  by (induction us fin rule: recvLoop.induct) (auto split: if_splits)

lemma trim_none: "\<forall>c \<in> set s. \<not> is_space c \<Longrightarrow> strings_TrimSpace s = s"
proof -
  have d: "dropWhile is_space t = t" if "\<forall>c \<in> set t. \<not> is_space c" for t using that by (cases t) simp_all
  show "\<forall>c \<in> set s. \<not> is_space c \<Longrightarrow> strings_TrimSpace s = s"
    using d [of s] d [of "rev s"] by (simp add: strings_TrimSpace_def)
qed

lemma trim_hex: "strings_TrimSpace (hex_EncodeToString b) = hex_EncodeToString b"
proof (rule trim_none, rule ballI)
  fix c assume "c \<in> set (hex_EncodeToString b)"
  then obtain x :: byte where x: "c = hex_digit (unat x div 16) \<or> c = hex_digit (unat x mod 16)"
    by (auto simp: hex_EncodeToString_def)
  have "unat x div 16 < 16" "unat x mod 16 < 16" using unat_byte_less [of x] by linarith simp
  moreover have "\<not> is_space (hex_digit n)" if "n < 16" for n using that by (auto simp: hex_digit_def is_space_def Let_def)
  ultimately show "\<not> is_space c" using x by blast
qed

text \<open>A node that decodes the payment requests of its own invoices reports their fields.\<close>

definition reads_invoices :: "lightning_client \<Rightarrow> (lnd_invoice \<Rightarrow> add_invoice_response res) \<Rightarrow> bool" where
  "reads_invoices c addInvoice \<longleftrightarrow> lc_configured c \<and> (\<forall>ivc resp. addInvoice ivc = Inr resp \<longrightarrow>
     (\<exists>q. lc_DecodePayReq c (ai_PaymentRequest resp) = Inr q \<and> reports_amount ivc q
        \<and> pq_DescriptionHash q = hex_EncodeToString (hash_bytes (li_DescriptionHash ivc))
        \<and> strings_TrimSpace (pq_Destination q) \<noteq> [] \<and> 0 \<le> pq_Timestamp q \<and> 0 \<le> pq_Expiry q))"

section \<open>Properties\<close>

text \<open>
  C24. Settlement means settlement: when the context error that a receive reports is the
  end of the runner's context, \<^verbatim>\<open>WaitForSettlement\<close> returns without an error exactly when the
  subscription, started at the invoice's own index, reports the invoice with this payment
  hash as settled and has not reported it as cancelled before.
\<close>

theorem settlement_exact:
  assumes "subscribe (if 0 < addIndex then addIndex - 1 else 0) = Inr (updates, recvErr)"
    and "errors_Is recvErr ''context.Canceled'' \<or> errors_Is recvErr ''context.DeadlineExceeded'' \<Longrightarrow> ctxErr \<noteq> None"
  shows "WaitForSettlement True subscribe ctxErr paymentHash addIndex = None \<longleftrightarrow>
    (\<exists>xs u ys. updates = xs @ u # ys \<and> mentions paymentHash InvoiceSettled u
       \<and> \<not> list_ex (mentions paymentHash InvoiceCanceled) xs)"
  using settlementLoop_None [of recvErr ctxErr paymentHash updates] assms by (simp add: WaitForSettlement_def Let_def)

theorem settlement_exact_witness:
  "WaitForSettlement True (\<lambda>i. Inr ([None, Some \<lparr>iu_RHash = hash_bytes 7, iu_State = InvoiceSettled\<rparr>], errors_New ''eof'')) None 7 3 = None"
proof -
  let ?u = "Some \<lparr>iu_RHash = hash_bytes 7, iu_State = InvoiceSettled\<rparr>"
  have "\<exists>xs u ys. [None, ?u] = xs @ u # ys \<and> mentions 7 InvoiceSettled u \<and> \<not> list_ex (mentions 7 InvoiceCanceled) xs"
    by (intro exI [of _ "[None]"] exI [of _ ?u] exI [of _ "[]"]) simp
  moreover have "\<not> (errors_Is (errors_New ''eof'') ''context.Canceled'' \<or> errors_Is (errors_New ''eof'') ''context.DeadlineExceeded'')"
    by (simp add: errors_Is_def errors_New_def)
  ultimately show ?thesis
    using settlement_exact [of "\<lambda>i. Inr ([None, ?u], errors_New ''eof'')" 3 "[None, ?u]" "errors_New ''eof''" None 7] by blast
qed

text \<open>
  C25. Provider and requester agree on the amount: when the provider's invoice for a price
  of at most \<open>2 ^ 63 - 1\<close> millisatoshis is accepted, its payment hash and index are those of
  the node, the invoice carries the terms hash, and the requester, decoding a payment
  request for which the node reports the invoice, reads the terms hash and exactly that
  price, whether the amount was stored in satoshis or in millisatoshis.
\<close>

theorem invoice_read_back:
  assumes "lnd_CreateInvoice True addInvoice req = Inr res" and "uint (ir_PriceMsat req) \<le> maxInt64"
    and "reads_invoices c addInvoice" and "strings_TrimSpace (iv_PaymentRequest res) \<noteq> []"
  shows "\<exists>info. DecodePaymentRequest c (iv_PaymentRequest res) = Inr info
    \<and> pi_DescriptionHash info = ir_DescriptionHash req \<and> pi_AmountMsat info = uint (ir_PriceMsat req)
    \<and> ir_PriceMsat req \<noteq> 0"
proof -
  let ?i0 = "\<lparr>li_DescriptionHash = ir_DescriptionHash req, li_Value = 0, li_ValueMsat = 0, li_Expiry = uint (ir_ExpirySeconds req)\<rparr>"
  from assms(1) obtain ivc resp where i: "setInvoicePriceMsat ?i0 (ir_PriceMsat req) = Inr ivc" "addInvoice ivc = Inr resp"
      "iv_PaymentRequest res = ai_PaymentRequest resp"
    by (auto simp: lnd_CreateInvoice_def res_simps split: if_splits)
  from assms(3) i(2,3) obtain q where q: "lc_DecodePayReq c (iv_PaymentRequest res) = Inr q" "reports_amount ivc q"
      "pq_DescriptionHash q = hex_EncodeToString (hash_bytes (li_DescriptionHash ivc))"
      "strings_TrimSpace (pq_Destination q) \<noteq> []" "0 \<le> pq_Timestamp q" "0 \<le> pq_Expiry q" and c: "lc_configured c"
    unfolding reads_invoices_def by metis
  have a: "invoiceAmountMsat q = Inr (uint (ir_PriceMsat req))" by (rule amount_read_back [OF i(1) _ _ q(2) assms(2)]) simp_all
  have f: "ir_PriceMsat req \<noteq> 0" "li_DescriptionHash ivc = ir_DescriptionHash req"
    using setInvoicePriceMsat_fields [OF i(1)] by simp_all
  have t: "strings_TrimSpace (pq_DescriptionHash q) = hex_EncodeToString (hash_bytes (ir_DescriptionHash req))"
    unfolding q(3) f(2) by (rule trim_hex)
  have ne: "hex_EncodeToString (hash_bytes (ir_DescriptionHash req)) \<noteq> []"
    by (metis length_hex_EncodeToString length_0_conv length_word_bytes(4) mult_is_0 zero_neq_numeral)
  show ?thesis
    using q(1,4-6) ne a f(1) c assms(4)
    by (simp add: DecodePaymentRequest_def Let_def t hex_DecodeString_EncodeToString)
qed

definition sample_invoice :: lnd_invoice where
  "sample_invoice = \<lparr>li_DescriptionHash = 5, li_Value = 3, li_ValueMsat = 0, li_Expiry = 60\<rparr>"

definition sample_node :: lightning_client where
  "sample_node = \<lparr>lc_configured = True, lc_GetInfo = Inr ''02ab'',
     lc_DecodePayReq = (\<lambda>p. Inr \<lparr>pq_DescriptionHash = hex_EncodeToString (hash_bytes 5), pq_Destination = ''02ab'',
        pq_NumMsat = 0, pq_NumSatoshis = 3, pq_Timestamp = 10, pq_Expiry = 60\<rparr>)\<rparr>"

definition sample_addInvoice :: "lnd_invoice \<Rightarrow> add_invoice_response res" where
  "sample_addInvoice ivc = (if ivc = sample_invoice
     then Inr \<lparr>ai_RHash = hash_bytes 9, ai_PaymentRequest = ''lnbc1'', ai_AddIndex = 4\<rparr> else Inl (errors_New ''no''))"

theorem invoice_read_back_witness:
  "\<exists>res info. lnd_CreateInvoice True sample_addInvoice \<lparr>ir_DescriptionHash = 5, ir_PriceMsat = 3000, ir_ExpirySeconds = 60\<rparr> = Inr res
     \<and> DecodePaymentRequest sample_node (iv_PaymentRequest res) = Inr info \<and> pi_AmountMsat info = 3000"
proof -
  let ?req = "\<lparr>ir_DescriptionHash = 5, ir_PriceMsat = 3000, ir_ExpirySeconds = 60\<rparr>"
  have c: "lnd_CreateInvoice True sample_addInvoice ?req = Inr \<lparr>iv_PaymentRequest = ''lnbc1'', iv_PaymentHash = 9, iv_AddIndex = 4\<rparr>"
    by (simp add: lnd_CreateInvoice_def setInvoicePriceMsat_def Let_def sample_addInvoice_def sample_invoice_def)
  have "reads_invoices sample_node sample_addInvoice"
    by (simp add: reads_invoices_def sample_node_def sample_addInvoice_def sample_invoice_def reports_amount_def Let_def
        strings_TrimSpace_def is_space_def)
  with invoice_read_back [OF c, of sample_node] c show ?thesis by (auto simp: strings_TrimSpace_def is_space_def)
qed

end
