(* ===== verification/Peer_Messaging.thy ===== *)
theory Peer_Messaging
  imports Peer_Directory Router Wire_Roundtrip
begin

text \<open>
  The connection to the Lightning node, \<^verbatim>\<open>go-lcpd/internal/lndpeermsg/peermsg.go\<close> and
  \<^verbatim>\<open>config.go\<close>: peers that come and go, the exchange of manifests, the dispatch of inbound
  custom messages and the two subscription loops. The state is the peer directory, the
  remembered addresses, the encoded local manifest, the state of the inbound handler and the
  trace of the calls made to the node. The lemmas show that a peer is ready only after both
  manifests went over the connection, and that two nodes that see each other do become ready.
\<close>

section \<open>Configuration (config.go)\<close>

text \<open>The variables as the environment library leaves them in the structure.\<close>

record lnd_env_config =
  ec_RPCAddr :: string
  ec_TLSCertPath :: string
  ec_AdminMacaroonPath :: string
  ec_AdminMacaroonPathV0 :: string
  ec_ManifestResendInterval :: "int option"

record lnd_config =
  lc_RPCAddr :: string
  lc_TLSCertPath :: string
  lc_AdminMacaroonPath :: string
  lc_ManifestResendInterval :: "int option"

definition ErrLNDConnectionNotConfigured :: goerror where
  "ErrLNDConnectionNotConfigured = sentinel ''ErrLNDConnectionNotConfigured'' ''lnd connection not configured''"

definition lnd_NewConfigFromEnv :: "lnd_env_config res \<Rightarrow> lnd_config res" where
  "lnd_NewConfigFromEnv processed =
     bindE (mapErr (wrapf ''process env'') processed) (\<lambda>env.
       let rpcAddr = strings_TrimSpace (ec_RPCAddr env);
           tlsCertPath = strings_TrimSpace (ec_TLSCertPath env)
       in if rpcAddr = [] then Inl ErrLNDConnectionNotConfigured
          else
            let macaroonPath = strings_TrimSpace (ec_AdminMacaroonPath env);
                macaroonPath = (if macaroonPath = [] then strings_TrimSpace (ec_AdminMacaroonPathV0 env) else macaroonPath)
            in Inr \<lparr>lc_RPCAddr = rpcAddr, lc_TLSCertPath = tlsCertPath, lc_AdminMacaroonPath = macaroonPath,
                 lc_ManifestResendInterval = ec_ManifestResendInterval env\<rparr>)"

section \<open>State\<close>

text \<open>
  The trace has one entry per call of the node's client. The node is a parameter: what its
  calls return at a position of the trace, whether the context is done there, and the
  handler of job messages, which changes a state of its own.
\<close>

datatype node_call =
    PmListPeers
  | PmSend bytes u32 bytes bool
  | PmDisconnect string

record 'h peer_messaging =
  pm_directory :: directory
  pm_localManifestPayload :: bytes
  pm_peerAddr :: "(string \<times> string) list"
  pm_handlerState :: 'h
  pm_trace :: "node_call list"

record 'h messaging_env =
  me_tlv :: tlv_lib
  me_listPeers :: "nat \<Rightarrow> (string \<times> string) option list res"
  me_send :: "nat \<Rightarrow> bytes \<Rightarrow> u32 \<Rightarrow> bytes \<Rightarrow> goerror option"
  me_done :: "nat \<Rightarrow> bool"
  me_inboundHandler :: "'h inbound_handler"

datatype peer_event_type = PEER_ONLINE | PEER_OFFLINE | PEER_UNKNOWN

record peer_event =
  pev_PubKey :: string
  pev_Type :: peer_event_type

record node_message =
  nm_Peer :: bytes
  nm_Type :: u32
  nm_Data :: bytes

definition defaultPeerManifest :: manifest where
  "defaultPeerManifest = \<lparr>mf_ProtocolVersion = ProtocolVersionV02, mf_MaxPayloadBytes = 16384,
     mf_MaxStreamBytes = 4194304, mf_MaxJobBytes = 8388608, mf_MaxInflightJobs = None, mf_SupportedTasks = []\<rparr>"

definition messaging_New ::
    "tlv_lib \<Rightarrow> directory option \<Rightarrow> manifest option \<Rightarrow> 'h \<Rightarrow> 'h peer_messaging res" where
  "messaging_New L peerDirectory localManifest h =
     (case peerDirectory of
        None \<Rightarrow> Inl (errors_New ''PeerDirectory is required'')
      | Some d \<Rightarrow>
          bindE (mapErr (wrapf ''encode local lcp_manifest'')
              (EncodeManifest L (case localManifest of None \<Rightarrow> defaultPeerManifest | Some m \<Rightarrow> m))) (\<lambda>payload.
            Inr \<lparr>pm_directory = d, pm_localManifestPayload = payload, pm_peerAddr = [],
              pm_handlerState = h, pm_trace = []\<rparr>))"

section \<open>Peers\<close>

definition onDirectory :: "(directory \<Rightarrow> directory) \<Rightarrow> 'h peer_messaging \<Rightarrow> 'h peer_messaging" where
  "onDirectory f s = s\<lparr>pm_directory := f (pm_directory s)\<rparr>"

definition peerAddrFor :: "string \<Rightarrow> 'h peer_messaging \<Rightarrow> string" where
  "peerAddrFor peerPubKey s = (case map_of (pm_peerAddr s) peerPubKey of None \<Rightarrow> [] | Some addr \<Rightarrow> addr)"

text \<open>The three directory calls of a connected peer, with the address when it is known.\<close>

definition connectPeer :: "string \<Rightarrow> string \<Rightarrow> directory \<Rightarrow> directory" where
  "connectPeer peerPubKey addr d =
     MarkCustomMsgEnabled peerPubKey True
       (MarkConnected peerPubKey (if addr \<noteq> [] then UpsertPeer peerPubKey addr d else d))"

definition markPeerConnected :: "string \<Rightarrow> 'h peer_messaging \<Rightarrow> 'h peer_messaging" where
  "markPeerConnected peerPubKey s = onDirectory (connectPeer peerPubKey (peerAddrFor peerPubKey s)) s"

text \<open>
  The local map of \<^verbatim>\<open>refreshPeers\<close>. Go visits it in any order; the entries have different
  keys, so the order changes only the order in which peers are filed.
\<close>

fun listedAddrs :: "(string \<times> string) option list \<Rightarrow> (string \<times> string) list \<Rightarrow> (string \<times> string) list" where
  "listedAddrs [] addrMap = addrMap"
| "listedAddrs (None # peers) addrMap = listedAddrs peers addrMap"
| "listedAddrs (Some (pk, addr) # peers) addrMap =
     (let pubKey = strings_TrimSpace pk in
      if pubKey = [] then listedAddrs peers addrMap
      else listedAddrs peers (AList.update pubKey (strings_TrimSpace addr) addrMap))"

definition refreshPeers :: "'h messaging_env \<Rightarrow> 'h peer_messaging \<Rightarrow> goerror option \<times> 'h peer_messaging" where
  "refreshPeers E s =
     (let s1 = s\<lparr>pm_trace := pm_trace s @ [PmListPeers]\<rparr> in
      case me_listPeers E (length (pm_trace s)) of
        Inl listErr \<Rightarrow> (Some (wrapf ''ListPeers'' listErr), s1)
      | Inr peers \<Rightarrow>
          let addrMap = listedAddrs peers [];
              s2 = s1\<lparr>pm_peerAddr := fold (\<lambda>(k, v) m. if v = [] then m else AList.update k v m) addrMap (pm_peerAddr s1)\<rparr>
          in (None, onDirectory (fold (\<lambda>(k, v). connectPeer k v) addrMap) s2))"

section \<open>Sending the manifest\<close>

definition sendManifest :: "'h messaging_env \<Rightarrow> string \<Rightarrow> 'h peer_messaging \<Rightarrow> goerror option \<times> 'h peer_messaging" where
  "sendManifest E peerPubKey s =
     (case hex_DecodeString peerPubKey of
        Inl err \<Rightarrow> (Some (wrapf ''decode peer pubkey'' err), s)
      | Inr peerBytes \<Rightarrow>
          let err = me_send E (length (pm_trace s)) peerBytes (ucast MessageTypeManifest) (pm_localManifestPayload s)
          in (map_option (wrapf ''SendCustomMessage'') err,
              s\<lparr>pm_trace := pm_trace s
                @ [PmSend peerBytes (ucast MessageTypeManifest) (pm_localManifestPayload s) (err = None)]\<rparr>))"

definition sendManifestAndMarkSent ::
    "'h messaging_env \<Rightarrow> string \<Rightarrow> 'h peer_messaging \<Rightarrow> goerror option \<times> 'h peer_messaging" where
  "sendManifestAndMarkSent E peerPubKey s =
     (if peerPubKey = [] then (None, s)
      else case sendManifest E peerPubKey s of
        (Some err, s1) \<Rightarrow> (Some err, s1)
      | (None, s1) \<Rightarrow> (None, onDirectory (MarkManifestSent peerPubKey) s1))"

definition sendManifestIfNotSent ::
    "'h messaging_env \<Rightarrow> string \<Rightarrow> 'h peer_messaging \<Rightarrow> goerror option \<times> 'h peer_messaging" where
  "sendManifestIfNotSent E peerPubKey s =
     (if peerPubKey = [] then (None, s)
      else if (case GetPeer peerPubKey (pm_directory s) of None \<Rightarrow> False | Some peer \<Rightarrow> peer_ManifestSent peer)
      then (None, s)
      else case sendManifest E peerPubKey s of
        (Some err, s1) \<Rightarrow> (Some err, s1)
      | (None, s1) \<Rightarrow> (None, onDirectory (MarkManifestSent peerPubKey) s1))"

text \<open>The loops over the connected peers stop when the context is done and go on after an error.\<close>

fun forConnected ::
    "'h messaging_env \<Rightarrow> (string \<Rightarrow> 'h peer_messaging \<Rightarrow> goerror option \<times> 'h peer_messaging) \<Rightarrow>
     string list \<Rightarrow> 'h peer_messaging \<Rightarrow> 'h peer_messaging" where
  "forConnected E send [] s = s"
| "forConnected E send (peerID # peerIDs) s =
     (if me_done E (length (pm_trace s)) then s else forConnected E send peerIDs (snd (send peerID s)))"

definition sendManifestToConnectedPeersOnce :: "'h messaging_env \<Rightarrow> 'h peer_messaging \<Rightarrow> 'h peer_messaging" where
  "sendManifestToConnectedPeersOnce E s =
     forConnected E (sendManifestIfNotSent E) (ListConnectedPeerIDs (pm_directory s)) s"

definition sendManifestToConnectedPeers :: "'h messaging_env \<Rightarrow> 'h peer_messaging \<Rightarrow> 'h peer_messaging" where
  "sendManifestToConnectedPeers E s =
     forConnected E (sendManifestAndMarkSent E) (ListConnectedPeerIDs (pm_directory s)) s"

section \<open>Events and messages\<close>

definition HandlePeerEvent :: "'h messaging_env \<Rightarrow> peer_event option \<Rightarrow> 'h peer_messaging \<Rightarrow> 'h peer_messaging" where
  "HandlePeerEvent E ev s =
     (case ev of
        None \<Rightarrow> s
      | Some ev \<Rightarrow>
          let peerPubKey = strings_TrimSpace (pev_PubKey ev) in
          if peerPubKey = [] then s
          else case pev_Type ev of
            PEER_ONLINE \<Rightarrow>
              snd (sendManifestIfNotSent E peerPubKey (markPeerConnected peerPubKey (snd (refreshPeers E s))))
          | PEER_OFFLINE \<Rightarrow> onDirectory (MarkDisconnected peerPubKey) s
          | PEER_UNKNOWN \<Rightarrow> s)"

definition disconnectPeer :: "string \<Rightarrow> 'h peer_messaging \<Rightarrow> 'h peer_messaging" where
  "disconnectPeer peerPubKey s = s\<lparr>pm_trace := pm_trace s @ [PmDisconnect peerPubKey]\<rparr>"

definition dispatchInbound :: "'h messaging_env \<Rightarrow> custom_message \<Rightarrow> 'h peer_messaging \<Rightarrow> 'h peer_messaging" where
  "dispatchInbound E msg s =
     (case me_inboundHandler E of
        None \<Rightarrow> s
      | Some h \<Rightarrow> s\<lparr>pm_handlerState := h msg (pm_handlerState s)\<rparr>)"

definition handleManifest :: "'h messaging_env \<Rightarrow> string \<Rightarrow> bytes \<Rightarrow> 'h peer_messaging \<Rightarrow> 'h peer_messaging" where
  "handleManifest E peerPubKey payload s =
     (let hadRemoteManifest =
            (case GetPeer peerPubKey (pm_directory s) of None \<Rightarrow> False | Some peerBefore \<Rightarrow> peer_RemoteManifest peerBefore \<noteq> None)
      in case DecodeManifest (me_tlv E) payload of
        Inl decodeErr \<Rightarrow> s
      | Inr manifest \<Rightarrow>
          let s1 = onDirectory (MarkLCPReady peerPubKey manifest) s in
          if \<not> hadRemoteManifest then snd (sendManifestAndMarkSent E peerPubKey s1)
          else snd (sendManifestIfNotSent E peerPubKey s1))"

definition HandleCustomMessage :: "'h messaging_env \<Rightarrow> node_message option \<Rightarrow> 'h peer_messaging \<Rightarrow> 'h peer_messaging" where
  "HandleCustomMessage E msg s =
     (case msg of
        None \<Rightarrow> s
      | Some msg \<Rightarrow>
          if nm_Peer msg = [] then s
          else
            let peerPubKey = hex_EncodeToString (nm_Peer msg) in
            if 65535 < nm_Type msg then disconnectPeer peerPubKey s
            else
              let s1 = markPeerConnected peerPubKey s;
                  customMsg = \<lparr>cm_PeerPubKey = peerPubKey, cm_MsgType = ucast (nm_Type msg), cm_Payload = nm_Data msg\<rparr>
              in case rd_Action (Route customMsg) of
                RouteActionDispatchManifest \<Rightarrow> handleManifest E peerPubKey (nm_Data msg) s1
              | RouteActionDisconnect \<Rightarrow> disconnectPeer peerPubKey s1
              | RouteActionIgnore \<Rightarrow> s1
              | _ \<Rightarrow> dispatchInbound E customMsg s1)"

section \<open>Start and subscriptions\<close>

text \<open>
  A subscription ends with an error. \<open>RecvEOF\<close> is \<^verbatim>\<open>io.EOF\<close>: the node closed the stream.
\<close>

datatype recv_error = RecvCanceled | RecvEOF | RecvOther

definition isStreamTerminalError :: "recv_error \<Rightarrow> bool" where
  "isStreamTerminalError err \<longleftrightarrow> err = RecvCanceled \<or> err = RecvEOF"

text \<open>
  One round of a subscription loop: the context is done, the call fails, or the stream
  yields items until it fails (the flag tells whether the context is done by then).
\<close>

datatype 'e subscription_round =
    CtxDone
  | SubscribeFailed
  | Streamed "'e list" recv_error bool

fun subscriptionLoop ::
    "('e \<Rightarrow> 'h peer_messaging \<Rightarrow> 'h peer_messaging) \<Rightarrow> 'e subscription_round list \<Rightarrow>
     'h peer_messaging \<Rightarrow> 'h peer_messaging \<times> bool" where
  "subscriptionLoop handle [] s = (s, False)"
| "subscriptionLoop handle (CtxDone # rounds) s = (s, True)"
| "subscriptionLoop handle (SubscribeFailed # rounds) s = subscriptionLoop handle rounds s"
| "subscriptionLoop handle (Streamed evs recvErr ctxDone # rounds) s =
     (let s1 = fold handle evs s in
      if isStreamTerminalError recvErr \<or> ctxDone then (s1, True)
      else subscriptionLoop handle rounds s1)"

definition peerEventsLoop ::
    "'h messaging_env \<Rightarrow> peer_event option subscription_round list \<Rightarrow> 'h peer_messaging \<Rightarrow> 'h peer_messaging \<times> bool" where
  "peerEventsLoop E = subscriptionLoop (HandlePeerEvent E)"

definition customMessagesLoop ::
    "'h messaging_env \<Rightarrow> node_message option subscription_round list \<Rightarrow> 'h peer_messaging \<Rightarrow> 'h peer_messaging \<times> bool" where
  "customMessagesLoop E = subscriptionLoop (HandleCustomMessage E)"

fun manifestResendLoopWithTicks :: "'h messaging_env \<Rightarrow> bool list \<Rightarrow> 'h peer_messaging \<Rightarrow> 'h peer_messaging" where
  "manifestResendLoopWithTicks E [] s = s"
| "manifestResendLoopWithTicks E (ctxDone # ticks) s =
     (if ctxDone then s else manifestResendLoopWithTicks E ticks (sendManifestToConnectedPeers E s))"

definition manifestResendLoop :: "'h messaging_env \<Rightarrow> int \<Rightarrow> bool list \<Rightarrow> 'h peer_messaging \<Rightarrow> 'h peer_messaging" where
  "manifestResendLoop E interval ticks s =
     (if interval \<le> 0 then s else manifestResendLoopWithTicks E ticks s)"

text \<open>
  The start up to the point where the loops run: it tells whether messaging is on and with
  which resend interval (0 for none).
\<close>

datatype start_outcome = MessagingDisabled | StartFailed goerror | Started int

definition resendInterval :: "lnd_config \<Rightarrow> int" where
  "resendInterval cfg =
     (case lc_ManifestResendInterval cfg of None \<Rightarrow> 0 | Some i \<Rightarrow> if i < 0 then 0 else i)"

definition messaging_start ::
    "'h messaging_env \<Rightarrow> lnd_config option \<Rightarrow> goerror option \<Rightarrow> 'h peer_messaging \<Rightarrow> start_outcome \<times> 'h peer_messaging" where
  "messaging_start E cfg dialErr s =
     (case cfg of
        None \<Rightarrow> (MessagingDisabled, s)
      | Some cfg \<Rightarrow>
          if strings_TrimSpace (lc_RPCAddr cfg) = [] then (MessagingDisabled, s)
          else case dialErr of
            Some err \<Rightarrow> (StartFailed err, s)
          | None \<Rightarrow>
              (case refreshPeers E s of
                 (Some refreshErr, s1) \<Rightarrow> (StartFailed refreshErr, s1)
               | (None, s1) \<Rightarrow> (Started (resendInterval cfg), sendManifestToConnectedPeersOnce E s1)))"

text \<open>
  The loops open a new subscription after a failed one, but a stream the node closes in an
  orderly way ends its loop for good, whatever the node would offer afterwards.
\<close>

lemma closed_subscription_not_reopened:
  "customMessagesLoop E (Streamed msgs RecvEOF False # rounds) s = (fold (HandleCustomMessage E) msgs s, True)
   \<and> customMessagesLoop E (Streamed msgs RecvOther False # rounds) s
       = customMessagesLoop E rounds (fold (HandleCustomMessage E) msgs s)"
  by (simp add: customMessagesLoop_def isStreamTerminalError_def)

section \<open>What a directory says of a peer\<close>

definition linked :: "string \<Rightarrow> directory \<Rightarrow> bool" where
  "linked k d \<longleftrightarrow> (\<exists>p. map_of d k = Some p \<and> peer_Connected p \<and> peer_CustomMsgEnabled p)"

definition manifest_sent :: "string \<Rightarrow> directory \<Rightarrow> bool" where
  "manifest_sent k d \<longleftrightarrow> (case map_of d k of None \<Rightarrow> False | Some p \<Rightarrow> peer_ManifestSent p)"

definition ready_with :: "string \<Rightarrow> manifest \<Rightarrow> directory \<Rightarrow> bool" where
  "ready_with k m d \<longleftrightarrow> (\<exists>q \<in> set (ListLCPPeers d). lp_PeerID q = k \<and> lp_RemoteManifest q = m)"

lemma ready_with_iff:
  assumes "directory_inv d"
  shows "ready_with k m d \<longleftrightarrow> linked k d \<and> manifest_sent k d \<and> RemoteManifestFor k d = Some m"
proof -
  have ok: "peer_PeerID p = k" if "map_of d k = Some p" for p k
    using assms that unfolding directory_inv_def peer_ok_def by blast
  have "ready_with k m d \<longleftrightarrow> (\<exists>p. map_of d k = Some p \<and> peer_ready p \<and> peer_RemoteManifest p = Some m)"
  proof
    assume "ready_with k m d"
    then obtain q where "q \<in> set (ListLCPPeers d)" "lp_PeerID q = k" "lp_RemoteManifest q = m"
      unfolding ready_with_def by blast
    then show "\<exists>p. map_of d k = Some p \<and> peer_ready p \<and> peer_RemoteManifest p = Some m"
      using ListLCPPeers_mem [OF assms, of q] by auto
  next
    assume "\<exists>p. map_of d k = Some p \<and> peer_ready p \<and> peer_RemoteManifest p = Some m"
    then obtain p where p: "map_of d k = Some p" "peer_ready p" "peer_RemoteManifest p = Some m" by blast
    let ?q = "\<lparr>lp_PeerID = peer_PeerID p, lp_RemoteAddr = peer_RemoteAddr p, lp_RemoteManifest = m\<rparr>"
    have "?q \<in> set (ListLCPPeers d)" using ListLCPPeers_mem [OF assms, of ?q] p ok [OF p(1)] by auto
    then show "ready_with k m d" unfolding ready_with_def using ok [OF p(1)] by force
  qed
  then show ?thesis
    by (auto simp: linked_def manifest_sent_def RemoteManifestFor_def peer_ready_def split: option.splits)
qed

lemmas directory_op_defs = UpsertPeer_def MarkConnected_def MarkCustomMsgEnabled_def MarkManifestSent_def
  MarkLCPReady_def MarkDisconnected_def withPeer_def updateLCPReadyLocked_def newPeer_def

lemma manifest_sent_ops [store_simps]:
  "manifest_sent k (UpsertPeer j a d) = manifest_sent k d"
  "manifest_sent k (MarkConnected j d) = manifest_sent k d"
  "manifest_sent k (MarkCustomMsgEnabled j b d) = manifest_sent k d"
  "manifest_sent k (MarkLCPReady j m d) = manifest_sent k d"
  "manifest_sent k (MarkManifestSent j d) \<longleftrightarrow> k = j \<or> manifest_sent k d"
  "manifest_sent k (MarkDisconnected j d) \<longleftrightarrow> k \<noteq> j \<and> manifest_sent k d"
  by (auto simp: manifest_sent_def directory_op_defs update_conv' split: option.splits)

lemma RemoteManifestFor_ops [store_simps]:
  "RemoteManifestFor k (UpsertPeer j a d) = RemoteManifestFor k d"
  "RemoteManifestFor k (MarkConnected j d) = RemoteManifestFor k d"
  "RemoteManifestFor k (MarkCustomMsgEnabled j b d) = RemoteManifestFor k d"
  "RemoteManifestFor k (MarkLCPReady j m d) = (if k = j then Some m else RemoteManifestFor k d)"
  "RemoteManifestFor k (MarkManifestSent j d) = RemoteManifestFor k d"
  "RemoteManifestFor k (MarkDisconnected j d) = (if k = j then None else RemoteManifestFor k d)"
  by (auto simp: RemoteManifestFor_def directory_op_defs update_conv' split: option.splits)

lemma linked_ops [store_simps]:
  "linked k (MarkLCPReady j m d) = linked k d"
  "linked k (MarkManifestSent j d) = linked k d"
  by (auto simp: linked_def directory_op_defs update_conv' split: option.splits)

lemma linked_connectPeer [store_simps]: "linked k (connectPeer j a d) \<longleftrightarrow> k = j \<or> linked k d"
  by (auto simp: linked_def connectPeer_def directory_op_defs update_conv' split: option.splits)

lemma connectPeer_manifests [store_simps]:
  "manifest_sent k (connectPeer j a d) = manifest_sent k d"
  "RemoteManifestFor k (connectPeer j a d) = RemoteManifestFor k d"
  by (simp_all add: connectPeer_def store_simps)

lemma directory_ops_inv [simp]:
  assumes "directory_inv d"
  shows "directory_inv (UpsertPeer k a d)" "directory_inv (MarkConnected k d)"
    "directory_inv (MarkCustomMsgEnabled k b d)" "directory_inv (MarkManifestSent k d)"
    "directory_inv (MarkLCPReady k m d)" "directory_inv (MarkDisconnected k d)"
  using directory_step_inv [OF assms, of "DUpsertPeer k a"] directory_step_inv [OF assms, of "DMarkConnected k"]
    directory_step_inv [OF assms, of "DMarkCustomMsgEnabled k b"] directory_step_inv [OF assms, of "DMarkManifestSent k"]
    directory_step_inv [OF assms, of "DMarkLCPReady k m"] directory_step_inv [OF assms, of "DMarkDisconnected k"]
  by simp_all

lemma connectPeer_inv [simp]: "directory_inv d \<Longrightarrow> directory_inv (connectPeer k a d)"
  by (simp add: connectPeer_def)

lemma connect_all:
  "manifest_sent k (fold (\<lambda>(k, v). connectPeer k v) as d) = manifest_sent k d
   \<and> RemoteManifestFor k (fold (\<lambda>(k, v). connectPeer k v) as d) = RemoteManifestFor k d
   \<and> (directory_inv d \<longrightarrow> directory_inv (fold (\<lambda>(k, v). connectPeer k v) as d))"
proof (induction as arbitrary: d)
  case Nil
  then show ?case by simp
next
  case (Cons a as)
  then show ?case by (cases a) (simp add: connectPeer_manifests)
qed

lemma sent_lookup:
  "(case GetPeer k d of None \<Rightarrow> False | Some peer \<Rightarrow> peer_ManifestSent peer) = manifest_sent k d"
  by (simp add: manifest_sent_def GetPeer_def)

lemma had_manifest_lookup:
  "(case GetPeer k d of None \<Rightarrow> False | Some p \<Rightarrow> peer_RemoteManifest p \<noteq> None) \<longleftrightarrow> RemoteManifestFor k d \<noteq> None"
  by (simp add: RemoteManifestFor_def GetPeer_def split: option.splits)

section \<open>Safety\<close>

text \<open>
  Calls between two states: the calls made are appended to the trace, manifests are received
  by no operation but the handling of a manifest, and a peer becomes marked as served only by
  a successful send of the local manifest to it.
\<close>

definition served :: "'h peer_messaging \<Rightarrow> string \<Rightarrow> node_call list \<Rightarrow> bool" where
  "served s k tr \<longleftrightarrow> (\<exists>kb. hex_DecodeString k = Inr kb
     \<and> PmSend kb (ucast MessageTypeManifest) (pm_localManifestPayload s) True \<in> set tr)"

definition moves :: "'h peer_messaging \<Rightarrow> node_call list \<Rightarrow> 'h peer_messaging \<Rightarrow> bool" where
  "moves s tr s' \<longleftrightarrow> pm_trace s' = pm_trace s @ tr
     \<and> pm_localManifestPayload s' = pm_localManifestPayload s
     \<and> (directory_inv (pm_directory s) \<longrightarrow> directory_inv (pm_directory s'))
     \<and> (\<forall>k. manifest_sent k (pm_directory s') \<longrightarrow> manifest_sent k (pm_directory s) \<or> served s k tr)
     \<and> (\<forall>k. RemoteManifestFor k (pm_directory s') = RemoteManifestFor k (pm_directory s))"

lemma served_append: "served s k (tr @ tr') \<longleftrightarrow> served s k tr \<or> served s k tr'"
  by (auto simp: served_def)

lemma served_cong: "pm_localManifestPayload s' = pm_localManifestPayload s \<Longrightarrow> served s' = served s"
  by (simp add: served_def fun_eq_iff)

lemma moves_refl [simp]: "moves s [] s"
  by (simp add: moves_def)

lemma moves_trans: "moves s tr s1 \<Longrightarrow> moves s1 tr' s2 \<Longrightarrow> moves s (tr @ tr') s2"
  using served_cong [of s1 s] unfolding moves_def served_append by (simp, blast)

lemma moves_connect: "moves s [] (markPeerConnected k s)"
  by (simp add: moves_def markPeerConnected_def onDirectory_def store_simps)

lemma moves_refresh: "\<exists>tr. moves s tr (snd (refreshPeers E s))"
  using connect_all
  by (auto simp: refreshPeers_def moves_def onDirectory_def Let_def split: sum.split)

lemma moves_send:
  assumes "sendManifest E k s = (err, s1)"
  shows "\<exists>tr. moves s tr s1 \<and> (err = None \<longrightarrow> served s k tr)"
  using assms by (auto simp: sendManifest_def moves_def served_def Let_def split: sum.splits)

lemma moves_mark_sent: "moves s tr s1 \<Longrightarrow> served s k tr \<Longrightarrow> moves s tr (onDirectory (MarkManifestSent k) s1)"
  by (auto simp: moves_def onDirectory_def store_simps)

lemma moves_send_marked: "\<exists>tr. moves s tr (snd (sendManifestAndMarkSent E k s))"
proof (cases "k = []")
  case True
  then show ?thesis by (auto simp: sendManifestAndMarkSent_def intro: moves_refl)
next
  case False
  obtain err s1 where 1: "sendManifest E k s = (err, s1)" by force
  from moves_send [OF 1] False 1 show ?thesis
    by (cases err) (auto simp: sendManifestAndMarkSent_def intro: moves_mark_sent)
qed

lemma ifNotSent_cases:
  "sendManifestIfNotSent E k s =
     (if manifest_sent k (pm_directory s) then (None, s) else sendManifestAndMarkSent E k s)"
  by (simp add: sendManifestIfNotSent_def sendManifestAndMarkSent_def sent_lookup)

lemma moves_send_once: "\<exists>tr. moves s tr (snd (sendManifestIfNotSent E k s))"
  using moves_send_marked [of s E k] moves_refl [of s] unfolding ifNotSent_cases by (metis snd_conv)

lemma moves_forConnected:
  assumes "\<And>k s. \<exists>tr. moves s tr (snd (send k s))"
  shows "\<exists>tr. moves s tr (forConnected E send ks s)"
proof (induction ks arbitrary: s)
  case Nil
  then show ?case by (auto intro: moves_refl)
next
  case (Cons k ks)
  show ?case
  proof (cases "me_done E (length (pm_trace s))")
    case True
    then show ?thesis by (auto intro: moves_refl)
  next
    case False
    obtain tr where "moves s tr (snd (send k s))" using assms by blast
    moreover obtain tr' where "moves (snd (send k s)) tr' (forConnected E send ks (snd (send k s)))"
      using Cons by blast
    ultimately show ?thesis using False by (auto intro: moves_trans)
  qed
qed

lemma moves_send_all:
  "\<exists>tr. moves s tr (sendManifestToConnectedPeers E s)" "\<exists>tr. moves s tr (sendManifestToConnectedPeersOnce E s)"
  unfolding sendManifestToConnectedPeers_def sendManifestToConnectedPeersOnce_def
  by (rule moves_forConnected, rule moves_send_marked) (rule moves_forConnected, rule moves_send_once)

text \<open>What drives the component: peer events, custom messages, the resend timer and the start.\<close>

datatype messaging_input =
    MiEvent "peer_event option"
  | MiMessage "node_message option"
  | MiResend
  | MiStart

fun messaging_step :: "'h messaging_env \<Rightarrow> messaging_input \<Rightarrow> 'h peer_messaging \<Rightarrow> 'h peer_messaging" where
  "messaging_step E (MiEvent ev) s = HandlePeerEvent E ev s"
| "messaging_step E (MiMessage msg) s = HandleCustomMessage E msg s"
| "messaging_step E MiResend s = sendManifestToConnectedPeers E s"
| "messaging_step E MiStart s = sendManifestToConnectedPeersOnce E (snd (refreshPeers E s))"

definition goes_offline :: "string \<Rightarrow> messaging_input \<Rightarrow> bool" where
  "goes_offline k e \<longleftrightarrow> (\<exists>ev. e = MiEvent (Some ev) \<and> pev_Type ev = PEER_OFFLINE \<and> strings_TrimSpace (pev_PubKey ev) = k)"

definition brings_manifest :: "'h messaging_env \<Rightarrow> string \<Rightarrow> manifest \<Rightarrow> messaging_input \<Rightarrow> bool" where
  "brings_manifest E k m e \<longleftrightarrow> (\<exists>msg. e = MiMessage (Some msg) \<and> hex_EncodeToString (nm_Peer msg) = k
     \<and> nm_Type msg = ucast MessageTypeManifest \<and> DecodeManifest (me_tlv E) (nm_Data msg) = Inr m)"

text \<open>One input, seen from one peer.\<close>

definition input_ok :: "'h messaging_env \<Rightarrow> messaging_input \<Rightarrow> 'h peer_messaging \<Rightarrow> node_call list \<Rightarrow> 'h peer_messaging \<Rightarrow> bool" where
  "input_ok E e s tr s' \<longleftrightarrow> pm_trace s' = pm_trace s @ tr
     \<and> pm_localManifestPayload s' = pm_localManifestPayload s
     \<and> (directory_inv (pm_directory s) \<longrightarrow> directory_inv (pm_directory s'))
     \<and> (\<forall>k. k \<noteq> [] \<longrightarrow> manifest_sent k (pm_directory s') \<longrightarrow>
          \<not> goes_offline k e \<and> (manifest_sent k (pm_directory s) \<or> served s k tr))
     \<and> (\<forall>k m. k \<noteq> [] \<longrightarrow> RemoteManifestFor k (pm_directory s') = Some m \<longrightarrow>
          \<not> goes_offline k e \<and> (RemoteManifestFor k (pm_directory s) = Some m \<or> brings_manifest E k m e))"

lemma input_ok_moves: "moves s tr s' \<Longrightarrow> \<forall>k. \<not> goes_offline k e \<Longrightarrow> input_ok E e s tr s'"
  by (auto simp: moves_def input_ok_def)

lemma peer_event_ok: "\<exists>tr. input_ok E (MiEvent ev) s tr (HandlePeerEvent E ev s)"
proof (cases ev)
  case None
  then show ?thesis by (auto simp: HandlePeerEvent_def goes_offline_def intro!: input_ok_moves intro: moves_refl)
next
  case (Some v)
  let ?k = "strings_TrimSpace (pev_PubKey v)"
  show ?thesis
  proof (cases "?k = [] \<or> pev_Type v = PEER_UNKNOWN")
    case True
    then have "HandlePeerEvent E ev s = s" using Some by (auto simp: HandlePeerEvent_def Let_def)
    moreover have "input_ok E (MiEvent ev) s [] s"
      using True Some by (auto simp: input_ok_def goes_offline_def)
    ultimately show ?thesis by metis
  next
    case False
    show ?thesis
    proof (cases "pev_Type v = PEER_OFFLINE")
      case True
      then have "input_ok E (MiEvent ev) s [] (HandlePeerEvent E ev s)"
        using False Some by (auto simp: HandlePeerEvent_def input_ok_def goes_offline_def onDirectory_def store_simps split: if_splits)
      then show ?thesis by blast
    next
      case off: False
      then have on: "pev_Type v = PEER_ONLINE" using False by (cases "pev_Type v") auto
      obtain tr1 where 1: "moves s tr1 (snd (refreshPeers E s))" using moves_refresh by blast
      from moves_trans [OF this moves_connect]
      have 2: "moves s tr1 (markPeerConnected ?k (snd (refreshPeers E s)))" by simp
      obtain tr2 where "moves (markPeerConnected ?k (snd (refreshPeers E s))) tr2 (HandlePeerEvent E ev s)"
        using moves_send_once [of "markPeerConnected ?k (snd (refreshPeers E s))" E ?k] False Some on by (auto simp: HandlePeerEvent_def Let_def)
      from moves_trans [OF 2 this] show ?thesis
        using on Some by (auto simp: goes_offline_def intro!: input_ok_moves)
    qed
  qed
qed

lemma handleManifest_moves: "DecodeManifest (me_tlv E) b = Inr m \<Longrightarrow>
  \<exists>tr. moves (onDirectory (MarkLCPReady k m) s) tr (handleManifest E k b s)"
  using moves_send_marked moves_send_once by (auto simp: handleManifest_def Let_def)

lemma route_manifest: "rd_Action (Route msg) = RouteActionDispatchManifest \<longleftrightarrow> cm_MsgType msg = MessageTypeManifest"
  by (auto simp: Route_def Let_def)

lemma small_type: "x \<le> 65535 \<Longrightarrow> (ucast x :: u16) = t \<Longrightarrow> x = (ucast t :: u32)"
proof -
  assume "x \<le> 65535" and "(ucast x :: u16) = t"
  then have "unat x < 65536" by (simp add: word_le_nat_alt)
  then have "take_bit 16 (unat x) = unat x" "take_bit 32 (unat x) = unat x" by (simp_all add: take_bit_eq_mod)
  then show "x = ucast t" using \<open>ucast x = t\<close> by (auto simp: word_unat_eq_iff unsigned_ucast_eq)
qed


lemma message_ok: "\<exists>tr. input_ok E (MiMessage msg) s tr (HandleCustomMessage E msg s)"
proof -
  have quiet: "\<forall>k. \<not> goes_offline k (MiMessage msg)" by (simp add: goes_offline_def)
  have same: "\<exists>tr. input_ok E (MiMessage msg) s tr s'" if "\<exists>tr. moves s tr s'" for s'
    using input_ok_moves [OF _ quiet] that by metis
  show ?thesis
  proof (cases msg)
    case None
    then have "HandleCustomMessage E msg s = s" by (simp add: HandleCustomMessage_def)
    then show ?thesis using same [of s] moves_refl [of s] by metis
  next
    case (Some v)
    let ?k = "hex_EncodeToString (nm_Peer v)"
    let ?s1 = "markPeerConnected ?k s"
    let ?cm = "\<lparr>cm_PeerPubKey = ?k, cm_MsgType = ucast (nm_Type v), cm_Payload = nm_Data v\<rparr>"
    show ?thesis
    proof (cases "nm_Peer v \<noteq> [] \<and> nm_Type v \<le> 65535 \<and> rd_Action (Route ?cm) = RouteActionDispatchManifest
        \<and> (\<exists>m. DecodeManifest (me_tlv E) (nm_Data v) = Inr m)")
      case True
      then obtain m where m: "DecodeManifest (me_tlv E) (nm_Data v) = Inr m" by blast
      from handleManifest_moves [where E = E, OF m] obtain tr where
        tr: "moves (onDirectory (MarkLCPReady ?k m) ?s1) tr (handleManifest E ?k (nm_Data v) ?s1)" by blast
      have "nm_Type v = ucast MessageTypeManifest" using True small_type [of "nm_Type v" MessageTypeManifest] unfolding route_manifest by simp
      with m Some have "brings_manifest E ?k m (MiMessage msg)" by (simp add: brings_manifest_def)
      with tr quiet have "input_ok E (MiMessage msg) s tr (handleManifest E ?k (nm_Data v) ?s1)"
        by (auto simp: moves_def input_ok_def markPeerConnected_def onDirectory_def served_def store_simps split: if_splits)
      moreover have "HandleCustomMessage E msg s = handleManifest E ?k (nm_Data v) ?s1"
        using True Some leD [of "nm_Type v" 65535] by (simp add: HandleCustomMessage_def Let_def)
      ultimately show ?thesis by metis
    next
      case False
      have conn: "moves s [] ?s1" by (rule moves_connect)
      have disc: "moves s [PmDisconnect ?k] (disconnectPeer ?k s)" "moves s [PmDisconnect ?k] (disconnectPeer ?k ?s1)"
        using conn by (auto simp: moves_def disconnectPeer_def served_def)
      have disp: "moves s [] (dispatchInbound E ?cm ?s1)"
        using conn by (auto simp: moves_def dispatchInbound_def split: option.split)
      have fail: "handleManifest E ?k (nm_Data v) ?s1 = ?s1" if "\<nexists>m. DecodeManifest (me_tlv E) (nm_Data v) = Inr m"
        using that by (auto simp: handleManifest_def split: sum.split)
      have "HandleCustomMessage E msg s \<in> {s, ?s1, disconnectPeer ?k s, disconnectPeer ?k ?s1, dispatchInbound E ?cm ?s1}"
        using False Some fail by (cases "rd_Action (Route ?cm)") (auto simp: HandleCustomMessage_def Let_def not_less)
      then have "\<exists>tr. moves s tr (HandleCustomMessage E msg s)"
        using moves_refl [of s] conn disc disp by (elim insertE emptyE) metis+
      then show ?thesis by (rule same)
    qed
  qed
qed

lemma messaging_step_ok: "\<exists>tr. input_ok E e s tr (messaging_step E e s)"
proof (cases e)
  case (MiEvent ev)
  then show ?thesis using peer_event_ok by simp
next
  case (MiMessage msg)
  then show ?thesis using message_ok by simp
next
  case MiResend
  obtain tr where "moves s tr (messaging_step E e s)" using moves_send_all(1) [of s E] MiResend by auto
  then show ?thesis using input_ok_moves MiResend by (force simp: goes_offline_def)
next
  case MiStart
  obtain tr1 where 1: "moves s tr1 (snd (refreshPeers E s))" using moves_refresh by blast
  obtain tr2 where "moves (snd (refreshPeers E s)) tr2 (messaging_step E e s)"
    using moves_send_all(2) [of "snd (refreshPeers E s)" E] MiStart by auto
  from moves_trans [OF 1 this] show ?thesis
    using input_ok_moves MiStart by (force simp: goes_offline_def)
qed

definition messaging_run :: "'h messaging_env \<Rightarrow> messaging_input list \<Rightarrow> 'h peer_messaging \<Rightarrow> 'h peer_messaging" where
  "messaging_run E es s = fold (messaging_step E) es s"

lemma messaging_run_snoc [simp]: "messaging_run E (es @ [e]) s = messaging_step E e (messaging_run E es s)"
  by (simp add: messaging_run_def)

lemma messaging_run_Nil [simp]: "messaging_run E [] s = s"
  by (simp add: messaging_run_def)

text \<open>Since the peer last went offline, the local manifest was sent to it.\<close>

definition sent_in_session :: "'h messaging_env \<Rightarrow> messaging_input list \<Rightarrow> 'h peer_messaging \<Rightarrow> string \<Rightarrow> bool" where
  "sent_in_session E es s k \<longleftrightarrow> (\<exists>es1 es2. es = es1 @ es2 \<and> (\<forall>e \<in> set es2. \<not> goes_offline k e)
     \<and> served s k (drop (length (pm_trace (messaging_run E es1 s))) (pm_trace (messaging_run E es s))))"

text \<open>Since the peer last went offline, its manifest was received.\<close>

definition received_in_session :: "'h messaging_env \<Rightarrow> messaging_input list \<Rightarrow> string \<Rightarrow> manifest \<Rightarrow> bool" where
  "received_in_session E es k m \<longleftrightarrow> (\<exists>es1 e es2. es = es1 @ e # es2 \<and> brings_manifest E k m e
     \<and> (\<forall>e \<in> set es2. \<not> goes_offline k e))"

lemma sent_in_session_grows:
  assumes "sent_in_session E es s k" and "\<not> goes_offline k e"
    and "pm_trace (messaging_step E e (messaging_run E es s)) = pm_trace (messaging_run E es s) @ tr"
  shows "sent_in_session E (es @ [e]) s k"
proof -
  from assms(1) obtain es1 es2 where d: "es = es1 @ es2" "\<forall>e \<in> set es2. \<not> goes_offline k e"
    "served s k (drop (length (pm_trace (messaging_run E es1 s))) (pm_trace (messaging_run E es s)))"
    unfolding sent_in_session_def by blast
  then have "es @ [e] = es1 @ (es2 @ [e])" "\<forall>x \<in> set (es2 @ [e]). \<not> goes_offline k x"
    "served s k (drop (length (pm_trace (messaging_run E es1 s))) (pm_trace (messaging_run E (es @ [e]) s)))"
    using assms(2,3) unfolding messaging_run_snoc assms(3) drop_append served_append by auto
  then show ?thesis unfolding sent_in_session_def by blast
qed

lemma sent_now_in_session:
  assumes "served s k tr" and "\<not> goes_offline k e"
    and "pm_trace (messaging_step E e (messaging_run E es s)) = pm_trace (messaging_run E es s) @ tr"
  shows "sent_in_session E (es @ [e]) s k"
proof -
  have "es @ [e] = es @ [e]" "\<forall>x \<in> set [e]. \<not> goes_offline k x"
    "served s k (drop (length (pm_trace (messaging_run E es s))) (pm_trace (messaging_run E (es @ [e]) s)))"
    using assms by simp_all
  then show ?thesis unfolding sent_in_session_def by blast
qed

lemma received_in_session_grows:
  assumes "received_in_session E es k m" and "\<not> goes_offline k e"
  shows "received_in_session E (es @ [e]) k m"
proof -
  from assms(1) obtain es1 e' es2 where d: "es = es1 @ e' # es2" "brings_manifest E k m e'"
    "\<forall>e \<in> set es2. \<not> goes_offline k e" unfolding received_in_session_def by blast
  then have "es @ [e] = es1 @ e' # (es2 @ [e])" "\<forall>x \<in> set (es2 @ [e]). \<not> goes_offline k x"
    using assms(2) by auto
  with d(2) show ?thesis unfolding received_in_session_def by blast
qed

lemma received_now_in_session: "brings_manifest E k m e \<Longrightarrow> received_in_session E (es @ [e]) k m"
  unfolding received_in_session_def by fastforce

lemma session_invariant:
  assumes "directory_inv (pm_directory s)" and "\<And>k. \<not> manifest_sent k (pm_directory s)"
    and "\<And>k. RemoteManifestFor k (pm_directory s) = None"
  shows "directory_inv (pm_directory (messaging_run E es s))
    \<and> pm_localManifestPayload (messaging_run E es s) = pm_localManifestPayload s
    \<and> (\<forall>k. k \<noteq> [] \<longrightarrow> manifest_sent k (pm_directory (messaging_run E es s)) \<longrightarrow> sent_in_session E es s k)
    \<and> (\<forall>k m. k \<noteq> [] \<longrightarrow> RemoteManifestFor k (pm_directory (messaging_run E es s)) = Some m \<longrightarrow> received_in_session E es k m)"
proof (induction es rule: rev_induct)
  case Nil
  then show ?case using assms by simp
next
  case (snoc e es)
  let ?s = "messaging_run E es s"
  obtain tr where ok: "input_ok E e ?s tr (messaging_step E e ?s)" using messaging_step_ok by blast
  then have tr: "pm_trace (messaging_step E e ?s) = pm_trace ?s @ tr" by (simp add: input_ok_def)
  have same: "served ?s = served s" using snoc by (intro served_cong) blast
  have "sent_in_session E (es @ [e]) s k"
    if "k \<noteq> []" "manifest_sent k (pm_directory (messaging_step E e ?s))" for k
  proof -
    have "\<not> goes_offline k e" "manifest_sent k (pm_directory ?s) \<or> served s k tr"
      using ok that unfolding input_ok_def same by auto
    then show ?thesis using snoc that(1) sent_in_session_grows [OF _ _ tr] sent_now_in_session [OF _ _ tr] by auto
  qed
  moreover have "received_in_session E (es @ [e]) k m"
    if "k \<noteq> []" "RemoteManifestFor k (pm_directory (messaging_step E e ?s)) = Some m" for k m
  proof -
    have off: "\<not> goes_offline k e" and "RemoteManifestFor k (pm_directory ?s) = Some m \<or> brings_manifest E k m e"
      using ok that unfolding input_ok_def by auto
    moreover have "received_in_session E es k m" if "RemoteManifestFor k (pm_directory ?s) = Some m"
      using snoc \<open>k \<noteq> []\<close> that by simp
    ultimately show ?thesis
      using received_in_session_grows [OF _ off, of E es m] received_now_in_session [of E k m e es] by auto
  qed
  moreover have "directory_inv (pm_directory (messaging_step E e ?s))"
    "pm_localManifestPayload (messaging_step E e ?s) = pm_localManifestPayload s"
    using ok snoc unfolding input_ok_def by auto
  ultimately show ?case unfolding messaging_run_snoc by (intro conjI allI impI)
qed

lemma messaging_New_fresh:
  assumes "messaging_New L (Some []) localManifest h = Inr s"
  shows "directory_inv (pm_directory s)" "\<not> manifest_sent k (pm_directory s)" "RemoteManifestFor k (pm_directory s) = None"
    "EncodeManifest L (case localManifest of None \<Rightarrow> defaultPeerManifest | Some m \<Rightarrow> m) = Inr (pm_localManifestPayload s)"
  using assms by (auto simp: messaging_New_def manifest_sent_def RemoteManifestFor_def res_simps)

section \<open>Progress\<close>

lemma refresh_keeps:
  "manifest_sent k (pm_directory (snd (refreshPeers E s))) = manifest_sent k (pm_directory s)"
  "RemoteManifestFor k (pm_directory (snd (refreshPeers E s))) = RemoteManifestFor k (pm_directory s)"
  "directory_inv (pm_directory s) \<Longrightarrow> directory_inv (pm_directory (snd (refreshPeers E s)))"
  "pm_trace (snd (refreshPeers E s)) = pm_trace s @ [PmListPeers]"
  "pm_localManifestPayload (snd (refreshPeers E s)) = pm_localManifestPayload s"
  using connect_all by (auto simp: refreshPeers_def onDirectory_def Let_def split: sum.split)

lemma connect_keeps:
  "manifest_sent k (pm_directory (markPeerConnected j s)) = manifest_sent k (pm_directory s)"
  "RemoteManifestFor k (pm_directory (markPeerConnected j s)) = RemoteManifestFor k (pm_directory s)"
  "directory_inv (pm_directory s) \<Longrightarrow> directory_inv (pm_directory (markPeerConnected j s))"
  "linked k (pm_directory (markPeerConnected j s)) \<longleftrightarrow> k = j \<or> linked k (pm_directory s)"
  "pm_trace (markPeerConnected j s) = pm_trace s"
  "pm_localManifestPayload (markPeerConnected j s) = pm_localManifestPayload s"
  by (simp_all add: markPeerConnected_def onDirectory_def store_simps)

text \<open>The manifest reaches the peer with these bytes as its public key.\<close>

definition delivers :: "'h messaging_env \<Rightarrow> bytes \<Rightarrow> bool" where
  "delivers E kb \<longleftrightarrow> (\<forall>n b. me_send E n kb (ucast MessageTypeManifest) b = None)"

definition manifest_message :: "bytes \<Rightarrow> bytes \<Rightarrow> node_message" where
  "manifest_message peer payload = \<lparr>nm_Peer = peer, nm_Type = ucast MessageTypeManifest, nm_Data = payload\<rparr>"

lemma send_delivered:
  assumes "delivers E kb" "kb \<noteq> []"
  shows "sendManifestAndMarkSent E (hex_EncodeToString kb) s =
    (None, s\<lparr>pm_trace := pm_trace s @ [PmSend kb (ucast MessageTypeManifest) (pm_localManifestPayload s) True],
       pm_directory := MarkManifestSent (hex_EncodeToString kb) (pm_directory s)\<rparr>)"
proof -
  have "hex_EncodeToString kb \<noteq> []" using assms(2) by (metis length_0_conv length_hex_EncodeToString mult_eq_0_iff zero_neq_numeral)
  then show ?thesis using assms(1)
    by (simp add: sendManifestAndMarkSent_def sendManifest_def hex_DecodeString_EncodeToString onDirectory_def
        delivers_def Let_def)
qed

lemma manifest_received:
  assumes "DecodeManifest (me_tlv E) b = Inr m" and "kb \<noteq> []"
  shows "HandleCustomMessage E (Some (manifest_message kb b)) s =
    (let k = hex_EncodeToString kb;
         s1 = onDirectory (MarkLCPReady k m) (markPeerConnected k s)
     in if RemoteManifestFor k (pm_directory s) = None \<or> \<not> manifest_sent k (pm_directory s)
        then snd (sendManifestAndMarkSent E k s1) else s1)"
  using assms
  by (auto simp: HandleCustomMessage_def manifest_message_def Route_def handleManifest_def Let_def
      had_manifest_lookup ifNotSent_cases connect_keeps onDirectory_def store_simps)

lemma manifest_received_ready:
  assumes "DecodeManifest (me_tlv E) b = Inr m" and "kb \<noteq> []" and "delivers E kb"
    and "directory_inv (pm_directory s)"
  defines "s' \<equiv> HandleCustomMessage E (Some (manifest_message kb b)) s"
  shows "ready_with (hex_EncodeToString kb) m (pm_directory s')" "directory_inv (pm_directory s')"
    "RemoteManifestFor (hex_EncodeToString kb) (pm_directory s') = Some m"
    "manifest_sent (hex_EncodeToString kb) (pm_directory s')"
    "pm_localManifestPayload s' = pm_localManifestPayload s"
    "pm_trace s' = pm_trace s @
       (if RemoteManifestFor (hex_EncodeToString kb) (pm_directory s) = None
           \<or> \<not> manifest_sent (hex_EncodeToString kb) (pm_directory s)
        then [PmSend kb (ucast MessageTypeManifest) (pm_localManifestPayload s) True] else [])"
proof -
  let ?k = "hex_EncodeToString kb"
  have i: "directory_inv (pm_directory s')" and l: "linked ?k (pm_directory s')"
    and s: "manifest_sent ?k (pm_directory s')" and r: "RemoteManifestFor ?k (pm_directory s') = Some m"
    using assms(4) unfolding s'_def manifest_received [OF assms(1,2)] Let_def send_delivered [OF assms(3,2)]
    by (auto simp: onDirectory_def store_simps connect_keeps)
  from ready_with_iff [OF i] l s r show "ready_with ?k m (pm_directory s')" by simp
  show "pm_trace s' = pm_trace s @
       (if RemoteManifestFor ?k (pm_directory s) = None \<or> \<not> manifest_sent ?k (pm_directory s)
        then [PmSend kb (ucast MessageTypeManifest) (pm_localManifestPayload s) True] else [])"
    "pm_localManifestPayload s' = pm_localManifestPayload s"
    unfolding s'_def manifest_received [OF assms(1,2)] Let_def send_delivered [OF assms(3,2)]
    by (auto simp: onDirectory_def connect_keeps)
  show "directory_inv (pm_directory s')" "RemoteManifestFor ?k (pm_directory s') = Some m" "manifest_sent ?k (pm_directory s')"
    by (fact i r s)+
qed

lemma online_sends:
  assumes "delivers E kb" "kb \<noteq> []" "directory_inv (pm_directory s)"
    and "\<not> manifest_sent (hex_EncodeToString kb) (pm_directory s)"
    and "strings_TrimSpace pk = hex_EncodeToString kb"
  defines "s' \<equiv> HandlePeerEvent E (Some \<lparr>pev_PubKey = pk, pev_Type = PEER_ONLINE\<rparr>) s"
  shows "directory_inv (pm_directory s')" "manifest_sent (hex_EncodeToString kb) (pm_directory s')"
    "RemoteManifestFor k (pm_directory s') = RemoteManifestFor k (pm_directory s)"
    "pm_localManifestPayload s' = pm_localManifestPayload s"
    "pm_trace s' = pm_trace s @ [PmListPeers, PmSend kb (ucast MessageTypeManifest) (pm_localManifestPayload s) True]"
proof -
  let ?k = "hex_EncodeToString kb"
  have "?k \<noteq> []" using assms(2) by (metis length_0_conv length_hex_EncodeToString mult_eq_0_iff zero_neq_numeral)
  then have "s' = snd (sendManifestAndMarkSent E ?k (markPeerConnected ?k (snd (refreshPeers E s))))"
    using assms(4,5) by (simp add: s'_def HandlePeerEvent_def Let_def ifNotSent_cases connect_keeps refresh_keeps)
  note s' = this [unfolded send_delivered [OF assms(1,2)]]
  show "directory_inv (pm_directory s')" "manifest_sent ?k (pm_directory s')"
    "RemoteManifestFor k (pm_directory s') = RemoteManifestFor k (pm_directory s)"
    "pm_localManifestPayload s' = pm_localManifestPayload s"
    "pm_trace s' = pm_trace s @ [PmListPeers, PmSend kb (ucast MessageTypeManifest) (pm_localManifestPayload s) True]"
    unfolding s' using assms(3) by (simp_all add: connect_keeps refresh_keeps store_simps)
qed

text \<open>Two nodes without job handler, whose calls all succeed.\<close>

definition sample_messaging_node :: "unit messaging_env" where
  "sample_messaging_node = \<lparr>me_tlv = bolt_lib, me_listPeers = \<lambda>n. Inr [], me_send = \<lambda>n k t b. None, me_done = \<lambda>n. False,
     me_inboundHandler = None\<rparr>"

definition sample_messaging :: "bytes \<Rightarrow> unit peer_messaging" where
  "sample_messaging payload = \<lparr>pm_directory = [], pm_localManifestPayload = payload, pm_peerAddr = [],
     pm_handlerState = (), pm_trace = []\<rparr>"

definition sample_peer_manifest :: manifest where
  "sample_peer_manifest = \<lparr>mf_ProtocolVersion = 2, mf_MaxPayloadBytes = 200, mf_MaxStreamBytes = 300,
     mf_MaxJobBytes = 300, mf_MaxInflightJobs = Some 4, mf_SupportedTasks = []\<rparr>"

lemma sample_fresh:
  "directory_inv (pm_directory (sample_messaging b))" "\<not> manifest_sent k (pm_directory (sample_messaging b))"
  "RemoteManifestFor k (pm_directory (sample_messaging b)) = None" "pm_localManifestPayload (sample_messaging b) = b"
  by (simp_all add: sample_messaging_def manifest_sent_def RemoteManifestFor_def)

lemma sample_messaging_node_facts: "me_tlv sample_messaging_node = bolt_lib" "delivers sample_messaging_node kb"
  by (simp_all add: sample_messaging_node_def delivers_def)

lemma sample_manifest_fits: "\<exists>b. EncodeManifest bolt_lib sample_peer_manifest = Inr b \<and> length b \<le> MaxRecordSize"
proof -
  have "fits (EncodeManifest bolt_lib sample_peer_manifest)" by code_simp
  from fits_Inr [OF this] show ?thesis by blast
qed

lemma sample_New: "EncodeManifest bolt_lib sample_peer_manifest = Inr b \<Longrightarrow>
  messaging_New bolt_lib (Some []) (Some sample_peer_manifest) () = Inr (sample_messaging b)"
  by (simp add: messaging_New_def sample_messaging_def)

section \<open>Properties\<close>

text \<open>
  C14. A peer counts as ready only after a real exchange. Whatever peer events, custom
  messages, restarts and resend ticks occurred since the component was created, a listed peer
  was sent the encoded local manifest and the node accepted that message, and the listed
  manifest is the decoded payload of a manifest message from that very peer; both happened
  after the peer last went offline.
\<close>

theorem ready_peer_exchanged_manifests:
  assumes "messaging_New L (Some []) localManifest h = Inr s" and "me_tlv E = L"
    and "ready_with k m (pm_directory (messaging_run E es s))" and "k \<noteq> []"
  shows "EncodeManifest L (case localManifest of None \<Rightarrow> defaultPeerManifest | Some lm \<Rightarrow> lm) = Inr (pm_localManifestPayload s)
    \<and> sent_in_session E es s k \<and> received_in_session E es k m"
proof -
  note run = session_invariant [OF messaging_New_fresh(1,2,3) [OF assms(1)], of E es]
  from run assms(3) have "manifest_sent k (pm_directory (messaging_run E es s))"
    "RemoteManifestFor k (pm_directory (messaging_run E es s)) = Some m"
    using ready_with_iff by blast+
  with run assms(4) messaging_New_fresh(4) [OF assms(1)] show ?thesis by blast
qed

theorem ready_peer_exchanged_manifests_witness:
  "\<exists>b. received_in_session sample_messaging_node [MiMessage (Some (manifest_message [2] b))] ''02'' sample_peer_manifest"
proof -
  obtain b where b: "EncodeManifest bolt_lib sample_peer_manifest = Inr b" "length b \<le> MaxRecordSize"
    using sample_manifest_fits by blast
  then have d: "DecodeManifest (me_tlv sample_messaging_node) b = Inr sample_peer_manifest"
    using tlv_library.manifest_round_trip [OF bolt.tlv_library_axioms]
    by (simp add: sample_messaging_node_facts sample_peer_manifest_def)
  have k: "hex_EncodeToString [2] = ''02''" by code_simp
  from manifest_received_ready(1) [OF d list.distinct(2) sample_messaging_node_facts(2) sample_fresh(1), of 2 "[]" b]
  have "ready_with ''02'' sample_peer_manifest
      (pm_directory (messaging_run sample_messaging_node [MiMessage (Some (manifest_message [2] b))] (sample_messaging b)))"
    unfolding k messaging_run_def by simp
  from ready_peer_exchanged_manifests [OF sample_New [OF b(1)] sample_messaging_node_facts(1) this list.distinct(2)]
  show ?thesis by (intro exI [of _ b]) simp
qed

text \<open>
  C13. Two nodes that see each other become ready, in three messages. Node A (public key
  \<open>ka\<close>) is told that node B (\<open>kb\<close>) is online and has not sent it a manifest on this
  connection; neither has the other's manifest, and each node's messages to the other get
  through. Then A sends its manifest; B answers with its own; A, who sees B's manifest for the
  first time, sends its manifest once more; and B does not answer again. Now each lists the
  other as ready with exactly the manifest the other was configured with.
\<close>

theorem manifest_exchange_completes:
  assumes L: "tlv_library L" and E: "me_tlv EA = L" "me_tlv EB = L"
    and k: "ka \<noteq> []" "kb \<noteq> []" and pk: "strings_TrimSpace pkB = hex_EncodeToString kb"
    and send: "delivers EA kb" "delivers EB ka"
    and mA: "EncodeManifest L mA = Inr (pm_localManifestPayload a)" "length (pm_localManifestPayload a) \<le> MaxRecordSize"
      "length (mf_SupportedTasks mA) \<le> 1024"
    and mB: "EncodeManifest L mB = Inr (pm_localManifestPayload b)" "length (pm_localManifestPayload b) \<le> MaxRecordSize"
      "length (mf_SupportedTasks mB) \<le> 1024"
    and A: "directory_inv (pm_directory a)" "\<not> manifest_sent (hex_EncodeToString kb) (pm_directory a)"
      "RemoteManifestFor (hex_EncodeToString kb) (pm_directory a) = None"
    and B: "directory_inv (pm_directory b)" "RemoteManifestFor (hex_EncodeToString ka) (pm_directory b) = None"
    and run: "a1 = HandlePeerEvent EA (Some \<lparr>pev_PubKey = pkB, pev_Type = PEER_ONLINE\<rparr>) a"
      "b1 = HandleCustomMessage EB (Some (manifest_message ka (pm_localManifestPayload a))) b"
      "a2 = HandleCustomMessage EA (Some (manifest_message kb (pm_localManifestPayload b))) a1"
      "b2 = HandleCustomMessage EB (Some (manifest_message ka (pm_localManifestPayload a))) b1"
  shows "pm_trace a1 = pm_trace a @ [PmListPeers, PmSend kb (ucast MessageTypeManifest) (pm_localManifestPayload a) True]
    \<and> pm_trace b1 = pm_trace b @ [PmSend ka (ucast MessageTypeManifest) (pm_localManifestPayload b) True]
    \<and> pm_trace a2 = pm_trace a1 @ [PmSend kb (ucast MessageTypeManifest) (pm_localManifestPayload a) True]
    \<and> pm_trace b2 = pm_trace b1
    \<and> ready_with (hex_EncodeToString kb) mB (pm_directory a2)
    \<and> ready_with (hex_EncodeToString ka) mA (pm_directory b2)"
proof -
  have dA: "DecodeManifest (me_tlv EB) (pm_localManifestPayload a) = Inr mA"
    and dB: "DecodeManifest (me_tlv EA) (pm_localManifestPayload b) = Inr mB"
    using tlv_library.manifest_round_trip [OF L] mA mB E by auto
  note a1 = online_sends [OF send(1) k(2) A(1,2) pk, folded run(1)]
  note b1 = manifest_received_ready [OF dA k(1) send(2) B(1), folded run(2)]
  note a2 = manifest_received_ready [OF dB k(2) send(1) a1(1), folded run(3)]
  note b2 = manifest_received_ready [OF dA k(1) send(2) b1(2), folded run(4)]
  show ?thesis using a1 b1 a2 b2 A(3) B(2) by simp
qed

theorem manifest_exchange_completes_witness:
  "\<exists>b. let a1 = HandlePeerEvent sample_messaging_node (Some \<lparr>pev_PubKey = ''02'', pev_Type = PEER_ONLINE\<rparr>) (sample_messaging b);
         b1 = HandleCustomMessage sample_messaging_node (Some (manifest_message [1] b)) (sample_messaging b)
       in ready_with ''02'' sample_peer_manifest
            (pm_directory (HandleCustomMessage sample_messaging_node (Some (manifest_message [2] b)) a1))
        \<and> pm_trace (HandleCustomMessage sample_messaging_node (Some (manifest_message [1] b)) b1) = pm_trace b1"
proof -
  obtain b where b: "EncodeManifest bolt_lib sample_peer_manifest = Inr b" "length b \<le> MaxRecordSize"
    using sample_manifest_fits by blast
  let ?s = "sample_messaging b"
  have p: "EncodeManifest bolt_lib sample_peer_manifest = Inr (pm_localManifestPayload ?s)"
    "length (pm_localManifestPayload ?s) \<le> MaxRecordSize" "length (mf_SupportedTasks sample_peer_manifest) \<le> 1024"
    using b by (simp_all add: sample_fresh sample_peer_manifest_def)
  have k: "hex_EncodeToString [2] = ''02''" "strings_TrimSpace ''02'' = hex_EncodeToString [2]" by code_simp+
  note ex = manifest_exchange_completes [OF bolt.tlv_library_axioms sample_messaging_node_facts(1,1) _ _ k(2) sample_messaging_node_facts(2,2)
      p p sample_fresh(1,2,3) sample_fresh(1,3) refl refl refl refl, of "[1]"]
  show ?thesis
    unfolding Let_def using ex unfolding sample_fresh k(1) by (intro exI [of _ b]) simp
qed

end
