(* ===== verification/Json_Text.thy ===== *)
theory Json_Text
  imports Envconfig
begin

text \<open>
  The text that \<^verbatim>\<open>encoding/json\<close> writes for strings and for thousandths, as the command line
  client uses it, and a reader of string literals. The lemmas show that a literal can be
  read back, whatever follows it: no text of a user can leave the literal it is written in.
\<close>

section \<open>Strings\<close>

abbreviation json_quote_mark :: char where "json_quote_mark \<equiv> CHR 0x22"
abbreviation json_backslash :: char where "json_backslash \<equiv> CHR 0x5C"

text \<open>How many bytes the UTF-8 sequence at the front has; 0 when there is no valid one.\<close>

definition utf8_size :: "bytes \<Rightarrow> nat" where
  "utf8_size bs =
     (case bs of
        [] \<Rightarrow> 0
      | a # r \<Rightarrow>
        if utf8_in 0 0x7F a then 1
        else (case r of
          [] \<Rightarrow> 0
        | b # r2 \<Rightarrow>
          if utf8_in 0xC2 0xDF a then (if utf8_cont b then 2 else 0)
          else (case r2 of
            [] \<Rightarrow> 0
          | c # r3 \<Rightarrow>
            if utf8_in 0xE0 0xE0 a then (if utf8_in 0xA0 0xBF b \<and> utf8_cont c then 3 else 0)
            else if utf8_in 0xED 0xED a then (if utf8_in 0x80 0x9F b \<and> utf8_cont c then 3 else 0)
            else if utf8_in 0xE1 0xEF a then (if utf8_cont b \<and> utf8_cont c then 3 else 0)
            else (case r3 of
              [] \<Rightarrow> 0
            | d # r4 \<Rightarrow>
              if utf8_in 0xF0 0xF0 a then (if utf8_in 0x90 0xBF b \<and> utf8_cont c \<and> utf8_cont d then 4 else 0)
              else if utf8_in 0xF4 0xF4 a then (if utf8_in 0x80 0x8F b \<and> utf8_cont c \<and> utf8_cont d then 4 else 0)
              else if utf8_in 0xF1 0xF3 a then (if utf8_cont b \<and> utf8_cont c \<and> utf8_cont d then 4 else 0)
              else 0))))"

definition json_ascii :: "byte \<Rightarrow> string" where
  "json_ascii b =
     (let n = unat b in
      if n = 34 \<or> n = 92 then [json_backslash, char_of_byte b]
      else if n = 8 then [json_backslash, CHR ''b'']
      else if n = 12 then [json_backslash, CHR ''f'']
      else if n = 10 then [json_backslash, CHR ''n'']
      else if n = 13 then [json_backslash, CHR ''r'']
      else if n = 9 then [json_backslash, CHR ''t'']
      else if n < 32 \<or> n = 38 \<or> n = 60 \<or> n = 62
      then json_backslash # ''u00'' @ [hex_digit (n div 16), hex_digit (n mod 16)]
      else [char_of_byte b])"

function json_escape :: "bytes \<Rightarrow> string" where
  "json_escape [] = []"
| "json_escape (a # r) =
     (if unat a < 0x80 then json_ascii a @ json_escape r
      else
        (let n = utf8_size (a # r) in
         if n = 0 then json_backslash # ''ufffd'' @ json_escape r
         else if take n (a # r) = [0xE2, 0x80, 0xA8] then json_backslash # ''u2028'' @ json_escape (drop n (a # r))
         else if take n (a # r) = [0xE2, 0x80, 0xA9] then json_backslash # ''u2029'' @ json_escape (drop n (a # r))
         else bytes_string (take n (a # r)) @ json_escape (drop n (a # r))))"
  by pat_completeness auto
termination
  by (relation "measure length") (auto simp: Let_def split: if_splits)

definition json_String :: "string \<Rightarrow> string" where
  "json_String s = json_quote_mark # json_escape (string_bytes s) @ [json_quote_mark]"

section \<open>Reading a literal\<close>

text \<open>
  The reference: what stands between the quotation marks of a JSON string, and the text
  after the closing one. The four hexadecimal digits of an escape name a code point of the
  basic plane.
\<close>

definition utf8_encode :: "nat \<Rightarrow> bytes" where
  "utf8_encode n =
     (if n < 0x80 then [word_of_nat n]
      else if n < 0x800 then [word_of_nat (0xC0 + n div 64), word_of_nat (0x80 + n mod 64)]
      else [word_of_nat (0xE0 + n div 4096), word_of_nat (0x80 + n div 64 mod 64), word_of_nat (0x80 + n mod 64)])"

definition json_unescape :: "char \<Rightarrow> char option" where
  "json_unescape c =
     (if c \<in> {json_quote_mark, json_backslash, CHR ''/''} then Some c
      else if c = CHR ''b'' then Some (char_of (8 :: nat))
      else if c = CHR ''f'' then Some (char_of (12 :: nat))
      else if c = CHR ''n'' then Some (char_of (10 :: nat))
      else if c = CHR ''r'' then Some (char_of (13 :: nat))
      else if c = CHR ''t'' then Some (char_of (9 :: nat))
      else None)"

definition json_hex4 :: "char \<Rightarrow> char \<Rightarrow> char \<Rightarrow> char \<Rightarrow> nat option" where
  "json_hex4 a b c d =
     (case (hex_value a, hex_value b, hex_value c, hex_value d) of
        (Some w, Some x, Some y, Some z) \<Rightarrow> Some (4096 * w + 256 * x + 16 * y + z)
      | _ \<Rightarrow> None)"

fun json_read :: "string \<Rightarrow> (string \<times> string) option" where
  "json_read [] = None"
| "json_read (c # r) =
     (if c = json_quote_mark then Some ([], r)
      else if (of_char c :: nat) < 32 then None
      else if c \<noteq> json_backslash then map_option (\<lambda>(s, rest). (c # s, rest)) (json_read r)
      else (case r of
        [] \<Rightarrow> None
      | d # r2 \<Rightarrow>
        if d \<noteq> CHR ''u''
        then (case json_unescape d of
                None \<Rightarrow> None
              | Some x \<Rightarrow> map_option (\<lambda>(s, rest). (x # s, rest)) (json_read r2))
        else (case r2 of
          h1 # h2 # h3 # h4 # r3 \<Rightarrow>
            (case json_hex4 h1 h2 h3 h4 of
               None \<Rightarrow> None
             | Some n \<Rightarrow> map_option (\<lambda>(s, rest). (bytes_string (utf8_encode n) @ s, rest)) (json_read r3))
        | _ \<Rightarrow> None)))"

lemma utf8_size_le: "utf8_size bs \<le> length bs"
  by (simp add: utf8_size_def split: list.splits)

lemma short_list_cases:
  obtains "r = []" | b where "r = [b]" | b c where "r = [b, c]" | b c d r4 where "r = b # c # d # r4"
  by (cases r rule: remdups_adj.cases) (metis neq_Nil_conv)+

definition valid_after :: "bytes \<Rightarrow> nat \<Rightarrow> bool" where
  "valid_after bs n \<longleftrightarrow> 0 < n \<and> utf8_Valid (drop n bs)"

lemma valid_after_simps:
  "valid_after bs 0 = False" "valid_after (a # bs) (Suc 0) = utf8_Valid bs" "valid_after (a # b # bs) 2 = utf8_Valid bs"
  "valid_after (a # b # c # bs) 3 = utf8_Valid bs" "valid_after (a # b # c # d # bs) 4 = utf8_Valid bs"
  by (simp_all add: valid_after_def del: utf8_Valid.simps(2))

lemma utf8_Valid_size: "utf8_Valid (a # r) \<longleftrightarrow> valid_after (a # r) (utf8_size (a # r))"
  unfolding utf8_Valid.simps(2) [of a] utf8_size_def list.case
  by (cases r rule: short_list_cases) (simp_all add: valid_after_simps del: utf8_Valid.simps(2))

definition high_upto :: "bytes \<Rightarrow> nat \<Rightarrow> bool" where
  "high_upto bs n \<longleftrightarrow> list_all (\<lambda>b. 0x80 \<le> unat b) (take n bs)"

lemma high_upto_simps:
  "high_upto bs 0 = True" "high_upto (a # bs) (Suc 0) = (0x80 \<le> unat a)" "high_upto (a # b # bs) 2 \<longleftrightarrow> 0x80 \<le> unat a \<and> 0x80 \<le> unat b"
  "high_upto (a # b # c # bs) 3 \<longleftrightarrow> 0x80 \<le> unat a \<and> 0x80 \<le> unat b \<and> 0x80 \<le> unat c"
  "high_upto (a # b # c # d # bs) 4 \<longleftrightarrow> 0x80 \<le> unat a \<and> 0x80 \<le> unat b \<and> 0x80 \<le> unat c \<and> 0x80 \<le> unat d"
  by (simp_all add: high_upto_def)

lemma utf8_in_high:
  "utf8_in 0x80 0xBF b \<Longrightarrow> 0x80 \<le> unat b" "utf8_in 0xA0 0xBF b \<Longrightarrow> 0x80 \<le> unat b" "utf8_in 0x80 0x9F b \<Longrightarrow> 0x80 \<le> unat b"
  "utf8_in 0x90 0xBF b \<Longrightarrow> 0x80 \<le> unat b" "utf8_in 0x80 0x8F b \<Longrightarrow> 0x80 \<le> unat b"
  by (simp_all add: utf8_in_def)

lemma utf8_size_high: "0x80 \<le> unat a \<Longrightarrow> high_upto (a # r) (utf8_size (a # r))"
  unfolding utf8_size_def list.case
  by (cases r rule: short_list_cases) (simp_all add: high_upto_simps utf8_in_high)

text \<open>One step of the reader over what was written for one character.\<close>

definition reads_as :: "string \<Rightarrow> string \<Rightarrow> bool" where
  "reads_as w s \<longleftrightarrow> (\<forall>t. json_read (w @ t) = map_option (\<lambda>(u, rest). (s @ u, rest)) (json_read t))"

lemma reads_as_Nil: "reads_as [] []"
  by (simp add: reads_as_def option.map_id)

lemma reads_as_append: "reads_as w s \<Longrightarrow> reads_as v u \<Longrightarrow> reads_as (w @ v) (s @ u)"
  by (simp add: reads_as_def option.map_comp comp_def case_prod_unfold)

lemma reads_as_char: "c \<noteq> json_quote_mark \<Longrightarrow> c \<noteq> json_backslash \<Longrightarrow> 32 \<le> (of_char c :: nat) \<Longrightarrow> reads_as [c] [c]"
  by (simp add: reads_as_def)

lemma reads_as_escape: "json_unescape d = Some x \<Longrightarrow> reads_as [json_backslash, d] [x]"
  by (auto simp: reads_as_def json_unescape_def)

lemma reads_as_hex:
  "json_hex4 h1 h2 h3 h4 = Some n \<Longrightarrow> reads_as [json_backslash, CHR ''u'', h1, h2, h3, h4] (bytes_string (utf8_encode n))"
  by (simp add: reads_as_def)

lemma reads_as_high: "list_all (\<lambda>b. 0x80 \<le> unat b) bs \<Longrightarrow> reads_as (bytes_string bs) (bytes_string bs)"
proof (induction bs)
  case Nil
  then show ?case by (simp add: bytes_string_def reads_as_Nil)
next
  case (Cons b bs)
  have "(of_char (char_of_byte b) :: nat) = unat b" using unat_byte_less [of b] by (simp add: char_of_byte_def)
  with Cons.prems have "reads_as [char_of_byte b] [char_of_byte b]" by (intro reads_as_char) auto
  from reads_as_append [OF this Cons.IH] Cons.prems show ?case by (simp add: bytes_string_def)
qed

lemma char_of_literals: "char_of (34 :: nat) = json_quote_mark" "char_of (92 :: nat) = json_backslash"
  by code_simp+

lemma json_unescape_pairs:
  "json_unescape json_quote_mark = Some json_quote_mark" "json_unescape json_backslash = Some json_backslash"
  "json_unescape (CHR ''b'') = Some (char_of (8 :: nat))" "json_unescape (CHR ''f'') = Some (char_of (12 :: nat))"
  "json_unescape (CHR ''n'') = Some (char_of (10 :: nat))" "json_unescape (CHR ''r'') = Some (char_of (13 :: nat))"
  "json_unescape (CHR ''t'') = Some (char_of (9 :: nat))"
  by (simp_all add: json_unescape_def)

lemmas reads_as_pairs = json_unescape_pairs [THEN reads_as_escape]

lemma reads_as_ascii: "unat b < 0x80 \<Longrightarrow> reads_as (json_ascii b) [char_of_byte b]"
proof -
  assume b: "unat b < 0x80"
  have n: "(of_char (char_of_byte b) :: nat) = unat b" using b by (simp add: char_of_byte_def)
  have h: "json_hex4 (CHR ''0'') (CHR ''0'') (hex_digit (unat b div 16)) (hex_digit (unat b mod 16)) = Some (unat b)"
    using b by (simp add: json_hex4_def hex_value_hex_digit hex_value_def [of "CHR ''0''"])
  have e: "bytes_string (utf8_encode (unat b)) = [char_of_byte b]" using b by (simp add: utf8_encode_def bytes_string_def)
  have x: "char_of_byte b = char_of (unat b)" by (simp add: char_of_byte_def)
  have c: "reads_as [char_of_byte b] [char_of_byte b]" if "32 \<le> unat b" "unat b \<noteq> 34" "unat b \<noteq> 92"
    using that n char_of_literals by (intro reads_as_char) auto
  show ?thesis
    using reads_as_hex [OF h] e c reads_as_pairs
    by (simp add: json_ascii_def Let_def x char_of_literals)
qed

lemma reads_as_separators:
  "reads_as (json_backslash # ''u2028'') (bytes_string [0xE2, 0x80, 0xA8])"
  "reads_as (json_backslash # ''u2029'') (bytes_string [0xE2, 0x80, 0xA9])"
proof -
  have "json_hex4 CHR ''2'' CHR ''0'' CHR ''2'' CHR ''8'' = Some 0x2028" "json_hex4 CHR ''2'' CHR ''0'' CHR ''2'' CHR ''9'' = Some 0x2029"
    by (simp_all add: json_hex4_def hex_value_def)
  from this [THEN reads_as_hex] show "reads_as (json_backslash # ''u2028'') (bytes_string [0xE2, 0x80, 0xA8])"
    "reads_as (json_backslash # ''u2029'') (bytes_string [0xE2, 0x80, 0xA9])" by (simp_all add: utf8_encode_def)
qed

lemma json_escape_reads: "utf8_Valid bs \<Longrightarrow> reads_as (json_escape bs) (bytes_string bs)"
proof (induction bs rule: json_escape.induct)
  case 1
  then show ?case by (simp add: bytes_string_def reads_as_Nil)
next
  case (2 a r)
  let ?n = "utf8_size (a # r)" and ?x = "take (utf8_size (a # r)) (a # r)" and ?y = "drop (utf8_size (a # r)) (a # r)"
  have v: "0 < ?n" "utf8_Valid ?y" using "2.prems" by (simp_all only: utf8_Valid_size valid_after_def)
  show ?case
  proof (cases "unat a < 0x80")
    case True
    then have "?n = 1" by (simp add: utf8_size_def utf8_in_def)
    with v "2.IH"(1) [OF True] True show ?thesis
      using reads_as_append [OF reads_as_ascii [OF True], of "json_escape r" "bytes_string r"] by (simp add: bytes_string_def)
  next
    case False
    have ih: "reads_as (json_escape ?y) (bytes_string ?y)" if "take ?n (a # r) = x" for x
      using "2.IH"(2-) False v by (metis (full_types) not_gr_zero)
    have x: "reads_as (bytes_string ?x) (bytes_string ?x)"
      using utf8_size_high [of a r] False by (intro reads_as_high) (simp add: high_upto_def)
    have "reads_as w (bytes_string ?x) \<Longrightarrow> reads_as (w @ json_escape ?y) (bytes_string (a # r))" for w
      using reads_as_append [OF _ ih [OF refl]] by (metis append_take_drop_id bytes_string_def map_append)
    from this [OF x] this [of "json_backslash # ''u2028''"] this [of "json_backslash # ''u2029''"] reads_as_separators False v(1)
    show ?thesis by (auto simp: Let_def simp del: take_Cons_numeral)
  qed
qed

text \<open>A literal reads back as the string it was written for, whatever text follows it.\<close>

fun json_literal :: "string \<Rightarrow> (string \<times> string) option" where
  "json_literal [] = None"
| "json_literal (c # r) = (if c = json_quote_mark then json_read r else None)"

lemma json_String_reads: "utf8_ValidString s \<Longrightarrow> json_literal (json_String s @ rest) = Some (s, rest)"
  using json_escape_reads [of "string_bytes s"] by (simp add: json_String_def utf8_ValidString_def reads_as_def)

section \<open>Thousandths\<close>

text \<open>
  A number of thousandths below $2^{32}$ has at most ten digits, so the shortest decimal
  that denotes the same \<^verbatim>\<open>float64\<close> is the number itself, without trailing zeros.
\<close>

definition digits3 :: "nat \<Rightarrow> string" where
  "digits3 n = map (\<lambda>d. char_of (48 + d mod 10)) [n div 100, n div 10, n]"

definition json_milli :: "nat \<Rightarrow> string" where
  "json_milli m =
     show_nat (m div 1000)
     @ (if m mod 1000 = 0 then [] else CHR ''.'' # rev (dropWhile (\<lambda>c. c = CHR ''0'') (rev (digits3 (m mod 1000)))))"

end
