(* ===== verification/Grpc_Service.thy ===== *)
theory Grpc_Service
  imports Tasks Lightning Requester_Wait Requester_Job_Store Chunking
begin

text \<open>
  The requester's service, \<^verbatim>\<open>go-lcpd/internal/grpcservice/lcpd/service.go\<close> with the error paths of
  \<^verbatim>\<open>observability.go\<close>. The state holds the peer directory, the requester's job store, the
  waiter and the trace of what the service did to the outside (messages, payments, items
  of a response stream). The environment holds the outside: the TLV and JSON packages, the
  process environment, the request validator of \<^verbatim>\<open>protovalidate\<close>, the random ids, the outcome of
  the \<open>n\<close>-th send and payment, the Lightning client and the state of the request's context
  at the \<open>n\<close>-th effect. An RPC that blocks in the waiter is cut there, as the waiter's own
  calls are: one definition up to the wait and one from its outcome on. Logging is left
  out.
\<close>

section \<open>Statuses\<close>

datatype grpc_code =
    CodeInvalidArgument | CodeNotFound | CodeFailedPrecondition | CodeResourceExhausted
  | CodeUnavailable | CodeInternal | CodeDeadlineExceeded | CodeCanceled

record grpc_status =
  gs_Code :: grpc_code
  gs_Message :: string

type_synonym 'a rpc = "grpc_status + 'a"

definition status_Error :: "grpc_code \<Rightarrow> string \<Rightarrow> grpc_status" where
  "status_Error c msg = \<lparr>gs_Code = c, gs_Message = msg\<rparr>"

text \<open>The idiom \<^verbatim>\<open>if err != nil { return status.Error(...) }\<close>.\<close>

fun orStatus :: "'a res \<Rightarrow> (goerror \<Rightarrow> grpc_status) \<Rightarrow> ('a \<Rightarrow> 'b rpc) \<Rightarrow> 'b rpc" where
  "orStatus (Inl err) g f = Inl (g err)"
| "orStatus (Inr x) g f = f x"

lemma orStatus_Inr_iff [res_simps]: "orStatus x g f = Inr y \<longleftrightarrow> (\<exists>v. x = Inr v \<and> f v = Inr y)"
  by (cases x) auto

datatype ctx_state = CtxActive | CtxDeadlineExceeded | CtxCanceled

definition ErrWaitCancelled :: goerror where
  "ErrWaitCancelled = sentinel ''ErrWaitCancelled'' ''wait cancelled or deadline exceeded''"

definition grpcStatusFromWaiterError :: "ctx_state \<Rightarrow> goerror \<Rightarrow> grpc_status" where
  "grpcStatusFromWaiterError ctx err =
     (if errors_Is err ''ErrWaitCancelled'' then
        (case ctx of
           CtxDeadlineExceeded \<Rightarrow> status_Error CodeDeadlineExceeded ''deadline exceeded waiting for peer response''
         | CtxCanceled \<Rightarrow> status_Error CodeCanceled ''request cancelled''
         | CtxActive \<Rightarrow> status_Error CodeDeadlineExceeded ''wait cancelled'')
      else if errors_Is err ''ErrAlreadyWaitingQuote'' \<or> errors_Is err ''ErrAlreadyWaitingResult''
      then status_Error CodeFailedPrecondition ''another request is already waiting for this job''
      else if errors_Is err ''waiter_ErrPeerIDRequired'' then status_Error CodeInvalidArgument (error_text err)
      else status_Error CodeInternal (error_text err))"

definition grpcStatusFromJobStoreError :: "goerror \<Rightarrow> grpc_status" where
  "grpcStatusFromJobStoreError err =
     (if errors_Is err ''ErrNotFound'' then status_Error CodeNotFound ''job not found''
      else if errors_Is err ''ErrExpired'' then status_Error CodeFailedPrecondition ''quote expired''
      else status_Error CodeInternal ''job store error'')"

definition grpcCodeFromLCPErrorCode :: "u16 \<Rightarrow> grpc_code" where
  "grpcCodeFromLCPErrorCode code =
     (if code = ErrorCodePayloadTooLarge \<or> code = ErrorCodeRateLimited then CodeResourceExhausted
      else if code \<in> {ErrorCodeUnsupportedVersion, ErrorCodeUnsupportedTask, ErrorCodeUnsupportedParams,
                      ErrorCodeUnsupportedEncoding, ErrorCodeInvalidState, ErrorCodeChunkOutOfOrder,
                      ErrorCodeChecksumMismatch, ErrorCodeQuoteExpired, ErrorCodePaymentRequired,
                      ErrorCodePaymentInvalid}
      then CodeFailedPrecondition
      else CodeInternal)"

definition grpcStatusFromLCPError :: "lcp_error \<Rightarrow> grpc_status" where
  "grpcStatusFromLCPError errMsg =
     (let msg = ''lcp_error code='' @ show_nat (unat (er_Code errMsg)) in
      status_Error (grpcCodeFromLCPErrorCode (er_Code errMsg))
        (case er_Message errMsg of
           None \<Rightarrow> msg
         | Some m \<Rightarrow> if strings_TrimSpace m = [] then msg else msg @ '': '' @ strings_TrimSpace m))"

definition grpcStatusFromLightningError :: "ctx_state \<Rightarrow> goerror \<Rightarrow> grpc_status" where
  "grpcStatusFromLightningError ctx err =
     (if errors_Is err ''ErrNotConfigured'' then status_Error CodeUnavailable ''lightning rpc not configured''
      else (case ctx of
        CtxDeadlineExceeded \<Rightarrow> status_Error CodeDeadlineExceeded ''deadline exceeded contacting lightning node''
      | CtxCanceled \<Rightarrow> status_Error CodeCanceled ''request cancelled''
      | CtxActive \<Rightarrow>
          if errors_Is err ''ErrPaymentFailed'' \<or> errors_Is err ''ErrInvalidRequest''
          then status_Error CodeFailedPrecondition (error_text err)
          else status_Error CodeUnavailable (error_text err)))"

definition grpcStatusFromPeerSendError :: "ctx_state \<Rightarrow> goerror \<Rightarrow> grpc_status" where
  "grpcStatusFromPeerSendError ctx err =
     (case ctx of
        CtxDeadlineExceeded \<Rightarrow> status_Error CodeDeadlineExceeded ''deadline exceeded sending peer message''
      | CtxCanceled \<Rightarrow> status_Error CodeCanceled ''request cancelled''
      | CtxActive \<Rightarrow> status_Error CodeUnavailable (error_text err))"

section \<open>Requests, state and environment\<close>

record request_quote_request =
  rq_PeerId :: string
  rq_Task :: "proto_task option"

record accept_and_execute_request =
  ae_PeerId :: string
  ae_JobId :: bytes
  ae_PayInvoice :: bool

record cancel_job_request =
  cj_PeerId :: string
  cj_JobId :: bytes
  cj_Reason :: string

datatype service_request =
    ListLCPPeersRequest
  | GetLocalInfoRequest
  | RequestQuoteRequest request_quote_request
  | AcceptAndExecuteRequest accept_and_execute_request
  | AcceptAndExecuteStreamRequest accept_and_execute_request
  | CancelJobRequest cancel_job_request

datatype proto_status = STATUS_UNSPECIFIED | STATUS_OK | STATUS_FAILED | STATUS_CANCELLED

record proto_result =
  pr_Status :: proto_status
  pr_Result :: bytes
  pr_ResultHash :: bytes
  pr_ResultLen :: u64
  pr_ContentType :: string
  pr_ContentEncoding :: string
  pr_Message :: string

text \<open>The items of the response stream of \<^verbatim>\<open>AcceptAndExecuteStream\<close>.\<close>

datatype stream_item =
    ItemBegin string string
  | ItemChunk bytes
  | ItemEnd bytes u64
  | ItemResult proto_result

datatype service_event =
    SvSend string u16 bytes bool
  | SvPay string hash32 string "hash32 res"
  | SvItem stream_item bool

text \<open>
  A call that blocks in the waiter, with what it still needs: \<open>sr_quoteCalls\<close> and
  \<open>sr_resultCalls\<close> hold these calls by the channel they wait on, \<open>sr_streamCalls\<close> the streaming
  calls by the channel of their subscription, with the state of their waiting goroutine.
\<close>

record quote_call =
  qc_PeerID :: string
  qc_JobID :: hash32
  qc_Task :: "proto_task option"
  qc_WireTask :: quote_request_task
  qc_Input :: input_stream

record stream_call =
  xc_Key :: wait_key
  xc_Waited :: "result_outcome wait_start"

record requester =
  sr_peers :: directory
  sr_jobs :: "proto_task rjob_store"
  sr_waiter :: waiter
  sr_quoteCalls :: "(nat \<times> quote_call) list"
  sr_resultCalls :: "(nat \<times> wait_key) list"
  sr_streamCalls :: "(nat \<times> stream_call) list"
  sr_ids :: nat
  sr_trace :: "service_event list"

datatype 'a rpc_outcome =
    Returned "'a rpc"
  | Blocked nat

record service_env =
  sv_tlv :: tlv_lib
  sv_json :: task_json
  sv_os :: os_env
  sv_localManifest :: manifest
  sv_validate :: "service_request \<Rightarrow> goerror option"
  sv_messenger :: bool
  sv_lightning :: "lightning_client option"
  sv_sendPaymentV2 :: "nat \<Rightarrow> string \<Rightarrow> (payment option list \<times> goerror option) res"
  sv_newJobID :: "nat \<Rightarrow> hash32 res"
  sv_newMsgID :: "nat \<Rightarrow> hash32 res"
  sv_newStreamID :: "nat \<Rightarrow> hash32 res"
  sv_send :: "nat \<Rightarrow> string \<Rightarrow> u16 \<Rightarrow> bytes \<Rightarrow> goerror option"
  sv_sendItem :: "nat \<Rightarrow> stream_item \<Rightarrow> grpc_status option"
  sv_ctx :: "nat \<Rightarrow> ctx_state"

definition service_validate :: "service_env \<Rightarrow> service_request \<Rightarrow> grpc_status option" where
  "service_validate E req =
     (case sv_validate E req of None \<Rightarrow> None | Some err \<Rightarrow> Some (status_Error CodeInvalidArgument (error_text err)))"

definition nextID :: "(nat \<Rightarrow> hash32 res) \<Rightarrow> requester \<Rightarrow> hash32 res \<times> requester" where
  "nextID gen s = (gen (sr_ids s), s\<lparr>sr_ids := Suc (sr_ids s)\<rparr>)"

definition ctxNow :: "service_env \<Rightarrow> requester \<Rightarrow> ctx_state" where
  "ctxNow E s = sv_ctx E (length (sr_trace s))"

definition service_Send :: "service_env \<Rightarrow> string \<Rightarrow> u16 \<Rightarrow> bytes \<Rightarrow> requester \<Rightarrow> grpc_status option \<times> requester" where
  "service_Send E peer msgType payload s =
     (let err = sv_send E (length (sr_trace s)) peer msgType payload;
          s1 = s\<lparr>sr_trace := sr_trace s @ [SvSend peer msgType payload (err = None)]\<rparr>
      in (map_option (grpcStatusFromPeerSendError (ctxNow E s1)) err, s1))"

definition markJobState :: "gotime \<Rightarrow> string \<Rightarrow> hash32 \<Rightarrow> rjob_state \<Rightarrow> requester \<Rightarrow> requester" where
  "markJobState now peerID jobID state s = s\<lparr>sr_jobs := snd (MarkState now peerID jobID state (sr_jobs s))\<rparr>"

definition toJobID :: "bytes \<Rightarrow> hash32 res" where
  "toJobID b = (if length b \<noteq> 32 then Inl (errors_New (''job_id must be 32 bytes, got '' @ show_nat (length b)))
     else Inr (bytes_hash b))"

definition toHash32 :: "bytes \<Rightarrow> hash32 res" where
  "toHash32 b = (if length b \<noteq> 32 then Inl (errors_New (''hash must be 32 bytes, got '' @ show_nat (length b)))
     else Inr (bytes_hash b))"

text \<open>A time stamp message is kept as the time it stands for.\<close>

definition timestampFromUnixSeconds :: "u64 \<Rightarrow> gotime res" where
  "timestampFromUnixSeconds sec =
     (if 9223372036854775807 < sec
      then Inl (errors_New (''unix seconds overflows int64: '' @ show_nat (unat sec)))
      else Inr (time_of_unix (uint sec)))"

definition newEnvelopeExpiry :: "gotime \<Rightarrow> u64 res" where
  "newEnvelopeExpiry now =
     (let unix = time_Unix now in
      if unix < 0 then Inl (errors_New (''clock returned negative unix time: -'' @ show_nat (nat (- unix))))
      else
        (let sec = word_of_int unix :: u64 in
         if - 1 - 300 < sec then Inl (errors_New (''envelope expiry overflows uint64: '' @ show_nat (unat sec)))
         else Inr (sec + 300)))"

definition requireReadyPeer :: "string \<Rightarrow> requester \<Rightarrow> manifest rpc" where
  "requireReadyPeer peerID s =
     (case GetPeer peerID (sr_peers s) of
        None \<Rightarrow> Inl (status_Error CodeNotFound ''peer not found'')
      | Some p \<Rightarrow>
          if \<not> peer_Connected p \<or> \<not> peer_CustomMsgEnabled p
          then Inl (status_Error CodeFailedPrecondition ''peer is not connected with custom messages enabled'')
          else (case peer_RemoteManifest p of
              None \<Rightarrow> Inl (status_Error CodeFailedPrecondition ''peer is not ready for lcp'')
            | Some m \<Rightarrow>
                if \<not> peer_LCPReady p then Inl (status_Error CodeFailedPrecondition ''peer is not ready for lcp'')
                else if mf_ProtocolVersion m \<noteq> ProtocolVersionV02
                then Inl (status_Error CodeFailedPrecondition ''peer protocol_version mismatch'')
                else Inr m))"

definition defaultLocalManifest :: manifest where
  "defaultLocalManifest = \<lparr>mf_ProtocolVersion = ProtocolVersionV02, mf_MaxPayloadBytes = 16384,
     mf_MaxStreamBytes = defaultMaxStreamBytes, mf_MaxJobBytes = defaultMaxJobBytes, mf_MaxInflightJobs = None,
     mf_SupportedTasks = []\<rparr>"

section \<open>Listing\<close>

record proto_template =
  tp_Kind :: string
  tp_Model :: string

record proto_manifest =
  pm_ProtocolVersion :: u32
  pm_MaxPayloadBytes :: u32
  pm_MaxStreamBytes :: u64
  pm_MaxJobBytes :: u64
  pm_MaxInflightJobs :: u32
  pm_SupportedTasks :: "proto_template list"

record proto_peer =
  pp_PeerId :: string
  pp_Address :: string
  pp_RemoteManifest :: proto_manifest

definition toProtoTemplate :: "tlv_lib \<Rightarrow> task_template \<Rightarrow> proto_template list" where
  "toProtoTemplate L tmpl =
     (if tt_TaskKind tmpl = taskKindOpenAIChatCompletionsV1
      then (case tt_ParamsBytes tmpl of
              None \<Rightarrow> []
            | Some b \<Rightarrow> (case DecodeOpenAIChatCompletionsV1Params L b of
                  Inl err \<Rightarrow> []
                | Inr params \<Rightarrow> [\<lparr>tp_Kind = taskKindOpenAIChatCompletionsV1, tp_Model = cp_Model params\<rparr>]))
      else if tt_TaskKind tmpl = taskKindOpenAIResponsesV1
      then (case tt_ParamsBytes tmpl of
              None \<Rightarrow> []
            | Some b \<Rightarrow> (case DecodeOpenAIResponsesV1Params L b of
                  Inl err \<Rightarrow> []
                | Inr params \<Rightarrow> [\<lparr>tp_Kind = taskKindOpenAIResponsesV1, tp_Model = rp_Model params\<rparr>]))
      else [])"

definition toProtoManifest :: "tlv_lib \<Rightarrow> manifest \<Rightarrow> proto_manifest" where
  "toProtoManifest L m =
     \<lparr>pm_ProtocolVersion = ucast (mf_ProtocolVersion m), pm_MaxPayloadBytes = mf_MaxPayloadBytes m,
      pm_MaxStreamBytes = mf_MaxStreamBytes m, pm_MaxJobBytes = mf_MaxJobBytes m,
      pm_MaxInflightJobs = (case mf_MaxInflightJobs m of None \<Rightarrow> 0 | Some n \<Rightarrow> ucast n),
      pm_SupportedTasks = concat (map (toProtoTemplate L) (mf_SupportedTasks m))\<rparr>"

definition requestRequired :: grpc_status where
  "requestRequired = status_Error CodeInvalidArgument ''request is required''"

definition service_ListLCPPeers :: "service_env \<Rightarrow> bool \<Rightarrow> requester \<Rightarrow> proto_peer list rpc" where
  "service_ListLCPPeers E present s =
     (if \<not> present then Inl requestRequired
      else (case service_validate E ListLCPPeersRequest of
        Some st \<Rightarrow> Inl st
      | None \<Rightarrow> Inr (map (\<lambda>p. \<lparr>pp_PeerId = lp_PeerID p, pp_Address = lp_RemoteAddr p,
                  pp_RemoteManifest = toProtoManifest (sv_tlv E) (lp_RemoteManifest p)\<rparr>) (ListLCPPeers (sr_peers s)))))"

definition GetLocalInfo :: "service_env \<Rightarrow> bool \<Rightarrow> requester \<Rightarrow> (string \<times> proto_manifest) rpc" where
  "GetLocalInfo E present s =
     (if \<not> present then Inl requestRequired
      else (case service_validate E GetLocalInfoRequest of
        Some st \<Rightarrow> Inl st
      | None \<Rightarrow> (case sv_lightning E of
          None \<Rightarrow> Inl (status_Error CodeUnavailable ''lightning rpc not configured'')
        | Some ln \<Rightarrow> (case lightning_GetInfo ln of
            Inl err \<Rightarrow> Inl (grpcStatusFromLightningError (ctxNow E s) err)
          | Inr nodeID \<Rightarrow> Inr (nodeID, toProtoManifest (sv_tlv E) (sv_localManifest E))))))"

section \<open>Sending the input\<close>

definition serviceEnvelope :: "hash32 \<Rightarrow> hash32 \<Rightarrow> u64 \<Rightarrow> job_envelope" where
  "serviceEnvelope jobID msgID expiry =
     \<lparr>env_ProtocolVersion = ProtocolVersionV02, env_JobID = jobID, env_MsgID = msgID, env_Expiry = expiry\<rparr>"

definition msgIDFailed :: grpc_status where
  "msgIDFailed = status_Error CodeInternal ''generate msg_id failed''"

definition invalidArgument :: "goerror \<Rightarrow> grpc_status" where
  "invalidArgument err = status_Error CodeInvalidArgument (error_text err)"

definition sendInputStreamBegin ::
    "service_env \<Rightarrow> string \<Rightarrow> hash32 \<Rightarrow> u64 \<Rightarrow> input_stream \<Rightarrow> hash32 \<Rightarrow> u64 \<Rightarrow> hash32 \<Rightarrow> u32
      \<Rightarrow> requester \<Rightarrow> grpc_status option \<times> requester" where
  "sendInputStreamBegin E peerID jobID expiry inp streamID totalLen inputHash remoteMaxPayload s =
     (case nextID (sv_newMsgID E) s of
        (Inl err, s1) \<Rightarrow> (Some msgIDFailed, s1)
      | (Inr msgID, s1) \<Rightarrow>
          (case EncodeStreamBegin (sv_tlv E)
                  \<lparr>sb_Envelope = serviceEnvelope jobID msgID expiry, sb_StreamID = streamID, sb_Kind = StreamKindInput,
                   sb_TotalLen = Some totalLen, sb_SHA256 = Some inputHash,
                   sb_ContentType = in_ContentType inp, sb_ContentEncoding = in_ContentEncoding inp\<rparr> of
             Inl err \<Rightarrow> (Some (invalidArgument err), s1)
           | Inr payload \<Rightarrow>
               if unat remoteMaxPayload < length payload
               then (Some (status_Error CodeResourceExhausted ''input stream_begin exceeds peer max_payload_bytes''), s1)
               else service_Send E peerID MessageTypeStreamBegin payload s1))"

definition encodeFittingInputStreamChunk ::
    "tlv_lib \<Rightarrow> hash32 \<Rightarrow> u64 \<Rightarrow> hash32 \<Rightarrow> u32 \<Rightarrow> u32 \<Rightarrow> bytes \<Rightarrow> (bytes \<times> nat) rpc" where
  "encodeFittingInputStreamChunk L jobID expiry streamID remoteMaxPayload seq data =
     fitting_length
       (\<lambda>n. orStatus (encodeChunk L (serviceEnvelope jobID 0 expiry) streamID seq (take n data)) invalidArgument Inr)
       remoteMaxPayload
       (status_Error CodeResourceExhausted ''cannot fit input stream_chunk under peer max_payload_bytes'')
       (min (length data) (unat remoteMaxPayload))"

lemma input_chunk_sound:
  assumes "encodeFittingInputStreamChunk L j x sid m seq data = Inr (p, k)"
  shows "orStatus (encodeChunk L (serviceEnvelope j 0 x) sid seq (take k data)) invalidArgument Inr = Inr p \<and> length p \<le> unat m"
    and "data \<noteq> [] \<Longrightarrow> m \<noteq> 0 \<Longrightarrow> 0 < k \<and> k \<le> length data"
  using fitting_length_sound [OF assms [unfolded encodeFittingInputStreamChunk_def]] by (auto simp: unat_gt_0)

text \<open>
  The loop over the data from the sequence number \<open>seq\<close> on. It ends because a fitting chunk is
  not empty when the limit is positive. \<^verbatim>\<open>sendInputStream\<close> refuses the limit 0 before, under which
  only a payload of no bytes would fit; that limit has a branch of its own here, never reached.
\<close>

function inputChunks_from ::
    "service_env \<Rightarrow> string \<Rightarrow> hash32 \<Rightarrow> u64 \<Rightarrow> hash32 \<Rightarrow> u32 \<Rightarrow> u32 \<Rightarrow> bytes \<Rightarrow> requester \<Rightarrow> grpc_status option \<times> requester" where
  "inputChunks_from E peerID jobID expiry streamID remoteMaxPayload seq data s =
     (if data = [] then (None, s)
      else (case encodeFittingInputStreamChunk (sv_tlv E) jobID expiry streamID remoteMaxPayload seq data of
        Inl err \<Rightarrow> (Some err, s)
      | Inr (payload, chunkLen) \<Rightarrow>
          if unat remoteMaxPayload = 0 then (Some (status_Error CodeInternal ''zero max_payload_bytes''), s)
          else (case service_Send E peerID MessageTypeStreamChunk payload s of
            (Some err, s1) \<Rightarrow> (Some err, s1)
          | (None, s1) \<Rightarrow>
              inputChunks_from E peerID jobID expiry streamID remoteMaxPayload (seq + 1) (drop chunkLen data) s1)))"
  by pat_completeness auto

termination
  by (relation "measure (\<lambda>(E, peerID, jobID, expiry, streamID, m, seq, data, s). length data)")
    (auto dest!: input_chunk_sound(2))

declare inputChunks_from.simps [simp del]

interpretation input_chunks: chunk_sender
    "\<lambda>seq d. orStatus (encodeChunk (sv_tlv E) (serviceEnvelope j 0 x) sid seq d) invalidArgument Inr"
    "encodeFittingInputStreamChunk (sv_tlv E) j x sid m" "unat m" "status_Error CodeInternal ''zero max_payload_bytes''"
    "service_Send E p MessageTypeStreamChunk" "inputChunks_from E p j x sid m" for E p j x sid m
  by unfold_locales (use input_chunk_sound in \<open>auto simp: unat_gt_0 inputChunks_from.simps\<close>)

definition sendInputStreamChunks ::
    "service_env \<Rightarrow> string \<Rightarrow> hash32 \<Rightarrow> u64 \<Rightarrow> hash32 \<Rightarrow> bytes \<Rightarrow> u32 \<Rightarrow> requester \<Rightarrow> grpc_status option \<times> requester" where
  "sendInputStreamChunks E peerID jobID expiry streamID data remoteMaxPayload s =
     inputChunks_from E peerID jobID expiry streamID remoteMaxPayload 0 data s"

definition sendInputStreamEnd ::
    "service_env \<Rightarrow> string \<Rightarrow> hash32 \<Rightarrow> u64 \<Rightarrow> hash32 \<Rightarrow> u64 \<Rightarrow> hash32 \<Rightarrow> u32
      \<Rightarrow> requester \<Rightarrow> grpc_status option \<times> requester" where
  "sendInputStreamEnd E peerID jobID expiry streamID totalLen inputHash remoteMaxPayload s =
     (case nextID (sv_newMsgID E) s of
        (Inl err, s1) \<Rightarrow> (Some msgIDFailed, s1)
      | (Inr msgID, s1) \<Rightarrow>
          (case EncodeStreamEnd (sv_tlv E)
                  \<lparr>se_Envelope = serviceEnvelope jobID msgID expiry, se_StreamID = streamID, se_TotalLen = totalLen,
                   se_SHA256 = inputHash\<rparr> of
             Inl err \<Rightarrow> (Some (invalidArgument err), s1)
           | Inr payload \<Rightarrow>
               if unat remoteMaxPayload < length payload
               then (Some (status_Error CodeResourceExhausted ''input stream_end exceeds peer max_payload_bytes''), s1)
               else service_Send E peerID MessageTypeStreamEnd payload s1))"

definition sendInputStream ::
    "service_env \<Rightarrow> string \<Rightarrow> hash32 \<Rightarrow> u64 \<Rightarrow> input_stream \<Rightarrow> manifest \<Rightarrow> requester \<Rightarrow> grpc_status option \<times> requester" where
  "sendInputStream E peerID jobID expiry inp remoteManifest s =
     (if \<not> sv_messenger E then (Some (status_Error CodeUnavailable ''peer messaging not configured''), s)
      else
        (let remoteMaxPayload = mf_MaxPayloadBytes remoteManifest;
             inputBytes = in_DecodedBytes inp;
             totalLen = word_of_nat (length inputBytes);
             inputHash = sha256 inputBytes
         in if remoteMaxPayload = 0 then (Some (status_Error CodeFailedPrecondition ''peer max_payload_bytes is zero''), s)
            else (case nextID (sv_newStreamID E) s of
              (Inl err, s1) \<Rightarrow> (Some (status_Error CodeInternal ''generate stream_id failed''), s1)
            | (Inr streamID, s1) \<Rightarrow>
                (case sendInputStreamBegin E peerID jobID expiry inp streamID totalLen inputHash remoteMaxPayload s1 of
                   (Some st, s2) \<Rightarrow> (Some st, s2)
                 | (None, s2) \<Rightarrow>
                     (case sendInputStreamChunks E peerID jobID expiry streamID inputBytes remoteMaxPayload s2 of
                        (Some st, s3) \<Rightarrow> (Some st, s3)
                      | (None, s3) \<Rightarrow>
                          sendInputStreamEnd E peerID jobID expiry streamID totalLen inputHash remoteMaxPayload s3)))))"

section \<open>Quotes\<close>

definition validateQuoteRequestRemoteLimits :: "manifest \<Rightarrow> bytes \<Rightarrow> input_stream \<Rightarrow> grpc_status option" where
  "validateQuoteRequestRemoteLimits remoteManifest payload inp =
     (let inputLen = word_of_nat (length (in_DecodedBytes inp)) in
      if mf_MaxPayloadBytes remoteManifest \<noteq> 0 \<and> unat (mf_MaxPayloadBytes remoteManifest) < length payload
      then Some (status_Error CodeResourceExhausted ''quote_request payload exceeds peer max_payload_bytes'')
      else if mf_MaxStreamBytes remoteManifest < inputLen \<or> mf_MaxJobBytes remoteManifest < inputLen
      then Some (status_Error CodeResourceExhausted ''input stream exceeds peer max_stream_bytes/max_job_bytes'')
      else None)"

definition buildQuoteRequestPayload ::
    "service_env \<Rightarrow> gotime \<Rightarrow> proto_task option \<Rightarrow> requester
      \<Rightarrow> (hash32 \<times> u64 \<times> quote_request_task \<times> input_stream \<times> bytes) rpc \<times> requester" where
  "buildQuoteRequestPayload E now task s =
     (case nextID (sv_newJobID E) s of
        (Inl err, s1) \<Rightarrow> (Inl (status_Error CodeInternal ''generate job_id failed''), s1)
      | (Inr jobID, s1) \<Rightarrow> (case nextID (sv_newMsgID E) s1 of
          (Inl err, s2) \<Rightarrow> (Inl msgIDFailed, s2)
        | (Inr msgID, s2) \<Rightarrow>
            (orStatus (newEnvelopeExpiry now) (\<lambda>err. status_Error CodeInternal ''generate envelope expiry failed'') (\<lambda>expiry.
             orStatus (ToWireQuoteRequestTask (sv_tlv E) (sv_json E) task) invalidArgument (\<lambda>wireTask.
             orStatus (ToWireInputStream (sv_json E) task) invalidArgument (\<lambda>inp.
             orStatus (EncodeQuoteRequest (sv_tlv E)
                     \<lparr>qr_Envelope = serviceEnvelope jobID msgID expiry, qr_TaskKind = qt_TaskKind wireTask,
                      qr_ParamsBytes = Some (qt_ParamsBytes wireTask)\<rparr>) invalidArgument (\<lambda>payload.
             Inr (jobID, expiry, wireTask, inp, payload))))), s2)))"

definition termsFromQuoteResponse :: "tlv_lib \<Rightarrow> quote_request_task \<Rightarrow> input_stream \<Rightarrow> quote_response \<Rightarrow> proto_terms res" where
  "termsFromQuoteResponse L wireTask inp resp =
     bindE (ComputeTermsHash L
        \<lparr>ProtocolVersion = env_ProtocolVersion (qs_Envelope resp), JobID = env_JobID (qs_Envelope resp),
         PriceMsat = qs_PriceMsat resp, QuoteExpiry = qs_QuoteExpiry resp\<rparr>
        \<lparr>TaskKind = qt_TaskKind wireTask, Input = in_DecodedBytes inp, InputContentType = in_ContentType inp,
         InputContentEncoding = in_ContentEncoding inp, Params = Some (qt_ParamsBytes wireTask)\<rparr>) (\<lambda>wantHash.
     if wantHash \<noteq> qs_TermsHash resp then Inl (errors_New ''terms_hash mismatch'')
     else bindE (timestampFromUnixSeconds (qs_QuoteExpiry resp)) (\<lambda>ts.
       Inr \<lparr>pt_ProtocolVersion = ucast (env_ProtocolVersion (qs_Envelope resp)),
            pt_JobId = hash_bytes (env_JobID (qs_Envelope resp)), pt_PriceMsat = qs_PriceMsat resp,
            pt_QuoteExpiry = Some ts, pt_TermsHash = hash_bytes (qs_TermsHash resp),
            pt_PaymentRequest = qs_PaymentRequest resp\<rparr>))"

text \<open>The part of \<^verbatim>\<open>RequestQuote\<close> after the wait.\<close>

definition RequestQuote_outcome ::
    "service_env \<Rightarrow> gotime \<Rightarrow> gotime \<Rightarrow> quote_call \<Rightarrow> quote_outcome \<Rightarrow> requester \<Rightarrow> proto_terms rpc \<times> requester" where
  "RequestQuote_outcome E now nowLocked c out s =
     (case qo_Error out of
        Some lcpErr \<Rightarrow> (Inl (grpcStatusFromLCPError lcpErr), markJobState now (qc_PeerID c) (qc_JobID c) RStateFailed s)
      | None \<Rightarrow> (case qo_QuoteResponse out of
          None \<Rightarrow> (Inl (status_Error CodeInternal ''quote waiter returned empty outcome''), s)
        | Some resp \<Rightarrow> (case termsFromQuoteResponse (sv_tlv E) (qc_WireTask c) (qc_Input c) resp of
            Inl err \<Rightarrow> (Inl (status_Error CodeFailedPrecondition (error_text err)), s)
          | Inr terms \<Rightarrow> (case PutQuote now nowLocked (qc_PeerID c) (qc_Task c) (Some terms) (sr_jobs s) of
              (Inl err, jobs) \<Rightarrow> (Inl (status_Error CodeInternal ''put quote failed''), s\<lparr>sr_jobs := jobs\<rparr>)
            | (Inr _, jobs) \<Rightarrow> (Inr terms, s\<lparr>sr_jobs := jobs\<rparr>)))))"

definition RequestQuote_wait ::
    "service_env \<Rightarrow> gotime \<Rightarrow> gotime \<Rightarrow> quote_call \<Rightarrow> requester \<Rightarrow> proto_terms rpc_outcome \<times> requester" where
  "RequestQuote_wait E now nowLocked c s =
     (case WaitQuoteResponse (qc_PeerID c) (qc_JobID c) (sr_waiter s) of
        (WaitError err, w) \<Rightarrow> (Returned (Inl (grpcStatusFromWaiterError (ctxNow E s) err)), s\<lparr>sr_waiter := w\<rparr>)
      | (WaitNow out, w) \<Rightarrow>
          (case RequestQuote_outcome E now nowLocked c out (s\<lparr>sr_waiter := w\<rparr>) of (r, s1) \<Rightarrow> (Returned r, s1))
      | (WaitOn ch, w) \<Rightarrow> (Blocked ch, s\<lparr>sr_waiter := w, sr_quoteCalls := (ch, c) # sr_quoteCalls s\<rparr>))"

definition RequestQuote ::
    "service_env \<Rightarrow> gotime \<Rightarrow> gotime \<Rightarrow> request_quote_request option \<Rightarrow> requester \<Rightarrow> proto_terms rpc_outcome \<times> requester" where
  "RequestQuote E now nowLocked req0 s =
     (case req0 of
        None \<Rightarrow> (Returned (Inl requestRequired), s)
      | Some req \<Rightarrow> (case service_validate E (RequestQuoteRequest req) of
          Some st \<Rightarrow> (Returned (Inl st), s)
        | None \<Rightarrow>
      (let peerID = strings_TrimSpace (rq_PeerId req); task = rq_Task req in
       case ValidateTask (sv_json E) task of
          Some err \<Rightarrow> (Returned (Inl (invalidArgument err)), s)
        | None \<Rightarrow> (case requireReadyPeer peerID s of
            Inl st \<Rightarrow> (Returned (Inl st), s)
          | Inr remoteManifest \<Rightarrow> (case buildQuoteRequestPayload E now task s of
              (Inl st, s1) \<Rightarrow> (Returned (Inl st), s1)
            | (Inr (jobID, expiry, wireTask, inp, payload), s1) \<Rightarrow>
                (case validateQuoteRequestRemoteLimits remoteManifest payload inp of
                   Some st \<Rightarrow> (Returned (Inl st), s1)
                 | None \<Rightarrow>
                     if \<not> sv_messenger E
                     then (Returned (Inl (status_Error CodeUnavailable ''peer messaging not configured'')), s1)
                     else (case service_Send E peerID MessageTypeQuoteRequest payload s1 of
                       (Some st, s2) \<Rightarrow> (Returned (Inl st), s2)
                     | (None, s2) \<Rightarrow>
                         (case sendInputStream E peerID jobID expiry inp remoteManifest s2 of
                            (Some st, s3) \<Rightarrow> (Returned (Inl st), s3)
                          | (None, s3) \<Rightarrow>
                              RequestQuote_wait E now nowLocked
                                \<lparr>qc_PeerID = peerID, qc_JobID = jobID, qc_Task = task, qc_WireTask = wireTask, qc_Input = inp\<rparr>
                                s3))))))))"

text \<open>The two ways a blocked call goes on: an outcome arrives on its channel, or its context ends.\<close>

definition RequestQuote_received ::
    "service_env \<Rightarrow> gotime \<Rightarrow> gotime \<Rightarrow> nat \<Rightarrow> quote_call \<Rightarrow> quote_outcome \<Rightarrow> requester \<Rightarrow> proto_terms rpc \<times> requester" where
  "RequestQuote_received E now nowLocked ch c out s =
     RequestQuote_outcome E now nowLocked c out
       (s\<lparr>sr_waiter := receivedQuote \<lparr>wk_peerID = qc_PeerID c, wk_jobID = qc_JobID c\<rparr> (sr_waiter s),
          sr_quoteCalls := AList.delete ch (sr_quoteCalls s)\<rparr>)"

definition RequestQuote_cancelled ::
    "service_env \<Rightarrow> nat \<Rightarrow> quote_call \<Rightarrow> requester \<Rightarrow> proto_terms rpc \<times> requester" where
  "RequestQuote_cancelled E ch c s =
     (Inl (grpcStatusFromWaiterError (ctxNow E s) ErrWaitCancelled),
      s\<lparr>sr_waiter := cancelledQuoteWait \<lparr>wk_peerID = qc_PeerID c, wk_jobID = qc_JobID c\<rparr> ch (sr_waiter s),
         sr_quoteCalls := AList.delete ch (sr_quoteCalls s)\<rparr>)"

section \<open>Execution\<close>

text \<open>Signed 64-bit arithmetic wraps.\<close>

definition wrap64 :: "int \<Rightarrow> int" where
  "wrap64 x = (x + 9223372036854775808) mod 18446744073709551616 - 9223372036854775808"

text \<open>\<^verbatim>\<open>strings.EqualFold\<close> on ASCII text; public keys are hexadecimal.\<close>

definition ascii_lower :: "char \<Rightarrow> char" where
  "ascii_lower c = (let n = of_char c :: nat in if 65 \<le> n \<and> n \<le> 90 then char_of (n + 32) else c)"

definition strings_EqualFold :: "string \<Rightarrow> string \<Rightarrow> bool" where
  "strings_EqualFold a b \<longleftrightarrow> map ascii_lower a = map ascii_lower b"

definition precondition :: "string \<Rightarrow> grpc_status option" where
  "precondition msg = Some (status_Error CodeFailedPrecondition msg)"

definition verifyInvoiceBinding ::
    "os_env \<Rightarrow> ctx_state \<Rightarrow> lightning_client \<Rightarrow> string \<Rightarrow> proto_terms \<Rightarrow> grpc_status option" where
  "verifyInvoiceBinding os ctx ln peerID terms =
     (case DecodePaymentRequest ln (pt_PaymentRequest terms) of
        Inl err \<Rightarrow> Some (grpcStatusFromLightningError ctx err)
      | Inr info \<Rightarrow> (case toHash32 (pt_TermsHash terms) of
          Inl err \<Rightarrow> Some (status_Error CodeInternal ''invalid stored terms_hash'')
        | Inr termsHash \<Rightarrow>
            if pi_DescriptionHash info \<noteq> termsHash
            then precondition ''invoice description_hash does not match terms_hash''
            else if \<not> strings_EqualFold (pi_PayeePubKey info) peerID
            then precondition ''invoice destination does not match peer_id''
            else if pt_PriceMsat terms = 0 then precondition ''price_msat must be > 0''
            else if pi_AmountMsat info \<le> 0 then precondition ''invoice amount is missing or invalid''
            else if (word_of_int (pi_AmountMsat info) :: u64) \<noteq> pt_PriceMsat terms
            then precondition ''invoice amount does not match price_msat''
            else (case pt_QuoteExpiry terms of
              None \<Rightarrow> Some (status_Error CodeInternal ''invalid stored quote_expiry'')
            | Some quoteExpiry \<Rightarrow>
                (let quoteExpiryUnix = time_Unix quoteExpiry;
                     allowedClockSkewSeconds = max (envconfig_Int64 os ''LCP_ALLOWED_CLOCK_SKEW_SECONDS'' 5) 0
                 in if quoteExpiryUnix < 0 then Some (status_Error CodeInternal ''invalid stored quote_expiry'')
                    else if wrap64 (maxInt64 - pi_ExpirySeconds info) < pi_TimestampUnix info
                    then precondition ''invoice expiry overflows''
                    else if wrap64 (quoteExpiryUnix + allowedClockSkewSeconds)
                        < wrap64 (pi_TimestampUnix info + pi_ExpirySeconds info)
                    then precondition ''invoice expiry exceeds quote_expiry''
                    else None))))"

text \<open>
  What both execution calls do before they pay. The error helpers mark the job as failed and
  so does the deferred function of the call.
\<close>

definition failCall :: "gotime \<Rightarrow> string \<Rightarrow> hash32 \<Rightarrow> grpc_status \<Rightarrow> requester \<Rightarrow> grpc_status \<times> requester" where
  "failCall now peerID jobID st s =
     (st, markJobState now peerID jobID RStateFailed (markJobState now peerID jobID RStateFailed s))"

definition acceptVerified ::
    "service_env \<Rightarrow> gotime \<Rightarrow> (accept_and_execute_request \<Rightarrow> service_request) \<Rightarrow> accept_and_execute_request option
      \<Rightarrow> requester \<Rightarrow> (string \<times> hash32 \<times> proto_terms \<times> lightning_client) rpc \<times> requester" where
  "acceptVerified E now wrap req0 s =
     (case req0 of
        None \<Rightarrow> (Inl requestRequired, s)
      | Some req \<Rightarrow> (case service_validate E (wrap req) of
          Some st \<Rightarrow> (Inl st, s)
        | None \<Rightarrow>
      (let peerID = strings_TrimSpace (ae_PeerId req) in
       if \<not> ae_PayInvoice req then (Inl (status_Error CodeInvalidArgument ''pay_invoice must be true''), s)
       else (case toJobID (ae_JobId req) of
          Inl err \<Rightarrow> (Inl (invalidArgument err), s)
        | Inr jobID \<Rightarrow> (case sv_lightning E of
            None \<Rightarrow> (Inl (status_Error CodeUnavailable ''lightning rpc not configured''), s)
          | Some ln \<Rightarrow> (case GetTerms now peerID jobID (sr_jobs s) of
              (Inl err, jobs) \<Rightarrow> (Inl (grpcStatusFromJobStoreError err), s\<lparr>sr_jobs := jobs\<rparr>)
            | (Inr terms, jobs) \<Rightarrow>
                (let s1 = markJobState now peerID jobID RStatePaying (s\<lparr>sr_jobs := jobs\<rparr>) in
                 case verifyInvoiceBinding (sv_os E) (ctxNow E s1) ln peerID terms of
                   Some st \<Rightarrow> (case failCall now peerID jobID st s1 of (st, s2) \<Rightarrow> (Inl st, s2))
                 | None \<Rightarrow> (Inr (peerID, jobID, terms, ln), s1))))))))"

definition service_Pay ::
    "service_env \<Rightarrow> lightning_client \<Rightarrow> string \<Rightarrow> hash32 \<Rightarrow> proto_terms \<Rightarrow> requester \<Rightarrow> hash32 res \<times> requester" where
  "service_Pay E ln peerID jobID terms s =
     (let r = PayInvoice (lc_configured ln) (sv_sendPaymentV2 E (length (sr_trace s))) (pt_PaymentRequest terms)
      in (r, s\<lparr>sr_trace := sr_trace s @ [SvPay peerID jobID (pt_PaymentRequest terms) r]\<rparr>))"

definition protoStatusResult :: "lcp_result \<Rightarrow> proto_status \<Rightarrow> proto_result" where
  "protoStatusResult res st =
     \<lparr>pr_Status = st, pr_Result = [], pr_ResultHash = [], pr_ResultLen = 0, pr_ContentType = [],
      pr_ContentEncoding = [], pr_Message = (case rs_Message res of None \<Rightarrow> [] | Some m \<Rightarrow> m)\<rparr>"

definition protoResultFromTerminal :: "lcp_result \<Rightarrow> bytes \<Rightarrow> proto_result rpc" where
  "protoResultFromTerminal res resultBytes =
     (if rs_Status res = ResultStatusOK
      then (case rs_OK res of
              None \<Rightarrow> Inl (status_Error CodeInternal ''missing ok metadata in lcp_result'')
            | Some ok \<Rightarrow> Inr \<lparr>pr_Status = STATUS_OK, pr_Result = resultBytes, pr_ResultHash = hash_bytes (ok_ResultHash ok),
                  pr_ResultLen = ok_ResultLen ok, pr_ContentType = ok_ResultContentType ok,
                  pr_ContentEncoding = ok_ResultContentEncoding ok, pr_Message = []\<rparr>)
      else if rs_Status res = ResultStatusFailed then Inr (protoStatusResult res STATUS_FAILED)
      else if rs_Status res = ResultStatusCancelled then Inr (protoStatusResult res STATUS_CANCELLED)
      else Inl (status_Error CodeInternal ''unknown lcp_result status''))"

definition protoResultFromTerminalMetadataOnly :: "lcp_result \<Rightarrow> proto_result rpc" where
  "protoResultFromTerminalMetadataOnly res =
     (if rs_Status res = ResultStatusOK
      then (case rs_OK res of
              None \<Rightarrow> Inl (status_Error CodeInternal ''missing ok metadata in lcp_result'')
            | Some ok \<Rightarrow> Inr \<lparr>pr_Status = STATUS_OK, pr_Result = [], pr_ResultHash = hash_bytes (ok_ResultHash ok),
                  pr_ResultLen = ok_ResultLen ok, pr_ContentType = ok_ResultContentType ok,
                  pr_ContentEncoding = ok_ResultContentEncoding ok, pr_Message = []\<rparr>)
      else if rs_Status res = ResultStatusFailed then Inr (protoStatusResult res STATUS_FAILED)
      else if rs_Status res = ResultStatusCancelled then Inr (protoStatusResult res STATUS_CANCELLED)
      else Inl (status_Error CodeInternal ''unknown lcp_result status''))"

text \<open>The part of \<^verbatim>\<open>AcceptAndExecute\<close> after the wait.\<close>

definition AcceptAndExecute_outcome ::
    "gotime \<Rightarrow> wait_key \<Rightarrow> result_outcome \<Rightarrow> requester \<Rightarrow> proto_result rpc \<times> requester" where
  "AcceptAndExecute_outcome now k out s =
     (let peerID = wk_peerID k; jobID = wk_jobID k in
      case ro_Error out of
        Some lcpErr \<Rightarrow> (case failCall now peerID jobID (grpcStatusFromLCPError lcpErr) s of (st, s1) \<Rightarrow> (Inl st, s1))
      | None \<Rightarrow> (case ro_Result out of
          None \<Rightarrow> (Inl (status_Error CodeInternal ''result waiter returned empty outcome''),
                   markJobState now peerID jobID RStateFailed s)
        | Some res \<Rightarrow> (case protoResultFromTerminal res (ro_ResultBytes out) of
            Inl st \<Rightarrow> (Inl st, markJobState now peerID jobID RStateFailed s)
          | Inr r \<Rightarrow> (Inr r, markJobState now peerID jobID RStateDone s))))"

definition AcceptAndExecute ::
    "service_env \<Rightarrow> gotime \<Rightarrow> accept_and_execute_request option \<Rightarrow> requester \<Rightarrow> proto_result rpc_outcome \<times> requester" where
  "AcceptAndExecute E now req s =
     (case acceptVerified E now AcceptAndExecuteRequest req s of
        (Inl st, s1) \<Rightarrow> (Returned (Inl st), s1)
      | (Inr (peerID, jobID, terms, ln), s1) \<Rightarrow> (case service_Pay E ln peerID jobID terms s1 of
          (Inl payErr, s2) \<Rightarrow>
            (case failCall now peerID jobID (grpcStatusFromLightningError (ctxNow E s2) payErr) s2 of
               (st, s3) \<Rightarrow> (Returned (Inl st), s3))
        | (Inr preimage, s2) \<Rightarrow>
            (let s3 = markJobState now peerID jobID RStateAwaitingResult s2 in
             case WaitResult peerID jobID (sr_waiter s3) of
               (WaitError err, w) \<Rightarrow>
                 (case failCall now peerID jobID (grpcStatusFromWaiterError (ctxNow E s3) err) (s3\<lparr>sr_waiter := w\<rparr>) of
                    (st, s4) \<Rightarrow> (Returned (Inl st), s4))
             | (WaitNow out, w) \<Rightarrow>
                 (case AcceptAndExecute_outcome now \<lparr>wk_peerID = peerID, wk_jobID = jobID\<rparr> out (s3\<lparr>sr_waiter := w\<rparr>) of
                    (r, s4) \<Rightarrow> (Returned r, s4))
             | (WaitOn ch, w) \<Rightarrow>
                 (Blocked ch, s3\<lparr>sr_waiter := w,
                    sr_resultCalls := (ch, \<lparr>wk_peerID = peerID, wk_jobID = jobID\<rparr>) # sr_resultCalls s3\<rparr>))))"

definition AcceptAndExecute_received ::
    "gotime \<Rightarrow> nat \<Rightarrow> wait_key \<Rightarrow> result_outcome \<Rightarrow> requester \<Rightarrow> proto_result rpc \<times> requester" where
  "AcceptAndExecute_received now ch k out s =
     AcceptAndExecute_outcome now k out
       (s\<lparr>sr_waiter := receivedResult k (sr_waiter s), sr_resultCalls := AList.delete ch (sr_resultCalls s)\<rparr>)"

definition AcceptAndExecute_cancelled ::
    "service_env \<Rightarrow> gotime \<Rightarrow> nat \<Rightarrow> wait_key \<Rightarrow> requester \<Rightarrow> proto_result rpc \<times> requester" where
  "AcceptAndExecute_cancelled E now ch k s =
     (case failCall now (wk_peerID k) (wk_jobID k) (grpcStatusFromWaiterError (ctxNow E s) ErrWaitCancelled)
             (s\<lparr>sr_waiter := cancelledResultWait k ch (sr_waiter s), sr_resultCalls := AList.delete ch (sr_resultCalls s)\<rparr>) of
        (st, s1) \<Rightarrow> (Inl st, s1))"

section \<open>Streaming execution\<close>

text \<open>
  Up to the select loop: the subscription is made before the payment, the waiting goroutine
  starts after it. A failed call runs its deferred functions: the subscription is given up
  and the job is marked as failed.
\<close>

definition AcceptAndExecuteStream ::
    "service_env \<Rightarrow> gotime \<Rightarrow> accept_and_execute_request option \<Rightarrow> requester \<Rightarrow> unit rpc_outcome \<times> requester" where
  "AcceptAndExecuteStream E now req s =
     (case acceptVerified E now AcceptAndExecuteStreamRequest req s of
        (Inl st, s1) \<Rightarrow> (Returned (Inl st), s1)
      | (Inr (peerID, jobID, terms, ln), s1) \<Rightarrow>
          (let k = \<lparr>wk_peerID = peerID, wk_jobID = jobID\<rparr> in
           case SubscribeResultStream peerID jobID (sr_waiter s1) of
             (Inl subErr, w) \<Rightarrow>
               (Returned (Inl (status_Error CodeFailedPrecondition (error_text subErr))),
                markJobState now peerID jobID RStateFailed (s1\<lparr>sr_waiter := w\<rparr>))
           | (Inr sub, w) \<Rightarrow> (case service_Pay E ln peerID jobID terms (s1\<lparr>sr_waiter := w\<rparr>) of
               (Inl payErr, s2) \<Rightarrow>
                 (case failCall now peerID jobID (grpcStatusFromLightningError (ctxNow E s2) payErr)
                         (s2\<lparr>sr_waiter := unsubscribe k sub (sr_waiter s2)\<rparr>) of
                    (st, s3) \<Rightarrow> (Returned (Inl st), s3))
             | (Inr preimage, s2) \<Rightarrow>
                 (let s3 = markJobState now peerID jobID RStateAwaitingResult s2 in
                  case WaitResult peerID jobID (sr_waiter s3) of
                    (wait, w1) \<Rightarrow>
                      (Blocked sub, s3\<lparr>sr_waiter := w1,
                         sr_streamCalls := (sub, \<lparr>xc_Key = k, xc_Waited = wait\<rparr>) # sr_streamCalls s3\<rparr>)))))"

text \<open>The waiting goroutine ends with an outcome or with its context.\<close>

definition streamWait_received :: "nat \<Rightarrow> stream_call \<Rightarrow> result_outcome \<Rightarrow> requester \<Rightarrow> requester" where
  "streamWait_received sub c out s =
     s\<lparr>sr_waiter := receivedResult (xc_Key c) (sr_waiter s),
       sr_streamCalls := AList.update sub (c\<lparr>xc_Waited := WaitNow out\<rparr>) (sr_streamCalls s)\<rparr>"

definition streamWait_cancelled :: "nat \<Rightarrow> stream_call \<Rightarrow> nat \<Rightarrow> requester \<Rightarrow> requester" where
  "streamWait_cancelled sub c ch s =
     s\<lparr>sr_waiter := cancelledResultWait (xc_Key c) ch (sr_waiter s),
       sr_streamCalls := AList.update sub (c\<lparr>xc_Waited := WaitError ErrWaitCancelled\<rparr>) (sr_streamCalls s)\<rparr>"

definition stream_Send :: "service_env \<Rightarrow> stream_item \<Rightarrow> requester \<Rightarrow> grpc_status option \<times> requester" where
  "stream_Send E item s =
     (let err = sv_sendItem E (length (sr_trace s)) item
      in (err, s\<lparr>sr_trace := sr_trace s @ [SvItem item (err = None)]\<rparr>))"

fun sendStreamEvent :: "service_env \<Rightarrow> result_stream_event \<Rightarrow> requester \<Rightarrow> grpc_status option \<times> requester" where
  "sendStreamEvent E (ResultStreamBegin ct ce) s = stream_Send E (ItemBegin ct ce) s"
| "sendStreamEvent E (ResultStreamChunk data) s = (if data = [] then (None, s) else stream_Send E (ItemChunk data) s)"

text \<open>The inner loop that drains the buffered events.\<close>

fun drainEvents :: "service_env \<Rightarrow> result_stream_event list \<Rightarrow> requester \<Rightarrow> grpc_status option \<times> requester" where
  "drainEvents E [] s = (None, s)"
| "drainEvents E (ev # evs) s =
     (case sendStreamEvent E ev s of (Some st, s1) \<Rightarrow> (Some st, s1) | (None, s1) \<Rightarrow> drainEvents E evs s1)"

text \<open>The case of the select statement that was chosen, with what it received.\<close>

datatype select_case =
    SelEvent result_stream_event
  | SelWaited "result_stream_event list"
  | SelCtxDone bool

definition contextStatus :: "bool \<Rightarrow> grpc_status" where
  "contextStatus deadline =
     (if deadline then status_Error CodeDeadlineExceeded ''context deadline exceeded''
      else status_Error CodeCanceled ''context canceled'')"

definition streamOutcome ::
    "service_env \<Rightarrow> gotime \<Rightarrow> wait_key \<Rightarrow> result_outcome \<Rightarrow> result_stream_event list \<Rightarrow> requester \<Rightarrow> unit rpc \<times> requester" where
  "streamOutcome E now k out drained s =
     (let mark = markJobState now (wk_peerID k) (wk_jobID k) in
      case ro_Error out of
        Some lcpErr \<Rightarrow> (Inl (grpcStatusFromLCPError lcpErr), mark RStateFailed s)
      | None \<Rightarrow> (case ro_Result out of
          None \<Rightarrow> (Inl (status_Error CodeInternal ''result waiter returned empty outcome''), s)
        | Some res \<Rightarrow> (case drainEvents E drained s of
            (Some st, s1) \<Rightarrow> (Inl st, s1)
          | (None, s1) \<Rightarrow> (case protoResultFromTerminalMetadataOnly res of
              Inl st \<Rightarrow> (Inl st, s1)
            | Inr r \<Rightarrow>
                (case (if pr_Status r = STATUS_OK then stream_Send E (ItemEnd (pr_ResultHash r) (pr_ResultLen r)) s1
                       else (None, s1)) of
                   (Some st, s2) \<Rightarrow> (Inl st, s2)
                 | (None, s2) \<Rightarrow> (case stream_Send E (ItemResult r) s2 of
                     (Some st, s3) \<Rightarrow> (Inl st, s3)
                   | (None, s3) \<Rightarrow> (Inr (), mark RStateDone s3)))))))"

text \<open>The deferred functions of a call that returns.\<close>

definition streamReturn ::
    "gotime \<Rightarrow> nat \<Rightarrow> wait_key \<Rightarrow> unit rpc \<Rightarrow> requester \<Rightarrow> unit rpc option \<times> requester" where
  "streamReturn now sub k r s =
     (let s1 = s\<lparr>sr_waiter := unsubscribe k sub (sr_waiter s), sr_streamCalls := AList.delete sub (sr_streamCalls s)\<rparr>
      in (Some r, case r of Inl st \<Rightarrow> markJobState now (wk_peerID k) (wk_jobID k) RStateFailed s1 | Inr _ \<Rightarrow> s1))"

text \<open>One turn of the select loop; \<open>None\<close> when it goes on.\<close>

definition AcceptAndExecuteStream_select ::
    "service_env \<Rightarrow> gotime \<Rightarrow> nat \<Rightarrow> stream_call \<Rightarrow> select_case \<Rightarrow> requester \<Rightarrow> unit rpc option \<times> requester" where
  "AcceptAndExecuteStream_select E now sub c sel s =
     (case sel of
        SelEvent ev \<Rightarrow> (case sendStreamEvent E ev s of
            (Some st, s1) \<Rightarrow> streamReturn now sub (xc_Key c) (Inl st) s1
          | (None, s1) \<Rightarrow> (None, s1))
      | SelWaited drained \<Rightarrow> (case xc_Waited c of
            WaitOn ch \<Rightarrow> (None, s)
          | WaitError err \<Rightarrow>
              streamReturn now sub (xc_Key c) (Inl (grpcStatusFromWaiterError (ctxNow E s) err))
                (markJobState now (wk_peerID (xc_Key c)) (wk_jobID (xc_Key c)) RStateFailed s)
          | WaitNow out \<Rightarrow> (case streamOutcome E now (xc_Key c) out drained s of
              (r, s1) \<Rightarrow> streamReturn now sub (xc_Key c) r s1))
      | SelCtxDone deadline \<Rightarrow> streamReturn now sub (xc_Key c) (Inl (contextStatus deadline)) s)"

section \<open>Cancellation\<close>

definition CancelJob :: "service_env \<Rightarrow> gotime \<Rightarrow> cancel_job_request option \<Rightarrow> requester \<Rightarrow> unit rpc \<times> requester" where
  "CancelJob E now req0 s =
     (case req0 of
        None \<Rightarrow> (Inl requestRequired, s)
      | Some req \<Rightarrow> (case service_validate E (CancelJobRequest req) of
          Some st \<Rightarrow> (Inl st, s)
        | None \<Rightarrow>
      (let peerID = strings_TrimSpace (cj_PeerId req) in
       case toJobID (cj_JobId req) of
          Inl err \<Rightarrow> (Inl (invalidArgument err), s)
        | Inr jobID \<Rightarrow>
          if \<not> sv_messenger E then (Inl (status_Error CodeUnavailable ''peer messaging not configured''), s)
          else (case GetPeer peerID (sr_peers s) of
            None \<Rightarrow> (Inl (status_Error CodeNotFound ''peer not found''), s)
          | Some p \<Rightarrow>
              if \<not> peer_Connected p \<or> \<not> peer_CustomMsgEnabled p
              then (Inl (status_Error CodeFailedPrecondition ''peer is not connected with custom messages enabled''), s)
              else (case nextID (sv_newMsgID E) s of
                (Inl err, s1) \<Rightarrow> (Inl msgIDFailed, s1)
              | (Inr msgID, s1) \<Rightarrow> (case newEnvelopeExpiry now of
                  Inl err \<Rightarrow> (Inl (status_Error CodeInternal ''generate envelope expiry failed''), s1)
                | Inr expiry \<Rightarrow>
                    (let r = strings_TrimSpace (cj_Reason req) in
                     case EncodeCancel (sv_tlv E)
                            \<lparr>cn_Envelope = serviceEnvelope jobID msgID expiry, cn_Reason = (if r = [] then None else Some r)\<rparr> of
                       Inl err \<Rightarrow> (Inl (invalidArgument err), s1)
                     | Inr payload \<Rightarrow> (case service_Send E peerID MessageTypeCancel payload s1 of
                         (Some st, s2) \<Rightarrow> (Inl st, s2)
                       | (None, s2) \<Rightarrow> (Inr (), markJobState now peerID jobID RStateCancelled s2)))))))))"

end
