(* ===== verification/Provider_Config.thy ===== *)
theory Provider_Config
  imports Peer_Messaging Grpc_Service Provider
begin

text \<open>
  How the daemon configures itself, \<^verbatim>\<open>go-lcpd/tools/lcpd-grpcd/main.go\<close>: the settings from
  the environment and the flags, the compute backend, the models and prices of the provider's
  YAML file with its deprecated forms, and the manifest the node advertises. The environment
  library, the file system and the YAML parser are parameters: what they return. The lemmas
  show that a configuration that is accepted prices every model, that the manifest advertises
  exactly the configured models, and when a request for an advertised task passes the checks.
\<close>

section \<open>Environment and flags\<close>

record grpcd_env =
  ge_LogLevel :: string
  ge_Backend :: string
  ge_OpenAIAPIKey :: string
  ge_OpenAIAPIKeyV0 :: string
  ge_OpenAIBaseURL :: string
  ge_DeterministicB64 :: string
  ge_ProviderConfigPath :: string

text \<open>The flag tells whether \<^verbatim>\<open>config.yaml\<close> exists and is not a directory.\<close>

definition parseEnvConfig :: "grpcd_env res \<Rightarrow> bool \<Rightarrow> grpcd_env res" where
  "parseEnvConfig processed configFile =
     bindE (mapErr (wrapf ''process env'') processed) (\<lambda>env.
       let path = strings_TrimSpace (ge_ProviderConfigPath env)
       in Inr \<lparr>ge_LogLevel = strings_TrimSpace (ge_LogLevel env), ge_Backend = strings_TrimSpace (ge_Backend env),
            ge_OpenAIAPIKey = strings_TrimSpace (ge_OpenAIAPIKey env),
            ge_OpenAIAPIKeyV0 = strings_TrimSpace (ge_OpenAIAPIKeyV0 env),
            ge_OpenAIBaseURL = strings_TrimSpace (ge_OpenAIBaseURL env),
            ge_DeterministicB64 = strings_TrimSpace (ge_DeterministicB64 env),
            ge_ProviderConfigPath = (if path = [] \<and> configFile then ''config.yaml'' else path)\<rparr>)"

definition lndConfigFromFlagsOrEnv ::
    "lnd_env_config res \<Rightarrow> string \<Rightarrow> string \<Rightarrow> string \<Rightarrow> string \<Rightarrow> lnd_config res" where
  "lndConfigFromFlagsOrEnv processed lndRPCAddr lndTLSCertPath lndAdminMacaroonPath lndMacaroonPath =
     (let rpcAddr = strings_TrimSpace lndRPCAddr;
          tlsCertPath = strings_TrimSpace lndTLSCertPath;
          adminMacaroonPath = strings_TrimSpace lndAdminMacaroonPath;
          macaroonPath = strings_TrimSpace lndMacaroonPath
      in if rpcAddr = [] \<and> tlsCertPath = [] \<and> adminMacaroonPath = [] \<and> macaroonPath = []
         then lnd_NewConfigFromEnv processed
         else
           let adminMacaroonPath = (if adminMacaroonPath = [] \<and> macaroonPath \<noteq> [] then macaroonPath else adminMacaroonPath)
           in if rpcAddr = [] then Inl (errors_New ''lnd_rpc_addr is required when lnd flags are set'')
              else Inr \<lparr>lc_RPCAddr = rpcAddr, lc_TLSCertPath = tlsCertPath,
                     lc_AdminMacaroonPath = adminMacaroonPath, lc_ManifestResendInterval = None\<rparr>)"

text \<open>The flags as the flag library parsed them; the time-out is in nanoseconds.\<close>

record grpcd_flags =
  gf_grpc_addr :: string
  gf_startup_timeout :: int
  gf_lnd_rpc_addr :: string
  gf_lnd_tls_cert_path :: string
  gf_lnd_admin_macaroon_path :: string
  gf_lnd_macaroon_path :: string

record grpcd_config =
  gc_grpcAddr :: string
  gc_startupTimeout :: int
  gc_lnd :: "lnd_config option"

definition parseFlags :: "(int \<Rightarrow> string) \<Rightarrow> lnd_env_config res \<Rightarrow> grpcd_flags res \<Rightarrow> grpcd_config res" where
  "parseFlags showDuration processed parsed =
     bindE parsed (\<lambda>f.
       let timeout = gf_startup_timeout f in
       if timeout \<le> 0 then Inl (errors_New (''startup_timeout must be > 0, got '' @ showDuration timeout))
       else
         let done = \<lambda>lnd. Inr \<lparr>gc_grpcAddr = gf_grpc_addr f, gc_startupTimeout = timeout, gc_lnd = lnd\<rparr>
         in case lndConfigFromFlagsOrEnv processed (gf_lnd_rpc_addr f) (gf_lnd_tls_cert_path f)
                   (gf_lnd_admin_macaroon_path f) (gf_lnd_macaroon_path f) of
              Inl err \<Rightarrow> if errors_Is err ''ErrLNDConnectionNotConfigured'' then done None else Inl err
            | Inr lndCfg \<Rightarrow> done (Some lndCfg))"

section \<open>Compute backend\<close>

text \<open>\<^verbatim>\<open>strings.ToLower\<close> on ASCII text.\<close>

definition strings_ToLower :: "string \<Rightarrow> string" where
  "strings_ToLower s = map ascii_lower s"

datatype log_level = DebugLevel | InfoLevel | WarnLevel | ErrorLevel

definition parseLogLevel :: "string \<Rightarrow> log_level" where
  "parseLogLevel s =
     (let l = strings_ToLower (strings_TrimSpace s) in
      if l = ''debug'' then DebugLevel
      else if l = ''warn'' \<or> l = ''warning'' then WarnLevel
      else if l = ''error'' then ErrorLevel
      else InfoLevel)"

text \<open>
  \<^verbatim>\<open>base64.StdEncoding.DecodeString\<close>: line breaks are skipped, the text is read in groups of
  four digits, and the last group may be padded.
\<close>

definition base64_value :: "char \<Rightarrow> nat option" where
  "base64_value c =
     (let n = (of_char c :: nat) in
      if 65 \<le> n \<and> n \<le> 90 then Some (n - 65)
      else if 97 \<le> n \<and> n \<le> 122 then Some (n - 71)
      else if 48 \<le> n \<and> n \<le> 57 then Some (n + 4)
      else if n = 43 then Some 62
      else if n = 47 then Some 63
      else None)"

definition base64_error :: goerror where
  "base64_error = sentinel ''CorruptInputError'' ''illegal base64 data''"

fun base64_groups :: "string \<Rightarrow> bytes res" where
  "base64_groups [] = Inr []"
| "base64_groups (a # b # c # d # rest) =
     (case (base64_value a, base64_value b) of
        (Some x, Some y) \<Rightarrow>
          (case (base64_value c, base64_value d) of
             (Some z, Some w) \<Rightarrow>
               bindE (base64_groups rest) (\<lambda>bs.
                 Inr (word_of_nat (x * 4 + y div 16) # word_of_nat (y mod 16 * 16 + z div 4)
                        # word_of_nat (z mod 4 * 64 + w) # bs))
           | (Some z, None) \<Rightarrow>
               if d = CHR ''='' \<and> rest = []
               then Inr [word_of_nat (x * 4 + y div 16), word_of_nat (y mod 16 * 16 + z div 4)]
               else Inl base64_error
           | (None, _) \<Rightarrow>
               if c = CHR ''='' \<and> d = CHR ''='' \<and> rest = [] then Inr [word_of_nat (x * 4 + y div 16)]
               else Inl base64_error)
      | _ \<Rightarrow> Inl base64_error)"
| "base64_groups other = Inl base64_error"

definition base64_DecodeString :: "string \<Rightarrow> bytes res" where
  "base64_DecodeString s = base64_groups (filter (\<lambda>c. c \<noteq> CHR 0x0A \<and> c \<noteq> CHR 0x0D) s)"

datatype compute_backend_config =
    BackendDisabled
  | BackendOpenAI string string
  | BackendDeterministic bytes

definition NewDeterministicFromBase64 :: "string \<Rightarrow> compute_backend_config res" where
  "NewDeterministicFromBase64 b64 =
     (let trimmed = strings_TrimSpace b64 in
      if trimmed = [] then Inl (errors_New ''deterministic output base64 is empty'')
      else bindE (mapErr (wrapf ''decode deterministic output'') (base64_DecodeString trimmed)) (\<lambda>decoded.
        if decoded = [] then Inl (errors_New ''deterministic output decoded to empty'')
        else Inr (BackendDeterministic decoded)))"

definition strings_TrimRight :: "char \<Rightarrow> string \<Rightarrow> string" where
  "strings_TrimRight c s = rev (dropWhile (\<lambda>x. x = c) (rev s))"

definition strings_HasSuffix :: "string \<Rightarrow> string \<Rightarrow> bool" where
  "strings_HasSuffix s suffix \<longleftrightarrow> length suffix \<le> length s \<and> drop (length s - length suffix) s = suffix"

definition openai_New :: "string \<Rightarrow> string \<Rightarrow> compute_backend_config res" where
  "openai_New cfgAPIKey cfgBaseURL =
     (let apiKey = strings_TrimSpace cfgAPIKey in
      if apiKey = [] then Inl (wrapSentinel ErrUnauthenticated ''api key is required'')
      else
        let baseURL = strings_TrimSpace cfgBaseURL;
            baseURL = (if baseURL = [] then ''https://api.openai.com/v1'' else baseURL);
            baseURL = strings_TrimRight CHR 0x2F baseURL;
            baseURL = (if \<not> strings_HasSuffix baseURL ''/v1'' then baseURL @ ''/v1'' else baseURL)
        in Inr (BackendOpenAI apiKey baseURL))"

definition computeBackendFromEnvConfig :: "grpcd_env \<Rightarrow> compute_backend_config res" where
  "computeBackendFromEnvConfig env =
     (let backend = strings_ToLower (strings_TrimSpace (ge_Backend env)) in
      if backend = [] \<or> backend = ''none'' \<or> backend = ''disabled'' then Inr BackendDisabled
      else if backend = ''openai'' then
        (let apiKey = strings_TrimSpace (ge_OpenAIAPIKey env);
             apiKey = (if apiKey = [] then strings_TrimSpace (ge_OpenAIAPIKeyV0 env) else apiKey)
         in openai_New apiKey (strings_TrimSpace (ge_OpenAIBaseURL env)))
      else if backend = ''deterministic'' then
        (if ge_DeterministicB64 env \<noteq> [] then NewDeterministicFromBase64 (ge_DeterministicB64 env)
         else Inr (BackendDeterministic (string_bytes ''deterministic-output'')))
      else Inl (errors_New (''unknown LCPD_BACKEND: '' @ strconv_Quote (ge_Backend env)
                 @ '' (supported: disabled, deterministic, openai)'')))"

section \<open>The provider's YAML file\<close>

record price_yaml =
  yp_InputMsatPerMTok :: u64
  yp_CachedInputMsatPerMTok :: "u64 option"
  yp_OutputMsatPerMTok :: u64

record model_yaml =
  ym_Model :: string
  ym_Profile :: string
  ym_MaxOutputTokens :: "u32 option"
  ym_Price :: "price_yaml option"

record provider_yaml =
  yc_Enabled :: "bool option"
  yc_QuoteTTLSeconds :: "u64 option"
  yc_SupportedModels :: "string list"
  yc_SupportedLegacyModels :: "string list"
  yc_InFlightSurge :: in_flight_surge_config
  yc_MaxOutputTokens :: "u32 option"
  yc_PriceTable :: "(string \<times> price_yaml) list"
  yc_Models :: "(string \<times> model_yaml) list"
  yc_ChatProfiles :: "(string \<times> model_yaml) list"

definition emptyProviderYAML :: provider_yaml where
  "emptyProviderYAML = \<lparr>yc_Enabled = None, yc_QuoteTTLSeconds = None, yc_SupportedModels = [],
     yc_SupportedLegacyModels = [],
     yc_InFlightSurge = \<lparr>sg_Threshold = 0, sg_PerJobBps = 0, sg_MaxMultiplierBps = 0\<rparr>,
     yc_MaxOutputTokens = None, yc_PriceTable = [], yc_Models = [], yc_ChatProfiles = []\<rparr>"

definition loadProviderYAML ::
    "(string \<Rightarrow> bytes res) \<Rightarrow> (bytes \<Rightarrow> provider_yaml res) \<Rightarrow> string \<Rightarrow> provider_yaml res" where
  "loadProviderYAML readFile unmarshal path =
     (if strings_TrimSpace path = [] then Inr emptyProviderYAML
      else bindE (mapErr (wrapf (''read provider config '' @ strconv_Quote path)) (readFile path)) (\<lambda>data.
           mapErr (wrapf (''parse provider config '' @ strconv_Quote path)) (unmarshal data)))"

text \<open>
  The loops below range over Go maps. They stop at the first error; when there is none the
  resulting map does not depend on the order.
\<close>

fun yaml_priceTable_loop :: "(string \<times> price_yaml) list \<Rightarrow> price_table \<Rightarrow> price_table res" where
  "yaml_priceTable_loop [] table = Inr table"
| "yaml_priceTable_loop ((model, entry) # rest) table =
     (if yp_InputMsatPerMTok entry = 0 \<or> yp_OutputMsatPerMTok entry = 0
      then Inl (errors_New (''llm.price_table['' @ model @ ''] must set input/output prices''))
      else yaml_priceTable_loop rest
        (AList.update model \<lparr>pe_Model = model, pe_InputMsatPerMTok = yp_InputMsatPerMTok entry,
           pe_CachedInputMsatPerMTok = yp_CachedInputMsatPerMTok entry,
           pe_OutputMsatPerMTok = yp_OutputMsatPerMTok entry\<rparr> table))"

definition yaml_priceTable :: "provider_yaml \<Rightarrow> price_table res" where
  "yaml_priceTable c = yaml_priceTable_loop (yc_PriceTable c) []"

definition resolveModelPrice ::
    "string \<Rightarrow> price_yaml option \<Rightarrow> price_table \<Rightarrow> price_table \<Rightarrow> price_table_entry res" where
  "resolveModelPrice model explicit legacyPriceTable defaultPriceTable =
     (case explicit of
        Some p \<Rightarrow>
          if yp_InputMsatPerMTok p = 0 \<or> yp_OutputMsatPerMTok p = 0
          then Inl (errors_New (''llm.models['' @ model @ ''].price must set input/output prices''))
          else Inr \<lparr>pe_Model = model, pe_InputMsatPerMTok = yp_InputMsatPerMTok p,
                 pe_CachedInputMsatPerMTok = yp_CachedInputMsatPerMTok p, pe_OutputMsatPerMTok = yp_OutputMsatPerMTok p\<rparr>
      | None \<Rightarrow>
          (case map_of legacyPriceTable model of
             Some entry \<Rightarrow> Inr entry
           | None \<Rightarrow>
               (case map_of defaultPriceTable model of
                  Some entry \<Rightarrow> Inr entry
                | None \<Rightarrow> Inl (errors_New (''no price configured for model '' @ strconv_Quote model
                            @ '' (set llm.models.'' @ model @ ''.price)'')))))"

fun modelsFromYAML_loop ::
    "price_table \<Rightarrow> price_table \<Rightarrow> (string \<times> model_yaml) list \<Rightarrow> (string \<times> model_config) list \<Rightarrow>
     (string \<times> model_config) list res" where
  "modelsFromYAML_loop legacy defaults [] models = Inr models"
| "modelsFromYAML_loop legacy defaults ((key, p) # rest) models =
     (let model = strings_TrimSpace (ym_Model p);
          model = (if model = [] then strings_TrimSpace (ym_Profile p) else model);
          model = (if model = [] then strings_TrimSpace key else model)
      in if model = [] then Inl (errors_New ''llm.models key/model must be non-empty'')
         else if map_of models model \<noteq> None
         then Inl (errors_New (''llm.models defines duplicate model '' @ strconv_Quote model))
         else if ym_MaxOutputTokens p = Some 0
         then Inl (errors_New (''llm.models['' @ model @ ''].max_output_tokens must be > 0''))
         else bindE (resolveModelPrice model (ym_Price p) legacy defaults) (\<lambda>price.
           modelsFromYAML_loop legacy defaults rest
             (AList.update model \<lparr>mc_MaxOutputTokens = ym_MaxOutputTokens p, mc_Price = price\<rparr> models)))"

definition modelsFromYAML ::
    "(string \<times> model_yaml) list \<Rightarrow> price_table \<Rightarrow> price_table \<Rightarrow> (string \<times> model_config) list res" where
  "modelsFromYAML cfg legacy defaults = modelsFromYAML_loop legacy defaults cfg []"

fun modelsFromLegacy_loop ::
    "price_table \<Rightarrow> price_table \<Rightarrow> string list \<Rightarrow> (string \<times> model_config) list \<Rightarrow> (string \<times> model_config) list res" where
  "modelsFromLegacy_loop legacy defaults [] models = Inr models"
| "modelsFromLegacy_loop legacy defaults (raw # rest) models =
     (let model = strings_TrimSpace raw in
      if model = [] then Inl (errors_New ''supported_models contains an empty model'')
      else if map_of models model \<noteq> None
      then Inl (errors_New (''supported_models contains duplicate model '' @ strconv_Quote model))
      else bindE (resolveModelPrice model None legacy defaults) (\<lambda>price.
        modelsFromLegacy_loop legacy defaults rest
          (AList.update model \<lparr>mc_MaxOutputTokens = None, mc_Price = price\<rparr> models)))"

definition modelsFromLegacy ::
    "string list \<Rightarrow> price_table \<Rightarrow> price_table \<Rightarrow> (string \<times> model_config) list res" where
  "modelsFromLegacy supportedModels legacy defaults = modelsFromLegacy_loop legacy defaults supportedModels []"

definition resolveProviderModels :: "provider_yaml \<Rightarrow> (string \<times> model_config) list res" where
  "resolveProviderModels cfg =
     (if yc_Models cfg \<noteq> [] then
        bindE (yaml_priceTable cfg) (\<lambda>legacy. modelsFromYAML (yc_Models cfg) legacy DefaultPriceTable)
      else if yc_ChatProfiles cfg \<noteq> [] then
        bindE (yaml_priceTable cfg) (\<lambda>legacy. modelsFromYAML (yc_ChatProfiles cfg) legacy DefaultPriceTable)
      else
        let supportedModels = (if yc_SupportedModels cfg = [] then yc_SupportedLegacyModels cfg else yc_SupportedModels cfg)
        in if supportedModels = [] then
             (if yc_PriceTable cfg \<noteq> []
              then Inl (errors_New ''llm.price_table is set but no supported models are configured; migrate to llm.models'')
              else Inr [])
           else bindE (yaml_priceTable cfg) (\<lambda>legacy. modelsFromLegacy supportedModels legacy DefaultPriceTable))"

section \<open>The provider's runtime configuration\<close>

definition resolveProviderEnabled :: "bool option \<Rightarrow> bool" where
  "resolveProviderEnabled enabled = (case enabled of None \<Rightarrow> False | Some b \<Rightarrow> b)"

definition resolveQuoteTTL :: "u64 option \<Rightarrow> u64" where
  "resolveQuoteTTL ttl = (case ttl of None \<Rightarrow> 0 | Some v \<Rightarrow> v)"

definition llmPolicyFromConfig :: "u32 \<Rightarrow> execution_policy res" where
  "llmPolicyFromConfig maxOutputTokens =
     NewFixedExecutionPolicy (if maxOutputTokens = 0 then 4096 else maxOutputTokens)"

definition validateProviderConfig ::
    "provider_config \<Rightarrow> compute_backend_config \<Rightarrow> lnd_config option \<Rightarrow> goerror option" where
  "validateProviderConfig providerCfg backend lndCfg =
     (if \<not> pc_Enabled providerCfg then None
      else if lndCfg = None
      then Some (errors_New ''provider enabled but lnd connection is not configured (set LCPD_LND_RPC_ADDR)'')
      else if backend = BackendDisabled
      then Some (errors_New ''provider enabled but compute backend is disabled (set LCPD_BACKEND or disable provider via LCPD_PROVIDER_ENABLED=0)'')
      else
        let surge = pc_InFlightSurge providerCfg in
        if 0 < sg_PerJobBps surge \<and> sg_MaxMultiplierBps surge \<noteq> 0 \<and> sg_MaxMultiplierBps surge < 10000
        then Some (errors_New (''pricing.in_flight_surge.max_multiplier_bps must be >= 10000, got ''
                     @ show_nat (unat (sg_MaxMultiplierBps surge))))
        else None)"

definition advertisedTasks :: "tlv_lib \<Rightarrow> string \<Rightarrow> task_template list" where
  "advertisedTasks L modelKey =
     (let model = strings_TrimSpace modelKey in
      if model = [] then []
      else
        (case EncodeOpenAIChatCompletionsV1Params L \<lparr>cp_Model = model, cp_Unknown = []\<rparr> of
           Inl err \<Rightarrow> []
         | Inr chatParams \<Rightarrow> [\<lparr>tt_TaskKind = ''openai.chat_completions.v1'', tt_ParamsBytes = Some chatParams\<rparr>])
        @ (case EncodeOpenAIResponsesV1Params L \<lparr>rp_Model = model, rp_Unknown = []\<rparr> of
           Inl err \<Rightarrow> []
         | Inr responsesParams \<Rightarrow> [\<lparr>tt_TaskKind = ''openai.responses.v1'', tt_ParamsBytes = Some responsesParams\<rparr>]))"

definition localManifestForProvider :: "tlv_lib \<Rightarrow> provider_config \<Rightarrow> manifest" where
  "localManifestForProvider L providerCfg =
     (let manifest = \<lparr>mf_ProtocolVersion = ProtocolVersionV02, mf_MaxPayloadBytes = 16384,
            mf_MaxStreamBytes = 4194304, mf_MaxJobBytes = 8388608, mf_MaxInflightJobs = None, mf_SupportedTasks = []\<rparr>
      in if \<not> pc_Enabled providerCfg \<or> pc_Models providerCfg = [] then manifest
         else manifest\<lparr>mf_SupportedTasks :=
                concat (map (advertisedTasks L) (sort_key string_order (map fst (pc_Models providerCfg))))\<rparr>)"

definition providerRuntime ::
    "tlv_lib \<Rightarrow> (string \<Rightarrow> bytes res) \<Rightarrow> (bytes \<Rightarrow> provider_yaml res) \<Rightarrow> grpcd_env \<Rightarrow> compute_backend_config \<Rightarrow>
     lnd_config option \<Rightarrow> (provider_config \<times> execution_policy \<times> manifest) res" where
  "providerRuntime L readFile unmarshal env backend lndCfg =
     bindE (loadProviderYAML readFile unmarshal (ge_ProviderConfigPath env)) (\<lambda>yaml.
     bindE (llmPolicyFromConfig (case yc_MaxOutputTokens yaml of None \<Rightarrow> 4096 | Some v \<Rightarrow> v)) (\<lambda>llmPolicy.
     bindE (resolveProviderModels yaml) (\<lambda>models.
     let providerCfg = \<lparr>pc_Enabled = resolveProviderEnabled (yc_Enabled yaml),
           pc_QuoteTTLSeconds = resolveQuoteTTL (yc_QuoteTTLSeconds yaml),
           pc_InFlightSurge = yc_InFlightSurge yaml, pc_Models = models\<rparr>
     in case validateProviderConfig providerCfg backend lndCfg of
          Some cfgErr \<Rightarrow> Inl cfgErr
        | None \<Rightarrow> Inr (providerCfg, llmPolicy, localManifestForProvider L providerCfg))))"

section \<open>Accepted configurations\<close>

definition priced :: "price_table_entry \<Rightarrow> bool" where
  "priced e \<longleftrightarrow> pe_InputMsatPerMTok e \<noteq> 0 \<and> pe_OutputMsatPerMTok e \<noteq> 0"

text \<open>What the loops keep of the models resolved so far.\<close>

definition model_ok :: "string \<times> model_config \<Rightarrow> bool" where
  "model_ok km \<longleftrightarrow> fst km \<noteq> [] \<and> strings_TrimSpace (fst km) = fst km
     \<and> mc_MaxOutputTokens (snd km) \<noteq> Some 0 \<and> priced (mc_Price (snd km))"

definition models_ok :: "(string \<times> model_config) list \<Rightarrow> bool" where
  "models_ok ms \<longleftrightarrow> gomap_wf ms \<and> list_all model_ok ms"

lemma strings_TrimSpace_idem [simp]: "strings_TrimSpace (strings_TrimSpace s) = strings_TrimSpace s"
proof -
  let ?d = "dropWhile is_space"
  have d: "?d (rev (?d (rev (?d s)))) = rev (?d (rev (?d s)))"
  proof (cases "?d s")
    case Nil
    then show ?thesis by (simp only: rev.simps dropWhile.simps)
  next
    case (Cons c cs)
    then have c: "\<not> is_space c" by (metis hd_dropWhile list.sel(1) list.distinct(1))
    then have "?d (rev (c # cs)) = ?d (rev cs) @ [c] \<or> ?d (rev (c # cs)) = [c]"
      by (auto simp: dropWhile_append)
    then have "\<exists>t. rev (?d (rev (c # cs))) = c # t" by (metis rev.simps(2) rev_rev_ident rev_singleton_conv rev_swap)
    with c Cons show ?thesis by auto
  qed
  then show ?thesis by (simp add: strings_TrimSpace_def) 
qed

lemma update_all: "list_all P ms \<Longrightarrow> P (k, v) \<Longrightarrow> list_all P (AList.update k v ms)"
  by (induction ms) auto

lemma models_ok_update: "models_ok ms \<Longrightarrow> model_ok (k, v) \<Longrightarrow> models_ok (AList.update k v ms)"
  by (simp add: models_ok_def update_all)

lemma priced_default: "map_of DefaultPriceTable model = Some e \<Longrightarrow> priced e"
  by (auto simp: DefaultPriceTable_def priced_def split: if_splits)

lemma priced_yaml_loop:
  "yaml_priceTable_loop ps t = Inr t' \<Longrightarrow> list_all (\<lambda>(k, e). priced e) t \<Longrightarrow> list_all (\<lambda>(k, e). priced e) t'"
  by (induction ps t rule: yaml_priceTable_loop.induct) (auto simp: priced_def update_all split: if_splits)

lemma priced_yaml: "yaml_priceTable c = Inr t \<Longrightarrow> map_of t model = Some e \<Longrightarrow> priced e"
  using priced_yaml_loop [of "yc_PriceTable c" "[]" t]
  by (auto simp: yaml_priceTable_def list_all_iff dest: map_of_SomeD)

lemma resolveModelPrice_priced:
  assumes "resolveModelPrice model p legacy DefaultPriceTable = Inr e" and "\<And>e. map_of legacy model = Some e \<Longrightarrow> priced e"
  shows "priced e"
  using assms priced_default by (auto simp: resolveModelPrice_def priced_def split: option.splits if_splits)

lemma modelsFromYAML_ok:
  assumes "modelsFromYAML_loop legacy DefaultPriceTable cfg ms = Inr ms'" and "models_ok ms"
    and "\<And>m e. map_of legacy m = Some e \<Longrightarrow> priced e"
  shows "models_ok ms'"
  using assms
proof (induction cfg arbitrary: ms)
  case Nil
  then show ?case by simp
next
  case (Cons kp cfg)
  obtain key p where kp: "kp = (key, p)" by force
  define model where "model = (let m = strings_TrimSpace (ym_Model p); m = (if m = [] then strings_TrimSpace (ym_Profile p) else m)
      in if m = [] then strings_TrimSpace key else m)"
  have trim: "strings_TrimSpace model = model" by (simp add: model_def Let_def)
  from Cons.prems(1) obtain price where m: "model \<noteq> []" "ym_MaxOutputTokens p \<noteq> Some 0"
    and price: "resolveModelPrice model (ym_Price p) legacy DefaultPriceTable = Inr price"
    and rest: "modelsFromYAML_loop legacy DefaultPriceTable cfg
      (AList.update model \<lparr>mc_MaxOutputTokens = ym_MaxOutputTokens p, mc_Price = price\<rparr> ms) = Inr ms'"
    by (auto simp: kp model_def Let_def res_simps)
  have "model_ok (model, \<lparr>mc_MaxOutputTokens = ym_MaxOutputTokens p, mc_Price = price\<rparr>)"
    using m trim resolveModelPrice_priced [OF price Cons.prems(3)] by (simp add: model_ok_def)
  from Cons.IH [OF rest models_ok_update [OF Cons.prems(2) this]] Cons.prems(3) show ?case by metis
qed

lemma modelsFromLegacy_ok:
  assumes "modelsFromLegacy_loop legacy DefaultPriceTable names ms = Inr ms'" and "models_ok ms"
    and "\<And>m e. map_of legacy m = Some e \<Longrightarrow> priced e"
  shows "models_ok ms'"
  using assms
proof (induction names arbitrary: ms)
  case Nil
  then show ?case by simp
next
  case (Cons raw names)
  let ?m = "strings_TrimSpace raw"
  from Cons.prems(1) obtain price where m: "?m \<noteq> []"
    and price: "resolveModelPrice ?m None legacy DefaultPriceTable = Inr price"
    and rest: "modelsFromLegacy_loop legacy DefaultPriceTable names
      (AList.update ?m \<lparr>mc_MaxOutputTokens = None, mc_Price = price\<rparr> ms) = Inr ms'"
    by (auto simp: Let_def res_simps)
  have "model_ok (?m, \<lparr>mc_MaxOutputTokens = None, mc_Price = price\<rparr>)"
    using m resolveModelPrice_priced [OF price Cons.prems(3)] by (simp add: model_ok_def)
  from Cons.IH [OF rest models_ok_update [OF Cons.prems(2) this]] Cons.prems(3) show ?case by metis
qed

lemma resolveProviderModels_ok: "resolveProviderModels yaml = Inr ms \<Longrightarrow> models_ok ms"
proof -
  have [simp]: "models_ok []" by (simp add: models_ok_def)
  have table: "\<And>m e. map_of t m = Some e \<Longrightarrow> priced e" if "yaml_priceTable yaml = Inr t" for t
    using priced_yaml [OF that] .
  assume "resolveProviderModels yaml = Inr ms"
  then show ?thesis
    by (auto simp: resolveProviderModels_def modelsFromYAML_def modelsFromLegacy_def Let_def res_simps
        intro: modelsFromYAML_ok modelsFromLegacy_ok dest: table split: if_splits)
qed

lemma llmPolicyFromConfig_pos: "llmPolicyFromConfig n = Inr pol \<Longrightarrow> ep_MaxOutputTokens pol \<noteq> 0"
  by (auto simp: llmPolicyFromConfig_def NewFixedExecutionPolicy_def split: if_splits)

lemma providerRuntime_Inr:
  assumes "providerRuntime L readFile unmarshal env backend lndCfg = Inr (cfg, pol, m)"
  shows "models_ok (pc_Models cfg)" "ep_MaxOutputTokens pol \<noteq> 0" "m = localManifestForProvider L cfg"
    "validateProviderConfig cfg backend lndCfg = None"
proof -
  let ?cfg = "\<lambda>yaml models. \<lparr>pc_Enabled = resolveProviderEnabled (yc_Enabled yaml),
    pc_QuoteTTLSeconds = resolveQuoteTTL (yc_QuoteTTLSeconds yaml), pc_InFlightSurge = yc_InFlightSurge yaml, pc_Models = models\<rparr>"
  from assms obtain yaml models where
    "llmPolicyFromConfig (case yc_MaxOutputTokens yaml of None \<Rightarrow> 4096 | Some v \<Rightarrow> v) = Inr pol"
    and "resolveProviderModels yaml = Inr models"
    and v: "(case validateProviderConfig (?cfg yaml models) backend lndCfg of
       Some cfgErr \<Rightarrow> Inl cfgErr
     | None \<Rightarrow> Inr (?cfg yaml models, pol, localManifestForProvider L (?cfg yaml models))) = Inr (cfg, pol, m)"
    unfolding providerRuntime_def Let_def bindE_Inr_iff by (fastforce split: option.split_asm)
  moreover from v have rest: "validateProviderConfig cfg backend lndCfg = None" "m = localManifestForProvider L cfg"
    "pc_Models cfg = models" by (auto split: option.split_asm)
  ultimately
  show "models_ok (pc_Models cfg)" "ep_MaxOutputTokens pol \<noteq> 0"
    using llmPolicyFromConfig_pos resolveProviderModels_ok by auto
  show "m = localManifestForProvider L cfg" "validateProviderConfig cfg backend lndCfg = None" by (fact rest)+
qed

lemma models_ok_lookup: "models_ok ms \<Longrightarrow> map_of ms model = Some mc \<Longrightarrow> model_ok (model, mc)"
  by (auto simp: models_ok_def list_all_iff dest: map_of_SomeD)

lemma model_has_limit:
  assumes "models_ok (pc_Models cfg)" "ep_MaxOutputTokens pol \<noteq> 0" "map_of (pc_Models cfg) model = Some mc"
  shows "\<exists>v. maxOutputTokensForModel cfg pol model = Inr v \<and> v \<noteq> 0"
  using models_ok_lookup [OF assms(1,3)] assms(2,3)
  by (auto simp: maxOutputTokensForModel_def model_ok_def split: option.splits)

lemma model_has_price:
  assumes "models_ok (pc_Models cfg)" "map_of (pc_Models cfg) model = Some mc"
  shows "\<exists>e. map_of (priceTable cfg) model = Some e \<and> priced e"
proof -
  have ne: "pc_Models cfg \<noteq> []" using assms(2) by auto
  have "map_of (map (\<lambda>(model, mc). (model, (mc_Price mc)\<lparr>pe_Model := model\<rparr>)) ms) model
      = map_option (\<lambda>mc. (mc_Price mc)\<lparr>pe_Model := model\<rparr>) (map_of ms model)" for ms :: "(string \<times> model_config) list"
    by (induction ms) auto
  with ne assms(2) models_ok_lookup [OF assms] show ?thesis
    by (simp add: priceTable_def model_ok_def priced_def)
qed

section \<open>The advertised manifest\<close>

text \<open>A template names a task kind and the parameters of a model.\<close>

definition template_for :: "tlv_lib \<Rightarrow> string \<Rightarrow> task_template \<Rightarrow> bool" where
  "template_for L model t \<longleftrightarrow> (\<exists>p. tt_ParamsBytes t = Some p \<and>
     ((tt_TaskKind t = taskKindOpenAIChatCompletionsV1
         \<and> EncodeOpenAIChatCompletionsV1Params L \<lparr>cp_Model = model, cp_Unknown = []\<rparr> = Inr p)
      \<or> (tt_TaskKind t = taskKindOpenAIResponsesV1
         \<and> EncodeOpenAIResponsesV1Params L \<lparr>rp_Model = model, rp_Unknown = []\<rparr> = Inr p)))"

lemma advertisedTasks_mem:
  assumes "model \<noteq> []" "strings_TrimSpace model = model"
  shows "t \<in> set (advertisedTasks L model) \<longleftrightarrow> template_for L model t"
proof -
  have eq: "t = \<lparr>tt_TaskKind = k, tt_ParamsBytes = p\<rparr> \<longleftrightarrow> tt_TaskKind t = k \<and> tt_ParamsBytes t = p" for k p
    by (cases t) auto
  show ?thesis using assms
    by (auto simp: advertisedTasks_def template_for_def Let_def eq split: sum.splits)
qed

lemma advertised_iff:
  assumes "models_ok (pc_Models cfg)"
  shows "t \<in> set (mf_SupportedTasks (localManifestForProvider L cfg)) \<longleftrightarrow>
    pc_Enabled cfg \<and> (\<exists>model mc. map_of (pc_Models cfg) model = Some mc \<and> template_for L model t)"
proof -
  have dom: "model \<in> fst ` set (pc_Models cfg) \<longleftrightarrow> (\<exists>mc. map_of (pc_Models cfg) model = Some mc)" for model
    by (metis map_of_eq_None_iff not_None_eq)
  have ok: "model \<noteq> []" "strings_TrimSpace model = model" if "map_of (pc_Models cfg) model = Some mc" for model mc
    using models_ok_lookup [OF assms that] by (simp_all add: model_ok_def)
  have "t \<in> set (mf_SupportedTasks (localManifestForProvider L cfg)) \<longleftrightarrow>
    pc_Enabled cfg \<and> pc_Models cfg \<noteq> [] \<and> (\<exists>model \<in> fst ` set (pc_Models cfg). t \<in> set (advertisedTasks L model))"
    by (auto simp: localManifestForProvider_def Let_def)
  also have "\<dots> \<longleftrightarrow> pc_Enabled cfg \<and> pc_Models cfg \<noteq> []
      \<and> (\<exists>model. (\<exists>mc. map_of (pc_Models cfg) model = Some mc) \<and> t \<in> set (advertisedTasks L model))"
    unfolding Bex_def dom by simp
  also have "\<dots> \<longleftrightarrow> pc_Enabled cfg \<and> (\<exists>model mc. map_of (pc_Models cfg) model = Some mc \<and> template_for L model t)"
    using advertisedTasks_mem [OF ok, where t = t and L = L] by (metis map_of.simps(1) option.distinct(1))
  finally show ?thesis .
qed

lemma template_request_valid:
  assumes "tlv_library L" "template_for L model t" "\<forall>p. tt_ParamsBytes t = Some p \<longrightarrow> length p \<le> MaxRecordSize"
    and "qr_TaskKind req = tt_TaskKind t" "qr_ParamsBytes req = tt_ParamsBytes t"
  shows "validateTaskParams L req = None" "modelFromRequest L req = model"
  using assms tlv_library.chat_params_round_trip [OF assms(1)] tlv_library.responses_params_round_trip [OF assms(1)]
  by (auto simp: template_for_def validateTaskParams_def modelFromRequest_def)

lemma template_request_checked:
  assumes L: "tlv_library L" and model: "map_of (pc_Models cfg) model = Some mc"
    and tf: "template_for L model t" and p: "tt_ParamsBytes t = Some p" "length p \<le> MaxRecordSize"
    and req: "qr_TaskKind req = tt_TaskKind t" "qr_ParamsBytes req = tt_ParamsBytes t"
  shows "env_ProtocolVersion (qr_Envelope req) = ProtocolVersionV02 \<Longrightarrow> ValidateQuoteRequest L DefaultValidator req remote = None \<longleftrightarrow>
      (case remote of None \<Rightarrow> True | Some rm \<Rightarrow> mf_SupportedTasks rm = [] \<or> matchesSupportedTemplate req (mf_SupportedTasks rm))"
    and "pe_tlv E = L \<Longrightarrow> pe_cfg E = cfg \<Longrightarrow> rejectQuoteRequestIfUnsupportedModel E now peer req s = (False, s)"
proof -
  note v = template_request_valid [OF L tf _ req]
  have "taskKindSupported DefaultValidator (qr_TaskKind req)"
    using tf req(1) by (auto simp: template_for_def taskKindSupported_def DefaultValidator_def)
  with v p show "env_ProtocolVersion (qr_Envelope req) = ProtocolVersionV02 \<Longrightarrow>
      ValidateQuoteRequest L DefaultValidator req remote = None \<longleftrightarrow>
      (case remote of None \<Rightarrow> True | Some rm \<Rightarrow> mf_SupportedTasks rm = [] \<or> matchesSupportedTemplate req (mf_SupportedTasks rm))"
    by (auto simp: ValidateQuoteRequest_def protocolSupported_def DefaultValidator_def split: option.split)
  show "pe_tlv E = L \<Longrightarrow> pe_cfg E = cfg \<Longrightarrow> rejectQuoteRequestIfUnsupportedModel E now peer req s = (False, s)"
    using tf p req model tlv_library.chat_params_round_trip [OF L] tlv_library.responses_params_round_trip [OF L]
    by (auto simp: template_for_def rejectQuoteRequestIfUnsupportedModel_def Let_def)
qed

section \<open>Properties\<close>

text \<open>
  C16. The manifest a provider advertises is honest about its models and prices. When the
  daemon accepts its configuration, the advertised tasks are exactly the two task kinds of
  each configured model (those whose name can be encoded), and only when the provider is
  enabled. A quote request of protocol version 2 with the kind and the parameters of an
  advertised task passes the model check of a provider with this configuration; it passes
  the validator, which gets the manifest of the requester, exactly when there is none, or it
  lists no tasks, or it lists a template of this request itself; its model has non-zero input
  and output prices in the provider's price table and a non-zero limit of output tokens.
\<close>

theorem advertised_tasks_are_sold:
  assumes "tlv_library L"
    and "providerRuntime L readFile unmarshal env backend lndCfg = Inr (cfg, pol, m)"
  shows "(t \<in> set (mf_SupportedTasks m) \<longleftrightarrow>
      pc_Enabled cfg \<and> (\<exists>model mc. map_of (pc_Models cfg) model = Some mc \<and> template_for L model t))
    \<and> (t \<in> set (mf_SupportedTasks m) \<longrightarrow> tt_ParamsBytes t = Some p \<longrightarrow> length p \<le> MaxRecordSize \<longrightarrow>
        qr_TaskKind req = tt_TaskKind t \<longrightarrow> qr_ParamsBytes req = tt_ParamsBytes t \<longrightarrow>
        env_ProtocolVersion (qr_Envelope req) = ProtocolVersionV02 \<longrightarrow>
        (\<forall>E now peer s. pe_tlv E = L \<and> pe_cfg E = cfg \<longrightarrow> rejectQuoteRequestIfUnsupportedModel E now peer req s = (False, s))
        \<and> (\<forall>remote. ValidateQuoteRequest L DefaultValidator req remote = None \<longleftrightarrow>
             (case remote of None \<Rightarrow> True
              | Some rm \<Rightarrow> mf_SupportedTasks rm = [] \<or> matchesSupportedTemplate req (mf_SupportedTasks rm)))
        \<and> (\<exists>e. map_of (priceTable cfg) (modelFromRequest L req) = Some e
             \<and> pe_InputMsatPerMTok e \<noteq> 0 \<and> pe_OutputMsatPerMTok e \<noteq> 0)
        \<and> (\<exists>v. maxOutputTokensForModel cfg pol (modelFromRequest L req) = Inr v \<and> v \<noteq> 0))"
proof -
  note rt = providerRuntime_Inr [OF assms(2)]
  have iff: "t \<in> set (mf_SupportedTasks m) \<longleftrightarrow>
      pc_Enabled cfg \<and> (\<exists>model mc. map_of (pc_Models cfg) model = Some mc \<and> template_for L model t)"
    unfolding rt(3) by (rule advertised_iff [OF rt(1)])
  have "(\<exists>model mc. map_of (pc_Models cfg) model = Some mc \<and> template_for L model t)
      \<and> (\<exists>e. map_of (priceTable cfg) (modelFromRequest L req) = Some e \<and> priced e)
      \<and> (\<exists>v. maxOutputTokensForModel cfg pol (modelFromRequest L req) = Inr v \<and> v \<noteq> 0)"
    if "t \<in> set (mf_SupportedTasks m)" and p: "tt_ParamsBytes t = Some p" "length p \<le> MaxRecordSize"
      and req: "qr_TaskKind req = tt_TaskKind t" "qr_ParamsBytes req = tt_ParamsBytes t"
  proof -
    from that(1) iff obtain model mc where model: "map_of (pc_Models cfg) model = Some mc" "template_for L model t" by blast
    with p template_request_valid(2) [OF assms(1) model(2) _ req] model_has_price [OF rt(1) model(1)]
      model_has_limit [OF rt(1,2) model(1)] show ?thesis by auto
  qed
  with iff template_request_checked [OF assms(1)] show ?thesis unfolding priced_def by blast
qed

text \<open>A provider with one model, read from a file that any path holds.\<close>

definition sample_yaml :: provider_yaml where
  "sample_yaml = emptyProviderYAML\<lparr>yc_Enabled := Some True,
     yc_Models := [(''m'', \<lparr>ym_Model = [], ym_Profile = [], ym_MaxOutputTokens = None,
       ym_Price = Some \<lparr>yp_InputMsatPerMTok = 2, yp_CachedInputMsatPerMTok = None, yp_OutputMsatPerMTok = 3\<rparr>\<rparr>)]\<rparr>"

definition sample_grpcd_env :: grpcd_env where
  "sample_grpcd_env = \<lparr>ge_LogLevel = [], ge_Backend = ''deterministic'', ge_OpenAIAPIKey = [], ge_OpenAIAPIKeyV0 = [],
     ge_OpenAIBaseURL = [], ge_DeterministicB64 = [], ge_ProviderConfigPath = ''p''\<rparr>"

definition sample_lnd_config :: lnd_config where
  "sample_lnd_config = \<lparr>lc_RPCAddr = ''h:1'', lc_TLSCertPath = [], lc_AdminMacaroonPath = [], lc_ManifestResendInterval = None\<rparr>"

definition sample_provider_config :: provider_config where
  "sample_provider_config = \<lparr>pc_Enabled = True, pc_QuoteTTLSeconds = 0,
     pc_InFlightSurge = \<lparr>sg_Threshold = 0, sg_PerJobBps = 0, sg_MaxMultiplierBps = 0\<rparr>,
     pc_Models = [(''m'', \<lparr>mc_MaxOutputTokens = None, mc_Price = \<lparr>pe_Model = ''m'', pe_InputMsatPerMTok = 2,
       pe_CachedInputMsatPerMTok = None, pe_OutputMsatPerMTok = 3\<rparr>\<rparr>)]\<rparr>"

lemma sample_runtime:
  "providerRuntime bolt_lib (\<lambda>path. Inr []) (\<lambda>b. Inr sample_yaml) sample_grpcd_env (BackendDeterministic [1])
     (Some sample_lnd_config) = Inr (sample_provider_config, \<lparr>ep_MaxOutputTokens = 4096\<rparr>,
       localManifestForProvider bolt_lib sample_provider_config)"
proof -
  have trim: "strings_TrimSpace [] = []" "strings_TrimSpace ''m'' = ''m''" "strings_TrimSpace ''p'' = ''p''" by code_simp+
  show ?thesis
    by (simp add: providerRuntime_def loadProviderYAML_def sample_grpcd_env_def sample_yaml_def emptyProviderYAML_def trim
        llmPolicyFromConfig_def NewFixedExecutionPolicy_def resolveProviderModels_def yaml_priceTable_def
        modelsFromYAML_def resolveModelPrice_def validateProviderConfig_def resolveProviderEnabled_def
        resolveQuoteTTL_def sample_provider_config_def Let_def)
qed

theorem advertised_tasks_are_sold_witness:
  "\<exists>p. EncodeOpenAIChatCompletionsV1Params bolt_lib \<lparr>cp_Model = ''m'', cp_Unknown = []\<rparr> = Inr p
     \<and> \<lparr>tt_TaskKind = taskKindOpenAIChatCompletionsV1, tt_ParamsBytes = Some p\<rparr>
         \<in> set (mf_SupportedTasks (localManifestForProvider bolt_lib sample_provider_config))
     \<and> (let req = sample_request\<lparr>qr_TaskKind := taskKindOpenAIChatCompletionsV1, qr_ParamsBytes := Some p\<rparr> in
         ValidateQuoteRequest bolt_lib DefaultValidator req None = None
         \<and> ValidateQuoteRequest bolt_lib DefaultValidator req
             (Some (defaultLocalManifest\<lparr>mf_SupportedTasks := [\<lparr>tt_TaskKind = ''other'', tt_ParamsBytes = None\<rparr>]\<rparr>)) \<noteq> None)"
proof -
  have "fits (EncodeOpenAIChatCompletionsV1Params bolt_lib \<lparr>cp_Model = ''m'', cp_Unknown = []\<rparr>)" by code_simp
  from fits_Inr [OF this] obtain p where p: "EncodeOpenAIChatCompletionsV1Params bolt_lib \<lparr>cp_Model = ''m'', cp_Unknown = []\<rparr> = Inr p"
    "length p \<le> MaxRecordSize" by blast
  let ?t = "\<lparr>tt_TaskKind = taskKindOpenAIChatCompletionsV1, tt_ParamsBytes = Some p\<rparr>"
    and ?req = "sample_request\<lparr>qr_TaskKind := taskKindOpenAIChatCompletionsV1, qr_ParamsBytes := Some p\<rparr>"
    and ?rm = "defaultLocalManifest\<lparr>mf_SupportedTasks := [\<lparr>tt_TaskKind = ''other'', tt_ParamsBytes = None\<rparr>]\<rparr>"
  have "template_for bolt_lib ''m'' ?t" using p by (simp add: template_for_def)
  note sold = advertised_tasks_are_sold [OF bolt.tlv_library_axioms sample_runtime, of ?t p ?req]
  have t: "?t \<in> set (mf_SupportedTasks (localManifestForProvider bolt_lib sample_provider_config))"
    using sold \<open>template_for bolt_lib ''m'' ?t\<close> by (auto simp: sample_provider_config_def split: if_splits)
  with sold p have "\<forall>remote. ValidateQuoteRequest bolt_lib DefaultValidator ?req remote = None \<longleftrightarrow>
      (case remote of None \<Rightarrow> True | Some rm \<Rightarrow> mf_SupportedTasks rm = [] \<or> matchesSupportedTemplate ?req (mf_SupportedTasks rm))"
    by (simp add: sample_request_def sample_envelope_def)
  from this [THEN spec, of None] this [THEN spec, of "Some ?rm"] p(1) t show ?thesis
    by (simp add: Let_def matchesSupportedTemplate_def matchesTemplate_def)
qed

text \<open>
  A provider without configured models prices, and so accepts, the models of the default
  price table only.
\<close>

lemma no_models_means_default_models:
  assumes "pc_Models cfg = []" and "quotePrice L J cfg pol inFlight req inp = Inr b"
  shows "modelFromRequest L req = ''gpt-5.2''"
proof -
  from assms(2) obtain planned policy model streaming es base where
    plan: "planTask L J cfg pol req inp = Inr (planned, policy, model, streaming)"
    and base: "QuotePrice model es 0 (priceTable cfg) = Inr base"
    by (auto simp: quotePrice_def res_simps)
  from base assms(1) have "model = ''gpt-5.2''"
    by (auto simp: QuotePrice_def priceFromTokens_def priceTable_def DefaultPriceTable_def split: if_splits)
  with planTask_Inr [OF plan] show ?thesis by simp
qed

end
