(* ===== verification/Gateway_Config.thy ===== *)
theory Gateway_Config
  imports Provider_Config
begin

text \<open>
  The settings of the OpenAI-compatible gateway, \<^verbatim>\<open>apps/openai-serve/internal/config/config.go\<close>:
  comma-separated sets, the map from models to peers, and the checks of the configuration.
  The lemmas show that every peer id of an accepted configuration is a trimmed public key.
\<close>

section \<open>Text\<close>

fun strings_Split :: "char \<Rightarrow> string \<Rightarrow> string list" where
  "strings_Split sep [] = [[]]"
| "strings_Split sep (c # s) =
     (if c = sep then [] # strings_Split sep s
      else (case strings_Split sep s of [] \<Rightarrow> [[c]] | w # ws \<Rightarrow> (c # w) # ws))"

definition strings_Cut :: "char \<Rightarrow> string \<Rightarrow> (string \<times> string) option" where
  "strings_Cut sep s =
     (case dropWhile (\<lambda>c. c \<noteq> sep) s of
        [] \<Rightarrow> None
      | _ # after \<Rightarrow> Some (takeWhile (\<lambda>c. c \<noteq> sep) s, after))"

text \<open>\<^verbatim>\<open>net.SplitHostPort\<close>: the host and the port, or why the address is refused.\<close>

definition lastColon :: "string \<Rightarrow> nat option" where
  "lastColon s = (if CHR 0x3A \<in> set s then Some (length s - 1 - length (takeWhile (\<lambda>c. c \<noteq> CHR 0x3A) (rev s))) else None)"

definition addrErr :: "string \<Rightarrow> string \<Rightarrow> goerror" where
  "addrErr addr why = errors_New (''address '' @ addr @ '': '' @ why)"

definition net_SplitHostPort :: "string \<Rightarrow> (string \<times> string) res" where
  "net_SplitHostPort hostport =
     (case lastColon hostport of
        None \<Rightarrow> Inl (addrErr hostport ''missing port in address'')
      | Some i \<Rightarrow>
          bindE
            (if hd hostport = CHR ''['' then
               (if CHR '']'' \<notin> set hostport then Inl (addrErr hostport ''missing ']' in address'')
                else
                  let close = length (takeWhile (\<lambda>c. c \<noteq> CHR '']'') hostport) in
                  if close + 1 = length hostport then Inl (addrErr hostport ''missing port in address'')
                  else if close + 1 = i then Inr (take (close - 1) (drop 1 hostport), 1 :: nat, close + 1)
                  else if hostport ! (close + 1) = CHR 0x3A then Inl (addrErr hostport ''too many colons in address'')
                  else Inl (addrErr hostport ''missing port in address''))
             else if CHR 0x3A \<in> set (take i hostport) then Inl (addrErr hostport ''too many colons in address'')
             else Inr (take i hostport, 0, 0))
            (\<lambda>(host, j, k).
              if CHR ''['' \<in> set (drop j hostport) then Inl (addrErr hostport ''unexpected '[' in address'')
              else if CHR '']'' \<in> set (drop k hostport) then Inl (addrErr hostport ''unexpected ']' in address'')
              else Inr (host, drop (i + 1) hostport)))"

section \<open>Configuration\<close>

text \<open>A Go set is a list of its elements; durations are in nanoseconds.\<close>

record serve_config =
  gw_HTTPAddr :: string
  gw_LCPDGRPCAddr :: string
  gw_APIKeys :: "string list"
  gw_DefaultPeerID :: string
  gw_ModelMap :: "(string \<times> string) list"
  gw_ModelAllowlist :: "string list"
  gw_AllowUnlistedModels :: bool
  gw_MaxPriceMsat :: u64
  gw_TimeoutQuote :: int
  gw_TimeoutExecute :: int
  gw_LogLevel :: string

record serve_env =
  se_HTTPAddr :: string
  se_LCPDGRPCAddr :: string
  se_LogLevel :: string
  se_APIKeys :: string
  se_DefaultPeerID :: string
  se_ModelMap :: string
  se_ModelAllowlist :: string
  se_AllowUnlistedModels :: bool
  se_MaxPriceMsat :: u64
  se_TimeoutQuote :: int
  se_TimeoutExecute :: int

definition parseCSVSet :: "string \<Rightarrow> string list" where
  "parseCSVSet s =
     fold (\<lambda>part out. let v = strings_TrimSpace part in if v = [] then out else List.insert v out)
       (strings_Split CHR '','' s) []"

definition validatePeerID :: "string \<Rightarrow> goerror option" where
  "validatePeerID raw =
     (let peerID = strings_TrimSpace raw in
      if peerID = [] then Some (errors_New ''peer_id is empty'')
      else if length peerID \<noteq> 66
      then Some (errors_New (''peer_id must be 66 hex chars (got '' @ show_nat (length peerID) @ '')''))
      else (case hex_DecodeString peerID of
        Inl err \<Rightarrow> Some (errors_New ''peer_id must be hex'')
      | Inr decoded \<Rightarrow>
          if length decoded \<noteq> 33
          then Some (errors_New (''peer_id must be 33 bytes (got '' @ show_nat (length decoded) @ '')''))
          else None))"

fun parseModelMap_loop :: "string list \<Rightarrow> (string \<times> string) list \<Rightarrow> (string \<times> string) list res" where
  "parseModelMap_loop [] out = Inr out"
| "parseModelMap_loop (raw # parts) out =
     (let part = strings_TrimSpace raw in
      if part = [] then parseModelMap_loop parts out
      else (case strings_Cut CHR ''='' part of
        None \<Rightarrow> Inl (errors_New (''expected 'model=peer_id' entries separated by ';': '' @ strconv_Quote part))
      | Some (m, p) \<Rightarrow>
          let model = strings_TrimSpace m; peer = strings_TrimSpace p in
          if model = [] then Inl (errors_New (''empty model in entry '' @ strconv_Quote part))
          else (case validatePeerID peer of
            Some err \<Rightarrow> Inl (wrapf (''peer_id for model '' @ strconv_Quote model) err)
          | None \<Rightarrow> parseModelMap_loop parts (AList.update model peer out))))"

definition parseModelMap :: "string \<Rightarrow> (string \<times> string) list res" where
  "parseModelMap s = parseModelMap_loop (strings_Split CHR '';'' s) []"

definition validateConfig :: "serve_config \<Rightarrow> goerror option" where
  "validateConfig cfg =
     (if strings_TrimSpace (gw_HTTPAddr cfg) = [] then Some (errors_New ''OPENAI_SERVE_HTTP_ADDR is required'')
      else if strings_TrimSpace (gw_LCPDGRPCAddr cfg) = [] then Some (errors_New ''OPENAI_SERVE_LCPD_GRPC_ADDR is required'')
      else (case net_SplitHostPort (gw_HTTPAddr cfg) of
        Inl err \<Rightarrow> Some (wrapf ''OPENAI_SERVE_HTTP_ADDR must be host:port'' err)
      | Inr hp \<Rightarrow>
          if gw_TimeoutQuote cfg \<le> 0 then Some (errors_New ''OPENAI_SERVE_TIMEOUT_QUOTE must be > 0'')
          else if gw_TimeoutExecute cfg \<le> 0 then Some (errors_New ''OPENAI_SERVE_TIMEOUT_EXECUTE must be > 0'')
          else None))"

text \<open>A setting that is empty after trimming keeps its default.\<close>

definition orDefault :: "string \<Rightarrow> string \<Rightarrow> string" where
  "orDefault v d = (let t = strings_TrimSpace v in if t \<noteq> [] then t else d)"

definition loadDefaultPeerID :: "serve_env \<Rightarrow> string res" where
  "loadDefaultPeerID env =
     (let v = strings_TrimSpace (se_DefaultPeerID env) in
      if v = [] then Inr []
      else (case validatePeerID v of
        Some err \<Rightarrow> Inl (wrapf ''OPENAI_SERVE_DEFAULT_PEER_ID'' err)
      | None \<Rightarrow> Inr v))"

definition loadModelMap :: "serve_env \<Rightarrow> (string \<times> string) list res" where
  "loadModelMap env =
     (let v = strings_TrimSpace (se_ModelMap env) in
      if v = [] then Inr [] else mapErr (wrapf ''OPENAI_SERVE_MODEL_MAP'') (parseModelMap v))"

definition LoadFromEnv :: "serve_env res \<Rightarrow> serve_config res" where
  "LoadFromEnv processed =
     bindE (mapErr (wrapf ''process env'') processed) (\<lambda>env.
     bindE (loadDefaultPeerID env) (\<lambda>defaultPeerID.
     bindE (loadModelMap env) (\<lambda>modelMap.
     let keys = strings_TrimSpace (se_APIKeys env);
         allow = strings_TrimSpace (se_ModelAllowlist env);
         cfg = \<lparr>gw_HTTPAddr = orDefault (se_HTTPAddr env) ''127.0.0.1:8080'',
           gw_LCPDGRPCAddr = orDefault (se_LCPDGRPCAddr env) ''127.0.0.1:50051'',
           gw_APIKeys = (if keys \<noteq> [] then parseCSVSet keys else []),
           gw_DefaultPeerID = defaultPeerID, gw_ModelMap = modelMap,
           gw_ModelAllowlist = (if allow \<noteq> [] then parseCSVSet allow else []),
           gw_AllowUnlistedModels = se_AllowUnlistedModels env, gw_MaxPriceMsat = se_MaxPriceMsat env,
           gw_TimeoutQuote = (if 0 < se_TimeoutQuote env then se_TimeoutQuote env else 5000000000),
           gw_TimeoutExecute = (if 0 < se_TimeoutExecute env then se_TimeoutExecute env else 120000000000),
           gw_LogLevel = orDefault (se_LogLevel env) ''info''\<rparr>
     in (case validateConfig cfg of Some err \<Rightarrow> Inl err | None \<Rightarrow> Inr cfg))))"

section \<open>Accepted configurations\<close>

definition trimmed_values :: "(string \<times> string) list \<Rightarrow> bool" where
  "trimmed_values m \<longleftrightarrow> list_all (\<lambda>kp. strings_TrimSpace (snd kp) = snd kp) m"

lemma parseModelMap_loop_trimmed: "parseModelMap_loop parts out = Inr m \<Longrightarrow> trimmed_values out \<Longrightarrow> trimmed_values m"
proof (induction parts arbitrary: out)
  case Nil
  then show ?case by simp
next
  case (Cons raw parts)
  have "trimmed_values (AList.update k (strings_TrimSpace v) out)" for k v
    using Cons.prems(2) by (simp add: trimmed_values_def update_all)
  then show ?case
    using Cons by (simp add: Let_def split: if_splits option.splits prod.splits)
qed

lemma LoadFromEnv_parts:
  assumes "LoadFromEnv e = Inr cfg"
  shows "\<exists>env. loadDefaultPeerID env = Inr (gw_DefaultPeerID cfg) \<and> loadModelMap env = Inr (gw_ModelMap cfg)"
  using assms unfolding LoadFromEnv_def Let_def bindE_Inr_iff by (auto split: option.split_asm)

lemma LoadFromEnv_trimmed:
  assumes "LoadFromEnv e = Inr cfg"
  shows "strings_TrimSpace (gw_DefaultPeerID cfg) = gw_DefaultPeerID cfg"
    and "map_of (gw_ModelMap cfg) model = Some p \<Longrightarrow> strings_TrimSpace p = p"
proof -
  obtain env where env: "loadDefaultPeerID env = Inr (gw_DefaultPeerID cfg)" "loadModelMap env = Inr (gw_ModelMap cfg)"
    using LoadFromEnv_parts [OF assms] by blast
  have "gw_DefaultPeerID cfg = strings_TrimSpace (se_DefaultPeerID env)"
    using env(1) by (auto simp: loadDefaultPeerID_def Let_def split: if_splits option.splits)
  then show "strings_TrimSpace (gw_DefaultPeerID cfg) = gw_DefaultPeerID cfg" by simp
  have "trimmed_values (gw_ModelMap cfg)"
  proof (cases "strings_TrimSpace (se_ModelMap env) = []")
    case True
    then show ?thesis using env(2) by (simp add: loadModelMap_def trimmed_values_def)
  next
    case False
    then have "parseModelMap_loop (strings_Split CHR '';'' (strings_TrimSpace (se_ModelMap env))) [] = Inr (gw_ModelMap cfg)"
      using env(2) by (simp add: loadModelMap_def parseModelMap_def Let_def mapErr_Inr_iff)
    from parseModelMap_loop_trimmed [OF this] show ?thesis by (simp add: trimmed_values_def)
  qed
  then have all: "\<forall>kp \<in> set (gw_ModelMap cfg). strings_TrimSpace (snd kp) = snd kp"
    unfolding trimmed_values_def list_all_iff .
  assume "map_of (gw_ModelMap cfg) model = Some p"
  from bspec [OF all map_of_SomeD [OF this]] show "strings_TrimSpace p = p" by simp
qed

text \<open>
  A list of keys that holds separators and white space only is taken for no list at all:
  authentication is then switched off.
\<close>

lemma blank_key_list_disables_auth: "parseCSVSet '' , ,'' = []"
  by code_simp

end
