(* ===== verification/Gateway.thy ===== *)
theory Gateway
  imports Gateway_Config
begin

text \<open>
  The OpenAI-compatible gateway, \<^verbatim>\<open>apps/openai-serve/internal/httpapi\<close>: authentication, the
  decoding of requests, the choice of a peer, the price limit, the two ways of executing a
  job and the HTTP responses. The gateway is a client of the service of \<open>Grpc_Service\<close>; what
  the calls return, the request context and the HTTP writer are parameters. The lemmas show
  that the gateway spends money only as it is configured to, and that it relays the output of
  a job unchanged.
\<close>

section \<open>Errors of the client\<close>

datatype client_code =
    CcOK | CcCanceled | CcUnknown | CcInvalidArgument | CcDeadlineExceeded | CcNotFound | CcAlreadyExists
  | CcPermissionDenied | CcResourceExhausted | CcFailedPrecondition | CcAborted | CcOutOfRange
  | CcUnimplemented | CcInternal | CcUnavailable | CcDataLoss | CcUnauthenticated | CcOther

text \<open>A status error has a code, a message and the text of the error; any other error has its text.\<close>

datatype client_error =
    StatusErr client_code string string
  | PlainErr string

fun httpStatusFromGRPC :: "client_error \<Rightarrow> nat" where
  "httpStatusFromGRPC (PlainErr t) = 500"
| "httpStatusFromGRPC (StatusErr c m t) =
     (case c of
        CcOK \<Rightarrow> 200 | CcCanceled \<Rightarrow> 408 | CcUnknown \<Rightarrow> 500 | CcInvalidArgument \<Rightarrow> 400 | CcNotFound \<Rightarrow> 400
      | CcAlreadyExists \<Rightarrow> 409 | CcPermissionDenied \<Rightarrow> 403 | CcFailedPrecondition \<Rightarrow> 400 | CcAborted \<Rightarrow> 409
      | CcOutOfRange \<Rightarrow> 400 | CcUnimplemented \<Rightarrow> 501 | CcInternal \<Rightarrow> 500 | CcDataLoss \<Rightarrow> 500
      | CcUnauthenticated \<Rightarrow> 401 | CcResourceExhausted \<Rightarrow> 429 | CcDeadlineExceeded \<Rightarrow> 504 | CcUnavailable \<Rightarrow> 502
      | CcOther \<Rightarrow> 500)"

fun grpcErrMessage :: "client_error \<Rightarrow> string" where
  "grpcErrMessage (PlainErr t) = t"
| "grpcErrMessage (StatusErr c m t) = (if m \<noteq> [] then m else t)"

section \<open>Requests, responses and environment\<close>

text \<open>
  The body is what reading it yields: pieces and then the end or an error. A header that is
  missing is the empty string.
\<close>

record http_request =
  hq_Method :: string
  hq_Path :: string
  hq_Authorization :: string
  hq_ContentEncoding :: string
  hq_Body :: reader

datatype body_part =
    PartBytes bytes
  | PartError string string
  | PartModels "string list"

record http_response =
  hp_Status :: nat
  hp_Headers :: "(string \<times> string) list"
  hp_Body :: "body_part list"

datatype gateway_event =
    GwListPeers
  | GwQuote request_quote_request
  | GwAccept accept_and_execute_request
  | GwAcceptStream accept_and_execute_request
  | GwCancel cancel_job_request

record gateway =
  gx_trace :: "gateway_event list"
  gx_resp :: http_response

record serve_chat_request =
  sq_Model :: string
  sq_Messages :: "bytes list"
  sq_Stream :: "bool option"

record serve_responses_request =
  sp_Model :: string
  sp_Input :: bytes
  sp_Stream :: "bool option"

text \<open>The messages of a result stream and how the stream ends (\<open>None\<close> is \<^verbatim>\<open>io.EOF\<close>).\<close>

datatype stream_msg =
    MsgBegin "(string \<times> string) option"
  | MsgChunk "bytes option"
  | MsgEnd
  | MsgResult "proto_result option"
  | MsgOther

type_synonym result_stream = "stream_msg list \<times> client_error option"

record gateway_env =
  ge_cfg :: serve_config
  ge_jsonChat :: "bytes \<Rightarrow> serve_chat_request res"
  ge_jsonResponses :: "bytes \<Rightarrow> serve_responses_request res"
  ge_listPeers :: "nat \<Rightarrow> client_error + proto_peer list"
  ge_requestQuote :: "nat \<Rightarrow> request_quote_request \<Rightarrow> client_error + proto_terms option"
  ge_acceptAndExecute :: "nat \<Rightarrow> accept_and_execute_request \<Rightarrow> client_error + proto_result option"
  ge_acceptAndExecuteStream :: "nat \<Rightarrow> accept_and_execute_request \<Rightarrow> client_error + result_stream"
  ge_requestCtx :: "nat \<Rightarrow> ctx_state"
  ge_write :: "nat \<Rightarrow> bytes \<Rightarrow> nat \<times> string option"

section \<open>Writing (respond.go)\<close>

definition c_Header :: "string \<Rightarrow> string \<Rightarrow> gateway \<Rightarrow> gateway" where
  "c_Header k v s = s\<lparr>gx_resp := (gx_resp s)\<lparr>hp_Headers := AList.update k v (hp_Headers (gx_resp s))\<rparr>\<rparr>"

definition writeBody :: "nat \<Rightarrow> body_part \<Rightarrow> gateway \<Rightarrow> gateway" where
  "writeBody status part s =
     s\<lparr>gx_resp := (gx_resp s)\<lparr>hp_Status := status, hp_Body := hp_Body (gx_resp s) @ [part]\<rparr>\<rparr>"

definition writeOpenAIError :: "nat \<Rightarrow> string \<Rightarrow> string \<Rightarrow> gateway \<Rightarrow> gateway" where
  "writeOpenAIError status typ message = writeBody status (PartError typ message)"

definition writeGRPCError :: "client_error \<Rightarrow> gateway \<Rightarrow> gateway" where
  "writeGRPCError err = writeOpenAIError (httpStatusFromGRPC err) ''server_error'' (grpcErrMessage err)"

definition badRequest :: "string \<Rightarrow> gateway \<Rightarrow> gateway" where
  "badRequest msg = writeOpenAIError 400 ''invalid_request_error'' msg"

definition gwCall :: "gateway_event \<Rightarrow> gateway \<Rightarrow> gateway" where
  "gwCall e s = s\<lparr>gx_trace := gx_trace s @ [e]\<rparr>"

abbreviation gwPos :: "gateway \<Rightarrow> nat" where
  "gwPos s \<equiv> length (gx_trace s)"

section \<open>Authentication (middleware\_auth.go)\<close>

definition bearerToken :: "string \<Rightarrow> string option" where
  "bearerToken headerValue =
     (let v = strings_TrimSpace headerValue in
      if v = [] then None
      else if take 7 (strings_ToLower v) \<noteq> ''bearer '' then None
      else
        let token = strings_TrimSpace (drop 7 v) in
        if token = [] then None else Some token)"

definition unauthorized :: "string \<Rightarrow> gateway \<Rightarrow> gateway" where
  "unauthorized msg s =
     writeOpenAIError 401 ''invalid_request_error'' msg
       (c_Header ''WWW-Authenticate'' ''Bearer realm=\"openai-serve\"'' s)"

definition authMiddleware ::
    "serve_config \<Rightarrow> http_request \<Rightarrow> (gateway \<Rightarrow> gateway) \<Rightarrow> gateway \<Rightarrow> gateway" where
  "authMiddleware cfg req next s =
     (if gw_APIKeys cfg = [] then next s
      else (case bearerToken (hq_Authorization req) of
        None \<Rightarrow> unauthorized ''missing bearer token'' s
      | Some token \<Rightarrow>
          if token \<notin> set (gw_APIKeys cfg) then unauthorized ''invalid api key'' s
          else next s))"

section \<open>Decoding (request\_decode.go, request\_json.go)\<close>

abbreviation maxRequestBodyBytes :: nat where "maxRequestBodyBytes \<equiv> 1048576"

datatype body_error = BodyTooLarge | BodyReadError string

text \<open>\<^verbatim>\<open>http.MaxBytesReader\<close> yields at most the limit and then fails.\<close>

definition readRequestBodyBytes :: "reader \<Rightarrow> body_error + bytes" where
  "readRequestBodyBytes body =
     (let b = concat (fst body) in
      if maxRequestBodyBytes < length b then Inl BodyTooLarge
      else (case snd body of None \<Rightarrow> Inr b | Some err \<Rightarrow> Inl (BodyReadError (error_text err))))"

definition trimJSONPrefix :: "string \<Rightarrow> string" where
  "trimJSONPrefix msg = (if take 6 msg = ''json: '' then drop 6 msg else msg)"

definition decodeJSONRequest :: "(bytes \<Rightarrow> 'a res) \<Rightarrow> http_request \<Rightarrow> gateway \<Rightarrow> (bytes \<times> 'a) option \<times> gateway" where
  "decodeJSONRequest unmarshal req s =
     (let enc = strings_TrimSpace (hq_ContentEncoding req) in
      if enc \<noteq> [] \<and> \<not> strings_EqualFold enc contentEncodingIdentity
      then (None, writeOpenAIError 415 ''invalid_request_error''
                    (''unsupported Content-Encoding: '' @ strconv_Quote enc @ '' (only \"identity\" is supported)'') s)
      else (case readRequestBodyBytes (hq_Body req) of
        Inl BodyTooLarge \<Rightarrow> (None, writeOpenAIError 413 ''invalid_request_error'' ''request body too large'' s)
      | Inl (BodyReadError t) \<Rightarrow> (None, badRequest t s)
      | Inr body \<Rightarrow> (case unmarshal body of
          Inl err \<Rightarrow> (None, badRequest (trimJSONPrefix (error_text err)) s)
        | Inr parsed \<Rightarrow> (Some (body, parsed), s))))"

definition validateModelField :: "string \<Rightarrow> gateway \<Rightarrow> bool \<times> gateway" where
  "validateModelField model s =
     (let trimmed = strings_TrimSpace model in
      if trimmed = [] then (False, badRequest ''model is required'' s)
      else if trimmed \<noteq> model then (False, badRequest ''model must not have leading/trailing whitespace'' s)
      else (True, s))"

definition decodeAndValidateChatRequest ::
    "gateway_env \<Rightarrow> http_request \<Rightarrow> gateway \<Rightarrow> (bytes \<times> serve_chat_request) option \<times> gateway" where
  "decodeAndValidateChatRequest E req s =
     (case decodeJSONRequest (ge_jsonChat E) req s of
        (None, s1) \<Rightarrow> (None, s1)
      | (Some (body, parsed), s1) \<Rightarrow>
          (case validateModelField (sq_Model parsed) s1 of
             (False, s2) \<Rightarrow> (None, s2)
           | (True, s2) \<Rightarrow>
               if sq_Messages parsed = [] then (None, badRequest ''messages is required'' s2)
               else (Some (body, parsed), s2)))"

definition decodeAndValidateResponsesRequest ::
    "gateway_env \<Rightarrow> http_request \<Rightarrow> gateway \<Rightarrow> (bytes \<times> serve_responses_request) option \<times> gateway" where
  "decodeAndValidateResponsesRequest E req s =
     (case decodeJSONRequest (ge_jsonResponses E) req s of
        (None, s1) \<Rightarrow> (None, s1)
      | (Some (body, parsed), s1) \<Rightarrow>
          (case validateModelField (sp_Model parsed) s1 of
             (False, s2) \<Rightarrow> (None, s2)
           | (True, s2) \<Rightarrow>
               let input = bytes_TrimSpace (sp_Input parsed) in
               if input = [] \<or> input = string_bytes ''null'' then (None, badRequest ''input is required'' s2)
               else (Some (body, parsed), s2)))"

section \<open>Routing (routing.go)\<close>

definition collectModelsFromPeersForKind :: "proto_peer list \<Rightarrow> string \<Rightarrow> string list" where
  "collectModelsFromPeersForKind peers kind =
     fold (\<lambda>tmpl out.
         if tp_Kind tmpl \<noteq> kind then out
         else
           let model = strings_TrimSpace (tp_Model tmpl) in
           if model = [] then out else List.insert model out)
       (concat (map (\<lambda>p. pm_SupportedTasks (pp_RemoteManifest p)) peers)) []"

definition collectModelsFromPeersForKinds :: "proto_peer list \<Rightarrow> string list \<Rightarrow> string list" where
  "collectModelsFromPeersForKinds peers kinds =
     fold (\<lambda>kind out. fold List.insert (collectModelsFromPeersForKind peers kind) out) kinds []"

definition discoverModels :: "gateway_env \<Rightarrow> gateway \<Rightarrow> (client_error + string list) \<times> gateway" where
  "discoverModels E s =
     (if gw_ModelAllowlist (ge_cfg E) \<noteq> [] then (Inr (gw_ModelAllowlist (ge_cfg E)), s)
      else
        (case ge_listPeers E (gwPos s) of
           Inl err \<Rightarrow> Inl err
         | Inr peers \<Rightarrow> Inr (collectModelsFromPeersForKinds peers [taskKindOpenAIChatCompletionsV1, taskKindOpenAIResponsesV1]),
         gwCall GwListPeers s))"

definition validateModelForTaskKind :: "serve_config \<Rightarrow> string \<Rightarrow> string \<Rightarrow> proto_peer list \<Rightarrow> string option" where
  "validateModelForTaskKind cfg rawModel taskKind peers =
     (let model = strings_TrimSpace rawModel in
      if model = [] then Some ''model is required''
      else if gw_ModelAllowlist cfg \<noteq> [] then
        (if model \<in> set (gw_ModelAllowlist cfg) \<or> gw_AllowUnlistedModels cfg then None
         else Some (''model is not allowed: '' @ strconv_Quote model
                @ '' (set OPENAI_SERVE_MODEL_ALLOWLIST or OPENAI_SERVE_ALLOW_UNLISTED_MODELS=true)''))
      else
        let discovered = collectModelsFromPeersForKind peers taskKind in
        if discovered = [] then None
        else if model \<in> set discovered \<or> gw_AllowUnlistedModels cfg then None
        else Some (''model is not advertised by any connected LCP peer: '' @ strconv_Quote model))"

definition peerInList :: "proto_peer list \<Rightarrow> string \<Rightarrow> bool" where
  "peerInList peers rawID =
     (let peerID = strings_TrimSpace rawID in
      peerID \<noteq> [] \<and> list_ex (\<lambda>p. pp_PeerId p = peerID) peers)"

text \<open>\<open>None\<close>: this rule does not apply; \<open>Some\<close>: the peer it chooses, or its error.\<close>

definition resolvePeerIDFromModelMap ::
    "serve_config \<Rightarrow> string \<Rightarrow> proto_peer list \<Rightarrow> (string + string) option" where
  "resolvePeerIDFromModelMap cfg model peers =
     (case map_of (gw_ModelMap cfg) model of
        None \<Rightarrow> None
      | Some peerID \<Rightarrow>
          if \<not> peerInList peers peerID
          then Some (Inl (''peer_id for model '' @ strconv_Quote model @ '' is not connected/LCP-ready: '' @ peerID))
          else Some (Inr peerID))"

definition resolvePeerIDFromDefaultPeer :: "serve_config \<Rightarrow> proto_peer list \<Rightarrow> (string + string) option" where
  "resolvePeerIDFromDefaultPeer cfg peers =
     (let defaultPeerID = strings_TrimSpace (gw_DefaultPeerID cfg) in
      if defaultPeerID = [] then None
      else if \<not> peerInList peers defaultPeerID
      then Some (Inl (''OPENAI_SERVE_DEFAULT_PEER_ID is not connected/LCP-ready: '' @ defaultPeerID))
      else Some (Inr defaultPeerID))"

definition resolvePeerIDFromSupportedTasks :: "proto_peer list \<Rightarrow> string \<Rightarrow> string \<Rightarrow> string option" where
  "resolvePeerIDFromSupportedTasks peers taskKind model =
     map_option pp_PeerId
       (List.find (\<lambda>p. list_ex (\<lambda>tmpl. tp_Kind tmpl = taskKind \<and> strings_TrimSpace (tp_Model tmpl) = model)
          (pm_SupportedTasks (pp_RemoteManifest p))) peers)"

definition resolvePeerIDFromAnyPeer :: "proto_peer list \<Rightarrow> string option" where
  "resolvePeerIDFromAnyPeer peers = (case peers of [] \<Rightarrow> None | p # ps \<Rightarrow> Some (pp_PeerId p))"

definition resolvePeerIDForTaskKind ::
    "serve_config \<Rightarrow> string \<Rightarrow> string \<Rightarrow> proto_peer list \<Rightarrow> string + string" where
  "resolvePeerIDForTaskKind cfg rawModel taskKind peers =
     (let model = strings_TrimSpace rawModel in
      case resolvePeerIDFromModelMap cfg model peers of
        Some r \<Rightarrow> r
      | None \<Rightarrow> (case resolvePeerIDFromDefaultPeer cfg peers of
          Some r \<Rightarrow> r
        | None \<Rightarrow> (case resolvePeerIDFromSupportedTasks peers taskKind model of
            Some peerID \<Rightarrow> Inr peerID
          | None \<Rightarrow> (case resolvePeerIDFromAnyPeer peers of
              Some peerID \<Rightarrow> Inr peerID
            | None \<Rightarrow> Inl ''no connected LCP peers available''))))"

definition resolvePeerForTaskKindAndModel ::
    "gateway_env \<Rightarrow> string \<Rightarrow> string \<Rightarrow> gateway \<Rightarrow> string option \<times> gateway" where
  "resolvePeerForTaskKindAndModel E taskKind model s =
     (let s1 = gwCall GwListPeers s in
      case ge_listPeers E (gwPos s) of
        Inl err \<Rightarrow> (None, writeGRPCError err s1)
      | Inr peers \<Rightarrow> (case validateModelForTaskKind (ge_cfg E) model taskKind peers of
          Some modelErr \<Rightarrow> (None, badRequest modelErr s1)
        | None \<Rightarrow> (case resolvePeerIDForTaskKind (ge_cfg E) model taskKind peers of
            Inl err \<Rightarrow> (None, writeOpenAIError 503 ''server_error'' err s1)
          | Inr peerID \<Rightarrow> (Some peerID, s1))))"

section \<open>Quote (handler\_chat.go)\<close>

definition buildTask :: "(openai_spec option \<Rightarrow> task_spec) \<Rightarrow> string \<Rightarrow> bytes \<Rightarrow> gateway \<Rightarrow> proto_task option \<times> gateway" where
  "buildTask spec model requestJSON s =
     (if strings_TrimSpace model = [] then (None, badRequest ''model is required'' s)
      else if requestJSON = [] then (None, badRequest ''request body is required'' s)
      else (Some \<lparr>tk_Spec = Some (spec (Some \<lparr>os_RequestJson = requestJSON, os_Params = Some model\<rparr>))\<rparr>, s))"

text \<open>The getters of a response without terms yield zero values.\<close>

definition quotePriceMsat :: "proto_terms option \<Rightarrow> u64" where
  "quotePriceMsat q = (case q of None \<Rightarrow> 0 | Some t \<Rightarrow> pt_PriceMsat t)"

definition quoteJobId :: "proto_terms option \<Rightarrow> bytes" where
  "quoteJobId q = (case q of None \<Rightarrow> [] | Some t \<Rightarrow> pt_JobId t)"

definition quoteTermsHash :: "proto_terms option \<Rightarrow> bytes" where
  "quoteTermsHash q = (case q of None \<Rightarrow> [] | Some t \<Rightarrow> pt_TermsHash t)"

definition requestQuoteAndValidatePrice ::
    "gateway_env \<Rightarrow> string \<Rightarrow> proto_task \<Rightarrow> gateway \<Rightarrow> proto_terms option option \<times> gateway" where
  "requestQuoteAndValidatePrice E peerID task s =
     (let rq = \<lparr>rq_PeerId = peerID, rq_Task = Some task\<rparr>;
          s1 = gwCall (GwQuote rq) s;
          lim = gw_MaxPriceMsat (ge_cfg E)
      in case ge_requestQuote E (gwPos s) rq of
        Inl err \<Rightarrow> (None, writeGRPCError err s1)
      | Inr quote \<Rightarrow>
          let price = quotePriceMsat quote in
          if 0 < lim \<and> lim < price
          then (None, badRequest (''quote price exceeds limit: price_msat='' @ show_nat (unat price)
                        @ '' limit_msat='' @ show_nat (unat lim)) s1)
          else (Some quote, s1))"

definition writeLCPHeaders :: "string \<Rightarrow> bytes \<Rightarrow> proto_terms option \<Rightarrow> gateway \<Rightarrow> gateway" where
  "writeLCPHeaders peerID jobID quote s =
     c_Header ''X-Lcp-Terms-Hash'' (hex_EncodeToString (quoteTermsHash quote))
       (c_Header ''X-Lcp-Price-Msat'' (show_nat (unat (quotePriceMsat quote)))
         (c_Header ''X-Lcp-Job-Id'' (hex_EncodeToString jobID)
           (c_Header ''X-Lcp-Peer-Id'' peerID s)))"

section \<open>Execution\<close>

definition shouldCancelAfterExecuteError :: "ctx_state \<Rightarrow> client_error \<Rightarrow> bool" where
  "shouldCancelAfterExecuteError ctx err \<longleftrightarrow>
     ctx = CtxCanceled \<or> ctx = CtxDeadlineExceeded
     \<or> (case err of StatusErr c m t \<Rightarrow> c = CcCanceled \<or> c = CcDeadlineExceeded | PlainErr t \<Rightarrow> False)"

definition cancelJobIfRequestCanceled :: "gateway_env \<Rightarrow> string \<Rightarrow> bytes \<Rightarrow> client_error \<Rightarrow> gateway \<Rightarrow> gateway" where
  "cancelJobIfRequestCanceled E peerID jobID err s =
     (if shouldCancelAfterExecuteError (ge_requestCtx E (gwPos s)) err
      then gwCall (GwCancel \<lparr>cj_PeerId = peerID, cj_JobId = jobID, cj_Reason = ''request canceled''\<rparr>) s
      else s)"

definition resultMessage :: "proto_result \<Rightarrow> string" where
  "resultMessage r =
     (let msg = strings_TrimSpace (pr_Message r) in if msg = [] then ''provider returned non-ok status'' else msg)"

definition validateResult :: "proto_result option \<Rightarrow> gateway \<Rightarrow> proto_result option \<times> gateway" where
  "validateResult result s =
     (case result of
        None \<Rightarrow> (None, writeOpenAIError 502 ''server_error'' ''provider returned no result'' s)
      | Some r \<Rightarrow>
          if pr_Status r \<noteq> STATUS_OK then (None, writeOpenAIError 502 ''server_error'' (resultMessage r) s)
          else (Some r, s))"

definition logAndWriteResult :: "string \<Rightarrow> bytes \<Rightarrow> proto_terms option \<Rightarrow> proto_result \<Rightarrow> gateway \<Rightarrow> gateway" where
  "logAndWriteResult peerID jobID quote r s =
     (let s1 = writeLCPHeaders peerID jobID quote s;
          enc = strings_TrimSpace (pr_ContentEncoding r)
      in if enc \<noteq> [] \<and> enc \<noteq> contentEncodingIdentity
         then writeOpenAIError 502 ''server_error'' (''unsupported content encoding: '' @ strconv_Quote enc) s1
         else
           let ct = strings_TrimSpace (pr_ContentType r);
               ct = (if ct = [] then ''application/json; charset=utf-8'' else ct)
           in writeBody 200 (PartBytes (pr_Result r)) (c_Header ''Content-Type'' ct s1))"

definition handleOpenAINonStreaming ::
    "gateway_env \<Rightarrow> string \<Rightarrow> bytes \<Rightarrow> proto_terms option \<Rightarrow> gateway \<Rightarrow> gateway" where
  "handleOpenAINonStreaming E peerID jobID quote s =
     (let ae = \<lparr>ae_PeerId = peerID, ae_JobId = jobID, ae_PayInvoice = True\<rparr>;
          s1 = gwCall (GwAccept ae) s
      in case ge_acceptAndExecute E (gwPos s) ae of
        Inl err \<Rightarrow> writeGRPCError err (cancelJobIfRequestCanceled E peerID jobID err s1)
      | Inr execResp \<Rightarrow> (case validateResult execResp s1 of
          (None, s2) \<Rightarrow> s2
        | (Some r, s2) \<Rightarrow> logAndWriteResult peerID jobID quote r s2))"

section \<open>Streaming (handler\_stream.go)\<close>

record stream_write =
  sw_bytesWritten :: nat
  sw_wroteBody :: bool
  sw_contentType :: string
  sw_contentEncoding :: string
  sw_terminalResult :: "proto_result option"

definition newStreamWriteResult :: stream_write where
  "newStreamWriteResult = \<lparr>sw_bytesWritten = 0, sw_wroteBody = False,
     sw_contentType = ''text/event-stream; charset=utf-8'', sw_contentEncoding = contentEncodingIdentity,
     sw_terminalResult = None\<rparr>"

definition applyStreamBegin :: "(string \<times> string) option \<Rightarrow> stream_write \<Rightarrow> stream_write" where
  "applyStreamBegin begin out =
     (case begin of
        None \<Rightarrow> out
      | Some (contentType, contentEncoding) \<Rightarrow>
          let ct = strings_TrimSpace contentType; ce = strings_TrimSpace contentEncoding;
              out = (if ct \<noteq> [] then out\<lparr>sw_contentType := ct\<rparr> else out)
          in if ce \<noteq> [] then out\<lparr>sw_contentEncoding := ce\<rparr> else out)"

definition writeSSEHeaders :: "string \<Rightarrow> gateway \<Rightarrow> gateway" where
  "writeSSEHeaders rawType s =
     (let contentType = strings_TrimSpace rawType;
          contentType = (if contentType = [] then ''text/event-stream; charset=utf-8'' else contentType)
      in c_Header ''X-Accel-Buffering'' ''no'' (c_Header ''Cache-Control'' ''no-cache'' (c_Header ''Content-Type'' contentType s)))"

definition ensureStreamWriteReady :: "stream_write \<Rightarrow> gateway \<Rightarrow> string option \<times> gateway" where
  "ensureStreamWriteReady out s =
     (if sw_wroteBody out then (None, s)
      else
        let enc = strings_TrimSpace (sw_contentEncoding out) in
        if enc \<noteq> [] \<and> enc \<noteq> contentEncodingIdentity
        then (Some (''unsupported content encoding: '' @ strconv_Quote enc), s)
        else (None, writeSSEHeaders (sw_contentType out) s))"

definition writeStreamChunk ::
    "gateway_env \<Rightarrow> bytes option \<Rightarrow> stream_write \<Rightarrow> gateway \<Rightarrow> string option \<times> stream_write \<times> gateway" where
  "writeStreamChunk E chunk out s =
     (case chunk of
        None \<Rightarrow> (None, out, s)
      | Some data \<Rightarrow>
          if data = [] then (None, out, s)
          else (case ensureStreamWriteReady out s of
            (Some err, s1) \<Rightarrow> (Some err, out, s1)
          | (None, s1) \<Rightarrow>
              (case ge_write E (sw_bytesWritten out) data of
                 (n, writeErr) \<Rightarrow>
                   (writeErr, out\<lparr>sw_bytesWritten := sw_bytesWritten out + n, sw_wroteBody := True\<rparr>,
                    writeBody 200 (PartBytes (take n data)) s1))))"

fun writeLCPStreamToHTTP ::
    "gateway_env \<Rightarrow> stream_msg list \<Rightarrow> client_error option \<Rightarrow> stream_write \<Rightarrow> gateway \<Rightarrow>
     client_error option \<times> stream_write \<times> gateway" where
  "writeLCPStreamToHTTP E [] recvErr out s =
     (case recvErr of
        None \<Rightarrow> (if sw_terminalResult out = None then Some (PlainErr ''stream ended without a terminal result'') else None, out, s)
      | Some err \<Rightarrow> (Some err, out, s))"
| "writeLCPStreamToHTTP E (MsgBegin begin # msgs) recvErr out s =
     writeLCPStreamToHTTP E msgs recvErr (applyStreamBegin begin out) s"
| "writeLCPStreamToHTTP E (MsgChunk chunk # msgs) recvErr out s =
     (case writeStreamChunk E chunk out s of
        (Some err, out1, s1) \<Rightarrow> (Some (PlainErr err), out1, s1)
      | (None, out1, s1) \<Rightarrow> writeLCPStreamToHTTP E msgs recvErr out1 s1)"
| "writeLCPStreamToHTTP E (MsgResult r # msgs) recvErr out s = (None, out\<lparr>sw_terminalResult := r\<rparr>, s)"
| "writeLCPStreamToHTTP E (MsgEnd # msgs) recvErr out s = writeLCPStreamToHTTP E msgs recvErr out s"
| "writeLCPStreamToHTTP E (MsgOther # msgs) recvErr out s = writeLCPStreamToHTTP E msgs recvErr out s"

definition validateStreamedTerminalResult :: "stream_write \<Rightarrow> gateway \<Rightarrow> gateway" where
  "validateStreamedTerminalResult streamed s =
     (case sw_terminalResult streamed of
        None \<Rightarrow> if sw_wroteBody streamed then s
                else writeOpenAIError 502 ''server_error'' ''provider returned no result'' s
      | Some r \<Rightarrow>
          if pr_Status r \<noteq> STATUS_OK \<and> \<not> sw_wroteBody streamed
          then writeOpenAIError 502 ''server_error'' (resultMessage r) s
          else s)"

definition handleOpenAIStreaming ::
    "gateway_env \<Rightarrow> string \<Rightarrow> bytes \<Rightarrow> proto_terms option \<Rightarrow> gateway \<Rightarrow> gateway" where
  "handleOpenAIStreaming E peerID jobID quote s =
     (let ae = \<lparr>ae_PeerId = peerID, ae_JobId = jobID, ae_PayInvoice = True\<rparr>;
          s1 = gwCall (GwAcceptStream ae) s
      in case ge_acceptAndExecuteStream E (gwPos s) ae of
        Inl err \<Rightarrow> writeGRPCError err (cancelJobIfRequestCanceled E peerID jobID err s1)
      | Inr (msgs, recvErr) \<Rightarrow>
          (case writeLCPStreamToHTTP E msgs recvErr newStreamWriteResult (writeLCPHeaders peerID jobID quote s1) of
             (Some streamErr, streamed, s2) \<Rightarrow>
               let s3 = cancelJobIfRequestCanceled E peerID jobID streamErr s2 in
               if \<not> sw_wroteBody streamed then writeGRPCError streamErr s3 else s3
           | (None, streamed, s2) \<Rightarrow> validateStreamedTerminalResult streamed s2))"

section \<open>Handlers\<close>

definition handleOpenAIPassthrough ::
    "gateway_env \<Rightarrow> string \<Rightarrow> (openai_spec option \<Rightarrow> task_spec) \<Rightarrow> string \<Rightarrow> bytes \<Rightarrow> bool \<Rightarrow> gateway \<Rightarrow> gateway" where
  "handleOpenAIPassthrough E taskKind spec model reqBytes streaming s =
     (case resolvePeerForTaskKindAndModel E taskKind model s of
        (None, s1) \<Rightarrow> s1
      | (Some peerID, s1) \<Rightarrow> (case buildTask spec model reqBytes s1 of
          (None, s2) \<Rightarrow> s2
        | (Some task, s2) \<Rightarrow> (case requestQuoteAndValidatePrice E peerID task s2 of
            (None, s3) \<Rightarrow> s3
          | (Some quote, s3) \<Rightarrow>
              if streaming then handleOpenAIStreaming E peerID (quoteJobId quote) quote s3
              else handleOpenAINonStreaming E peerID (quoteJobId quote) quote s3)))"

definition handleChatCompletions :: "gateway_env \<Rightarrow> http_request \<Rightarrow> gateway \<Rightarrow> gateway" where
  "handleChatCompletions E req s =
     (if hq_Method req \<noteq> ''POST'' then writeOpenAIError 405 ''invalid_request_error'' ''method not allowed'' s
      else (case decodeAndValidateChatRequest E req s of
        (None, s1) \<Rightarrow> s1
      | (Some (reqBytes, parsed), s1) \<Rightarrow>
          handleOpenAIPassthrough E taskKindOpenAIChatCompletionsV1 OpenaiChatCompletionsV1
            (strings_TrimSpace (sq_Model parsed)) reqBytes (sq_Stream parsed = Some True) s1))"

definition handleResponses :: "gateway_env \<Rightarrow> http_request \<Rightarrow> gateway \<Rightarrow> gateway" where
  "handleResponses E req s =
     (if hq_Method req \<noteq> ''POST'' then writeOpenAIError 405 ''invalid_request_error'' ''method not allowed'' s
      else (case decodeAndValidateResponsesRequest E req s of
        (None, s1) \<Rightarrow> s1
      | (Some (reqBytes, parsed), s1) \<Rightarrow>
          handleOpenAIPassthrough E taskKindOpenAIResponsesV1 OpenaiResponsesV1
            (strings_TrimSpace (sp_Model parsed)) reqBytes (sp_Stream parsed = Some True) s1))"

definition handleModels :: "gateway_env \<Rightarrow> http_request \<Rightarrow> gateway \<Rightarrow> gateway" where
  "handleModels E req s =
     (if hq_Method req \<noteq> ''GET'' \<and> hq_Method req \<noteq> ''HEAD''
      then writeOpenAIError 405 ''invalid_request_error'' ''method not allowed'' s
      else (case discoverModels E s of
        (Inl err, s1) \<Rightarrow> writeOpenAIError (httpStatusFromGRPC err) ''server_error'' ''failed to list models'' s1
      | (Inr models, s1) \<Rightarrow> writeBody 200 (PartModels (sort_key string_order models)) s1))"

definition handleHealthz :: "http_request \<Rightarrow> gateway \<Rightarrow> gateway" where
  "handleHealthz req s =
     (if hq_Method req \<noteq> ''GET'' \<and> hq_Method req \<noteq> ''HEAD''
      then s\<lparr>gx_resp := (gx_resp s)\<lparr>hp_Status := 405\<rparr>\<rparr>
      else writeBody 200 (PartBytes (string_bytes (''ok'' @ [CHR 0x0A])))
             (c_Header ''Content-Type'' ''text/plain; charset=utf-8'' s))"

text \<open>The routes; the router answers every other request with 404.\<close>

definition newRouter :: "gateway_env \<Rightarrow> http_request \<Rightarrow> gateway \<Rightarrow> gateway" where
  "newRouter E req s =
     (let m = hq_Method req; path = hq_Path req; auth = authMiddleware (ge_cfg E) req in
      if path = ''/healthz'' \<and> (m = ''GET'' \<or> m = ''HEAD'') then handleHealthz req s
      else if path = ''/v1/models'' \<and> (m = ''GET'' \<or> m = ''HEAD'') then auth (handleModels E req) s
      else if path = ''/v1/chat/completions'' \<and> m = ''POST'' then auth (handleChatCompletions E req) s
      else if path = ''/v1/responses'' \<and> m = ''POST'' then auth (handleResponses E req) s
      else s\<lparr>gx_resp := (gx_resp s)\<lparr>hp_Status := 404\<rparr>\<rparr>)"

definition newGateway :: gateway where
  "newGateway = \<lparr>gx_trace = [], gx_resp = \<lparr>hp_Status = 200, hp_Headers = [], hp_Body = []\<rparr>\<rparr>"

section \<open>What a request makes the gateway call\<close>

lemma write_trace [simp]:
  "gx_trace (c_Header k v s) = gx_trace s" "gx_trace (writeBody n p s) = gx_trace s"
  "gx_trace (writeOpenAIError n t m s) = gx_trace s" "gx_trace (writeGRPCError err s) = gx_trace s"
  "gx_trace (badRequest m s) = gx_trace s" "gx_trace (unauthorized m s) = gx_trace s"
  "gx_trace (writeLCPHeaders peer j q s) = gx_trace s" "gx_trace (writeSSEHeaders ct s) = gx_trace s"
  "gx_trace (gwCall e s) = gx_trace s @ [e]"
  by (simp_all add: c_Header_def writeBody_def writeOpenAIError_def writeGRPCError_def badRequest_def unauthorized_def
      writeLCPHeaders_def writeSSEHeaders_def gwCall_def Let_def)

lemma decode_trace:
  assumes "decodeJSONRequest f req s = (r, s1)"
  shows "gx_trace s1 = gx_trace s"
    and "r = Some (body, parsed) \<Longrightarrow> body = concat (fst (hq_Body req)) \<and> length body \<le> maxRequestBodyBytes \<and> f body = Inr parsed"
  using assms
  by (auto simp: decodeJSONRequest_def readRequestBodyBytes_def Let_def split: if_splits sum.splits body_error.splits option.splits)

lemma validateModelField_iff: "validateModelField m s = (True, s1) \<longleftrightarrow> m \<noteq> [] \<and> strings_TrimSpace m = m \<and> s1 = s"
  by (auto simp: validateModelField_def Let_def)

lemma validateModelField_trace: "validateModelField m s = (b, s1) \<Longrightarrow> gx_trace s1 = gx_trace s"
  by (auto simp: validateModelField_def Let_def split: if_splits)

lemma decode_chat:
  assumes "decodeAndValidateChatRequest E req s = (r, s1)"
  shows "gx_trace s1 = gx_trace s"
    and "r = Some (body, parsed) \<Longrightarrow> body = concat (fst (hq_Body req)) \<and> length body \<le> maxRequestBodyBytes
      \<and> ge_jsonChat E body = Inr parsed \<and> sq_Model parsed \<noteq> [] \<and> strings_TrimSpace (sq_Model parsed) = sq_Model parsed"
proof -
  obtain d t where d: "decodeJSONRequest (ge_jsonChat E) req s = (d, t)" by force
  note dt = decode_trace [OF d]
  show "gx_trace s1 = gx_trace s" using assms dt(1)
    by (auto simp: decodeAndValidateChatRequest_def d split: option.splits prod.splits bool.splits if_splits
        dest: validateModelField_trace)
  show "r = Some (body, parsed) \<Longrightarrow> body = concat (fst (hq_Body req)) \<and> length body \<le> maxRequestBodyBytes
      \<and> ge_jsonChat E body = Inr parsed \<and> sq_Model parsed \<noteq> [] \<and> strings_TrimSpace (sq_Model parsed) = sq_Model parsed"
    using assms dt(2)
    by (auto simp: decodeAndValidateChatRequest_def d validateModelField_iff split: option.splits prod.splits bool.splits if_splits)
qed

lemma decode_responses:
  assumes "decodeAndValidateResponsesRequest E req s = (r, s1)"
  shows "gx_trace s1 = gx_trace s"
    and "r = Some (body, parsed) \<Longrightarrow> body = concat (fst (hq_Body req)) \<and> length body \<le> maxRequestBodyBytes
      \<and> ge_jsonResponses E body = Inr parsed \<and> sp_Model parsed \<noteq> [] \<and> strings_TrimSpace (sp_Model parsed) = sp_Model parsed"
proof -
  obtain d t where d: "decodeJSONRequest (ge_jsonResponses E) req s = (d, t)" by force
  note dt = decode_trace [OF d]
  show "gx_trace s1 = gx_trace s" using assms dt(1)
    by (auto simp: decodeAndValidateResponsesRequest_def d Let_def split: option.splits prod.splits bool.splits if_splits
        dest: validateModelField_trace)
  show "r = Some (body, parsed) \<Longrightarrow> body = concat (fst (hq_Body req)) \<and> length body \<le> maxRequestBodyBytes
      \<and> ge_jsonResponses E body = Inr parsed \<and> sp_Model parsed \<noteq> [] \<and> strings_TrimSpace (sp_Model parsed) = sp_Model parsed"
    using assms dt(2)
    by (auto simp: decodeAndValidateResponsesRequest_def d Let_def validateModelField_iff
        split: option.splits prod.splits bool.splits if_splits)
qed

lemma resolve_trace:
  assumes "resolvePeerForTaskKindAndModel E kind model s = (r, s1)"
  shows "gx_trace s1 = gx_trace s @ [GwListPeers]"
    and "r = Some peerID \<Longrightarrow> \<exists>peers. ge_listPeers E (gwPos s) = Inr peers
      \<and> validateModelForTaskKind (ge_cfg E) model kind peers = None
      \<and> resolvePeerIDForTaskKind (ge_cfg E) model kind peers = Inr peerID"
  using assms
  by (auto simp: resolvePeerForTaskKindAndModel_def Let_def split: sum.splits option.splits)

lemma quote_trace:
  assumes "requestQuoteAndValidatePrice E peerID task s = (r, s1)"
  shows "gx_trace s1 = gx_trace s @ [GwQuote \<lparr>rq_PeerId = peerID, rq_Task = Some task\<rparr>]"
    and "r = Some q \<Longrightarrow> ge_requestQuote E (gwPos s) \<lparr>rq_PeerId = peerID, rq_Task = Some task\<rparr> = Inr q
      \<and> (gw_MaxPriceMsat (ge_cfg E) = 0 \<or> quotePriceMsat q \<le> gw_MaxPriceMsat (ge_cfg E))"
  using assms
  by (auto simp: requestQuoteAndValidatePrice_def Let_def word_neq_0_conv not_less split: sum.splits if_splits)

definition cancel_of :: "string \<Rightarrow> bytes \<Rightarrow> gateway_event" where
  "cancel_of peerID jobID = GwCancel \<lparr>cj_PeerId = peerID, cj_JobId = jobID, cj_Reason = ''request canceled''\<rparr>"

lemma cancel_trace:
  "gx_trace (cancelJobIfRequestCanceled E peerID jobID err s) \<in> {gx_trace s, gx_trace s @ [cancel_of peerID jobID]}"
  by (simp add: cancelJobIfRequestCanceled_def cancel_of_def)

lemma chunk_trace: "writeStreamChunk E chunk out s = (r, out1, s1) \<Longrightarrow> gx_trace s1 = gx_trace s"
  by (auto simp: writeStreamChunk_def ensureStreamWriteReady_def Let_def split: option.splits if_splits prod.splits)

lemma stream_trace: "writeLCPStreamToHTTP E msgs e out s = (err, out1, s1) \<Longrightarrow> gx_trace s1 = gx_trace s"
proof (induction msgs arbitrary: out s)
  case Nil
  then show ?case by (auto split: option.splits if_splits)
next
  case (Cons m msgs)
  show ?case
  proof (cases m)
    case (MsgChunk chunk)
    obtain r o1 t where w: "writeStreamChunk E chunk out s = (r, o1, t)" by (metis prod_cases3)
    show ?thesis
    proof (cases r)
      case None
      then show ?thesis using Cons.IH [of o1 t] Cons.prems MsgChunk w chunk_trace [OF w] by simp
    next
      case (Some err)
      then show ?thesis using Cons.prems MsgChunk w chunk_trace [OF w] by auto
    qed
  qed (use Cons in \<open>auto\<close>)
qed

lemma execute_trace:
  "gx_trace (handleOpenAINonStreaming E peerID jobID q s) \<in>
     {gx_trace s @ [GwAccept \<lparr>ae_PeerId = peerID, ae_JobId = jobID, ae_PayInvoice = True\<rparr>],
      gx_trace s @ [GwAccept \<lparr>ae_PeerId = peerID, ae_JobId = jobID, ae_PayInvoice = True\<rparr>, cancel_of peerID jobID]}"
  using cancel_trace [of E peerID jobID _ "gwCall (GwAccept \<lparr>ae_PeerId = peerID, ae_JobId = jobID, ae_PayInvoice = True\<rparr>) s"]
  by (auto simp: handleOpenAINonStreaming_def validateResult_def logAndWriteResult_def Let_def split: sum.splits option.splits)

lemma execute_stream_trace:
  "gx_trace (handleOpenAIStreaming E peerID jobID q s) \<in>
     {gx_trace s @ [GwAcceptStream \<lparr>ae_PeerId = peerID, ae_JobId = jobID, ae_PayInvoice = True\<rparr>],
      gx_trace s @ [GwAcceptStream \<lparr>ae_PeerId = peerID, ae_JobId = jobID, ae_PayInvoice = True\<rparr>, cancel_of peerID jobID]}"
proof -
  let ?ae = "\<lparr>ae_PeerId = peerID, ae_JobId = jobID, ae_PayInvoice = True\<rparr>"
  let ?s1 = "gwCall (GwAcceptStream ?ae) s"
  show ?thesis
  proof (cases "ge_acceptAndExecuteStream E (gwPos s) ?ae")
    case (Inl err)
    then show ?thesis using cancel_trace [of E peerID jobID err ?s1] by (auto simp: handleOpenAIStreaming_def Let_def)
  next
    case (Inr b)
    obtain msgs e where b: "b = (msgs, e)" by force
    obtain r out t where w: "writeLCPStreamToHTTP E msgs e newStreamWriteResult (writeLCPHeaders peerID jobID q ?s1) = (r, out, t)"
      by (metis prod_cases3)
    from stream_trace [OF w] have t: "gx_trace t = gx_trace s @ [GwAcceptStream ?ae]" by simp
    have "gx_trace (validateStreamedTerminalResult out t) = gx_trace t"
      by (simp add: validateStreamedTerminalResult_def split: option.splits)
    then show ?thesis using Inr b w t cancel_trace [of E peerID jobID _ t]
      by (auto simp: handleOpenAIStreaming_def Let_def split: option.splits)
  qed
qed

text \<open>The peer a rule chooses is one of the listed peers.\<close>

lemma resolved_peer_listed:
  assumes "resolvePeerIDForTaskKind cfg model kind peers = Inr peerID"
    and "\<And>m p. map_of (gw_ModelMap cfg) m = Some p \<Longrightarrow> strings_TrimSpace p = p"
  shows "peerID \<in> pp_PeerId ` set peers"
proof -
  have listed: "p \<in> pp_PeerId ` set peers" if "peerInList peers p" "strings_TrimSpace p = p" for p
    using that by (auto simp: peerInList_def list_ex_iff)
  have found: "p \<in> pp_PeerId ` set peers" if "resolvePeerIDFromSupportedTasks peers kind m = Some p" for p m
    using that by (auto simp: resolvePeerIDFromSupportedTasks_def find_Some_iff)
  have first: "p \<in> pp_PeerId ` set peers" if "resolvePeerIDFromAnyPeer peers = Some p" for p
    using that by (auto simp: resolvePeerIDFromAnyPeer_def split: list.splits)
  have m: "p \<in> pp_PeerId ` set peers" if "resolvePeerIDFromModelMap cfg m peers = Some (Inr p)" for m p
    using that assms(2) listed by (auto simp: resolvePeerIDFromModelMap_def split: option.splits if_splits)
  have d: "p \<in> pp_PeerId ` set peers" if "resolvePeerIDFromDefaultPeer cfg peers = Some (Inr p)" for p
    using that listed by (auto simp: resolvePeerIDFromDefaultPeer_def Let_def split: if_splits)
  show ?thesis using assms(1) found first m d
    by (simp add: resolvePeerIDForTaskKind_def Let_def split: option.splits)
qed

section \<open>Spending\<close>

text \<open>The peers advertise the model for the task kind.\<close>

definition advertised :: "proto_peer list \<Rightarrow> string \<Rightarrow> string \<Rightarrow> bool" where
  "advertised peers kind model \<longleftrightarrow> (\<exists>p \<in> set peers. \<exists>tmpl \<in> set (pm_SupportedTasks (pp_RemoteManifest p)).
     tp_Kind tmpl = kind \<and> strings_TrimSpace (tp_Model tmpl) = model)"

text \<open>
  The operator's rules for models: with an allowlist the model is on it, without one it is
  advertised for the task kind, unless no model at all is; unlisted models may be allowed.
\<close>

definition model_permitted :: "serve_config \<Rightarrow> proto_peer list \<Rightarrow> string \<Rightarrow> string \<Rightarrow> bool" where
  "model_permitted cfg peers kind model \<longleftrightarrow> model \<noteq> [] \<and>
     (gw_AllowUnlistedModels cfg
      \<or> (if gw_ModelAllowlist cfg \<noteq> [] then model \<in> set (gw_ModelAllowlist cfg)
         else advertised peers kind model \<or> (\<nexists>m. m \<noteq> [] \<and> advertised peers kind m)))"

lemma collect_fold:
  "set (fold (\<lambda>tmpl out. if tp_Kind tmpl \<noteq> kind then out
      else let model = strings_TrimSpace (tp_Model tmpl) in if model = [] then out else List.insert model out) ts out)
   = set out \<union> {m. m \<noteq> [] \<and> (\<exists>t \<in> set ts. tp_Kind t = kind \<and> strings_TrimSpace (tp_Model t) = m)}"
  by (induction ts arbitrary: out) (auto simp: Let_def)

lemma collect_mem: "m \<in> set (collectModelsFromPeersForKind peers kind) \<longleftrightarrow> m \<noteq> [] \<and> advertised peers kind m"
  unfolding collectModelsFromPeersForKind_def collect_fold by (auto simp: advertised_def)

lemma validateModel_permitted:
  assumes "strings_TrimSpace model = model"
  shows "validateModelForTaskKind cfg model kind peers = None \<longleftrightarrow> model_permitted cfg peers kind model"
proof -
  have "collectModelsFromPeersForKind peers kind = [] \<longleftrightarrow> (\<nexists>m. m \<noteq> [] \<and> advertised peers kind m)"
    using collect_mem [of _ peers kind] by (metis empty_iff list.set(1) list.set_intros(1) neq_Nil_conv)
  with assms collect_mem show ?thesis
    by (auto simp: validateModelForTaskKind_def model_permitted_def Let_def)
qed

definition paying :: "accept_and_execute_request \<Rightarrow> gateway_event \<Rightarrow> bool" where
  "paying ae e \<longleftrightarrow> e = GwAccept ae \<or> e = GwAcceptStream ae"

text \<open>A paying call with all that led to it.\<close>

definition justified :: "gateway_env \<Rightarrow> string \<Rightarrow> (openai_spec option \<Rightarrow> task_spec) \<Rightarrow> string \<Rightarrow> bytes \<Rightarrow>
    accept_and_execute_request \<Rightarrow> gateway_event \<Rightarrow> gateway_event list \<Rightarrow> nat \<Rightarrow> bool" where
  "justified E kind spec model body ae e tr n \<longleftrightarrow>
     (\<exists>peers q rq. ge_listPeers E n = Inr peers \<and> ae_PeerId ae \<in> pp_PeerId ` set peers
       \<and> model_permitted (ge_cfg E) peers kind model
       \<and> rq = \<lparr>rq_PeerId = ae_PeerId ae,
            rq_Task = Some \<lparr>tk_Spec = Some (spec (Some \<lparr>os_RequestJson = body, os_Params = Some model\<rparr>))\<rparr>\<rparr>
       \<and> ge_requestQuote E (Suc n) rq = Inr q \<and> ae_JobId ae = quoteJobId q
       \<and> (gw_MaxPriceMsat (ge_cfg E) = 0 \<or> quotePriceMsat q \<le> gw_MaxPriceMsat (ge_cfg E))
       \<and> (tr = [GwListPeers, GwQuote rq, e]
          \<or> tr = [GwListPeers, GwQuote rq, e, cancel_of (ae_PeerId ae) (ae_JobId ae)]))"

lemma buildTask_cases:
  "buildTask spec model body s = (r, s1) \<Longrightarrow> gx_trace s1 = gx_trace s
   \<and> (r = None \<or> r = Some \<lparr>tk_Spec = Some (spec (Some \<lparr>os_RequestJson = body, os_Params = Some model\<rparr>))\<rparr> \<and> s1 = s)"
  by (auto simp: buildTask_def split: if_splits)

lemma passthrough_justified:
  assumes "e \<in> set (gx_trace (handleOpenAIPassthrough E kind spec model body streaming s))" and "paying ae e"
    and "gx_trace s = []" and "strings_TrimSpace model = model"
    and map: "\<And>m p. map_of (gw_ModelMap (ge_cfg E)) m = Some p \<Longrightarrow> strings_TrimSpace p = p"
  shows "justified E kind spec model body ae e (gx_trace (handleOpenAIPassthrough E kind spec model body streaming s)) 0"
proof -
  let ?h = "handleOpenAIPassthrough E kind spec model body streaming s"
  obtain r1 s1 where 1: "resolvePeerForTaskKindAndModel E kind model s = (r1, s1)" by force
  note t1 = resolve_trace [OF 1]
  have quiet: "\<not> paying ae GwListPeers" "\<not> paying ae (GwQuote rq)" for rq by (simp_all add: paying_def)
  obtain peerID where r1: "r1 = Some peerID"
    using assms(1-3) 1 t1(1) quiet by (cases r1) (auto simp: handleOpenAIPassthrough_def)
  obtain r2 s2 where 2: "buildTask spec model body s1 = (r2, s2)" by force
  note t2 = buildTask_cases [OF 2]
  let ?task = "\<lparr>tk_Spec = Some (spec (Some \<lparr>os_RequestJson = body, os_Params = Some model\<rparr>))\<rparr>"
  have r2: "r2 = Some ?task" "s2 = s1"
    using assms(1-3) 1 2 r1 t1(1) t2 quiet by (cases r2, auto simp: handleOpenAIPassthrough_def)+
  obtain r3 s3 where 3: "requestQuoteAndValidatePrice E peerID ?task s1 = (r3, s3)" by force
  note t3 = quote_trace [OF 3]
  obtain q where r3: "r3 = Some q"
    using assms(1-3) 1 2 3 r1 r2 t1(1) t3(1) quiet by (cases r3) (auto simp: handleOpenAIPassthrough_def)
  have h: "?h = (if streaming then handleOpenAIStreaming E peerID (quoteJobId q) q s3
      else handleOpenAINonStreaming E peerID (quoteJobId q) q s3)"
    using 1 2 3 r1 r2 r3 by (simp add: handleOpenAIPassthrough_def)
  let ?rq = "\<lparr>rq_PeerId = peerID, rq_Task = Some ?task\<rparr>"
  let ?ae = "\<lparr>ae_PeerId = peerID, ae_JobId = quoteJobId q, ae_PayInvoice = True\<rparr>"
  have s3: "gx_trace s3 = [GwListPeers, GwQuote ?rq]" using t1(1) t3(1) assms(3) by simp
  have tr: "\<exists>e'. (e' = GwAccept ?ae \<or> e' = GwAcceptStream ?ae) \<and> (gx_trace ?h = [GwListPeers, GwQuote ?rq, e']
      \<or> gx_trace ?h = [GwListPeers, GwQuote ?rq, e', cancel_of peerID (quoteJobId q)])"
    using execute_trace [of E peerID "quoteJobId q" q s3] execute_stream_trace [of E peerID "quoteJobId q" q s3]
    unfolding h s3 by (cases streaming) auto
  have ae: "ae = ?ae" "gx_trace ?h = [GwListPeers, GwQuote ?rq, e] \<or> gx_trace ?h = [GwListPeers, GwQuote ?rq, e, cancel_of peerID (quoteJobId q)]"
    using tr assms(1,2) by (auto simp: paying_def cancel_of_def)
  obtain peers where peers: "ge_listPeers E 0 = Inr peers" "validateModelForTaskKind (ge_cfg E) model kind peers = None"
    "resolvePeerIDForTaskKind (ge_cfg E) model kind peers = Inr peerID"
    using t1(2) [OF r1] assms(3) by auto
  have q: "ge_requestQuote E (Suc 0) ?rq = Inr q"
    "gw_MaxPriceMsat (ge_cfg E) = 0 \<or> quotePriceMsat q \<le> gw_MaxPriceMsat (ge_cfg E)"
    using t3(2) [OF r3] t1(1) assms(3) by auto
  show ?thesis
    unfolding justified_def ae(1)
    using peers q ae(2) resolved_peer_listed [OF peers(3) map] validateModel_permitted [OF assms(4)]
    by (intro exI [of _ peers] exI [of _ q] exI [of _ ?rq]) simp
qed

section \<open>Properties\<close>

text \<open>
  C8. The gateway spends money only as its operator configured it. With a configuration
  loaded from the environment, whenever an HTTP request makes the gateway accept a quote (the
  calls that pay the invoice), then: the request carried one of the API keys, if any are
  configured; its body is at most 1 MiB and is, unchanged, the input of the quoted task, with
  the model the body names; that model is permitted by the allowlist, or advertised by a peer
  for this kind of task, or unlisted models are allowed; the paid peer is one of the peers the
  daemon listed as ready; the accepted job is the one quoted by that very peer for that very
  task, at a price within the configured limit; and there is exactly one such call, followed
  at most by a cancellation of the same job.
\<close>

theorem gateway_spends_as_configured:
  assumes "LoadFromEnv env = Inr (ge_cfg E)"
    and "e \<in> set (gx_trace (newRouter E req newGateway))" and "paying ae e"
  shows "(gw_APIKeys (ge_cfg E) = [] \<or> (\<exists>token. bearerToken (hq_Authorization req) = Some token \<and> token \<in> set (gw_APIKeys (ge_cfg E))))
    \<and> length (concat (fst (hq_Body req))) \<le> 1048576
    \<and> ((\<exists>parsed. ge_jsonChat E (concat (fst (hq_Body req))) = Inr parsed
          \<and> justified E taskKindOpenAIChatCompletionsV1 OpenaiChatCompletionsV1 (sq_Model parsed)
              (concat (fst (hq_Body req))) ae e (gx_trace (newRouter E req newGateway)) 0)
       \<or> (\<exists>parsed. ge_jsonResponses E (concat (fst (hq_Body req))) = Inr parsed
          \<and> justified E taskKindOpenAIResponsesV1 OpenaiResponsesV1 (sp_Model parsed)
              (concat (fst (hq_Body req))) ae e (gx_trace (newRouter E req newGateway)) 0))"
proof -
  let ?keys = "gw_APIKeys (ge_cfg E)"
  note trimmed = LoadFromEnv_trimmed(2) [OF assms(1)]
  have fresh: "gx_trace newGateway = []" by (simp add: newGateway_def)
  have quiet: "\<not> paying ae GwListPeers" by (simp add: paying_def)
  have models: "gx_trace (handleModels E req newGateway) \<in> {[], [GwListPeers]}"
    by (auto simp: handleModels_def discoverModels_def fresh split: sum.splits)
  have auth: "?keys = [] \<or> (\<exists>token. bearerToken (hq_Authorization req) = Some token \<and> token \<in> set ?keys)"
    and "gx_trace (newRouter E req newGateway) = gx_trace (handleModels E req newGateway)
      \<or> newRouter E req newGateway = handleChatCompletions E req newGateway
      \<or> newRouter E req newGateway = handleResponses E req newGateway"
    using assms(2) fresh
    by (auto simp: newRouter_def authMiddleware_def handleHealthz_def Let_def split: if_splits option.splits)
  then consider
      "newRouter E req newGateway = handleChatCompletions E req newGateway"
    | "newRouter E req newGateway = handleResponses E req newGateway"
    using models assms(2,3) quiet by fastforce
  then show ?thesis
  proof cases
    case 1
    obtain r s1 where d: "decodeAndValidateChatRequest E req newGateway = (r, s1)" by force
    note dc = decode_chat [OF d]
    obtain body parsed where r: "r = Some (body, parsed)" "hq_Method req = ''POST''"
      using 1 assms(2) d dc(1) fresh by (cases r) (auto simp: handleChatCompletions_def split: if_splits)
    note p = dc(2) [OF r(1)]
    have "newRouter E req newGateway = handleOpenAIPassthrough E taskKindOpenAIChatCompletionsV1 OpenaiChatCompletionsV1
        (sq_Model parsed) body (sq_Stream parsed = Some True) s1"
      using 1 d r p by (simp add: handleChatCompletions_def)
    with passthrough_justified [of e E taskKindOpenAIChatCompletionsV1 OpenaiChatCompletionsV1 "sq_Model parsed" body _ s1 ae]
      assms(2,3) dc(1) fresh trimmed p auth show ?thesis by auto
  next
    case 2
    obtain r s1 where d: "decodeAndValidateResponsesRequest E req newGateway = (r, s1)" by force
    note dc = decode_responses [OF d]
    obtain body parsed where r: "r = Some (body, parsed)" "hq_Method req = ''POST''"
      using 2 assms(2) d dc(1) fresh by (cases r) (auto simp: handleResponses_def split: if_splits)
    note p = dc(2) [OF r(1)]
    have "newRouter E req newGateway = handleOpenAIPassthrough E taskKindOpenAIResponsesV1 OpenaiResponsesV1
        (sp_Model parsed) body (sp_Stream parsed = Some True) s1"
      using 2 d r p by (simp add: handleResponses_def)
    with passthrough_justified [of e E taskKindOpenAIResponsesV1 OpenaiResponsesV1 "sp_Model parsed" body _ s1 ae]
      assms(2,3) dc(1) fresh trimmed p auth show ?thesis by auto
  qed
qed

text \<open>A gateway whose daemon lists one peer, quotes 5 msat and returns one byte.\<close>

definition sample_serve_env :: serve_env where
  "sample_serve_env = \<lparr>se_HTTPAddr = [], se_LCPDGRPCAddr = [], se_LogLevel = [], se_APIKeys = ''k'', se_DefaultPeerID = [],
     se_ModelMap = [], se_ModelAllowlist = ''m'', se_AllowUnlistedModels = False, se_MaxPriceMsat = 9,
     se_TimeoutQuote = 0, se_TimeoutExecute = 0\<rparr>"

definition sample_serve_config :: serve_config where
  "sample_serve_config = \<lparr>gw_HTTPAddr = ''127.0.0.1:8080'', gw_LCPDGRPCAddr = ''127.0.0.1:50051'', gw_APIKeys = [''k''],
     gw_DefaultPeerID = [], gw_ModelMap = [], gw_ModelAllowlist = [''m''], gw_AllowUnlistedModels = False,
     gw_MaxPriceMsat = 9, gw_TimeoutQuote = 5000000000, gw_TimeoutExecute = 120000000000, gw_LogLevel = ''info''\<rparr>"

definition sample_quote :: proto_terms where
  "sample_quote = \<lparr>pt_ProtocolVersion = 2, pt_JobId = [7], pt_PriceMsat = 5, pt_QuoteExpiry = None, pt_TermsHash = [],
     pt_PaymentRequest = []\<rparr>"

definition sample_output :: proto_result where
  "sample_output = \<lparr>pr_Status = STATUS_OK, pr_Result = [1], pr_ResultHash = [], pr_ResultLen = 1, pr_ContentType = [],
     pr_ContentEncoding = [], pr_Message = []\<rparr>"

definition sample_gateway_env :: gateway_env where
  "sample_gateway_env = \<lparr>ge_cfg = sample_serve_config,
     ge_jsonChat = \<lambda>b. Inr \<lparr>sq_Model = ''m'', sq_Messages = [[1]], sq_Stream = None\<rparr>,
     ge_jsonResponses = \<lambda>b. Inr \<lparr>sp_Model = ''m'', sp_Input = [1], sp_Stream = None\<rparr>,
     ge_listPeers = \<lambda>n. Inr [\<lparr>pp_PeerId = ''p'', pp_Address = [], pp_RemoteManifest =
       \<lparr>pm_ProtocolVersion = 2, pm_MaxPayloadBytes = 1, pm_MaxStreamBytes = 1, pm_MaxJobBytes = 1,
        pm_MaxInflightJobs = 0, pm_SupportedTasks = []\<rparr>\<rparr>],
     ge_requestQuote = \<lambda>n rq. Inr (Some sample_quote), ge_acceptAndExecute = \<lambda>n ae. Inr (Some sample_output),
     ge_acceptAndExecuteStream = \<lambda>n ae. Inr ([MsgChunk (Some [1]), MsgResult (Some sample_output)], None),
     ge_requestCtx = \<lambda>n. CtxActive, ge_write = \<lambda>n d. (length d, None)\<rparr>"

definition sample_http_request :: http_request where
  "sample_http_request = \<lparr>hq_Method = ''POST'', hq_Path = ''/v1/chat/completions'', hq_Authorization = ''Bearer k'',
     hq_ContentEncoding = [], hq_Body = ([[123, 125]], None)\<rparr>"

lemma sample_texts:
  "strings_TrimSpace [] = []" "strings_TrimSpace ''k'' = ''k''" "strings_TrimSpace ''m'' = ''m''"
  "strings_TrimSpace ''identity'' = ''identity''" "strings_TrimSpace ''127.0.0.1:8080'' = ''127.0.0.1:8080''"
  "strings_TrimSpace ''127.0.0.1:50051'' = ''127.0.0.1:50051''" "parseCSVSet ''k'' = [''k'']" "parseCSVSet ''m'' = [''m'']"
  "net_SplitHostPort ''127.0.0.1:8080'' = Inr (''127.0.0.1'', ''8080'')" "bearerToken ''Bearer k'' = Some ''k''"
  by code_simp+

lemma sample_config_loads: "LoadFromEnv (Inr sample_serve_env) = Inr (ge_cfg sample_gateway_env)"
  by (simp add: LoadFromEnv_def sample_serve_env_def sample_gateway_env_def sample_serve_config_def loadDefaultPeerID_def
      loadModelMap_def orDefault_def validateConfig_def sample_texts Let_def)

lemma sample_request_pays:
  "GwAccept \<lparr>ae_PeerId = ''p'', ae_JobId = [7], ae_PayInvoice = True\<rparr>
     \<in> set (gx_trace (newRouter sample_gateway_env sample_http_request newGateway))"
  by (simp add: newRouter_def authMiddleware_def sample_gateway_env_def sample_serve_config_def sample_http_request_def
      sample_texts)
    (simp add: handleChatCompletions_def decodeAndValidateChatRequest_def decodeJSONRequest_def readRequestBodyBytes_def
      validateModelField_def handleOpenAIPassthrough_def resolvePeerForTaskKindAndModel_def validateModelForTaskKind_def
      resolvePeerIDForTaskKind_def resolvePeerIDFromModelMap_def resolvePeerIDFromDefaultPeer_def
      resolvePeerIDFromSupportedTasks_def resolvePeerIDFromAnyPeer_def buildTask_def requestQuoteAndValidatePrice_def
      handleOpenAINonStreaming_def sample_texts sample_quote_def sample_output_def quotePriceMsat_def quoteJobId_def
      validateResult_def logAndWriteResult_def newGateway_def)

theorem gateway_spends_as_configured_witness:
  "(\<exists>parsed :: serve_chat_request. justified sample_gateway_env taskKindOpenAIChatCompletionsV1 OpenaiChatCompletionsV1 (sq_Model parsed) [123, 125]
     \<lparr>ae_PeerId = ''p'', ae_JobId = [7], ae_PayInvoice = True\<rparr>
     (GwAccept \<lparr>ae_PeerId = ''p'', ae_JobId = [7], ae_PayInvoice = True\<rparr>)
     (gx_trace (newRouter sample_gateway_env sample_http_request newGateway)) 0)
   \<or> (\<exists>parsed :: serve_responses_request. justified sample_gateway_env taskKindOpenAIResponsesV1 OpenaiResponsesV1 (sp_Model parsed) [123, 125]
     \<lparr>ae_PeerId = ''p'', ae_JobId = [7], ae_PayInvoice = True\<rparr>
     (GwAccept \<lparr>ae_PeerId = ''p'', ae_JobId = [7], ae_PayInvoice = True\<rparr>)
     (gx_trace (newRouter sample_gateway_env sample_http_request newGateway)) 0)"
proof -
  let ?ae = "\<lparr>ae_PeerId = ''p'', ae_JobId = [7], ae_PayInvoice = True\<rparr>"
  have p: "paying ?ae (GwAccept ?ae)" by (simp add: paying_def)
  have body: "concat (fst (hq_Body sample_http_request)) = [123, 125]" by (simp add: sample_http_request_def)
  show ?thesis
    using gateway_spends_as_configured [OF sample_config_loads sample_request_pays p] unfolding body by blast
qed

section \<open>Output\<close>

definition body_bytes :: "http_response \<Rightarrow> bytes" where
  "body_bytes r = concat (map (\<lambda>p. case p of PartBytes b \<Rightarrow> b | _ \<Rightarrow> []) (hp_Body r))"

text \<open>The data of the chunks before the terminal result.\<close>

fun stream_data :: "stream_msg list \<Rightarrow> bytes" where
  "stream_data [] = []"
| "stream_data (MsgChunk (Some d) # msgs) = d @ stream_data msgs"
| "stream_data (MsgResult r # msgs) = []"
| "stream_data (m # msgs) = stream_data msgs"

fun stream_terminal :: "stream_msg list \<Rightarrow> proto_result option" where
  "stream_terminal [] = None"
| "stream_terminal (MsgResult r # msgs) = r"
| "stream_terminal (m # msgs) = stream_terminal msgs"

fun plain_begin :: "stream_msg \<Rightarrow> bool" where
  "plain_begin (MsgBegin (Some (ct, ce))) \<longleftrightarrow> strings_TrimSpace ce = [] \<or> strings_TrimSpace ce = contentEncodingIdentity"
| "plain_begin m \<longleftrightarrow> True"

definition body_ok :: "gateway \<Rightarrow> bool" where
  "body_ok s \<longleftrightarrow> hp_Status (gx_resp s) = 200 \<and> list_all (\<lambda>p. case p of PartBytes b \<Rightarrow> True | _ \<Rightarrow> False) (hp_Body (gx_resp s))"

lemma header_body [simp]:
  "hp_Body (gx_resp (c_Header k v s)) = hp_Body (gx_resp s)" "hp_Status (gx_resp (c_Header k v s)) = hp_Status (gx_resp s)"
  "hp_Body (gx_resp (gwCall e s)) = hp_Body (gx_resp s)" "hp_Status (gx_resp (gwCall e s)) = hp_Status (gx_resp s)"
  "hp_Body (gx_resp (writeLCPHeaders peer j q s)) = hp_Body (gx_resp s)"
  "hp_Status (gx_resp (writeLCPHeaders peer j q s)) = hp_Status (gx_resp s)"
  "hp_Body (gx_resp (writeSSEHeaders ct s)) = hp_Body (gx_resp s)"
  "hp_Status (gx_resp (writeSSEHeaders ct s)) = hp_Status (gx_resp s)"
  by (simp_all add: c_Header_def gwCall_def writeLCPHeaders_def writeSSEHeaders_def Let_def)

text \<open>As long as the encoding is plain, a chunk is appended to the body.\<close>

lemma chunk_written:
  assumes "\<And>n d. ge_write E n d = (length d, None)" and "body_ok s"
    and "strings_TrimSpace (sw_contentEncoding out) \<in> {[], contentEncodingIdentity}"
  shows "\<exists>out1 s1. writeStreamChunk E (Some d) out s = (None, out1, s1) \<and> body_ok s1
    \<and> body_bytes (gx_resp s1) = body_bytes (gx_resp s) @ d
    \<and> sw_contentEncoding out1 = sw_contentEncoding out \<and> sw_terminalResult out1 = sw_terminalResult out"
proof (cases "d = []")
  case True
  then show ?thesis using assms(2) by (simp add: writeStreamChunk_def)
next
  case False
  have "\<exists>s0. ensureStreamWriteReady out s = (None, s0) \<and> hp_Body (gx_resp s0) = hp_Body (gx_resp s)"
    using assms(3) by (auto simp: ensureStreamWriteReady_def Let_def)
  then show ?thesis using False assms(1,2)
    by (auto simp: writeStreamChunk_def writeBody_def body_ok_def body_bytes_def)
qed

lemma identity_trim: "strings_TrimSpace contentEncodingIdentity = contentEncodingIdentity"
  by code_simp

lemma stream_written:
  assumes "\<And>n d. ge_write E n d = (length d, None)" and "body_ok s" and "list_all plain_begin msgs"
    and "strings_TrimSpace (sw_contentEncoding out) \<in> {[], contentEncodingIdentity}"
    and "stream_terminal msgs = Some r"
  shows "\<exists>out1 s1. writeLCPStreamToHTTP E msgs e out s = (None, out1, s1) \<and> body_ok s1
    \<and> body_bytes (gx_resp s1) = body_bytes (gx_resp s) @ stream_data msgs \<and> sw_terminalResult out1 = Some r"
  using assms(2-)
proof (induction msgs arbitrary: out s)
  case Nil
  then show ?case by simp
next
  case (Cons m msgs)
  show ?case
  proof (cases m)
    case (MsgBegin b)
    have "strings_TrimSpace (sw_contentEncoding (applyStreamBegin b out)) \<in> {[], contentEncodingIdentity}"
      using Cons.prems(2,3) MsgBegin
      by (cases b) (auto simp: applyStreamBegin_def Let_def identity_trim split: if_splits)
    then show ?thesis using Cons.IH [of s "applyStreamBegin b out"] Cons.prems MsgBegin by simp
  next
    case (MsgChunk c)
    show ?thesis
    proof (cases c)
      case None
      then show ?thesis using Cons MsgChunk by (simp add: writeStreamChunk_def)
    next
      case (Some d)
      from chunk_written [OF assms(1) Cons.prems(1,3), of d] obtain out1 s1 where
        w: "writeStreamChunk E (Some d) out s = (None, out1, s1)" "body_ok s1"
        "body_bytes (gx_resp s1) = body_bytes (gx_resp s) @ d" "sw_contentEncoding out1 = sw_contentEncoding out" by blast
      have "\<exists>out2 s2. writeLCPStreamToHTTP E msgs e out1 s1 = (None, out2, s2) \<and> body_ok s2
        \<and> body_bytes (gx_resp s2) = body_bytes (gx_resp s1) @ stream_data msgs \<and> sw_terminalResult out2 = Some r"
        using Cons.IH [of s1 out1] Cons.prems MsgChunk Some w by simp
      then show ?thesis using MsgChunk Some w by simp
    qed
  qed (use Cons in auto)
qed

text \<open>
  C18. The gateway relays the output of a job unchanged. Without streaming, a result with
  status OK in plain encoding becomes a response with status 200 whose body is exactly the
  result's bytes. With streaming, when the daemon's stream ends with such a result, the
  response has status 200 and its body is exactly the concatenation of the data of the
  chunks, in order, provided the client takes what is written.
\<close>

theorem gateway_relays_output:
  assumes "gx_resp s = \<lparr>hp_Status = 200, hp_Headers = hs, hp_Body = []\<rparr>" and "pr_Status r = STATUS_OK"
    and "ae = \<lparr>ae_PeerId = peerID, ae_JobId = jobID, ae_PayInvoice = True\<rparr>"
  shows "(ge_acceptAndExecute E (gwPos s) ae = Inr (Some r)
        \<and> strings_TrimSpace (pr_ContentEncoding r) \<in> {[], contentEncodingIdentity} \<longrightarrow>
        hp_Status (gx_resp (handleOpenAINonStreaming E peerID jobID q s)) = 200
        \<and> hp_Body (gx_resp (handleOpenAINonStreaming E peerID jobID q s)) = [PartBytes (pr_Result r)])
    \<and> (ge_acceptAndExecuteStream E (gwPos s) ae = Inr (msgs, recvErr) \<and> stream_terminal msgs = Some r
        \<and> list_all plain_begin msgs \<and> (\<forall>n d. ge_write E n d = (length d, None)) \<longrightarrow>
        hp_Status (gx_resp (handleOpenAIStreaming E peerID jobID q s)) = 200
        \<and> body_bytes (gx_resp (handleOpenAIStreaming E peerID jobID q s)) = stream_data msgs
        \<and> body_ok (handleOpenAIStreaming E peerID jobID q s))"
proof (intro conjI impI)
  let ?h = "handleOpenAINonStreaming E peerID jobID q s"
  assume a: "ge_acceptAndExecute E (gwPos s) ae = Inr (Some r)
    \<and> strings_TrimSpace (pr_ContentEncoding r) \<in> {[], contentEncodingIdentity}"
  then have h: "?h = logAndWriteResult peerID jobID q r (gwCall (GwAccept ae) s)"
    using assms(2,3) by (simp add: handleOpenAINonStreaming_def validateResult_def)
  show "hp_Status (gx_resp ?h) = 200" "hp_Body (gx_resp ?h) = [PartBytes (pr_Result r)]"
    unfolding h using a assms(1) by (auto simp: logAndWriteResult_def Let_def writeBody_def)
next
  let ?h = "handleOpenAIStreaming E peerID jobID q s"
  let ?s1 = "writeLCPHeaders peerID jobID q (gwCall (GwAcceptStream ae) s)"
  assume a: "ge_acceptAndExecuteStream E (gwPos s) ae = Inr (msgs, recvErr) \<and> stream_terminal msgs = Some r
    \<and> list_all plain_begin msgs \<and> (\<forall>n d. ge_write E n d = (length d, None))"
  have "body_ok ?s1" "body_bytes (gx_resp ?s1) = []" using assms(1) by (simp_all add: body_ok_def body_bytes_def)
  moreover have "strings_TrimSpace (sw_contentEncoding newStreamWriteResult) \<in> {[], contentEncodingIdentity}" by code_simp
  ultimately obtain out s2 where "writeLCPStreamToHTTP E msgs recvErr newStreamWriteResult ?s1 = (None, out, s2)"
    "body_ok s2" "body_bytes (gx_resp s2) = stream_data msgs" "sw_terminalResult out = Some r"
    using stream_written [of E ?s1 msgs newStreamWriteResult r recvErr] a by auto
  then have "?h = s2" "body_ok s2" "body_bytes (gx_resp s2) = stream_data msgs"
    using a assms(2,3) by (simp_all add: handleOpenAIStreaming_def validateStreamedTerminalResult_def)
  then show "hp_Status (gx_resp ?h) = 200" "body_bytes (gx_resp ?h) = stream_data msgs" "body_ok ?h"
    by (simp_all add: body_ok_def)
qed

theorem gateway_relays_output_witness:
  "hp_Body (gx_resp (handleOpenAINonStreaming sample_gateway_env ''p'' [7] None newGateway)) = [PartBytes [1]]
   \<and> body_bytes (gx_resp (handleOpenAIStreaming sample_gateway_env ''p'' [7] None newGateway)) = [1]"
proof -
  have r: "gx_resp newGateway = \<lparr>hp_Status = 200, hp_Headers = [], hp_Body = []\<rparr>" "pr_Status sample_output = STATUS_OK"
    by (simp_all add: newGateway_def sample_output_def)
  have enc: "strings_TrimSpace (pr_ContentEncoding sample_output) \<in> {[], contentEncodingIdentity}" by code_simp
  show ?thesis
    using gateway_relays_output [OF r refl, where E = sample_gateway_env and peerID = "''p''" and jobID = "[7]" and q = None
        and msgs = "[MsgChunk (Some [1]), MsgResult (Some sample_output)]" and recvErr = None] enc
    by (simp add: sample_gateway_env_def sample_output_def sample_texts)
qed

end
