(* ===== verification/Oneshot.thy ===== *)
theory Oneshot
  imports Json_Text Gateway
begin

text \<open>
  The command line client \<^verbatim>\<open>tools/lcpd-oneshot/main.go\<close>: the options and where the prompt
  comes from, the request of a chat completion, the pipeline that asks for a quote and, when
  told to pay, accepts and executes it, and the two summaries. What parsing the command line
  yields and what the calls of the service return are parameters.
\<close>

section \<open>Options\<close>

record run_options =
  op_ServerAddr :: string
  op_PeerID :: string
  op_Model :: string
  op_TemperatureMilli :: u32
  op_MaxOutputTokens :: u32
  op_PayInvoice :: bool
  op_Prompt :: string
  op_Timeout :: int
  op_OutputJSON :: bool
  op_Chat :: bool
  op_SystemPrompt :: string
  op_MaxPromptBytes :: int

text \<open>The flags after \<^verbatim>\<open>fs.Parse\<close>, and the arguments that are left.\<close>

record oneshot_flags =
  fg_prompt :: string
  fg_chat :: bool
  fg_systemPrompt :: string
  fg_maxPromptBytes :: int
  fg_serverAddr :: string
  fg_peerID :: string
  fg_model :: string
  fg_profile :: string
  fg_temperatureMilli :: u64
  fg_maxOutputTokens :: u64
  fg_payInvoice :: bool
  fg_timeout :: int
  fg_json :: bool
  fg_Args :: "string list"

definition defaultModel :: string where "defaultModel = ''gpt-5.2''"

definition errPromptEmpty :: goerror where
  "errPromptEmpty = sentinel ''errPromptEmpty'' ''prompt is empty''"

definition is_newline :: "char \<Rightarrow> bool" where
  "is_newline c \<longleftrightarrow> (of_char c :: nat) \<in> {10, 13}"

definition trimRightNewlines :: "string \<Rightarrow> string" where
  "trimRightNewlines s = rev (dropWhile is_newline (rev s))"

text \<open>The standard input is what reading all of it yields; it may be absent.\<close>

definition resolvePrompt :: "string \<Rightarrow> string list \<Rightarrow> string res option \<Rightarrow> string res" where
  "resolvePrompt promptFlag args stdin =
     (if strings_TrimSpace promptFlag \<noteq> [] then Inr promptFlag
      else
        (let joined = strings_TrimSpace (strings_Join args '' '') in
         if args \<noteq> [] \<and> joined \<noteq> [] then Inr joined
         else
           (case stdin of
              None \<Rightarrow> Inl errPromptEmpty
            | Some (Inl err) \<Rightarrow> Inl (wrapf ''read stdin'' err)
            | Some (Inr raw) \<Rightarrow>
                (let trimmed = trimRightNewlines raw in
                 if strings_TrimSpace trimmed \<noteq> [] then Inr trimmed else Inl errPromptEmpty))))"

definition resolvePromptByMode :: "bool \<Rightarrow> string \<Rightarrow> string list \<Rightarrow> string res option \<Rightarrow> string res" where
  "resolvePromptByMode chat promptFlag args stdin =
     (if \<not> chat then resolvePrompt promptFlag args stdin
      else (case resolvePrompt promptFlag args None of
        Inr prompt \<Rightarrow> Inr prompt
      | Inl err \<Rightarrow> if errors_Is err ''errPromptEmpty'' then Inr [] else Inl err))"

definition parseArgs :: "oneshot_flags res \<Rightarrow> string res option \<Rightarrow> run_options res" where
  "parseArgs parsed stdin =
     bindE parsed (\<lambda>f.
     if fg_maxPromptBytes f < 0 then Inl (errors_New ''max-prompt-bytes must be >= 0'')
     else if fg_chat f \<and> fg_json f then Inl (errors_New ''-json is not supported with -chat'')
     else if fg_chat f \<and> \<not> fg_payInvoice f then Inl (errors_New ''-chat requires -pay-invoice=true'')
     else bindE (resolvePromptByMode (fg_chat f) (fg_prompt f) (fg_Args f) stdin) (\<lambda>prompt.
       let peerID = strings_TrimSpace (fg_peerID f);
           model = strings_TrimSpace (fg_model f);
           profile = strings_TrimSpace (fg_profile f)
       in if model \<noteq> [] \<and> profile \<noteq> [] \<and> model \<noteq> profile
          then Inl (errors_New ''-model and -profile must match when both are set'')
          else
            let model1 = (if model = [] then profile else model);
                model2 = (if model1 = [] then defaultModel else model1)
            in if 4294967295 < fg_temperatureMilli f then Inl (errors_New ''temperature-milli must be <= 4294967295'')
               else if 4294967295 < fg_maxOutputTokens f then Inl (errors_New ''max-output-tokens must be <= 4294967295'')
               else if peerID = [] then Inl (errors_New ''peer-id is required'')
               else if fg_timeout f \<le> 0 then Inl (errors_New ''timeout must be > 0'')
               else if model2 = [] then Inl (errors_New ''model is required'')
               else Inr \<lparr>op_ServerAddr = fg_serverAddr f, op_PeerID = peerID, op_Model = model2,
                         op_TemperatureMilli = ucast (fg_temperatureMilli f),
                         op_MaxOutputTokens = ucast (fg_maxOutputTokens f), op_PayInvoice = fg_payInvoice f,
                         op_Prompt = prompt, op_Timeout = fg_timeout f, op_OutputJSON = fg_json f, op_Chat = fg_chat f,
                         op_SystemPrompt = fg_systemPrompt f, op_MaxPromptBytes = fg_maxPromptBytes f\<rparr>))"

section \<open>The request\<close>

text \<open>The struct \<^verbatim>\<open>openAIChatCompletionsV1Request\<close>; the temperature is a number of thousandths.\<close>

record chat_message_json =
  cm_Role :: string
  cm_Content :: string

record chat_completions_request =
  cq_Model :: string
  cq_Messages :: "chat_message_json list"
  cq_Temperature :: "u32 option"
  cq_MaxTokens :: "u32 option"

abbreviation json_field :: "string \<Rightarrow> string" where
  "json_field name \<equiv> json_quote_mark # name @ [json_quote_mark, CHR '':'']"

definition marshalMessage :: "chat_message_json \<Rightarrow> string" where
  "marshalMessage m =
     ''{'' @ json_field ''role'' @ json_String (cm_Role m) @ '','' @ json_field ''content'' @ json_String (cm_Content m) @ ''}''"

definition marshalChatRequest :: "chat_completions_request \<Rightarrow> string" where
  "marshalChatRequest r =
     ''{'' @ json_field ''model'' @ json_String (cq_Model r)
     @ '','' @ json_field ''messages'' @ ''['' @ strings_Join (map marshalMessage (cq_Messages r)) '','' @ '']''
     @ (case cq_Temperature r of None \<Rightarrow> [] | Some t \<Rightarrow> '','' @ json_field ''temperature'' @ json_milli (unat t))
     @ (case cq_MaxTokens r of None \<Rightarrow> [] | Some n \<Rightarrow> '','' @ json_field ''max_tokens'' @ show_nat (unat n))
     @ ''}''"

definition buildOpenAIChatCompletionsV1RequestJSON :: "string \<Rightarrow> string \<Rightarrow> u32 \<Rightarrow> u32 \<Rightarrow> bytes res" where
  "buildOpenAIChatCompletionsV1RequestJSON model0 prompt temperatureMilli maxOutputTokens =
     (let model = strings_TrimSpace model0 in
      if model = [] then Inl (errors_New ''model is required'')
      else Inr (string_bytes (marshalChatRequest
        \<lparr>cq_Model = model, cq_Messages = [\<lparr>cm_Role = ''user'', cm_Content = prompt\<rparr>],
         cq_Temperature = (if temperatureMilli \<noteq> 0 then Some temperatureMilli else None),
         cq_MaxTokens = (if maxOutputTokens \<noteq> 0 then Some maxOutputTokens else None)\<rparr>)))"

section \<open>The pipeline\<close>

text \<open>
  The calls of the client in the order it makes them; the answers are functions of the
  position in that order. An answer to the second call may be absent or lack its result.
\<close>

datatype oneshot_event =
    OsQuote request_quote_request
  | OsAccept accept_and_execute_request

record oneshot_client =
  oc_RequestQuote :: "nat \<Rightarrow> request_quote_request \<Rightarrow> proto_terms option res"
  oc_AcceptAndExecute :: "nat \<Rightarrow> accept_and_execute_request \<Rightarrow> proto_result option option res"

record pipeline_result =
  pp_PeerID :: string
  pp_Terms :: proto_terms
  pp_Result :: "proto_result option"

definition chatTask :: "run_options \<Rightarrow> bytes \<Rightarrow> request_quote_request" where
  "chatTask opts requestJSON =
     \<lparr>rq_PeerId = op_PeerID opts,
      rq_Task = Some \<lparr>tk_Spec = Some (OpenaiChatCompletionsV1 (Some
        \<lparr>os_RequestJson = requestJSON, os_Params = Some (op_Model opts)\<rparr>))\<rparr>\<rparr>"

definition requestTerms ::
    "oneshot_client \<Rightarrow> request_quote_request \<Rightarrow> oneshot_event list \<Rightarrow> proto_terms res \<times> oneshot_event list" where
  "requestTerms C rq tr =
     (case oc_RequestQuote C (length tr) rq of
        Inl err \<Rightarrow> Inl (wrapf ''request quote'' err)
      | Inr None \<Rightarrow> Inl (errors_New ''request quote: response terms is nil'')
      | Inr (Some terms) \<Rightarrow> Inr terms,
      tr @ [OsQuote rq])"

definition acceptQuote ::
    "oneshot_client \<Rightarrow> run_options \<Rightarrow> proto_terms \<Rightarrow> oneshot_event list \<Rightarrow> proto_result res \<times> oneshot_event list" where
  "acceptQuote C opts terms tr =
     (let ar = \<lparr>ae_PeerId = op_PeerID opts, ae_JobId = pt_JobId terms, ae_PayInvoice = True\<rparr> in
      (case oc_AcceptAndExecute C (length tr) ar of
         Inl err \<Rightarrow> Inl (wrapf ''accept and execute'' err)
       | Inr None \<Rightarrow> Inl (errors_New ''accept and execute: response is nil'')
       | Inr (Some None) \<Rightarrow> Inl (errors_New ''accept and execute: result is nil'')
       | Inr (Some (Some res)) \<Rightarrow> Inr res,
       tr @ [OsAccept ar]))"

definition runPipeline ::
    "oneshot_client \<Rightarrow> run_options \<Rightarrow> oneshot_event list \<Rightarrow> pipeline_result res \<times> oneshot_event list" where
  "runPipeline C opts tr =
     (case buildOpenAIChatCompletionsV1RequestJSON (op_Model opts) (op_Prompt opts) (op_TemperatureMilli opts)
             (op_MaxOutputTokens opts) of
        Inl err \<Rightarrow> (Inl err, tr)
      | Inr requestJSON \<Rightarrow>
          (case requestTerms C (chatTask opts requestJSON) tr of
             (Inl err, tr1) \<Rightarrow> (Inl err, tr1)
           | (Inr terms, tr1) \<Rightarrow>
               if \<not> op_PayInvoice opts
               then (Inr \<lparr>pp_PeerID = op_PeerID opts, pp_Terms = terms, pp_Result = None\<rparr>, tr1)
               else (case acceptQuote C opts terms tr1 of
                 (Inl err, tr2) \<Rightarrow> (Inl err, tr2)
               | (Inr res, tr2) \<Rightarrow> (Inr \<lparr>pp_PeerID = op_PeerID opts, pp_Terms = terms, pp_Result = Some res\<rparr>, tr2))))"

definition runWithDialer ::
    "(string \<Rightarrow> oneshot_client res) \<Rightarrow> run_options \<Rightarrow> oneshot_event list \<Rightarrow> pipeline_result res \<times> oneshot_event list" where
  "runWithDialer dial opts tr =
     (case dial (op_ServerAddr opts) of
        Inl err \<Rightarrow> (Inl err, tr)
      | Inr client \<Rightarrow> runPipeline client opts tr)"

section \<open>Summaries\<close>

abbreviation newline :: string where "newline \<equiv> [CHR 0x0A]"

definition formatMsatAsSat :: "u64 \<Rightarrow> string" where
  "formatMsatAsSat msat =
     (let sat = msat div 1000; rem = msat mod 1000 in
      if rem = 0 then show_nat (unat sat) else show_nat (unat sat) @ ''.'' @ digits3 (unat rem))"

definition formatHumanSummary :: "pipeline_result \<Rightarrow> string" where
  "formatHumanSummary res =
     (let t = pp_Terms res;
          b = ''peer_id='' @ pp_PeerID res @ '' protocol_version='' @ show_nat (unat (pt_ProtocolVersion t)) @ newline
            @ ''price_sat='' @ formatMsatAsSat (pt_PriceMsat t) @ '' price_msat='' @ show_nat (unat (pt_PriceMsat t)) @ newline
            @ ''terms_hash='' @ hex_EncodeToString (pt_TermsHash t) @ '' job_id='' @ hex_EncodeToString (pt_JobId t) @ newline
            @ ''payment_request:'' @ newline @ pt_PaymentRequest t @ newline
      in case pp_Result res of
           None \<Rightarrow> b @ ''result:'' @ newline @ ''(none)'' @ newline
         | Some r \<Rightarrow>
             let ct = strings_TrimSpace (pr_ContentType r) in
             b @ (if ct \<noteq> [] then ''content_type='' @ ct @ newline else [])
               @ ''result:'' @ newline @ bytes_string (pr_Result r) @ newline)"

definition summaryFields :: "pipeline_result \<Rightarrow> (string \<times> string) list" where
  "summaryFields res =
     (let t = pp_Terms res;
          resultText = (case pp_Result res of None \<Rightarrow> [] | Some r \<Rightarrow> bytes_string (pr_Result r));
          contentType = (case pp_Result res of None \<Rightarrow> [] | Some r \<Rightarrow> pr_ContentType r)
      in [(''peer_id'', json_String (pp_PeerID res)),
          (''protocol_version'', show_nat (unat (pt_ProtocolVersion t))),
          (''price_msat'', show_nat (unat (pt_PriceMsat t))),
          (''price_sat'', json_String (formatMsatAsSat (pt_PriceMsat t))),
          (''terms_hash_hex'', json_String (hex_EncodeToString (pt_TermsHash t))),
          (''job_id_hex'', json_String (hex_EncodeToString (pt_JobId t))),
          (''payment_request'', json_String (pt_PaymentRequest t)),
          (''result_text'', json_String resultText),
          (''content_type'', json_String contentType)])"

definition writeJSONSummary :: "pipeline_result \<Rightarrow> string" where
  "writeJSONSummary res =
     ''{'' @ newline
     @ strings_Join (map (\<lambda>(name, v). ''  '' @ json_field name @ '' '' @ v) (summaryFields res)) ('','' @ newline)
     @ newline @ ''}'' @ newline"

section \<open>The request reads back\<close>

definition strip_prefix :: "string \<Rightarrow> string \<Rightarrow> string option" where
  "strip_prefix p s = (if take (length p) s = p then Some (drop (length p) s) else None)"

text \<open>A reader of the request: the model, the content of the message, and what follows it.\<close>

definition read_request :: "string \<Rightarrow> (string \<times> string \<times> string) option" where
  "read_request doc =
     (case strip_prefix (''{'' @ json_field ''model'') doc of
        None \<Rightarrow> None
      | Some r \<Rightarrow>
     (case json_literal r of
        None \<Rightarrow> None
      | Some (model, r1) \<Rightarrow>
     (case strip_prefix ('','' @ json_field ''messages'' @ ''[{'' @ json_field ''role'' @ json_String ''user''
                          @ '','' @ json_field ''content'') r1 of
        None \<Rightarrow> None
      | Some r2 \<Rightarrow> map_option (\<lambda>(content, rest). (model, content, rest)) (json_literal r2))))"

definition request_options :: "u32 \<Rightarrow> u32 \<Rightarrow> string" where
  "request_options t n =
     (if t = 0 then [] else '','' @ json_field ''temperature'' @ json_milli (unat t))
     @ (if n = 0 then [] else '','' @ json_field ''max_tokens'' @ show_nat (unat n))"

lemma strip_prefix_append [simp]: "strip_prefix p (p @ s) = Some s"
  by (simp add: strip_prefix_def)

lemma request_layout:
  "buildOpenAIChatCompletionsV1RequestJSON model prompt t n = Inr b \<longleftrightarrow>
     strings_TrimSpace model \<noteq> [] \<and>
     bytes_string b = (''{'' @ json_field ''model'') @ json_String (strings_TrimSpace model)
       @ ('','' @ json_field ''messages'' @ ''[{'' @ json_field ''role'' @ json_String ''user'' @ '','' @ json_field ''content'')
       @ json_String prompt @ ''}]'' @ request_options t n @ ''}''" (is "?l \<longleftrightarrow> ?m \<and> bytes_string b = ?doc")
proof -
  have "?l \<longleftrightarrow> ?m \<and> b = string_bytes ?doc"
    by (auto simp: buildOpenAIChatCompletionsV1RequestJSON_def Let_def marshalChatRequest_def marshalMessage_def request_options_def)
  then show ?thesis by (metis bytes_string_string_bytes string_bytes_bytes_string)
qed

lemma read_request_layout:
  assumes "utf8_ValidString m" and "utf8_ValidString p"
  shows "read_request ((''{'' @ json_field ''model'') @ json_String m
       @ ('','' @ json_field ''messages'' @ ''[{'' @ json_field ''role'' @ json_String ''user'' @ '','' @ json_field ''content'')
       @ json_String p @ rest) = Some (m, p, rest)"
  unfolding read_request_def strip_prefix_append option.case json_String_reads [OF assms(1)] prod.case
    json_String_reads [OF assms(2)] by simp

section \<open>The amount in satoshi\<close>

lemma show_nat_inject: "show_nat a = show_nat b \<longleftrightarrow> a = b"
  by (metis parse_digits_show_nat option.inject)

lemma digits3_inject: "a < 1000 \<Longrightarrow> b < 1000 \<Longrightarrow> digits3 a = digits3 b \<Longrightarrow> a = b"
proof -
  assume a: "a < 1000" "b < 1000" and d: "digits3 a = digits3 b"
  have "(of_char (char_of (48 + x :: nat)) :: nat) = 48 + x" if "x < 10" for x using that by simp
  then have inj: "char_of (48 + x :: nat) = (char_of (48 + y) :: char) \<Longrightarrow> x < 10 \<Longrightarrow> y < 10 \<Longrightarrow> x = y" for x y
    by (metis add_left_cancel)
  from d have "a div 100 mod 10 = b div 100 mod 10" "a div 10 mod 10 = b div 10 mod 10" "a mod 10 = b mod 10"
    unfolding digits3_def list.map list.inject by (blast intro: inj mod_less_divisor zero_less_numeral)+
  moreover have "n = 100 * (n div 100 mod 10) + 10 * (n div 10 mod 10) + n mod 10" if "n < 1000" for n :: nat
  proof -
    have "n div 100 = n div 10 div 10" by (simp add: div_mult2_eq [symmetric])
    moreover have "n div 100 mod 10 = n div 100" using that by (simp add: less_mult_imp_div_less)
    ultimately show ?thesis using mult_div_mod_eq [of 10 n] mult_div_mod_eq [of 10 "n div 10"] by linarith
  qed
  ultimately show "a = b" using a by metis
qed

lemma formatMsatAsSat_eq:
  "formatMsatAsSat m = show_nat (unat m div 1000) @ (if unat m mod 1000 = 0 then [] else CHR ''.'' # digits3 (unat m mod 1000))"
  by (simp add: formatMsatAsSat_def Let_def unat_div unat_mod unat_eq_0 [symmetric])

lemma formatMsatAsSat_inject: "formatMsatAsSat a = formatMsatAsSat b \<longleftrightarrow> a = b"
proof
  assume eq: "formatMsatAsSat a = formatMsatAsSat b"
  have nodot: "CHR ''.'' \<notin> set (show_nat n)" for n using show_nat_digits [of "CHR ''.''" n] by auto
  then have "takeWhile (\<lambda>c. c \<noteq> CHR ''.'') (formatMsatAsSat m) = show_nat (unat m div 1000)"
    "dropWhile (\<lambda>c. c \<noteq> CHR ''.'') (formatMsatAsSat m)
       = (if unat m mod 1000 = 0 then [] else CHR ''.'' # digits3 (unat m mod 1000))" for m
    unfolding formatMsatAsSat_eq by (auto simp: takeWhile_append dropWhile_append)
  with eq have "unat a div 1000 = unat b div 1000" and
    "(if unat a mod 1000 = 0 then [] else CHR ''.'' # digits3 (unat a mod 1000))
      = (if unat b mod 1000 = 0 then [] else CHR ''.'' # digits3 (unat b mod 1000))"
    using show_nat_inject by metis+
  moreover from this(2) have "unat a mod 1000 = unat b mod 1000"
    by (auto split: if_split_asm intro: digits3_inject)
  ultimately show "a = b" by (metis div_mult_mod_eq word_unat_eq_iff)
qed simp

section \<open>What the pipeline calls\<close>

text \<open>
  The account of a sequence of calls: every call asks the chosen peer for a quote, or asks
  for one and then accepts, with payment, the job that this quote names; the sum counts the
  price of the quotes whose execution returned a result.
\<close>

definition accept_of :: "run_options \<Rightarrow> proto_terms \<Rightarrow> accept_and_execute_request" where
  "accept_of opts terms = \<lparr>ae_PeerId = op_PeerID opts, ae_JobId = pt_JobId terms, ae_PayInvoice = True\<rparr>"

definition charge :: "proto_terms \<Rightarrow> proto_result option option res \<Rightarrow> u64" where
  "charge terms answer = (case answer of Inr (Some (Some _)) \<Rightarrow> pt_PriceMsat terms | _ \<Rightarrow> 0)"

inductive accounts :: "oneshot_client \<Rightarrow> run_options \<Rightarrow> oneshot_event list \<Rightarrow> u64 \<Rightarrow> bool" for C opts where
  accounts_none: "accounts C opts [] 0"
| accounts_quote: "accounts C opts tr m \<Longrightarrow> rq_PeerId q = op_PeerID opts \<Longrightarrow> accounts C opts (tr @ [OsQuote q]) m"
| accounts_paid: "accounts C opts tr m \<Longrightarrow> rq_PeerId q = op_PeerID opts
    \<Longrightarrow> oc_RequestQuote C (length tr) q = Inr (Some terms)
    \<Longrightarrow> accounts C opts (tr @ [OsQuote q, OsAccept (accept_of opts terms)])
          (m + charge terms (oc_AcceptAndExecute C (Suc (length tr)) (accept_of opts terms)))"

definition no_accept :: "oneshot_event list \<Rightarrow> bool" where
  "no_accept evs \<longleftrightarrow> (\<forall>a. OsAccept a \<notin> set evs)"

lemma requestTerms_trace: "requestTerms C rq tr = (r, tr1) \<Longrightarrow> tr1 = tr @ [OsQuote rq]
    \<and> (\<forall>t. r = Inr t \<longrightarrow> oc_RequestQuote C (length tr) rq = Inr (Some t))"
  by (auto simp: requestTerms_def split: sum.splits option.splits)

lemma acceptQuote_trace: "acceptQuote C opts terms tr = (r, tr1) \<Longrightarrow> tr1 = tr @ [OsAccept (accept_of opts terms)]
    \<and> charge terms (oc_AcceptAndExecute C (length tr) (accept_of opts terms)) = (if isOk r then pt_PriceMsat terms else 0)"
  by (auto simp: acceptQuote_def Let_def accept_of_def charge_def split: sum.splits option.splits)

lemma chatTask_peer [simp]: "rq_PeerId (chatTask opts b) = op_PeerID opts"
  by (simp add: chatTask_def)

text \<open>One request for a quote, alone or followed by its acceptance, keeps the account.\<close>

lemma quote_accounts:
  assumes "accounts C opts tr m" and "requestTerms C (chatTask opts b) tr = (r, tr1)"
  shows "accounts C opts tr1 m"
  using assms accounts_quote by (auto dest: requestTerms_trace)

lemma paid_accounts:
  assumes "accounts C opts tr m" and "requestTerms C (chatTask opts b) tr = (Inr terms, tr1)"
    and "acceptQuote C opts terms tr1 = (r, tr2)"
  shows "accounts C opts tr2 (m + (if isOk r then pt_PriceMsat terms else 0))"
proof -
  from requestTerms_trace [OF assms(2)] have q: "tr1 = tr @ [OsQuote (chatTask opts b)]"
    "oc_RequestQuote C (length tr) (chatTask opts b) = Inr (Some terms)" by auto
  with accounts_paid [OF assms(1) chatTask_peer q(2)] acceptQuote_trace [OF assms(3)] show ?thesis by simp
qed

lemma runPipeline_accounts:
  assumes "runPipeline C opts tr = (r, tr1)" and "accounts C opts tr m"
  shows "(\<exists>m1. accounts C opts tr1 m1) \<and> (no_accept tr \<and> \<not> op_PayInvoice opts \<longrightarrow> no_accept tr1)"
proof (cases "op_PayInvoice opts")
  case True
  then show ?thesis
    using assms by (auto simp: runPipeline_def split: sum.splits prod.splits dest: quote_accounts paid_accounts)
next
  case False
  then show ?thesis
    using assms by (auto simp: runPipeline_def no_accept_def split: sum.splits prod.splits
        dest: quote_accounts requestTerms_trace)
qed

text \<open>In an account, each acceptance comes right after the quote it accepts.\<close>

lemma accounts_accept:
  assumes "accounts C opts tr m" and "OsAccept a \<in> set tr"
  shows "\<exists>xs q ys terms. tr = xs @ OsQuote q # OsAccept a # ys \<and> rq_PeerId q = op_PeerID opts
    \<and> oc_RequestQuote C (length xs) q = Inr (Some terms) \<and> a = accept_of opts terms"
  using assms
proof induction
  case (accounts_quote tr m q)
  then show ?case by force
next
  case (accounts_paid tr m q terms)
  show ?case
  proof (cases "OsAccept a \<in> set tr")
    case True
    with accounts_paid.IH show ?thesis by force
  next
    case False
    with accounts_paid show ?thesis by force
  qed
qed simp

section \<open>Properties\<close>

text \<open>
  C22. A prompt is sent as it is and only as the content of the message: when the model and
  the prompt are valid UTF-8, whatever quotation marks, braces, line breaks or control
  characters they contain, a reader of the request finds the trimmed model, exactly the
  prompt, and after it only the temperature and the token limit that were asked for.
\<close>

theorem prompt_sent_verbatim:
  assumes "utf8_ValidString (strings_TrimSpace model)" and "utf8_ValidString prompt"
    and "buildOpenAIChatCompletionsV1RequestJSON model prompt t n = Inr b"
  shows "read_request (bytes_string b) = Some (strings_TrimSpace model, prompt, ''}]'' @ request_options t n @ ''}'')"
  using read_request_layout [OF assms(1,2)] assms(3) unfolding request_layout by metis

theorem prompt_sent_verbatim_witness:
  "\<exists>b. buildOpenAIChatCompletionsV1RequestJSON '' gpt '' [CHR 0x22, CHR 0x0A, CHR 0x7D, CHR 0x5C] 700 0 = Inr b
     \<and> read_request (bytes_string b) = Some (''gpt'', [CHR 0x22, CHR 0x0A, CHR 0x7D, CHR 0x5C], ''}]'' @ request_options 700 0 @ ''}'')"
proof -
  have m: "strings_TrimSpace '' gpt '' = ''gpt''" by code_simp
  have v: "utf8_ValidString ''gpt''" "utf8_ValidString [CHR 0x22, CHR 0x0A, CHR 0x7D, CHR 0x5C]" by code_simp+
  obtain b where b: "buildOpenAIChatCompletionsV1RequestJSON '' gpt '' [CHR 0x22, CHR 0x0A, CHR 0x7D, CHR 0x5C] 700 0 = Inr b"
    by (simp add: buildOpenAIChatCompletionsV1RequestJSON_def Let_def m)
  from prompt_sent_verbatim [OF _ v(2) b] v(1) b show ?thesis by (simp add: m)
qed

end
