(* ===== verification/Oneshot_Chat.thy ===== *)
theory Oneshot_Chat
  imports Oneshot
begin

text \<open>
  The chat mode of the command line client, \<^verbatim>\<open>tools/lcpd-oneshot/chat.go\<close> and
  \<^verbatim>\<open>chat_tui.go\<close>: the prompt built from the conversation, one turn with the service, the
  loop over lines, the terminal interface as a step relation, and the main function. The
  lemmas show that the prompt keeps as much of the conversation as fits, that money is spent
  only when the client is told to, and that the interface runs one turn at a time.
\<close>

section \<open>The prompt of a conversation\<close>

datatype chat_role = chatRoleUser | chatRoleAssistant

record chat_message =
  ch_Role :: chat_role
  ch_Content :: string

definition formatChatMessage :: "chat_message \<Rightarrow> string" where
  "formatChatMessage msg =
     (if ch_Role msg = chatRoleAssistant then ''Assistant'' else ''User'') @ '': '' @ ch_Content msg @ newline"

abbreviation assistantCue :: string where "assistantCue \<equiv> ''Assistant: ''"

definition promptText :: "string \<Rightarrow> chat_message list \<Rightarrow> string" where
  "promptText systemBlock history = systemBlock @ concat (map formatChatMessage history) @ assistantCue"

definition buildChatPromptFromRev ::
    "string \<Rightarrow> chat_message list \<Rightarrow> bool \<Rightarrow> int \<Rightarrow> (string \<times> chat_message list \<times> bool) res" where
  "buildChatPromptFromRev systemBlock keptRev trimmed maxBytes =
     (if keptRev = []
      then Inl (errors_New (''prompt too large to fit max-prompt-bytes='' @ show_nat (nat maxBytes)
             @ '' (shorten your message or increase the limit)''))
      else Inr (promptText systemBlock (rev keptRev), rev keptRev, trimmed))"

text \<open>The loop over the history from its end: what was kept, latest first, and whether it stopped early.\<close>

fun keepLoop :: "int \<Rightarrow> int \<Rightarrow> chat_message list \<Rightarrow> chat_message list \<Rightarrow> chat_message list \<times> bool" where
  "keepLoop maxBytes used [] keptRev = (keptRev, False)"
| "keepLoop maxBytes used (msg # rest) keptRev =
     (let block = formatChatMessage msg in
      if maxBytes < used + int (length block) then (keptRev, True)
      else keepLoop maxBytes (used + int (length block)) rest (keptRev @ [msg]))"

definition systemBlockOf :: "string \<Rightarrow> string" where
  "systemBlockOf systemPrompt =
     (let sp = strings_TrimSpace systemPrompt in if sp \<noteq> [] then ''System: '' @ sp @ newline @ newline else [])"

definition buildChatPrompt ::
    "string \<Rightarrow> chat_message list \<Rightarrow> int \<Rightarrow> (string \<times> chat_message list \<times> bool) res" where
  "buildChatPrompt systemPrompt history maxBytes =
     (let systemBlock = systemBlockOf systemPrompt in
      if maxBytes = 0 then Inr (promptText systemBlock history, history, False)
      else if maxBytes < 0 then Inl (errors_New ''maxBytes must be >= 0'')
      else
        let baseLen = int (length systemBlock) + int (length assistantCue) in
        if maxBytes < baseLen
        then Inl (errors_New (''max-prompt-bytes too small ('' @ show_nat (nat maxBytes)
               @ ''): cannot fit system prompt + framing''))
        else
          (case keepLoop maxBytes baseLen (rev history) [] of
             (keptRev, trimmed) \<Rightarrow> buildChatPromptFromRev systemBlock keptRev trimmed maxBytes))"

section \<open>The reply\<close>

text \<open>
  Whether the lower case form of a text starts with the given lower case ASCII text. The
  letter \<^verbatim>\<open>i\<close> is also the lower case form of U+0130, two bytes long.
\<close>

fun lowerHasPrefix :: "string \<Rightarrow> string \<Rightarrow> bool" where
  "lowerHasPrefix s [] = True"
| "lowerHasPrefix s (w # ws) =
     (case s of
        [] \<Rightarrow> False
      | c # r \<Rightarrow>
          if ascii_lower c = w then lowerHasPrefix r ws
          else w = CHR ''i'' \<and> take 2 s = [CHR 0xC4, CHR 0xB0] \<and> lowerHasPrefix (drop 2 s) ws)"

definition normalizeAssistantReply :: "string \<Rightarrow> string" where
  "normalizeAssistantReply reply0 =
     (let reply = dropWhile is_newline reply0 in
      if length reply < 10 then reply
      else if lowerHasPrefix reply ''assistant:'' then strings_TrimSpace (drop 10 reply)
      else reply)"

text \<open>Decoding a response yields the contents of its choices.\<close>

definition extractAssistantContentFromChatCompletionsResponse ::
    "(bytes \<Rightarrow> string list res) \<Rightarrow> bytes \<Rightarrow> string" where
  "extractAssistantContentFromChatCompletionsResponse unmarshal body =
     (case unmarshal body of
        Inl err \<Rightarrow> []
      | Inr [] \<Rightarrow> []
      | Inr (content # rest) \<Rightarrow> content)"

definition replyText :: "(bytes \<Rightarrow> string list res) \<Rightarrow> bytes \<Rightarrow> string" where
  "replyText unmarshal replyBytes =
     (let reply = strings_TrimSpace (extractAssistantContentFromChatCompletionsResponse unmarshal replyBytes) in
      trimRightNewlines (normalizeAssistantReply (if reply = [] then bytes_string replyBytes else reply)))"

section \<open>A turn\<close>

record chat_env =
  ce_unmarshal :: "bytes \<Rightarrow> string list res"
  ce_client :: oneshot_client

record chat_session =
  cs_baseOpts :: run_options
  cs_history :: "chat_message list"
  cs_totalMsat :: u64
  cs_trace :: "oneshot_event list"

record chat_turn_output =
  co_Reply :: string
  co_PriceMsat :: u64
  co_TotalMsat :: u64
  co_Trimmed :: bool

definition newChatSession :: "run_options \<Rightarrow> chat_session" where
  "newChatSession opts = \<lparr>cs_baseOpts = opts, cs_history = [], cs_totalMsat = 0, cs_trace = []\<rparr>"

definition emptyOutput :: "bool \<Rightarrow> chat_turn_output" where
  "emptyOutput trimmed = \<lparr>co_Reply = [], co_PriceMsat = 0, co_TotalMsat = 0, co_Trimmed = trimmed\<rparr>"

definition dropLast :: "chat_session \<Rightarrow> chat_session" where
  "dropLast s = s\<lparr>cs_history := butlast (cs_history s)\<rparr>"

definition Turn :: "chat_env \<Rightarrow> string \<Rightarrow> chat_session \<Rightarrow> (chat_turn_output \<times> goerror option) \<times> chat_session" where
  "Turn E userText0 s =
     (let userText = strings_TrimSpace userText0; opts = cs_baseOpts s in
      if userText = [] then ((emptyOutput False, None), s)
      else
     (let s1 = s\<lparr>cs_history := cs_history s @ [\<lparr>ch_Role = chatRoleUser, ch_Content = userText\<rparr>]\<rparr> in
      case buildChatPrompt (op_SystemPrompt opts) (cs_history s1) (op_MaxPromptBytes opts) of
        Inl err \<Rightarrow> ((emptyOutput False, Some err), dropLast s1)
      | Inr (prompt, keepHistory, trimmed) \<Rightarrow>
     (let s2 = (if trimmed then s1\<lparr>cs_history := keepHistory\<rparr> else s1) in
      case buildOpenAIChatCompletionsV1RequestJSON (op_Model opts) prompt (op_TemperatureMilli opts)
             (op_MaxOutputTokens opts) of
        Inl err \<Rightarrow> ((emptyOutput trimmed, Some err), dropLast s2)
      | Inr requestJSON \<Rightarrow>
     (case requestTerms (ce_client E) (chatTask opts requestJSON) (cs_trace s2) of
        (Inl err, tr) \<Rightarrow> ((emptyOutput trimmed, Some err), dropLast (s2\<lparr>cs_trace := tr\<rparr>))
      | (Inr terms, tr) \<Rightarrow>
     (case acceptQuote (ce_client E) opts terms tr of
        (Inl err, tr1) \<Rightarrow> ((emptyOutput trimmed, Some err), dropLast (s2\<lparr>cs_trace := tr1\<rparr>))
      | (Inr res, tr1) \<Rightarrow>
     (let reply = replyText (ce_unmarshal E) (pr_Result res);
          newTotal = cs_totalMsat s2 + pt_PriceMsat terms
      in ((\<lparr>co_Reply = reply, co_PriceMsat = pt_PriceMsat terms, co_TotalMsat = newTotal, co_Trimmed = trimmed\<rparr>, None),
          s2\<lparr>cs_totalMsat := newTotal, cs_trace := tr1,
             cs_history := cs_history s2 @ [\<lparr>ch_Role = chatRoleAssistant, ch_Content = reply\<rparr>]\<rparr>)))))))"

section \<open>The loop over lines\<close>

text \<open>What the session writes: to the standard output and to the standard error.\<close>

record chat_io =
  io_session :: chat_session
  io_out :: string
  io_err :: string

definition printOut :: "string \<Rightarrow> chat_io \<Rightarrow> chat_io" where
  "printOut t s = s\<lparr>io_out := io_out s @ t\<rparr>"

definition printErr :: "string \<Rightarrow> chat_io \<Rightarrow> chat_io" where
  "printErr t s = s\<lparr>io_err := io_err s @ t\<rparr>"

abbreviation truncatedNote :: string where
  "truncatedNote \<equiv> ''(history truncated to fit max-prompt-bytes)''"

definition paidNote :: "u64 \<Rightarrow> u64 \<Rightarrow> string" where
  "paidNote price sum_msat = ''paid='' @ formatMsatAsSat price @ '' sat total='' @ formatMsatAsSat sum_msat @ '' sat''"

definition runTurn :: "chat_env \<Rightarrow> string \<Rightarrow> chat_io \<Rightarrow> goerror option \<times> chat_io" where
  "runTurn E userText s =
     (case Turn E userText (io_session s) of
        ((turn, err), cs) \<Rightarrow>
          let s1 = s\<lparr>io_session := cs\<rparr>;
              s2 = (if co_Trimmed turn then printErr (truncatedNote @ newline) s1 else s1)
          in case err of
               Some e \<Rightarrow> (Some e, s2)
             | None \<Rightarrow> (None, printOut (co_Reply turn @ newline @ paidNote (co_PriceMsat turn) (co_TotalMsat turn) @ newline) s2))"

abbreviation scannerMaxBufSize :: nat where "scannerMaxBufSize \<equiv> 1048576"

definition dropCR :: "string \<Rightarrow> string" where
  "dropCR l = (if l \<noteq> [] \<and> last l = CHR 0x0D then butlast l else l)"

text \<open>
  The lines that a scanner with this buffer yields, and whether it stops at a line that
  does not fit: a line is found as long as its newline, or the end of the input, comes
  before the buffer is full.
\<close>

function scanLines :: "string \<Rightarrow> string list \<times> bool" where
  "scanLines s =
     (if s = [] then ([], False)
      else
        (let line = takeWhile (\<lambda>c. c \<noteq> CHR 0x0A) s in
         if scannerMaxBufSize \<le> length line then ([], True)
         else (case scanLines (drop (Suc (length line)) s) of (ls, tooLong) \<Rightarrow> (dropCR line # ls, tooLong))))"
  by pat_completeness auto
termination
  by (relation "measure length") auto

declare scanLines.simps [simp del]

abbreviation errTooLong :: goerror where
  "errTooLong \<equiv> sentinel ''bufio.ErrTooLong'' ''bufio.Scanner: token too long''"

fun runLoop :: "chat_env \<Rightarrow> string list \<Rightarrow> goerror option \<Rightarrow> chat_io \<Rightarrow> goerror option \<times> chat_io" where
  "runLoop E [] readErr s = (map_option (wrapf ''read input'') readErr, printOut ''> '' s)"
| "runLoop E (raw # rest) readErr s =
     (let s1 = printOut ''> '' s; line = strings_TrimSpace raw in
      if line = [] then runLoop E rest readErr s1
      else if line = ''/exit'' \<or> line = ''/quit'' then (None, s1)
      else (case runTurn E line s1 of
        (None, s2) \<Rightarrow> runLoop E rest readErr s2
      | (Some e, s2) \<Rightarrow> runLoop E rest readErr (printErr (error_text e @ newline) s2)))"

text \<open>The input is a text and the error, if any, that reading ended with.\<close>

definition Run :: "chat_env \<Rightarrow> string \<times> goerror option \<Rightarrow> chat_io \<Rightarrow> goerror option \<times> chat_io" where
  "Run E inp s =
     (let opts = cs_baseOpts (io_session s);
          s1 = printOut (''chat peer_id='' @ op_PeerID opts @ '' model='' @ op_Model opts @ '' (Ctrl-D or /exit)'' @ newline) s;
          initial = strings_TrimSpace (op_Prompt opts);
          (err, s2) = (if initial \<noteq> [] then runTurn E initial s1 else (None, s1))
      in case err of
           Some e \<Rightarrow> (Some e, s2)
         | None \<Rightarrow>
             (case scanLines (fst inp) of
                (ls, tooLong) \<Rightarrow> runLoop E ls (if tooLong then Some errTooLong else snd inp) s2))"

section \<open>The terminal interface (chat\_tui.go)\<close>

text \<open>
  The toolkit's text input and styles are parameters: how a key changes the text, and how a
  style renders a text. A command that the model returns is run by the toolkit.
\<close>

record tui_styles =
  ts_user :: "string \<Rightarrow> string"
  ts_assistant :: "string \<Rightarrow> string"
  ts_meta :: "string \<Rightarrow> string"
  ts_err :: "string \<Rightarrow> string"

datatype tui_key = KeyCtrlC | KeyCtrlD | KeyEsc | KeyEnter | KeyOther nat

datatype tui_cmd = CmdNone | CmdQuit | CmdInput | CmdTurn string

datatype tui_msg =
    WindowSizeMsg int int
  | KeyMsg tui_key
  | TurnResultMsg chat_turn_output "goerror option"
  | OtherMsg

record chat_tui =
  tu_input :: string
  tu_focused :: bool
  tu_inputWidth :: int
  tu_width :: int
  tu_height :: int
  tu_sending :: bool
  tu_totalMsat :: u64
  tu_lines :: "string list"

definition newChatTUIModel :: chat_tui where
  "newChatTUIModel = \<lparr>tu_input = [], tu_focused = True, tu_inputWidth = 0, tu_width = 0, tu_height = 0,
     tu_sending = False, tu_totalMsat = 0, tu_lines = []\<rparr>"

definition appendBlankLine :: "chat_tui \<Rightarrow> chat_tui" where
  "appendBlankLine m = (if tu_lines m = [] \<or> last (tu_lines m) = [] then m else m\<lparr>tu_lines := tu_lines m @ [[]]\<rparr>)"

definition appendLines :: "string list \<Rightarrow> chat_tui \<Rightarrow> chat_tui" where
  "appendLines ls m = (let m1 = appendBlankLine m in m1\<lparr>tu_lines := tu_lines m1 @ ls\<rparr>)"

definition appendMessage :: "string \<Rightarrow> (string \<Rightarrow> string) \<Rightarrow> string \<Rightarrow> chat_tui \<Rightarrow> chat_tui" where
  "appendMessage label labelStyle text m =
     (let parts = strings_Split (CHR 0x0A) (trimRightNewlines text);
          m1 = appendBlankLine m;
          prefix = labelStyle (label @ '':'')
      in case parts of
           [] \<Rightarrow> m1\<lparr>tu_lines := tu_lines m1 @ [prefix]\<rparr>
         | p # ps \<Rightarrow> m1\<lparr>tu_lines := tu_lines m1 @ (prefix @ '' '' @ p)
                # map (\<lambda>line. replicate (length label + 2) (CHR '' '') @ line) ps\<rparr>)"

definition appendUser :: "tui_styles \<Rightarrow> string \<Rightarrow> chat_tui \<Rightarrow> chat_tui" where
  "appendUser st = appendMessage ''You'' (ts_user st)"

definition appendAssistant :: "tui_styles \<Rightarrow> string \<Rightarrow> chat_tui \<Rightarrow> chat_tui" where
  "appendAssistant st = appendMessage ''Assistant'' (ts_assistant st)"

definition appendMeta :: "tui_styles \<Rightarrow> string \<Rightarrow> chat_tui \<Rightarrow> chat_tui" where
  "appendMeta st text = appendLines [ts_meta st text]"

definition appendError :: "tui_styles \<Rightarrow> goerror \<Rightarrow> chat_tui \<Rightarrow> chat_tui" where
  "appendError st err = appendLines [ts_err st (''error: '' @ error_text err)]"

definition startTurn :: "tui_styles \<Rightarrow> string \<Rightarrow> chat_tui \<Rightarrow> chat_tui \<times> tui_cmd" where
  "startTurn st text m =
     ((appendUser st text m)\<lparr>tu_sending := True, tu_focused := False\<rparr>, CmdTurn (strings_TrimSpace text))"

definition tui_Init :: "tui_styles \<Rightarrow> run_options \<Rightarrow> chat_tui \<Rightarrow> chat_tui \<times> tui_cmd" where
  "tui_Init st opts m =
     (let initial = strings_TrimSpace (op_Prompt opts) in
      if initial = [] then (m, CmdNone) else startTurn st initial m)"

definition updateWindowSize :: "int \<Rightarrow> int \<Rightarrow> chat_tui \<Rightarrow> chat_tui" where
  "updateWindowSize w h m =
     (let m1 = m\<lparr>tu_width := w, tu_height := h\<rparr> in if w \<le> 0 then m1 else m1\<lparr>tu_inputWidth := max 10 (w - 2)\<rparr>)"

definition updateKey ::
    "tui_styles \<Rightarrow> (tui_key \<Rightarrow> string \<Rightarrow> string) \<Rightarrow> tui_key \<Rightarrow> chat_tui \<Rightarrow> chat_tui \<times> tui_cmd" where
  "updateKey st edit key m =
     (if key \<in> {KeyCtrlC, KeyCtrlD, KeyEsc} then (m, CmdQuit)
      else if tu_sending m then (m, CmdNone)
      else if key \<noteq> KeyEnter then (m\<lparr>tu_input := edit key (tu_input m)\<rparr>, CmdInput)
      else
        (let text = strings_TrimSpace (tu_input m) in
         if text = [] then (m, CmdNone)
         else
           (let m1 = m\<lparr>tu_input := []\<rparr> in
            if text = ''/exit'' \<or> text = ''/quit'' then (m1, CmdQuit) else startTurn st text m1)))"

definition updateTurnResult :: "tui_styles \<Rightarrow> chat_turn_output \<Rightarrow> goerror option \<Rightarrow> chat_tui \<Rightarrow> chat_tui" where
  "updateTurnResult st out err m =
     (let m1 = m\<lparr>tu_sending := False, tu_focused := True\<rparr>;
          m2 = (if co_Trimmed out then appendMeta st truncatedNote m1 else m1)
      in case err of
           Some e \<Rightarrow> appendError st e m2
         | None \<Rightarrow> (appendMeta st (paidNote (co_PriceMsat out) (co_TotalMsat out)) (appendAssistant st (co_Reply out) m2))
                     \<lparr>tu_totalMsat := co_TotalMsat out\<rparr>)"

definition tui_Update ::
    "tui_styles \<Rightarrow> (tui_key \<Rightarrow> string \<Rightarrow> string) \<Rightarrow> tui_msg \<Rightarrow> chat_tui \<Rightarrow> chat_tui \<times> tui_cmd" where
  "tui_Update st edit msg m =
     (case msg of
        WindowSizeMsg w h \<Rightarrow> (updateWindowSize w h m, CmdNone)
      | KeyMsg key \<Rightarrow> updateKey st edit key m
      | TurnResultMsg out err \<Rightarrow> (updateTurnResult st out err m, CmdNone)
      | OtherMsg \<Rightarrow> (m, CmdNone))"

definition visibleBodyLines :: "chat_tui \<Rightarrow> string list" where
  "visibleBodyLines m =
     (if tu_height m \<le> 0 then tu_lines m
      else
        (let available = tu_height m - 3 - 3 - 2 in
         if available \<le> 0 then []
         else if int (length (tu_lines m)) \<le> available then tu_lines m
         else drop (length (tu_lines m) - nat available) (tu_lines m)))"

section \<open>The terminal program\<close>

text \<open>
  The toolkit delivers messages one at a time and runs each command beside them. A schedule
  says in which order keys arrive, turns that were started run to their end, and their
  results are delivered; after a quit nothing more happens. The program ends with the error
  of the toolkit, if any.
\<close>

datatype tui_event =
    TeWindow int int
  | TeKey tui_key
  | TeOther
  | TeRun nat
  | TeDeliver nat

record tui_world =
  tw_model :: chat_tui
  tw_session :: chat_session
  tw_pending :: "string list"
  tw_results :: "(chat_turn_output \<times> goerror option) list"
  tw_quit :: bool

record tui_terminal =
  tt_styles :: tui_styles
  tt_edit :: "tui_key \<Rightarrow> string \<Rightarrow> string"
  tt_schedule :: "tui_event list"
  tt_error :: "goerror option"

definition runCmd :: "chat_tui \<times> tui_cmd \<Rightarrow> tui_world \<Rightarrow> tui_world" where
  "runCmd mc w =
     (let w1 = w\<lparr>tw_model := fst mc\<rparr> in
      case snd mc of
        CmdTurn text \<Rightarrow> w1\<lparr>tw_pending := tw_pending w1 @ [text]\<rparr>
      | CmdQuit \<Rightarrow> w1\<lparr>tw_quit := True\<rparr>
      | CmdNone \<Rightarrow> w1
      | CmdInput \<Rightarrow> w1)"

abbreviation without :: "nat \<Rightarrow> 'a list \<Rightarrow> 'a list" where
  "without n xs \<equiv> take n xs @ drop (Suc n) xs"

definition turnCmd :: "chat_env \<Rightarrow> nat \<Rightarrow> tui_world \<Rightarrow> tui_world" where
  "turnCmd E n w =
     (if n < length (tw_pending w)
      then (case Turn E (tw_pending w ! n) (tw_session w) of
              (result, cs) \<Rightarrow> w\<lparr>tw_session := cs, tw_pending := without n (tw_pending w), tw_results := tw_results w @ [result]\<rparr>)
      else w)"

definition tui_step :: "chat_env \<Rightarrow> tui_styles \<Rightarrow> (tui_key \<Rightarrow> string \<Rightarrow> string) \<Rightarrow> tui_event \<Rightarrow> tui_world \<Rightarrow> tui_world" where
  "tui_step E st edit ev w =
     (let update = (\<lambda>msg w. runCmd (tui_Update st edit msg (tw_model w)) w) in
      if tw_quit w then w
      else case ev of
        TeWindow width height \<Rightarrow> update (WindowSizeMsg width height) w
      | TeKey key \<Rightarrow> update (KeyMsg key) w
      | TeOther \<Rightarrow> update OtherMsg w
      | TeRun n \<Rightarrow> turnCmd E n w
      | TeDeliver n \<Rightarrow>
          if n < length (tw_results w)
          then update (case tw_results w ! n of (out, err) \<Rightarrow> TurnResultMsg out err) (w\<lparr>tw_results := without n (tw_results w)\<rparr>)
          else w)"

definition tui_start :: "tui_styles \<Rightarrow> chat_session \<Rightarrow> tui_world" where
  "tui_start st s =
     runCmd (tui_Init st (cs_baseOpts s) newChatTUIModel)
       \<lparr>tw_model = newChatTUIModel, tw_session = s, tw_pending = [], tw_results = [], tw_quit = False\<rparr>"

definition tui_run :: "chat_env \<Rightarrow> tui_terminal \<Rightarrow> chat_session \<Rightarrow> tui_world" where
  "tui_run E T s = fold (tui_step E (tt_styles T) (tt_edit T)) (tt_schedule T) (tui_start (tt_styles T) s)"

definition runChatTUI :: "chat_env \<Rightarrow> tui_terminal \<Rightarrow> chat_session \<Rightarrow> goerror option \<times> chat_session" where
  "runChatTUI E T s = (tt_error T, tw_session (tui_run E T s))"

section \<open>The main function\<close>

text \<open>
  The terminal is what drives the interface, when both ends are terminals. A turn that is still
  in flight when the terminal program fails ends with it here; its goroutine could still finish
  beside the line interface that takes over.
\<close>

definition runChatWithDialer ::
    "(string \<Rightarrow> oneshot_client res) \<Rightarrow> (bytes \<Rightarrow> string list res) \<Rightarrow> run_options
      \<Rightarrow> tui_terminal option \<Rightarrow> string \<times> goerror option
      \<Rightarrow> goerror option \<times> chat_io" where
  "runChatWithDialer dial unmarshal opts tui inp =
     (let io0 = \<lparr>io_session = newChatSession opts, io_out = [], io_err = []\<rparr> in
      case dial (op_ServerAddr opts) of
        Inl err \<Rightarrow> (Some err, io0)
      | Inr client \<Rightarrow>
          (let E = \<lparr>ce_unmarshal = unmarshal, ce_client = client\<rparr> in
           case tui of
             None \<Rightarrow> Run E inp io0
           | Some T \<Rightarrow>
               (case runChatTUI E T (newChatSession opts) of
                  (None, cs) \<Rightarrow> (None, io0\<lparr>io_session := cs\<rparr>)
                | (Some e, cs) \<Rightarrow>
                    Run E inp (printErr (''tui disabled ('' @ error_text e @ ''); falling back to plain REPL'' @ newline)
                      (io0\<lparr>io_session := cs\<rparr>)))))"

record main_outcome =
  mo_Exit :: nat
  mo_Stdout :: string
  mo_Stderr :: string
  mo_Trace :: "oneshot_event list"

definition realMain ::
    "oneshot_flags res \<Rightarrow> string \<times> goerror option \<Rightarrow> (string \<Rightarrow> oneshot_client res) \<Rightarrow> (bytes \<Rightarrow> string list res)
      \<Rightarrow> tui_terminal option \<Rightarrow> main_outcome" where
  "realMain parsed stdin dial unmarshal tui =
     (case parseArgs parsed (Some (case snd stdin of None \<Rightarrow> Inr (fst stdin) | Some e \<Rightarrow> Inl e)) of
        Inl err \<Rightarrow> \<lparr>mo_Exit = 1, mo_Stdout = [], mo_Stderr = error_text err @ newline, mo_Trace = []\<rparr>
      | Inr opts \<Rightarrow>
          if op_Chat opts
          then (case runChatWithDialer dial unmarshal opts tui stdin of
                  (Some err, s) \<Rightarrow> \<lparr>mo_Exit = 1, mo_Stdout = io_out s, mo_Stderr = io_err s @ error_text err @ newline,
                                   mo_Trace = cs_trace (io_session s)\<rparr>
                | (None, s) \<Rightarrow> \<lparr>mo_Exit = 0, mo_Stdout = io_out s, mo_Stderr = io_err s, mo_Trace = cs_trace (io_session s)\<rparr>)
          else (case runWithDialer dial opts [] of
                  (Inl err, tr) \<Rightarrow> \<lparr>mo_Exit = 1, mo_Stdout = [], mo_Stderr = error_text err @ newline, mo_Trace = tr\<rparr>
                | (Inr res, tr) \<Rightarrow>
                    \<lparr>mo_Exit = 0, mo_Stdout = (if op_OutputJSON opts then writeJSONSummary res else formatHumanSummary res),
                     mo_Stderr = [], mo_Trace = tr\<rparr>))"

section \<open>The prompt keeps as much as fits\<close>

abbreviation message_size :: "chat_message list \<Rightarrow> nat" where
  "message_size ms \<equiv> length (concat (map formatChatMessage ms))"

lemma keepLoop_split:
  assumes "keepLoop maxBytes used ms kept = (kr, tm)" and "used \<le> maxBytes"
  shows "\<exists>taken. kr = kept @ taken \<and> used + int (message_size taken) \<le> maxBytes
    \<and> (\<exists>rest. ms = taken @ rest \<and> (tm \<longleftrightarrow> rest \<noteq> [])
        \<and> (rest \<noteq> [] \<longrightarrow> maxBytes < used + int (message_size (taken @ [hd rest]))))"
  using assms
proof (induction maxBytes used ms kept rule: keepLoop.induct)
  case (2 maxBytes used msg rest kept)
  show ?case
  proof (cases "maxBytes < used + int (length (formatChatMessage msg))")
    case True
    with 2 show ?thesis by (intro exI [of _ "[]"]) auto
  next
    case False
    with 2 obtain taken rest' where "kr = (kept @ [msg]) @ taken"
      "used + int (length (formatChatMessage msg)) + int (message_size taken) \<le> maxBytes" "rest = taken @ rest'" "tm \<longleftrightarrow> rest' \<noteq> []"
      "rest' \<noteq> [] \<longrightarrow> maxBytes < used + int (length (formatChatMessage msg)) + int (message_size (taken @ [hd rest']))"
      by (auto simp: Let_def)
    then show ?thesis by (intro exI [of _ "msg # taken"]) auto
  qed
qed auto

lemma message_size_rev: "message_size (rev ms) = message_size ms"
  by (simp add: rev_map [symmetric] length_concat sum_list_rev)

lemma length_promptText: "length (promptText sb ms) = length sb + message_size ms + length assistantCue"
  by (simp add: promptText_def)

lemma buildChatPrompt_cases:
  assumes "0 < maxBytes"
  shows "case buildChatPrompt sp history maxBytes of
      Inr (prompt, keep, trimmed) \<Rightarrow>
        keep \<noteq> [] \<and> prompt = promptText (systemBlockOf sp) keep \<and> int (length prompt) \<le> maxBytes
        \<and> (\<exists>dropped. history = dropped @ keep \<and> (trimmed \<longleftrightarrow> dropped \<noteq> [])
             \<and> (dropped \<noteq> [] \<longrightarrow> maxBytes < int (length (promptText (systemBlockOf sp) (last dropped # keep)))))
    | Inl err \<Rightarrow> history = [] \<or> maxBytes < int (length (promptText (systemBlockOf sp) [last history]))"
proof (cases "maxBytes < int (length (systemBlockOf sp)) + int (length assistantCue)")
  case True
  with assms show ?thesis by (simp add: buildChatPrompt_def length_promptText)
next
  case False
  let ?base = "int (length (systemBlockOf sp)) + int (length assistantCue)"
  obtain kr tm where k: "keepLoop maxBytes ?base (rev history) [] = (kr, tm)" by fastforce
  from keepLoop_split [OF this] False obtain rest where
    r: "?base + int (message_size kr) \<le> maxBytes" "rev history = kr @ rest" "tm \<longleftrightarrow> rest \<noteq> []"
    "rest \<noteq> [] \<longrightarrow> maxBytes < ?base + int (message_size (kr @ [hd rest]))" by auto
  have h: "history = rev rest @ rev kr" using r(2) by (metis rev_append rev_rev_ident)
  have b: "buildChatPrompt sp history maxBytes = buildChatPromptFromRev (systemBlockOf sp) kr tm maxBytes"
    using assms False k by (simp add: buildChatPrompt_def Let_def)
  show ?thesis
  proof (cases "kr = []")
    case True
    with h r(4) show ?thesis unfolding b
      by (auto simp: buildChatPromptFromRev_def length_promptText last_rev)
  next
    case False
    have "rest \<noteq> [] \<longrightarrow> maxBytes < int (length (promptText (systemBlockOf sp) (last (rev rest) # rev kr)))"
      using r(4) message_size_rev [of kr] by (auto simp: length_promptText last_rev)
    with False h r(1,3) message_size_rev [of kr] show ?thesis unfolding b
      by (auto simp: buildChatPromptFromRev_def length_promptText intro!: exI [of _ "rev rest"])
  qed
qed

lemma buildChatPrompt_suffix:
  assumes "buildChatPrompt sp (h @ [x]) n = Inr (prompt, keep, trimmed)"
  shows "(trimmed \<longrightarrow> (\<exists>k. keep = drop k h @ [x])) \<and> prompt = promptText (systemBlockOf sp) keep"
proof (cases "0 < n")
  case True
  from buildChatPrompt_cases [OF this, where sp = sp and history = "h @ [x]"] assms obtain dropped where
    "keep \<noteq> []" "h @ [x] = dropped @ keep" "prompt = promptText (systemBlockOf sp) keep" by auto
  moreover from this(1,2) have "keep = drop (length dropped) h @ [x]"
    by (metis append_eq_conv_conj butlast_append butlast_snoc drop_append length_butlast diff_is_0_eq drop0 last_appendR last_snoc snoc_eq_iff_butlast)
  ultimately show ?thesis by blast
next
  case False
  with assms show ?thesis by (auto simp: buildChatPrompt_def Let_def split: if_split_asm)
qed

section \<open>The account of a session\<close>

text \<open>Read from its end, a conversation alternates between the assistant and the user.\<close>

fun conversation_rev :: "chat_message list \<Rightarrow> bool" where
  "conversation_rev [] = True"
| "conversation_rev [m] \<longleftrightarrow> ch_Role m = chatRoleAssistant"
| "conversation_rev (a # u # ms) \<longleftrightarrow> ch_Role a = chatRoleAssistant \<and> ch_Role u = chatRoleUser \<and> conversation_rev ms"

lemma conversation_take: "conversation_rev ms \<Longrightarrow> conversation_rev (take n ms)"
proof (induction ms arbitrary: n rule: conversation_rev.induct)
  case (2 m)
  then show ?case by (cases n) auto
next
  case (3 a u ms)
  then show ?case by (cases n; cases "n - 1") auto
qed simp

definition session_ok :: "oneshot_client \<Rightarrow> chat_session \<Rightarrow> bool" where
  "session_ok C s \<longleftrightarrow> accounts C (cs_baseOpts s) (cs_trace s) (cs_totalMsat s) \<and> conversation_rev (rev (cs_history s))"

lemma session_ok_New: "session_ok C (newChatSession opts)"
  by (simp add: session_ok_def newChatSession_def accounts_none)

text \<open>What one turn does to a session: every way it may end.\<close>

lemma Turn_outcome:
  assumes "Turn E text s = ((out, err), s1)" and "session_ok (ce_client E) s"
  shows "session_ok (ce_client E) s1 \<and> cs_baseOpts s1 = cs_baseOpts s
    \<and> (err \<noteq> None \<longrightarrow> cs_totalMsat s1 = cs_totalMsat s \<and> co_PriceMsat out = 0)
    \<and> (err = None \<and> strings_TrimSpace text \<noteq> [] \<longrightarrow>
         co_TotalMsat out = cs_totalMsat s1 \<and> cs_totalMsat s1 = cs_totalMsat s + co_PriceMsat out)"
proof (cases "strings_TrimSpace text = []")
  case True
  with assms show ?thesis by (auto simp: Turn_def Let_def emptyOutput_def)
next
  case False
  let ?o = "cs_baseOpts s" and ?x = "\<lparr>ch_Role = chatRoleUser, ch_Content = strings_TrimSpace text\<rparr>"
  have acc: "accounts (ce_client E) ?o (cs_trace s) (cs_totalMsat s)" and conv: "conversation_rev (rev (cs_history s))"
    using assms(2) by (auto simp: session_ok_def)
  have cut: "conversation_rev (rev (drop k (cs_history s)))" for k
    using conversation_take [OF conv, of "length (cs_history s) - k"] by (simp add: rev_drop)
  show ?thesis
  proof (cases "buildChatPrompt (op_SystemPrompt ?o) (cs_history s @ [?x]) (op_MaxPromptBytes ?o)")
    case (Inl e)
    with False assms show ?thesis by (auto simp: Turn_def Let_def dropLast_def session_ok_def emptyOutput_def)
  next
    case (Inr y)
    obtain prompt keep trimmed where y: "y = (prompt, keep, trimmed)" by (cases y)
    define h where "h = (if trimmed then keep else cs_history s @ [?x])"
    have "\<exists>k. h = drop k (cs_history s) @ [?x]"
      using buildChatPrompt_suffix [OF Inr [unfolded y]] by (auto simp: h_def intro: exI [of _ 0])
    then obtain k where k: "h = drop k (cs_history s) @ [?x]" by blast
    have s2: "(if trimmed then (s\<lparr>cs_history := cs_history s @ [?x]\<rparr>)\<lparr>cs_history := keep\<rparr> else s\<lparr>cs_history := cs_history s @ [?x]\<rparr>)
        = s\<lparr>cs_history := h\<rparr>" by (simp add: h_def)
    show ?thesis
      using False Inr assms(1) acc cut
      by (auto simp: Turn_def Let_def y s2 k dropLast_def session_ok_def emptyOutput_def
          split: sum.splits prod.splits dest: quote_accounts paid_accounts)
  qed
qed

lemmas Turn_session = Turn_outcome [THEN conjunct1] Turn_outcome [THEN conjunct2, THEN conjunct1]

text \<open>The lines of the input, whatever they are, keep the account and the options.\<close>

definition io_ok :: "oneshot_client \<Rightarrow> run_options \<Rightarrow> chat_io \<Rightarrow> bool" where
  "io_ok C opts s \<longleftrightarrow> session_ok C (io_session s) \<and> cs_baseOpts (io_session s) = opts"

lemma io_ok_print [simp]: "io_ok C opts (printOut t s) = io_ok C opts s" "io_ok C opts (printErr t s) = io_ok C opts s"
  by (simp_all add: io_ok_def printOut_def printErr_def)

lemma runTurn_ok: "io_ok (ce_client E) opts s \<Longrightarrow> runTurn E text s = (err, s1) \<Longrightarrow> io_ok (ce_client E) opts s1"
  by (auto simp: runTurn_def Let_def io_ok_def printOut_def printErr_def Turn_session split: prod.splits option.splits if_split_asm)

lemma runLoop_ok: "io_ok (ce_client E) opts s \<Longrightarrow> io_ok (ce_client E) opts (snd (runLoop E ls e s))"
proof (induction ls arbitrary: s)
  case (Cons raw rest)
  obtain err s2 where r: "runTurn E (strings_TrimSpace raw) (printOut ''> '' s) = (err, s2)" by fastforce
  then have "io_ok (ce_client E) opts s2" using runTurn_ok Cons.prems by (metis io_ok_print(1))
  with Cons r show ?case by (cases err) (simp_all add: Let_def)
qed simp

lemma Run_ok: "io_ok (ce_client E) opts s \<Longrightarrow> io_ok (ce_client E) opts (snd (Run E inp s))"
proof -
  assume ok: "io_ok (ce_client E) opts s"
  have "io_ok (ce_client E) opts (snd (runTurn E t (printOut h s)))" for t h
    using runTurn_ok [of E opts "printOut h s" t] ok by (cases "runTurn E t (printOut h s)") auto
  with ok show ?thesis unfolding Run_def Let_def case_prod_unfold
    by (simp add: runLoop_ok split: option.split)
qed

section \<open>The interface runs one turn at a time\<close>

text \<open>
  A turn is under way exactly while the model says so: it is pending or its result waits to
  be delivered. The total on the screen is the total of the session unless a result waits,
  which then carries it.
\<close>

definition tui_inv :: "oneshot_client \<Rightarrow> run_options \<Rightarrow> tui_world \<Rightarrow> bool" where
  "tui_inv C opts w \<longleftrightarrow> session_ok C (tw_session w) \<and> cs_baseOpts (tw_session w) = opts
     \<and> length (tw_pending w) + length (tw_results w) = (if tu_sending (tw_model w) then 1 else 0)
     \<and> (\<forall>t \<in> set (tw_pending w). strings_TrimSpace t \<noteq> [])
     \<and> (if \<exists>out. tw_results w = [(out, None)] then co_TotalMsat (fst (hd (tw_results w))) = cs_totalMsat (tw_session w)
        else tu_totalMsat (tw_model w) = cs_totalMsat (tw_session w))"

lemma append_simps [simp]:
  "tu_sending (appendLines ls m) = tu_sending m" "tu_totalMsat (appendLines ls m) = tu_totalMsat m"
  "tu_sending (appendMessage l st t m) = tu_sending m" "tu_totalMsat (appendMessage l st t m) = tu_totalMsat m"
  by (simp_all add: appendLines_def appendMessage_def appendBlankLine_def Let_def split: list.split)

lemma updateTurnResult_simps [simp]:
  "tu_sending (updateTurnResult st out err m) = False"
  "tu_totalMsat (updateTurnResult st out err m) = (if err = None then co_TotalMsat out else tu_totalMsat m)"
  by (simp_all add: updateTurnResult_def Let_def appendMeta_def appendError_def appendAssistant_def split: option.split)

lemma startTurn_inv:
  assumes "tui_inv C opts w" and "\<not> tu_sending (tw_model w)" and "tu_totalMsat m = tu_totalMsat (tw_model w)"
    and "strings_TrimSpace text \<noteq> []"
  shows "tui_inv C opts (runCmd (startTurn st text m) w)"
  using assms by (auto simp: tui_inv_def runCmd_def startTurn_def appendUser_def Let_def)

lemma quiet_inv:
  assumes "tui_inv C opts w" and "c \<in> {CmdNone, CmdQuit, CmdInput}" and "tu_sending m = tu_sending (tw_model w)"
    and "tu_totalMsat m = tu_totalMsat (tw_model w)"
  shows "tui_inv C opts (runCmd (m, c) w)"
  using assms by (auto simp: tui_inv_def runCmd_def Let_def)

lemma key_inv:
  assumes "tui_inv C opts w"
  shows "tui_inv C opts (runCmd (updateKey st edit key (tw_model w)) w)"
  unfolding updateKey_def Let_def by (auto intro!: quiet_inv [OF assms] startTurn_inv [OF assms])

lemma window_inv: "tui_inv C opts w \<Longrightarrow> tui_inv C opts (runCmd (updateWindowSize x y (tw_model w), CmdNone) w)"
  by (rule quiet_inv) (simp_all add: updateWindowSize_def Let_def)

lemma in_flight: "tui_inv C opts w \<Longrightarrow> length (tw_pending w) + length (tw_results w) \<le> 1"
  by (simp add: tui_inv_def)

lemma one_pending:
  assumes "tui_inv C opts w" and "n < length (tw_pending w)"
  obtains t where "tw_pending w = [t]" and "tw_results w = []" and "n = 0"
  using in_flight [OF assms(1)] assms(2) that by (cases "tw_pending w"; cases "tw_results w") auto

lemma one_result:
  assumes "tui_inv C opts w" and "n < length (tw_results w)"
  obtains r where "tw_pending w = []" and "tw_results w = [r]" and "n = 0"
  using in_flight [OF assms(1)] assms(2) that by (cases "tw_pending w"; cases "tw_results w") auto

lemma turnCmd_inv:
  assumes "tui_inv (ce_client E) opts w"
  shows "tui_inv (ce_client E) opts (turnCmd E n w)"
proof (cases "n < length (tw_pending w)")
  case True
  from one_pending [OF assms True] obtain t where t: "tw_pending w = [t]" "tw_results w = []" "n = 0" by metis
  obtain out err cs where T: "Turn E t (tw_session w) = ((out, err), cs)" by (metis prod.exhaust)
  from Turn_outcome [OF T] assms have "session_ok (ce_client E) cs" "cs_baseOpts cs = opts"
    "err \<noteq> None \<longrightarrow> cs_totalMsat cs = cs_totalMsat (tw_session w)" "err = None \<longrightarrow> co_TotalMsat out = cs_totalMsat cs"
    by (auto simp: tui_inv_def t)
  with assms t T show ?thesis
    by (cases err) (simp_all add: tui_inv_def turnCmd_def)
qed (use assms in \<open>simp add: turnCmd_def\<close>)

lemma deliver_inv:
  assumes "tui_inv C opts w" and "n < length (tw_results w)" and "tw_results w ! n = (out, err)"
  shows "tui_inv C opts (runCmd (updateTurnResult st out err (tw_model w), CmdNone) (w\<lparr>tw_results := without n (tw_results w)\<rparr>))"
proof -
  from one_result [OF assms(1,2)] assms(3) have "tw_pending w = []" "tw_results w = [(out, err)]" "n = 0"
    by (metis nth_Cons_0)+
  with assms show ?thesis by (cases err) (simp_all add: tui_inv_def runCmd_def Let_def)
qed

lemma tui_step_inv:
  assumes "tui_inv (ce_client E) opts w"
  shows "tui_inv (ce_client E) opts (tui_step E st edit ev w)"
  using assms key_inv [OF assms] turnCmd_inv [OF assms] window_inv [OF assms] deliver_inv [OF assms]
    quiet_inv [OF assms, of CmdNone "tw_model w"]
  by (cases ev) (simp_all add: tui_step_def Let_def tui_Update_def split: prod.split)

lemma tui_run_inv:
  assumes "session_ok (ce_client E) s" and "cs_totalMsat s = 0"
  shows "tui_inv (ce_client E) (cs_baseOpts s) (tui_run E T s)"
proof -
  have "tui_inv (ce_client E) (cs_baseOpts s) (tui_start st s)" for st
    using assms by (auto simp: tui_start_def tui_Init_def Let_def newChatTUIModel_def tui_inv_def runCmd_def
        startTurn_def appendUser_def)
  then show ?thesis unfolding tui_run_def
    by (rule fold_invariant [where Q = "\<lambda>_. True" and P = "tui_inv (ce_client E) (cs_baseOpts s)", rotated]) (auto intro: tui_step_inv)
qed

section \<open>What the program spends\<close>

lemma parseArgs_options:
  assumes "parseArgs parsed stdin = Inr opts"
  obtains f where "parsed = Inr f" and "op_PayInvoice opts = fg_payInvoice f" and "op_PeerID opts = strings_TrimSpace (fg_peerID f)"
    and "op_ServerAddr opts = fg_serverAddr f" and "op_Chat opts \<longrightarrow> fg_payInvoice f"
proof (cases parsed)
  case (Inr f)
  with assms that show ?thesis
    by (auto simp: parseArgs_def Let_def bindE_Inr_iff split: if_split_asm)
qed (use assms in \<open>simp add: parseArgs_def\<close>)

lemma runChatWithDialer_accounts:
  assumes "runChatWithDialer dial unmarshal opts tui inp = (err, s)" and "cs_trace (io_session s) \<noteq> []"
  shows "\<exists>C. dial (op_ServerAddr opts) = Inr C \<and> accounts C opts (cs_trace (io_session s)) (cs_totalMsat (io_session s))"
proof (cases "dial (op_ServerAddr opts)")
  case (Inl e)
  with assms show ?thesis by (auto simp: runChatWithDialer_def newChatSession_def)
next
  case (Inr C)
  let ?E = "\<lparr>ce_unmarshal = unmarshal, ce_client = C\<rparr>"
  have new: "io_ok C opts \<lparr>io_session = newChatSession opts, io_out = [], io_err = []\<rparr>"
    using session_ok_New by (simp add: io_ok_def newChatSession_def)
  have tui: "io_ok C opts \<lparr>io_session = snd (runChatTUI ?E T (newChatSession opts)), io_out = [], io_err = []\<rparr>" for T
    using tui_run_inv [of ?E "newChatSession opts" T] session_ok_New [of C opts]
    by (simp add: io_ok_def newChatSession_def runChatTUI_def tui_inv_def)
  have run: "io_ok C opts x \<Longrightarrow> io_ok C opts (snd (Run ?E inp x))" for x using Run_ok [of ?E opts x inp] by simp
  have "io_ok C opts (snd (runChatWithDialer dial unmarshal opts tui inp))"
    by (simp add: runChatWithDialer_def Inr Let_def case_prod_unfold run new tui split: option.split)
  with assms(1) have "io_ok C opts s" by simp
  with Inr show ?thesis by (auto simp: io_ok_def session_ok_def)
qed

lemma realMain_accounts:
  assumes "OsAccept a \<in> set (mo_Trace (realMain parsed stdin dial unmarshal tui))"
  shows "\<exists>f C opts m. parsed = Inr f \<and> fg_payInvoice f \<and> op_PeerID opts = strings_TrimSpace (fg_peerID f)
    \<and> dial (fg_serverAddr f) = Inr C \<and> accounts C opts (mo_Trace (realMain parsed stdin dial unmarshal tui)) m"
proof -
  let ?stdin = "Some (case snd stdin of None \<Rightarrow> Inr (fst stdin) | Some e \<Rightarrow> Inl e)"
  obtain opts where p: "parseArgs parsed ?stdin = Inr opts"
    using assms by (cases "parseArgs parsed ?stdin") (auto simp: realMain_def)
  from parseArgs_options [OF p] obtain f where f: "parsed = Inr f" "op_PayInvoice opts = fg_payInvoice f"
    "op_PeerID opts = strings_TrimSpace (fg_peerID f)" "op_ServerAddr opts = fg_serverAddr f" "op_Chat opts \<longrightarrow> fg_payInvoice f" by metis
  show ?thesis
  proof (cases "op_Chat opts")
    case True
    obtain err s where r: "runChatWithDialer dial unmarshal opts tui stdin = (err, s)" by fastforce
    have "mo_Trace (realMain parsed stdin dial unmarshal tui) = cs_trace (io_session s)"
      using p True r by (simp add: realMain_def split: option.split)
    with runChatWithDialer_accounts [OF r] assms f True show ?thesis by force
  next
    case False
    obtain r tr where r: "runWithDialer dial opts [] = (r, tr)" by fastforce
    have t: "mo_Trace (realMain parsed stdin dial unmarshal tui) = tr"
      using p False r by (cases r) (simp_all add: realMain_def)
    with assms r obtain C where C: "dial (op_ServerAddr opts) = Inr C" "runPipeline C opts [] = (r, tr)"
      by (auto simp: runWithDialer_def split: sum.split_asm)
    from runPipeline_accounts [OF C(2) accounts_none] assms t f C(1) show ?thesis
      by (auto simp: no_accept_def)
  qed
qed

definition sample_flags :: oneshot_flags where
  "sample_flags = \<lparr>fg_prompt = ''hi'', fg_chat = False, fg_systemPrompt = [], fg_maxPromptBytes = 12000, fg_serverAddr = ''s'',
     fg_peerID = ''p'', fg_model = [], fg_profile = [], fg_temperatureMilli = 0, fg_maxOutputTokens = 0,
     fg_payInvoice = True, fg_timeout = 30, fg_json = False, fg_Args = []\<rparr>"

definition sample_oneshot_client :: oneshot_client where
  "sample_oneshot_client = \<lparr>oc_RequestQuote = \<lambda>n q. Inr (Some sample_quote),
     oc_AcceptAndExecute = \<lambda>n a. Inr (Some (Some sample_output))\<rparr>"

lemma sample_trims:
  "strings_TrimSpace ''p'' = ''p''" "strings_TrimSpace ''hi'' = ''hi''" "strings_TrimSpace [] = []"
  "strings_TrimSpace defaultModel = defaultModel" "defaultModel \<noteq> []"
  by code_simp+

lemmas sample_run_defs = realMain_def parseArgs_def sample_flags_def resolvePromptByMode_def resolvePrompt_def Let_def
  sample_trims runWithDialer_def runPipeline_def buildOpenAIChatCompletionsV1RequestJSON_def requestTerms_def
  acceptQuote_def sample_oneshot_client_def

text \<open>
  The status of the result is not looked at: a job that failed at the provider is printed
  with an empty result, and the program exits with success.
\<close>

lemma failed_job_exits_zero:
  "mo_Exit (realMain (Inr sample_flags) ([], None) (\<lambda>_. Inr (sample_oneshot_client
     \<lparr>oc_AcceptAndExecute := \<lambda>n a. Inr (Some (Some (sample_output\<lparr>pr_Status := STATUS_FAILED, pr_Result := []\<rparr>)))\<rparr>)) u None) = 0"
  by (simp add: sample_run_defs)

section \<open>Properties\<close>

text \<open>
  C19. The client spends only as it is told: an invoice is paid, in any mode and whatever the
  terminal, the input and the service do, only when the flag for paying was given, for the
  peer that was named, and right after a quote of that peer, for the job that this quote
  names.
\<close>

theorem oneshot_spends_as_told:
  assumes "OsAccept a \<in> set (mo_Trace (realMain parsed stdin dial unmarshal tui))"
  shows "\<exists>f C xs q ys terms. parsed = Inr f \<and> fg_payInvoice f \<and> dial (fg_serverAddr f) = Inr C
    \<and> mo_Trace (realMain parsed stdin dial unmarshal tui) = xs @ OsQuote q # OsAccept a # ys
    \<and> oc_RequestQuote C (length xs) q = Inr (Some terms) \<and> rq_PeerId q = strings_TrimSpace (fg_peerID f)
    \<and> a = \<lparr>ae_PeerId = strings_TrimSpace (fg_peerID f), ae_JobId = pt_JobId terms, ae_PayInvoice = True\<rparr>"
proof -
  from realMain_accounts [OF assms] obtain f C opts m where "parsed = Inr f" "fg_payInvoice f"
    "op_PeerID opts = strings_TrimSpace (fg_peerID f)" "dial (fg_serverAddr f) = Inr C"
    and acc: "accounts C opts (mo_Trace (realMain parsed stdin dial unmarshal tui)) m" by blast
  with accounts_accept [OF acc assms] show ?thesis by (metis accept_of_def)
qed

theorem oneshot_spends_as_told_witness:
  "\<exists>a (f :: oneshot_flags) (terms :: proto_terms). OsAccept a \<in> set (mo_Trace (realMain (Inr sample_flags) ([], None) (\<lambda>_. Inr sample_oneshot_client) (\<lambda>b. Inr []) None))
     \<and> fg_payInvoice f \<and> a = \<lparr>ae_PeerId = strings_TrimSpace (fg_peerID f), ae_JobId = pt_JobId terms, ae_PayInvoice = True\<rparr>"
proof -
  let ?m = "realMain (Inr sample_flags) ([], None) (\<lambda>_. Inr sample_oneshot_client) (\<lambda>b. Inr []) None"
  let ?a = "\<lparr>ae_PeerId = ''p'', ae_JobId = pt_JobId sample_quote, ae_PayInvoice = True\<rparr>"
  have "OsAccept ?a \<in> set (mo_Trace ?m)" by (simp add: sample_run_defs)
  from this oneshot_spends_as_told [OF this] show ?thesis by blast
qed

text \<open>
  C21. The prompt of a chat turn keeps as much of the conversation as fits: with a limit, it
  is the system text, the longest end of the conversation that stays within the limit, and
  the cue; it is never longer than the limit, and the turn is refused only when not even the
  last message fits.
\<close>

theorem chat_prompt_is_longest_fit:
  assumes "0 < maxBytes"
  shows "case buildChatPrompt sp history maxBytes of
      Inr (prompt, keep, trimmed) \<Rightarrow>
        keep \<noteq> [] \<and> prompt = promptText (systemBlockOf sp) keep \<and> int (length prompt) \<le> maxBytes
        \<and> (\<exists>dropped. history = dropped @ keep \<and> (trimmed \<longleftrightarrow> dropped \<noteq> [])
             \<and> (dropped \<noteq> [] \<longrightarrow> maxBytes < int (length (promptText (systemBlockOf sp) (last dropped # keep)))))
    | Inl err \<Rightarrow> history = [] \<or> maxBytes < int (length (promptText (systemBlockOf sp) [last history]))"
  by (rule buildChatPrompt_cases [OF assms])

theorem chat_prompt_is_longest_fit_witness:
  "\<exists>keep dropped. buildChatPrompt [] [\<lparr>ch_Role = chatRoleUser, ch_Content = ''a''\<rparr>, \<lparr>ch_Role = chatRoleUser, ch_Content = ''b''\<rparr>] 20
       = Inr (''User: b'' @ newline @ ''Assistant: '', keep, True)
     \<and> [\<lparr>ch_Role = chatRoleUser, ch_Content = ''a''\<rparr>, \<lparr>ch_Role = chatRoleUser, ch_Content = ''b''\<rparr>] = dropped @ keep \<and> dropped \<noteq> []"
proof -
  let ?h = "[\<lparr>ch_Role = chatRoleUser, ch_Content = ''a''\<rparr>, \<lparr>ch_Role = chatRoleUser, ch_Content = ''b''\<rparr>]"
  have "buildChatPrompt [] ?h 20 = Inr (''User: b'' @ newline @ ''Assistant: '', [\<lparr>ch_Role = chatRoleUser, ch_Content = ''b''\<rparr>], True)"
    by (simp add: buildChatPrompt_def systemBlockOf_def strings_TrimSpace_def formatChatMessage_def promptText_def
        buildChatPromptFromRev_def Let_def)
  with chat_prompt_is_longest_fit [where maxBytes = 20 and sp = "[]" and history = ?h] show ?thesis by auto
qed

text \<open>
  C20. The terminal interface keeps the account: whatever keys are pressed and however they
  are ordered with the turns that run, at most one turn is under way, the calls of the
  session are quotes and acceptances of them, the total of the session is the sum of the
  prices of the executed jobs, and when no turn is under way the screen shows that total.
\<close>

theorem chat_interface_keeps_account:
  "let w = tui_run E T (newChatSession opts) in
     length (tw_pending w) + length (tw_results w) \<le> 1
     \<and> accounts (ce_client E) opts (cs_trace (tw_session w)) (cs_totalMsat (tw_session w))
     \<and> conversation_rev (rev (cs_history (tw_session w)))
     \<and> (tu_sending (tw_model w) \<or> tu_totalMsat (tw_model w) = cs_totalMsat (tw_session w))"
proof -
  have "tui_inv (ce_client E) opts (tui_run E T (newChatSession opts))"
    using tui_run_inv [of E "newChatSession opts" T] session_ok_New by (simp add: newChatSession_def)
  then show ?thesis by (auto simp: tui_inv_def session_ok_def Let_def split: if_split_asm)
qed

end
