(* ===== verification/Requester_Safety.thy ===== *)
theory Requester_Safety
  imports Grpc_Service
begin

text \<open>
  The requester as a whole: a step relation over the calls of the service, the messages of
  the peers and the changes of the peer directory, in any interleaving, and the invariant
  that ties the stored terms to the stored task and every payment to verified terms.
\<close>

section \<open>Steps\<close>

definition requester_init :: "os_env \<Rightarrow> manifest option \<Rightarrow> requester" where
  "requester_init os localManifest =
     \<lparr>sr_peers = [], sr_jobs = requesterjobstore_New os, sr_waiter = waiter_New localManifest, sr_quoteCalls = [],
      sr_resultCalls = [], sr_streamCalls = [], sr_ids = 0, sr_trace = []\<rparr>"

inductive requester_step :: "service_env \<Rightarrow> requester \<Rightarrow> requester \<Rightarrow> bool" for E where
  peers: "requester_step E s (s\<lparr>sr_peers := d\<rparr>)"
| inbound: "requester_step E s (s\<lparr>sr_waiter := waiter_HandleInboundCustomMessage (sv_tlv E) msg (sr_waiter s)\<rparr>)"
| gc: "requester_step E s (s\<lparr>sr_jobs := requester_GC now (sr_jobs s)\<rparr>)"
| quote: "requester_step E s (snd (RequestQuote E now nowLocked req s))"
| quote_received: "map_of (sr_quoteCalls s) ch = Some c \<Longrightarrow> (ch, out) \<in> set (wt_quoteInbox (sr_waiter s)) \<Longrightarrow>
    requester_step E s (snd (RequestQuote_received E now nowLocked ch c out s))"
| quote_cancelled: "map_of (sr_quoteCalls s) ch = Some c \<Longrightarrow>
    requester_step E s (snd (RequestQuote_cancelled E ch c s))"
| execute: "requester_step E s (snd (AcceptAndExecute E now areq s))"
| execute_received: "map_of (sr_resultCalls s) ch = Some k \<Longrightarrow> (ch, res) \<in> set (wt_resultInbox (sr_waiter s)) \<Longrightarrow>
    requester_step E s (snd (AcceptAndExecute_received now ch k res s))"
| execute_cancelled: "map_of (sr_resultCalls s) ch = Some k \<Longrightarrow>
    requester_step E s (snd (AcceptAndExecute_cancelled E now ch k s))"
| stream: "requester_step E s (snd (AcceptAndExecuteStream E now areq s))"
| stream_received: "map_of (sr_streamCalls s) sub = Some x \<Longrightarrow> xc_Waited x = WaitOn ch \<Longrightarrow>
    (ch, res) \<in> set (wt_resultInbox (sr_waiter s)) \<Longrightarrow> requester_step E s (streamWait_received sub x res s)"
| stream_cancelled: "map_of (sr_streamCalls s) sub = Some x \<Longrightarrow> xc_Waited x = WaitOn ch \<Longrightarrow>
    requester_step E s (streamWait_cancelled sub x ch s)"
| stream_select: "map_of (sr_streamCalls s) sub = Some x \<Longrightarrow>
    requester_step E s (snd (AcceptAndExecuteStream_select E now sub x sel s))"
| cancel: "requester_step E s (snd (CancelJob E now creq s))"

inductive requester_reachable :: "service_env \<Rightarrow> requester \<Rightarrow> bool" for E where
  start: "requester_reachable E (requester_init os localManifest)"
| step: "requester_reachable E s \<Longrightarrow> requester_step E s s' \<Longrightarrow> requester_reachable E s'"

section \<open>The store\<close>

definition store_ok :: "(rjob_key \<Rightarrow> 'task \<Rightarrow> proto_terms \<Rightarrow> bool) \<Rightarrow> 'task rjob_store \<Rightarrow> bool" where
  "store_ok P st \<longleftrightarrow> requester_inv st \<and> (\<forall>(k, e) \<in> set (rs_jobs st). P k (rj_task e) (rj_terms e))"

lemma store_ok_lookup: "store_ok P st \<Longrightarrow> map_of (rs_jobs st) k = Some e \<Longrightarrow> P k (rj_task e) (rj_terms e)"
  by (auto simp: store_ok_def dest: map_of_SomeD)

lemma update_entries:
  "gomap_wf m \<Longrightarrow> (k', e') \<in> set (AList.update k e m) \<Longrightarrow> (k', e') = (k, e) \<or> (k', e') \<in> set m"
proof -
  assume wf: "gomap_wf m" and "(k', e') \<in> set (AList.update k e m)"
  then have "map_of (AList.update k e m) k' = Some e'" by (simp add: gomap_wf_mem_iff)
  then show ?thesis by (auto split: if_splits dest: map_of_SomeD)
qed

lemma store_ok_replace:
  assumes "store_ok P st" and "map_of (rs_jobs st) k = Some e"
    and "requester_inv (st\<lparr>rs_jobs := AList.update k e' (rs_jobs st)\<rparr>)" and "rj_task e' = rj_task e" "rj_terms e' = rj_terms e"
  shows "store_ok P (st\<lparr>rs_jobs := AList.update k e' (rs_jobs st)\<rparr>)"
proof -
  have wf: "gomap_wf (rs_jobs st)" using assms(1) by (simp add: store_ok_def requester_inv_def)
  have "P k (rj_task e') (rj_terms e')" using store_ok_lookup [OF assms(1,2)] assms(4,5) by simp
  with assms(1,3) show ?thesis by (fastforce simp: store_ok_def dest: update_entries [OF wf])
qed

lemma store_ok_MarkState: "store_ok P st \<Longrightarrow> store_ok P (snd (MarkState now p j state st))"
  using requester_inv_MarkState [of st now p j state]
  by (auto simp: MarkState_def Let_def store_ok_def [of P st] split: option.splits intro!: store_ok_replace)

lemma store_ok_GetTerms: "store_ok P st \<Longrightarrow> store_ok P (snd (GetTerms now p j st))"
  using requester_inv_GetTerms [of st now p j]
  by (auto simp: GetTerms_def Let_def store_ok_def [of P st] split: option.splits if_splits intro!: store_ok_replace)

lemma gc_entry_task [simp]: "rj_task (gc_entry now e) = rj_task e" "rj_terms (gc_entry now e) = rj_terms e"
  by (simp_all add: gc_entry_def)

lemma store_ok_GC: "store_ok P st \<Longrightarrow> store_ok P (requester_GC now st)"
proof -
  assume ok: "store_ok P st"
  then have inv: "requester_inv st" by (simp add: store_ok_def)
  have eq: "requester_GC now st = st\<lparr>rs_jobs := requester_gcLocked now (rs_jobs st)\<rparr>"
    by (simp add: requester_GC_def requester_gc_loop [OF inv])
  have "\<forall>(k, e) \<in> set (requester_gcLocked now (rs_jobs st)). P k (rj_task e) (rj_terms e)"
    using ok by (auto simp: store_ok_def gcLocked_eq)
  with requester_inv_GC [OF inv, of now] show ?thesis unfolding store_ok_def eq by simp
qed

lemma store_ok_PutQuote:
  assumes ok: "store_ok P st"
    and new: "\<And>t tm. task = Some t \<Longrightarrow> terms = Some tm \<Longrightarrow>
      P \<lparr>rjk_peerID = peer, rjk_jobID = bytes_hash (pt_JobId tm)\<rparr> t tm"
  shows "store_ok P (snd (PutQuote now nowLocked peer task terms st))"
proof (cases "PutQuote now nowLocked peer task terms st")
  case (Pair r st')
  have inv: "requester_inv st" using ok by (simp add: store_ok_def)
  have inv': "requester_inv st'" using requester_inv_PutQuote [OF inv, of now nowLocked peer task terms] Pair by simp
  show ?thesis
  proof (cases r)
    case (Inl err)
    with Pair PutQuote_error_keeps ok show ?thesis by fastforce
  next
    case (Inr u)
    with Pair have "PutQuote now nowLocked peer task terms st = (Inr (), st')" by simp
    from PutQuote_ok [OF inv this] obtain t tm x where t: "task = Some t" "terms = Some tm" and
      s': "st' = st\<lparr>rs_jobs := requester_evictIfOverCapacityLocked (nat (rs_maxEntries st))
        (AList.update \<lparr>rjk_peerID = peer, rjk_jobID = bytes_hash (pt_JobId tm)\<rparr>
          (quote_entry now nowLocked peer (bytes_hash (pt_JobId tm)) t tm x st)
          (requester_gcLocked nowLocked (rs_jobs st)))\<rparr>" (is "_ = st\<lparr>rs_jobs := _ (AList.update ?k ?e ?g)\<rparr>")
      by blast
    have wf: "gomap_wf ?g" using inv by (simp add: requester_inv_def)
    have sub: "set (rs_jobs st') \<subseteq> set (AList.update ?k ?e ?g)"
      using rj.loop_result [OF gomap_wf_update [OF wf], of "nat (rs_maxEntries st)" ?k ?e] by (simp add: s')
    have "P k (rj_task e) (rj_terms e)" if "(k, e) \<in> set (rs_jobs st')" for k e
    proof -
      from that sub update_entries [OF wf] consider "(k, e) = (?k, ?e)" | "(k, e) \<in> set ?g" by blast
      then show ?thesis
      proof cases
        case 1
        with new [OF t] show ?thesis by (simp add: quote_entry_def)
      next
        case 2
        with ok show ?thesis by (auto simp: store_ok_def gcLocked_eq)
      qed
    qed
    with inv' Pair show ?thesis by (auto simp: store_ok_def)
  qed
qed

lemma GetTerms_Inr:
  "fst (GetTerms now p j st) = Inr tm \<Longrightarrow> \<exists>e. map_of (rs_jobs st) \<lparr>rjk_peerID = p, rjk_jobID = j\<rparr> = Some e \<and> rj_terms e = tm"
  by (auto simp: GetTerms_def Let_def split: option.splits if_splits)

section \<open>Terms bind the task\<close>

text \<open>
  The stored terms were checked against the task they are stored with: the terms hash is
  the hash of the quoted price, the expiry, the job id and the task's wire form and input.
\<close>

definition terms_bind :: "service_env \<Rightarrow> hash32 \<Rightarrow> proto_task \<Rightarrow> proto_terms \<Rightarrow> bool" where
  "terms_bind E jobID t tm \<longleftrightarrow> (\<exists>wt inp v x.
     ToWireQuoteRequestTask (sv_tlv E) (sv_json E) (Some t) = Inr wt \<and> ToWireInputStream (sv_json E) (Some t) = Inr inp
   \<and> pt_JobId tm = hash_bytes jobID \<and> pt_ProtocolVersion tm = ucast v \<and> pt_QuoteExpiry tm = Some (time_of_unix (uint x))
   \<and> length (pt_TermsHash tm) = 32
   \<and> ComputeTermsHash (sv_tlv E) \<lparr>ProtocolVersion = v, JobID = jobID, PriceMsat = pt_PriceMsat tm, QuoteExpiry = x\<rparr>
       \<lparr>TaskKind = qt_TaskKind wt, Input = in_DecodedBytes inp, InputContentType = in_ContentType inp,
        InputContentEncoding = in_ContentEncoding inp, Params = Some (qt_ParamsBytes wt)\<rparr>
     = Inr (bytes_hash (pt_TermsHash tm)))"

definition call_ok :: "service_env \<Rightarrow> quote_call \<Rightarrow> bool" where
  "call_ok E c \<longleftrightarrow> ToWireQuoteRequestTask (sv_tlv E) (sv_json E) (qc_Task c) = Inr (qc_WireTask c)
     \<and> ToWireInputStream (sv_json E) (qc_Task c) = Inr (qc_Input c)"

lemma quoted_terms_bind:
  assumes "call_ok E c" and "qc_Task c = Some t"
    and "termsFromQuoteResponse (sv_tlv E) (qc_WireTask c) (qc_Input c) resp = Inr tm"
  shows "terms_bind E (bytes_hash (pt_JobId tm)) t tm"
proof -
  from assms(3) have h: "ComputeTermsHash (sv_tlv E)
      \<lparr>ProtocolVersion = env_ProtocolVersion (qs_Envelope resp), JobID = env_JobID (qs_Envelope resp),
       PriceMsat = qs_PriceMsat resp, QuoteExpiry = qs_QuoteExpiry resp\<rparr>
      \<lparr>TaskKind = qt_TaskKind (qc_WireTask c), Input = in_DecodedBytes (qc_Input c), InputContentType = in_ContentType (qc_Input c),
       InputContentEncoding = in_ContentEncoding (qc_Input c), Params = Some (qt_ParamsBytes (qc_WireTask c))\<rparr>
      = Inr (qs_TermsHash resp)"
    and tm: "tm = \<lparr>pt_ProtocolVersion = ucast (env_ProtocolVersion (qs_Envelope resp)),
            pt_JobId = hash_bytes (env_JobID (qs_Envelope resp)), pt_PriceMsat = qs_PriceMsat resp,
            pt_QuoteExpiry = Some (time_of_unix (uint (qs_QuoteExpiry resp))), pt_TermsHash = hash_bytes (qs_TermsHash resp),
            pt_PaymentRequest = qs_PaymentRequest resp\<rparr>"
    by (auto simp: termsFromQuoteResponse_def timestampFromUnixSeconds_def res_simps split: if_splits)
  show ?thesis
    unfolding terms_bind_def tm using assms(1,2) h
    by (intro exI [of _ "qc_WireTask c"] exI [of _ "qc_Input c"] exI [of _ "env_ProtocolVersion (qs_Envelope resp)"]
        exI [of _ "qs_QuoteExpiry resp"]) (simp add: call_ok_def)
qed

text \<open>What a passed verification says of the invoice.\<close>

definition invoice_bound :: "service_env \<Rightarrow> lightning_client \<Rightarrow> string \<Rightarrow> proto_terms \<Rightarrow> bool" where
  "invoice_bound E ln peer tm \<longleftrightarrow> (\<exists>info quoteExpiry.
     DecodePaymentRequest ln (pt_PaymentRequest tm) = Inr info
   \<and> pi_DescriptionHash info = bytes_hash (pt_TermsHash tm) \<and> strings_EqualFold (pi_PayeePubKey info) peer
   \<and> 0 < pi_AmountMsat info \<and> word_of_int (pi_AmountMsat info) = pt_PriceMsat tm \<and> pt_QuoteExpiry tm = Some quoteExpiry
   \<and> wrap64 (pi_TimestampUnix info + pi_ExpirySeconds info)
       \<le> wrap64 (time_Unix quoteExpiry + max (envconfig_Int64 (sv_os E) ''LCP_ALLOWED_CLOCK_SKEW_SECONDS'' 5) 0))"

lemma verified_invoice:
  "verifyInvoiceBinding (sv_os E) ctx ln peer tm = None \<Longrightarrow> invoice_bound E ln peer tm"
  by (auto simp: verifyInvoiceBinding_def invoice_bound_def toHash32_def precondition_def Let_def
      split: sum.splits if_splits option.splits)

section \<open>Invariant\<close>

text \<open>A payment is made for verified terms that bind the task of its job.\<close>

fun payment_ok :: "service_env \<Rightarrow> service_event \<Rightarrow> bool" where
  "payment_ok E (SvPay peer jobID pr r) \<longleftrightarrow>
     (\<exists>ln t tm. sv_lightning E = Some ln \<and> terms_bind E jobID t tm \<and> pt_PaymentRequest tm = pr \<and> invoice_bound E ln peer tm)"
| "payment_ok E ev \<longleftrightarrow> True"

definition requester_safe :: "service_env \<Rightarrow> requester \<Rightarrow> bool" where
  "requester_safe E s \<longleftrightarrow> store_ok (\<lambda>k. terms_bind E (rjk_jobID k)) (sr_jobs s)
     \<and> list_all (\<lambda>(ch, c). call_ok E c) (sr_quoteCalls s) \<and> list_all (payment_ok E) (sr_trace s)"

text \<open>What the sends of a call leave alone, and that they pay nothing.\<close>

definition quiet :: "requester \<Rightarrow> requester \<Rightarrow> bool" where
  "quiet s s' \<longleftrightarrow> sr_jobs s' = sr_jobs s \<and> sr_quoteCalls s' = sr_quoteCalls s \<and> sr_waiter s' = sr_waiter s
     \<and> (\<exists>evs. sr_trace s' = sr_trace s @ evs \<and> (\<forall>E. list_all (payment_ok E) evs))"

lemma quiet_refl [simp]: "quiet s s"
  by (auto simp: quiet_def)

lemma quiet_trans: "quiet s t \<Longrightarrow> quiet t u \<Longrightarrow> quiet s u"
  by (auto simp: quiet_def)

lemma quiet_safe: "quiet s s' \<Longrightarrow> requester_safe E s \<Longrightarrow> requester_safe E s'"
  by (auto simp: quiet_def requester_safe_def)

lemma quiet_nextID: "nextID gen s = (r, s') \<Longrightarrow> quiet s s'"
  by (auto simp: nextID_def quiet_def)

lemma quiet_Send: "service_Send E p m b s = (r, s') \<Longrightarrow> quiet s s'"
  by (auto simp: service_Send_def quiet_def Let_def)

lemma quiet_item: "stream_Send E i s = (r, s') \<Longrightarrow> quiet s s'"
  by (auto simp: stream_Send_def quiet_def Let_def)

lemma quiet_event: "sendStreamEvent E ev s = (r, s') \<Longrightarrow> quiet s s'"
  by (cases ev) (auto simp: quiet_item split: if_splits)

lemma quiet_drain: "drainEvents E evs s = (r, s') \<Longrightarrow> quiet s s'"
proof (induction evs arbitrary: s)
  case (Cons ev evs)
  then obtain r1 s1 where 1: "sendStreamEvent E ev s = (r1, s1)" by fastforce
  with Cons show ?case by (cases r1) (auto dest: quiet_event intro: quiet_trans)
qed simp

lemma quiet_begin: "sendInputStreamBegin E p j x inp sid n h m s = (r, s') \<Longrightarrow> quiet s s'"
  by (auto simp: sendInputStreamBegin_def split: prod.splits sum.splits if_splits
      dest: quiet_nextID quiet_Send intro: quiet_trans)

lemma quiet_end: "sendInputStreamEnd E p j x sid n h m s = (r, s') \<Longrightarrow> quiet s s'"
  by (auto simp: sendInputStreamEnd_def split: prod.splits sum.splits if_splits
      dest: quiet_nextID quiet_Send intro: quiet_trans)

lemma quiet_chunks: "sendInputStreamChunks E p j x sid data m s = (r, s') \<Longrightarrow> quiet s s'"
proof -
  assume "sendInputStreamChunks E p j x sid data m s = (r, s')"
  moreover have "quiet s (snd (sendInputStreamChunks E p j x sid data m s))"
    unfolding sendInputStreamChunks_def
  proof (rule input_chunks.loop_keeps [where Q = quiet])
    show "quiet s (snd (service_Send E p MessageTypeStreamChunk b s))" for b s
      by (rule quiet_Send [of E p MessageTypeStreamChunk b s "fst (service_Send E p MessageTypeStreamChunk b s)"]) simp
  qed (auto intro: quiet_trans)
  ultimately show ?thesis by simp
qed

lemma quiet_input: "sendInputStream E p j x inp mf s = (r, s') \<Longrightarrow> quiet s s'"
proof -
  assume a: "sendInputStream E p j x inp mf s = (r, s')"
  let ?m = "mf_MaxPayloadBytes mf" and ?n = "word_of_nat (length (in_DecodedBytes inp)) :: u64" and ?h = "sha256 (in_DecodedBytes inp)"
  obtain i s1 where 1: "nextID (sv_newStreamID E) s = (i, s1)" by fastforce
  show ?thesis
  proof (cases "\<not> sv_messenger E \<or> ?m = 0 \<or> (\<exists>err. i = Inl err)")
    case True
    with a quiet_nextID [OF 1] show ?thesis by (auto simp: sendInputStream_def Let_def 1 split: if_splits)
  next
    case False
    then obtain sid where i: "i = Inr sid" by (cases i) auto
    obtain r2 s2 where 2: "sendInputStreamBegin E p j x inp sid ?n ?h ?m s1 = (r2, s2)" by fastforce
    obtain r3 s3 where 3: "sendInputStreamChunks E p j x sid (in_DecodedBytes inp) ?m s2 = (r3, s3)" by fastforce
    obtain r4 s4 where 4: "sendInputStreamEnd E p j x sid ?n ?h ?m s3 = (r4, s4)" by fastforce
    have "quiet s s1" "quiet s1 s2" "quiet s2 s3" "quiet s3 s4"
      using quiet_nextID [OF 1] quiet_begin [OF 2] quiet_chunks [OF 3] quiet_end [OF 4] by simp_all
    moreover have "s' = s2 \<or> s' = s3 \<or> s' = s4"
      using a False by (cases r2; cases r3) (auto simp: sendInputStream_def Let_def 1 i 2 3 4)
    ultimately show ?thesis by (meson quiet_trans)
  qed
qed

lemma quiet_build: "buildQuoteRequestPayload E now t s = (r, s') \<Longrightarrow> quiet s s'"
proof -
  assume a: "buildQuoteRequestPayload E now t s = (r, s')"
  obtain i s1 where 1: "nextID (sv_newJobID E) s = (i, s1)" by fastforce
  obtain m s2 where 2: "nextID (sv_newMsgID E) s1 = (m, s2)" by fastforce
  have "quiet s s1" "quiet s1 s2" using quiet_nextID [OF 1] quiet_nextID [OF 2] by simp_all
  moreover have "s' = s1 \<or> s' = s2" using a by (cases i; cases m) (auto simp: buildQuoteRequestPayload_def 1 2)
  ultimately show ?thesis by (meson quiet_trans)
qed

section \<open>Every step keeps the invariant\<close>

lemma safe_frame [simp]:
  "requester_safe E (s\<lparr>sr_waiter := w\<rparr>) = requester_safe E s"
  "requester_safe E (s\<lparr>sr_peers := d\<rparr>) = requester_safe E s"
  "requester_safe E (s\<lparr>sr_resultCalls := rc\<rparr>) = requester_safe E s"
  "requester_safe E (s\<lparr>sr_streamCalls := sc\<rparr>) = requester_safe E s"
  by (simp_all add: requester_safe_def)

lemma safe_mark: "requester_safe E s \<Longrightarrow> requester_safe E (markJobState now p j st s)"
  by (simp add: requester_safe_def markJobState_def store_ok_MarkState)

lemma safe_fail: "requester_safe E s \<Longrightarrow> requester_safe E (snd (failCall now p j st s))"
  by (simp add: failCall_def safe_mark)

lemma safe_fail_eq: "failCall now p j st s = (st', s') \<Longrightarrow> requester_safe E s \<Longrightarrow> requester_safe E s'"
  using safe_fail [of E s now p j st] by simp

lemma safe_forget_call:
  "requester_safe E s \<Longrightarrow> requester_safe E (s\<lparr>sr_waiter := w, sr_quoteCalls := AList.delete ch (sr_quoteCalls s)\<rparr>)"
  by (auto simp: requester_safe_def list_all_iff AList.delete_eq)

lemma safe_outcome:
  assumes "requester_safe E s" and "call_ok E c"
  shows "requester_safe E (snd (RequestQuote_outcome E now nowLocked c out s))"
proof (cases "qo_Error out = None \<and> (\<exists>resp tm. qo_QuoteResponse out = Some resp
      \<and> termsFromQuoteResponse (sv_tlv E) (qc_WireTask c) (qc_Input c) resp = Inr tm)")
  case False
  then show ?thesis
    using assms(1) safe_mark by (auto simp: RequestQuote_outcome_def split: option.split sum.split)
next
  case True
  then obtain resp tm where r: "qo_Error out = None" "qo_QuoteResponse out = Some resp"
    "termsFromQuoteResponse (sv_tlv E) (qc_WireTask c) (qc_Input c) resp = Inr tm" by blast
  have "store_ok (\<lambda>k. terms_bind E (rjk_jobID k)) (snd (PutQuote now nowLocked (qc_PeerID c) (qc_Task c) (Some tm) (sr_jobs s)))"
    by (rule store_ok_PutQuote) (use assms quoted_terms_bind [OF assms(2) _ r(3)] in \<open>auto simp: requester_safe_def\<close>)
  with assms(1) show ?thesis
    by (auto simp: RequestQuote_outcome_def r requester_safe_def split: prod.split sum.split)
qed

lemma safe_wait:
  assumes "requester_safe E s" and "call_ok E c"
  shows "requester_safe E (snd (RequestQuote_wait E now nowLocked c s))"
proof (cases "WaitQuoteResponse (qc_PeerID c) (qc_JobID c) (sr_waiter s)")
  case (Pair r w)
  have "requester_safe E (s\<lparr>sr_waiter := w\<rparr>)" using assms(1) by simp
  from safe_outcome [OF this assms(2)] assms Pair show ?thesis
    by (cases r) (auto simp: RequestQuote_wait_def split_def requester_safe_def)
qed

lemma build_call_ok:
  assumes "buildQuoteRequestPayload E now task s = (Inr (jobID, expiry, wt, inp, payload), s')"
  shows "ToWireQuoteRequestTask (sv_tlv E) (sv_json E) task = Inr wt \<and> ToWireInputStream (sv_json E) task = Inr inp"
  using assms by (auto simp: buildQuoteRequestPayload_def res_simps split: prod.splits sum.splits)

text \<open>A request for a quote ends early, or it waits for the answer to its messages.\<close>

lemma RequestQuote_cases:
  "(\<exists>r s'. RequestQuote E now nowLocked req s = (Returned (Inl r), s') \<and> quiet s s')
   \<or> (\<exists>c s'. RequestQuote E now nowLocked req s = RequestQuote_wait E now nowLocked c s' \<and> quiet s s' \<and> call_ok E c)"
proof (cases req)
  case None
  then show ?thesis by (simp add: RequestQuote_def)
next
  case (Some rq)
  let ?p = "strings_TrimSpace (rq_PeerId rq)"
  consider st where "service_validate E (RequestQuoteRequest rq) = Some st"
    | err where "service_validate E (RequestQuoteRequest rq) = None" "ValidateTask (sv_json E) (rq_Task rq) = Some err"
    | st where "service_validate E (RequestQuoteRequest rq) = None" "ValidateTask (sv_json E) (rq_Task rq) = None"
        "requireReadyPeer ?p s = Inl st"
    | mf where "service_validate E (RequestQuoteRequest rq) = None" "ValidateTask (sv_json E) (rq_Task rq) = None"
        "requireReadyPeer ?p s = Inr mf"
    by (metis not_Some_eq sum.exhaust)
  then show ?thesis
  proof cases
    case (4 mf)
    obtain b s1 where 1: "buildQuoteRequestPayload E now (rq_Task rq) s = (b, s1)" by fastforce
    note q1 = quiet_build [OF 1]
    show ?thesis
    proof (cases b)
      case (Inl st)
      with q1 show ?thesis by (simp add: RequestQuote_def Some 4 1 Let_def)
    next
      case (Inr v)
      then obtain j x wt inp pl where b: "b = Inr (j, x, wt, inp, pl)" by (cases v) auto
      obtain r2 s2 where 2: "service_Send E ?p MessageTypeQuoteRequest pl s1 = (r2, s2)" by fastforce
      obtain r3 s3 where 3: "sendInputStream E ?p j x inp mf s2 = (r3, s3)" by fastforce
      have q: "quiet s s2" "quiet s s3"
        using q1 quiet_Send [OF 2] quiet_input [OF 3] by (meson quiet_trans)+
      have ok: "call_ok E \<lparr>qc_PeerID = ?p, qc_JobID = j, qc_Task = rq_Task rq, qc_WireTask = wt, qc_Input = inp\<rparr>"
        using build_call_ok 1 b by (simp add: call_ok_def)
      show ?thesis
        using q q1 ok by (cases "validateQuoteRequestRemoteLimits mf pl inp"; cases r2; cases r3)
          (auto simp: RequestQuote_def Some 4 1 b Let_def 2 3)
    qed
  qed (simp_all add: RequestQuote_def Some)
qed

lemma safe_RequestQuote:
  assumes "requester_safe E s"
  shows "requester_safe E (snd (RequestQuote E now nowLocked req s))"
  using RequestQuote_cases [of E now nowLocked req s] assms safe_wait quiet_safe by fastforce

text \<open>Terms that pass the checks of an execution call were stored and bind the invoice.\<close>

lemma acceptVerified_cases:
  assumes "acceptVerified E now wrap req s = (r, s')"
  obtains "quiet s s'" "\<exists>st. r = Inl st"
  | p j where "s' = s\<lparr>sr_jobs := snd (GetTerms now p j (sr_jobs s))\<rparr>" "\<exists>st. r = Inl st"
  | p j st where "s' = snd (failCall now p j st (markJobState now p j RStatePaying (s\<lparr>sr_jobs := snd (GetTerms now p j (sr_jobs s))\<rparr>)))" "\<exists>st. r = Inl st"
  | p j tm ln where "r = Inr (p, j, tm, ln)"
      "s' = markJobState now p j RStatePaying (s\<lparr>sr_jobs := snd (GetTerms now p j (sr_jobs s))\<rparr>)"
      "fst (GetTerms now p j (sr_jobs s)) = Inr tm" "sv_lightning E = Some ln"
      "verifyInvoiceBinding (sv_os E) (ctxNow E s') ln p tm = None"
  using assms unfolding acceptVerified_def
  by (auto simp: Let_def split_def split: option.splits if_splits sum.splits prod.splits)

lemma safe_GetTerms: "requester_safe E s \<Longrightarrow> requester_safe E (s\<lparr>sr_jobs := snd (GetTerms now p j (sr_jobs s))\<rparr>)"
  by (simp add: requester_safe_def store_ok_GetTerms)

lemma acceptVerified_safe:
  assumes "requester_safe E s" and "acceptVerified E now wrap req s = (r, s')"
  shows "requester_safe E s'"
  using assms(2)
  by (cases rule: acceptVerified_cases) (auto intro: quiet_safe safe_GetTerms safe_fail safe_mark assms(1))

lemma acceptVerified_bound:
  assumes "requester_safe E s" and "acceptVerified E now wrap req s = (Inr (p, j, tm, ln), s')"
  shows "\<exists>t. sv_lightning E = Some ln \<and> terms_bind E j t tm \<and> invoice_bound E ln p tm"
proof -
  from assms(2) have g: "fst (GetTerms now p j (sr_jobs s)) = Inr tm" "sv_lightning E = Some ln"
      "verifyInvoiceBinding (sv_os E) (ctxNow E s') ln p tm = None"
    by (cases rule: acceptVerified_cases; simp)+
  obtain e where e: "map_of (rs_jobs (sr_jobs s)) \<lparr>rjk_peerID = p, rjk_jobID = j\<rparr> = Some e" "rj_terms e = tm"
    using GetTerms_Inr [OF g(1)] by blast
  have "terms_bind E j (rj_task e) tm"
    using store_ok_lookup [OF _ e(1), of "\<lambda>k. terms_bind E (rjk_jobID k)"] assms(1) e(2) by (simp add: requester_safe_def)
  with g(2) verified_invoice [OF g(3)] show ?thesis by blast
qed

lemma safe_Pay:
  assumes "requester_safe E s" and "service_Pay E ln p j tm s = (r, s')"
    and "\<exists>t. sv_lightning E = Some ln \<and> terms_bind E j t tm \<and> invoice_bound E ln p tm"
  shows "requester_safe E s'"
  using assms by (auto simp: service_Pay_def requester_safe_def Let_def) blast

lemma safe_AcceptOutcome: "requester_safe E s \<Longrightarrow> requester_safe E (snd (AcceptAndExecute_outcome now k out s))"
  by (auto simp: AcceptAndExecute_outcome_def Let_def split_def safe_mark safe_fail split: option.split sum.split)

lemma safe_AcceptAndExecute:
  assumes "requester_safe E s"
  shows "requester_safe E (snd (AcceptAndExecute E now req s))"
proof -
  obtain r1 s1 where 1: "acceptVerified E now AcceptAndExecuteRequest req s = (r1, s1)" by fastforce
  note safe1 = acceptVerified_safe [OF assms 1]
  show ?thesis
  proof (cases r1)
    case (Inl st)
    with safe1 show ?thesis by (simp add: AcceptAndExecute_def 1)
  next
    case (Inr v)
    then obtain p j tm ln where r1: "r1 = Inr (p, j, tm, ln)" by (cases v) auto
    obtain r2 s2 where 2: "service_Pay E ln p j tm s1 = (r2, s2)" by fastforce
    have safe2: "requester_safe E s2" by (rule safe_Pay [OF safe1 2 acceptVerified_bound [OF assms 1 [unfolded r1]]])
    let ?s3 = "markJobState now p j RStateAwaitingResult s2"
    obtain wt w where 3: "WaitResult p j (sr_waiter ?s3) = (wt, w)" by fastforce
    have "requester_safe E (?s3\<lparr>sr_waiter := w\<rparr>)" using safe2 by (simp add: safe_mark)
    with safe2 show ?thesis
      by (cases r2; cases wt) (auto simp: AcceptAndExecute_def 1 r1 2 3 Let_def split_def intro: safe_fail safe_AcceptOutcome)
  qed
qed

lemma safe_AcceptAndExecuteStream:
  assumes "requester_safe E s"
  shows "requester_safe E (snd (AcceptAndExecuteStream E now req s))"
proof -
  obtain r1 s1 where 1: "acceptVerified E now AcceptAndExecuteStreamRequest req s = (r1, s1)" by fastforce
  note safe1 = acceptVerified_safe [OF assms 1]
  show ?thesis
  proof (cases r1)
    case (Inl st)
    with safe1 show ?thesis by (simp add: AcceptAndExecuteStream_def 1)
  next
    case (Inr v)
    then obtain p j tm ln where r1: "r1 = Inr (p, j, tm, ln)" by (cases v) auto
    obtain sb w where 2: "SubscribeResultStream p j (sr_waiter s1) = (sb, w)" by fastforce
    have safe2: "requester_safe E (s1\<lparr>sr_waiter := w\<rparr>)" using safe1 by simp
    obtain r3 s3 where 3: "service_Pay E ln p j tm (s1\<lparr>sr_waiter := w\<rparr>) = (r3, s3)" by fastforce
    have safe3: "requester_safe E s3" by (rule safe_Pay [OF safe2 3 acceptVerified_bound [OF assms 1 [unfolded r1]]])
    then have "requester_safe E (markJobState now p j RStateAwaitingResult s3)" by (rule safe_mark)
    with safe2 safe3 show ?thesis
      by (cases sb; cases r3) (auto simp: AcceptAndExecuteStream_def 1 r1 2 3 Let_def split_def intro: safe_fail safe_mark)
  qed
qed

lemma safe_streamReturn: "requester_safe E s \<Longrightarrow> requester_safe E (snd (streamReturn now sub k r s))"
  by (auto simp: streamReturn_def Let_def safe_mark split: sum.split)

lemma safe_streamOutcome:
  assumes "requester_safe E s"
  shows "requester_safe E (snd (streamOutcome E now k out drained s))"
proof -
  obtain r1 s1 where 1: "drainEvents E drained s = (r1, s1)" by fastforce
  have s1: "requester_safe E s1" using quiet_drain [OF 1] assms by (rule quiet_safe)
  have item: "requester_safe E t'" if "requester_safe E t" "stream_Send E i t = (r, t')" for t t' i r
    using quiet_item [OF that(2)] that(1) by (rule quiet_safe)
  have fin: "requester_safe E (snd (case stream_Send E (ItemResult r) t of
       (Some st, s3) \<Rightarrow> (Inl st, s3) | (None, s3) \<Rightarrow> (Inr (), markJobState now p j RStateDone s3)))"
    if "requester_safe E t" for r t p j
    using item [OF that] safe_mark by (auto split: prod.split option.split)
  show ?thesis
    using assms s1 item [OF s1] fin
    by (auto simp: streamOutcome_def Let_def 1 safe_mark split: option.splits sum.splits prod.splits if_splits)
qed

lemma safe_select:
  assumes "requester_safe E s"
  shows "requester_safe E (snd (AcceptAndExecuteStream_select E now sub x sel s))"
proof (cases sel)
  case (SelEvent ev)
  obtain r s1 where 1: "sendStreamEvent E ev s = (r, s1)" by fastforce
  have "requester_safe E s1" using quiet_event [OF 1] assms by (rule quiet_safe)
  then show ?thesis by (cases r) (auto simp: AcceptAndExecuteStream_select_def SelEvent 1 safe_streamReturn)
next
  case (SelWaited evs)
  show ?thesis
    using assms safe_streamOutcome [OF assms]
    by (cases "xc_Waited x") (auto simp: AcceptAndExecuteStream_select_def SelWaited split_def intro: safe_streamReturn safe_mark)
next
  case (SelCtxDone b)
  with assms show ?thesis by (simp add: AcceptAndExecuteStream_select_def safe_streamReturn)
qed

lemma safe_CancelJob:
  assumes "requester_safe E s"
  shows "requester_safe E (snd (CancelJob E now req s))"
proof -
  obtain r1 s1 where 1: "nextID (sv_newMsgID E) s = (r1, s1)" by fastforce
  have s1: "requester_safe E s1" using quiet_nextID [OF 1] assms by (rule quiet_safe)
  have "requester_safe E s2" if "service_Send E p t b s1 = (r2, s2)" for p t b r2 s2
    using quiet_Send [OF that] s1 by (rule quiet_safe)
  with assms s1 show ?thesis
    by (simp add: CancelJob_def Let_def 1 safe_mark split: option.split sum.split prod.split)
qed

lemma safe_step: "requester_step E s s' \<Longrightarrow> requester_safe E s \<Longrightarrow> requester_safe E s'"
proof (induction rule: requester_step.induct)
  case (quote_received s ch c out now nowLocked)
  then have "call_ok E c" by (auto simp: requester_safe_def list_all_iff dest: map_of_SomeD)
  then show ?case
    unfolding RequestQuote_received_def by (intro safe_outcome safe_forget_call quote_received(3))
next
  case (gc s now)
  then show ?case by (simp add: requester_safe_def store_ok_GC)
qed (auto simp: safe_RequestQuote RequestQuote_cancelled_def safe_forget_call safe_AcceptAndExecute AcceptAndExecute_received_def
    safe_AcceptOutcome AcceptAndExecute_cancelled_def split_def safe_fail safe_AcceptAndExecuteStream streamWait_received_def
    streamWait_cancelled_def safe_select safe_CancelJob)

lemma requester_reachable_safe: "requester_reachable E s \<Longrightarrow> requester_safe E s"
proof (induction rule: requester_reachable.induct)
  case (start os m)
  have "store_ok P (requesterjobstore_New os)" for P :: "rjob_key \<Rightarrow> proto_task \<Rightarrow> proto_terms \<Rightarrow> bool"
    using requester_inv_New [of os] by (simp add: store_ok_def requesterjobstore_New_def NewWithClockAndMaxEntries_def Let_def)
  then show ?case by (simp add: requester_safe_def requester_init_def)
next
  case (step s s')
  then show ?case by (blast intro: safe_step)
qed

section \<open>The waiter of the requester\<close>

text \<open>
  Every step acts on the waiter by waiter events, so what the waiter guarantees over all
  sequences of events holds in every reachable state of the requester.
\<close>

definition waiter_runs :: "tlv_lib \<Rightarrow> waiter \<Rightarrow> waiter \<Rightarrow> bool" where
  "waiter_runs L w w' \<longleftrightarrow> (\<exists>evs. w' = fold (waiter_step L) evs w)"

lemma waiter_runs_refl [simp, intro]: "waiter_runs L w w"
  unfolding waiter_runs_def by (rule exI [of _ "[]"]) simp

lemma waiter_runs_trans: "waiter_runs L w u \<Longrightarrow> waiter_runs L u v \<Longrightarrow> waiter_runs L w v"
  unfolding waiter_runs_def by (metis comp_apply fold_append)

lemma waiter_runs_one: "waiter_runs L w (waiter_step L ev w)"
  unfolding waiter_runs_def by (rule exI [of _ "[ev]"]) simp

lemmas waiter_runs_ops =
  waiter_runs_one [of _ _ "WInbound _", simplified] waiter_runs_one [of _ _ "WReceivedQuote _", simplified]
  waiter_runs_one [of _ _ "WReceivedResult _", simplified] waiter_runs_one [of _ _ "WCancelledQuote _ _", simplified]
  waiter_runs_one [of _ _ "WCancelledResult _ _", simplified] waiter_runs_one [of _ _ "WUnsubscribe _ _", simplified]

lemma waiter_runs_waits:
  "WaitQuoteResponse p j w = (r, w') \<Longrightarrow> waiter_runs L w w'"
  "WaitResult p j w = (r', w') \<Longrightarrow> waiter_runs L w w'"
  "SubscribeResultStream p j w = (r'', w') \<Longrightarrow> waiter_runs L w w'"
  using waiter_runs_one [of L w "WWaitQuote p j"] waiter_runs_one [of L w "WWaitResult p j"]
    waiter_runs_one [of L w "WSubscribe p j"] by simp_all

lemma waiter_mark [simp]: "sr_waiter (markJobState now p j st s) = sr_waiter s"
  by (simp add: markJobState_def)

lemma waiter_fail [simp]: "sr_waiter (snd (failCall now p j st s)) = sr_waiter s"
  by (simp add: failCall_def)

lemma waiter_outcome [simp]:
  "sr_waiter (snd (RequestQuote_outcome E now nowLocked c out s)) = sr_waiter s"
  "sr_waiter (snd (AcceptAndExecute_outcome now k res s)) = sr_waiter s"
  by (auto simp: RequestQuote_outcome_def AcceptAndExecute_outcome_def Let_def split_def split: option.split sum.split prod.split)

lemma waiter_acceptVerified: "acceptVerified E now wrap req s = (r, s') \<Longrightarrow> sr_waiter s' = sr_waiter s"
  by (cases rule: acceptVerified_cases) (auto simp: quiet_def)

lemma waiter_Pay: "service_Pay E ln p j tm s = (r, s') \<Longrightarrow> sr_waiter s' = sr_waiter s"
  by (auto simp: service_Pay_def Let_def)

lemma waiter_streamOutcome [simp]: "sr_waiter (snd (streamOutcome E now k out evs s)) = sr_waiter s"
proof -
  obtain r s1 where 1: "drainEvents E evs s = (r, s1)" by fastforce
  then show ?thesis using quiet_drain [OF 1]
    by (auto simp: streamOutcome_def Let_def stream_Send_def quiet_def split: option.split sum.split prod.split)
qed

lemma waiter_streamReturn: "waiter_runs L (sr_waiter s) (sr_waiter (snd (streamReturn now sub k r s)))"
  by (auto simp: streamReturn_def Let_def waiter_runs_ops split: sum.split)

lemma waiter_RequestQuote: "waiter_runs L (sr_waiter s) (sr_waiter (snd (RequestQuote E now nowLocked req s)))"
proof -
  have w: "waiter_runs L (sr_waiter t) (sr_waiter (snd (RequestQuote_wait E now nowLocked c t)))" for c t
  proof (cases "WaitQuoteResponse (qc_PeerID c) (qc_JobID c) (sr_waiter t)")
    case (Pair r w)
    with waiter_runs_waits(1) [OF Pair, of L] show ?thesis by (cases r) (auto simp: RequestQuote_wait_def split_def)
  qed
  show ?thesis
    using RequestQuote_cases [of E now nowLocked req s]
  proof
    assume "\<exists>r s'. RequestQuote E now nowLocked req s = (Returned (Inl r), s') \<and> quiet s s'"
    then show ?thesis by (auto simp: quiet_def)
  next
    assume "\<exists>c s'. RequestQuote E now nowLocked req s = RequestQuote_wait E now nowLocked c s' \<and> quiet s s' \<and> call_ok E c"
    then obtain c s' where "RequestQuote E now nowLocked req s = RequestQuote_wait E now nowLocked c s'" "quiet s s'" by blast
    with w [of s' c] show ?thesis by (simp add: quiet_def)
  qed
qed

lemma waiter_AcceptAndExecute: "waiter_runs L (sr_waiter s) (sr_waiter (snd (AcceptAndExecute E now req s)))"
proof -
  obtain r1 s1 where 1: "acceptVerified E now AcceptAndExecuteRequest req s = (r1, s1)" by fastforce
  note w1 = waiter_acceptVerified [OF 1]
  show ?thesis
  proof (cases r1)
    case (Inl st)
    with w1 show ?thesis by (simp add: AcceptAndExecute_def 1)
  next
    case (Inr v)
    then obtain p j tm ln where r1: "r1 = Inr (p, j, tm, ln)" by (cases v) auto
    obtain r2 s2 where 2: "service_Pay E ln p j tm s1 = (r2, s2)" by fastforce
    obtain wt w where 3: "WaitResult p j (sr_waiter s) = (wt, w)" by fastforce
    show ?thesis
      using w1 waiter_Pay [OF 2] waiter_runs_waits(2) [OF 3, of L]
      by (cases r2; cases wt) (auto simp: AcceptAndExecute_def 1 r1 2 3 Let_def split_def)
  qed
qed

lemma waiter_AcceptAndExecuteStream: "waiter_runs L (sr_waiter s) (sr_waiter (snd (AcceptAndExecuteStream E now req s)))"
proof -
  obtain r1 s1 where 1: "acceptVerified E now AcceptAndExecuteStreamRequest req s = (r1, s1)" by fastforce
  note w1 = waiter_acceptVerified [OF 1]
  show ?thesis
  proof (cases r1)
    case (Inl st)
    with w1 show ?thesis by (simp add: AcceptAndExecuteStream_def 1)
  next
    case (Inr v)
    then obtain p j tm ln where r1: "r1 = Inr (p, j, tm, ln)" by (cases v) auto
    obtain sb w where 2: "SubscribeResultStream p j (sr_waiter s1) = (sb, w)" by fastforce
    obtain r3 s3 where 3: "service_Pay E ln p j tm (s1\<lparr>sr_waiter := w\<rparr>) = (r3, s3)" by fastforce
    obtain wt w' where 4: "WaitResult p j w = (wt, w')" by fastforce
    have runs: "waiter_runs L (sr_waiter s) w" using waiter_runs_waits(3) [OF 2] w1 by simp
    have w: "sr_waiter s3 = w" using waiter_Pay [OF 3] by simp
    have "waiter_runs L (sr_waiter s) w'" using waiter_runs_trans [OF runs] waiter_runs_waits(2) [OF 4] by simp
    moreover have "waiter_runs L (sr_waiter s) (unsubscribe k sub w)" for k sub
      using runs waiter_runs_ops(6) by (rule waiter_runs_trans)
    ultimately show ?thesis
      using runs w by (cases sb; cases r3) (auto simp: AcceptAndExecuteStream_def 1 r1 2 3 4 Let_def split_def)
  qed
qed

lemma waiter_select: "waiter_runs L (sr_waiter s) (sr_waiter (snd (AcceptAndExecuteStream_select E now sub x sel s)))"
proof (cases sel)
  case (SelEvent ev)
  obtain r s1 where 1: "sendStreamEvent E ev s = (r, s1)" by fastforce
  have "sr_waiter s1 = sr_waiter s" using quiet_event [OF 1] by (simp add: quiet_def)
  with waiter_streamReturn [of L s1] show ?thesis by (cases r) (auto simp: AcceptAndExecuteStream_select_def SelEvent 1)
next
  case (SelWaited evs)
  have "waiter_runs L (sr_waiter s) (sr_waiter (snd (streamReturn now sub k r t)))" if "sr_waiter t = sr_waiter s" for k r t
    using waiter_streamReturn [of L t] that by simp
  then show ?thesis
    by (cases "xc_Waited x") (auto simp: AcceptAndExecuteStream_select_def SelWaited split_def)
next
  case (SelCtxDone b)
  then show ?thesis by (simp add: AcceptAndExecuteStream_select_def waiter_streamReturn)
qed

lemma waiter_CancelJob: "sr_waiter (snd (CancelJob E now req s)) = sr_waiter s"
  by (auto simp: CancelJob_def Let_def nextID_def service_Send_def split: option.split sum.split)

lemma step_waiter: "requester_step E s s' \<Longrightarrow> waiter_runs (sv_tlv E) (sr_waiter s) (sr_waiter s')"
  by (induction rule: requester_step.induct)
    (auto simp: waiter_runs_ops waiter_RequestQuote RequestQuote_received_def RequestQuote_cancelled_def
      waiter_AcceptAndExecute AcceptAndExecute_received_def AcceptAndExecute_cancelled_def split_def
      waiter_AcceptAndExecuteStream streamWait_received_def streamWait_cancelled_def waiter_select waiter_CancelJob)

lemma reachable_waiter: "requester_reachable E s \<Longrightarrow> \<exists>m. waiter_runs (sv_tlv E) (waiter_New m) (sr_waiter s)"
proof (induction rule: requester_reachable.induct)
  case (start os m)
  show ?case by (auto simp: requester_init_def)
next
  case (step s s')
  then show ?case using step_waiter waiter_runs_trans by blast
qed

end
