(* ===== verification/Quote_Exchange.thy ===== *)
theory Quote_Exchange
  imports Result_Exchange Requester_Safety
begin

text \<open>
  The quote handshake over both ends: the messages of \<^verbatim>\<open>RequestQuote\<close> are the exchange that the
  provider quotes, and its quote response ends the blocked call with the quoted terms. The
  messages are taken from the traces of the two sides.
\<close>

section \<open>Sending the input\<close>

text \<open>An outside that never fails.\<close>

definition service_up :: "service_env \<Rightarrow> bool" where
  "service_up E \<longleftrightarrow> sv_messenger E \<and> (\<forall>n p t b. sv_send E n p t b = None) \<and> (\<forall>n. \<exists>v. sv_newJobID E n = Inr v)
     \<and> (\<forall>n. \<exists>v. sv_newMsgID E n = Inr v) \<and> (\<forall>n. \<exists>v. sv_newStreamID E n = Inr v)"

lemma service_Send_up:
  "service_up E \<Longrightarrow> service_Send E p t b s = (None, s\<lparr>sr_trace := sr_trace s @ [SvSend p t b True]\<rparr>)"
  by (simp add: service_Send_def service_up_def Let_def)

lemma send_all_up:
  "service_up E \<Longrightarrow> send_all (service_Send E p t) ps s = (None, s\<lparr>sr_trace := sr_trace s @ map (\<lambda>b. SvSend p t b True) ps\<rparr>)"
  by (induction ps arbitrary: s) (simp_all add: service_Send_up)

lemma chunk_payloads_orStatus:
  "chunk_payloads (\<lambda>seq d. orStatus (enc seq d) g Inr) lim seq ds ps = chunk_payloads enc lim seq ds ps"
  by (induction ds arbitrary: seq ps) (auto simp: res_simps split: list.splits)

context tlv_library
begin

lemma input_chunk_exists:
  assumes "241 \<le> unat m" and "data \<noteq> []"
  shows "\<exists>p k. encodeFittingInputStreamChunk L j x sid m seq data = Inr (p, k)"
proof (cases "encodeFittingInputStreamChunk L j x sid m seq data")
  case (Inr v)
  then show ?thesis by (cases v) auto
next
  case (Inl err)
  have ok: "\<exists>p. encodeChunk L (serviceEnvelope j 0 x) sid seq d = Inr p \<and> length p \<le> 240 + length d" for d
    by (intro encodeChunk_ok) (simp add: serviceEnvelope_def)
  from fitting_length_fails [OF Inl [unfolded encodeFittingInputStreamChunk_def]] obtain k where
    k: "orStatus (encodeChunk L (serviceEnvelope j 0 x) sid seq (take k data)) invalidArgument Inr = Inl err
      \<or> k \<le> 1 \<and> (\<exists>p. orStatus (encodeChunk L (serviceEnvelope j 0 x) sid seq (take k data)) invalidArgument Inr = Inr p \<and> unat m < length p)"
    by blast
  obtain p where "encodeChunk L (serviceEnvelope j 0 x) sid seq (take k data) = Inr p" "length p \<le> 240 + length (take k data)"
    using ok by blast
  with k assms(1) show ?thesis by auto
qed

lemma input_chunks_sent:
  assumes "sv_tlv E = L" and "service_up E" and "241 \<le> unat m"
  shows "\<exists>ds ps. concat ds = data \<and> chunk_payloads (encodeChunk L (serviceEnvelope j 0 x) sid) (unat m) 0 ds ps
    \<and> sendInputStreamChunks E p j x sid data m s
      = (None, s\<lparr>sr_trace := sr_trace s @ map (\<lambda>b. SvSend p MessageTypeStreamChunk b True) ps\<rparr>)"
proof -
  let ?loop = "inputChunks_from E p j x sid m 0 data s"
  have "fst ?loop = None"
    by (rule input_chunks.loop_succeeds) (use input_chunk_exists assms in \<open>auto simp: service_Send_up\<close>)
  then obtain s' where s': "?loop = (None, s')" by (metis prod.collapse)
  have "0 < unat m" using assms(3) by simp
  from input_chunks.loop_sends_all [OF s' this] assms(1,2) s' show ?thesis
    by (auto simp: sendInputStreamChunks_def chunk_payloads_orStatus send_all_up)
qed

end

text \<open>The messages of a request among the events of a trace.\<close>

abbreviation sent :: "string \<Rightarrow> u16 \<Rightarrow> bytes \<Rightarrow> service_event" where
  "sent p t b \<equiv> SvSend p t b True"

definition request_events :: "string \<Rightarrow> bytes \<Rightarrow> bytes \<Rightarrow> bytes list \<Rightarrow> bytes \<Rightarrow> service_event list" where
  "request_events p pq pb ps pf =
     sent p MessageTypeQuoteRequest pq # sent p MessageTypeStreamBegin pb # map (sent p MessageTypeStreamChunk) ps
       @ [sent p MessageTypeStreamEnd pf]"

text \<open>The peer takes the request: the limits of its manifest are above the sizes of the messages.\<close>

definition peer_takes :: "manifest \<Rightarrow> bytes \<Rightarrow> bool" where
  "peer_takes mf body \<longleftrightarrow> 1400 \<le> unat (mf_MaxPayloadBytes mf) \<and> unat (mf_MaxPayloadBytes mf) \<le> MaxRecordSize
     \<and> length body \<le> unat (mf_MaxStreamBytes mf) \<and> length body \<le> unat (mf_MaxJobBytes mf)"

lemma newEnvelopeExpiry_value:
  assumes "newEnvelopeExpiry now = Inr x"
  shows "0 \<le> time_Unix now \<and> (time_Unix now < 2 ^ 64 \<longrightarrow> uint x = time_Unix now + 300)"
proof -
  let ?w = "word_of_int (time_Unix now) :: u64"
  from assms have nn: "0 \<le> time_Unix now" and le: "\<not> - 1 - 300 < ?w" and x: "x = ?w + 300"
    by (auto simp: newEnvelopeExpiry_def Let_def split: if_splits)
  show ?thesis
  proof (intro conjI impI)
    assume "time_Unix now < 2 ^ 64"
    with nn have u: "uint ?w = time_Unix now" by (simp add: uint_word_of_int take_bit_int_eq_self)
    have "uint (- 1 - 300 :: u64) = 2 ^ 64 - 301" by simp
    with le u have "time_Unix now \<le> 2 ^ 64 - 301" by (simp add: word_less_def)
    then have "uint ?w + uint (300 :: u64) < 2 ^ LENGTH(64)" using u by simp
    then have "uint (?w + 300) = uint ?w + uint (300 :: u64)" by (simp only: uint_add_lem)
    then show "uint x = time_Unix now + 300" using u unfolding x by simp
  qed (rule nn)
qed

context tlv_library
begin

lemma begin_sent:
  assumes "sv_tlv E = L" and up: "service_up E" and "400 \<le> unat m" and inp: "inp = jsonInputStream body"
  shows "\<exists>mid b pb. sv_newMsgID E (sr_ids s) = Inr mid \<and> EncodeStreamBegin L b = Inr pb \<and> length pb \<le> unat m
    \<and> b = \<lparr>sb_Envelope = serviceEnvelope j mid x, sb_StreamID = sid, sb_Kind = StreamKindInput, sb_TotalLen = Some n,
           sb_SHA256 = Some h, sb_ContentType = contentTypeApplicationJSON, sb_ContentEncoding = contentEncodingIdentity\<rparr>
    \<and> sendInputStreamBegin E p j x inp sid n h m s
      = (None, s\<lparr>sr_ids := Suc (sr_ids s), sr_trace := sr_trace s @ [sent p MessageTypeStreamBegin pb]\<rparr>)"
proof -
  obtain mid where mid: "sv_newMsgID E (sr_ids s) = Inr mid" using up unfolding service_up_def by blast
  let ?b = "\<lparr>sb_Envelope = serviceEnvelope j mid x, sb_StreamID = sid, sb_Kind = StreamKindInput, sb_TotalLen = Some n,
           sb_SHA256 = Some h, sb_ContentType = contentTypeApplicationJSON, sb_ContentEncoding = contentEncodingIdentity\<rparr>"
  have "utf8_ValidString contentTypeApplicationJSON" "utf8_ValidString contentEncodingIdentity" by code_simp+
  then obtain pb where pb: "EncodeStreamBegin L ?b = Inr pb" "length pb \<le> unat m"
    using EncodeStreamBegin_ok [of ?b] assms(3) by (auto simp: serviceEnvelope_def)
  then have "sendInputStreamBegin E p j x inp sid n h m s
      = (None, s\<lparr>sr_ids := Suc (sr_ids s), sr_trace := sr_trace s @ [sent p MessageTypeStreamBegin pb]\<rparr>)"
    using mid assms(1) by (simp add: sendInputStreamBegin_def nextID_def inp jsonInputStream_def service_Send_up [OF up])
  with mid pb show ?thesis by blast
qed

lemma end_sent:
  assumes "sv_tlv E = L" and up: "service_up E" and "272 \<le> unat m"
  shows "\<exists>mid e pf. sv_newMsgID E (sr_ids s) = Inr mid \<and> EncodeStreamEnd L e = Inr pf \<and> length pf \<le> unat m
    \<and> e = \<lparr>se_Envelope = serviceEnvelope j mid x, se_StreamID = sid, se_TotalLen = n, se_SHA256 = h\<rparr>
    \<and> sendInputStreamEnd E p j x sid n h m s
      = (None, s\<lparr>sr_ids := Suc (sr_ids s), sr_trace := sr_trace s @ [sent p MessageTypeStreamEnd pf]\<rparr>)"
proof -
  obtain mid where mid: "sv_newMsgID E (sr_ids s) = Inr mid" using up unfolding service_up_def by blast
  let ?e = "\<lparr>se_Envelope = serviceEnvelope j mid x, se_StreamID = sid, se_TotalLen = n, se_SHA256 = h\<rparr>"
  obtain pf where pf: "EncodeStreamEnd L ?e = Inr pf" "length pf \<le> unat m"
    using EncodeStreamEnd_ok [of ?e] assms(3) by (auto simp: serviceEnvelope_def)
  then have "sendInputStreamEnd E p j x sid n h m s
      = (None, s\<lparr>sr_ids := Suc (sr_ids s), sr_trace := sr_trace s @ [sent p MessageTypeStreamEnd pf]\<rparr>)"
    using mid assms(1) by (simp add: sendInputStreamEnd_def nextID_def service_Send_up [OF up])
  with mid pf show ?thesis by blast
qed

text \<open>The whole input stream, as the provider expects it.\<close>

lemma input_sent:
  assumes "sv_tlv E = L" and up: "service_up E" and m: "m = mf_MaxPayloadBytes mf" "400 \<le> unat m" and inp: "inp = jsonInputStream body"
  shows "\<exists>sid mb me b e pb ps pf ds. sendInputStream E p j x inp mf s
      = (None, s\<lparr>sr_ids := sr_ids s + 3, sr_trace := sr_trace s @ sent p MessageTypeStreamBegin pb
            # map (sent p MessageTypeStreamChunk) ps @ [sent p MessageTypeStreamEnd pf]\<rparr>)
    \<and> sv_newMsgID E (Suc (sr_ids s)) = Inr mb \<and> sv_newMsgID E (Suc (Suc (sr_ids s))) = Inr me
    \<and> b = \<lparr>sb_Envelope = serviceEnvelope j mb x, sb_StreamID = sid, sb_Kind = StreamKindInput,
           sb_TotalLen = Some (word_of_nat (length body)), sb_SHA256 = Some (sha256 body),
           sb_ContentType = contentTypeApplicationJSON, sb_ContentEncoding = contentEncodingIdentity\<rparr>
    \<and> EncodeStreamBegin L b = Inr pb \<and> length pb \<le> unat m
    \<and> e = \<lparr>se_Envelope = serviceEnvelope j me x, se_StreamID = sid, se_TotalLen = word_of_nat (length body), se_SHA256 = sha256 body\<rparr>
    \<and> EncodeStreamEnd L e = Inr pf \<and> length pf \<le> unat m
    \<and> concat ds = body \<and> chunk_payloads (encodeChunk L (serviceEnvelope j 0 x) sid) (unat m) 0 ds ps"
proof -
  let ?n = "word_of_nat (length body) :: u64" and ?h = "sha256 body"
  obtain sid where sid: "sv_newStreamID E (sr_ids s) = Inr sid" using up unfolding service_up_def by blast
  define s1 where "s1 = s\<lparr>sr_ids := Suc (sr_ids s)\<rparr>"
  obtain mb b pb where b: "sv_newMsgID E (sr_ids s1) = Inr mb" "EncodeStreamBegin L b = Inr pb" "length pb \<le> unat m"
    "b = \<lparr>sb_Envelope = serviceEnvelope j mb x, sb_StreamID = sid, sb_Kind = StreamKindInput, sb_TotalLen = Some ?n,
           sb_SHA256 = Some ?h, sb_ContentType = contentTypeApplicationJSON, sb_ContentEncoding = contentEncodingIdentity\<rparr>"
    "sendInputStreamBegin E p j x inp sid ?n ?h m s1
      = (None, s1\<lparr>sr_ids := Suc (sr_ids s1), sr_trace := sr_trace s1 @ [sent p MessageTypeStreamBegin pb]\<rparr>)"
    using begin_sent [OF assms(1,2) m(2) inp] by blast
  define s2 where "s2 = s1\<lparr>sr_ids := Suc (sr_ids s1), sr_trace := sr_trace s1 @ [sent p MessageTypeStreamBegin pb]\<rparr>"
  have "241 \<le> unat m" "272 \<le> unat m" using m(2) by simp_all
  then obtain ds ps where c: "concat ds = body" "chunk_payloads (encodeChunk L (serviceEnvelope j 0 x) sid) (unat m) 0 ds ps"
    "sendInputStreamChunks E p j x sid body m s2
      = (None, s2\<lparr>sr_trace := sr_trace s2 @ map (sent p MessageTypeStreamChunk) ps\<rparr>)"
    using input_chunks_sent [OF assms(1,2)] by blast
  define s3 where "s3 = s2\<lparr>sr_trace := sr_trace s2 @ map (sent p MessageTypeStreamChunk) ps\<rparr>"
  obtain me e pf where e: "sv_newMsgID E (sr_ids s3) = Inr me" "EncodeStreamEnd L e = Inr pf" "length pf \<le> unat m"
    "e = \<lparr>se_Envelope = serviceEnvelope j me x, se_StreamID = sid, se_TotalLen = ?n, se_SHA256 = ?h\<rparr>"
    "sendInputStreamEnd E p j x sid ?n ?h m s3
      = (None, s3\<lparr>sr_ids := Suc (sr_ids s3), sr_trace := sr_trace s3 @ [sent p MessageTypeStreamEnd pf]\<rparr>)"
    using end_sent [OF assms(1,2) \<open>272 \<le> unat m\<close>] by blast
  have "m \<noteq> 0" using m(2) by auto
  have msgr: "sv_messenger E" using up by (simp add: service_up_def)
  have db: "in_DecodedBytes inp = body" by (simp add: inp jsonInputStream_def)
  have "sendInputStream E p j x inp mf s = (None, s3\<lparr>sr_ids := Suc (sr_ids s3), sr_trace := sr_trace s3 @ [sent p MessageTypeStreamEnd pf]\<rparr>)"
    using b(5) c(3) e(5) \<open>m \<noteq> 0\<close> msgr sid unfolding s2_def [symmetric] s3_def [symmetric]
    by (simp add: sendInputStream_def Let_def nextID_def m(1) [symmetric] db s1_def [symmetric])
  then have "sendInputStream E p j x inp mf s = (None, s\<lparr>sr_ids := sr_ids s + 3, sr_trace := sr_trace s @ sent p MessageTypeStreamBegin pb
            # map (sent p MessageTypeStreamChunk) ps @ [sent p MessageTypeStreamEnd pf]\<rparr>)"
    by (simp add: s1_def s2_def s3_def)
  moreover have "sr_ids s1 = Suc (sr_ids s)" "sr_ids s3 = Suc (Suc (sr_ids s))" by (simp_all add: s1_def s2_def s3_def)
  ultimately show ?thesis using b e c by metis
qed

end

section \<open>Requesting a quote\<close>

text \<open>
  A request that passes the checks of \<^verbatim>\<open>RequestQuote\<close> up to its first message; the random
  message ids of its three messages differ and its job id is not in use.
\<close>

definition good_request ::
    "service_env \<Rightarrow> gotime \<Rightarrow> request_quote_request \<Rightarrow> string \<Rightarrow> proto_task \<Rightarrow> manifest \<Rightarrow> u64 \<Rightarrow> hash32 \<Rightarrow> requester \<Rightarrow> bool" where
  "good_request E now rq p t mf x j s \<longleftrightarrow> service_validate E (RequestQuoteRequest rq) = None
     \<and> strings_TrimSpace (rq_PeerId rq) = p \<and> p \<noteq> [] \<and> rq_Task rq = Some t \<and> ValidateTask (sv_json E) (Some t) = None
     \<and> requireReadyPeer p s = Inr mf \<and> newEnvelopeExpiry now = Inr x \<and> sv_newJobID E (sr_ids s) = Inr j
     \<and> distinct (map (\<lambda>i. sv_newMsgID E (sr_ids s + i)) [1, 3, 4])
     \<and> map_of (wt_entries (sr_waiter s)) \<lparr>wk_peerID = p, wk_jobID = j\<rparr> = None"

text \<open>The quote request that the provider decodes.\<close>

definition task_request :: "hash32 \<Rightarrow> hash32 \<Rightarrow> u64 \<Rightarrow> string \<Rightarrow> string \<Rightarrow> quote_request" where
  "task_request j mid x kind model =
     \<lparr>qr_Envelope = serviceEnvelope j mid x, qr_TaskKind = kind, qr_ParamsBytes = Some (raw_stream [(1, string_bytes model)])\<rparr>"

definition waiting_call :: "string \<Rightarrow> hash32 \<Rightarrow> proto_task \<Rightarrow> string \<Rightarrow> bytes \<Rightarrow> string \<Rightarrow> quote_call" where
  "waiting_call p j t kind body model =
     \<lparr>qc_PeerID = p, qc_JobID = j, qc_Task = Some t,
      qc_WireTask = \<lparr>qt_TaskKind = kind, qt_ParamsBytes = raw_stream [(1, string_bytes model)]\<rparr>,
      qc_Input = jsonInputStream body\<rparr>"

context tlv_library
begin

lemma request_payload:
  assumes "kind = taskKindOpenAIChatCompletionsV1 \<or> kind = taskKindOpenAIResponsesV1" and "length model \<le> 1000"
  shows "\<exists>pq. EncodeQuoteRequest L (task_request j mid x kind model) = Inr pq \<and> length pq \<le> 1400
    \<and> DecodeQuoteRequest L pq = Inr (task_request j mid x kind model)"
proof -
  have "utf8_ValidString kind" "kind \<noteq> []" "length kind \<le> 30"
    using assms(1) by (auto, code_simp+)
  moreover have "length (raw_stream [(1, string_bytes model)]) \<le> 18 + length model"
    using length_encodeTLV [of 1 "string_bytes model"] by (simp add: raw_stream_def)
  ultimately obtain pq where "EncodeQuoteRequest L (task_request j mid x kind model) = Inr pq" "length pq \<le> 1400"
    using EncodeQuoteRequest_ok [of "task_request j mid x kind model"] assms(2) by (auto simp: task_request_def serviceEnvelope_def)
  then show ?thesis using quote_request_round_trip by force
qed

lemma request_sent:
  assumes EL: "sv_tlv E = L" and up: "service_up E" and good: "good_request E now rq p t mf x j s"
    and view: "task_view t = Some (kind, body, model)" and len: "length model \<le> 1000" and takes: "peer_takes mf body"
    and small: "length body \<le> 4194304"
  shows "\<exists>mid b e pq pb ps pf s'. RequestQuote E now nowLocked (Some rq) s = (Blocked (wt_nextCh (sr_waiter s)), s')
    \<and> sr_trace s' = sr_trace s @ request_events p pq pb ps pf
    \<and> (\<forall>from. input_exchange L \<lparr>jk_PeerPubKey = from, jk_JobID = j\<rparr> (task_request j mid x kind model) body b e
           (serviceEnvelope j 0 x) (unat (mf_MaxPayloadBytes mf)) pq pb ps pf)
    \<and> env_Expiry (sb_Envelope b) = x \<and> env_Expiry (se_Envelope e) = x
    \<and> sr_quoteCalls s' = (wt_nextCh (sr_waiter s), waiting_call p j t kind body model) # sr_quoteCalls s
    \<and> sr_jobs s' = sr_jobs s \<and> sr_waiter s' = snd (WaitQuoteResponse p j (sr_waiter s))"
proof -
  note g = good [unfolded good_request_def]
  let ?m = "mf_MaxPayloadBytes mf" and ?wt = "\<lparr>qt_TaskKind = kind, qt_ParamsBytes = raw_stream [(1, string_bytes model)]\<rparr>"
  have kind: "kind = taskKindOpenAIChatCompletionsV1 \<or> kind = taskKindOpenAIResponsesV1"
    using ValidateTask_None [of "sv_json E" "Some t"] g view by auto
  have m: "1400 \<le> unat ?m" "unat ?m \<le> MaxRecordSize" using takes by (simp_all add: peer_takes_def)
  have conv: "ToWireQuoteRequestTask L (sv_json E) (Some t) = Inr ?wt" "ToWireInputStream (sv_json E) (Some t) = Inr (jsonInputStream body)"
    using ToWireQuoteRequestTask_valid ToWireInputStream_valid g view by blast+
  obtain mid where mid: "sv_newMsgID E (Suc (sr_ids s)) = Inr mid" using up unfolding service_up_def by blast
  obtain pq where pq: "EncodeQuoteRequest L (task_request j mid x kind model) = Inr pq" "length pq \<le> 1400"
      "DecodeQuoteRequest L pq = Inr (task_request j mid x kind model)" using request_payload [OF kind len] by blast
  let ?s1 = "s\<lparr>sr_ids := Suc (Suc (sr_ids s))\<rparr>"
  have build: "buildQuoteRequestPayload E now (Some t) s = (Inr (j, x, ?wt, jsonInputStream body, pq), ?s1)"
    using g mid pq(1) conv by (simp add: buildQuoteRequestPayload_def nextID_def EL task_request_def)
  have limits: "validateQuoteRequestRemoteLimits mf pq (jsonInputStream body) = None"
    using pq(2) m takes word_within [of "length body"]
    by (simp add: validateQuoteRequestRemoteLimits_def Let_def peer_takes_def jsonInputStream_def)
  let ?s2 = "?s1\<lparr>sr_trace := sr_trace s @ [sent p MessageTypeQuoteRequest pq]\<rparr>"
  have m4: "400 \<le> unat ?m" using m(1) by simp
  obtain sid mb me b e pb ps pf ds where i: "sendInputStream E p j x (jsonInputStream body) mf ?s2
      = (None, ?s2\<lparr>sr_ids := sr_ids ?s2 + 3, sr_trace := sr_trace ?s2 @ sent p MessageTypeStreamBegin pb
            # map (sent p MessageTypeStreamChunk) ps @ [sent p MessageTypeStreamEnd pf]\<rparr>)"
    and ids: "sv_newMsgID E (Suc (sr_ids ?s2)) = Inr mb" "sv_newMsgID E (Suc (Suc (sr_ids ?s2))) = Inr me"
    and b: "b = \<lparr>sb_Envelope = serviceEnvelope j mb x, sb_StreamID = sid, sb_Kind = StreamKindInput,
           sb_TotalLen = Some (word_of_nat (length body)), sb_SHA256 = Some (sha256 body),
           sb_ContentType = contentTypeApplicationJSON, sb_ContentEncoding = contentEncodingIdentity\<rparr>"
      "EncodeStreamBegin L b = Inr pb" "length pb \<le> unat ?m"
    and e: "e = \<lparr>se_Envelope = serviceEnvelope j me x, se_StreamID = sid, se_TotalLen = word_of_nat (length body), se_SHA256 = sha256 body\<rparr>"
      "EncodeStreamEnd L e = Inr pf" "length pf \<le> unat ?m"
    and c: "concat ds = body" "chunk_payloads (encodeChunk L (serviceEnvelope j 0 x) sid) (unat ?m) 0 ds ps"
    using input_sent [OF EL up refl m4 refl, of p j x body ?s2] by blast
  let ?s3 = "?s2\<lparr>sr_ids := sr_ids ?s2 + 3, sr_trace := sr_trace ?s2 @ sent p MessageTypeStreamBegin pb
            # map (sent p MessageTypeStreamChunk) ps @ [sent p MessageTypeStreamEnd pf]\<rparr>"
  let ?c = "waiting_call p j t kind body model"
  have msgr: "sv_messenger E" using up by (simp add: service_up_def)
  have "RequestQuote E now nowLocked (Some rq) s = RequestQuote_wait E now nowLocked ?c ?s3"
    using g build limits msgr i
    by (simp add: RequestQuote_def Let_def service_Send_up [OF up] waiting_call_def)
  moreover obtain w where w: "WaitQuoteResponse p j (sr_waiter s) = (WaitOn (wt_nextCh (sr_waiter s)), w)"
    using g by (simp add: WaitQuoteResponse_def ensureEntryLocked_def Let_def entryAt_def empty_entry_def)
  ultimately have run: "RequestQuote E now nowLocked (Some rq) s = (Blocked (wt_nextCh (sr_waiter s)),
      ?s3\<lparr>sr_waiter := w, sr_quoteCalls := (wt_nextCh (sr_waiter s), ?c) # sr_quoteCalls s\<rparr>)"
    by (simp add: RequestQuote_wait_def waiting_call_def)
  have dist: "distinct [mid, mb, me]" using g mid ids by (auto simp: numeral_eq_Suc)
  have dec: "DecodeStreamBegin L pb = Inr b" "DecodeStreamEnd L pf = Inr e"
    using stream_begin_round_trip [OF b(2)] stream_end_round_trip [OF e(2)] b(3) e(3) m(2) by simp_all
  have ct: "inputContentTypeForTaskKind kind = contentTypeApplicationJSON"
    using kind by (auto simp: inputContentTypeForTaskKind_def)
  have vb: "validateInputStreamBegin b = Inr (word_of_nat (length body), sha256 body)"
    using small word_within [of "length body" 4194304] word_within [of "length body" 8388608]
    by (simp add: validateInputStreamBegin_def b(1) not_less)
  have ex: "input_exchange L \<lparr>jk_PeerPubKey = from, jk_JobID = j\<rparr> (task_request j mid x kind model) body b e
           (serviceEnvelope j 0 x) (unat ?m) pq pb ps pf" for "from"
    unfolding input_exchange_def using pq(3) dec vb dist m(2) c
    by (auto simp: task_request_def serviceEnvelope_def b(1) e(1) ct)
  show ?thesis
    using run ex b(1) e(1) w
    by (intro exI [of _ mid] exI [of _ b] exI [of _ e] exI [of _ pq] exI [of _ pb] exI [of _ ps] exI [of _ pf])
       (simp add: request_events_def serviceEnvelope_def)
qed

end

section \<open>The answer\<close>

fun service_messages :: "string \<Rightarrow> service_event list \<Rightarrow> custom_message list" where
  "service_messages from [] = []"
| "service_messages from (SvSend p t b ok # evs) =
     (if ok then inbound from t b # service_messages from evs else service_messages from evs)"
| "service_messages from (_ # evs) = service_messages from evs"

lemma service_messages_append [simp]: "service_messages f (xs @ ys) = service_messages f xs @ service_messages f ys"
  by (induction f xs rule: service_messages.induct) simp_all

lemma service_messages_sent [simp]: "service_messages f (map (sent p t) ps) = map (inbound f t) ps"
  by (induction ps) simp_all

lemma request_messages: "service_messages f (request_events p pq pb ps pf) = input_messages f pq pb ps pf"
  by (simp add: request_events_def input_messages_def)

lemma response_delivered:
  assumes "DecodeQuoteResponse L payload = Inr resp" and "p \<noteq> []"
    and "map_of (wt_entries w) \<lparr>wk_peerID = p, wk_jobID = env_JobID (qs_Envelope resp)\<rparr> = None"
  shows "(wt_nextCh w, \<lparr>qo_QuoteResponse = Some resp, qo_Error = None\<rparr>) \<in> set (wt_quoteInbox
    (waiter_HandleInboundCustomMessage L (inbound p MessageTypeQuoteResponse payload)
      (snd (WaitQuoteResponse p (env_JobID (qs_Envelope resp)) w))))"
  using assms
  by (simp add: WaitQuoteResponse_def waiter_HandleInboundCustomMessage_def deliverQuoteResponse_def
      ensureEntryLocked_def Let_def entryAt_def empty_entry_def)

lemma PutQuote_succeeds:
  assumes "peer \<noteq> []" and "length (pt_JobId tm) = 32" and "pt_QuoteExpiry tm = Some x"
  shows "fst (PutQuote now nowLocked peer (Some t) (Some tm) st) = Inr ()"
  using assms by (simp add: PutQuote_def requester_toJobID_def Let_def)

text \<open>A quote for the task's wire form and input, with the hash the provider computes, is accepted.\<close>

lemma quote_accepted:
  assumes h: "handler_computeTermsHash L (task_request j mid x kind model) st (qs_QuoteExpiry resp) (qs_PriceMsat resp)
      = Inr (qs_TermsHash resp)"
    and st: "is_Buf st = body" "is_ContentType st = contentTypeApplicationJSON" "is_ContentEncoding st = contentEncodingIdentity"
    and env: "env_ProtocolVersion (qs_Envelope resp) = ProtocolVersionV02" "env_JobID (qs_Envelope resp) = j"
    and x: "qs_QuoteExpiry resp \<le> 9223372036854775807" and L: "sv_tlv E = L" and p: "p \<noteq> []"
  shows "\<exists>tm. fst (RequestQuote_outcome E now nowLocked (waiting_call p j t kind body model)
        \<lparr>qo_QuoteResponse = Some resp, qo_Error = None\<rparr> s) = Inr tm
    \<and> pt_PriceMsat tm = qs_PriceMsat resp \<and> pt_QuoteExpiry tm = Some (time_of_unix (uint (qs_QuoteExpiry resp)))
    \<and> pt_PaymentRequest tm = qs_PaymentRequest resp \<and> pt_TermsHash tm = hash_bytes (qs_TermsHash resp) \<and> pt_JobId tm = hash_bytes j"
proof -
  let ?tm = "\<lparr>pt_ProtocolVersion = ucast (env_ProtocolVersion (qs_Envelope resp)),
            pt_JobId = hash_bytes (env_JobID (qs_Envelope resp)), pt_PriceMsat = qs_PriceMsat resp,
            pt_QuoteExpiry = Some (time_of_unix (uint (qs_QuoteExpiry resp))), pt_TermsHash = hash_bytes (qs_TermsHash resp),
            pt_PaymentRequest = qs_PaymentRequest resp\<rparr>"
  let ?c = "waiting_call p j t kind body model"
  have terms: "termsFromQuoteResponse L (qc_WireTask ?c) (qc_Input ?c) resp = Inr ?tm"
    using h x env by (simp add: termsFromQuoteResponse_def handler_computeTermsHash_def task_request_def serviceEnvelope_def
        waiting_call_def jsonInputStream_def st timestampFromUnixSeconds_def not_less)
  have put: "fst (PutQuote now nowLocked p (Some t) (Some ?tm) (sr_jobs s)) = Inr ()"
    by (rule PutQuote_succeeds) (simp_all add: p)
  have "fst (RequestQuote_outcome E now nowLocked ?c \<lparr>qo_QuoteResponse = Some resp, qo_Error = None\<rparr> s) = Inr ?tm"
    using terms put L by (auto simp: RequestQuote_outcome_def waiting_call_def split: prod.split sum.split)
  then show ?thesis using env(2) by auto
qed

lemma task_hash:
  assumes "tlv_library L" and "kind = taskKindOpenAIChatCompletionsV1 \<or> kind = taskKindOpenAIResponsesV1" and "length model \<le> 1000"
  shows "\<exists>h. \<forall>st. is_Buf st = body \<longrightarrow> is_ContentType st = contentTypeApplicationJSON \<longrightarrow> is_ContentEncoding st = contentEncodingIdentity
    \<longrightarrow> handler_computeTermsHash L (task_request j mid x kind model) st y price = Inr h"
proof -
  have c: "canonicalizeTLVStream L (raw_stream [(1, string_bytes model)]) = Inr (raw_stream [(1, string_bytes model)])"
    using assms(3) by (intro tlv_library.canonicalize_stream [OF assms(1)]) (simp_all add: ascending_def)
  have u: "utf8_ValidString contentTypeApplicationJSON" "utf8_ValidString contentEncodingIdentity"
    "utf8_ValidString taskKindOpenAIChatCompletionsV1" "utf8_ValidString taskKindOpenAIResponsesV1" by code_simp+
  show ?thesis using assms(2) by (auto simp: handler_computeTermsHash_def ComputeTermsHash_def task_request_def c u)
qed

section \<open>The handshake\<close>

text \<open>
  The provider is ready for the job: it accepts requests of the peer, the job is new, the
  input passes validation and has a price, the invoice service and the messenger work, and
  the clock lies before the expiry of the messages and of the largest time stamp.
\<close>

definition provider_ready ::
    "provider_env \<Rightarrow> job_key \<Rightarrow> (hash32 \<Rightarrow> quote_request) \<Rightarrow> bytes \<Rightarrow> u64 \<Rightarrow> gotime \<Rightarrow> u64 \<Rightarrow> price_breakdown \<Rightarrow> string \<Rightarrow> provider \<Rightarrow> bool" where
  "provider_ready P k req body x tp n price bolt11 sp \<longleftrightarrow> pe_validator P = DefaultValidator \<and> open_for P k sp
     \<and> handler_nowUnix tp = Some n \<and> n \<le> x \<and> n + quoteTTLSeconds (pe_cfg P) \<le> 9223372036854775807
     \<and> (\<forall>mid. new_job P k (req mid) tp sp \<and> validateInputStream (pe_tlv P) (pe_json P) (req mid) body = None
          \<and> quotePrice (pe_tlv P) (pe_json P) (pe_cfg P) (pe_policy P) (pv_inFlight sp) (req mid) body = Inr price)
     \<and> services_ok P bolt11 \<and> bolt11 \<noteq> [] \<and> utf8_ValidString bolt11 \<and> length bolt11 \<le> 60000
     \<and> 266 + length bolt11 \<le> unat (remoteMaxPayloadBytes (RemoteManifestFor (jk_PeerPubKey k) (pv_peers sp)))"

lemma zip_same_time: "length ts = length xs \<Longrightarrow> set ts \<subseteq> {t} \<Longrightarrow> zip ts xs = map (Pair t) xs"
  by (induction ts xs rule: list_induct2) auto

text \<open>What the requester reads in the answer to a quoted request.\<close>

lemma quoted_answer:
  assumes q: "quoted P k req body price y sp sp'" and L: "tlv_library (pe_tlv P)"
    and b: "services_ok P bolt11" "bolt11 \<noteq> []" "utf8_ValidString bolt11" "length bolt11 \<le> 60000"
    and v: "env_ProtocolVersion (qr_Envelope req) \<noteq> 0"
  shows "\<exists>resp st payload. sent_messages f (drop (length (pv_trace sp)) (pv_trace sp')) = [inbound f MessageTypeQuoteResponse payload]
    \<and> DecodeQuoteResponse (pe_tlv P) payload = Inr resp
    \<and> handler_computeTermsHash (pe_tlv P) req st (qs_QuoteExpiry resp) (qs_PriceMsat resp) = Inr (qs_TermsHash resp)
    \<and> is_Buf st = body \<and> is_ContentType st = inputContentTypeForTaskKind (qr_TaskKind req)
    \<and> is_ContentEncoding st = contentEncodingIdentity
    \<and> env_ProtocolVersion (qs_Envelope resp) = env_ProtocolVersion (qr_Envelope req)
    \<and> env_JobID (qs_Envelope resp) = env_JobID (qr_Envelope req)
    \<and> qs_PriceMsat resp = price \<and> qs_QuoteExpiry resp = y \<and> qs_PaymentRequest resp = bolt11"
proof -
  from q obtain r :: runner and rid invReq ivc payload where r:
    "pv_trace sp' = pv_trace sp @ [EvInvoice invReq (Inr ivc), EvSend (jk_PeerPubKey k) MessageTypeQuoteResponse payload True, EvStart k rid]"
    "pe_invoice P (length (pv_trace sp)) invReq = Inr ivc" "EncodeQuoteResponse (pe_tlv P) (ru_QuoteResp r) = Inr payload"
    "qs_PriceMsat (ru_QuoteResp r) = price" "qs_QuoteExpiry (ru_QuoteResp r) = y"
    "qs_PaymentRequest (ru_QuoteResp r) = iv_PaymentRequest ivc" "is_Buf (ru_Input r) = body"
    "is_ContentType (ru_Input r) = inputContentTypeForTaskKind (qr_TaskKind req)"
    "is_ContentEncoding (ru_Input r) = contentEncodingIdentity"
    "env_ProtocolVersion (qs_Envelope (ru_QuoteResp r)) = env_ProtocolVersion (qr_Envelope req)"
    "env_JobID (qs_Envelope (ru_QuoteResp r)) = env_JobID (qr_Envelope req)"
    "handler_computeTermsHash (pe_tlv P) req (ru_Input r) y price = Inr (qs_TermsHash (ru_QuoteResp r))"
    unfolding quoted_def by blast
  have pr: "iv_PaymentRequest ivc = bolt11" using b(1) r(2) unfolding services_ok_def by (metis sum.inject(2))
  have dec: "DecodeQuoteResponse (pe_tlv P) payload = Inr (ru_QuoteResp r)"
  proof (rule tlv_library.quote_response_round_trip [OF L r(3)])
    obtain e where "EncodeQuoteResponse (pe_tlv P) (ru_QuoteResp r) = Inr e" "length e \<le> 266 + length bolt11"
      using tlv_library.EncodeQuoteResponse_ok [OF L, of "ru_QuoteResp r"] b v r(6,10) pr by auto
    with r(3) b(4) show "length payload \<le> MaxRecordSize" by simp
  qed
  show ?thesis
    using r dec pr by (intro exI [of _ "ru_QuoteResp r"] exI [of _ "ru_Input r"] exI [of _ payload]) simp
qed

definition task_commit :: "string \<Rightarrow> bytes \<Rightarrow> string \<Rightarrow> terms_commit" where
  "task_commit kind body model = \<lparr>TaskKind = kind, Input = body, InputContentType = contentTypeApplicationJSON,
     InputContentEncoding = contentEncodingIdentity, Params = Some (raw_stream [(1, string_bytes model)])\<rparr>"

lemma handshake:
  assumes L: "tlv_library L" and E: "sv_tlv E = L" and P: "pe_tlv P = L" and up: "service_up E"
    and good: "good_request E now rq p t mf x j s" and view: "task_view t = Some (kind, body, model)"
    and len: "length model \<le> 1000" and takes: "peer_takes mf body" and small: "length body \<le> 4194304"
    and rdy: "provider_ready P \<lparr>jk_PeerPubKey = f, jk_JobID = j\<rparr> (\<lambda>mid. task_request j mid x kind model) body x tp n price bolt11 sp"
  shows "\<exists>ch s1 mid c out s2 tm. RequestQuote E now nowLocked (Some rq) s = (Blocked ch, s1)
    \<and> (let sp1 = handle_all P (map (Pair tp) (service_messages f (drop (length (sr_trace s)) (sr_trace s1)))) sp;
           w = fold (waiter_HandleInboundCustomMessage L) (sent_messages p (drop (length (pv_trace sp)) (pv_trace sp1))) (sr_waiter s1)
       in quoted P \<lparr>jk_PeerPubKey = f, jk_JobID = j\<rparr> (task_request j mid x kind model) body (pb_PriceMsat price)
            (n + quoteTTLSeconds (pe_cfg P)) sp sp1
        \<and> s2 = s1\<lparr>sr_waiter := w\<rparr> \<and> map_of (sr_quoteCalls s2) ch = Some c \<and> (ch, out) \<in> set (wt_quoteInbox w)
        \<and> fst (RequestQuote_received E now2 nowLocked2 ch c out s2) = Inr tm
        \<and> c = waiting_call p j t kind body model \<and> sr_jobs s1 = sr_jobs s)
    \<and> pt_PriceMsat tm = pb_PriceMsat price \<and> pt_PaymentRequest tm = bolt11 \<and> pt_JobId tm = hash_bytes j
    \<and> pt_QuoteExpiry tm = Some (time_of_unix (uint (n + quoteTTLSeconds (pe_cfg P))))
    \<and> ComputeTermsHash L \<lparr>ProtocolVersion = ProtocolVersionV02, JobID = j, PriceMsat = pb_PriceMsat price, QuoteExpiry = n + quoteTTLSeconds (pe_cfg P)\<rparr>
        (task_commit kind body model) = Inr (bytes_hash (pt_TermsHash tm)) \<and> length (pt_TermsHash tm) = 32"
proof -
  let ?k = "\<lparr>jk_PeerPubKey = f, jk_JobID = j\<rparr>" and ?ch = "wt_nextCh (sr_waiter s)" and ?y = "n + quoteTTLSeconds (pe_cfg P)"
    and ?c = "waiting_call p j t kind body model"
  note r = rdy [unfolded provider_ready_def]
  obtain mid b e pq pb ps pf s1 where q: "RequestQuote E now nowLocked (Some rq) s = (Blocked ?ch, s1)"
      "sr_trace s1 = sr_trace s @ request_events p pq pb ps pf"
      "input_exchange L ?k (task_request j mid x kind model) body b e (serviceEnvelope j 0 x) (unat (mf_MaxPayloadBytes mf)) pq pb ps pf"
      "env_Expiry (sb_Envelope b) = x" "env_Expiry (se_Envelope e) = x" "sr_quoteCalls s1 = (?ch, ?c) # sr_quoteCalls s"
      "sr_jobs s1 = sr_jobs s" "sr_waiter s1 = snd (WaitQuoteResponse p j (sr_waiter s))"
    using tlv_library.request_sent [OF L E up good view len takes small] by meson
  let ?req = "task_request j mid x kind model"
  have kind: "kind = taskKindOpenAIChatCompletionsV1 \<or> kind = taskKindOpenAIResponsesV1"
    using ValidateTask_None [of "sv_json E" "Some t"] good view by (auto simp: good_request_def)
  then have ct: "inputContentTypeForTaskKind kind = contentTypeApplicationJSON" by (auto simp: inputContentTypeForTaskKind_def)
  obtain h where h: "\<And>st. is_Buf st = body \<Longrightarrow> is_ContentType st = contentTypeApplicationJSON \<Longrightarrow>
      is_ContentEncoding st = contentEncodingIdentity \<Longrightarrow> handler_computeTermsHash L ?req st ?y (pb_PriceMsat price) = Inr h"
    using task_hash [OF L kind len] by metis
  let ?msgs = "input_messages f pq pb ps pf" and ?ts = "tp # tp # replicate (length ps) tp @ [tp]"
  have b: "sb_ContentType b = contentTypeApplicationJSON" "sb_ContentEncoding b = contentEncodingIdentity"
    using q(3) by (simp_all add: input_exchange_def task_request_def ct)
  have tm: "timely tp env" if "env_Expiry env = x" for env using r that by (auto simp: timely_def)
  have "quoted P ?k ?req body (pb_PriceMsat price) ?y sp
      (handle_all P (zip (tp # tp # replicate (length ps) tp @ [tp]) (input_messages (jk_PeerPubKey ?k) pq pb ps pf)) sp)"
    by (rule exchange_quoted [where b = b and e = e and cenv = "serviceEnvelope j 0 x" and lim = "unat (mf_MaxPayloadBytes mf)"
          and tq = tp and ts = "replicate (length ps) tp" and tb = tp and tf = tp and h = h and ?bolt11.0 = bolt11 and n = n])
      (use L P r q(3-5) small tm h b in \<open>simp_all add: task_request_def serviceEnvelope_def\<close>)
  moreover have "zip ?ts ?msgs = map (Pair tp) ?msgs" by (rule zip_same_time) (auto simp: input_messages_def)
  moreover have "service_messages f (drop (length (sr_trace s)) (sr_trace s1)) = ?msgs" by (simp add: q(2) request_messages)
  ultimately have quoted: "quoted P ?k ?req body (pb_PriceMsat price) ?y sp
      (handle_all P (map (Pair tp) (service_messages f (drop (length (sr_trace s)) (sr_trace s1)))) sp)" (is "quoted _ _ _ _ _ _ _ ?sp1")
    by simp
  obtain resp st payload where a: "sent_messages p (drop (length (pv_trace sp)) (pv_trace ?sp1)) = [inbound p MessageTypeQuoteResponse payload]"
    "DecodeQuoteResponse L payload = Inr resp" "handler_computeTermsHash L ?req st (qs_QuoteExpiry resp) (qs_PriceMsat resp) = Inr (qs_TermsHash resp)"
    "is_Buf st = body" "is_ContentType st = contentTypeApplicationJSON" "is_ContentEncoding st = contentEncodingIdentity"
    "env_ProtocolVersion (qs_Envelope resp) = ProtocolVersionV02" "env_JobID (qs_Envelope resp) = j"
    "qs_PriceMsat resp = pb_PriceMsat price" "qs_QuoteExpiry resp = ?y" "qs_PaymentRequest resp = bolt11"
    using quoted_answer [OF quoted, of bolt11 p] L P r ct by (auto simp: task_request_def serviceEnvelope_def)
  let ?out = "\<lparr>qo_QuoteResponse = Some resp, qo_Error = None\<rparr>"
  let ?w = "waiter_HandleInboundCustomMessage L (inbound p MessageTypeQuoteResponse payload) (sr_waiter s1)"
  have pne: "p \<noteq> []" and none: "map_of (wt_entries (sr_waiter s)) \<lparr>wk_peerID = p, wk_jobID = j\<rparr> = None"
    using good by (auto simp: good_request_def)
  have inb: "(?ch, ?out) \<in> set (wt_quoteInbox ?w)"
    using response_delivered [OF a(2) pne] none a(8) q(8) by simp
  let ?s2 = "s1\<lparr>sr_waiter := ?w\<rparr>"
  have y: "qs_QuoteExpiry resp \<le> 9223372036854775807" using r a(10) by simp
  obtain tm where tm: "fst (RequestQuote_received E now2 nowLocked2 ?ch ?c ?out ?s2) = Inr tm"
      "pt_PriceMsat tm = qs_PriceMsat resp" "pt_QuoteExpiry tm = Some (time_of_unix (uint (qs_QuoteExpiry resp)))"
      "pt_PaymentRequest tm = qs_PaymentRequest resp" "pt_JobId tm = hash_bytes j" "pt_TermsHash tm = hash_bytes (qs_TermsHash resp)"
    using quote_accepted [OF a(3-8) y E pne] unfolding RequestQuote_received_def by blast
  have "ComputeTermsHash L \<lparr>ProtocolVersion = ProtocolVersionV02, JobID = j, PriceMsat = pb_PriceMsat price, QuoteExpiry = ?y\<rparr>
      (task_commit kind body model) = Inr (bytes_hash (pt_TermsHash tm))"
    using a(3-6,9,10) tm(6) by (simp add: handler_computeTermsHash_def task_commit_def task_request_def serviceEnvelope_def)
  then show ?thesis
    using q(1,6,7) quoted a(1,9-11) inb tm
    by (intro exI [of _ ?ch] exI [of _ s1] exI [of _ mid] exI [of _ ?c] exI [of _ ?out] exI [of _ ?s2] exI [of _ tm]) simp
qed

end
