(* ===== verification/End_To_End.thy ===== *)
theory End_To_End
  imports Quote_Exchange
begin

text \<open>
  Requester and provider together: a payment is bound to a task and to the input that the
  provider executes, the output that the backend produced is what the client gets, and the
  states that the requester records tell how a call ended. The sample run at the end of the
  model part goes through a whole job on both sides.
\<close>

section \<open>Payments\<close>

text \<open>The amounts that the node reports are 64-bit integers.\<close>

definition int64_amounts :: "service_env \<Rightarrow> bool" where
  "int64_amounts E \<longleftrightarrow> (\<forall>ln p q. sv_lightning E = Some ln \<longrightarrow> lc_DecodePayReq ln p = Inr q \<longrightarrow> pq_NumMsat q \<le> maxInt64)"

lemma decoded_amount:
  assumes "DecodePaymentRequest ln pr = Inr info" and "\<And>q. lc_DecodePayReq ln pr = Inr q \<Longrightarrow> pq_NumMsat q \<le> maxInt64"
  shows "0 \<le> pi_AmountMsat info \<and> pi_AmountMsat info \<le> maxInt64"
proof -
  obtain q a where q: "lc_DecodePayReq ln pr = Inr q" "invoiceAmountMsat q = Inr a" "\<not> a < 0" "pi_AmountMsat info = a"
  proof -
    from assms(1) obtain q where q: "lc_DecodePayReq ln pr = Inr q"
      by (auto simp: DecodePaymentRequest_def Let_def res_simps)
    with assms(1) that show ?thesis
      by (cases "hex_DecodeString (strings_TrimSpace (pq_DescriptionHash q))")
        (auto simp: DecodePaymentRequest_def Let_def res_simps)
  qed
  from q(2) have "a \<le> maxInt64"
    using assms(2) [OF q(1)] by (auto simp: invoiceAmountMsat_def split: if_splits)
  with q(3,4) show ?thesis by simp
qed

abbreviation requester_commit :: "quote_request_task \<Rightarrow> input_stream \<Rightarrow> terms_commit" where
  "requester_commit wt inp \<equiv> \<lparr>TaskKind = qt_TaskKind wt, Input = in_DecodedBytes inp, InputContentType = in_ContentType inp,
     InputContentEncoding = in_ContentEncoding inp, Params = Some (qt_ParamsBytes wt)\<rparr>"

abbreviation provider_commit :: "quote_request \<Rightarrow> input_stream_state \<Rightarrow> terms_commit" where
  "provider_commit req st \<equiv> \<lparr>TaskKind = qr_TaskKind req, Input = is_Buf st, InputContentType = is_ContentType st,
     InputContentEncoding = is_ContentEncoding st, Params = qr_ParamsBytes req\<rparr>"

text \<open>A task with its wire form.\<close>

definition wire_form :: "service_env \<Rightarrow> proto_task \<Rightarrow> quote_request_task \<Rightarrow> input_stream \<Rightarrow> bool" where
  "wire_form E t wt inp \<longleftrightarrow> ToWireQuoteRequestTask (sv_tlv E) (sv_json E) (Some t) = Inr wt
     \<and> ToWireInputStream (sv_json E) (Some t) = Inr inp"

lemma payment_facts:
  assumes "requester_reachable E s" and "SvPay peer jobID pr paid \<in> set (sr_trace s)" and "int64_amounts E"
  shows "\<exists>ln info t wt inp v x. sv_lightning E = Some ln \<and> DecodePaymentRequest ln pr = Inr info
    \<and> strings_EqualFold (pi_PayeePubKey info) peer \<and> 0 < pi_AmountMsat info \<and> wire_form E t wt inp
    \<and> uint (word_of_int (pi_AmountMsat info) :: u64) = pi_AmountMsat info
    \<and> ComputeTermsHash (sv_tlv E) \<lparr>ProtocolVersion = v, JobID = jobID, PriceMsat = word_of_int (pi_AmountMsat info), QuoteExpiry = x\<rparr>
        (requester_commit wt inp) = Inr (pi_DescriptionHash info)"
proof -
  have "payment_ok E (SvPay peer jobID pr paid)"
    using requester_reachable_safe [OF assms(1)] assms(2) by (auto simp: requester_safe_def list_all_iff)
  then obtain ln t tm where p: "sv_lightning E = Some ln" "terms_bind E jobID t tm" "pt_PaymentRequest tm = pr" "invoice_bound E ln peer tm"
    by auto
  from p(3,4) obtain info where i: "DecodePaymentRequest ln pr = Inr info" "pi_DescriptionHash info = bytes_hash (pt_TermsHash tm)"
    "strings_EqualFold (pi_PayeePubKey info) peer" "0 < pi_AmountMsat info" "word_of_int (pi_AmountMsat info) = pt_PriceMsat tm"
    by (auto simp: invoice_bound_def)
  have "pi_AmountMsat info \<le> maxInt64" using decoded_amount [OF i(1)] assms(3) p(1) by (auto simp: int64_amounts_def)
  then have "uint (word_of_int (pi_AmountMsat info) :: u64) = pi_AmountMsat info"
    using i(4) by (simp add: uint_word_of_int take_bit_int_eq_self)
  with p(1,2) i show ?thesis unfolding terms_bind_def wire_form_def by metis
qed

text \<open>
  A task that a payment pays for: the terms of the job at the price of the invoice, with the
  wire form of the task, hash to the description hash of the invoice.
\<close>

definition paid_for ::
    "service_env \<Rightarrow> hash32 \<Rightarrow> payment_request_info \<Rightarrow> proto_task \<Rightarrow> quote_request_task \<Rightarrow> input_stream \<Rightarrow> terms \<Rightarrow> bool" where
  "paid_for E jobID info t wt inp tr \<longleftrightarrow> wire_form E t wt inp \<and> JobID tr = jobID
     \<and> uint (PriceMsat tr) = pi_AmountMsat info
     \<and> ComputeTermsHash (sv_tlv E) tr (requester_commit wt inp) = Inr (pi_DescriptionHash info)"

abbreviation runner_terms :: "runner \<Rightarrow> terms" where
  "runner_terms ru \<equiv> \<lparr>ProtocolVersion = env_ProtocolVersion (qr_Envelope (ru_Req ru)), JobID = env_JobID (qr_Envelope (ru_Req ru)),
     PriceMsat = qs_PriceMsat (ru_QuoteResp ru), QuoteExpiry = qs_QuoteExpiry (ru_QuoteResp ru)\<rparr>"

lemma payment_paid_for:
  assumes "requester_reachable E s" and "SvPay peer jobID pr paid \<in> set (sr_trace s)" and "int64_amounts E"
    and "sv_lightning E = Some ln" and "DecodePaymentRequest ln pr = Inr info"
  shows "\<exists>t wt inp tr. paid_for E jobID info t wt inp tr"
proof -
  from payment_facts [OF assms(1-3)] assms(4,5) obtain t wt inp v x where
    "wire_form E t wt inp" "uint (word_of_int (pi_AmountMsat info) :: u64) = pi_AmountMsat info"
    "ComputeTermsHash (sv_tlv E) \<lparr>ProtocolVersion = v, JobID = jobID, PriceMsat = word_of_int (pi_AmountMsat info), QuoteExpiry = x\<rparr>
        (requester_commit wt inp) = Inr (pi_DescriptionHash info)" by auto
  then have "paid_for E jobID info t wt inp
      \<lparr>ProtocolVersion = v, JobID = jobID, PriceMsat = word_of_int (pi_AmountMsat info), QuoteExpiry = x\<rparr>"
    by (simp add: paid_for_def)
  then show ?thesis by blast
qed

lemma executed_is_paid:
  assumes L: "tlv_library (sv_tlv E)" "pe_tlv P = sv_tlv E" and v: "pe_validator P = DefaultValidator"
    and PR: "provider_reachable P sp" "pv_trace sp = xs @ EvExecute rid task # ys" "map_of (pv_runners sp) rid = Some ru"
    and same: "pi_DescriptionHash info = qs_TermsHash (ru_QuoteResp ru)"
  shows "EvSettled rid \<in> set xs"
    and "paid_for E jobID info t wt inp tr \<Longrightarrow>
      no_collision (terms_stream tr (requester_commit wt inp)) (terms_stream (runner_terms ru) (provider_commit (ru_Req ru) (ru_Input ru))) \<Longrightarrow>
      no_collision (in_DecodedBytes inp) (is_Buf (ru_Input ru)) \<Longrightarrow>
      no_collision (params_bytes (requester_commit wt inp)) (params_bytes (provider_commit (ru_Req ru) (ru_Input ru))) \<Longrightarrow>
      commit_bounded (requester_commit wt inp) \<Longrightarrow> commit_bounded (provider_commit (ru_Req ru) (ru_Input ru)) \<Longrightarrow>
      ct_InputBytes task = in_DecodedBytes inp \<and> ct_TaskKind task = qt_TaskKind wt
        \<and> params_bytes (provider_commit (ru_Req ru) (ru_Input ru)) = qt_ParamsBytes wt
        \<and> env_JobID (qr_Envelope (ru_Req ru)) = jobID \<and> uint (qs_PriceMsat (ru_QuoteResp ru)) = pi_AmountMsat info"
proof -
  let ?c = "requester_commit wt inp" and ?c' = "provider_commit (ru_Req ru) (ru_Input ru)"
  have "provider_inv (pe_tlv P) sp \<and> trace_inv (pe_tlv P) sp" using provider_reachable_inv [OF PR(1)] L v by simp
  from execution_facts [OF this PR(2)] PR(3) have e: "EvSettled rid \<in> set xs"
    "ct_InputBytes task = is_Buf (ru_Input ru)" "ct_TaskKind task = qr_TaskKind (ru_Req ru)"
    "handler_computeTermsHash (pe_tlv P) (ru_Req ru) (ru_Input ru) (qs_QuoteExpiry (ru_QuoteResp ru)) (qs_PriceMsat (ru_QuoteResp ru))
        = Inr (qs_TermsHash (ru_QuoteResp ru))" by auto
  show "EvSettled rid \<in> set xs" by (rule e(1))
  have h: "ComputeTermsHash (sv_tlv E) (runner_terms ru) ?c' = Inr (pi_DescriptionHash info)"
    using e(4) same L(2) by (simp add: handler_computeTermsHash_def)
  assume p: "paid_for E jobID info t wt inp tr"
    and nc: "no_collision (terms_stream tr ?c) (terms_stream (runner_terms ru) ?c')" "no_collision (in_DecodedBytes inp) (is_Buf (ru_Input ru))"
      "no_collision (params_bytes ?c) (params_bytes ?c')" "commit_bounded ?c" "commit_bounded ?c'"
  from p have tr: "JobID tr = jobID" "uint (PriceMsat tr) = pi_AmountMsat info"
    "ComputeTermsHash (sv_tlv E) tr ?c = Inr (pi_DescriptionHash info)" by (simp_all add: paid_for_def)
  have "tr = runner_terms ru \<and> TaskKind ?c = TaskKind ?c' \<and> Input ?c = Input ?c' \<and> params_bytes ?c = params_bytes ?c'"
    using terms_hash_injective [OF L(1) tr(3) h nc(1) _ nc(3-5), simplified, OF nc(2)] by (simp add: params_bytes_def)
  with tr(1,2) e(2,3) show "ct_InputBytes task = in_DecodedBytes inp \<and> ct_TaskKind task = qt_TaskKind wt
      \<and> params_bytes ?c' = qt_ParamsBytes wt
      \<and> env_JobID (qr_Envelope (ru_Req ru)) = jobID \<and> uint (qs_PriceMsat (ru_QuoteResp ru)) = pi_AmountMsat info"
    by (auto simp: params_bytes_def)
qed

text \<open>A call that passes its checks pays the invoice of the stored terms.\<close>

lemma trace_mark [simp]: "sr_trace (markJobState now p j st s) = sr_trace s"
  by (simp add: markJobState_def)

lemma trace_outcome [simp]: "sr_trace (snd (AcceptAndExecute_outcome now k out s)) = sr_trace s"
  by (auto simp: AcceptAndExecute_outcome_def failCall_def Let_def split: option.split sum.split)

lemma execute_pays:
  assumes "acceptVerified E now AcceptAndExecuteRequest req s = (Inr (p, j, tm, ln), s1)"
  shows "\<exists>r. SvPay p j (pt_PaymentRequest tm) r \<in> set (sr_trace (snd (AcceptAndExecute E now req s)))"
proof -
  obtain r s2 where 2: "service_Pay E ln p j tm s1 = (r, s2)" by fastforce
  have tr: "SvPay p j (pt_PaymentRequest tm) r \<in> set (sr_trace s2)" using 2 by (auto simp: service_Pay_def Let_def)
  obtain wt w where 3: "WaitResult p j (sr_waiter s2) = (wt, w)" by fastforce
  have "sr_trace (snd (AcceptAndExecute E now req s)) = sr_trace s2"
    by (cases r; cases wt) (simp_all add: AcceptAndExecute_def assms 2 3 Let_def failCall_def split_def)
  with tr show ?thesis by metis
qed

section \<open>A sample run\<close>

definition sample_service :: "hash32 \<Rightarrow> service_env" where
  "sample_service h = \<lparr>sv_tlv = bolt_lib, sv_json = sample_task_json, sv_os = (\<lambda>_. []), sv_localManifest = defaultLocalManifest,
     sv_validate = (\<lambda>_. None), sv_messenger = True,
     sv_lightning = Some \<lparr>lc_configured = True, lc_GetInfo = Inr ''q'',
       lc_DecodePayReq = (\<lambda>p. Inr \<lparr>pq_DescriptionHash = hex_EncodeToString (hash_bytes h), pq_Destination = ''q'',
         pq_NumMsat = 52, pq_NumSatoshis = 0, pq_Timestamp = 100, pq_Expiry = 60\<rparr>)\<rparr>,
     sv_sendPaymentV2 = (\<lambda>n p. Inr ([], None)), sv_newJobID = (\<lambda>n. Inr 7), sv_newMsgID = (\<lambda>n. Inr (word_of_nat n)),
     sv_newStreamID = (\<lambda>n. Inr 5), sv_send = (\<lambda>_ _ _ _. None), sv_sendItem = (\<lambda>_ _. None), sv_ctx = (\<lambda>_. CtxActive)\<rparr>"

definition sample_peer :: manifest where
  "sample_peer = defaultLocalManifest\<lparr>mf_MaxPayloadBytes := 2000\<rparr>"

definition sample_requester :: requester where
  "sample_requester = (requester_init (\<lambda>_. []) None)\<lparr>sr_peers :=
     MarkLCPReady ''q'' sample_peer (MarkManifestSent ''q'' (MarkCustomMsgEnabled ''q'' True (MarkConnected ''q'' [])))\<rparr>"

definition sample_rq :: request_quote_request where
  "sample_rq = \<lparr>rq_PeerId = ''q'', rq_Task = Some sample_task\<rparr>"

lemma trim_q: "strings_TrimSpace ''q'' = ''q''"
  by (simp add: strings_TrimSpace_def is_space_def)

lemma sample_up: "service_up (sample_service h)"
  by (simp add: service_up_def sample_service_def)

lemma sample_good:
  "good_request (sample_service h) (time_of_unix 100) sample_rq ''q'' sample_task sample_peer 400 7 sample_requester"
proof -
  have "requireReadyPeer ''q'' sample_requester = Inr sample_peer"
    by (simp add: requireReadyPeer_def sample_requester_def GetPeer_def MarkLCPReady_def MarkManifestSent_def
        MarkCustomMsgEnabled_def MarkConnected_def withPeer_def updateLCPReadyLocked_def newPeer_def sample_peer_def defaultLocalManifest_def)
  moreover have "newEnvelopeExpiry (time_of_unix 100) = Inr 400" by (simp add: newEnvelopeExpiry_def)
  moreover have "ValidateTask sample_task_json (Some sample_task) = None" by (rule sample_task_valid)
  moreover have "distinct (map (\<lambda>i. sv_newMsgID (sample_service h) (sr_ids sample_requester + i)) [1, 3, 4])"
    by (simp add: sample_service_def sample_requester_def requester_init_def)
  ultimately show ?thesis
    by (simp add: good_request_def sample_rq_def trim_q service_validate_def sample_service_def sample_requester_def
        requester_init_def waiter_New_def)
qed

lemma sample_wire: "raw_stream [(1, string_bytes ''m'')] = [1, 1, 109]"
  by code_simp

abbreviation sample_task_request :: "hash32 \<Rightarrow> quote_request" where
  "sample_task_request mid \<equiv> task_request 7 mid 400 ''openai.responses.v1'' ''m''"

lemma planTask_cong:
  assumes "qr_TaskKind r = qr_TaskKind r'" and "qr_ParamsBytes r = qr_ParamsBytes r'"
  shows "planTask L J cfg pol r b = planTask L J cfg pol r' b"
  unfolding planTask_def planOpenAIChatCompletionsV1Task_def planOpenAIResponsesV1Task_def assms ..

lemma sample_task_facts:
  "quotePrice bolt_lib sample_json sample_config \<lparr>ep_MaxOutputTokens = 16\<rparr> n (sample_task_request mid) [123, 125]
     = Inr \<lparr>pb_InputTokens = 1, pb_CachedInputTokens = 0, pb_OutputTokens = 10, pb_PriceMsat = 52\<rparr>"
  "validateInputStream bolt_lib sample_json (sample_task_request mid) [123, 125] = None"
  "ValidateQuoteRequest bolt_lib DefaultValidator (sample_task_request mid) (Some sample_manifest) = None"
  "rejectQuoteRequestIfUnsupportedModel sample_env now ''p'' (sample_task_request mid) sample_start = (False, sample_start)"
proof -
  have f: "qr_TaskKind (sample_task_request mid) = qr_TaskKind sample_request"
    "qr_ParamsBytes (sample_task_request mid) = qr_ParamsBytes sample_request"
    by (simp_all add: task_request_def sample_wire [simplified] sample_request_def)
  show "quotePrice bolt_lib sample_json sample_config \<lparr>ep_MaxOutputTokens = 16\<rparr> n (sample_task_request mid) [123, 125]
     = Inr \<lparr>pb_InputTokens = 1, pb_CachedInputTokens = 0, pb_OutputTokens = 10, pb_PriceMsat = 52\<rparr>"
    using sample_price [of n]
    by (simp add: quotePrice_def planTask_cong [OF f])
  have "bytes_TrimSpace [123, 125] \<noteq> [] \<and> bytes_TrimSpace [123, 125] \<noteq> string_bytes ''null''" by code_simp
  then show "validateInputStream bolt_lib sample_json (sample_task_request mid) [123, 125] = None"
    by (simp add: validateInputStream_def f sample_request_def sample_json_def sample_params)
  show "ValidateQuoteRequest bolt_lib DefaultValidator (sample_task_request mid) (Some sample_manifest) = None"
    by (simp add: ValidateQuoteRequest_def DefaultValidator_def protocolSupported_def taskKindSupported_def
        validateTaskParams_def f sample_request_def sample_params sample_manifest_def) (simp add: task_request_def serviceEnvelope_def)
  show "rejectQuoteRequestIfUnsupportedModel sample_env now ''p'' (sample_task_request mid) sample_start = (False, sample_start)"
    by (simp add: rejectQuoteRequestIfUnsupportedModel_def f sample_env_def sample_request_def sample_config_def sample_params)
qed

lemma sample_task_new: "new_job sample_env sample_key (sample_task_request mid) now sample_start"
  using sample_new [of now] sample_task_facts(3,4) sample_remote
  by (simp add: new_job_def sample_key_def sample_env_def)

lemma sample_provider_ready:
  "provider_ready sample_env sample_key sample_task_request [123, 125] 400 (time_of_unix 100) 100
     \<lparr>pb_InputTokens = 1, pb_CachedInputTokens = 0, pb_OutputTokens = 10, pb_PriceMsat = 52\<rparr> ''lnbc1'' sample_start"
proof -
  have "utf8_ValidString ''lnbc1''" by code_simp
  moreover have "266 + length ''lnbc1'' \<le> unat (remoteMaxPayloadBytes (RemoteManifestFor (jk_PeerPubKey sample_key) (pv_peers sample_start)))"
    using sample_remote by (simp add: sample_key_def remoteMaxPayloadBytes_def sample_manifest_def)
  ultimately show ?thesis
    using sample_open sample_task_new sample_task_facts
    by (simp add: provider_ready_def handler_nowUnix_def services_ok_def sample_env_def sample_config_def quoteTTLSeconds_def)
qed

lemma sample_peer_takes: "peer_takes sample_peer [123, 125]"
  by (simp add: peer_takes_def sample_peer_def defaultLocalManifest_def)

text \<open>A quoted job whose invoice is settled is executed.\<close>

lemma quoted_then_executed:
  assumes q: "quoted P k req inp price y sp0 sp" and reach: "provider_reachable P sp"
    and plan: "planTask (pe_tlv P) (pe_json P) (pe_cfg P) (pe_policy P) req inp = Inr (task, pol, model, w)"
  shows "\<exists>sp' xs rid ru st. provider_reachable P sp' \<and> pv_trace sp' = xs @ EvExecute rid task # [] \<and> map_of (pv_runners sp') rid = Some ru
    \<and> handler_computeTermsHash (pe_tlv P) req st y price = Inr (qs_TermsHash (ru_QuoteResp ru)) \<and> is_Buf st = inp
    \<and> is_ContentType st = inputContentTypeForTaskKind (qr_TaskKind req) \<and> is_ContentEncoding st = contentEncodingIdentity"
proof -
  from q obtain r :: runner and rid where r: "map_of (pv_runners sp) rid = Some r" "ru_Phase r = RunWaiting" "\<not> ru_Cancelled r"
    "ru_Req r = req" "is_Buf (ru_Input r) = inp" "is_ContentType (ru_Input r) = inputContentTypeForTaskKind (qr_TaskKind req)"
    "is_ContentEncoding (ru_Input r) = contentEncodingIdentity"
    "handler_computeTermsHash (pe_tlv P) req (ru_Input r) y price = Inr (qs_TermsHash (ru_QuoteResp r))"
    unfolding quoted_def by blast
  obtain now where now: "\<not> ctx_Err now r"
    using r(3) by (cases "ru_Deadline r") (auto simp: ctx_Err_def intro: that [of "the (ru_Deadline r) - 1"])
  have pl: "planTask (pe_tlv P) (pe_json P) (pe_cfg P) (pe_policy P) (ru_Req r) (is_Buf (ru_Input r)) = Inr (task, pol, model, w)"
    using plan r(4,5) by simp
  let ?sp = "runJob_settled P now rid r None sp"
  have "provider_reachable P ?sp" by (rule provider_reachable.step [OF reach provider_step.settled [OF r(1,2)]])
  moreover have "pv_trace ?sp = (pv_trace sp @ [EvSettled rid]) @ EvExecute rid task # []"
    using settled_executes [OF r(1) now pl] by simp
  moreover obtain ph where "map_of (pv_runners ?sp) rid = Some (r\<lparr>ru_Phase := ph\<rparr>)" using settled_phase [OF r(1) now pl] by blast
  moreover have "qs_TermsHash (ru_QuoteResp (r\<lparr>ru_Phase := ph\<rparr>)) = qs_TermsHash (ru_QuoteResp r)" for ph by simp
  ultimately show ?thesis using r(5-8) by metis
qed

lemma reachable_inbound:
  "requester_reachable E s \<Longrightarrow> requester_reachable E (s\<lparr>sr_waiter := fold (waiter_HandleInboundCustomMessage (sv_tlv E)) msgs (sr_waiter s)\<rparr>)"
proof (induction msgs arbitrary: s)
  case (Cons m msgs)
  from Cons.IH [OF requester_reachable.step [OF Cons.prems requester_step.inbound [of E s m]]] show ?case by simp
qed simp

text \<open>Terms that a call for a quote has returned are in the store.\<close>

lemma returned_terms_stored:
  assumes inv: "requester_inv (sr_jobs s)" and room: "int (requester_Len (sr_jobs s)) < rs_maxEntries (sr_jobs s)"
    and r: "fst (RequestQuote_received E now nowLocked ch (waiting_call p j t kind body model) out s) = Inr tm"
    and x: "pt_QuoteExpiry tm = Some x" "time_Before now2 x" "pt_JobId tm = hash_bytes j"
  shows "fst (GetTerms now2 p j (sr_jobs (snd (RequestQuote_received E now nowLocked ch (waiting_call p j t kind body model) out s)))) = Inr tm"
proof -
  let ?c = "waiting_call p j t kind body model"
  from r obtain resp where o: "qo_Error out = None" "qo_QuoteResponse out = Some resp"
      "termsFromQuoteResponse (sv_tlv E) (qc_WireTask ?c) (qc_Input ?c) resp = Inr tm"
    by (auto simp: RequestQuote_received_def RequestQuote_outcome_def split: option.splits sum.splits prod.splits)
  obtain q jobs where put: "PutQuote now nowLocked p (Some t) (Some tm) (sr_jobs s) = (q, jobs)" by fastforce
  with r o have "q = Inr ()"
    by (cases q) (auto simp: RequestQuote_received_def RequestQuote_outcome_def waiting_call_def)
  note put = put [unfolded this]
  have jobs: "sr_jobs (snd (RequestQuote_received E now nowLocked ch ?c out s)) = jobs"
    using o put by (auto simp: RequestQuote_received_def RequestQuote_outcome_def waiting_call_def)
  have "map_of (rs_jobs jobs) \<lparr>rjk_peerID = p, rjk_jobID = j\<rparr>
      = Some (quote_entry now nowLocked p j t tm x (sr_jobs s))"
    using PutQuote_stored [OF inv put disjI1 [OF room]] x by auto
  from GetTerms_outcome [OF this, of now2] x show ?thesis
    by (simp add: jobs gc_entry_def quote_entry_def)
qed

definition sample_accept :: accept_and_execute_request where
  "sample_accept = \<lparr>ae_PeerId = ''q'', ae_JobId = hash_bytes 7, ae_PayInvoice = True\<rparr>"

abbreviation sample_price_breakdown :: price_breakdown where
  "sample_price_breakdown \<equiv> \<lparr>pb_InputTokens = 1, pb_CachedInputTokens = 0, pb_OutputTokens = 10, pb_PriceMsat = 52\<rparr>"

lemma sample_hash_exists:
  "\<exists>h. ComputeTermsHash bolt_lib \<lparr>ProtocolVersion = ProtocolVersionV02, JobID = 7, PriceMsat = 52, QuoteExpiry = 400\<rparr>
     (task_commit ''openai.responses.v1'' [123, 125] ''m'') = Inr h"
proof -
  obtain h where "\<And>st. is_Buf st = [123, 125] \<Longrightarrow> is_ContentType st = contentTypeApplicationJSON \<Longrightarrow>
      is_ContentEncoding st = contentEncodingIdentity \<Longrightarrow>
      handler_computeTermsHash bolt_lib (task_request 7 0 400 ''openai.responses.v1'' ''m'') st 400 52 = Inr h"
    using task_hash [OF bolt.tlv_library_axioms, of "''openai.responses.v1''" "''m''" "[123, 125]" 7 0 400 400 52] by auto
  from this [of "newInputStream sample_begin 2 0\<lparr>is_Buf := [123, 125]\<rparr>"] show ?thesis
    by (auto simp: handler_computeTermsHash_def newInputStream_def sample_begin_def task_request_def serviceEnvelope_def task_commit_def)
qed

lemma sample_verified:
  assumes "pt_PriceMsat tm = 52" and "pt_PaymentRequest tm = ''lnbc1''" and "pt_QuoteExpiry tm = Some (time_of_unix 400)"
    and "pt_TermsHash tm = hash_bytes h"
  shows "\<exists>ln. sv_lightning (sample_service h) = Some ln
    \<and> (\<forall>ctx. verifyInvoiceBinding (sv_os (sample_service h)) ctx ln ''q'' tm = None)
    \<and> (\<exists>info. DecodePaymentRequest ln ''lnbc1'' = Inr info \<and> pi_DescriptionHash info = h)"
proof -
  have ne: "hex_EncodeToString (hash_bytes h) \<noteq> []"
    by (metis length_hex_EncodeToString length_0_conv length_word_bytes(4) mult_is_0 zero_neq_numeral)
  have l: "strings_TrimSpace ''lnbc1'' = ''lnbc1''" by (simp add: strings_TrimSpace_def is_space_def)
  have env: "envconfig_Int64 (\<lambda>_. []) ''LCP_ALLOWED_CLOCK_SKEW_SECONDS'' 5 = 5"
    by (simp add: envconfig_Int64_def strings_TrimSpace_def)
  show ?thesis
    using assms ne
    by (simp add: sample_service_def verifyInvoiceBinding_def DecodePaymentRequest_def l trim_hex trim_q
        hex_DecodeString_EncodeToString Let_def invoiceAmountMsat_def toHash32_def strings_EqualFold_def env wrap64_def)
qed

lemma sample_handshake:
  "\<exists>h mid s tm sp. ComputeTermsHash bolt_lib \<lparr>ProtocolVersion = ProtocolVersionV02, JobID = 7, PriceMsat = 52, QuoteExpiry = 400\<rparr>
       (task_commit ''openai.responses.v1'' [123, 125] ''m'') = Inr h
     \<and> requester_reachable (sample_service h) s \<and> fst (GetTerms (time_of_unix 100) ''q'' 7 (sr_jobs s)) = Inr tm
     \<and> pt_PriceMsat tm = 52 \<and> pt_PaymentRequest tm = ''lnbc1'' \<and> pt_QuoteExpiry tm = Some (time_of_unix 400)
     \<and> pt_TermsHash tm = hash_bytes h \<and> provider_reachable sample_env sp
     \<and> quoted sample_env \<lparr>jk_PeerPubKey = ''p'', jk_JobID = 7\<rparr> (sample_task_request mid) [123, 125] 52 400 sample_start sp"
proof -
  obtain h where h: "ComputeTermsHash bolt_lib \<lparr>ProtocolVersion = ProtocolVersionV02, JobID = 7, PriceMsat = 52, QuoteExpiry = 400\<rparr>
     (task_commit ''openai.responses.v1'' [123, 125] ''m'') = Inr h" using sample_hash_exists by blast
  let ?E = "sample_service h" and ?t = "time_of_unix 100" and ?c = "waiting_call ''q'' 7 sample_task ''openai.responses.v1'' [123, 125] ''m''"
  have lib: "sv_tlv ?E = bolt_lib" "pe_tlv sample_env = bolt_lib" by (simp_all add: sample_service_def sample_env_def)
  have y: "100 + quoteTTLSeconds (pe_cfg sample_env) = 400" by (simp add: sample_env_def sample_config_def quoteTTLSeconds_def)
  obtain ch s1 mid c out s2 tm where hs: "RequestQuote ?E ?t ?t (Some sample_rq) sample_requester = (Blocked ch, s1)"
    and l: "let sp1 = handle_all sample_env (map (Pair ?t) (service_messages ''p'' (drop (length (sr_trace sample_requester)) (sr_trace s1)))) sample_start;
           w = fold (waiter_HandleInboundCustomMessage bolt_lib) (sent_messages ''q'' (drop (length (pv_trace sample_start)) (pv_trace sp1))) (sr_waiter s1)
       in quoted sample_env \<lparr>jk_PeerPubKey = ''p'', jk_JobID = 7\<rparr> (sample_task_request mid) [123, 125] (pb_PriceMsat sample_price_breakdown)
            (100 + quoteTTLSeconds (pe_cfg sample_env)) sample_start sp1
        \<and> s2 = s1\<lparr>sr_waiter := w\<rparr> \<and> map_of (sr_quoteCalls s2) ch = Some c \<and> (ch, out) \<in> set (wt_quoteInbox w)
        \<and> fst (RequestQuote_received ?E ?t ?t ch c out s2) = Inr tm \<and> c = ?c \<and> sr_jobs s1 = sr_jobs sample_requester"
    and tm: "pt_PriceMsat tm = pb_PriceMsat sample_price_breakdown" "pt_PaymentRequest tm = ''lnbc1''" "pt_JobId tm = hash_bytes 7"
      "pt_QuoteExpiry tm = Some (time_of_unix (uint (100 + quoteTTLSeconds (pe_cfg sample_env))))"
      "ComputeTermsHash bolt_lib \<lparr>ProtocolVersion = ProtocolVersionV02, JobID = 7, PriceMsat = pb_PriceMsat sample_price_breakdown,
         QuoteExpiry = 100 + quoteTTLSeconds (pe_cfg sample_env)\<rparr> (task_commit ''openai.responses.v1'' [123, 125] ''m'') = Inr (bytes_hash (pt_TermsHash tm))"
      "length (pt_TermsHash tm) = 32"
    using handshake [OF bolt.tlv_library_axioms lib sample_up sample_good sample_task_view _ sample_peer_takes _
        sample_provider_ready [unfolded sample_key_def], of ?t ?t ?t] by auto
  define sp1 where "sp1 = handle_all sample_env (map (Pair ?t) (service_messages ''p'' (drop (length (sr_trace sample_requester)) (sr_trace s1)))) sample_start"
  have q: "quoted sample_env \<lparr>jk_PeerPubKey = ''p'', jk_JobID = 7\<rparr> (sample_task_request mid) [123, 125] 52 400 sample_start sp1"
    and s2: "\<exists>msgs. s2 = s1\<lparr>sr_waiter := fold (waiter_HandleInboundCustomMessage (sv_tlv ?E)) msgs (sr_waiter s1)\<rparr>"
    and c: "map_of (sr_quoteCalls s2) ch = Some ?c" "(ch, out) \<in> set (wt_quoteInbox (sr_waiter s2))"
      "fst (RequestQuote_received ?E ?t ?t ch ?c out s2) = Inr tm" "sr_jobs s2 = sr_jobs sample_requester"
    using l unfolding Let_def sp1_def [symmetric] y lib(1) by auto
  have th: "pt_TermsHash tm = hash_bytes h" using h tm(5,6) hash_bytes_bytes_hash [of "pt_TermsHash tm"] y by simp
  let ?s3 = "snd (RequestQuote_received ?E ?t ?t ch ?c out s2)"
  have reach: "requester_reachable ?E ?s3"
  proof -
    have "requester_reachable ?E sample_requester"
      unfolding sample_requester_def by (rule requester_reachable.step [OF requester_reachable.start requester_step.peers])
    from requester_reachable.step [OF this requester_step.quote [of ?E sample_requester ?t ?t "Some sample_rq"]] hs
    have "requester_reachable ?E s1" by simp
    then have "requester_reachable ?E s2" using s2 reachable_inbound by metis
    from requester_reachable.step [OF this requester_step.quote_received [OF c(1,2)]] show ?thesis .
  qed
  have inv: "requester_inv (sr_jobs s2)" "int (requester_Len (sr_jobs s2)) < rs_maxEntries (sr_jobs s2)"
    using requester_inv_New [of "\<lambda>_. []", where 'a = proto_task] unfolding c(4)
    by (simp_all add: sample_requester_def requester_init_def requester_Len_def requester_inv_def requesterjobstore_New_def
        NewWithClockAndMaxEntries_def Let_def)
  have get: "fst (GetTerms ?t ''q'' 7 (sr_jobs ?s3)) = Inr tm"
  proof (rule returned_terms_stored [OF inv c(3)])
    show "pt_QuoteExpiry tm = Some (time_of_unix 400)" using tm(4) y by simp
    show "time_Before ?t (time_of_unix 400)" unfolding time_Before_def time_of_unix_def by simp
  qed (rule tm(3))
  moreover have "provider_reachable sample_env sp1" unfolding sp1_def by (rule reachable_handle_all [OF sample_reachable])
  moreover have "pt_PriceMsat tm = 52" "pt_QuoteExpiry tm = Some (time_of_unix 400)" using tm(1,4) y by simp_all
  ultimately show ?thesis using h reach th tm(2) q by blast
qed

lemma sample_accepted:
  "\<exists>h mid s tm ln s1 sp info. requester_reachable (sample_service h) s
     \<and> acceptVerified (sample_service h) (time_of_unix 100) AcceptAndExecuteRequest (Some sample_accept) s = (Inr (''q'', 7, tm, ln), s1)
     \<and> pt_PaymentRequest tm = ''lnbc1'' \<and> sv_lightning (sample_service h) = Some ln \<and> DecodePaymentRequest ln ''lnbc1'' = Inr info
     \<and> pi_DescriptionHash info = h \<and> provider_reachable sample_env sp
     \<and> quoted sample_env \<lparr>jk_PeerPubKey = ''p'', jk_JobID = 7\<rparr> (sample_task_request mid) [123, 125] 52 400 sample_start sp
     \<and> ComputeTermsHash bolt_lib \<lparr>ProtocolVersion = ProtocolVersionV02, JobID = 7, PriceMsat = 52, QuoteExpiry = 400\<rparr>
          (task_commit ''openai.responses.v1'' [123, 125] ''m'') = Inr h"
proof -
  obtain h mid s3 tm sp1 where h: "ComputeTermsHash bolt_lib \<lparr>ProtocolVersion = ProtocolVersionV02, JobID = 7, PriceMsat = 52, QuoteExpiry = 400\<rparr>
       (task_commit ''openai.responses.v1'' [123, 125] ''m'') = Inr h"
    and reach: "requester_reachable (sample_service h) s3" and get: "fst (GetTerms (time_of_unix 100) ''q'' 7 (sr_jobs s3)) = Inr tm"
    and tm: "pt_PriceMsat tm = 52" "pt_PaymentRequest tm = ''lnbc1''" "pt_QuoteExpiry tm = Some (time_of_unix 400)" "pt_TermsHash tm = hash_bytes h"
    and sp1: "provider_reachable sample_env sp1"
    and q: "quoted sample_env \<lparr>jk_PeerPubKey = ''p'', jk_JobID = 7\<rparr> (sample_task_request mid) [123, 125] 52 400 sample_start sp1"
    using sample_handshake by blast
  let ?E = "sample_service h" and ?t = "time_of_unix 100"
  obtain ln info where ln: "sv_lightning ?E = Some ln" "\<And>ctx. verifyInvoiceBinding (sv_os ?E) ctx ln ''q'' tm = None"
      "DecodePaymentRequest ln ''lnbc1'' = Inr info" "pi_DescriptionHash info = h"
    using sample_verified [OF tm] by blast
  obtain jobs where jobs: "GetTerms ?t ''q'' 7 (sr_jobs s3) = (Inr tm, jobs)" using get by (metis prod.collapse)
  have val: "service_validate ?E (AcceptAndExecuteRequest sample_accept) = None"
    by (simp add: service_validate_def sample_service_def)
  have acc: "acceptVerified ?E ?t AcceptAndExecuteRequest (Some sample_accept) s3
      = (Inr (''q'', 7, tm, ln), markJobState ?t ''q'' 7 RStatePaying (s3\<lparr>sr_jobs := jobs\<rparr>))"
    using ln jobs val by (simp add: acceptVerified_def sample_accept_def trim_q toJobID_def Let_def)
  with reach tm(2) ln(1,3,4) sp1 q h show ?thesis by blast
qed

lemma sample_paid:
  "\<exists>h s paid sp xs rid task ru ln info. requester_reachable (sample_service h) s \<and> SvPay ''q'' 7 ''lnbc1'' paid \<in> set (sr_trace s)
     \<and> provider_reachable sample_env sp \<and> pv_trace sp = xs @ EvExecute rid task # [] \<and> map_of (pv_runners sp) rid = Some ru
     \<and> sv_lightning (sample_service h) = Some ln \<and> DecodePaymentRequest ln ''lnbc1'' = Inr info
     \<and> pi_DescriptionHash info = qs_TermsHash (ru_QuoteResp ru) \<and> ct_InputBytes task = [123, 125]"
proof -
  obtain h mid s3 tm ln s1 sp1 info where reach: "requester_reachable (sample_service h) s3"
    and acc: "acceptVerified (sample_service h) (time_of_unix 100) AcceptAndExecuteRequest (Some sample_accept) s3 = (Inr (''q'', 7, tm, ln), s1)"
    and tm: "pt_PaymentRequest tm = ''lnbc1''" and ln: "sv_lightning (sample_service h) = Some ln"
      "DecodePaymentRequest ln ''lnbc1'' = Inr info" "pi_DescriptionHash info = h"
    and sp1: "provider_reachable sample_env sp1"
    and q: "quoted sample_env \<lparr>jk_PeerPubKey = ''p'', jk_JobID = 7\<rparr> (sample_task_request mid) [123, 125] 52 400 sample_start sp1"
    and h: "ComputeTermsHash bolt_lib \<lparr>ProtocolVersion = ProtocolVersionV02, JobID = 7, PriceMsat = 52, QuoteExpiry = 400\<rparr>
       (task_commit ''openai.responses.v1'' [123, 125] ''m'') = Inr h"
    using sample_accepted by blast
  let ?E = "sample_service h" and ?t = "time_of_unix 100"
  from execute_pays [OF acc] obtain paid where paid: "SvPay ''q'' 7 ''lnbc1'' paid \<in> set (sr_trace (snd (AcceptAndExecute ?E ?t (Some sample_accept) s3)))"
    using tm by auto
  have reach4: "requester_reachable ?E (snd (AcceptAndExecute ?E ?t (Some sample_accept) s3))"
    by (rule requester_reachable.step [OF reach requester_step.execute])
  have "planTask (pe_tlv sample_env) (pe_json sample_env) (pe_cfg sample_env) (pe_policy sample_env) (sample_task_request mid) [123, 125]
      = Inr (\<lparr>ct_TaskKind = ''openai.responses.v1'', ct_Model = ''m'', ct_InputBytes = [123, 125], ct_ParamsBytes = []\<rparr>,
            \<lparr>ep_MaxOutputTokens = 10\<rparr>, ''m'', False)"
    using sample_plan planTask_cong [of "sample_task_request mid" sample_request]
    by (simp add: sample_env_def task_request_def sample_wire [simplified] sample_request_def)
  from quoted_then_executed [OF q sp1 this]
  obtain sp xs rid ru st where sp: "provider_reachable sample_env sp"
    "pv_trace sp = xs @ EvExecute rid \<lparr>ct_TaskKind = ''openai.responses.v1'', ct_Model = ''m'', ct_InputBytes = [123, 125], ct_ParamsBytes = []\<rparr> # []"
    "map_of (pv_runners sp) rid = Some ru"
    "handler_computeTermsHash (pe_tlv sample_env) (sample_task_request mid) st 400 52 = Inr (qs_TermsHash (ru_QuoteResp ru))" "is_Buf st = [123, 125]"
    "is_ContentType st = inputContentTypeForTaskKind (qr_TaskKind (sample_task_request mid))" "is_ContentEncoding st = contentEncodingIdentity"
    by blast
  have "qs_TermsHash (ru_QuoteResp ru) = h"
    using sp(4-7) h by (simp add: handler_computeTermsHash_def task_request_def serviceEnvelope_def task_commit_def inputContentTypeForTaskKind_def
        sample_env_def)
  with reach4 paid sp(1-3) ln show ?thesis by (metis compute_task.select_convs(3))
qed

section \<open>The end of an execution call\<close>

definition job_state_of :: "requester \<Rightarrow> wait_key \<Rightarrow> rjob_state option" where
  "job_state_of s k = map_option rj_state (map_of (rs_jobs (sr_jobs s)) \<lparr>rjk_peerID = wk_peerID k, rjk_jobID = wk_jobID k\<rparr>)"

lemma job_state_frame [simp]:
  "job_state_of (s\<lparr>sr_waiter := w\<rparr>) k = job_state_of s k" "job_state_of (s\<lparr>sr_trace := tr\<rparr>) k = job_state_of s k"
  "job_state_of (s\<lparr>sr_resultCalls := rc\<rparr>) k = job_state_of s k"
  by (simp_all add: job_state_of_def)

lemma job_state_mark:
  "isValidState st \<Longrightarrow> job_state_of (markJobState now (wk_peerID k) (wk_jobID k) st s) k = map_option (\<lambda>_. st) (job_state_of s k)"
  by (auto simp: job_state_of_def markJobState_def MarkState_def Let_def split: option.splits)

lemma outcome_marks:
  assumes "AcceptAndExecute_outcome now k out s = (r, s')" and "job_state_of s k \<noteq> None"
  shows "job_state_of s' k = Some (case r of Inl st \<Rightarrow> RStateFailed | Inr res \<Rightarrow> RStateDone)"
  using assms
  by (auto simp: AcceptAndExecute_outcome_def Let_def failCall_def job_state_mark split: option.splits sum.splits)

lemma acceptVerified_state:
  assumes "acceptVerified E now wrap req s = (Inr (p, j, tm, ln), s1)"
  shows "job_state_of s1 \<lparr>wk_peerID = p, wk_jobID = j\<rparr> = Some RStatePaying"
proof -
  let ?k = "\<lparr>wk_peerID = p, wk_jobID = j\<rparr>"
  let ?s = "s\<lparr>sr_jobs := snd (GetTerms now p j (sr_jobs s))\<rparr>"
  from assms have g: "fst (GetTerms now p j (sr_jobs s)) = Inr tm" "s1 = markJobState now p j RStatePaying ?s"
    by (cases rule: acceptVerified_cases; simp)+
  obtain e where "map_of (rs_jobs (sr_jobs s)) \<lparr>rjk_peerID = p, rjk_jobID = j\<rparr> = Some e" using GetTerms_Inr [OF g(1)] by blast
  from GetTerms_outcome [OF this, of now] have "job_state_of ?s ?k \<noteq> None" by (simp add: job_state_of_def)
  with job_state_mark [of RStatePaying now ?k ?s] show ?thesis unfolding g(2) by auto
qed

lemma job_state_mark_key:
  "isValidState st \<Longrightarrow> job_state_of (markJobState now p j st s) \<lparr>wk_peerID = p, wk_jobID = j\<rparr>
     = map_option (\<lambda>_. st) (job_state_of s \<lparr>wk_peerID = p, wk_jobID = j\<rparr>)"
  using job_state_mark [of st now "\<lparr>wk_peerID = p, wk_jobID = j\<rparr>" s] by simp

lemma execute_marks:
  assumes "acceptVerified E now AcceptAndExecuteRequest req s = (Inr (p, j, tm, ln), s1)"
    and "AcceptAndExecute E now req s = (o1, s')"
  shows "job_state_of s' \<lparr>wk_peerID = p, wk_jobID = j\<rparr> = Some (case o1 of Blocked ch \<Rightarrow> RStateAwaitingResult
    | Returned r \<Rightarrow> (case r of Inl st \<Rightarrow> RStateFailed | Inr res \<Rightarrow> RStateDone))"
proof -
  let ?k = "\<lparr>wk_peerID = p, wk_jobID = j\<rparr>"
  note st1 = acceptVerified_state [OF assms(1)]
  obtain r s2 where 2: "service_Pay E ln p j tm s1 = (r, s2)" by fastforce
  have st2: "job_state_of s2 ?k = Some RStatePaying" using 2 st1 by (auto simp: service_Pay_def Let_def)
  obtain wt w where 3: "WaitResult p j (sr_waiter s2) = (wt, w)" by fastforce
  let ?s3 = "(markJobState now p j RStateAwaitingResult s2)\<lparr>sr_waiter := w\<rparr>"
  have st3: "job_state_of ?s3 ?k = Some RStateAwaitingResult" using st2 by (simp add: job_state_mark_key)
  show ?thesis
  proof (cases r)
    case (Inl err)
    with assms st2 show ?thesis by (auto simp: AcceptAndExecute_def 2 failCall_def job_state_mark_key)
  next
    case (Inr pre)
    show ?thesis
    proof (cases wt)
      case (WaitNow out)
      obtain r4 s4 where 4: "AcceptAndExecute_outcome now ?k out ?s3 = (r4, s4)" by fastforce
      have "o1 = Returned r4" "s' = s4" using assms(2) by (simp_all add: AcceptAndExecute_def assms(1) 2 Inr 3 WaitNow 4 Let_def)
      with outcome_marks [OF 4] st3 show ?thesis by simp
    next
      case (WaitError err)
      with assms st3 show ?thesis by (auto simp: AcceptAndExecute_def 2 Inr 3 Let_def failCall_def job_state_mark_key)
    next
      case (WaitOn ch)
      with assms st3 show ?thesis by (auto simp: AcceptAndExecute_def 2 Inr 3 Let_def)
    qed
  qed
qed

section \<open>The number of messages\<close>

lemma service_Send_count: "service_Send E p t b s = (r, s') \<Longrightarrow> length (sr_trace s') = Suc (length (sr_trace s))"
  by (auto simp: service_Send_def Let_def)

lemma nextID_count: "nextID gen s = (r, s') \<Longrightarrow> sr_trace s' = sr_trace s"
  by (auto simp: nextID_def)

lemma begin_end_count:
  "sendInputStreamBegin E p j x inp sid n h m s = (r, s') \<Longrightarrow> length (sr_trace s') \<le> Suc (length (sr_trace s))"
  "sendInputStreamEnd E p j x sid n h m s = (r, s') \<Longrightarrow> length (sr_trace s') \<le> Suc (length (sr_trace s))"
  by (auto simp: sendInputStreamBegin_def sendInputStreamEnd_def split: prod.splits sum.splits if_splits
      dest!: nextID_count service_Send_count)

lemma sendInputStream_count:
  assumes "sendInputStream E p j x inp mf s = (r, s')"
  shows "length (sr_trace s') \<le> length (sr_trace s) + length (in_DecodedBytes inp) + 2"
proof -
  let ?m = "mf_MaxPayloadBytes mf" and ?n = "word_of_nat (length (in_DecodedBytes inp)) :: u64" and ?h = "sha256 (in_DecodedBytes inp)"
  obtain i s1 where 1: "nextID (sv_newStreamID E) s = (i, s1)" by fastforce
  note c1 = nextID_count [OF 1]
  show ?thesis
  proof (cases "\<not> sv_messenger E \<or> ?m = 0 \<or> (\<exists>err. i = Inl err)")
    case True
    with assms c1 show ?thesis by (auto simp: sendInputStream_def Let_def 1 split: if_splits)
  next
    case False
    then obtain sid where i: "i = Inr sid" by (cases i) auto
    obtain r2 s2 where 2: "sendInputStreamBegin E p j x inp sid ?n ?h ?m s1 = (r2, s2)" by fastforce
    obtain r3 s3 where 3: "sendInputStreamChunks E p j x sid (in_DecodedBytes inp) ?m s2 = (r3, s3)" by fastforce
    obtain r4 s4 where 4: "sendInputStreamEnd E p j x sid ?n ?h ?m s3 = (r4, s4)" by fastforce
    have "length (sr_trace (snd (sendInputStreamChunks E p j x sid (in_DecodedBytes inp) ?m s2)))
        \<le> length (sr_trace s2) + length (in_DecodedBytes inp)"
      unfolding sendInputStreamChunks_def
      by (rule input_chunks.loop_bound) (simp add: service_Send_count [OF prod.collapse [symmetric]])
    then have "length (sr_trace s3) \<le> length (sr_trace s2) + length (in_DecodedBytes inp)" by (simp add: 3)
    moreover have "s' = s2 \<or> s' = s3 \<or> s' = s4"
      using assms False by (cases r2; cases r3) (auto simp: sendInputStream_def Let_def 1 i 2 3 4)
    ultimately show ?thesis using c1 begin_end_count(1) [OF 2] begin_end_count(2) [OF 4] by auto
  qed
qed

section \<open>Properties\<close>

text \<open>
  C2. Every payment is bound to a task: over every interleaving of calls and messages, the
  requester pays an invoice only when the invoice names the peer as payee and its
  description hash is the terms hash of the very job, for exactly the amount of the
  invoice, the kind, the parameters and the input of a task that passed validation.
\<close>

theorem payment_binds_task:
  assumes "requester_reachable E s" and "SvPay peer jobID pr paid \<in> set (sr_trace s)" and "int64_amounts E"
  shows "\<exists>ln info t wt inp v x. sv_lightning E = Some ln \<and> DecodePaymentRequest ln pr = Inr info
    \<and> strings_EqualFold (pi_PayeePubKey info) peer \<and> 0 < pi_AmountMsat info
    \<and> ToWireQuoteRequestTask (sv_tlv E) (sv_json E) (Some t) = Inr wt \<and> ToWireInputStream (sv_json E) (Some t) = Inr inp
    \<and> uint (word_of_int (pi_AmountMsat info) :: u64) = pi_AmountMsat info
    \<and> ComputeTermsHash (sv_tlv E) \<lparr>ProtocolVersion = v, JobID = jobID, PriceMsat = word_of_int (pi_AmountMsat info), QuoteExpiry = x\<rparr>
        \<lparr>TaskKind = qt_TaskKind wt, Input = in_DecodedBytes inp, InputContentType = in_ContentType inp,
         InputContentEncoding = in_ContentEncoding inp, Params = Some (qt_ParamsBytes wt)\<rparr>
      = Inr (pi_DescriptionHash info)"
  using payment_facts [OF assms] unfolding wire_form_def by blast

lemma sample_int64: "int64_amounts (sample_service h)"
  by (simp add: int64_amounts_def sample_service_def)

theorem payment_binds_task_witness:
  "\<exists>h s paid ln info. requester_reachable (sample_service h) s \<and> SvPay ''q'' 7 ''lnbc1'' paid \<in> set (sr_trace s)
     \<and> sv_lightning (sample_service h) = Some ln \<and> DecodePaymentRequest ln ''lnbc1'' = Inr info \<and> 0 < pi_AmountMsat info"
proof -
  obtain h s paid where s: "requester_reachable (sample_service h) s" "SvPay ''q'' 7 ''lnbc1'' paid \<in> set (sr_trace s)"
    using sample_paid by blast
  from payment_binds_task [OF this sample_int64] s show ?thesis by blast
qed

text \<open>
  C5. The provider executes what the requester paid for: when the invoice that the
  requester paid carries the terms hash of the quote of a runner that executes, its
  settlement came before, and there is a task that the payment pays for, whose terms, with
  the job and the amount of the invoice, hash to the description hash of the invoice. For
  every such task, unless SHA-256 collides on its terms stream, input or parameters and those
  of the runner, the executed input is the input of that task, the kind, the parameters and
  the job are the same, and the price of the quote is the amount of the invoice.
\<close>

theorem paid_task_is_executed:
  assumes "tlv_library (sv_tlv E)" and "pe_tlv P = sv_tlv E" and "pe_validator P = DefaultValidator"
    and "requester_reachable E s" and "SvPay peer jobID pr paid \<in> set (sr_trace s)" and "int64_amounts E"
    and "provider_reachable P sp" and "pv_trace sp = xs @ EvExecute rid task # ys" and "map_of (pv_runners sp) rid = Some ru"
    and "sv_lightning E = Some ln" and "DecodePaymentRequest ln pr = Inr info"
    and "pi_DescriptionHash info = qs_TermsHash (ru_QuoteResp ru)"
  shows "EvSettled rid \<in> set xs \<and> (\<exists>t wt inp tr. paid_for E jobID info t wt inp tr)
    \<and> (\<forall>t wt inp tr. let c = requester_commit wt inp; c' = provider_commit (ru_Req ru) (ru_Input ru) in
        paid_for E jobID info t wt inp tr
        \<and> no_collision (terms_stream tr c) (terms_stream (runner_terms ru) c') \<and> no_collision (Input c) (Input c')
        \<and> no_collision (params_bytes c) (params_bytes c') \<and> commit_bounded c \<and> commit_bounded c' \<longrightarrow>
        ct_InputBytes task = in_DecodedBytes inp \<and> ct_TaskKind task = qt_TaskKind wt \<and> params_bytes c' = qt_ParamsBytes wt
        \<and> env_JobID (qr_Envelope (ru_Req ru)) = jobID \<and> uint (qs_PriceMsat (ru_QuoteResp ru)) = pi_AmountMsat info)"
  using executed_is_paid [OF assms(1-3,7-9,12)] payment_paid_for [OF assms(4-6,10,11)] unfolding Let_def by auto

theorem paid_task_is_executed_witness:
  "\<exists>h s paid sp xs rid task ln info t wt inp tr. requester_reachable (sample_service h) s
     \<and> SvPay ''q'' 7 ''lnbc1'' paid \<in> set (sr_trace s)
     \<and> provider_reachable sample_env sp \<and> pv_trace sp = xs @ EvExecute rid task # [] \<and> EvSettled rid \<in> set xs
     \<and> DecodePaymentRequest ln ''lnbc1'' = Inr info \<and> paid_for (sample_service h) 7 info t wt inp tr"
proof -
  obtain h s paid sp xs rid task ru ln info where s: "requester_reachable (sample_service h) s"
    "SvPay ''q'' 7 ''lnbc1'' paid \<in> set (sr_trace s)" "provider_reachable sample_env sp" "pv_trace sp = xs @ EvExecute rid task # []"
    "map_of (pv_runners sp) rid = Some ru" "sv_lightning (sample_service h) = Some ln" "DecodePaymentRequest ln ''lnbc1'' = Inr info"
    "pi_DescriptionHash info = qs_TermsHash (ru_QuoteResp ru)"
    using sample_paid by blast
  have "tlv_library (sv_tlv (sample_service h))" "pe_tlv sample_env = sv_tlv (sample_service h)" "pe_validator sample_env = DefaultValidator"
    using bolt.tlv_library_axioms by (simp_all add: sample_service_def sample_env_def)
  note facts = paid_task_is_executed [OF this s(1,2) sample_int64 s(3-8)]
  then obtain t wt inp tr where "paid_for (sample_service h) 7 info t wt inp tr" by blast
  with facts s(1-4,7) show ?thesis by blast
qed

text \<open>
  C6. A request for a quote is answered: a valid task sent to a ready peer becomes messages
  that the provider, handling them in order before they expire, quotes with exactly the
  request body as input; the quote response, received by the waiter, ends the blocked call
  with terms of that price, payment request and expiry, whose hash commits to the task.
\<close>

theorem quote_handshake_completes:
  assumes "tlv_library L" and "sv_tlv E = L" and "pe_tlv P = L" and "service_up E"
    and "good_request E now rq p t mf x j s" and "task_view t = Some (kind, body, model)"
    and "length model \<le> 1000" and "peer_takes mf body" and "length body \<le> 4194304"
    and "provider_ready P \<lparr>jk_PeerPubKey = f, jk_JobID = j\<rparr> (\<lambda>mid. task_request j mid x kind model) body x tp n price bolt11 sp"
  shows "\<exists>ch s1 mid c out tm. RequestQuote E now nowLocked (Some rq) s = (Blocked ch, s1)
    \<and> (let sp1 = handle_all P (map (Pair tp) (service_messages f (drop (length (sr_trace s)) (sr_trace s1)))) sp;
           w = fold (waiter_HandleInboundCustomMessage L) (sent_messages p (drop (length (pv_trace sp)) (pv_trace sp1))) (sr_waiter s1)
       in quoted P \<lparr>jk_PeerPubKey = f, jk_JobID = j\<rparr> (task_request j mid x kind model) body (pb_PriceMsat price)
            (n + quoteTTLSeconds (pe_cfg P)) sp sp1
        \<and> map_of (sr_quoteCalls s1) ch = Some c \<and> (ch, out) \<in> set (wt_quoteInbox w)
        \<and> fst (RequestQuote_received E now2 nowLocked2 ch c out (s1\<lparr>sr_waiter := w\<rparr>)) = Inr tm)
    \<and> pt_PriceMsat tm = pb_PriceMsat price \<and> pt_PaymentRequest tm = bolt11
    \<and> pt_QuoteExpiry tm = Some (time_of_unix (uint (n + quoteTTLSeconds (pe_cfg P))))
    \<and> ComputeTermsHash L \<lparr>ProtocolVersion = ProtocolVersionV02, JobID = j, PriceMsat = pb_PriceMsat price, QuoteExpiry = n + quoteTTLSeconds (pe_cfg P)\<rparr>
        (task_commit kind body model) = Inr (bytes_hash (pt_TermsHash tm))"
  using handshake [OF assms, of nowLocked now2 nowLocked2] unfolding Let_def by fastforce

theorem quote_handshake_completes_witness:
  "\<exists>ch s1. RequestQuote (sample_service 0) (time_of_unix 100) 0 (Some sample_rq) sample_requester = (Blocked ch, s1)
     \<and> pv_trace (handle_all sample_env (map (Pair (time_of_unix 100))
          (service_messages ''p'' (drop (length (sr_trace sample_requester)) (sr_trace s1)))) sample_start) \<noteq> pv_trace sample_start"
proof -
  have lib: "sv_tlv (sample_service 0) = bolt_lib" "pe_tlv sample_env = bolt_lib" by (simp_all add: sample_service_def sample_env_def)
  from quote_handshake_completes [OF bolt.tlv_library_axioms lib sample_up sample_good sample_task_view _ sample_peer_takes _
      sample_provider_ready [unfolded sample_key_def], of 0] show ?thesis
    unfolding Let_def quoted_def by fastforce
qed

text \<open>
  C7. The output of the backend is what the client gets: what \<^verbatim>\<open>sendResult\<close> sends, handled by
  the waiter of a requester with a blocked \<^verbatim>\<open>AcceptAndExecute\<close>, ends that call with status ok,
  exactly the bytes of the output, their length and their hash, and the job is done.
\<close>

theorem executed_output_is_returned:
  assumes "tlv_library (pe_tlv P)" and "outside_ok P" and "env_ProtocolVersion env \<noteq> 0"
    and "resolveRemoteManifestAndMaxPayload p m0 sp = Some (mf, m)" and "400 \<le> unat m" and "unat m \<le> 65535"
    and "\<not> mf_MaxStreamBytes mf < word_of_nat (length out)" and "\<not> mf_MaxJobBytes mf < inputLen + word_of_nat (length out)"
    and "waiter_runs (pe_tlv P) (waiter_New lm) (sr_waiter s)" and "unat (wt_maxStreamBytes (waiter_New lm)) \<le> 9223372036854775808"
    and "idle (sr_waiter s) k c" and "k = \<lparr>wk_peerID = q, wk_jobID = env_JobID env\<rparr>" and "within (sr_waiter s) (length out)"
    and "job_state_of s k \<noteq> None"
  shows "\<exists>sp' evs o1. sendResult P now p env tk streaming inputLen out m0 sp = (True, sp') \<and> pv_trace sp' = pv_trace sp @ evs
    \<and> (let s1 = s\<lparr>sr_waiter := fold (waiter_HandleInboundCustomMessage (pe_tlv P)) (sent_messages q evs) (sr_waiter s)\<rparr>
       in (c, o1) \<in> set (wt_resultInbox (sr_waiter s1)) \<and> (\<exists>r s2. AcceptAndExecute_received now2 c k o1 s1 = (Inr r, s2)
            \<and> pr_Status r = STATUS_OK \<and> pr_Result r = out \<and> pr_ResultHash r = hash_bytes (sha256 out)
            \<and> pr_ResultLen r = word_of_nat (length out) \<and> job_state_of s2 k = Some RStateDone))"
proof -
  obtain sp' where sp': "sendResult P now p env tk streaming inputLen out m0 sp = (True, sp')"
    using tlv_library.sendResult_ok [OF assms(1) refl assms(2-5,7,8)] by (metis (full_types) prod.collapse)
  obtain evs where evs: "pv_trace sp' = pv_trace sp @ evs" "result_events (pe_tlv P) p env (unat m) out evs"
    using sendResult_events [OF sp' assms(4,7,8)] by blast
  let ?w = "fold (waiter_HandleInboundCustomMessage (pe_tlv P)) (sent_messages q evs) (sr_waiter s)"
  obtain res where res: "rs_Status res = ResultStatusOK" "(c, \<lparr>ro_Result = Some res, ro_ResultBytes = out, ro_Error = None\<rparr>) \<in> set (wt_resultInbox ?w)"
    using result_events_deliver [OF assms(1) evs(2) assms(6)] assms(11-13) by blast
  have "waiter_runs L w (fold (waiter_HandleInboundCustomMessage L) msgs w)" for L msgs w
    by (induction msgs arbitrary: w) (auto intro: waiter_runs_trans waiter_runs_ops(1))
  then have "waiter_runs (pe_tlv P) (waiter_New lm) ?w" using assms(9) by (blast intro: waiter_runs_trans)
  then have "data_inv ?w" using data_inv_fold [OF assms(1) waiter_New_ok(2) assms(10)] by (auto simp: waiter_runs_def)
  then obtain ok where ok: "rs_OK res = Some ok" "ok_ResultHash ok = sha256 out" "ok_ResultLen ok = word_of_nat (length out)"
    using res by (fastforce simp: data_inv_def outcome_ok_def)
  let ?o = "\<lparr>ro_Result = Some res, ro_ResultBytes = out, ro_Error = None\<rparr>" and ?s1 = "s\<lparr>sr_waiter := ?w\<rparr>"
  obtain r s2 where run: "AcceptAndExecute_received now2 c k ?o ?s1 = (r, s2)" by fastforce
  have r: "r = Inr \<lparr>pr_Status = STATUS_OK, pr_Result = out, pr_ResultHash = hash_bytes (sha256 out), pr_ResultLen = word_of_nat (length out),
      pr_ContentType = ok_ResultContentType ok, pr_ContentEncoding = ok_ResultContentEncoding ok, pr_Message = []\<rparr>"
    using run res(1) ok
    by (simp add: AcceptAndExecute_received_def AcceptAndExecute_outcome_def Let_def protoResultFromTerminal_def)
  have "job_state_of s2 k = Some RStateDone"
    using outcome_marks [OF run [unfolded AcceptAndExecute_received_def]] assms(14) r by simp
  with sp' evs(1) res(2) run r show ?thesis unfolding Let_def
    by (intro exI [of _ sp'] exI [of _ evs] exI [of _ ?o]) simp
qed

definition sample_blocked :: requester where
  "sample_blocked = (requester_init (\<lambda>_. []) None)\<lparr>sr_waiter := sample_waiter, sr_resultCalls := [(0, \<lparr>wk_peerID = ''q'', wk_jobID = 7\<rparr>)],
     sr_jobs := \<lparr>rs_jobs = [(\<lparr>rjk_peerID = ''q'', rjk_jobID = 7\<rparr>,
       \<lparr>rj_peerID = ''q'', rj_jobID = 7, rj_task = sample_task,
        rj_terms = \<lparr>pt_ProtocolVersion = 2, pt_JobId = hash_bytes 7, pt_PriceMsat = 52, pt_QuoteExpiry = Some (time_of_unix 400),
                    pt_TermsHash = hash_bytes 0, pt_PaymentRequest = ''lnbc1''\<rparr>,
        rj_state = RStateAwaitingResult, rj_quoteExpiry = time_of_unix 400, rj_createdAt = 0, rj_updatedAt = 0\<rparr>)], rs_maxEntries = 10\<rparr>\<rparr>"

theorem executed_output_is_returned_witness:
  "\<exists>sp' evs o1 r s2. sendResult sample_env 0 ''p'' sample_envelope ''k'' False 2 [1, 2, 3] 0 sample_start = (True, sp')
     \<and> pv_trace sp' = pv_trace sample_start @ evs
     \<and> AcceptAndExecute_received 0 0 \<lparr>wk_peerID = ''q'', wk_jobID = 7\<rparr> o1 (sample_blocked\<lparr>sr_waiter :=
          fold (waiter_HandleInboundCustomMessage bolt_lib) (sent_messages ''q'' evs) sample_waiter\<rparr>) = (Inr r, s2)
     \<and> pr_Result r = [1, 2, 3]"
proof -
  have w: "sr_waiter sample_blocked = sample_waiter" by (simp add: sample_blocked_def)
  have runs: "waiter_runs (pe_tlv sample_env) (waiter_New None) (sr_waiter sample_blocked)"
    unfolding w using waiter_runs_one [of "pe_tlv sample_env" "waiter_New None" "WWaitResult ''q'' 7"] by simp
  have "\<exists>sp' evs o1. sendResult sample_env 0 ''p'' sample_envelope ''k'' False 2 [1, 2, 3] 0 sample_start = (True, sp')
     \<and> pv_trace sp' = pv_trace sample_start @ evs
     \<and> (let s1 = sample_blocked\<lparr>sr_waiter := fold (waiter_HandleInboundCustomMessage (pe_tlv sample_env)) (sent_messages ''q'' evs) (sr_waiter sample_blocked)\<rparr>
       in (0, o1) \<in> set (wt_resultInbox (sr_waiter s1)) \<and> (\<exists>r s2. AcceptAndExecute_received 0 0 \<lparr>wk_peerID = ''q'', wk_jobID = 7\<rparr> o1 s1 = (Inr r, s2)
            \<and> pr_Status r = STATUS_OK \<and> pr_Result r = [1, 2, 3] \<and> pr_ResultHash r = hash_bytes (sha256 [1, 2, 3])
            \<and> pr_ResultLen r = word_of_nat (length [1, 2, 3 :: byte]) \<and> job_state_of s2 \<lparr>wk_peerID = ''q'', wk_jobID = 7\<rparr> = Some RStateDone))"
  proof (rule executed_output_is_returned [OF sample_services(1,3) _ sample_limits _ _ _ _ runs])
    show "idle (sr_waiter sample_blocked) \<lparr>wk_peerID = ''q'', wk_jobID = 7\<rparr> 0"
      using sample_waiter_ready(1) unfolding w by (simp add: sample_envelope_def)
    show "within (sr_waiter sample_blocked) (length [1, 2, 3 :: byte])" using sample_waiter_ready(2) unfolding w by simp
    show "job_state_of sample_blocked \<lparr>wk_peerID = ''q'', wk_jobID = 7\<rparr> \<noteq> None"
      by (simp add: job_state_of_def sample_blocked_def)
  qed (simp_all add: sample_envelope_def sample_manifest_def waiter_New_def)
  moreover have "pe_tlv sample_env = bolt_lib" by (simp add: sample_env_def)
  ultimately show ?thesis unfolding Let_def w by metis
qed

text \<open>
  C40. The stored state tells how a call ended: once an execution call has verified the
  stored terms, the job is failed when the call returns an error, done when it returns a
  result, and awaits its result while the call is blocked; a blocked call that receives
  its outcome ends in the same way.
\<close>

theorem execution_state_recorded:
  assumes "acceptVerified E now AcceptAndExecuteRequest req s = (Inr (p, j, tm, ln), s1)"
    and "AcceptAndExecute E now req s = (o1, s')"
  shows "job_state_of s' \<lparr>wk_peerID = p, wk_jobID = j\<rparr> = Some (case o1 of Blocked ch \<Rightarrow> RStateAwaitingResult
      | Returned r \<Rightarrow> (case r of Inl st \<Rightarrow> RStateFailed | Inr res \<Rightarrow> RStateDone))
    \<and> (\<forall>ch now2 out r s2. AcceptAndExecute_received now2 ch \<lparr>wk_peerID = p, wk_jobID = j\<rparr> out s' = (r, s2) \<longrightarrow>
         job_state_of s2 \<lparr>wk_peerID = p, wk_jobID = j\<rparr> = Some (case r of Inl st \<Rightarrow> RStateFailed | Inr res \<Rightarrow> RStateDone))"
proof -
  note m = execute_marks [OF assms]
  have "job_state_of s2 \<lparr>wk_peerID = p, wk_jobID = j\<rparr> = Some (case r of Inl st \<Rightarrow> RStateFailed | Inr res \<Rightarrow> RStateDone)"
    if "AcceptAndExecute_received now2 ch \<lparr>wk_peerID = p, wk_jobID = j\<rparr> out s' = (r, s2)" for ch now2 out r s2
    using outcome_marks [OF that [unfolded AcceptAndExecute_received_def]] m by simp
  with m show ?thesis by blast
qed

theorem execution_state_recorded_witness:
  "\<exists>h s o1 s'. requester_reachable (sample_service h) s
     \<and> AcceptAndExecute (sample_service h) (time_of_unix 100) (Some sample_accept) s = (o1, s')
     \<and> job_state_of s' \<lparr>wk_peerID = ''q'', wk_jobID = 7\<rparr> \<noteq> Some RStatePaying"
proof -
  obtain h s tm ln s1 where s: "requester_reachable (sample_service h) s"
    "acceptVerified (sample_service h) (time_of_unix 100) AcceptAndExecuteRequest (Some sample_accept) s = (Inr (''q'', 7, tm, ln), s1)"
    using sample_accepted by blast
  obtain o1 s' where o: "AcceptAndExecute (sample_service h) (time_of_unix 100) (Some sample_accept) s = (o1, s')" by fastforce
  from execution_state_recorded [OF s(2) o] have "job_state_of s' \<lparr>wk_peerID = ''q'', wk_jobID = 7\<rparr> \<noteq> Some RStatePaying"
    by (auto split: rpc_outcome.splits sum.splits)
  with s(1) o show ?thesis by blast
qed

text \<open>
  C38. Stored terms are well typed: in every reachable state, terms that the store hands out
  have a 32-byte job id that is the id they are stored under, a 32-byte terms hash, a quote
  expiry that is an unsigned 64-bit number of seconds, and a 16-bit protocol version; so the
  verification of an invoice never ends in an internal error.
\<close>

theorem stored_terms_well_typed:
  assumes "requester_reachable E s" and "fst (GetTerms now p j (sr_jobs s)) = Inr tm"
  shows "toJobID (pt_JobId tm) = Inr j \<and> toHash32 (pt_TermsHash tm) = Inr (bytes_hash (pt_TermsHash tm))
    \<and> (\<exists>x :: u64. pt_QuoteExpiry tm = Some (time_of_unix (uint x))) \<and> unat (pt_ProtocolVersion tm) < 65536
    \<and> (\<forall>os ctx ln st. verifyInvoiceBinding os ctx ln p tm = Some st \<longrightarrow> gs_Code st \<noteq> CodeInternal)"
proof -
  obtain e where e: "map_of (rs_jobs (sr_jobs s)) \<lparr>rjk_peerID = p, rjk_jobID = j\<rparr> = Some e" "rj_terms e = tm"
    using GetTerms_Inr [OF assms(2)] by blast
  have "terms_bind E j (rj_task e) tm"
    using store_ok_lookup [OF _ e(1), of "\<lambda>k. terms_bind E (rjk_jobID k)"] requester_reachable_safe [OF assms(1)] e(2)
    by (simp add: requester_safe_def)
  then obtain v :: u16 and x :: u64 where t: "pt_JobId tm = hash_bytes j" "pt_ProtocolVersion tm = ucast v" "pt_QuoteExpiry tm = Some (time_of_unix (uint x))"
    "length (pt_TermsHash tm) = 32" unfolding terms_bind_def by blast
  have v: "unat (ucast v :: u32) < 65536"
    using unsigned_less [of v, where ?'a = nat] by (simp add: unsigned_ucast_eq le_less_trans [OF take_bit_nat_less_eq_self])
  have "gs_Code (grpcStatusFromLightningError ctx err) \<noteq> CodeInternal" for ctx err
    by (simp add: grpcStatusFromLightningError_def status_Error_def split: ctx_state.split)
  then have "verifyInvoiceBinding os ctx ln p tm = Some st \<Longrightarrow> gs_Code st \<noteq> CodeInternal" for os ctx ln st
    using t by (auto simp: verifyInvoiceBinding_def toHash32_def precondition_def status_Error_def Let_def split: sum.splits if_splits)
  with t v show ?thesis by (auto simp: toJobID_def toHash32_def)
qed

theorem stored_terms_well_typed_witness:
  "\<exists>h s tm. requester_reachable (sample_service h) s \<and> fst (GetTerms (time_of_unix 100) ''q'' 7 (sr_jobs s)) = Inr tm
     \<and> toJobID (pt_JobId tm) = Inr 7"
proof -
  obtain h s tm where s: "requester_reachable (sample_service h) s" "fst (GetTerms (time_of_unix 100) ''q'' 7 (sr_jobs s)) = Inr tm"
    using sample_handshake by blast
  from stored_terms_well_typed [OF s] s show ?thesis by blast
qed

text \<open>
  C39. Sending the input ends: whatever the messenger does, the input stream of a request
  takes at most two messages more than the input has bytes, because every chunk that the
  halving loop finds holds at least one byte, and it is sent completely when the peer allows
  payloads of at least 400 bytes and no send fails.
\<close>

theorem input_stream_terminates:
  assumes "sendInputStream E p j x inp mf s = (r, s')"
  shows "length (sr_trace s') \<le> length (sr_trace s) + length (in_DecodedBytes inp) + 2
    \<and> (tlv_library (sv_tlv E) \<and> service_up E \<and> 400 \<le> unat (mf_MaxPayloadBytes mf) \<and> inp = jsonInputStream body \<longrightarrow> r = None)"
proof -
  have "r = None" if "tlv_library (sv_tlv E)" "service_up E" "400 \<le> unat (mf_MaxPayloadBytes mf)" "inp = jsonInputStream body"
    using tlv_library.input_sent [OF that(1) refl that(2) refl that(3,4), of p j x s] assms by auto
  with sendInputStream_count [OF assms] show ?thesis by blast
qed

theorem input_stream_terminates_witness:
  "fst (sendInputStream (sample_service 0) ''q'' 7 400 (jsonInputStream [123, 125]) sample_peer sample_requester) = None
   \<and> length (sr_trace (snd (sendInputStream (sample_service 0) ''q'' 7 400 (jsonInputStream [123, 125]) sample_peer sample_requester))) \<le> 4"
proof -
  obtain r s' where run: "sendInputStream (sample_service 0) ''q'' 7 400 (jsonInputStream [123, 125]) sample_peer sample_requester = (r, s')" by fastforce
  have "tlv_library (sv_tlv (sample_service 0))" using bolt.tlv_library_axioms by (simp add: sample_service_def)
  moreover have "400 \<le> unat (mf_MaxPayloadBytes sample_peer)" by (simp add: sample_peer_def)
  ultimately show ?thesis
    using input_stream_terminates [OF run, of "[123, 125]"] sample_up [of 0] run
    by (simp add: jsonInputStream_def sample_requester_def requester_init_def)
qed

end
