(* ===== verification/Spec2Isabelle.thy ===== *)
theory Spec2Isabelle
  imports Wire_Roundtrip Replay_Store Job_Store Requester_Job_Store Peer_Directory Router Provider_Validation
    Provider_Progress Requester_Wait Result_Exchange Tasks Lightning Peer_Messaging Oneshot_Chat End_To_End
begin

text \<open>
  A verification library for the Lightning Compute Protocol (LCP): the daemon
  \<^verbatim>\<open>go-lcpd\<close>, which sells (provider) and buys (requester) compute jobs over Lightning peer
  messages, and the HTTP gateway \<^verbatim>\<open>apps/openai-serve\<close> in front of a requester. Paths below
  are relative to \<^verbatim>\<open>src/go-lcpd/internal\<close> unless they start with \<^verbatim>\<open>apps\<close> or \<^verbatim>\<open>tools\<close>.

  \<^bold>\<open>The program.\<close> Two nodes exchange manifests, which state their limits. A client asks the
  requester's daemon for a quote: the daemon sends the task and its input as a stream of
  messages; the provider validates the request, prices it, commits to all of it in a terms
  hash, puts that hash into a Lightning invoice and returns a quote. The requester recomputes
  the hash, checks the invoice against it, pays and waits. The provider waits for the
  settlement, executes the task on its backend and streams the result back; the requester
  checks length and hash and hands the bytes to the client.

  \<^bold>\<open>Theories, and the code they model.\<close>

  \<^item> \<open>Prelude\<close>: machine types, Go errors as values of a sum type (\<open>res\<close>), big-endian bytes,
    decimal text, Go maps as association lists with the scans the stores make.
    \<open>Go_Std\<close>: what the code uses of Go's library (SHA-256, UTF-8, hexadecimal text, trimming,
    quoting, time as nanoseconds).
  \<^item> \<open>Tlv_Library\<close>: the interface of the third-party TLV package as the locale \<open>tlv_library\<close>,
    interpreted (\<open>bolt\<close>) on an executable implementation of its documented format.
  \<^item> \<open>Terms_Encoding\<close>, \<open>Terms\<close>: \<^verbatim>\<open>protocolcompat/terms.go\<close>. The terms hash; it binds every
    field of a quote unless SHA-256 collides.
  \<^item> \<open>Wire_Types\<close>, \<open>Wire\<close>, \<open>Wire_Roundtrip\<close>, \<open>Wire_Sizes\<close>: \<^verbatim>\<open>lcpwire/*.go\<close>. One encoder and
    one decoder per message; round trips, canonical lists, sizes of encoded chunks.
  \<^item> \<open>Chunking\<close>: the search for a chunk that fits a payload limit, and the locale \<open>chunk_sender\<close>,
    the interface of the loops that send bytes chunk by chunk, interpreted on the loop for the
    input of a request and on the one for the result of a job.
  \<^item> \<open>Store_Interface\<close>: locales for a bounded store; interpreted in \<open>Replay_Store\<close>
    (\<^verbatim>\<open>replaystore/store.go\<close>), \<open>Job_Store\<close> (\<^verbatim>\<open>jobstore/store.go\<close>) and \<open>Requester_Job_Store\<close>
    (\<^verbatim>\<open>requesterjobstore/store.go\<close>): expiry, capacity, eviction order and lookup laws.
  \<^item> \<open>Envconfig\<close> (\<^verbatim>\<open>envconfig/envconfig.go\<close>), \<open>Peer_Directory\<close>
    (\<^verbatim>\<open>peerdirectory/directory.go\<close>), \<open>Router\<close> (\<^verbatim>\<open>lcpmsgrouter/router.go\<close>,
    \<^verbatim>\<open>inbounddispatch/handler.go\<close>).
  \<^item> \<open>Compute_Backend\<close> (\<^verbatim>\<open>computebackend\<close>), \<open>Pricing\<close> (\<^verbatim>\<open>llm\<close>,
    \<^verbatim>\<open>provider/dynamic_pricing.go\<close>): the passthrough backend, exact prices, surge multipliers.
  \<^item> \<open>Provider_Validation\<close> (\<^verbatim>\<open>provider/validation.go\<close>, planning and pricing of
    \<^verbatim>\<open>provider/handler.go\<close>), \<open>Provider\<close> (the message handlers of \<^verbatim>\<open>handler.go\<close>),
    \<open>Provider_Runner\<close> (job runner, result and streaming result). \<open>Provider_Inv\<close>,
    \<open>Provider_Safety\<close>, \<open>Provider_Progress\<close>: the step relation of a provider over all
    interleavings of messages and runners, its invariant, and what reachable traces contain.
  \<^item> \<open>Requester_Wait\<close> (\<^verbatim>\<open>requesterwait/waiter.go\<close>): channels, stream assembly, delivery.
    \<open>Result_Exchange\<close> composes the provider's senders with the waiter.
  \<^item> \<open>Tasks\<close> (\<^verbatim>\<open>lcptasks/lcptasks.go\<close>), \<open>Lightning\<close> (\<^verbatim>\<open>lightningrpc/lightningrpc.go\<close>,
    \<^verbatim>\<open>provider/lnd_adapter.go\<close>), \<open>Grpc_Service\<close> (\<^verbatim>\<open>grpcservice/lcpd/service.go\<close>): the API of
    the daemon. \<open>Requester_Safety\<close>: the step relation of a requester and its invariant.
    \<open>Quote_Exchange\<close> and \<open>End_To_End\<close> compose requester and provider.
  \<^item> \<open>Peer_Messaging\<close> (\<^verbatim>\<open>lndpeermsg/peermsg.go\<close>, \<^verbatim>\<open>config.go\<close>): peer events, manifests,
    dispatch and subscription loops. \<open>Provider_Config\<close> (\<^verbatim>\<open>tools/lcpd-grpcd/main.go\<close>): the
    daemon's configuration and the advertised manifest.
  \<^item> \<open>Gateway_Config\<close>, \<open>Gateway\<close> (\<^verbatim>\<open>apps/openai-serve/internal/config\<close> and \<^verbatim>\<open>httpapi\<close>).
  \<^item> \<open>Json_Text\<close>: the JSON text of strings, with a reader. \<open>Oneshot\<close>, \<open>Oneshot_Chat\<close>
    (\<^verbatim>\<open>tools/lcpd-oneshot\<close>): the command line client, its chat sessions, and its terminal
    interface over every schedule of keys and turns.

  \<^bold>\<open>How state and operations correspond.\<close> A Go struct is a record with the source's field
  names behind a short prefix, an enumeration or a protobuf \<^verbatim>\<open>oneof\<close> is a datatype, a
  function or method keeps its name (with the name of its component before it where two
  components share a name). A method that changes its receiver takes the state last and
  returns the new one; an error is \<open>Inl\<close> in a sum, or \<open>Some\<close> where the function returns only
  an error. Integers keep their width (\<open>u16\<close>, \<open>u32\<close>, \<open>u64\<close>, a 32-byte array is \<open>hash32\<close>);
  Go's \<^verbatim>\<open>int64\<close> is \<open>int\<close> with the overflow written out where the code can reach it. Each
  operation of a store holds the lock of the store, so it is one step. A message handler holds
  no lock across the operations it calls; it is one step here because the subscription loop
  hands over one message at a time. A job runner is cut where it blocks and is one step between
  two such points, so the model has no step of a runner in the middle of a handler, nor the other way round.
  Goroutines and blocked calls are explicit: the provider keeps its running jobs, the requester
  its blocked calls, and the step relations interleave them with messages, cancellations and
  time in every order.
  Everything outside (peers, the Lightning node, random ids, clocks, contexts, JSON and
  YAML parsers) is a field of an environment record, asked at the position of the trace of
  outside calls, so it may answer differently each time.

  \<^bold>\<open>What the theorems show.\<close> The protocol's promises first: the provider executes only
  settled quotes, the requester pays only invoices bound to its own validated task, what is
  executed is what was paid, and what comes back is what the backend produced; results are
  delivered only after length and hash were checked; a message is not accepted twice in the
  replay window; the handshake and the exchange of manifests complete. Then each component:
  invariants of the stores, the provider and the directory; round trips and canonical forms
  of the wire; exact prices and bounds; honest manifests; the gateway's spending rules and
  the faithful relay of output; termination and size of the input stream; well-typed terms;
  the account that the command line client keeps; and a behaviour of the job store that
  the code should not have.

  \<^bold>\<open>Bounds.\<close> The loops of the code are structural recursions here, or have a measure; no
  definition uses fuel. Round trips assume records of at most 65535 bytes, the limit of a
  Lightning message (\<open>MaxRecordSize\<close>), and manifests of at most 1024 tasks, the decoder's
  limit. Delivery theorems assume a payload limit between 400 and 65535 bytes: the envelope
  and headers of a chunk need fewer than 400 bytes, so every chunk makes progress.
  Collision-freeness of SHA-256 is assumed only for the concrete byte strings of a theorem
  and never in general. Text functions such as case folding are modelled for ASCII.

  \<^bold>\<open>Not modelled.\<close> The gRPC and HTTP servers themselves, dependency wiring, dialling and
  signals (\<^verbatim>\<open>grpcserver\<close>, \<^verbatim>\<open>lndpeermsg/dial.go\<close>, the rest of \<^verbatim>\<open>main.go\<close>): calls of libraries
  without logic of their own. Logging and its summaries: no effect on state. Generated
  protocol buffers: taken as records. \<^verbatim>\<open>tools/lcpdctl\<close>: a generated command tree. The layout
  of the screen and the parsing of flags in \<^verbatim>\<open>tools/lcpd-oneshot\<close>: left to their libraries.
  The integration test harness: not part of the running system. Wall-clock progress (time-outs that fire on
  time) is represented by the contexts of the environment and not as real time.
\<close>

end
